(* ===== verification/Prelude.thy ===== *)
theory Prelude
  imports Main "HOL-Library.Sublist" "HOL-Library.Char_ord" "HOL-Library.List_Lexorder"
begin

text \<open>
  The shared prelude of the development: the types that stand for Go's, Go's 64-bit
  signed arithmetic written out over \<^typ>\<open>int\<close>, the collections of rewrite rules that the
  component theories extend, and the generic list lemmas several components use.

  A Go \<open>string\<close> and a \<open>[]byte\<close> are both byte sequences and both are the type \<^typ>\<open>string\<close>
  of HOL, whose characters are bytes. A Go \<open>int\<close> is 64 bits on every platform the program
  is built for, so \<open>int\<close> and \<open>int64\<close> are both \<^typ>\<open>int\<close>, with \<open>wrap64\<close> applied where an
  operation of the source can leave the range. A nil slice and an empty slice are the
  same list: no modelled operation tells them apart.
\<close>

section \<open>Collections of rewrite rules\<close>

named_theorems go_consts \<open>the constants of the Go packages, unfolded to literals\<close>

named_theorems sanitize_defs \<open>the payload validators, unfolded to their guards\<close>

named_theorems go_eval \<open>string functions on ASCII text, in a form the simplifier evaluates\<close>

section \<open>Bytes and 64-bit integers\<close>

abbreviation byte :: "char \<Rightarrow> nat" where
  "byte c \<equiv> of_char c"

definition wrap64 :: "int \<Rightarrow> int" where
  "wrap64 x = (x + 2 ^ 63) mod 2 ^ 64 - 2 ^ 63"

definition int64 :: "int \<Rightarrow> bool" where
  "int64 x \<longleftrightarrow> - (2 ^ 63) \<le> x \<and> x < 2 ^ 63"

text \<open>Go's integer division truncates towards zero; every divisor of the model is positive.\<close>

definition go_div :: "int \<Rightarrow> int \<Rightarrow> int" where
  "go_div a b = (if 0 \<le> a then a div b else - ((- a) div b))"

lemma wrap64_id [simp]: "int64 x \<Longrightarrow> wrap64 x = x"
  unfolding wrap64_def int64_def by simp

lemma int64_wrap64 [simp]: "int64 (wrap64 x)"
  unfolding wrap64_def int64_def by simp

lemma int64I: "- (2 ^ 63) \<le> x \<Longrightarrow> x < 2 ^ 63 \<Longrightarrow> int64 x"
  by (simp add: int64_def)

lemma wrap64_succ_max: "wrap64 (2 ^ 63 - 1 + 1) = - (2 ^ 63)"
  by (simp add: wrap64_def)

lemma go_div_nonneg [simp]: "0 \<le> a \<Longrightarrow> go_div a b = a div b"
  by (simp add: go_div_def)

section \<open>Lists\<close>

lemma set_takeD: "x \<in> set (take n xs) \<Longrightarrow> x \<in> set xs"
  by (rule in_set_takeD)

lemma distinct_hd_tl: "distinct xs \<Longrightarrow> xs \<noteq> [] \<Longrightarrow> set (tl xs) = set xs - {hd xs}"
  by (cases xs) auto

lemma ceil_div_bounds:
  fixes n s :: int
  assumes "0 < s" and "0 < n"
  shows "(n + s - 1) div s * s < n + s" and "n \<le> (n + s - 1) div s * s"
proof -
  have pos: "0 \<le> (n + s - 1) mod s" using assms by simp
  have eq: "(n + s - 1) div s * s + (n + s - 1) mod s = n + s - 1" by simp
  from pos eq have "(n + s - 1) div s * s \<le> n + s - 1" by linarith
  then show "(n + s - 1) div s * s < n + s" by simp
  have "(n + s - 1) mod s < s" using assms by simp
  with eq show "n \<le> (n + s - 1) div s * s" by linarith
qed

end
