(* ===== verification/Go_Strings.thy ===== *)
theory Go_Strings
  imports Go_Unicode
begin

text \<open>
  What the program uses of Go's \<open>strings\<close>, \<open>unicode/utf8\<close> and \<open>strconv\<close> packages, over
  byte strings: UTF-8 decoding with Go's treatment of malformed input (each bad byte is
  the rune U+FFFD of width one), the conversions \<open>[]rune(s)\<close> and \<open>string(runes)\<close>,
  \<open>TrimSpace\<close>, \<open>ToLower\<close>, splitting and joining, and decimal integers.
\<close>

section \<open>UTF-8\<close>

abbreviation rune_error :: nat where
  "rune_error \<equiv> 0xFFFD"

definition cont_byte :: "nat \<Rightarrow> bool" where
  "cont_byte b \<longleftrightarrow> 128 \<le> b \<and> b < 192"

definition second_ok :: "nat \<Rightarrow> nat \<Rightarrow> bool" where
  "second_ok b0 b1 \<longleftrightarrow> cont_byte b1 \<and>
     (b0 = 0xE0 \<longrightarrow> 0xA0 \<le> b1) \<and> (b0 = 0xED \<longrightarrow> b1 \<le> 0x9F) \<and>
     (b0 = 0xF0 \<longrightarrow> 0x90 \<le> b1) \<and> (b0 = 0xF4 \<longrightarrow> b1 \<le> 0x8F)"

text \<open>\<open>utf8.DecodeRuneInString\<close>: the first rune and its width in bytes.\<close>

fun decode_rune :: "string \<Rightarrow> nat \<times> nat" where
  "decode_rune [] = (rune_error, 0)"
| "decode_rune (c0 # cs) =
     (let b0 = byte c0 in
      if b0 < 128 then (b0, 1)
      else if 0xC2 \<le> b0 \<and> b0 \<le> 0xDF then
        (case cs of
           c1 # _ \<Rightarrow> if cont_byte (byte c1)
                     then ((b0 - 0xC0) * 64 + (byte c1 - 128), 2) else (rune_error, 1)
         | _ \<Rightarrow> (rune_error, 1))
      else if 0xE0 \<le> b0 \<and> b0 \<le> 0xEF then
        (case cs of
           c1 # c2 # _ \<Rightarrow> if second_ok b0 (byte c1) \<and> cont_byte (byte c2)
                          then ((b0 - 0xE0) * 4096 + (byte c1 - 128) * 64 + (byte c2 - 128), 3)
                          else (rune_error, 1)
         | _ \<Rightarrow> (rune_error, 1))
      else if 0xF0 \<le> b0 \<and> b0 \<le> 0xF4 then
        (case cs of
           c1 # c2 # c3 # _ \<Rightarrow>
             if second_ok b0 (byte c1) \<and> cont_byte (byte c2) \<and> cont_byte (byte c3)
             then ((b0 - 0xF0) * 262144 + (byte c1 - 128) * 4096 + (byte c2 - 128) * 64
                     + (byte c3 - 128), 4)
             else (rune_error, 1)
         | _ \<Rightarrow> (rune_error, 1))
      else (rune_error, 1))"

lemma decode_rune_width: "s \<noteq> [] \<Longrightarrow> 0 < snd (decode_rune s)"
  by (cases s) (auto simp: Let_def split: list.splits)

lemma decode_rune_width_le: "snd (decode_rune s) \<le> length s"
  by (cases s) (auto simp: Let_def split: list.splits)

text \<open>The conversion \<open>[]rune(s)\<close>, which \<open>for _, r := range s\<close> also walks.\<close>

function runes :: "string \<Rightarrow> nat list" where
  "runes s = (if s = [] then []
              else fst (decode_rune s) # runes (drop (snd (decode_rune s)) s))"
  by pat_completeness auto
termination
  by (relation "measure length") (auto simp: decode_rune_width)

declare runes.simps [simp del]

text \<open>\<open>utf8.EncodeRune\<close>; a value that is no scalar is written as U+FFFD.\<close>

definition scalar :: "nat \<Rightarrow> bool" where
  "scalar r \<longleftrightarrow> r < 0xD800 \<or> (0xE000 \<le> r \<and> r < 0x110000)"

definition encode_rune :: "nat \<Rightarrow> string" where
  "encode_rune r =
     (if r < 128 then [char_of r]
      else if r < 2048 then [char_of (0xC0 + r div 64), char_of (128 + r mod 64)]
      else if \<not> scalar r then [char_of (0xEF::nat), char_of (0xBF::nat), char_of (0xBD::nat)]
      else if r < 65536 then
        [char_of (0xE0 + r div 4096), char_of (128 + r div 64 mod 64), char_of (128 + r mod 64)]
      else
        [char_of (0xF0 + r div 262144), char_of (128 + r div 4096 mod 64),
         char_of (128 + r div 64 mod 64), char_of (128 + r mod 64)])"

definition string_of_runes :: "nat list \<Rightarrow> string" where
  "string_of_runes rs = concat (map encode_rune rs)"

lemma runes_Nil [simp]: "runes [] = []"
  by (simp add: runes.simps)

lemma runes_ascii_Cons: "byte c < 128 \<Longrightarrow> runes (c # s) = byte c # runes s"
  by (subst runes.simps) (simp add: Let_def)

lemma runes_eq_Nil [simp]: "runes s = [] \<longleftrightarrow> s = []"
  by (subst runes.simps) simp

lemma scalar2: "b0 \<le> 0xDF \<Longrightarrow> cont_byte b1 \<Longrightarrow> scalar ((b0 - 0xC0) * 64 + (b1 - 128))"
proof -
  assume "b0 \<le> 0xDF" "cont_byte b1"
  then have "b0 - 0xC0 \<le> 31" "b1 - 128 \<le> 63" by (auto simp: cont_byte_def)
  then have "(b0 - 0xC0) * 64 + (b1 - 128) \<le> 31 * 64 + 63" by linarith
  then show ?thesis by (simp add: scalar_def)
qed

lemma scalar3:
  assumes "0xE0 \<le> b0" "b0 \<le> 0xEF" "second_ok b0 b1" "cont_byte b2"
  shows "scalar ((b0 - 0xE0) * 4096 + (b1 - 128) * 64 + (b2 - 128))"
proof -
  obtain x where x: "b0 = 0xE0 + x" using assms(1) by (auto simp: le_iff_add)
  obtain y where y: "b1 = 128 + y" "y < 64"
    using assms(3) by (auto simp: second_ok_def cont_byte_def le_iff_add)
  obtain z where z: "b2 = 128 + z" "z < 64"
    using assms(4) by (auto simp: cont_byte_def le_iff_add)
  have yD: "x = 13 \<Longrightarrow> y < 32" using assms(3) x y by (simp add: second_ok_def)
  have "x < 16" using assms(2) x by simp
  moreover have "x < 13 \<or> x = 13 \<or> 13 < x" by linarith
  ultimately show ?thesis
    using x y z yD by (auto simp: scalar_def)
qed

lemma scalar4:
  assumes "0xF0 \<le> b0" "b0 \<le> 0xF4" "second_ok b0 b1" "cont_byte b2" "cont_byte b3"
  shows "scalar ((b0 - 0xF0) * 262144 + (b1 - 128) * 4096 + (b2 - 128) * 64 + (b3 - 128))"
proof -
  obtain x where x: "b0 = 0xF0 + x" "x < 5" using assms(1,2) by (auto simp: le_iff_add)
  obtain y where y: "b1 = 128 + y" "y < 64"
    using assms(3) by (auto simp: second_ok_def cont_byte_def le_iff_add)
  obtain z where z: "b2 = 128 + z" "z < 64"
    using assms(4) by (auto simp: cont_byte_def le_iff_add)
  obtain w where w: "b3 = 128 + w" "w < 64"
    using assms(5) by (auto simp: cont_byte_def le_iff_add)
  have y0: "x = 0 \<Longrightarrow> 16 \<le> y" and y4: "x = 4 \<Longrightarrow> y < 16"
    using assms(3) x y by (simp_all add: second_ok_def)
  have "0x10000 \<le> x * 262144 + y * 4096 + z * 64 + w"
    using y0 by (cases "x = 0") auto
  moreover have "x * 262144 + y * 4096 + z * 64 + w < 0x110000"
    using x y z w y4 by (cases "x = 4") auto
  ultimately show ?thesis using x y z w by (simp add: scalar_def)
qed

lemma scalar_rune_error [simp]: "scalar rune_error"
  by (simp add: scalar_def)

lemma decode_rune_scalar: "scalar (fst (decode_rune s))"
proof (cases s)
  case (Cons c cs)
  have "byte c < 128 \<Longrightarrow> scalar (byte c)" by (simp add: scalar_def)
  then show ?thesis unfolding Cons
    by (simp add: Let_def scalar2 scalar3 scalar4 split: list.split)
qed simp

lemma runes_scalar: "r \<in> set (runes s) \<Longrightarrow> scalar r"
proof (induction s rule: runes.induct)
  case (1 s)
  then show ?case
    by (subst (asm) (2) runes.simps) (auto simp: decode_rune_scalar split: if_splits)
qed

lemma decode_encode2:
  assumes "128 \<le> r" "r < 2048"
  shows "decode_rune (char_of (0xC0 + r div 64) # char_of (128 + r mod 64) # s) = (r, 2)"
proof -
  have "2 \<le> r div 64" "r div 64 < 32" "r mod 64 < 64"
    using assms by (auto simp: less_mult_imp_div_less div_le_mono [of 128 r 64, simplified])
  then show ?thesis
    by (simp add: Let_def cont_byte_def)
qed

lemma decode_encode3:
  assumes "2048 \<le> r" "r < 65536" "scalar r"
  shows "decode_rune (char_of (0xE0 + r div 4096) # char_of (128 + r div 64 mod 64) #
           char_of (128 + r mod 64) # s) = (r, 3)"
proof -
  have b: "r div 4096 < 16" "r div 64 mod 64 < 64" "r mod 64 < 64"
    using assms by (auto simp: less_mult_imp_div_less)
  have q: "r div 4096 = r div 64 div 64" by (simp add: div_mult2_eq [symmetric])
  have e: "r div 4096 * 4096 + r div 64 mod 64 * 64 + r mod 64 = r"
    using div_mult_mod_eq [of r 64] div_mult_mod_eq [of "r div 64" 64] q by linarith
  have s0: "r div 4096 = 0 \<Longrightarrow> 32 \<le> r div 64 mod 64" using assms(1) e b by linarith
  have sD: "r div 4096 = 13 \<Longrightarrow> r div 64 mod 64 \<le> 31"
    using assms(3) e b unfolding scalar_def by linarith
  show ?thesis
    using b e s0 sD by (simp add: Let_def cont_byte_def second_ok_def)
qed

lemma decode_encode4:
  assumes "65536 \<le> r" "scalar r"
  shows "decode_rune (char_of (0xF0 + r div 262144) # char_of (128 + r div 4096 mod 64) #
           char_of (128 + r div 64 mod 64) # char_of (128 + r mod 64) # s) = (r, 4)"
proof -
  have b: "r div 262144 < 5" "r div 4096 mod 64 < 64" "r div 64 mod 64 < 64" "r mod 64 < 64"
    using assms by (auto simp: less_mult_imp_div_less scalar_def)
  have q: "r div 4096 = r div 64 div 64" "r div 262144 = r div 4096 div 64"
    by (simp_all add: div_mult2_eq [symmetric])
  have e: "r div 262144 * 262144 + r div 4096 mod 64 * 4096 + r div 64 mod 64 * 64 + r mod 64 = r"
    using div_mult_mod_eq [of r 64] div_mult_mod_eq [of "r div 64" 64]
      div_mult_mod_eq [of "r div 4096" 64] q by linarith
  have s0: "r div 262144 = 0 \<Longrightarrow> 16 \<le> r div 4096 mod 64" using assms(1) e b by linarith
  have s4: "r div 262144 = 4 \<Longrightarrow> r div 4096 mod 64 \<le> 15"
    using assms e b unfolding scalar_def by linarith
  show ?thesis
    using b e s0 s4 by (simp add: Let_def cont_byte_def second_ok_def)
qed

lemma decode_encode:
  assumes "scalar r"
  shows "decode_rune (encode_rune r @ s) = (r, length (encode_rune r))"
proof -
  consider "r < 128" | "128 \<le> r" "r < 2048" | "2048 \<le> r" "r < 65536" | "65536 \<le> r"
    by linarith
  then show ?thesis
  proof cases
    case 1
    then show ?thesis by (simp add: encode_rune_def Let_def)
  next
    case 2
    then show ?thesis using decode_encode2 [of r s] by (simp add: encode_rune_def)
  next
    case 3
    then show ?thesis using decode_encode3 [of r s] assms by (simp add: encode_rune_def)
  next
    case 4
    then show ?thesis using decode_encode4 [of r s] assms by (simp add: encode_rune_def)
  qed
qed

lemma encode_rune_nonempty [simp]: "encode_rune r \<noteq> []"
  by (simp add: encode_rune_def)

lemma runes_encode_append:
  assumes "scalar r"
  shows "runes (encode_rune r @ s) = r # runes s"
  by (subst runes.simps) (simp add: decode_encode [OF assms])

lemma runes_string_of_runes:
  "\<forall>r \<in> set rs. scalar r \<Longrightarrow> runes (string_of_runes rs) = rs"
  by (induction rs) (auto simp: string_of_runes_def runes_encode_append)

lemma length_runes_le: "length (runes s) \<le> length s"
proof (induction s rule: runes.induct)
  case (1 s)
  show ?case
  proof (cases "s = []")
    case False
    then have "length (runes (drop (snd (decode_rune s)) s)) \<le> length s - snd (decode_rune s)"
      using "1.IH" by simp
    moreover have "0 < snd (decode_rune s)" using False by (rule decode_rune_width)
    moreover have "snd (decode_rune s) \<le> length s" by (rule decode_rune_width_le)
    ultimately show ?thesis by (subst runes.simps) (simp add: False)
  qed simp
qed

section \<open>Trimming\<close>

text \<open>\<open>utf8.DecodeLastRuneInString\<close>: the bytes before the last are searched, three at
  most, for one that starts a rune, and the decoding from there must reach the end.\<close>

definition rune_start :: "nat \<Rightarrow> bool" where
  "rune_start b \<longleftrightarrow> \<not> cont_byte b"

definition decode_last_rune :: "string \<Rightarrow> nat \<times> nat" where
  "decode_last_rune s =
     (if s = [] then (rune_error, 0)
      else if byte (last s) < 128 then (byte (last s), 1)
      else (case find (\<lambda>k. k \<le> length s \<and> rune_start (byte (s ! (length s - k)))) [2, 3, 4] of
              None \<Rightarrow> (rune_error, 1)
            | Some k \<Rightarrow>
                (let rw = decode_rune (drop (length s - k) s)
                 in if snd rw = k then rw else (rune_error, 1))))"

lemma decode_last_rune_width: "s \<noteq> [] \<Longrightarrow> 0 < snd (decode_last_rune s)"
  by (auto simp: decode_last_rune_def Let_def find_Some_iff split: option.split)

function trim_left_space :: "string \<Rightarrow> string" where
  "trim_left_space s =
     (if s \<noteq> [] \<and> is_space (fst (decode_rune s))
      then trim_left_space (drop (snd (decode_rune s)) s) else s)"
  by pat_completeness auto
termination
  by (relation "measure length") (auto simp: decode_rune_width)

function trim_right_space :: "string \<Rightarrow> string" where
  "trim_right_space s =
     (if s \<noteq> [] \<and> is_space (fst (decode_last_rune s))
      then trim_right_space (take (length s - snd (decode_last_rune s)) s) else s)"
  by pat_completeness auto
termination
  by (relation "measure length") (auto simp: decode_last_rune_width)

declare trim_left_space.simps [simp del] trim_right_space.simps [simp del]

definition trim_space :: "string \<Rightarrow> string" where
  "trim_space s = trim_right_space (trim_left_space s)"

lemma trim_left_suffix: "suffix (trim_left_space s) s"
proof (induction s rule: trim_left_space.induct)
  case (1 s)
  show ?case
  proof (cases "s \<noteq> [] \<and> is_space (fst (decode_rune s))")
    case True
    then have "suffix (trim_left_space (drop (snd (decode_rune s)) s)) (drop (snd (decode_rune s)) s)"
      using "1.IH" by blast
    then have "suffix (trim_left_space (drop (snd (decode_rune s)) s)) s"
      using suffix_drop suffix_order.trans by blast
    with True show ?thesis by (simp add: trim_left_space.simps [of s])
  qed (auto simp: trim_left_space.simps [of s])
qed

lemma trim_right_prefix: "prefix (trim_right_space s) s"
proof (induction s rule: trim_right_space.induct)
  case (1 s)
  let ?t = "take (length s - snd (decode_last_rune s)) s"
  show ?case
  proof (cases "s \<noteq> [] \<and> is_space (fst (decode_last_rune s))")
    case True
    then have "prefix (trim_right_space ?t) ?t" using "1.IH" by blast
    then have "prefix (trim_right_space ?t) s"
      using take_is_prefix prefix_order.trans by blast
    with True show ?thesis by (simp add: trim_right_space.simps [of s])
  qed (auto simp: trim_right_space.simps [of s])
qed

lemma trim_left_done: "trim_left_space s \<noteq> [] \<Longrightarrow> \<not> is_space (fst (decode_rune (trim_left_space s)))"
proof (induction s rule: trim_left_space.induct)
  case (1 s)
  then show ?case
    by (cases "s \<noteq> [] \<and> is_space (fst (decode_rune s))")
      (auto simp: trim_left_space.simps [of s])
qed

lemma trim_right_done:
  "trim_right_space s \<noteq> [] \<Longrightarrow> \<not> is_space (fst (decode_last_rune (trim_right_space s)))"
proof (induction s rule: trim_right_space.induct)
  case (1 s)
  then show ?case
    by (cases "s \<noteq> [] \<and> is_space (fst (decode_last_rune s))")
      (auto simp: trim_right_space.simps [of s])
qed

text \<open>A decoded space does not depend on the bytes that follow it.\<close>

lemma three_bytes_cases:
  obtains "cs = []" | c1 where "cs = [c1]" | c1 c2 where "cs = [c1, c2]"
    | c1 c2 c3 r where "cs = c1 # c2 # c3 # r"
  by (metis neq_Nil_conv)

lemma decode_rune_append:
  "fst (decode_rune s) \<noteq> rune_error \<Longrightarrow> decode_rune (s @ t) = decode_rune s"
proof (cases s)
  case (Cons c cs)
  assume ok: "fst (decode_rune s) \<noteq> rune_error"
  show ?thesis
    using ok unfolding Cons
    by (cases cs rule: three_bytes_cases) (simp_all add: Let_def split: if_splits)
qed simp

lemma not_is_space_rune_error [simp]: "\<not> is_space rune_error"
  by (simp add: is_space_def)

lemma prefix_not_space:
  assumes "prefix p s" "\<not> is_space (fst (decode_rune s))"
  shows "\<not> is_space (fst (decode_rune p))"
proof
  assume sp: "is_space (fst (decode_rune p))"
  then have "fst (decode_rune p) \<noteq> rune_error" by auto
  with assms sp show False by (auto simp: prefix_def decode_rune_append)
qed

lemma trim_space_idem [simp]: "trim_space (trim_space s) = trim_space s"
proof (cases "trim_space s = []")
  case True
  then show ?thesis
    by (simp add: trim_space_def trim_left_space.simps [of "[]"] trim_right_space.simps [of "[]"])
next
  case False
  let ?l = "trim_left_space s" and ?r = "trim_space s"
  have p: "prefix ?r ?l" by (simp add: trim_space_def trim_right_prefix)
  then have "?l \<noteq> []" using False by auto
  then have "\<not> is_space (fst (decode_rune ?l))" by (rule trim_left_done)
  with p have "\<not> is_space (fst (decode_rune ?r))" by (rule prefix_not_space)
  then have l: "trim_left_space ?r = ?r" by (simp add: trim_left_space.simps [of ?r])
  have "\<not> is_space (fst (decode_last_rune ?r))"
    using False trim_right_done [of ?l] by (simp add: trim_space_def)
  then have "trim_right_space ?r = ?r" by (simp add: trim_right_space.simps [of ?r])
  with l show ?thesis by (simp add: trim_space_def [of ?r])
qed

lemma trim_space_sublist: "sublist (trim_space s) s"
  using trim_right_prefix [of "trim_left_space s"] trim_left_suffix [of s]
  by (metis prefix_imp_sublist sublist_order.order_trans suffix_imp_sublist trim_space_def)

lemma length_trim_space_le: "length (trim_space s) \<le> length s"
  using trim_space_sublist by (rule sublist_length_le)

lemma set_trim_space: "set (trim_space s) \<subseteq> set s"
  using trim_space_sublist by (rule set_mono_sublist)

lemma trim_space_Nil [simp]: "trim_space [] = []"
  using length_trim_space_le [of "[]"] by simp

text \<open>ASCII text that neither starts nor ends with a space is left alone.\<close>

definition plain_ends :: "string \<Rightarrow> bool" where
  "plain_ends s \<longleftrightarrow> s = [] \<or>
     (byte (hd s) < 128 \<and> \<not> is_space (byte (hd s)) \<and>
      byte (last s) < 128 \<and> \<not> is_space (byte (last s)))"

lemma trim_space_plain:
  assumes "plain_ends s"
  shows "trim_space s = s"
proof (cases s)
  case (Cons c cs)
  then have ends: "byte c < 128" "\<not> is_space (byte c)"
      "byte (last s) < 128" "\<not> is_space (byte (last s))" "s \<noteq> []"
    using assms by (auto simp: plain_ends_def)
  have "\<not> is_space (fst (decode_rune s))" using ends Cons by (simp add: Let_def)
  then have "trim_left_space s = s" by (simp add: trim_left_space.simps [of s])
  moreover have "\<not> is_space (fst (decode_last_rune s))"
    using ends by (simp add: decode_last_rune_def)
  then have "trim_right_space s = s" by (simp add: trim_right_space.simps [of s])
  ultimately show ?thesis by (simp add: trim_space_def)
qed simp

lemma trim_space_hd:
  assumes "trim_space s = c # cs" "byte c < 128"
  shows "\<not> is_space (byte c)"
proof -
  have p: "prefix (c # cs) (trim_left_space s)"
    using trim_right_prefix [of "trim_left_space s"] assms(1) by (simp add: trim_space_def)
  then have "trim_left_space s \<noteq> []" by auto
  from prefix_not_space [OF p trim_left_done [OF this]]
  show ?thesis using assms(2) by (simp add: Let_def)
qed

section \<open>Rune counts, truncation and case\<close>

text \<open>No rune of \<open>p @ e\<close> straddles the seam when \<open>e\<close> starts with a rune's first byte.\<close>

lemma decode_rune_append_start:
  assumes "p \<noteq> []" "e = [] \<or> rune_start (byte (hd e))"
  shows "decode_rune (p @ e) = decode_rune p"
proof (cases "e = []")
  case False
  then obtain d ds where e: "e = d # ds" "\<not> cont_byte (byte d)"
    using assms(2) by (cases e) (auto simp: rune_start_def)
  obtain c cs where p: "p = c # cs" using assms(1) by (cases p) auto
  show ?thesis
    using e p
    by (cases cs rule: three_bytes_cases) (simp_all add: Let_def second_ok_def split: list.split)
qed simp

lemma runes_append_start:
  "e = [] \<or> rune_start (byte (hd e)) \<Longrightarrow> runes (p @ e) = runes p @ runes e"
proof (induction p rule: runes.induct)
  case (1 p)
  show ?case
  proof (cases "p = []")
    case False
    let ?w = "snd (decode_rune p)"
    have d: "decode_rune (p @ e) = decode_rune p"
      using False "1.prems" by (rule decode_rune_append_start)
    have "?w \<le> length p" by (rule decode_rune_width_le)
    then have "drop ?w (p @ e) = drop ?w p @ e" by simp
    moreover have "runes (drop ?w p @ e) = runes (drop ?w p) @ runes e"
      using "1.IH" False "1.prems" by blast
    ultimately show ?thesis
      using False by (simp add: runes.simps [of "p @ e"] runes.simps [of p] d)
  qed simp
qed

lemma decode_last_rune_start:
  assumes "s \<noteq> []" "fst (decode_last_rune s) \<noteq> rune_error"
  shows "rune_start (byte (hd (drop (length s - snd (decode_last_rune s)) s)))"
proof (cases "byte (last s) < 128")
  case True
  then show ?thesis using assms(1)
    by (simp add: decode_last_rune_def hd_drop_conv_nth last_conv_nth rune_start_def cont_byte_def)
next
  case False
  let ?P = "\<lambda>k. k \<le> length s \<and> rune_start (byte (s ! (length s - k)))"
  from False assms obtain k where k: "find ?P [2, 3, 4] = Some k"
      and w: "snd (decode_last_rune s) = k"
    by (auto simp: decode_last_rune_def Let_def split: option.splits if_splits)
  from k have "?P k" "0 < k" by (auto simp: find_Some_iff nth_Cons' split: if_splits)
  then show ?thesis using w assms(1) by (simp add: hd_drop_conv_nth)
qed

lemma rune_count_trim_left: "length (runes (trim_left_space s)) \<le> length (runes s)"
proof (induction s rule: trim_left_space.induct)
  case (1 s)
  show ?case
  proof (cases "s \<noteq> [] \<and> is_space (fst (decode_rune s))")
    case True
    with "1.IH" have "length (runes (trim_left_space s)) \<le> length (runes (drop (snd (decode_rune s)) s))"
      by (simp add: trim_left_space.simps [of s])
    also have "\<dots> \<le> length (runes s)" using True by (simp add: runes.simps [of s])
    finally show ?thesis .
  qed (auto simp: trim_left_space.simps [of s])
qed

lemma rune_count_trim_right: "length (runes (trim_right_space s)) \<le> length (runes s)"
proof (induction s rule: trim_right_space.induct)
  case (1 s)
  let ?k = "length s - snd (decode_last_rune s)"
  show ?case
  proof (cases "s \<noteq> [] \<and> is_space (fst (decode_last_rune s))")
    case True
    then have "rune_start (byte (hd (drop ?k s)))"
      by (intro decode_last_rune_start) auto
    then have "runes (take ?k s @ drop ?k s) = runes (take ?k s) @ runes (drop ?k s)"
      by (intro runes_append_start) simp
    then have "length (runes (take ?k s)) \<le> length (runes s)" by simp
    with True "1.IH" show ?thesis by (simp add: trim_right_space.simps [of s])
  qed (auto simp: trim_right_space.simps [of s])
qed

lemma rune_count_trim_space: "length (runes (trim_space s)) \<le> length (runes s)"
  using rune_count_trim_right rune_count_trim_left le_trans
  unfolding trim_space_def by blast

abbreviation rune_count :: "string \<Rightarrow> nat" where
  "rune_count s \<equiv> length (runes s)"

definition to_lower :: "string \<Rightarrow> string" where
  "to_lower s = string_of_runes (map rune_lower (runes s))"

text \<open>\<open>strings.TrimSpace(string(runes[:max]))\<close> of a string longer than \<open>max\<close> runes,
  the string itself otherwise: the tail of every truncating sanitizer of the program.\<close>

definition cap_runes :: "nat \<Rightarrow> string \<Rightarrow> string" where
  "cap_runes m s =
     (if m < rune_count s then trim_space (string_of_runes (take m (runes s))) else s)"

lemma rune_count_take: "rune_count (string_of_runes (take m (runes s))) = min m (rune_count s)"
proof -
  have "\<forall>r \<in> set (take m (runes s)). scalar r"
    using runes_scalar in_set_takeD by fast
  then show ?thesis by (simp add: runes_string_of_runes min.commute)
qed

lemma rune_count_cap_runes: "rune_count (cap_runes m s) \<le> m"
proof (cases "m < rune_count s")
  case True
  then have "rune_count (cap_runes m s) \<le> rune_count (string_of_runes (take m (runes s)))"
    by (simp add: cap_runes_def rune_count_trim_space)
  then show ?thesis by (simp add: rune_count_take)
qed (simp add: cap_runes_def)

lemma trim_space_cap_runes: "trim_space s = s \<Longrightarrow> trim_space (cap_runes m s) = cap_runes m s"
  by (simp add: cap_runes_def)

lemma cap_runes_short [simp]: "rune_count s \<le> m \<Longrightarrow> cap_runes m s = s"
  by (simp add: cap_runes_def)

lemma cap_runes_idem [simp]: "cap_runes m (cap_runes m s) = cap_runes m s"
  by (simp add: rune_count_cap_runes)

end
