(* ===== verification/Go_Text.thy ===== *)
theory Go_Text
  imports Go_Strings
begin

text \<open>
  Splitting and joining on a one-byte separator, the last occurrence of a byte
  (\<open>strings.Split\<close>, \<open>strings.Join\<close>, \<open>strings.LastIndex\<close>) and decimal integers
  (\<open>strconv.FormatInt\<close>, \<open>strconv.ParseInt\<close> in base ten and 64 bits).
\<close>

section \<open>Splitting and joining\<close>

fun split_on :: "char \<Rightarrow> string \<Rightarrow> string list" where
  "split_on d [] = [[]]"
| "split_on d (c # cs) =
     (if c = d then [] # split_on d cs
      else (case split_on d cs of [] \<Rightarrow> [[c]] | p # ps \<Rightarrow> (c # p) # ps))"

fun join_on :: "char \<Rightarrow> string list \<Rightarrow> string" where
  "join_on d [] = []"
| "join_on d [p] = p"
| "join_on d (p # q # ps) = p @ d # join_on d (q # ps)"

lemma split_on_nonempty [simp]: "split_on d s \<noteq> []"
  by (induction s) (auto split: list.split)

lemma join_split: "join_on d (split_on d s) = s"
proof (induction s)
  case (Cons c cs)
  obtain p ps where p: "split_on d cs = p # ps" by (cases "split_on d cs") auto
  then show ?case using Cons by (cases ps) auto
qed simp

lemma split_parts_free: "p \<in> set (split_on d s) \<Longrightarrow> d \<notin> set p"
  by (induction s arbitrary: p) (auto split: list.splits if_splits)

lemma split_parts_subset: "p \<in> set (split_on d s) \<Longrightarrow> set p \<subseteq> set s"
  by (induction s arbitrary: p) (fastforce split: list.splits if_splits)+

lemma split_on_free: "d \<notin> set p \<Longrightarrow> split_on d p = [p]"
  by (induction p) auto

lemma split_on_append: "d \<notin> set p \<Longrightarrow> split_on d (p @ d # s) = p # split_on d s"
  by (induction p) auto

lemma split_join: "ps \<noteq> [] \<Longrightarrow> \<forall>p \<in> set ps. d \<notin> set p \<Longrightarrow> split_on d (join_on d ps) = ps"
  by (induction d ps rule: join_on.induct) (auto simp: split_on_free split_on_append)

lemma set_join_on: "set (join_on d ps) \<subseteq> insert d (\<Union> (set ` set ps))"
  by (induction d ps rule: join_on.induct) auto

lemma length_part_le_join: "p \<in> set ps \<Longrightarrow> length p \<le> length (join_on d ps)"
  by (induction d ps rule: join_on.induct) auto

section \<open>The last occurrence of a byte\<close>

definition cut_last :: "char \<Rightarrow> string \<Rightarrow> (string \<times> string) option" where
  "cut_last d s =
     (if d \<in> set s
      then Some (rev (tl (dropWhile (\<lambda>c. c \<noteq> d) (rev s))), rev (takeWhile (\<lambda>c. c \<noteq> d) (rev s)))
      else None)"

lemma cut_last_append: "d \<notin> set r \<Longrightarrow> cut_last d (l @ d # r) = Some (l, r)"
proof -
  assume "d \<notin> set r"
  then have "\<And>x. x \<in> set (rev r) \<Longrightarrow> x \<noteq> d" by auto
  then have "dropWhile (\<lambda>c. c \<noteq> d) (rev r @ d # rev l) = d # rev l"
    and "takeWhile (\<lambda>c. c \<noteq> d) (rev r @ d # rev l) = rev r"
    by (simp_all add: dropWhile_append takeWhile_append)
  then show ?thesis by (simp add: cut_last_def)
qed

lemma cut_last_SomeD:
  assumes "cut_last d s = Some (l, r)"
  shows "s = l @ d # r" "d \<notin> set r"
proof -
  from assms have "d \<in> set s" by (auto simp: cut_last_def split: if_splits)
  then obtain l' r' where s: "s = l' @ d # r'" "d \<notin> set r'"
    by (meson split_list_last)
  then have "cut_last d s = Some (l', r')" by (simp add: cut_last_append)
  with assms s show "s = l @ d # r" "d \<notin> set r" by auto
qed

lemma cut_last_None [simp]: "cut_last d s = None \<longleftrightarrow> d \<notin> set s"
  by (simp add: cut_last_def)

section \<open>Decimal integers\<close>

definition digit_char :: "nat \<Rightarrow> char" where
  "digit_char n = char_of (48 + n)"

definition is_dec :: "char \<Rightarrow> bool" where
  "is_dec c \<longleftrightarrow> 48 \<le> byte c \<and> byte c \<le> 57"

fun dec_digits :: "nat \<Rightarrow> string" where
  "dec_digits n =
     (if n < 10 then [digit_char n] else dec_digits (n div 10) @ [digit_char (n mod 10)])"

declare dec_digits.simps [simp del]

definition format_int :: "int \<Rightarrow> string" where
  "format_int i = (if i < 0 then CHR ''-'' # dec_digits (nat (- i)) else dec_digits (nat i))"

fun parse_dec :: "nat \<Rightarrow> string \<Rightarrow> nat option" where
  "parse_dec acc [] = Some acc"
| "parse_dec acc (c # cs) =
     (if is_dec c then parse_dec (acc * 10 + (byte c - 48)) cs else None)"

definition parse_uint :: "string \<Rightarrow> nat option" where
  "parse_uint s = (if s = [] then None else parse_dec 0 s)"

definition parse_int64 :: "string \<Rightarrow> int option" where
  "parse_int64 s =
     (case s of
        [] \<Rightarrow> None
      | c # cs \<Rightarrow>
          (let neg = (c = CHR ''-'');
               digits = (if c = CHR ''+'' \<or> c = CHR ''-'' then cs else s)
           in case parse_uint digits of
                None \<Rightarrow> None
              | Some n \<Rightarrow>
                  if \<not> neg \<and> 2 ^ 63 \<le> n then None
                  else if neg \<and> 2 ^ 63 < n then None
                  else Some (if neg then - int n else int n)))"

lemma byte_digit_char [simp]: "n < 10 \<Longrightarrow> byte (digit_char n) = 48 + n"
  by (simp add: digit_char_def)

lemma is_dec_digit_char [simp]: "n < 10 \<Longrightarrow> is_dec (digit_char n)"
  by (simp add: is_dec_def)

lemma dec_digits_nonempty [simp]: "dec_digits n \<noteq> []"
  by (subst dec_digits.simps) simp

lemma dec_digits_all_dec: "c \<in> set (dec_digits n) \<Longrightarrow> is_dec c"
proof (induction n rule: dec_digits.induct)
  case (1 n)
  then show ?case
    by (cases "n < 10") (auto simp: dec_digits.simps [of n])
qed

lemma parse_dec_append:
  "parse_dec acc (xs @ ys) = Option.bind (parse_dec acc xs) (\<lambda>a. parse_dec a ys)"
  by (induction xs arbitrary: acc) auto

lemma parse_dec_digits: "parse_dec 0 (dec_digits n) = Some n"
proof (induction n rule: dec_digits.induct)
  case (1 n)
  then show ?case
    by (cases "n < 10") (auto simp: dec_digits.simps [of n] parse_dec_append)
qed

lemma dec_digits_inj: "dec_digits m = dec_digits n \<Longrightarrow> m = n"
  by (metis option.inject parse_dec_digits)

lemma not_dec_sign [simp]: "\<not> is_dec CHR ''-''" "\<not> is_dec CHR ''+''" "\<not> is_dec CHR ''.''"
  by (simp_all add: is_dec_def)

lemma parse_format_int:
  assumes "int64 i"
  shows "parse_int64 (format_int i) = Some i"
proof (cases "i < 0")
  case True
  then have "parse_int64 (format_int i) =
      (if 2 ^ 63 < nat (- i) then None else Some (- int (nat (- i))))"
    by (simp add: parse_int64_def format_int_def parse_uint_def parse_dec_digits)
  with assms True show ?thesis by (simp add: int64_def)
next
  case False
  obtain c cs where d: "dec_digits (nat i) = c # cs" by (cases "dec_digits (nat i)") auto
  then have "is_dec c" using dec_digits_all_dec [of c "nat i"] by simp
  then have "c \<noteq> CHR ''-''" "c \<noteq> CHR ''+''" by auto
  then have "parse_int64 (format_int i) =
      (if 2 ^ 63 \<le> nat i then None else Some (int (nat i)))"
    using False d parse_dec_digits [of "nat i"]
    by (simp add: parse_int64_def format_int_def parse_uint_def)
  with assms False show ?thesis by (simp add: int64_def)
qed

end
