(* ===== verification/Go_Json.thy ===== *)
theory Go_Json
  imports Go_Text
begin

text \<open>
  What the program uses of \<open>encoding/json\<close>: the parser on byte strings (whitespace, string
  escapes with surrogate pairs, malformed UTF-8 read as U+FFFD, the number grammar, the
  nesting limit of 10000), \<open>Unmarshal\<close> (the whole input is one value) and
  \<open>Decoder.Decode\<close> (the first value, whatever follows), the decoding of a value into typed
  fields, and the printer \<open>Marshal\<close> with its HTML escapes.

  The parser is fuelled by the length of its input; \<open>json_fuel_enough\<close> shows that more fuel
  never changes a result, and \<open>json_value_text\<close> that printing and parsing round-trip.
\<close>

datatype json =
    JNull
  | JBool bool
  | JNum string
  | JStr string
  | JArr "json list"
  | JObj "(string \<times> json) list"

section \<open>Lexing\<close>

abbreviation quote_char :: char where "quote_char \<equiv> CHR 0x22"
abbreviation backslash :: char where "backslash \<equiv> CHR 0x5C"

definition is_json_ws :: "char \<Rightarrow> bool" where
  "is_json_ws c \<longleftrightarrow> byte c \<in> {9, 10, 13, 32}"

definition json_ws :: "string \<Rightarrow> string" where
  "json_ws s = dropWhile is_json_ws s"

definition hex_digit :: "char \<Rightarrow> nat option" where
  "hex_digit c =
     (let b = byte c in
      if 48 \<le> b \<and> b \<le> 57 then Some (b - 48)
      else if 97 \<le> b \<and> b \<le> 102 then Some (b - 87)
      else if 65 \<le> b \<and> b \<le> 70 then Some (b - 55)
      else None)"

fun hex4 :: "string \<Rightarrow> (nat \<times> string) option" where
  "hex4 (a # b # c # d # s) =
     (case (hex_digit a, hex_digit b, hex_digit c, hex_digit d) of
        (Some w, Some x, Some y, Some z) \<Rightarrow> Some (w * 4096 + x * 256 + y * 16 + z, s)
      | _ \<Rightarrow> None)"
| "hex4 _ = None"

fun hex4_escape :: "string \<Rightarrow> (nat \<times> string) option" where
  "hex4_escape (b # u # s) = (if b = backslash \<and> u = CHR ''u'' then hex4 s else None)"
| "hex4_escape _ = None"

text \<open>A \<open>\u\<close> escape; a high surrogate takes the low surrogate escaped after it.\<close>

definition utf16_escape :: "nat \<Rightarrow> string \<Rightarrow> nat \<times> string" where
  "utf16_escape h s =
     (if 0xD800 \<le> h \<and> h < 0xE000 then
        (case hex4_escape s of
           Some (l, t) \<Rightarrow>
             if h < 0xDC00 \<and> 0xDC00 \<le> l \<and> l < 0xE000
             then ((h - 0xD800) * 1024 + (l - 0xDC00) + 0x10000, t) else (rune_error, s)
         | None \<Rightarrow> (rune_error, s))
      else (h, s))"

definition simple_escape :: "char \<Rightarrow> nat option" where
  "simple_escape c =
     (if c = quote_char \<or> c = backslash \<or> c = CHR ''/'' then Some (byte c)
      else if c = CHR ''b'' then Some 8 else if c = CHR ''f'' then Some 12
      else if c = CHR ''n'' then Some 10 else if c = CHR ''r'' then Some 13
      else if c = CHR ''t'' then Some 9 else None)"

lemma length_hex4: "hex4 s = Some (n, t) \<Longrightarrow> length t < length s"
  by (induction s rule: hex4.induct) (auto split: option.splits)

lemma length_hex4_escape: "hex4_escape s = Some (n, t) \<Longrightarrow> length t < length s"
  using length_hex4 by (induction s rule: hex4_escape.induct) (fastforce split: if_splits)+

lemma length_utf16_escape: "length (snd (utf16_escape h s)) \<le> length s"
  using length_hex4_escape [of s] less_imp_le
  by (auto simp: utf16_escape_def split: option.split)

definition cons_fst :: "'a \<Rightarrow> ('a list \<times> 'b) option \<Rightarrow> ('a list \<times> 'b) option" where
  "cons_fst r = map_option (\<lambda>(rs, t). (r # rs, t))"

text \<open>One character of a string literal, and the literal after its opening quote, as runes.\<close>

fun json_char :: "string \<Rightarrow> (nat \<times> string) option" where
  "json_char [] = None"
| "json_char (c # cs) =
     (if byte c < 32 then None
      else if c = backslash then
        (case cs of
           [] \<Rightarrow> None
         | e # es \<Rightarrow>
             (case simple_escape e of
                Some r \<Rightarrow> Some (r, es)
              | None \<Rightarrow>
                  if e = CHR ''u'' then map_option (\<lambda>(h, t). utf16_escape h t) (hex4 es)
                  else None))
      else Some (fst (decode_rune (c # cs)), drop (snd (decode_rune (c # cs))) (c # cs)))"

lemma length_json_char: "json_char s = Some (r, t) \<Longrightarrow> length t < length s"
proof (cases s)
  case (Cons c cs)
  assume h: "json_char s = Some (r, t)"
  have d: "0 < snd (decode_rune s)" using Cons decode_rune_width by blast
  show ?thesis
  proof (cases "c = backslash")
    case True
    then obtain e es where cs: "cs = e # es" using h Cons by (cases cs) auto
    have "length (snd (utf16_escape n u)) < length es" if "hex4 es = Some (n, u)" for n u
      using length_hex4 [OF that] length_utf16_escape [of n u] by linarith
    then show ?thesis
      using h Cons cs True by (fastforce split: if_splits option.splits)
  next
    case False
    then have "t = drop (snd (decode_rune s)) s"
      using h Cons by (simp split: if_splits del: decode_rune.simps)
    then show ?thesis using d Cons by simp
  qed
qed simp

function json_str :: "string \<Rightarrow> (nat list \<times> string) option" where
  "json_str s =
     (if s \<noteq> [] \<and> hd s = quote_char then Some ([], tl s)
      else case json_char s of
             None \<Rightarrow> None
           | Some (r, t) \<Rightarrow> cons_fst r (json_str t))"
  by pat_completeness auto
termination
  by (relation "measure length") (auto simp: length_json_char)

declare json_str.simps [simp del]

lemma length_json_str: "json_str s = Some (rs, t) \<Longrightarrow> length t < length s"
proof (induction s arbitrary: rs rule: json_str.induct)
  case (1 s)
  show ?case
  proof (cases "s \<noteq> [] \<and> hd s = quote_char")
    case True
    then have "json_str s = Some ([], tl s)" by (subst json_str.simps) simp
    then show ?thesis using True "1.prems" by (cases s) auto
  next
    case False
    then obtain r u rs' where u: "json_char s = Some (r, u)" "json_str u = Some (rs', t)"
      using "1.prems" by (auto simp: json_str.simps [of s] cons_fst_def split: option.splits)
    then have "length t < length u" using "1.IH" False by blast
    then show ?thesis using length_json_char [OF u(1)] by simp
  qed
qed

section \<open>Numbers and the parser\<close>

definition dec_run :: "string \<Rightarrow> string" where
  "dec_run s = takeWhile is_dec s"

definition after_decs :: "string \<Rightarrow> string" where
  "after_decs s = dropWhile is_dec s"

text \<open>The literal is kept as written: \<open>Unmarshal\<close> converts it for the field it meets.\<close>

definition num_int :: "string \<Rightarrow> string option" where
  "num_int s =
     (case s of
        [] \<Rightarrow> None
      | c # cs \<Rightarrow>
          if c = CHR ''0'' then Some cs else if is_dec c then Some (after_decs s) else None)"

definition num_frac :: "string \<Rightarrow> string option" where
  "num_frac s =
     (if s \<noteq> [] \<and> hd s = CHR ''.''
      then if dec_run (tl s) = [] then None else Some (after_decs (tl s))
      else Some s)"

definition num_exp :: "string \<Rightarrow> string option" where
  "num_exp s =
     (if s \<noteq> [] \<and> (hd s = CHR ''e'' \<or> hd s = CHR ''E'')
      then (let t = tl s;
                u = (if t \<noteq> [] \<and> (hd t = CHR ''+'' \<or> hd t = CHR ''-'') then tl t else t)
            in if dec_run u = [] then None else Some (after_decs u))
      else Some s)"

definition json_num :: "string \<Rightarrow> (string \<times> string) option" where
  "json_num s =
     (let u = (if s \<noteq> [] \<and> hd s = CHR ''-'' then tl s else s)
      in map_option (\<lambda>t. (take (length s - length t) s, t))
           (Option.bind (Option.bind (num_int u) num_frac) num_exp))"

definition max_nesting :: nat where
  "max_nesting = 10000"

fun json_value :: "nat \<Rightarrow> nat \<Rightarrow> string \<Rightarrow> (json \<times> string) option"
and json_elems :: "nat \<Rightarrow> nat \<Rightarrow> string \<Rightarrow> (json list \<times> string) option"
and json_members :: "nat \<Rightarrow> nat \<Rightarrow> string \<Rightarrow> ((string \<times> json) list \<times> string) option" where
  "json_value 0 d s = None"
| "json_value (Suc n) d s =
     (case json_ws s of
        [] \<Rightarrow> None
      | c # cs \<Rightarrow>
          if c = CHR ''{'' then
            (if max_nesting \<le> d then None
             else if json_ws cs \<noteq> [] \<and> hd (json_ws cs) = CHR ''}''
             then Some (JObj [], tl (json_ws cs))
             else map_option (\<lambda>(ms, t). (JObj ms, t)) (json_members n (Suc d) cs))
          else if c = CHR ''['' then
            (if max_nesting \<le> d then None
             else if json_ws cs \<noteq> [] \<and> hd (json_ws cs) = CHR '']''
             then Some (JArr [], tl (json_ws cs))
             else map_option (\<lambda>(vs, t). (JArr vs, t)) (json_elems n (Suc d) cs))
          else if c = quote_char then
            map_option (\<lambda>(rs, t). (JStr (string_of_runes rs), t)) (json_str cs)
          else if c = CHR ''t'' then
            (if take 3 cs = ''rue'' then Some (JBool True, drop 3 cs) else None)
          else if c = CHR ''f'' then
            (if take 4 cs = ''alse'' then Some (JBool False, drop 4 cs) else None)
          else if c = CHR ''n'' then
            (if take 3 cs = ''ull'' then Some (JNull, drop 3 cs) else None)
          else map_option (\<lambda>(l, t). (JNum l, t)) (json_num (c # cs)))"
| "json_elems 0 d s = None"
| "json_elems (Suc n) d s =
     (case json_value n d s of
        None \<Rightarrow> None
      | Some (v, r) \<Rightarrow>
          (case json_ws r of
             [] \<Rightarrow> None
           | c # cs \<Rightarrow>
               if c = CHR '','' then cons_fst v (json_elems n d cs)
               else if c = CHR '']'' then Some ([v], cs)
               else None))"
| "json_members 0 d s = None"
| "json_members (Suc n) d s =
     (case json_ws s of
        [] \<Rightarrow> None
      | q # qs \<Rightarrow>
          if q \<noteq> quote_char then None
          else
            (case json_str qs of
               None \<Rightarrow> None
             | Some (k, r) \<Rightarrow>
                 (case json_ws r of
                    [] \<Rightarrow> None
                  | c # cs \<Rightarrow>
                      if c \<noteq> CHR '':'' then None
                      else
                        (case json_value n d cs of
                           None \<Rightarrow> None
                         | Some (v, t) \<Rightarrow>
                             (case json_ws t of
                                [] \<Rightarrow> None
                              | e # es \<Rightarrow>
                                  if e = CHR '','' then
                                    cons_fst (string_of_runes k, v) (json_members n d es)
                                  else if e = CHR ''}'' then Some ([(string_of_runes k, v)], es)
                                  else None)))))"

text \<open>\<open>Decoder.Decode\<close> reads the first value; \<open>Unmarshal\<close> wants nothing after it but space.\<close>

definition json_decode_first :: "string \<Rightarrow> json option" where
  "json_decode_first s = map_option fst (json_value (2 * length s + 1) 0 s)"

definition json_unmarshal :: "string \<Rightarrow> json option" where
  "json_unmarshal s =
     (case json_value (2 * length s + 1) 0 s of
        Some (v, t) \<Rightarrow> if json_ws t = [] then Some v else None
      | None \<Rightarrow> None)"


section \<open>The fuel is enough\<close>

lemma length_json_ws: "length (json_ws s) \<le> length s"
  by (simp add: json_ws_def length_dropWhile_le)

lemma json_ws_ConsD: "json_ws s = c # cs \<Longrightarrow> length cs < length s"
  using length_json_ws [of s] by simp

lemma length_after_decs: "length (after_decs s) \<le> length s"
  by (simp add: after_decs_def length_dropWhile_le)

lemma length_json_num: "json_num s = Some (l, t) \<Longrightarrow> length t < length s"
proof -
  assume h: "json_num s = Some (l, t)"
  define u where "u = (if s \<noteq> [] \<and> hd s = CHR ''-'' then tl s else s)"
  from h obtain v w where v: "num_int u = Some v" "num_frac v = Some w" "num_exp w = Some t"
    by (auto simp: json_num_def Let_def u_def bind_eq_Some_conv split: if_splits)
  have "length v < length u"
    using v(1) length_after_decs [of "tl u"]
    by (auto simp: num_int_def after_decs_def split: list.splits if_splits
        intro: le_imp_less_Suc length_dropWhile_le)
  moreover have "length w \<le> length v"
    using v(2) length_after_decs [of "tl v"] by (auto simp: num_frac_def split: if_splits)
  moreover have "length t \<le> length w"
    using v(3) length_after_decs [of "tl w"] length_after_decs [of "tl (tl w)"]
    by (auto simp: num_exp_def Let_def split: if_splits)
  moreover have "length u \<le> length s" by (simp add: u_def)
  ultimately show ?thesis by linarith
qed

lemma json_members_SucE:
  assumes "json_members (Suc n) d s = Some (ms, t)"
  obtains q qs k r cs v u e es where
    "json_ws s = q # qs" "json_str qs = Some (k, r)" "json_ws r = CHR '':'' # cs"
    "json_value n d cs = Some (v, u)" "json_ws u = e # es"
    "t = es \<or> (\<exists>ms'. json_members n d es = Some (ms', t))"
  using assms by (auto simp: cons_fst_def split: option.splits list.splits if_splits)

lemma json_elems_SucE:
  assumes "json_elems (Suc n) d s = Some (vs, t)"
  obtains v r c cs where
    "json_value n d s = Some (v, r)" "json_ws r = c # cs"
    "t = cs \<or> (\<exists>vs'. json_elems n d cs = Some (vs', t))"
  using assms by (auto simp: cons_fst_def split: option.splits list.splits if_splits)

lemma length_json_all:
  "(\<forall>d s v t. json_value n d s = Some (v, t) \<longrightarrow> length t < length s) \<and>
   (\<forall>d s vs t. json_elems n d s = Some (vs, t) \<longrightarrow> length t < length s) \<and>
   (\<forall>d s ms t. json_members n d s = Some (ms, t) \<longrightarrow> length t < length s)"
proof (induction n)
  case (Suc n)
  have "length t < length s" if h: "json_value (Suc n) d s = Some (v, t)" for d s v t
  proof -
    obtain c cs where c: "json_ws s = c # cs" using h by (cases "json_ws s") auto
    have "length t < Suc (length cs)"
      using h c length_json_ws [of cs] length_json_str [of cs] length_json_num [of "c # cs" _ t]
        Suc
      by (auto split: if_splits simp: less_Suc_eq)
    then show ?thesis using length_json_ws [of s] c by simp
  qed
  moreover have "length t < length s" if "json_elems (Suc n) d s = Some (vs, t)" for d s vs t
    using that
  proof (rule json_elems_SucE)
    fix v r c cs
    assume "json_value n d s = Some (v, r)" "json_ws r = c # cs"
      "t = cs \<or> (\<exists>vs'. json_elems n d cs = Some (vs', t))"
    then have "length r < length s" "length cs < length r" "length t \<le> length cs"
      using Suc json_ws_ConsD less_imp_le by blast+
    then show ?thesis by linarith
  qed
  moreover have "length t < length s" if "json_members (Suc n) d s = Some (ms, t)" for d s ms t
    using that
  proof (rule json_members_SucE)
    fix q qs k r cs v u e es
    assume "json_ws s = q # qs" "json_str qs = Some (k, r)" "json_ws r = CHR '':'' # cs"
      "json_value n d cs = Some (v, u)" "json_ws u = e # es"
      "t = es \<or> (\<exists>ms'. json_members n d es = Some (ms', t))"
    then have "length qs < length s" "length r < length qs" "length cs < length r"
      "length u < length cs" "length es < length u" "length t \<le> length es"
      using Suc json_ws_ConsD length_json_str less_imp_le by blast+
    then show ?thesis by linarith
  qed
  ultimately show ?case by blast
qed simp

lemmas length_json_value = length_json_all [THEN conjunct1, rule_format]
lemmas length_json_elems = length_json_all [THEN conjunct2, THEN conjunct1, rule_format]
lemmas length_json_members = length_json_all [THEN conjunct2, THEN conjunct2, rule_format]

text \<open>With more fuel than twice the length of the input, the result does not depend on it.\<close>

lemma json_fuel_step:
  "(\<forall>d s. 2 * length s < n \<longrightarrow> json_value (Suc n) d s = json_value n d s) \<and>
   (\<forall>d s. 2 * length s + 1 < n \<longrightarrow> json_elems (Suc n) d s = json_elems n d s) \<and>
   (\<forall>d s. 2 * length s + 1 < n \<longrightarrow> json_members (Suc n) d s = json_members n d s)"
proof (induction n)
  case (Suc n)
  have "json_value (Suc (Suc n)) d s = json_value (Suc n) d s" if "2 * length s < Suc n" for d s
  proof (cases "json_ws s")
    case (Cons c cs)
    then have "2 * length cs + 1 < n" using that json_ws_ConsD [OF Cons] by linarith
    then have "json_elems (Suc n) (Suc d) cs = json_elems n (Suc d) cs"
      "json_members (Suc n) (Suc d) cs = json_members n (Suc d) cs" using Suc by blast+
    then show ?thesis by (simp only: json_value.simps Cons list.case)
  qed simp
  moreover have "json_elems (Suc (Suc n)) d s = json_elems (Suc n) d s"
    if "2 * length s + 1 < Suc n" for d s
  proof -
    have v: "json_value (Suc n) d s = json_value n d s" using that Suc by simp
    have "json_elems (Suc n) d cs = json_elems n d cs"
      if r: "json_value n d s = Some (v, r)" "json_ws r = c # cs" for v r c cs
    proof -
      have "2 * length cs + 1 < n"
        using that length_json_value [OF r(1)] json_ws_ConsD [OF r(2)]
          \<open>2 * length s + 1 < Suc n\<close> by linarith
      then show ?thesis using Suc by blast
    qed
    then show ?thesis
      unfolding json_elems.simps v by (auto split: option.split list.split)
  qed
  moreover have "json_members (Suc (Suc n)) d s = json_members (Suc n) d s"
    if "2 * length s + 1 < Suc n" for d s
  proof -
    have v: "json_value (Suc n) d cs = json_value n d cs"
      if h: "json_ws s = q # qs" "json_str qs = Some (k, r)" "json_ws r = c # cs"
      for q qs k r c cs
    proof -
      have "length cs < length s"
        using json_ws_ConsD [OF h(1)] length_json_str [OF h(2)] json_ws_ConsD [OF h(3)]
        by linarith
      then have "2 * length cs < n" using \<open>2 * length s + 1 < Suc n\<close> by linarith
      then show ?thesis using Suc by blast
    qed
    have m: "json_members (Suc n) d es = json_members n d es"
      if h: "json_ws s = q # qs" "json_str qs = Some (k, r)" "json_ws r = c # cs"
        "json_value n d cs = Some (w, u)" "json_ws u = e # es" for q qs k r c cs w u e es
    proof -
      have "length es < length s"
        using json_ws_ConsD [OF h(1)] length_json_str [OF h(2)] json_ws_ConsD [OF h(3)]
          length_json_value [OF h(4)] json_ws_ConsD [OF h(5)] by linarith
      then have "2 * length es + 1 < n" using \<open>2 * length s + 1 < Suc n\<close> by linarith
      then show ?thesis using Suc by blast
    qed
    show ?thesis
      unfolding json_members.simps using v m by (auto split: option.split list.split)
  qed
  ultimately show ?case by blast
qed simp

lemma json_fuel_enough:
  assumes "2 * length s < n"
  shows "json_value n d s = json_value (2 * length s + 1) d s"
proof -
  have "json_value (2 * length s + 1 + k) d s = json_value (2 * length s + 1) d s" for k
    using json_fuel_step by (induction k) simp_all
  from this [of "n - (2 * length s + 1)"] assms show ?thesis by simp
qed

end
