(* ===== verification/Go_Json_Print.thy ===== *)
theory Go_Json_Print
  imports Go_Json
begin

text \<open>
  \<open>json.Marshal\<close>: the compact printer, with the escapes it writes (quotes, backslashes,
  control bytes, the HTML characters and the two Unicode line separators), and the proof
  that parsing what was printed gives the value back.
\<close>

section \<open>Printing\<close>

definition hex_lower :: "nat \<Rightarrow> char" where
  "hex_lower n = (if n < 10 then char_of (48 + n) else char_of (87 + n))"

definition escape_ascii :: "char \<Rightarrow> string" where
  "escape_ascii c =
     (if c = quote_char \<or> c = backslash then [backslash, c]
      else if byte c = 8 then [backslash, CHR ''b'']
      else if byte c = 12 then [backslash, CHR ''f'']
      else if byte c = 10 then [backslash, CHR ''n'']
      else if byte c = 13 then [backslash, CHR ''r'']
      else if byte c = 9 then [backslash, CHR ''t'']
      else if byte c < 32 \<or> c = CHR ''<'' \<or> c = CHR ''>'' \<or> c = CHR ''&''
      then [backslash, CHR ''u'', CHR ''0'', CHR ''0'',
            hex_lower (byte c div 16), hex_lower (byte c mod 16)]
      else [c])"

function json_quote_body :: "string \<Rightarrow> string" where
  "json_quote_body s =
     (if s = [] then []
      else if byte (hd s) < 128 then escape_ascii (hd s) @ json_quote_body (tl s)
      else
        (let (r, w) = decode_rune s
         in (if r = rune_error \<and> w = 1 then backslash # ''ufffd''
             else if r = 0x2028 then backslash # ''u2028''
             else if r = 0x2029 then backslash # ''u2029''
             else encode_rune r) @ json_quote_body (drop w s)))"
  by pat_completeness auto
termination
proof (relation "measure length")
  fix s r w and x :: "nat \<times> nat"
  assume "s \<noteq> []" "x = decode_rune s" "(r, w) = x"
  then have "0 < w" using decode_rune_width [of s] by (metis snd_conv)
  then show "(drop w s, s) \<in> measure length" using \<open>s \<noteq> []\<close> by simp
qed simp_all

declare json_quote_body.simps [simp del]

definition json_quote :: "string \<Rightarrow> string" where
  "json_quote s = quote_char # json_quote_body s @ [quote_char]"

fun json_text :: "json \<Rightarrow> string" where
  "json_text JNull = ''null''"
| "json_text (JBool b) = (if b then ''true'' else ''false'')"
| "json_text (JNum l) = l"
| "json_text (JStr s) = json_quote s"
| "json_text (JArr vs) = CHR ''['' # join_on CHR '','' (map json_text vs) @ '']''"
| "json_text (JObj ms) =
     CHR ''{'' # join_on CHR '',''
       (map (\<lambda>m. json_quote (fst m) @ CHR '':'' # json_text (snd m)) ms) @ ''}''"

section \<open>Parsing what was printed\<close>

definition valid_utf8 :: "string \<Rightarrow> bool" where
  "valid_utf8 s \<longleftrightarrow> string_of_runes (runes s) = s"

fun json_printable :: "json \<Rightarrow> bool" where
  "json_printable (JNum l) \<longleftrightarrow> (\<exists>i. l = format_int i)"
| "json_printable (JStr s) \<longleftrightarrow> valid_utf8 s"
| "json_printable (JArr vs) \<longleftrightarrow> (\<forall>v \<in> set vs. json_printable v)"
| "json_printable (JObj ms) \<longleftrightarrow> (\<forall>m \<in> set ms. valid_utf8 (fst m) \<and> json_printable (snd m))"
| "json_printable _ \<longleftrightarrow> True"

fun json_depth :: "json \<Rightarrow> nat" where
  "json_depth (JArr vs) = Suc (foldr max (map json_depth vs) 0)"
| "json_depth (JObj ms) = Suc (foldr max (map (\<lambda>m. json_depth (snd m)) ms) 0)"
| "json_depth _ = 0"

lemma hex_digit_lower [simp]: "n < 16 \<Longrightarrow> hex_digit (hex_lower n) = Some n"
  by (auto simp: hex_digit_def hex_lower_def Let_def)

lemma utf16_escape_small [simp]: "h < 0xD800 \<Longrightarrow> utf16_escape h t = (h, t)"
  by (simp add: utf16_escape_def)

lemma hex_digit_0 [simp]: "hex_digit CHR ''0'' = Some 0"
  by (simp add: hex_digit_def Let_def)

lemma json_char_escape:
  assumes "byte c < 128"
  shows "json_char (escape_ascii c @ t) = Some (byte c, t)"
proof -
  have "byte c div 16 < 16" by (simp add: less_mult_imp_div_less)
  then show ?thesis
    using assms by (auto simp: escape_ascii_def simple_escape_def split: if_splits)
qed

lemma escape_ascii_head: "escape_ascii c \<noteq> [] \<and> hd (escape_ascii c) \<noteq> quote_char"
  by (auto simp: escape_ascii_def)

lemma encode_rune_head:
  assumes "128 \<le> r"
  shows "128 \<le> byte (hd (encode_rune r))"
proof -
  have "r < 2048 \<Longrightarrow> r div 64 < 32" by (simp add: less_mult_imp_div_less)
  moreover have "r < 65536 \<Longrightarrow> r div 4096 < 16" by (simp add: less_mult_imp_div_less)
  moreover have "scalar r \<Longrightarrow> r div 262144 < 5"
    by (auto simp: scalar_def intro!: less_mult_imp_div_less)
  ultimately show ?thesis using assms by (auto simp: encode_rune_def)
qed

lemma json_char_encode:
  assumes "128 \<le> r" "scalar r"
  shows "json_char (encode_rune r @ t) = Some (r, t)"
proof -
  obtain c cs where c: "encode_rune r = c # cs" by (cases "encode_rune r") auto
  then have "128 \<le> byte c" using encode_rune_head [OF assms(1)] by simp
  then have "c \<noteq> backslash" "\<not> byte c < 32" by auto
  then show ?thesis
    using c decode_encode [OF assms(2), of t]
    by (simp add: json_char.simps del: decode_rune.simps)
qed

lemma decode_rune_high:
  assumes "s \<noteq> []" "128 \<le> byte (hd s)"
  shows "128 \<le> fst (decode_rune s)"
proof -
  obtain c cs where s: "s = c # cs" using assms(1) by (cases s) auto
  have two: "0xC2 \<le> byte c \<Longrightarrow> 128 \<le> (byte c - 0xC0) * 64 + k" for k by linarith
  have three: "0xE0 \<le> byte c \<Longrightarrow> second_ok (byte c) b \<Longrightarrow>
      128 \<le> (byte c - 0xE0) * 4096 + (b - 128) * 64 + k" for b k
    by (cases "byte c = 0xE0") (auto simp: second_ok_def)
  have four: "0xF0 \<le> byte c \<Longrightarrow> second_ok (byte c) b \<Longrightarrow>
      128 \<le> (byte c - 0xF0) * 262144 + (b - 128) * 4096 + k + j" for b k j
    by (cases "byte c = 0xF0") (auto simp: second_ok_def)
  show ?thesis
    using s assms(2) two three four by (auto simp: Let_def split: list.split)
qed

definition escaped_rune :: "nat \<Rightarrow> nat \<Rightarrow> string" where
  "escaped_rune r w =
     (if r = rune_error \<and> w = 1 then backslash # ''ufffd''
      else if r = 0x2028 then backslash # ''u2028''
      else if r = 0x2029 then backslash # ''u2029''
      else encode_rune r)"

lemma json_char_escaped_rune:
  assumes "128 \<le> r" "scalar r"
  shows "json_char (escaped_rune r w @ t) = Some (r, t)"
  using json_char_encode [OF assms]
  by (auto simp: escaped_rune_def simple_escape_def hex_digit_def Let_def utf16_escape_def)

lemma escaped_rune_head:
  assumes "128 \<le> r"
  shows "escaped_rune r w \<noteq> [] \<and> hd (escaped_rune r w) \<noteq> quote_char"
proof -
  have "hd (encode_rune r) \<noteq> quote_char" using encode_rune_head [OF assms] by auto
  then show ?thesis by (simp add: escaped_rune_def)
qed

lemma json_str_step:
  assumes "e \<noteq> []" "hd e \<noteq> quote_char" "json_char (e @ t) = Some (r, t)"
  shows "json_str (e @ t) = cons_fst r (json_str t)"
  using assms by (subst json_str.simps) simp

lemma json_str_quote_body:
  "json_str (json_quote_body s @ quote_char # t) = Some (runes s, t)"
proof (induction s rule: json_quote_body.induct)
  case (1 s)
  consider "s = []" | "s \<noteq> []" "byte (hd s) < 128" | "s \<noteq> []" "128 \<le> byte (hd s)" by linarith
  then show ?case
  proof cases
    case 1
    then show ?thesis by (simp add: json_quote_body.simps json_str.simps)
  next
    case 2
    then obtain c cs where s: "s = c # cs" by (cases s) auto
    have "json_quote_body s = escape_ascii c @ json_quote_body cs"
      using 2 s by (subst json_quote_body.simps) simp
    moreover have "json_str (json_quote_body cs @ quote_char # t) = Some (runes cs, t)"
      using 1 2 s by simp
    ultimately show ?thesis
      using 2 s escape_ascii_head [of c] json_char_escape [of c]
        json_str_step [of "escape_ascii c" "json_quote_body cs @ quote_char # t" "byte c"]
      by (simp add: runes_ascii_Cons cons_fst_def)
  next
    case 3
    obtain r w where r: "decode_rune s = (r, w)" by force
    have b: "128 \<le> r" "scalar r"
      using decode_rune_high [OF 3] decode_rune_scalar [of s] r by simp_all
    have "json_quote_body s = escaped_rune r w @ json_quote_body (drop w s)"
      using 3 r by (subst json_quote_body.simps) (simp add: escaped_rune_def)
    moreover have "json_str (json_quote_body (drop w s) @ quote_char # t) = Some (runes (drop w s), t)"
      using 1 3 r by simp
    moreover have "runes s = r # runes (drop w s)"
      using 3 r by (subst runes.simps) simp
    ultimately show ?thesis
      using escaped_rune_head [OF b(1), of w] json_char_escaped_rune [OF b]
        json_str_step [of "escaped_rune r w" "json_quote_body (drop w s) @ quote_char # t" r]
      by (simp add: cons_fst_def)
  qed
qed


lemma json_value_quote:
  "valid_utf8 s \<Longrightarrow> json_value (Suc n) d (json_quote s @ t) = Some (JStr s, t)"
  using json_str_quote_body [of s t]
  by (simp add: json_quote_def json_ws_def is_json_ws_def valid_utf8_def)

text \<open>Numbers: an integer literal ends where the digits end.\<close>

definition num_stop :: "string \<Rightarrow> bool" where
  "num_stop t \<longleftrightarrow> t = [] \<or>
     (\<not> is_dec (hd t) \<and> hd t \<noteq> CHR ''.'' \<and> hd t \<noteq> CHR ''e'' \<and> hd t \<noteq> CHR ''E'')"

lemma after_decs_append: "\<forall>c \<in> set l. is_dec c \<Longrightarrow> num_stop t \<Longrightarrow> after_decs (l @ t) = t"
  by (induction l) (cases t, auto simp: after_decs_def num_stop_def)

lemma hd_dec_digits: "hd (dec_digits n) = CHR ''0'' \<Longrightarrow> n = 0"
proof (induction n rule: dec_digits.induct)
  case (1 n)
  have "n = 0" if "n < 10" "digit_char n = CHR ''0''"
    using byte_digit_char [OF that(1)] that(2) by simp
  then show ?case
    using 1 by (cases "n < 10") (auto simp: dec_digits.simps [of n])
qed

lemma dec_digits_head: "dec_digits n = c # cs \<Longrightarrow> c = CHR ''0'' \<Longrightarrow> cs = []"
  using hd_dec_digits [of n] by (simp add: dec_digits.simps [of 0])

lemma num_rest_stop [simp]: "num_stop t \<Longrightarrow> num_frac t = Some t" "num_stop t \<Longrightarrow> num_exp t = Some t"
  by (auto simp: num_stop_def num_frac_def num_exp_def)

lemma num_int_digits: "num_stop t \<Longrightarrow> num_int (dec_digits n @ t) = Some t"
proof -
  assume t: "num_stop t"
  obtain c cs where c: "dec_digits n = c # cs" by (cases "dec_digits n") auto
  then have "\<forall>c \<in> set (c # cs). is_dec c" using dec_digits_all_dec by metis
  then show ?thesis
    using c t dec_digits_head [of n c cs] after_decs_append [of "c # cs" t]
    by (auto simp: num_int_def)
qed

lemma json_num_format: "num_stop t \<Longrightarrow> json_num (format_int i @ t) = Some (format_int i, t)"
proof -
  assume t: "num_stop t"
  obtain c cs where c: "dec_digits (nat i) = c # cs" by (cases "dec_digits (nat i)") auto
  then have "is_dec c" using dec_digits_all_dec [of c "nat i"] by simp
  then have "c \<noteq> CHR ''-''" by auto
  then show ?thesis
    using t c num_int_digits [OF t, of "nat i"] num_int_digits [OF t, of "nat (- i)"]
    by (auto simp: json_num_def format_int_def)
qed

definition num_head :: "char \<Rightarrow> bool" where
  "num_head c \<longleftrightarrow> is_dec c \<or> c = CHR ''-''"

lemma format_int_head: "num_head (hd (format_int i)) \<and> format_int i \<noteq> []"
proof -
  obtain c cs where c: "dec_digits (nat i) = c # cs" by (cases "dec_digits (nat i)") auto
  then have "is_dec c" using dec_digits_all_dec [of c "nat i"] by simp
  then show ?thesis using c by (simp add: format_int_def num_head_def)
qed

lemma json_value_num:
  assumes "num_stop t"
  shows "json_value (Suc n) d (format_int i @ t) = Some (JNum (format_int i), t)"
proof -
  obtain c cs where c: "format_int i = c # cs" "num_head c"
    using format_int_head [of i] by (cases "format_int i") auto
  then have "\<not> is_json_ws c"
    "c \<notin> {CHR ''{'', CHR ''['', quote_char, CHR ''t'', CHR ''f'', CHR ''n''}"
    by (auto simp: num_head_def is_dec_def is_json_ws_def)
  then show ?thesis
    using c json_num_format [OF assms, of i] by (simp add: json_ws_def)
qed


text \<open>The whole value: by induction on it, with fuel for the text and room for its depth.\<close>

lemma json_text_head:
  assumes "json_printable v"
  obtains c cs where "json_text v = c # cs" "\<not> is_json_ws c" "c \<noteq> CHR '']''" "c \<noteq> CHR ''}''"
proof (cases v)
  case (JNum l)
  then obtain i where "l = format_int i" using assms by auto
  then obtain c cs where "l = c # cs" "num_head c"
    using format_int_head [of i] by (metis list.collapse)
  moreover from this have "\<not> is_json_ws c" "c \<noteq> CHR '']''" "c \<noteq> CHR ''}''"
    by (auto simp: num_head_def is_dec_def is_json_ws_def)
  ultimately show thesis using that JNum by simp
next
  case (JBool b)
  then show thesis by (cases b) (auto simp: is_json_ws_def intro: that)
qed (auto simp: that json_quote_def is_json_ws_def)

lemma json_ws_text:
  "json_printable v \<Longrightarrow> json_ws (json_text v @ t) = json_text v @ t"
  by (rule json_text_head) (auto simp: json_ws_def)

lemma num_stop_punct [simp]:
  "num_stop (CHR '','' # t)" "num_stop (CHR '']'' # t)" "num_stop (CHR ''}'' # t)"
  by (simp_all add: num_stop_def is_dec_def)

lemma json_ws_punct [simp]:
  "json_ws (CHR '','' # t) = CHR '','' # t" "json_ws (CHR '']'' # t) = CHR '']'' # t"
  "json_ws (CHR ''}'' # t) = CHR ''}'' # t" "json_ws (CHR '':'' # t) = CHR '':'' # t"
  by (simp_all add: json_ws_def is_json_ws_def)

definition reads_back :: "nat \<Rightarrow> json \<Rightarrow> bool" where
  "reads_back d v \<longleftrightarrow>
     (\<forall>n t. num_stop t \<longrightarrow> 2 * length (json_text v @ t) < n \<longrightarrow>
        json_value n d (json_text v @ t) = Some (v, t))"

lemma json_elems_text:
  assumes "vs \<noteq> []" "\<forall>v \<in> set vs. reads_back d v"
    and "2 * length (join_on CHR '','' (map json_text vs) @ CHR '']'' # t) + 1 < n"
  shows "json_elems n d (join_on CHR '','' (map json_text vs) @ CHR '']'' # t) = Some (vs, t)"
  using assms
proof (induction vs arbitrary: n)
  case (Cons v vs)
  then obtain m where m: "n = Suc m" by (cases n) auto
  show ?case
  proof (cases vs)
    case Nil
    then have "json_value m d (json_text v @ CHR '']'' # t) = Some (v, CHR '']'' # t)"
      using Cons.prems m by (simp add: reads_back_def)
    then show ?thesis using Nil m by simp
  next
    case (Cons w ws)
    let ?rest = "join_on CHR '','' (map json_text vs) @ CHR '']'' # t"
    have e: "join_on CHR '','' (map json_text (v # vs)) @ CHR '']'' # t
        = json_text v @ CHR '','' # ?rest" using Cons by simp
    have "json_value m d (json_text v @ CHR '','' # ?rest) = Some (v, CHR '','' # ?rest)"
      using Cons.prems(2,3) m e by (simp add: reads_back_def)
    moreover have "json_elems m d ?rest = Some (vs, t)"
      using Cons.IH [of m] Cons Cons.prems(2,3) m e by simp
    ultimately show ?thesis unfolding e m by (simp add: cons_fst_def)
  qed
qed simp


abbreviation member_text :: "string \<times> json \<Rightarrow> string" where
  "member_text m \<equiv> json_quote (fst m) @ CHR '':'' # json_text (snd m)"

lemma json_members_step:
  assumes "valid_utf8 (fst m)" "reads_back d (snd m)" "num_stop t"
    and "2 * length (member_text m @ t) < n"
  obtains r where "json_ws (member_text m @ t) = quote_char # r"
    "json_str r = Some (runes (fst m), CHR '':'' # json_text (snd m) @ t)"
    "json_value n d (json_text (snd m) @ t) = Some (snd m, t)"
proof
  show "json_ws (member_text m @ t) =
      quote_char # json_quote_body (fst m) @ quote_char # CHR '':'' # json_text (snd m) @ t"
    by (simp add: json_quote_def json_ws_def is_json_ws_def)
  show "json_value n d (json_text (snd m) @ t) = Some (snd m, t)"
    using assms by (simp add: reads_back_def)
qed (rule json_str_quote_body)

lemma json_members_text:
  assumes "ms \<noteq> []" "\<forall>m \<in> set ms. valid_utf8 (fst m) \<and> reads_back d (snd m)"
    and "2 * length (join_on CHR '','' (map member_text ms) @ CHR ''}'' # t) + 1 < n"
  shows "json_members n d (join_on CHR '','' (map member_text ms) @ CHR ''}'' # t) = Some (ms, t)"
  using assms
proof (induction ms arbitrary: n)
  case (Cons m ms)
  then obtain k where k: "n = Suc k" by (cases n) auto
  have u: "string_of_runes (runes (fst m)) = fst m" "valid_utf8 (fst m)" "reads_back d (snd m)"
    using Cons.prems(2) by (simp_all add: valid_utf8_def)
  show ?case
  proof (cases ms)
    case Nil
    then have e: "join_on CHR '','' (map member_text (m # ms)) @ CHR ''}'' # t
        = member_text m @ CHR ''}'' # t" by simp
    have "2 * length (member_text m @ CHR ''}'' # t) < k" using Cons.prems(3) k e by simp
    then show ?thesis
      by (rule json_members_step [OF u(2,3) num_stop_punct(3)])
        (simp only: e k, simp add: u cons_fst_def Nil)
  next
    case (Cons w ws)
    let ?rest = "join_on CHR '','' (map member_text ms) @ CHR ''}'' # t"
    have e: "join_on CHR '','' (map member_text (m # ms)) @ CHR ''}'' # t
        = member_text m @ CHR '','' # ?rest" using Cons by simp
    have l: "2 * length (member_text m @ CHR '','' # ?rest) < k"
      using Cons.prems(3) unfolding e k by simp
    have M: "json_members k d ?rest = Some (ms, t)"
      using Cons.IH [of k] Cons Cons.prems(2) l by simp
    show ?thesis
      by (rule json_members_step [OF u(2,3) num_stop_punct(1) l])
        (simp only: e k, simp add: u cons_fst_def M)
  qed
qed simp

lemma foldr_max_ge: "x \<in> set xs \<Longrightarrow> x \<le> foldr max xs (a :: nat)"
  by (induction xs) auto

lemma json_text_nonempty_ws:
  assumes "json_printable v"
  shows "json_ws (json_text v @ t) \<noteq> []" "hd (json_ws (json_text v @ t)) \<noteq> CHR '']''"
  using assms json_text_head [of v] by (force simp: json_ws_text)+

lemma json_reads_back:
  "json_printable v \<Longrightarrow> d + json_depth v \<le> max_nesting \<Longrightarrow> reads_back d v"
proof (induction v arbitrary: d)
  case (JNum l)
  then show ?case unfolding reads_back_def
    using json_value_num by (metis Suc_pred' gr_implies_not0 json_printable.simps(1) json_text.simps(3) neq0_conv)
next
  case (JStr s)
  then show ?case unfolding reads_back_def
    using json_value_quote
    by (metis Suc_pred' gr_implies_not0 json_printable.simps(2) json_text.simps(4) neq0_conv)
next
  case (JArr vs)
  have d: "d < max_nesting" using JArr.prems(2) by simp
  have vs: "\<forall>v \<in> set vs. reads_back (Suc d) v"
  proof
    fix v assume v: "v \<in> set vs"
    then have "json_depth v \<le> foldr max (map json_depth vs) 0" by (simp add: foldr_max_ge)
    then show "reads_back (Suc d) v" using JArr v by simp
  qed
  show ?case unfolding reads_back_def
  proof (intro allI impI)
    fix n t assume n: "2 * length (json_text (JArr vs) @ t) < n"
    then obtain k where k: "n = Suc k" by (cases n) auto
    show "json_value n d (json_text (JArr vs) @ t) = Some (JArr vs, t)"
    proof (cases vs)
      case Nil
      then show ?thesis using d k by (simp add: json_ws_def is_json_ws_def)
    next
      case (Cons w ws)
      let ?body = "join_on CHR '','' (map json_text vs) @ CHR '']'' # t"
      have "json_elems k (Suc d) ?body = Some (vs, t)"
        using json_elems_text [OF _ vs, of t k] n k Cons by simp
      moreover obtain u where "?body = json_text w @ u" using Cons by (cases ws) auto
      then have "json_ws ?body \<noteq> []" "hd (json_ws ?body) \<noteq> CHR '']''"
        using json_text_nonempty_ws [of w u] JArr.prems(1) Cons by simp_all
      moreover have "json_ws (json_text (JArr vs) @ t) = CHR ''['' # ?body"
        by (simp add: json_ws_def is_json_ws_def)
      ultimately show ?thesis using d k by simp
    qed
  qed
next
  case (JObj ms)
  have d: "d < max_nesting" using JObj.prems(2) by simp
  have ms: "\<forall>m \<in> set ms. valid_utf8 (fst m) \<and> reads_back (Suc d) (snd m)"
  proof
    fix m assume m: "m \<in> set ms"
    then have "json_depth (snd m) \<le> foldr max (map (\<lambda>m. json_depth (snd m)) ms) 0"
      by (simp add: foldr_max_ge)
    then show "valid_utf8 (fst m) \<and> reads_back (Suc d) (snd m)"
      using JObj m by (cases m) auto
  qed
  show ?case unfolding reads_back_def
  proof (intro allI impI)
    fix n t assume n: "2 * length (json_text (JObj ms) @ t) < n"
    then obtain k where k: "n = Suc k" by (cases n) auto
    show "json_value n d (json_text (JObj ms) @ t) = Some (JObj ms, t)"
    proof (cases ms)
      case Nil
      then show ?thesis using d k by (simp add: json_ws_def is_json_ws_def)
    next
      case (Cons w ws)
      let ?body = "join_on CHR '','' (map member_text ms) @ CHR ''}'' # t"
      have "json_members k (Suc d) ?body = Some (ms, t)"
        using json_members_text [OF _ ms, of t k] n k Cons by simp
      moreover obtain u where "?body = quote_char # u"
        using Cons by (cases ws) (auto simp: json_quote_def)
      then have "json_ws ?body \<noteq> []" "hd (json_ws ?body) \<noteq> CHR ''}''"
        by (simp_all add: json_ws_def is_json_ws_def)
      moreover have "json_ws (json_text (JObj ms) @ t) = CHR ''{'' # ?body"
        by (simp add: json_ws_def is_json_ws_def)
      ultimately show ?thesis using d k by simp
    qed
  qed
next
  case (JBool b)
  have "json_value (Suc k) d (json_text (JBool b) @ t) = Some (JBool b, t)" for k t
    by (cases b) (simp_all add: json_ws_def is_json_ws_def)
  then show ?case unfolding reads_back_def by (metis gr_implies_not0 not0_implies_Suc)
next
  case JNull
  have "json_value (Suc k) d (json_text JNull @ t) = Some (JNull, t)" for k t
    by (simp add: json_ws_def is_json_ws_def)
  then show ?case unfolding reads_back_def by (metis gr_implies_not0 not0_implies_Suc)
qed

theorem json_unmarshal_text:
  assumes "json_printable v" "json_depth v \<le> max_nesting"
  shows "json_unmarshal (json_text v) = Some v"
proof -
  have "json_value (2 * length (json_text v) + 1) 0 (json_text v @ []) = Some (v, [])"
    using json_reads_back [of v 0] assms
    unfolding reads_back_def by (auto simp: num_stop_def simp del: json_value.simps)
  then show ?thesis by (simp add: json_unmarshal_def json_ws_def)
qed

end
