(* ===== verification/Go_Json_Decode.thy ===== *)
theory Go_Json_Decode
  imports Go_Json_Print
begin

text \<open>
  How \<open>json.Unmarshal\<close> stores a parsed value into typed Go variables. A decoder takes the
  value and what the variable held before: \<open>null\<close> leaves a scalar or a struct as it was and
  clears a pointer or a slice; a member of an object goes to the field of that name, else to
  the field whose name folds to the same letters; unknown members are skipped; members of
  the same name are stored in their order. A value of the wrong kind is an error of the
  whole call.

  One corner is simplified: an array stored twice into one slice, the second time shorter,
  keeps no memory of the elements beyond its length.
\<close>

type_synonym 'a decoder = "json \<Rightarrow> 'a \<Rightarrow> 'a option"

fun dec_string :: "string decoder" where
  "dec_string (JStr s) p = Some s"
| "dec_string JNull p = Some p"
| "dec_string _ p = None"

fun dec_int :: "int decoder" where
  "dec_int (JNum l) p = parse_int64 l"
| "dec_int JNull p = Some p"
| "dec_int _ p = None"

fun dec_bool :: "bool decoder" where
  "dec_bool (JBool b) p = Some b"
| "dec_bool JNull p = Some p"
| "dec_bool _ p = None"

definition dec_ptr :: "'a decoder \<Rightarrow> 'a \<Rightarrow> 'a option decoder" where
  "dec_ptr d zero v p =
     (if v = JNull then Some None
      else map_option Some (d v (case p of Some x \<Rightarrow> x | None \<Rightarrow> zero)))"

fun dec_elems :: "'a decoder \<Rightarrow> 'a \<Rightarrow> json list \<Rightarrow> 'a list \<Rightarrow> 'a list option" where
  "dec_elems d zero [] ps = Some []"
| "dec_elems d zero (v # vs) ps =
     (case (d v (case ps of p # _ \<Rightarrow> p | [] \<Rightarrow> zero), dec_elems d zero vs (tl ps)) of
        (Some x, Some xs) \<Rightarrow> Some (x # xs)
      | _ \<Rightarrow> None)"

fun dec_slice :: "'a decoder \<Rightarrow> 'a \<Rightarrow> 'a list decoder" where
  "dec_slice d zero JNull ps = Some []"
| "dec_slice d zero (JArr vs) ps = dec_elems d zero vs ps"
| "dec_slice d zero _ ps = None"

text \<open>\<open>json.RawMessage\<close> keeps the value unread, even \<open>null\<close>; absent is the empty message.\<close>

definition dec_raw :: "json option decoder" where
  "dec_raw v p = Some (Some v)"

definition fold_rune :: "nat \<Rightarrow> nat" where
  "fold_rune r =
     (if 97 \<le> r \<and> r \<le> 122 then r - 32
      else if r = 0x17F then 83 else if r = 0x212A then 75 else r)"

definition fold_key :: "string \<Rightarrow> nat list" where
  "fold_key k = map fold_rune (runes k)"

type_synonym 'r fields = "(string \<times> 'r decoder) list"

definition field_for :: "'r fields \<Rightarrow> string \<Rightarrow> 'r decoder option" where
  "field_for fs k =
     (case map_of fs k of
        Some d \<Rightarrow> Some d
      | None \<Rightarrow> map_option snd (find (\<lambda>f. fold_key (fst f) = fold_key k) fs))"

definition dec_field :: "('r \<Rightarrow> 'a) \<Rightarrow> ('a \<Rightarrow> 'r \<Rightarrow> 'r) \<Rightarrow> 'a decoder \<Rightarrow> 'r decoder" where
  "dec_field get put d v r = map_option (\<lambda>x. put x r) (d v (get r))"

fun dec_members :: "'r fields \<Rightarrow> (string \<times> json) list \<Rightarrow> 'r \<Rightarrow> 'r option" where
  "dec_members fs [] r = Some r"
| "dec_members fs (m # ms) r =
     (case field_for fs (fst m) of
        None \<Rightarrow> dec_members fs ms r
      | Some d \<Rightarrow> Option.bind (d (snd m) r) (dec_members fs ms))"

fun dec_struct :: "'r fields \<Rightarrow> 'r decoder" where
  "dec_struct fs (JObj ms) r = dec_members fs ms r"
| "dec_struct fs JNull r = Some r"
| "dec_struct fs _ r = None"

text \<open>\<open>Unmarshal\<close> and the first value of a \<open>Decoder\<close>, into a struct with these fields.\<close>

definition unmarshal_into :: "'a decoder \<Rightarrow> string \<Rightarrow> 'a \<Rightarrow> 'a option" where
  "unmarshal_into d raw zero = Option.bind (json_unmarshal raw) (\<lambda>v. d v zero)"

definition decode_first_into :: "'a decoder \<Rightarrow> string \<Rightarrow> 'a \<Rightarrow> 'a option" where
  "decode_first_into d raw zero = Option.bind (json_decode_first raw) (\<lambda>v. d v zero)"

text \<open>An integer field is what was printed, when it fits in 64 bits.\<close>

definition jint :: "int \<Rightarrow> json" where
  "jint i = JNum (format_int i)"

lemma dec_int_jint [simp]: "int64 i \<Longrightarrow> dec_int (jint i) p = Some i"
  by (simp add: jint_def parse_format_int)

lemma printable_jint [simp]: "json_printable (jint i)" "json_depth (jint i) = 0"
  by (auto simp: jint_def)

text \<open>\<open>omitempty\<close>: a member is printed only when its value is not the zero value.\<close>

definition omit_empty :: "bool \<Rightarrow> string \<times> json \<Rightarrow> (string \<times> json) list" where
  "omit_empty present m = (if present then [m] else [])"

lemma unmarshal_into_text:
  "json_printable v \<Longrightarrow> json_depth v \<le> max_nesting \<Longrightarrow>
   unmarshal_into d (json_text v) zero = d v zero"
  by (simp add: unmarshal_into_def json_unmarshal_text)

lemma json_unmarshal_first: "json_unmarshal raw = Some v \<Longrightarrow> json_decode_first raw = Some v"
  by (auto simp: json_unmarshal_def json_decode_first_def split: option.splits if_splits
      simp del: json_value.simps)

lemma dec_members_append:
  "dec_members fs (ms @ ns) r = Option.bind (dec_members fs ms r) (dec_members fs ns)"
  by (induction ms arbitrary: r) (auto split: option.split bind_split)


text \<open>Field names are ASCII, so folding a literal name computes.\<close>

lemma fold_key_Nil [simp]: "fold_key [] = []"
  by (simp add: fold_key_def)

lemma fold_key_Cons [simp]: "byte c < 128 \<Longrightarrow> fold_key (c # s) = fold_rune (byte c) # fold_key s"
  by (simp add: fold_key_def runes_ascii_Cons)

lemma field_for_Nil [simp]: "field_for [] k = None"
  by (simp add: field_for_def)

lemma field_for_single:
  "field_for [(n, d)] k = (if fold_key n = fold_key k then Some d else None)"
  by (auto simp: field_for_def)

text \<open>A member whose name is printed as declared goes to its field.\<close>

lemma field_for_exact: "map_of fs k = Some d \<Longrightarrow> field_for fs k = Some d"
  by (simp add: field_for_def)

lemma find_SomeD: "find P xs = Some x \<Longrightarrow> x \<in> set xs \<and> P x"
  by (induction xs) (auto split: if_splits)

lemma field_for_mem:
  "field_for fs k = Some d \<Longrightarrow> \<exists>n. (n, d) \<in> set fs \<and> fold_key n = fold_key k"
  by (fastforce simp: field_for_def dest: map_of_SomeD find_SomeD split: option.splits)

lemma field_for_fold:
  assumes "distinct (map (fold_key \<circ> fst) fs)" "(n, d) \<in> set fs" "fold_key k = fold_key n"
  shows "field_for fs k = Some d"
proof -
  have uniq: "d' = d" if "(n', d') \<in> set fs" "fold_key n' = fold_key n" for n' d'
    using that assms(1,2) by (force simp: distinct_map inj_on_def)
  show ?thesis
  proof (cases "map_of fs k")
    case (Some d')
    then show ?thesis using uniq [of k d'] assms(3) by (auto simp: field_for_def dest: map_of_SomeD)
  next
    case None
    obtain f where "find (\<lambda>f. fold_key (fst f) = fold_key k) fs = Some f"
      using assms(2,3) by (cases "find (\<lambda>f. fold_key (fst f) = fold_key k) fs")
        (auto simp: find_None_iff)
    moreover from this have "(fst f, snd f) \<in> set fs" "fold_key (fst f) = fold_key k"
      using find_SomeD by fastforce+
    ultimately show ?thesis using None uniq [of "fst f" "snd f"] assms(3)
      by (simp add: field_for_def)
  qed
qed

section \<open>Strings and string lists read back\<close>

lemma valid_utf8_ascii: "\<forall>c \<in> set s. byte c < 128 \<Longrightarrow> valid_utf8 s"
  unfolding valid_utf8_def
  by (induction s) (auto simp: runes_ascii_Cons string_of_runes_def encode_rune_def)

lemma dec_elems_strings [simp]:
  "dec_elems dec_string zero (map JStr xs) ps = Some xs"
  by (induction xs arbitrary: ps) auto

lemma json_depth_strings [simp]: "foldr max (map (json_depth \<circ> JStr) xs) 0 = 0"
  by (induction xs) auto

lemma json_unmarshal_text_newline:
  assumes "json_printable v" "json_depth v \<le> max_nesting"
  shows "json_unmarshal (json_text v @ [CHR 0x0A]) = Some v"
proof -
  have "num_stop [CHR 0x0A]" by (simp add: num_stop_def is_dec_def)
  then have "json_value (2 * length (json_text v @ [CHR 0x0A]) + 1) 0 (json_text v @ [CHR 0x0A])
      = Some (v, [CHR 0x0A])"
    using json_reads_back [of v 0] assms unfolding reads_back_def
    by (metis add_0 less_add_one)
  then show ?thesis
    unfolding json_unmarshal_def by (simp add: json_ws_def is_json_ws_def del: json_value.simps)
qed

end
