(* ===== verification/Version_Gate.thy ===== *)
theory Version_Gate
  imports Go_Json_Decode
begin

text \<open>
  The wire envelope (\<open>packages/core/envelope.go\<close>) and the version gate in front of every
  message (\<open>packages/core/version.go\<close>): the sender and header records with their JSON
  fields, the two version checks, the payloads that tell a peer to update, the gate that
  reads only \<open>protocol_v\<close> before it trusts the rest, and the printed form of an envelope.
\<close>

section \<open>Errors, constants, records\<close>

text \<open>The sentinel an error wraps and the numbers its message names.\<close>

datatype core_error =
    ErrDecode string
  | ErrUnsupportedProtocol int
  | ErrPeerOutdated int int
  | ErrLocalOutdated int int
  | ErrMissingPayload string

definition CurrentProtocolV :: int where [go_consts]: "CurrentProtocolV = 1"
definition CurrentBuild :: int where [go_consts]: "CurrentBuild = 13"
definition CurrentMinPeerBuild :: int where [go_consts]: "CurrentMinPeerBuild = 1"
definition CurrentAppVersion :: string where [go_consts]: "CurrentAppVersion = ''0.13.0''"

definition BuildToVersion :: "int \<Rightarrow> string option" where
  "BuildToVersion = map_of
     [(1, ''0.1.0''), (2, ''0.2.0''), (3, ''0.3.0''), (4, ''0.4.0''), (5, ''0.5.0''),
      (6, ''0.6.0''), (7, ''0.7.0''), (8, ''0.8.0''), (9, ''0.9.0''), (10, ''0.10.0''),
      (11, ''0.11.0''), (12, ''0.12.0''), (13, ''0.13.0'')]"

definition MinPeerBuildByProtocol :: "int \<Rightarrow> int option" where
  "MinPeerBuildByProtocol = map_of [(1, 1)]"

record SenderInfo =
  si_Platform :: string
  si_AppBuild :: int
  si_MinPeerBuild :: int
  si_AppVersion :: string

definition zero_SenderInfo :: SenderInfo where
  "zero_SenderInfo =
     \<lparr>si_Platform = [], si_AppBuild = 0, si_MinPeerBuild = 0, si_AppVersion = []\<rparr>"

definition SenderInfo_fields :: "SenderInfo fields" where
  "SenderInfo_fields =
     [(''platform'', dec_field si_Platform (\<lambda>x. si_Platform_update (\<lambda>_. x)) dec_string),
      (''app_build'', dec_field si_AppBuild (\<lambda>x. si_AppBuild_update (\<lambda>_. x)) dec_int),
      (''min_peer_build'',
        dec_field si_MinPeerBuild (\<lambda>x. si_MinPeerBuild_update (\<lambda>_. x)) dec_int),
      (''app_version'', dec_field si_AppVersion (\<lambda>x. si_AppVersion_update (\<lambda>_. x)) dec_string)]"

definition CurrentSender :: "string \<Rightarrow> SenderInfo" where
  "CurrentSender platform =
     \<lparr>si_Platform = platform, si_AppBuild = CurrentBuild,
      si_MinPeerBuild = CurrentMinPeerBuild, si_AppVersion = CurrentAppVersion\<rparr>"

definition AppVersionForBuild :: "int \<Rightarrow> string" where
  "AppVersionForBuild build = (case BuildToVersion build of Some v \<Rightarrow> v | None \<Rightarrow> [])"

record Header =
  h_ProtocolV :: int
  h_Type :: string
  h_Sender :: SenderInfo
  h_Capabilities :: "string list"

definition zero_Header :: Header where
  "zero_Header =
     \<lparr>h_ProtocolV = 0, h_Type = [], h_Sender = zero_SenderInfo, h_Capabilities = []\<rparr>"

definition Header_fields :: "Header fields" where
  "Header_fields =
     [(''protocol_v'', dec_field h_ProtocolV (\<lambda>x. h_ProtocolV_update (\<lambda>_. x)) dec_int),
      (''type'', dec_field h_Type (\<lambda>x. h_Type_update (\<lambda>_. x)) dec_string),
      (''sender'',
        dec_field h_Sender (\<lambda>x. h_Sender_update (\<lambda>_. x)) (dec_struct SenderInfo_fields)),
      (''capabilities'',
        dec_field h_Capabilities (\<lambda>x. h_Capabilities_update (\<lambda>_. x)) (dec_slice dec_string []))]"

section \<open>The version checks\<close>

definition CheckProtocolVersion :: "int \<Rightarrow> core_error option" where
  "CheckProtocolVersion v =
     (case MinPeerBuildByProtocol v of
        Some _ \<Rightarrow> None
      | None \<Rightarrow> Some (ErrUnsupportedProtocol v))"

definition CheckPeerVersion :: "SenderInfo \<Rightarrow> core_error option" where
  "CheckPeerVersion sender =
     (if CurrentBuild < si_MinPeerBuild sender
      then Some (ErrLocalOutdated CurrentBuild (si_MinPeerBuild sender))
      else if si_AppBuild sender < CurrentMinPeerBuild
      then Some (ErrPeerOutdated (si_AppBuild sender) CurrentMinPeerBuild)
      else None)"

definition RequiredBuildFor :: "int \<Rightarrow> core_error + int" where
  "RequiredBuildFor protocolV =
     (case MinPeerBuildByProtocol protocolV of
        None \<Rightarrow> Inl (ErrUnsupportedProtocol protocolV)
      | Some build \<Rightarrow> Inr build)"

record UpdateRequiredPayload =
  ur_Code :: string
  ur_Message :: string
  ur_RequiredBuild :: int
  ur_RequiredVersion :: string
  ur_CurrentVersion :: string
  ur_CurrentBuild :: int
  ur_Device :: string

definition CodeUpdateRequired :: string where [go_consts]: "CodeUpdateRequired = ''UPDATE_REQUIRED''"
definition CodeUnauthorized :: string where [go_consts]: "CodeUnauthorized = ''UNAUTHORIZED''"
definition CodeBadRequest :: string where [go_consts]: "CodeBadRequest = ''BAD_REQUEST''"

definition NewUpdateRequiredPayload :: "string \<Rightarrow> int \<Rightarrow> UpdateRequiredPayload" where
  "NewUpdateRequiredPayload device requiredBuild =
     (let requiredVersion = AppVersionForBuild requiredBuild;
          msg = (if requiredVersion \<noteq> []
                 then ''Update FuseItAll on '' @ device @ '' to '' @ requiredVersion @
                      '' (build >= '' @ format_int requiredBuild @ ''); current '' @
                      CurrentAppVersion @ '' (build '' @ format_int CurrentBuild @ '')''
                 else ''Update FuseItAll on '' @ device @ '' to build >= '' @
                      format_int requiredBuild)
      in \<lparr>ur_Code = CodeUpdateRequired, ur_Message = msg, ur_RequiredBuild = requiredBuild,
          ur_RequiredVersion = requiredVersion, ur_CurrentVersion = CurrentAppVersion,
          ur_CurrentBuild = CurrentBuild, ur_Device = device\<rparr>)"

definition NewPeerUpdateRequiredPayload :: "string \<Rightarrow> int \<Rightarrow> int \<Rightarrow> UpdateRequiredPayload" where
  "NewPeerUpdateRequiredPayload device requiredBuild peerBuild =
     (let requiredVersion = AppVersionForBuild requiredBuild;
          peerVersion = AppVersionForBuild peerBuild;
          msg = (if requiredVersion \<noteq> [] \<and> peerVersion \<noteq> []
                 then ''Update FuseItAll on '' @ device @ '' to '' @ requiredVersion @
                      '' (build >= '' @ format_int requiredBuild @ ''); current '' @
                      peerVersion @ '' (build '' @ format_int peerBuild @ '')''
                 else if requiredVersion \<noteq> []
                 then ''Update FuseItAll on '' @ device @ '' to '' @ requiredVersion @
                      '' (build >= '' @ format_int requiredBuild @ '')''
                 else ''Update FuseItAll on '' @ device @ '' to build >= '' @
                      format_int requiredBuild)
      in \<lparr>ur_Code = CodeUpdateRequired, ur_Message = msg, ur_RequiredBuild = requiredBuild,
          ur_RequiredVersion = requiredVersion, ur_CurrentVersion = peerVersion,
          ur_CurrentBuild = peerBuild, ur_Device = device\<rparr>)"

section \<open>Envelopes\<close>

record Envelope =
  env_ProtocolV :: int
  env_Type :: string
  env_Sender :: SenderInfo
  env_Capabilities :: "string list"
  env_Payload :: "json option"

definition zero_Envelope :: Envelope where
  "zero_Envelope =
     \<lparr>env_ProtocolV = 0, env_Type = [], env_Sender = zero_SenderInfo, env_Capabilities = [],
      env_Payload = None\<rparr>"

definition Envelope_fields :: "Envelope fields" where
  "Envelope_fields =
     [(''protocol_v'', dec_field env_ProtocolV (\<lambda>x. env_ProtocolV_update (\<lambda>_. x)) dec_int),
      (''type'', dec_field env_Type (\<lambda>x. env_Type_update (\<lambda>_. x)) dec_string),
      (''sender'',
        dec_field env_Sender (\<lambda>x. env_Sender_update (\<lambda>_. x)) (dec_struct SenderInfo_fields)),
      (''capabilities'',
        dec_field env_Capabilities (\<lambda>x. env_Capabilities_update (\<lambda>_. x))
          (dec_slice dec_string [])),
      (''payload'', dec_field env_Payload (\<lambda>x. env_Payload_update (\<lambda>_. x)) dec_raw)]"

text \<open>The payload argument is what \<open>json.Marshal\<close> makes of the payload struct, if any.\<close>

definition NewEnvelope :: "string \<Rightarrow> SenderInfo \<Rightarrow> string list \<Rightarrow> json option \<Rightarrow> Envelope" where
  "NewEnvelope msgType sender capabilities payload =
     \<lparr>env_ProtocolV = CurrentProtocolV, env_Type = msgType, env_Sender = sender,
      env_Capabilities = capabilities, env_Payload = payload\<rparr>"

definition SenderInfo_json :: "SenderInfo \<Rightarrow> json" where
  "SenderInfo_json s = JObj
     ([(''platform'', JStr (si_Platform s)), (''app_build'', jint (si_AppBuild s)),
       (''min_peer_build'', jint (si_MinPeerBuild s))] @
      omit_empty (si_AppVersion s \<noteq> []) (''app_version'', JStr (si_AppVersion s)))"

definition Envelope_json :: "Envelope \<Rightarrow> json" where
  "Envelope_json e = JObj
     ([(''protocol_v'', jint (env_ProtocolV e)), (''type'', JStr (env_Type e)),
       (''sender'', SenderInfo_json (env_Sender e)),
       (''capabilities'', JArr (map JStr (env_Capabilities e)))] @
      (case env_Payload e of None \<Rightarrow> [] | Some v \<Rightarrow> [(''payload'', v)]))"

definition DecodePayload :: "'a decoder \<Rightarrow> 'a \<Rightarrow> Envelope \<Rightarrow> core_error + 'a" where
  "DecodePayload d zero env =
     (case env_Payload env of
        None \<Rightarrow> Inl (ErrMissingPayload (env_Type env))
      | Some v \<Rightarrow>
          (case d v zero of
             None \<Rightarrow> Inl (ErrDecode (env_Type env))
           | Some x \<Rightarrow> Inr x))"

definition IsCapabilitySupported :: "string list \<Rightarrow> string \<Rightarrow> bool" where
  "IsCapabilitySupported caps required = list_ex (\<lambda>cap. cap = required) caps"

section \<open>The gate\<close>

definition pre_fields :: "int fields" where
  "pre_fields = [(''protocol_v'', dec_int)]"

definition ParseAndGateHeader :: "string \<Rightarrow> Header \<times> core_error option" where
  "ParseAndGateHeader raw =
     (case decode_first_into (dec_struct pre_fields) raw 0 of
        None \<Rightarrow> (zero_Header, Some (ErrDecode ''envelope header''))
      | Some pre \<Rightarrow>
          (case CheckProtocolVersion pre of
             Some err \<Rightarrow> (zero_Header, Some err)
           | None \<Rightarrow>
               (case unmarshal_into (dec_struct Header_fields) raw zero_Header of
                  None \<Rightarrow> (zero_Header, Some (ErrDecode ''envelope header''))
                | Some hdr \<Rightarrow>
                    (case CheckPeerVersion (h_Sender hdr) of
                       Some err \<Rightarrow> (hdr, Some err)
                     | None \<Rightarrow> (hdr, None)))))"

section \<open>Device labels\<close>

definition MaxDeviceLabelLen :: nat where [go_consts]: "MaxDeviceLabelLen = 64"

definition SanitizeDeviceLabel :: "string \<Rightarrow> string option" where
  "SanitizeDeviceLabel s =
     (let trimmed = trim_space s
      in if trimmed = [] \<or> MaxDeviceLabelLen < length (runes trimmed) then None
         else Some trimmed)"

definition SanitizeBatteryPct :: "int \<Rightarrow> bool" where
  "SanitizeBatteryPct pct \<longleftrightarrow> 0 \<le> pct \<and> pct \<le> 100"


section \<open>What the gate lets through\<close>

lemma Header_fields_folds: "distinct (map (fold_key \<circ> fst) Header_fields)"
  by (simp add: Header_fields_def fold_rune_def)

lemma Header_member_other:
  assumes "fold_key k \<noteq> fold_key ''protocol_v''"
    and "field_for Header_fields k = Some d" "d v h = Some h'"
  shows "h_ProtocolV h' = h_ProtocolV h"
proof -
  obtain n where n: "(n, d) \<in> set Header_fields" "fold_key n = fold_key k"
    using field_for_mem [OF assms(2)] by blast
  then have "n \<noteq> ''protocol_v''" using assms(1) by auto
  then show ?thesis
    using n(1) assms(3) by (auto simp: Header_fields_def dec_field_def)
qed

lemma Header_ProtocolV:
  "dec_members Header_fields ms h = Some h' \<Longrightarrow>
   dec_members pre_fields ms (h_ProtocolV h) = Some (h_ProtocolV h')"
proof (induction ms arbitrary: h)
  case (Cons m ms)
  show ?case
  proof (cases "fold_key (fst m) = fold_key ''protocol_v''")
    case True
    then have "field_for Header_fields (fst m) =
        Some (dec_field h_ProtocolV (\<lambda>x. h_ProtocolV_update (\<lambda>_. x)) dec_int)"
      by (intro field_for_fold [OF Header_fields_folds _ True]) (simp add: Header_fields_def)
    then obtain x where x: "dec_int (snd m) (h_ProtocolV h) = Some x"
      "dec_members Header_fields ms (h\<lparr>h_ProtocolV := x\<rparr>) = Some h'"
      using Cons.prems by (auto simp: dec_field_def bind_eq_Some_conv)
    then have "dec_members pre_fields ms x = Some (h_ProtocolV h')"
      using Cons.IH [OF x(2)] by simp
    then show ?thesis using True x(1) by (simp add: pre_fields_def field_for_single)
  next
    case False
    then have "field_for pre_fields (fst m) = None"
      unfolding pre_fields_def field_for_single by metis
    moreover obtain h1 where "dec_members Header_fields ms h1 = Some h'"
      "h_ProtocolV h1 = h_ProtocolV h"
      using Cons.prems Header_member_other [OF False]
      by (auto simp: bind_eq_Some_conv split: option.splits)
    ultimately show ?thesis using Cons.IH by fastforce
  qed
qed simp

lemma CheckProtocolVersion_iff: "CheckProtocolVersion v = None \<longleftrightarrow> v = CurrentProtocolV"
  by (simp add: CheckProtocolVersion_def MinPeerBuildByProtocol_def go_consts)

lemma CheckPeerVersion_iff:
  "CheckPeerVersion s = None \<longleftrightarrow>
   si_MinPeerBuild s \<le> CurrentBuild \<and> CurrentMinPeerBuild \<le> si_AppBuild s"
  by (auto simp: CheckPeerVersion_def)

lemma dec_struct_Header_ProtocolV:
  "dec_struct Header_fields v zero_Header = Some h \<Longrightarrow>
   dec_struct pre_fields v 0 = Some (h_ProtocolV h)"
  using Header_ProtocolV [of _ zero_Header h] by (cases v) (auto simp: zero_Header_def)

lemma gate_iff:
  "ParseAndGateHeader raw = (hdr, None) \<longleftrightarrow>
     (unmarshal_into (dec_struct Header_fields) raw zero_Header = Some hdr \<and>
      h_ProtocolV hdr = CurrentProtocolV \<and>
      si_MinPeerBuild (h_Sender hdr) \<le> CurrentBuild \<and>
      CurrentMinPeerBuild \<le> si_AppBuild (h_Sender hdr))"
proof (cases "unmarshal_into (dec_struct Header_fields) raw zero_Header")
  case None
  then show ?thesis by (auto simp: ParseAndGateHeader_def split: option.splits)
next
  case (Some h)
  then obtain v where v: "json_unmarshal raw = Some v"
    "dec_struct Header_fields v zero_Header = Some h"
    by (auto simp: unmarshal_into_def bind_eq_Some_conv)
  then have "decode_first_into (dec_struct pre_fields) raw 0 = Some (h_ProtocolV h)"
    using dec_struct_Header_ProtocolV [OF v(2)] json_unmarshal_first [OF v(1)]
    by (simp add: decode_first_into_def)
  then show ?thesis
    using Some CheckProtocolVersion_iff [of "h_ProtocolV h"] CheckPeerVersion_iff [of "h_Sender h"]
    by (auto simp: ParseAndGateHeader_def split: option.splits)
qed

text \<open>
  C1. A message passes the gate exactly when its bytes are one JSON value that decodes to a
  header, the protocol version that header carries is the one this build speaks, this build
  is not older than the peer's minimum and the peer is not older than ours; and the header
  returned is then the decoded one.
\<close>

theorem gate_accepts_iff:
  "ParseAndGateHeader raw = (hdr, None) \<longleftrightarrow>
     (unmarshal_into (dec_struct Header_fields) raw zero_Header = Some hdr \<and>
      h_ProtocolV hdr = CurrentProtocolV \<and>
      si_MinPeerBuild (h_Sender hdr) \<le> CurrentBuild \<and>
      CurrentMinPeerBuild \<le> si_AppBuild (h_Sender hdr))"
  by (rule gate_iff)

section \<open>An envelope survives the wire\<close>

definition sender_ok :: "SenderInfo \<Rightarrow> bool" where
  "sender_ok s \<longleftrightarrow> valid_utf8 (si_Platform s) \<and> valid_utf8 (si_AppVersion s) \<and>
     int64 (si_AppBuild s) \<and> int64 (si_MinPeerBuild s)"

definition envelope_ok :: "Envelope \<Rightarrow> bool" where
  "envelope_ok e \<longleftrightarrow> int64 (env_ProtocolV e) \<and> valid_utf8 (env_Type e) \<and>
     sender_ok (env_Sender e) \<and> list_all valid_utf8 (env_Capabilities e) \<and>
     (case env_Payload e of
        None \<Rightarrow> True | Some v \<Rightarrow> json_printable v \<and> json_depth v < max_nesting)"

lemma dec_SenderInfo_json [simp]:
  "sender_ok s \<Longrightarrow> dec_struct SenderInfo_fields (SenderInfo_json s) zero_SenderInfo = Some s"
  by (simp add: SenderInfo_json_def SenderInfo_fields_def field_for_exact dec_field_def
      omit_empty_def zero_SenderInfo_def sender_ok_def)

lemma dec_Envelope_json:
  "envelope_ok e \<Longrightarrow> dec_struct Envelope_fields (Envelope_json e) zero_Envelope = Some e"
  by (cases "env_Payload e")
    (simp_all add: Envelope_json_def Envelope_fields_def field_for_exact dec_field_def
      zero_Envelope_def envelope_ok_def dec_raw_def)

definition header_of :: "Envelope \<Rightarrow> Header" where
  "header_of e =
     \<lparr>h_ProtocolV = env_ProtocolV e, h_Type = env_Type e, h_Sender = env_Sender e,
      h_Capabilities = env_Capabilities e\<rparr>"

lemma field_for_payload: "field_for Header_fields ''payload'' = None"
  by (simp add: Header_fields_def field_for_def fold_rune_def)

lemma dec_Header_json:
  assumes "envelope_ok e"
  shows "dec_struct Header_fields (Envelope_json e) zero_Header = Some (header_of e)"
  using assms field_for_payload
  by (cases "env_Payload e")
    (simp_all add: Envelope_json_def Header_fields_def field_for_exact dec_field_def
      zero_Header_def envelope_ok_def header_of_def)

lemma Envelope_json_printable:
  assumes "envelope_ok e"
  shows "json_printable (Envelope_json e)" "json_depth (Envelope_json e) \<le> max_nesting"
proof -
  have k: "valid_utf8 k" if "k \<in> {''protocol_v'', ''type'', ''sender'', ''capabilities'',
      ''payload'', ''platform'', ''app_build'', ''min_peer_build'', ''app_version''}" for k
    using that by (intro valid_utf8_ascii) auto
  show "json_printable (Envelope_json e)"
    using assms k by (auto simp: Envelope_json_def SenderInfo_json_def envelope_ok_def
        sender_ok_def omit_empty_def list_all_iff split: option.splits)
  have caps: "foldr max (map (json_depth \<circ> JStr) xs) 0 = 0" for xs
    by (induction xs) auto
  show "json_depth (Envelope_json e) \<le> max_nesting"
    using assms caps by (auto simp: Envelope_json_def SenderInfo_json_def envelope_ok_def
        omit_empty_def max_nesting_def split: option.splits)
qed

text \<open>
  What a sender prints is what a receiver reads: an envelope built by this build, with
  UTF-8 strings, 64-bit builds and a printable payload, printed and decoded again, is the
  same envelope, and the receiver's gate returns its header with no error whenever the
  sender's builds are compatible.
\<close>

theorem envelope_round_trip:
  assumes "envelope_ok (NewEnvelope t sender caps payload)"
    and "CheckPeerVersion sender = None"
  shows "unmarshal_into (dec_struct Envelope_fields)
           (json_text (Envelope_json (NewEnvelope t sender caps payload))) zero_Envelope
           = Some (NewEnvelope t sender caps payload) \<and>
         ParseAndGateHeader (json_text (Envelope_json (NewEnvelope t sender caps payload)))
           = (header_of (NewEnvelope t sender caps payload), None)"
proof
  note ok = Envelope_json_printable [OF assms(1)]
  show "unmarshal_into (dec_struct Envelope_fields)
      (json_text (Envelope_json (NewEnvelope t sender caps payload))) zero_Envelope
      = Some (NewEnvelope t sender caps payload)"
    by (simp only: unmarshal_into_text [OF ok] dec_Envelope_json [OF assms(1)])
  have "unmarshal_into (dec_struct Header_fields)
      (json_text (Envelope_json (NewEnvelope t sender caps payload))) zero_Header
      = Some (header_of (NewEnvelope t sender caps payload))"
    by (simp only: unmarshal_into_text [OF ok] dec_Header_json [OF assms(1)])
  then show "ParseAndGateHeader (json_text (Envelope_json (NewEnvelope t sender caps payload)))
      = (header_of (NewEnvelope t sender caps payload), None)"
    using assms(2) by (subst gate_iff)
      (simp add: header_of_def NewEnvelope_def CheckPeerVersion_iff)
qed

theorem envelope_round_trip_witness:
  "ParseAndGateHeader (json_text (Envelope_json (NewEnvelope ''ping'' (CurrentSender ''mac'')
     [''ping''] (Some (JObj [(''nonce'', JStr ''n1''), (''sent_at'', jint 7)])))))
   = (header_of (NewEnvelope ''ping'' (CurrentSender ''mac'') [''ping'']
        (Some (JObj [(''nonce'', JStr ''n1''), (''sent_at'', jint 7)]))), None)"
proof -
  have "envelope_ok (NewEnvelope ''ping'' (CurrentSender ''mac'') [''ping'']
      (Some (JObj [(''nonce'', JStr ''n1''), (''sent_at'', jint 7)])))"
    by (simp add: envelope_ok_def sender_ok_def NewEnvelope_def CurrentSender_def go_consts
        valid_utf8_ascii int64_def max_nesting_def)
  moreover have "CheckPeerVersion (CurrentSender ''mac'') = None"
    by (simp add: CheckPeerVersion_def CurrentSender_def go_consts)
  ultimately show ?thesis using envelope_round_trip by blast
qed

end
