(* ===== verification/Go_Encoding.thy ===== *)
theory Go_Encoding
  imports Go_Text "HOL-Library.Word"
begin

unbundle bit_operations_syntax

text \<open>
  The binary-to-text codecs and the hash the program uses: \<open>encoding/hex\<close>,
  \<open>encoding/base64\<close> (\<open>StdEncoding\<close> with padding, \<open>RawURLEncoding\<close> without; both skip
  CR and LF when they decode and, not being strict, ignore the trailing bits of a last
  partial quantum) and \<open>crypto/sha256\<close>. The laws the clients use are the locales
  \<open>codec\<close> (decoding what was encoded gives it back) and \<open>byte_codec\<close> (a bound on the
  decoded length).
\<close>

section \<open>The contract of a codec\<close>

locale codec =
  fixes enc :: "'a \<Rightarrow> string" and dec :: "string \<Rightarrow> 'a option"
  assumes dec_enc: "dec (enc x) = Some x"
begin

lemma enc_eq_iff: "enc x = enc y \<longleftrightarrow> x = y"
  by (metis dec_enc option.inject)

lemma enc_neq_undecodable: "dec s = None \<Longrightarrow> enc x \<noteq> s"
  using dec_enc by force

end

locale byte_codec = codec enc dec for enc :: "string \<Rightarrow> string" and dec +
  fixes num den :: nat
  assumes dec_length: "dec s = Some x \<Longrightarrow> den * length x \<le> num * length s"
begin

lemma dec_too_short: "dec s = Some x \<Longrightarrow> num * length s < den * n \<Longrightarrow> length x < n"
  using dec_length [of s x] by (metis le_less_trans nat_mult_less_cancel_disj)

end

section \<open>Hexadecimal\<close>

definition hex_char :: "nat \<Rightarrow> char" where
  "hex_char n = (if n < 10 then char_of (48 + n) else char_of (87 + n))"

definition hex_val :: "char \<Rightarrow> nat option" where
  "hex_val c =
     (let b = byte c in
      if 48 \<le> b \<and> b \<le> 57 then Some (b - 48)
      else if 97 \<le> b \<and> b \<le> 102 then Some (b - 87)
      else if 65 \<le> b \<and> b \<le> 70 then Some (b - 55)
      else None)"

fun hex_encode :: "string \<Rightarrow> string" where
  "hex_encode [] = []"
| "hex_encode (c # cs) = hex_char (byte c div 16) # hex_char (byte c mod 16) # hex_encode cs"

fun hex_decode :: "string \<Rightarrow> string option" where
  "hex_decode [] = Some []"
| "hex_decode [c] = None"
| "hex_decode (c # d # cs) =
     (case (hex_val c, hex_val d, hex_decode cs) of
        (Some h, Some l, Some bs) \<Rightarrow> Some (char_of (16 * h + l) # bs)
      | _ \<Rightarrow> None)"

lemma hex_val_char [simp]: "n < 16 \<Longrightarrow> hex_val (hex_char n) = Some n"
  by (auto simp: hex_val_def hex_char_def Let_def)

lemma length_hex_encode [simp]: "length (hex_encode s) = 2 * length s"
  by (induction s) auto

lemma hex_decode_encode: "hex_decode (hex_encode s) = Some s"
proof (induction s)
  case (Cons c cs)
  have "byte c div 16 < 16" by (simp add: less_mult_imp_div_less)
  moreover have "16 * (byte c div 16) + byte c mod 16 = byte c" by simp
  ultimately show ?case using Cons by simp
qed simp

lemma hex_decode_length: "hex_decode s = Some x \<Longrightarrow> 2 * length x = length s"
  by (induction s arbitrary: x rule: hex_decode.induct) (auto split: option.splits)

definition is_lower_hex :: "char \<Rightarrow> bool" where
  "is_lower_hex c \<longleftrightarrow> (48 \<le> byte c \<and> byte c \<le> 57) \<or> (97 \<le> byte c \<and> byte c \<le> 102)"

lemma hex_encode_lower: "c \<in> set (hex_encode s) \<Longrightarrow> is_lower_hex c"
proof (induction s)
  case (Cons d ds)
  have "byte d div 16 < 16" by (simp add: less_mult_imp_div_less)
  moreover have "n < 16 \<Longrightarrow> is_lower_hex (hex_char n)" for n
    by (auto simp: is_lower_hex_def hex_char_def)
  ultimately show ?case using Cons by auto
qed simp

section \<open>Base64\<close>

definition b64_std_char :: "nat \<Rightarrow> char" where
  "b64_std_char n =
     (if n < 26 then char_of (65 + n) else if n < 52 then char_of (71 + n)
      else if n < 62 then char_of (n - 4) else if n = 62 then CHR ''+'' else CHR ''/'')"

definition b64_std_val :: "char \<Rightarrow> nat option" where
  "b64_std_val c =
     (let b = byte c in
      if 65 \<le> b \<and> b \<le> 90 then Some (b - 65)
      else if 97 \<le> b \<and> b \<le> 122 then Some (b - 71)
      else if 48 \<le> b \<and> b \<le> 57 then Some (b + 4)
      else if c = CHR ''+'' then Some 62
      else if c = CHR ''/'' then Some 63
      else None)"

definition b64_url_char :: "nat \<Rightarrow> char" where
  "b64_url_char n =
     (if n = 62 then CHR ''-'' else if n = 63 then CHR ''_'' else b64_std_char n)"

definition b64_url_val :: "char \<Rightarrow> nat option" where
  "b64_url_val c =
     (if c = CHR ''-'' then Some 62 else if c = CHR ''_'' then Some 63
      else if c = CHR ''+'' \<or> c = CHR ''/'' then None else b64_std_val c)"

fun b64_enc :: "(nat \<Rightarrow> char) \<Rightarrow> bool \<Rightarrow> string \<Rightarrow> string" where
  "b64_enc e pad [] = []"
| "b64_enc e pad [a] =
     [e (byte a div 4), e (byte a mod 4 * 16)] @ (if pad then ''=='' else [])"
| "b64_enc e pad [a, b] =
     [e (byte a div 4), e (byte a mod 4 * 16 + byte b div 16), e (byte b mod 16 * 4)] @
       (if pad then ''='' else [])"
| "b64_enc e pad (a # b # c # s) =
     [e (byte a div 4), e (byte a mod 4 * 16 + byte b div 16),
      e (byte b mod 16 * 4 + byte c div 64), e (byte c mod 64)] @ b64_enc e pad s"

definition b64_byte0 :: "nat \<Rightarrow> nat \<Rightarrow> char" where
  "b64_byte0 x y = char_of (x * 4 + y div 16)"

definition b64_byte1 :: "nat \<Rightarrow> nat \<Rightarrow> char" where
  "b64_byte1 y z = char_of (y mod 16 * 16 + z div 4)"

definition b64_byte2 :: "nat \<Rightarrow> nat \<Rightarrow> char" where
  "b64_byte2 z w = char_of (z mod 4 * 64 + w)"

fun b64_quanta :: "(char \<Rightarrow> nat option) \<Rightarrow> bool \<Rightarrow> string \<Rightarrow> string option" where
  "b64_quanta v pad [] = Some []"
| "b64_quanta v pad [a] = None"
| "b64_quanta v pad [a, b] =
     (if pad then None
      else case (v a, v b) of (Some x, Some y) \<Rightarrow> Some [b64_byte0 x y] | _ \<Rightarrow> None)"
| "b64_quanta v pad [a, b, c] =
     (if pad then None
      else case (v a, v b, v c) of
             (Some x, Some y, Some z) \<Rightarrow> Some [b64_byte0 x y, b64_byte1 y z]
           | _ \<Rightarrow> None)"
| "b64_quanta v pad (a # b # c # d # s) =
     (case (v a, v b) of
        (Some x, Some y) \<Rightarrow>
          (case v c of
             Some z \<Rightarrow>
               (case v d of
                  Some w \<Rightarrow>
                    map_option (\<lambda>t. b64_byte0 x y # b64_byte1 y z # b64_byte2 z w # t)
                      (b64_quanta v pad s)
                | None \<Rightarrow>
                    if pad \<and> d = CHR ''='' \<and> s = []
                    then Some [b64_byte0 x y, b64_byte1 y z] else None)
           | None \<Rightarrow>
               if pad \<and> c = CHR ''='' \<and> d = CHR ''='' \<and> s = []
               then Some [b64_byte0 x y] else None)
      | _ \<Rightarrow> None)"

definition is_newline :: "char \<Rightarrow> bool" where
  "is_newline c \<longleftrightarrow> byte c = 10 \<or> byte c = 13"

definition b64_dec :: "(char \<Rightarrow> nat option) \<Rightarrow> bool \<Rightarrow> string \<Rightarrow> string option" where
  "b64_dec v pad s = b64_quanta v pad (filter (\<lambda>c. \<not> is_newline c) s)"

definition b64_std_encode :: "string \<Rightarrow> string" where
  "b64_std_encode = b64_enc b64_std_char True"

definition b64_std_decode :: "string \<Rightarrow> string option" where
  "b64_std_decode = b64_dec b64_std_val True"

definition b64_url_encode :: "string \<Rightarrow> string" where
  "b64_url_encode = b64_enc b64_url_char False"

definition b64_url_decode :: "string \<Rightarrow> string option" where
  "b64_url_decode = b64_dec b64_url_val False"

lemma b64_std_val_char [simp]: "n < 64 \<Longrightarrow> b64_std_val (b64_std_char n) = Some n"
  by (auto simp: b64_std_val_def b64_std_char_def Let_def)

lemma b64_url_val_char [simp]: "n < 64 \<Longrightarrow> b64_url_val (b64_url_char n) = Some n"
proof -
  assume n: "n < 64"
  have "b64_std_char n \<noteq> c"
    if "n \<noteq> 62" "n \<noteq> 63" "byte c \<in> {43, 45, 47, 95}" for c
  proof -
    have "byte (b64_std_char n) \<noteq> byte c" using n that by (auto simp: b64_std_char_def)
    then show ?thesis by blast
  qed
  then show ?thesis using n by (simp add: b64_url_val_def b64_url_char_def)
qed

text \<open>The length of an encoding, and a bound on the length of a decoding.\<close>

lemma length_b64_std: "length (b64_enc e True s) = 4 * ((length s + 2) div 3)"
proof (induction e True s rule: b64_enc.induct)
  case (4 e a b c s)
  have "(length (a # b # c # s) + 2) div 3 = (length s + 2) div 3 + 1" by simp
  then show ?case using 4 by (simp only: b64_enc.simps length_append) simp
qed simp_all

lemma b64_quanta_length: "b64_quanta v pad s = Some x \<Longrightarrow> 4 * length x \<le> 3 * length s"
  by (induction v pad s arbitrary: x rule: b64_quanta.induct)
    (auto split: option.splits if_splits)

lemma b64_dec_length: "b64_dec v pad s = Some x \<Longrightarrow> 4 * length x \<le> 3 * length s"
  using b64_quanta_length [of v pad "filter (\<lambda>c. \<not> is_newline c) s" x]
    length_filter_le [of "\<lambda>c. \<not> is_newline c" s]
  unfolding b64_dec_def by linarith

text \<open>Decoding inverts encoding.\<close>

lemma b64_byte0_back [simp]:
  "k < 16 \<Longrightarrow> b64_byte0 (byte a div 4) (byte a mod 4 * 16 + k) = a"
proof -
  assume "k < 16"
  then have "byte a div 4 * 4 + (byte a mod 4 * 16 + k) div 16 = byte a" by simp
  then show ?thesis by (simp only: b64_byte0_def char_of_char)
qed

lemma b64_byte1_back [simp]:
  "j < 4 \<Longrightarrow> b64_byte1 (byte a mod 4 * 16 + byte b div 16) (byte b mod 16 * 4 + j) = b"
proof -
  assume j: "j < 4"
  have "byte b div 16 < 16" by (simp add: less_mult_imp_div_less)
  then have "(byte a mod 4 * 16 + byte b div 16) mod 16 = byte b div 16" by simp
  moreover have "(byte b mod 16 * 4 + j) div 4 = byte b mod 16" using j by simp
  ultimately have "(byte a mod 4 * 16 + byte b div 16) mod 16 * 16 + (byte b mod 16 * 4 + j) div 4
      = byte b" by simp
  then show ?thesis by (simp only: b64_byte1_def char_of_char)
qed

lemma b64_byte2_back [simp]:
  "b64_byte2 (byte b mod 16 * 4 + byte c div 64) (byte c mod 64) = c"
proof -
  have "byte c div 64 < 4" by (simp add: less_mult_imp_div_less)
  then have "(byte b mod 16 * 4 + byte c div 64) mod 4 = byte c div 64" by simp
  then have "(byte b mod 16 * 4 + byte c div 64) mod 4 * 64 + byte c mod 64 = byte c" by simp
  then show ?thesis by (simp only: b64_byte2_def char_of_char)
qed

lemma byte_div_bounds [simp]:
  "byte c div 4 < 64" "byte c div 16 < 16" "byte c div 64 < 4"
  by (simp_all add: less_mult_imp_div_less)

lemma sextet_bounds [simp]:
  "byte a mod 4 * 16 < 64" "byte a mod 4 * 16 + byte b div 16 < 64" "byte b mod 16 * 4 < 64"
  "byte b mod 16 * 4 + byte c div 64 < 64"
proof -
  have m: "byte a mod 4 < 4" "byte b mod 16 < 16" by simp_all
  have d: "byte b div 16 < 16" "byte c div 64 < 4" by simp_all
  from m d show "byte a mod 4 * 16 < 64" "byte a mod 4 * 16 + byte b div 16 < 64"
    "byte b mod 16 * 4 < 64" "byte b mod 16 * 4 + byte c div 64 < 64" by linarith+
qed

lemma b64_quanta_enc:
  assumes v: "\<And>n. n < 64 \<Longrightarrow> v (e n) = Some n" and eq: "v CHR ''='' = None"
  shows "b64_quanta v pad (b64_enc e pad s) = Some s"
  using v
proof (induction e pad s rule: b64_enc.induct)
  case (2 e pad a)
  have "b64_byte0 (byte a div 4) (byte a mod 4 * 16) = a"
    using b64_byte0_back [of 0 a] by simp
  then show ?case using 2 by (simp add: eq)
next
  case (3 e pad a b)
  have "b64_byte1 (byte a mod 4 * 16 + byte b div 16) (byte b mod 16 * 4) = b"
    using b64_byte1_back [of 0 a b] by simp
  then show ?case using 3 by (simp add: eq)
qed simp_all

lemma b64_enc_chars:
  assumes "\<And>n. n < 64 \<Longrightarrow> \<not> is_newline (e n)"
  shows "filter (\<lambda>c. \<not> is_newline c) (b64_enc e pad s) = b64_enc e pad s"
  using assms by (induction e pad s rule: b64_enc.induct) (simp_all add: is_newline_def)

lemma b64_std_char_no_newline: "n < 64 \<Longrightarrow> \<not> is_newline (b64_std_char n)"
  by (auto simp: is_newline_def b64_std_char_def)

lemma b64_url_char_no_newline: "n < 64 \<Longrightarrow> \<not> is_newline (b64_url_char n)"
  using b64_std_char_no_newline [of n] by (auto simp: b64_url_char_def is_newline_def)

lemma b64_std_decode_encode: "b64_std_decode (b64_std_encode s) = Some s"
  unfolding b64_std_decode_def b64_std_encode_def b64_dec_def
  by (subst b64_enc_chars [OF b64_std_char_no_newline])
    (simp_all add: b64_quanta_enc b64_std_val_def [of "CHR ''=''"])

lemma b64_url_decode_encode: "b64_url_decode (b64_url_encode s) = Some s"
  unfolding b64_url_decode_def b64_url_encode_def b64_dec_def
  by (subst b64_enc_chars [OF b64_url_char_no_newline])
    (simp_all add: b64_quanta_enc b64_url_val_def [of "CHR ''=''"] b64_std_val_def [of "CHR ''=''"])

section \<open>The codecs meet their contract\<close>

interpretation hex: byte_codec hex_encode hex_decode 1 2
  using hex_decode_encode hex_decode_length by unfold_locales force+

interpretation b64_std: byte_codec b64_std_encode b64_std_decode 3 4
  using b64_std_decode_encode b64_dec_length
  by unfold_locales (auto simp: b64_std_decode_def)

interpretation b64_url: byte_codec b64_url_encode b64_url_decode 3 4
  using b64_url_decode_encode b64_dec_length
  by unfold_locales (auto simp: b64_url_decode_def)

lemma length_b64_std_encode [simp]:
  "length (b64_std_encode s) = 4 * ((length s + 2) div 3)"
  by (simp add: b64_std_encode_def length_b64_std)

end
