(* ===== verification/Go_Sha256.thy ===== *)
theory Go_Sha256
  imports Go_Encoding
begin

unbundle bit_operations_syntax

text \<open>
  \<open>crypto/sha256\<close> (FIPS 180-4) over 32-bit words. The development uses of it that a digest
  is 32 bytes long, and so 64 lower-case hex digits.
\<close>

text \<open>The tables, eight 32-bit words to a number, most significant word first.\<close>

definition words8 :: "nat \<Rightarrow> 32 word list" where
  "words8 n = map (\<lambda>i. of_nat (n div 2 ^ (32 * (7 - i)))) [0..<8]"

definition sha256_k :: "32 word list" where
  "sha256_k = concat (map words8
     [30096801393348216066150629019870812290309360323781106575265595564879196741333,
      97713120620179494144499103281924613306042110463305289320944720749041786024308,
      103401920683909419998851524181533271946883635397041953977501677781292093638874,
      68861658772555408896596136419381318492474255818336515412281723562876104943975,
      17963606715593734070427349205146226040797208549161445967624525721797980728453,
      73613754823269020308648057256331568713340424865447195723827797591398097264752,
      11598916766551240033718509305487668940866266266688101202651802137680944197619,
      52721853222120111415677519898561140723485011632831808137931159571523964074226])"

definition sha256_init :: "32 word list" where
  "sha256_init = concat (map words8
     [47962653771679561900652889051773562940742041696833059450490514104358170316057])"

definition sha256_pad :: "string \<Rightarrow> string" where
  "sha256_pad s =
     s @ char_of (0x80::nat) # replicate ((119 - length s mod 64) mod 64) (char_of (0::nat)) @
     map (\<lambda>i. char_of (8 * length s div 256 ^ (7 - i))) [0..<8]"

definition be_word :: "string \<Rightarrow> 32 word" where
  "be_word s = fold (\<lambda>c w. w * 256 + of_nat (byte c)) s 0"

definition word_be :: "32 word \<Rightarrow> string" where
  "word_be w = map (\<lambda>i. char_of (unat (drop_bit (24 - 8 * i) w))) [0..<4]"

fun chunks_of :: "nat \<Rightarrow> nat \<Rightarrow> string \<Rightarrow> string list" where
  "chunks_of n 0 s = []"
| "chunks_of n (Suc k) s = take n s # chunks_of n k (drop n s)"

definition sched_next :: "32 word list \<Rightarrow> 32 word" where
  "sched_next ws =
     (let t = length ws; a = ws ! (t - 15); b = ws ! (t - 2)
      in (word_rotr 17 b XOR word_rotr 19 b XOR drop_bit 10 b) + ws ! (t - 7) +
         (word_rotr 7 a XOR word_rotr 18 a XOR drop_bit 3 a) + ws ! (t - 16))"

definition sha256_schedule :: "string \<Rightarrow> 32 word list" where
  "sha256_schedule block =
     ((\<lambda>ws. ws @ [sched_next ws]) ^^ 48) (map be_word (chunks_of 4 16 block))"

type_synonym sha_state =
  "32 word \<times> 32 word \<times> 32 word \<times> 32 word \<times> 32 word \<times> 32 word \<times> 32 word \<times> 32 word"

fun sha256_round :: "32 word \<times> 32 word \<Rightarrow> sha_state \<Rightarrow> sha_state" where
  "sha256_round (k, w) (a, b, c, d, e, f, g, h) =
     (let t1 = h + (word_rotr 6 e XOR word_rotr 11 e XOR word_rotr 25 e) +
               ((e AND f) XOR (NOT e AND g)) + k + w;
          t2 = (word_rotr 2 a XOR word_rotr 13 a XOR word_rotr 22 a) +
               ((a AND b) XOR (a AND c) XOR (b AND c))
      in (t1 + t2, a, b, c, d + t1, e, f, g))"

fun sha256_block :: "string \<Rightarrow> sha_state \<Rightarrow> sha_state" where
  "sha256_block block (a, b, c, d, e, f, g, h) =
     (let (a', b', c', d', e', f', g', h') =
            fold sha256_round (zip sha256_k (sha256_schedule block)) (a, b, c, d, e, f, g, h)
      in (a + a', b + b', c + c', d + d', e + e', f + f', g + g', h + h'))"

definition sha256 :: "string \<Rightarrow> string" where
  "sha256 s =
     (let p = sha256_pad s;
          (a, b, c, d, e, f, g, h) =
            fold sha256_block (chunks_of 64 (length p div 64) p)
              (sha256_init ! 0, sha256_init ! 1, sha256_init ! 2, sha256_init ! 3,
               sha256_init ! 4, sha256_init ! 5, sha256_init ! 6, sha256_init ! 7)
      in concat (map word_be [a, b, c, d, e, f, g, h]))"

lemma length_word_be [simp]: "length (word_be w) = 4"
  by (simp add: word_be_def)

lemma length_sha256 [simp]: "length (sha256 s) = 32"
  by (simp add: sha256_def Let_def split: prod.split)

end
