(* ===== verification/Pairing.thy ===== *)
theory Pairing
  imports Version_Gate Go_Sha256
begin

text \<open>
  QR pairing (\<open>packages/core/pairing.go\<close>, the QR codec of \<open>packages/core/version.go\<close>, the
  fingerprint of \<open>packages/core/identity.go\<close>): the payload a QR shows, its printed form, the
  reader that refuses other format versions, the six-digit code, and the token comparison.
  The random bytes of a fresh token are an argument.
\<close>

record PairPayload =
  pp_V :: int
  pp_DeviceName :: string
  pp_Platform :: string
  pp_Host :: string
  pp_Port :: int
  pp_Fingerprint :: string
  pp_PubKey :: string
  pp_Token :: string
  pp_Code :: string
  pp_Candidates :: string

definition zero_PairPayload :: PairPayload where
  "zero_PairPayload =
     \<lparr>pp_V = 0, pp_DeviceName = [], pp_Platform = [], pp_Host = [], pp_Port = 0,
      pp_Fingerprint = [], pp_PubKey = [], pp_Token = [], pp_Code = [], pp_Candidates = []\<rparr>"

definition PairPayload_fields :: "PairPayload fields" where
  "PairPayload_fields =
     [(''v'', dec_field pp_V (\<lambda>x. pp_V_update (\<lambda>_. x)) dec_int),
      (''device_name'', dec_field pp_DeviceName (\<lambda>x. pp_DeviceName_update (\<lambda>_. x)) dec_string),
      (''platform'', dec_field pp_Platform (\<lambda>x. pp_Platform_update (\<lambda>_. x)) dec_string),
      (''host'', dec_field pp_Host (\<lambda>x. pp_Host_update (\<lambda>_. x)) dec_string),
      (''port'', dec_field pp_Port (\<lambda>x. pp_Port_update (\<lambda>_. x)) dec_int),
      (''fingerprint'', dec_field pp_Fingerprint (\<lambda>x. pp_Fingerprint_update (\<lambda>_. x)) dec_string),
      (''pubkey'', dec_field pp_PubKey (\<lambda>x. pp_PubKey_update (\<lambda>_. x)) dec_string),
      (''token'', dec_field pp_Token (\<lambda>x. pp_Token_update (\<lambda>_. x)) dec_string),
      (''code'', dec_field pp_Code (\<lambda>x. pp_Code_update (\<lambda>_. x)) dec_string),
      (''candidates'', dec_field pp_Candidates (\<lambda>x. pp_Candidates_update (\<lambda>_. x)) dec_string)]"

definition PairPayload_json :: "PairPayload \<Rightarrow> json" where
  "PairPayload_json p = JObj
     ([(''v'', jint (pp_V p)), (''device_name'', JStr (pp_DeviceName p)),
       (''platform'', JStr (pp_Platform p)), (''host'', JStr (pp_Host p)),
       (''port'', jint (pp_Port p)), (''fingerprint'', JStr (pp_Fingerprint p)),
       (''pubkey'', JStr (pp_PubKey p)), (''token'', JStr (pp_Token p))] @
      omit_empty (pp_Code p \<noteq> []) (''code'', JStr (pp_Code p)) @
      omit_empty (pp_Candidates p \<noteq> []) (''candidates'', JStr (pp_Candidates p)))"

section \<open>Codes, tokens, fingerprints\<close>

text \<open>\<open>%06d\<close> of a number below a million.\<close>

definition pad6 :: "nat \<Rightarrow> string" where
  "pad6 n = replicate (6 - length (dec_digits n)) CHR ''0'' @ dec_digits n"

definition PairingCode :: "string \<Rightarrow> string" where
  "PairingCode token =
     (let sum = sha256 (''fuseitall-code|1|'' @ token);
          n = unat (be_word (take 4 sum)) mod 1000000
      in pad6 n)"

definition VerifyToken :: "string \<Rightarrow> string \<Rightarrow> bool" where
  "VerifyToken expected provided \<longleftrightarrow>
     length expected = length provided \<and>
     fold (\<lambda>(x, y) v. or v (xor (byte x) (byte y))) (zip expected provided) 0 = 0"

definition RotatePairToken :: "string option \<Rightarrow> string option" where
  "RotatePairToken random32 = map_option hex_encode random32"

definition Fingerprint :: "string \<Rightarrow> string" where
  "Fingerprint pub = hex_encode (sha256 pub)"

section \<open>The payload and its QR form\<close>

definition pair_candidates :: "string list \<Rightarrow> string list" where
  "pair_candidates candidates =
     filter (\<lambda>p. p \<noteq> []) (map trim_space (concat (map (split_on CHR '','') candidates)))"

definition MakePairPayload ::
  "string \<Rightarrow> string \<Rightarrow> string \<Rightarrow> int \<Rightarrow> string \<Rightarrow> string \<Rightarrow> string \<Rightarrow> string list \<Rightarrow> PairPayload" where
  "MakePairPayload deviceName platform host port fingerprint pub token candidates =
     (let list = pair_candidates candidates;
          c = (if list \<noteq> [] then join_on CHR '','' list else [])
      in \<lparr>pp_V = 1, pp_DeviceName = deviceName, pp_Platform = platform, pp_Host = host,
          pp_Port = port, pp_Fingerprint = fingerprint, pp_PubKey = b64_std_encode pub,
          pp_Token = token, pp_Code = PairingCode token, pp_Candidates = c\<rparr>)"

definition pre_v_fields :: "int option fields" where
  "pre_v_fields = [(''v'', dec_ptr dec_int 0)]"

definition ParsePairQR :: "string \<Rightarrow> core_error + PairPayload" where
  "ParsePairQR raw =
     (case unmarshal_into (dec_struct pre_v_fields) raw None of
        None \<Rightarrow> Inl (ErrDecode ''pair qr'')
      | Some pre \<Rightarrow>
          (let version = (case pre of None \<Rightarrow> 1 | Some v \<Rightarrow> v)
           in if version \<noteq> 1 then Inl (ErrUnsupportedProtocol version)
              else case unmarshal_into (dec_struct PairPayload_fields) raw zero_PairPayload of
                     None \<Rightarrow> Inl (ErrDecode ''pair qr'')
                   | Some payload \<Rightarrow>
                       Inr (if pp_V payload = 0 then payload\<lparr>pp_V := 1\<rparr> else payload)))"

definition EncodePairQR :: "PairPayload \<Rightarrow> string" where
  "EncodePairQR payload = json_text (PairPayload_json (payload\<lparr>pp_V := 1\<rparr>))"

section \<open>What pairing guarantees\<close>

lemma xor_eq_0: "xor (a::nat) b = 0 \<longleftrightarrow> a = b"
  by (metis xor.assoc xor.left_neutral xor.right_neutral xor_self_eq)

lemma fold_xor_zero:
  "length xs = length ys \<Longrightarrow>
   fold (\<lambda>(x, y) v. or v (xor (byte x) (byte y))) (zip xs ys) v = 0 \<longleftrightarrow> v = 0 \<and> xs = ys"
  by (induction xs ys arbitrary: v rule: list_induct2) (auto simp: xor_eq_0 or_eq_0_iff)

text \<open>
  Token verification accepts exactly the expected token: the constant-time comparison of
  lengths and bytes decides equality of the two strings.
\<close>

lemma VerifyToken_iff: "VerifyToken expected provided \<longleftrightarrow> expected = provided"
  using fold_xor_zero [of expected provided 0] by (auto simp: VerifyToken_def)

lemma length_dec_digits: "0 < k \<Longrightarrow> n < 10 ^ k \<Longrightarrow> length (dec_digits n) \<le> k"
proof (induction n arbitrary: k rule: dec_digits.induct)
  case (1 n)
  show ?case
  proof (cases "n < 10")
    case True
    then show ?thesis using "1.prems" by (simp add: dec_digits.simps [of n])
  next
    case False
    then have "k \<noteq> 1" using "1.prems" by auto
    then obtain j where j: "k = Suc j" "0 < j" using "1.prems" by (cases k) auto
    then have "length (dec_digits (n div 10)) \<le> j"
      using 1 False by (simp add: less_mult_imp_div_less mult.commute)
    then show ?thesis using j False by (simp add: dec_digits.simps [of n])
  qed
qed

lemma pad6_shape:
  assumes "n < 1000000"
  shows "length (pad6 n) = 6 \<and> list_all is_dec (pad6 n)"
proof -
  have "length (dec_digits n) \<le> 6" using length_dec_digits [of 6 n] assms by simp
  moreover have "list_all is_dec (dec_digits n)"
    using dec_digits_all_dec [of _ n] by (simp add: list_all_iff)
  ultimately show ?thesis by (auto simp: pad6_def list_all_iff is_dec_def)
qed

lemma PairingCode_shape: "length (PairingCode token) = 6 \<and> list_all is_dec (PairingCode token)"
  unfolding PairingCode_def Let_def by (rule pad6_shape) simp

lemma parse_dec_zeros: "parse_dec 0 (replicate k CHR ''0'' @ s) = parse_dec 0 s"
  by (induction k) (simp_all add: is_dec_def)

text \<open>
  The pairing code a user types is always exactly six decimal digits, and it reads back
  as the number below one million that the token's SHA-256 gives: no code is ambiguous.
\<close>

theorem PairingCode_six_digits:
  "length (PairingCode token) = 6 \<and> list_all is_dec (PairingCode token) \<and>
   parse_dec 0 (PairingCode token) =
     Some (unat (be_word (take 4 (sha256 (''fuseitall-code|1|'' @ token)))) mod 1000000)"
  using PairingCode_shape [of token]
  by (simp add: PairingCode_def Let_def pad6_def parse_dec_zeros parse_dec_digits)

definition pair_ok :: "PairPayload \<Rightarrow> bool" where
  "pair_ok p \<longleftrightarrow> int64 (pp_Port p) \<and>
     list_all valid_utf8 [pp_DeviceName p, pp_Platform p, pp_Host p, pp_Fingerprint p,
       pp_PubKey p, pp_Token p, pp_Code p, pp_Candidates p]"

lemma PairPayload_json_printable:
  assumes "pair_ok p"
  shows "json_printable (PairPayload_json p)" "json_depth (PairPayload_json p) \<le> max_nesting"
proof -
  have k: "list_all valid_utf8 [''v'', ''device_name'', ''platform'', ''host'', ''port'',
      ''fingerprint'', ''pubkey'', ''token'', ''code'', ''candidates'']"
    by (simp add: valid_utf8_ascii)
  show "json_printable (PairPayload_json p)"
    using assms k
    by (cases "pp_Code p = []"; cases "pp_Candidates p = []")
      (simp_all add: PairPayload_json_def pair_ok_def omit_empty_def)
  show "json_depth (PairPayload_json p) \<le> max_nesting"
    by (simp add: PairPayload_json_def omit_empty_def max_nesting_def)
qed

lemma dec_PairPayload_json:
  "pair_ok p \<Longrightarrow> int64 (pp_V p) \<Longrightarrow>
   dec_struct PairPayload_fields (PairPayload_json p) zero_PairPayload = Some p"
  by (simp add: PairPayload_json_def PairPayload_fields_def field_for_exact dec_field_def
      omit_empty_def zero_PairPayload_def pair_ok_def)

lemma dec_pre_v_json:
  "int64 (pp_V p) \<Longrightarrow> dec_struct pre_v_fields (PairPayload_json p) None = Some (Some (pp_V p))"
  by (simp add: PairPayload_json_def pre_v_fields_def field_for_single fold_rune_def
      dec_ptr_def omit_empty_def) (simp add: jint_def)

text \<open>
  A scanned QR gives back what was shown: encoding a pair payload and parsing the bytes
  returns the payload, normalised to format version 1, for UTF-8 fields and a 64-bit port.
\<close>

theorem pair_qr_round_trip:
  assumes "pair_ok p"
  shows "ParsePairQR (EncodePairQR p) = Inr (p\<lparr>pp_V := 1\<rparr>)"
proof -
  let ?p = "p\<lparr>pp_V := 1\<rparr>"
  have ok: "pair_ok ?p" "int64 (pp_V ?p)" using assms by (simp_all add: pair_ok_def int64_def)
  note pr = PairPayload_json_printable [OF ok(1)]
  have "unmarshal_into (dec_struct pre_v_fields) (json_text (PairPayload_json ?p)) None = Some (Some 1)"
    using dec_pre_v_json [OF ok(2)] by (simp only: unmarshal_into_text [OF pr]) simp
  moreover have "unmarshal_into (dec_struct PairPayload_fields) (json_text (PairPayload_json ?p))
      zero_PairPayload = Some ?p"
    using dec_PairPayload_json [OF ok] by (simp only: unmarshal_into_text [OF pr])
  ultimately show ?thesis by (simp add: ParsePairQR_def EncodePairQR_def)
qed

theorem pair_qr_round_trip_witness:
  "ParsePairQR (EncodePairQR (zero_PairPayload\<lparr>pp_Host := ''10.0.0.2'', pp_Port := 8443\<rparr>))
   = Inr (zero_PairPayload\<lparr>pp_V := 1, pp_Host := ''10.0.0.2'', pp_Port := 8443\<rparr>)"
proof -
  have "pair_ok (zero_PairPayload\<lparr>pp_Host := ''10.0.0.2'', pp_Port := 8443\<rparr>)"
    by (simp add: pair_ok_def zero_PairPayload_def int64_def valid_utf8_ascii)
  from pair_qr_round_trip [OF this] show ?thesis by (simp add: zero_PairPayload_def)
qed

lemma PairPayload_fields_folds: "distinct (map (fold_key \<circ> fst) PairPayload_fields)"
  by (simp add: PairPayload_fields_def fold_rune_def)

lemma PairPayload_member_other:
  assumes "fold_key k \<noteq> fold_key ''v''"
    and "field_for PairPayload_fields k = Some d" "d v p = Some p'"
  shows "pp_V p' = pp_V p"
proof -
  obtain n where n: "(n, d) \<in> set PairPayload_fields" "fold_key n = fold_key k"
    using field_for_mem [OF assms(2)] by blast
  then have "n \<noteq> ''v''" using assms(1) by auto
  then show ?thesis
    using n(1) assms(3) by (auto simp: PairPayload_fields_def dec_field_def)
qed

definition no_null_v :: "(string \<times> json) list \<Rightarrow> bool" where
  "no_null_v ms \<longleftrightarrow> list_all (\<lambda>m. fold_key (fst m) = fold_key ''v'' \<longrightarrow> snd m \<noteq> JNull) ms"

lemma pre_v_agrees:
  "dec_members PairPayload_fields ms p = Some p' \<Longrightarrow> dec_members pre_v_fields ms v = Some v' \<Longrightarrow>
   no_null_v ms \<Longrightarrow> v = None \<and> pp_V p = 0 \<or> v = Some (pp_V p) \<Longrightarrow>
   v' = None \<and> pp_V p' = 0 \<or> v' = Some (pp_V p')"
proof (induction ms arbitrary: p v)
  case (Cons m ms)
  have nn: "no_null_v ms" using Cons.prems(3) by (simp add: no_null_v_def)
  show ?case
  proof (cases "fold_key (fst m) = fold_key ''v''")
    case True
    then have "field_for PairPayload_fields (fst m) =
        Some (dec_field pp_V (\<lambda>x. pp_V_update (\<lambda>_. x)) dec_int)"
      by (intro field_for_fold [OF PairPayload_fields_folds _ True])
        (simp add: PairPayload_fields_def)
    then obtain x where x: "dec_int (snd m) (pp_V p) = Some x"
      "dec_members PairPayload_fields ms (p\<lparr>pp_V := x\<rparr>) = Some p'"
      using Cons.prems(1) by (auto simp: dec_field_def bind_eq_Some_conv)
    have null: "snd m \<noteq> JNull" using Cons.prems(3) True by (simp add: no_null_v_def)
    then have "dec_int (snd m) y = Some x" for y using x(1) by (cases "snd m") auto
    then have "dec_members pre_v_fields ms (Some x) = Some v'"
      using Cons.prems(2) True null
      by (simp add: pre_v_fields_def field_for_single dec_ptr_def)
    then show ?thesis using Cons.IH [OF x(2) _ nn] by simp
  next
    case False
    then have "field_for pre_v_fields (fst m) = None"
      unfolding pre_v_fields_def field_for_single by metis
    then have v: "dec_members pre_v_fields ms v = Some v'" using Cons.prems(2) by simp
    obtain p1 where p1: "dec_members PairPayload_fields ms p1 = Some p'" "pp_V p1 = pp_V p"
      using Cons.prems(1) PairPayload_member_other [OF False]
      by (auto simp: bind_eq_Some_conv split: option.splits)
    then show ?thesis using Cons.IH [OF p1(1) v nn] Cons.prems(4) by simp
  qed
qed simp

text \<open>
  The QR reader fails closed on other format versions: a payload it accepts carries
  format version 1, whatever members, duplicates or letter case the JSON used, as long as no
  member named \<open>v\<close> is null.
\<close>

theorem pair_qr_version:
  assumes "ParsePairQR raw = Inr p" "json_unmarshal raw = Some (JObj ms)" "no_null_v ms"
  shows "pp_V p = 1"
proof -
  obtain v q where v: "dec_members pre_v_fields ms None = Some v"
      "dec_members PairPayload_fields ms zero_PairPayload = Some q"
    and p: "v = None \<or> v = Some 1" "p = (if pp_V q = 0 then q\<lparr>pp_V := 1\<rparr> else q)"
    using assms(1,2)
    by (auto simp: ParsePairQR_def unmarshal_into_def Let_def
        split: option.splits if_splits)
  have "v = None \<and> pp_V q = 0 \<or> v = Some (pp_V q)"
    using pre_v_agrees [OF v(2,1) assms(3)] by (simp add: zero_PairPayload_def)
  then show ?thesis using p by auto
qed

lemma ParsePairQR_value:
  assumes "json_unmarshal raw = Some v" "dec_struct pre_v_fields v None = Some pre"
    and "pre = None \<or> pre = Some 1"
    and "dec_struct PairPayload_fields v zero_PairPayload = Some q"
  shows "ParsePairQR raw = Inr (if pp_V q = 0 then q\<lparr>pp_V := 1\<rparr> else q)"
  using assms by (auto simp: ParsePairQR_def unmarshal_into_def)

theorem pair_qr_version_witness:
  "\<exists>p. ParsePairQR (json_text (JObj [(''V'', jint 1)])) = Inr p \<and> pp_V p = 1"
proof -
  have ok: "json_printable (JObj [(''V'', jint 1)])"
    "json_depth (JObj [(''V'', jint 1)]) \<le> max_nesting"
    by (simp_all add: valid_utf8_ascii max_nesting_def)
  note u = json_unmarshal_text [OF ok]
  have "dec_struct pre_v_fields (JObj [(''V'', jint 1)]) None = Some (Some 1)"
    by (simp add: pre_v_fields_def field_for_def fold_rune_def dec_ptr_def int64_def)
      (simp add: jint_def)
  moreover have "dec_struct PairPayload_fields (JObj [(''V'', jint 1)]) zero_PairPayload =
      Some (zero_PairPayload\<lparr>pp_V := 1\<rparr>)"
    by (simp add: PairPayload_fields_def field_for_def fold_rune_def dec_field_def int64_def)
  ultimately have "\<exists>p. ParsePairQR (json_text (JObj [(''V'', jint 1)])) = Inr p"
    using ParsePairQR_value [OF u] by blast
  moreover have "no_null_v [(''V'', jint 1)]" by (simp add: no_null_v_def jint_def)
  ultimately show ?thesis using pair_qr_version [OF _ u] by blast
qed

text \<open>
  The exception is real: with a duplicate null \<open>v\<close> member, a QR of format version 2 is
  accepted, since the version check reads a pointer that null clears while the payload's
  integer keeps the 2.
\<close>

theorem pair_qr_null_v_accepted:
  "ParsePairQR (json_text (JObj [(''v'', jint 2), (''v'', JNull)]))
   = Inr (zero_PairPayload\<lparr>pp_V := 2\<rparr>)"
proof -
  have ok: "json_printable (JObj [(''v'', jint 2), (''v'', JNull)])"
    "json_depth (JObj [(''v'', jint 2), (''v'', JNull)]) \<le> max_nesting"
    by (simp_all add: valid_utf8_ascii max_nesting_def)
  have "dec_struct pre_v_fields (JObj [(''v'', jint 2), (''v'', JNull)]) None = Some None"
    by (simp add: pre_v_fields_def field_for_def dec_ptr_def int64_def)
  moreover have "dec_struct PairPayload_fields (JObj [(''v'', jint 2), (''v'', JNull)])
      zero_PairPayload = Some (zero_PairPayload\<lparr>pp_V := 2\<rparr>)"
    by (simp add: PairPayload_fields_def field_for_def dec_field_def int64_def zero_PairPayload_def)
  ultimately show ?thesis
    using ParsePairQR_value [OF json_unmarshal_text [OF ok]] by simp
qed

end
