(* ===== verification/Sync_Reliability.thy ===== *)
theory Sync_Reliability
  imports Go_Encoding
begin

text \<open>
  The feature-agnostic reliability primitives of \<open>packages/core/sync_reliability.go\<close>: the
  keyset paging cursor, strict for the current format and lenient for the legacy ones, and
  the bounded receiver-side cache that turns at-least-once delivery into at-most-once
  effects. What clients of such a cache rely on is the locale \<open>seen_window\<close>; the clipboard
  store's table of nonces is its other instance.
\<close>

section \<open>Keyset cursors\<close>

definition MaxSyncCursorLen :: nat where [go_consts]: "MaxSyncCursorLen = 256"
definition SyncDedupCap :: int where [go_consts]: "SyncDedupCap = 500"
definition KeysetCursorPrefix :: string where [go_consts]: "KeysetCursorPrefix = ''v2''"

datatype sync_error = ErrCursorInvalid | ErrSyncTimeout | ErrPhoneOffline | ErrPermissionRevoked

definition EncodeKeysetCursor :: "string \<Rightarrow> int \<Rightarrow> string" where
  "EncodeKeysetCursor sortKey rowID =
     (let rowID = (if rowID < 0 then 0 else rowID);
          enc = b64_url_encode sortKey
      in KeysetCursorPrefix @ ''.'' @ enc @ ''.'' @ format_int rowID)"

definition splitCursorPair :: "string \<Rightarrow> char \<Rightarrow> (string \<times> int) option" where
  "splitCursorPair s sep =
     (case cut_last sep s of
        None \<Rightarrow> None
      | Some (l, r) \<Rightarrow>
          (case parse_int64 (trim_space r) of
             None \<Rightarrow> None
           | Some i \<Rightarrow> if i < 0 then None else Some (l, i)))"

definition isDigits :: "string \<Rightarrow> bool" where
  "isDigits s \<longleftrightarrow> s \<noteq> [] \<and> list_all is_dec s"

definition decodeKeysetV2 :: "string \<Rightarrow> (string \<times> int) option" where
  "decodeKeysetV2 cursor =
     (let rest = (if prefix (KeysetCursorPrefix @ ''.'') cursor
                  then drop (length KeysetCursorPrefix + 1) cursor else cursor)
      in case splitCursorPair rest CHR ''.'' of
           None \<Rightarrow> None
         | Some (key, i) \<Rightarrow>
             (case b64_url_decode key of
                None \<Rightarrow> None
              | Some raw \<Rightarrow>
                  if EncodeKeysetCursor raw i \<noteq> trim_space cursor then None
                  else Some (raw, i)))"

definition DecodeKeysetCursor :: "string \<Rightarrow> (string \<times> int) option" where
  "DecodeKeysetCursor cursor =
     (let trimmed = trim_space cursor
      in if trimmed = [] then Some ([], 0)
         else if MaxSyncCursorLen < length trimmed then None
         else if prefix (KeysetCursorPrefix @ ''.'') trimmed then decodeKeysetV2 trimmed
         else case splitCursorPair trimmed CHR '':'' of
                Some (key, i) \<Rightarrow> if isDigits key then Some (key, i) else Some (trimmed, 0)
              | None \<Rightarrow>
                  if isDigits trimmed then Some (trimmed, 0)
                  else case splitCursorPair trimmed CHR ''.'' of
                         Some (key, i) \<Rightarrow>
                           (case b64_url_decode key of
                              Some raw \<Rightarrow> Some (raw, i)
                            | None \<Rightarrow> Some (trimmed, 0))
                       | None \<Rightarrow> Some (trimmed, 0))"

definition ValidateKeysetCursor :: "string \<Rightarrow> sync_error option" where
  "ValidateKeysetCursor cursor =
     (let trimmed = trim_space cursor
      in if trimmed = [] then None
         else if MaxSyncCursorLen < length trimmed then Some ErrCursorInvalid
         else if \<not> prefix (KeysetCursorPrefix @ ''.'') trimmed then None
         else case DecodeKeysetCursor trimmed of
                None \<Rightarrow> Some ErrCursorInvalid
              | Some _ \<Rightarrow> None)"

section \<open>The receiver's seen-set\<close>

record DedupCache =
  dc_cap :: int
  dc_seen :: "string set"
  dc_ord :: "string list"

definition NewDedupCache :: "int \<Rightarrow> DedupCache" where
  "NewDedupCache cap =
     \<lparr>dc_cap = (if cap \<le> 0 then SyncDedupCap else cap), dc_seen = {}, dc_ord = []\<rparr>"

definition DedupCache_Seen :: "string \<Rightarrow> DedupCache \<Rightarrow> bool" where
  "DedupCache_Seen key d = (if key = [] then False else key \<in> dc_seen d)"

definition DedupCache_Mark :: "string \<Rightarrow> DedupCache \<Rightarrow> bool \<times> DedupCache" where
  "DedupCache_Mark key d =
     (if key = [] then (False, d)
      else if key \<in> dc_seen d then (False, d)
      else
        let seen = insert key (dc_seen d); ord = dc_ord d @ [key]
        in if dc_cap d < int (length ord)
           then let overflow = nat (int (length ord) - dc_cap d)
                in (True, d\<lparr>dc_seen := fold (\<lambda>old. (\<lambda>m. m - {old})) (take overflow ord) seen,
                            dc_ord := drop overflow ord\<rparr>)
           else (True, d\<lparr>dc_seen := seen, dc_ord := ord\<rparr>))"

section \<open>The contract of a seen-set\<close>

text \<open>
  A state with a window of recently marked keys: marking answers whether the key was fresh,
  appends it when it was, and forgets only what no longer fits in the capacity.
\<close>

locale seen_window =
  fixes cap :: "'s \<Rightarrow> nat" and win :: "'s \<Rightarrow> string list" and inv :: "'s \<Rightarrow> bool"
    and key :: "'a \<Rightarrow> string" and mark :: "'a \<Rightarrow> 's \<Rightarrow> bool \<times> 's"
  assumes cap_pos: "inv s \<Longrightarrow> 0 < cap s"
    and win_bound: "inv s \<Longrightarrow> length (win s) \<le> cap s"
    and win_distinct: "inv s \<Longrightarrow> distinct (win s)"
    and mark_inv: "inv s \<Longrightarrow> inv (snd (mark a s))"
    and mark_cap: "inv s \<Longrightarrow> cap (snd (mark a s)) = cap s"
    and mark_fresh: "inv s \<Longrightarrow> fst (mark a s) \<longleftrightarrow> key a \<noteq> [] \<and> key a \<notin> set (win s)"
    and mark_win: "inv s \<Longrightarrow> win (snd (mark a s)) =
      (if key a = [] \<or> key a \<in> set (win s) then win s
       else drop (length (win s) + 1 - cap s) (win s @ [key a]))"
begin

definition mark_all :: "'a list \<Rightarrow> 's \<Rightarrow> 's" where
  "mark_all as s = fold (\<lambda>a s. snd (mark a s)) as s"

lemma mark_all_simps [simp]:
  "mark_all [] s = s" "mark_all (a # as) s = mark_all as (snd (mark a s))"
  by (simp_all add: mark_all_def)

lemma mark_all_inv: "inv s \<Longrightarrow> inv (mark_all as s) \<and> cap (mark_all as s) = cap s"
  by (induction as arbitrary: s) (simp_all add: mark_inv mark_cap)

lemma mark_keeps:
  assumes "inv s" "win s = xs @ k # ys" "length ys + 1 < cap s"
  shows "\<exists>xs' ys'. win (snd (mark a s)) = xs' @ k # ys' \<and> length ys' \<le> length ys + 1"
proof (cases "key a = [] \<or> key a \<in> set (win s)")
  case True
  then have "win (snd (mark a s)) = xs @ k # ys" using assms mark_win by simp
  then show ?thesis using le_add1 by blast
next
  case False
  let ?n = "length (win s) + 1 - cap s"
  have "?n \<le> length xs" using assms by simp
  then have "win (snd (mark a s)) = drop ?n xs @ k # (ys @ [key a])"
    using False assms mark_win by simp
  then show ?thesis by (metis length_append_singleton Suc_eq_plus1 order_refl)
qed

lemma mark_all_keeps:
  "inv s \<Longrightarrow> win s = xs @ k # ys \<Longrightarrow> length ys + length as < cap s \<Longrightarrow>
   k \<in> set (win (mark_all as s))"
proof (induction as arbitrary: s xs ys)
  case (Cons a as)
  obtain xs' ys' where w: "win (snd (mark a s)) = xs' @ k # ys'" "length ys' \<le> length ys + 1"
    using mark_keeps [OF Cons.prems(1,2), of a] Cons.prems(3) by auto
  then show ?case using Cons mark_inv mark_cap by simp
qed simp

lemma marked_last:
  assumes "inv s" "fst (mark a s)"
  shows "\<exists>xs. win (snd (mark a s)) = xs @ [key a]"
proof -
  have "length (win s) + 1 - cap s \<le> length (win s)" using cap_pos [OF assms(1)] by simp
  then show ?thesis using assms mark_fresh mark_win by auto
qed

text \<open>A key just marked fresh is refused again until \<open>cap\<close> other marks have gone by.\<close>

lemma no_second_application:
  assumes "inv s" "fst (mark a s)" "key b = key a" "length as < cap s"
  shows "\<not> fst (mark b (mark_all as (snd (mark a s))))"
proof -
  obtain xs where "win (snd (mark a s)) = xs @ key a # []" using marked_last assms(1,2) by blast
  then have "key a \<in> set (win (mark_all as (snd (mark a s))))"
    using mark_all_keeps [of "snd (mark a s)" xs "key a" "[]" as] assms mark_inv mark_cap by simp
  then show ?thesis using mark_fresh [of "mark_all as (snd (mark a s))"] mark_all_inv mark_inv assms
    by simp
qed

lemma marks_bounded: "inv s \<Longrightarrow> length (win (mark_all as s)) \<le> cap s"
  using mark_all_inv win_bound by metis

end

section \<open>The cache meets it\<close>

definition dedup_inv :: "DedupCache \<Rightarrow> bool" where
  "dedup_inv d \<longleftrightarrow> 0 < dc_cap d \<and> dc_seen d = set (dc_ord d) \<and> distinct (dc_ord d) \<and>
     int (length (dc_ord d)) \<le> dc_cap d \<and> [] \<notin> set (dc_ord d)"

lemma fold_delete: "fold (\<lambda>old. (\<lambda>m. m - {old})) xs S = S - set xs"
  by (induction xs arbitrary: S) auto

lemma set_drop_distinct: "distinct xs \<Longrightarrow> set xs - set (take n xs) = set (drop n xs)"
  by (metis Diff_cancel Diff_disjoint Un_Diff Un_Diff_Int append_take_drop_id
      distinct_append set_append sup_bot.left_neutral Diff_triv inf_commute)

lemma dedup_invI:
  "0 < dc_cap d \<Longrightarrow> distinct ks \<Longrightarrow> [] \<notin> set ks \<Longrightarrow> int (length ks) \<le> dc_cap d \<Longrightarrow>
   dedup_inv (d\<lparr>dc_seen := set ks, dc_ord := ks\<rparr>)"
  by (simp add: dedup_inv_def)

lemma dedup_inv_new: "dedup_inv (NewDedupCache cap)"
  by (simp add: dedup_inv_def NewDedupCache_def go_consts)

lemma nat_int_diff: "0 < c \<Longrightarrow> nat (int m - c) = m - nat c"
  by arith

lemma dedup_mark_eq:
  assumes "dedup_inv d" "key \<noteq> []" "key \<notin> set (dc_ord d)"
  shows "DedupCache_Mark key d =
    (True, d\<lparr>dc_seen := set (drop (length (dc_ord d) + 1 - nat (dc_cap d)) (dc_ord d @ [key])),
             dc_ord := drop (length (dc_ord d) + 1 - nat (dc_cap d)) (dc_ord d @ [key])\<rparr>)"
proof -
  have d: "distinct (dc_ord d @ [key])" using assms by (simp add: dedup_inv_def)
  have n: "nat (int (length (dc_ord d @ [key])) - dc_cap d) = length (dc_ord d) + 1 - nat (dc_cap d)"
    using nat_int_diff [of "dc_cap d" "length (dc_ord d @ [key])"] assms(1)
    by (simp add: dedup_inv_def)
  show ?thesis
  proof (cases "dc_cap d < int (length (dc_ord d @ [key]))")
    case True
    let ?o = "dc_ord d @ [key]"
    have s: "insert key (dc_seen d) = set ?o" using assms(1) by (simp add: dedup_inv_def)
    have "DedupCache_Mark key d = (True,
        d\<lparr>dc_seen := fold (\<lambda>old. (\<lambda>m. m - {old})) (take (nat (int (length ?o) - dc_cap d)) ?o)
             (insert key (dc_seen d)), dc_ord := drop (nat (int (length ?o) - dc_cap d)) ?o\<rparr>)"
      using True assms by (simp add: DedupCache_Mark_def Let_def dedup_inv_def)
    then show ?thesis by (simp only: n s fold_delete set_drop_distinct [OF d])
  next
    case False
    then show ?thesis
      using assms by (simp add: DedupCache_Mark_def Let_def dedup_inv_def)
  qed
qed

interpretation dedup: seen_window "\<lambda>d. nat (dc_cap d)" dc_ord dedup_inv "\<lambda>k. k" DedupCache_Mark
proof
  fix d :: DedupCache and k :: string
  assume d: "dedup_inv d"
  show "0 < nat (dc_cap d)" "length (dc_ord d) \<le> nat (dc_cap d)" "distinct (dc_ord d)"
    using d by (auto simp: dedup_inv_def)
  have same: "DedupCache_Mark k d = (False, d)" if "k = [] \<or> k \<in> set (dc_ord d)"
    using d that by (auto simp: DedupCache_Mark_def dedup_inv_def)
  note new = dedup_mark_eq [OF d]
  show "fst (DedupCache_Mark k d) = (k \<noteq> [] \<and> k \<notin> set (dc_ord d))"
    using same new by fastforce
  show "nat (dc_cap (snd (DedupCache_Mark k d))) = nat (dc_cap d)"
    using same new by (cases "k = [] \<or> k \<in> set (dc_ord d)") simp_all
  show "dc_ord (snd (DedupCache_Mark k d)) =
      (if k = [] \<or> k \<in> set (dc_ord d) then dc_ord d
       else drop (length (dc_ord d) + 1 - nat (dc_cap d)) (dc_ord d @ [k]))"
    using same new by simp
  show "dedup_inv (snd (DedupCache_Mark k d))"
  proof (cases "k = [] \<or> k \<in> set (dc_ord d)")
    case False
    let ?o = "drop (length (dc_ord d) + 1 - nat (dc_cap d)) (dc_ord d @ [k])"
    have k: "k \<noteq> []" "k \<notin> set (dc_ord d)" and c: "0 < dc_cap d"
      using d False by (auto simp: dedup_inv_def)
    have "set ?o \<subseteq> set (dc_ord d @ [k])" by (rule set_drop_subset)
    then have "[] \<notin> set ?o" using d k by (auto simp: dedup_inv_def)
    moreover have "distinct ?o" using d k by (intro distinct_drop) (simp add: dedup_inv_def)
    moreover have "int (length ?o) \<le> dc_cap d"
      using d unfolding length_drop length_append_singleton dedup_inv_def by linarith
    ultimately show ?thesis unfolding new [OF k] snd_conv by (intro dedup_invI [OF c])
  qed (use same d in simp)
qed


text \<open>
  C22. The dedup cache gives at-most-once effects: in a cache with its invariant, once
  \<open>Mark\<close> has accepted a key, it refuses that key again as long as fewer than capacity many
  other \<open>Mark\<close> calls were made in between, whatever their keys.
\<close>

theorem dedup_at_most_once:
  assumes "dedup_inv d" "fst (DedupCache_Mark k d)" "int (length ks) < dc_cap d"
  shows "\<not> fst (DedupCache_Mark k
            (fold (\<lambda>k d. snd (DedupCache_Mark k d)) ks (snd (DedupCache_Mark k d))))"
  using dedup.no_second_application [OF assms(1,2) refl, of ks] assms(3)
  by (simp add: dedup.mark_all_def)

theorem dedup_at_most_once_witness:
  "\<not> fst (DedupCache_Mark ''a''
      (fold (\<lambda>k d. snd (DedupCache_Mark k d)) [''b'', ''c'']
        (snd (DedupCache_Mark ''a'' (NewDedupCache 3)))))"
  by (rule dedup_at_most_once [OF dedup_inv_new])
    (simp_all add: DedupCache_Mark_def NewDedupCache_def)

text \<open>
  From an empty cache, whatever keys are marked, the cache never holds more than its
  capacity, its lookup set is exactly the keys of its order list, and no key is listed
  twice or empty.
\<close>

theorem dedup_bounded:
  "int (length (dc_ord (fold (\<lambda>k d. snd (DedupCache_Mark k d)) ks (NewDedupCache cap))))
     \<le> (if cap \<le> 0 then SyncDedupCap else cap) \<and>
   dedup_inv (fold (\<lambda>k d. snd (DedupCache_Mark k d)) ks (NewDedupCache cap))"
proof -
  have "dc_cap (NewDedupCache cap) = (if cap \<le> 0 then SyncDedupCap else cap)"
    by (simp add: NewDedupCache_def)
  then show ?thesis
    using dedup.marks_bounded [OF dedup_inv_new, of ks cap]
      dedup.mark_all_inv [OF dedup_inv_new, of ks cap]
    by (auto simp: dedup.mark_all_def go_consts split: if_splits)
qed

section \<open>Cursors round-trip and v2 is canonical\<close>

lemma is_dec_not_space: "is_dec c \<Longrightarrow> \<not> is_space (byte c) \<and> byte c < 128"
  by (auto simp: is_dec_def is_space_def)

lemma trim_digits: "trim_space (dec_digits n) = dec_digits n"
proof (rule trim_space_plain)
  have "is_dec (hd (dec_digits n))" "is_dec (last (dec_digits n))"
    using dec_digits_all_dec [of _ n] by simp_all
  then show "plain_ends (dec_digits n)"
    using is_dec_not_space by (simp add: plain_ends_def)
qed

lemma dot_not_digit: "CHR ''.'' \<notin> set (dec_digits n)" "CHR '':'' \<notin> set (dec_digits n)"
  using dec_digits_all_dec [of _ n] by (force simp: is_dec_def)+

lemma splitCursorPair_digits:
  assumes "sep = CHR ''.'' \<or> sep = CHR '':''" "int n < 2 ^ 63"
  shows "splitCursorPair (l @ sep # dec_digits n) sep = Some (l, int n)"
proof -
  have "parse_int64 (format_int (int n)) = Some (int n)"
    using assms(2) by (intro parse_format_int) (simp add: int64_def)
  then have "parse_int64 (dec_digits n) = Some (int n)" by (simp add: format_int_def)
  then show ?thesis
    using cut_last_append [of sep "dec_digits n" l] dot_not_digit [of n] assms(1)
    by (auto simp: splitCursorPair_def trim_digits)
qed

lemma EncodeKeysetCursor_nat:
  "EncodeKeysetCursor k (int n) = ''v2.'' @ b64_url_encode k @ CHR ''.'' # dec_digits n"
  by (simp add: EncodeKeysetCursor_def go_consts format_int_def Let_def)

lemma trim_cursor: "trim_space (EncodeKeysetCursor k (int n)) = EncodeKeysetCursor k (int n)"
proof (rule trim_space_plain)
  have "is_dec (last (dec_digits n))" using dec_digits_all_dec [of _ n] by simp
  then show "plain_ends (EncodeKeysetCursor k (int n))"
    using is_dec_not_space by (simp add: plain_ends_def EncodeKeysetCursor_nat is_space_def)
qed

lemma decodeKeysetV2_encode:
  assumes "int n < 2 ^ 63"
  shows "decodeKeysetV2 (EncodeKeysetCursor k (int n)) = Some (k, int n)"
proof -
  have "splitCursorPair (b64_url_encode k @ CHR ''.'' # dec_digits n) CHR ''.'' =
      Some (b64_url_encode k, int n)" using assms by (simp add: splitCursorPair_digits)
  then show ?thesis
    unfolding decodeKeysetV2_def trim_cursor
    by (simp add: EncodeKeysetCursor_nat go_consts b64_url.dec_enc)
qed

lemma keyset_cursor_decodes:
  assumes "0 \<le> rowID" "rowID < 2 ^ 63" "length (EncodeKeysetCursor sortKey rowID) \<le> MaxSyncCursorLen"
  shows "trim_space (EncodeKeysetCursor sortKey rowID) = EncodeKeysetCursor sortKey rowID"
    "prefix (KeysetCursorPrefix @ ''.'') (EncodeKeysetCursor sortKey rowID)"
    "DecodeKeysetCursor (EncodeKeysetCursor sortKey rowID) = Some (sortKey, rowID)"
proof -
  obtain n where n: "rowID = int n" using assms(1) nonneg_int_cases by blast
  show t: "trim_space (EncodeKeysetCursor sortKey rowID) = EncodeKeysetCursor sortKey rowID"
    by (simp add: n trim_cursor)
  show p: "prefix (KeysetCursorPrefix @ ''.'') (EncodeKeysetCursor sortKey rowID)"
    by (simp add: n EncodeKeysetCursor_nat go_consts)
  then have "EncodeKeysetCursor sortKey rowID \<noteq> []" by auto
  then show "DecodeKeysetCursor (EncodeKeysetCursor sortKey rowID) = Some (sortKey, rowID)"
    using p t assms decodeKeysetV2_encode [of n sortKey] by (simp add: DecodeKeysetCursor_def n)
qed

text \<open>
  Paging cursors round-trip: for every sort key and every non-negative 64-bit row id, the
  cursor built from them decodes to exactly that pair and validates, provided it fits in the
  256 bytes a cursor may have.
\<close>

theorem keyset_cursor_round_trip:
  assumes "0 \<le> rowID" "rowID < 2 ^ 63" "length (EncodeKeysetCursor sortKey rowID) \<le> MaxSyncCursorLen"
  shows "DecodeKeysetCursor (EncodeKeysetCursor sortKey rowID) = Some (sortKey, rowID) \<and>
         ValidateKeysetCursor (EncodeKeysetCursor sortKey rowID) = None"
  using keyset_cursor_decodes [OF assms] assms(3) by (simp add: ValidateKeysetCursor_def Let_def)

theorem keyset_cursor_round_trip_witness:
  "DecodeKeysetCursor (EncodeKeysetCursor ''Ann.B:1'' 42) = Some (''Ann.B:1'', 42)"
proof -
  have "length (EncodeKeysetCursor ''Ann.B:1'' 42) \<le> MaxSyncCursorLen"
    by code_simp
  then show ?thesis using keyset_cursor_round_trip [of 42 "''Ann.B:1''"] by simp
qed

text \<open>
  The v2 format fails closed: a cursor that starts with the v2 prefix is accepted only
  when it is, up to surrounding space, the canonical encoding of what it decodes to; so two
  accepted v2 cursors for the same key and row are the same string.
\<close>

theorem keyset_v2_canonical:
  assumes "DecodeKeysetCursor cursor = Some (k, i)"
    and "prefix (KeysetCursorPrefix @ ''.'') (trim_space cursor)"
  shows "trim_space cursor = EncodeKeysetCursor k i \<and> 0 \<le> i \<and>
         length (trim_space cursor) \<le> MaxSyncCursorLen"
proof -
  have c: "trim_space cursor \<noteq> []" using assms(2) by auto
  then have "decodeKeysetV2 (trim_space cursor) = Some (k, i)"
    "length (trim_space cursor) \<le> MaxSyncCursorLen"
    using assms by (simp_all add: DecodeKeysetCursor_def Let_def split: if_splits)
  then show ?thesis
    by (auto simp: decodeKeysetV2_def splitCursorPair_def Let_def
        split: option.splits if_splits prod.splits)
qed

theorem keyset_v2_canonical_witness:
  "trim_space (EncodeKeysetCursor ''x'' 3) = EncodeKeysetCursor ''x'' 3 \<and> 0 \<le> (3 :: int)"
proof -
  have "length (EncodeKeysetCursor ''x'' 3) \<le> MaxSyncCursorLen" by code_simp
  note d = keyset_cursor_decodes [OF _ _ this]
  have "DecodeKeysetCursor (EncodeKeysetCursor ''x'' 3) = Some (''x'', 3)"
    "prefix (KeysetCursorPrefix @ ''.'') (trim_space (EncodeKeysetCursor ''x'' 3))"
    using d by simp_all
  then show ?thesis using keyset_v2_canonical by blast
qed

end
