(* ===== verification/Files_Wire.thy ===== *)
theory Files_Wire
  imports Go_Json_Decode
begin

text \<open>
  The payload structs of \<open>packages/core/files.go\<close>: for each, its record, its zero value and
  how \<open>json.Unmarshal\<close> fills its fields.
\<close>

record FileEntry =
  fe_Name :: string
  fe_Path :: string
  fe_IsDir :: bool
  fe_Size :: int
  fe_ModTime :: int
  fe_Mime :: string

definition zero_FileEntry :: FileEntry where
  "zero_FileEntry =
     \<lparr>fe_Name = [], fe_Path = [], fe_IsDir = False, fe_Size = 0, fe_ModTime = 0,
      fe_Mime = []\<rparr>"

definition FileEntry_fields :: "FileEntry fields" where
  "FileEntry_fields =
     [(''name'', dec_field fe_Name (\<lambda>x. fe_Name_update (\<lambda>_. x)) dec_string),
      (''path'', dec_field fe_Path (\<lambda>x. fe_Path_update (\<lambda>_. x)) dec_string),
      (''is_dir'', dec_field fe_IsDir (\<lambda>x. fe_IsDir_update (\<lambda>_. x)) dec_bool),
      (''size'', dec_field fe_Size (\<lambda>x. fe_Size_update (\<lambda>_. x)) dec_int),
      (''mod_time'', dec_field fe_ModTime (\<lambda>x. fe_ModTime_update (\<lambda>_. x)) dec_int),
      (''mime'', dec_field fe_Mime (\<lambda>x. fe_Mime_update (\<lambda>_. x)) dec_string)]"

record FileListPayload =
  fl_Nonce :: string
  fl_ReqID :: string
  fl_Path :: string

definition zero_FileListPayload :: FileListPayload where
  "zero_FileListPayload =
     \<lparr>fl_Nonce = [], fl_ReqID = [], fl_Path = []\<rparr>"

definition FileListPayload_fields :: "FileListPayload fields" where
  "FileListPayload_fields =
     [(''nonce'', dec_field fl_Nonce (\<lambda>x. fl_Nonce_update (\<lambda>_. x)) dec_string),
      (''req_id'', dec_field fl_ReqID (\<lambda>x. fl_ReqID_update (\<lambda>_. x)) dec_string),
      (''path'', dec_field fl_Path (\<lambda>x. fl_Path_update (\<lambda>_. x)) dec_string)]"

record FileListRespPayload =
  flr_Nonce :: string
  flr_ReqID :: string
  flr_Entries :: "FileEntry list"
  flr_Error :: string
  flr_ErrorCode :: string
  flr_Permission :: string

definition zero_FileListRespPayload :: FileListRespPayload where
  "zero_FileListRespPayload =
     \<lparr>flr_Nonce = [], flr_ReqID = [], flr_Entries = [], flr_Error = [],
      flr_ErrorCode = [], flr_Permission = []\<rparr>"

definition FileListRespPayload_fields :: "FileListRespPayload fields" where
  "FileListRespPayload_fields =
     [(''nonce'', dec_field flr_Nonce (\<lambda>x. flr_Nonce_update (\<lambda>_. x)) dec_string),
      (''req_id'', dec_field flr_ReqID (\<lambda>x. flr_ReqID_update (\<lambda>_. x)) dec_string),
      (''entries'',
        dec_field flr_Entries (\<lambda>x. flr_Entries_update (\<lambda>_. x)) (dec_slice (dec_struct FileEntry_fields) zero_FileEntry)),
      (''error'', dec_field flr_Error (\<lambda>x. flr_Error_update (\<lambda>_. x)) dec_string),
      (''error_code'',
        dec_field flr_ErrorCode (\<lambda>x. flr_ErrorCode_update (\<lambda>_. x)) dec_string),
      (''permission'',
        dec_field flr_Permission (\<lambda>x. flr_Permission_update (\<lambda>_. x)) dec_string)]"

record FileMkdirPayload =
  fm_Nonce :: string
  fm_Path :: string

definition zero_FileMkdirPayload :: FileMkdirPayload where
  "zero_FileMkdirPayload =
     \<lparr>fm_Nonce = [], fm_Path = []\<rparr>"

definition FileMkdirPayload_fields :: "FileMkdirPayload fields" where
  "FileMkdirPayload_fields =
     [(''nonce'', dec_field fm_Nonce (\<lambda>x. fm_Nonce_update (\<lambda>_. x)) dec_string),
      (''path'', dec_field fm_Path (\<lambda>x. fm_Path_update (\<lambda>_. x)) dec_string)]"

record FileDeletePayload =
  fd_Nonce :: string
  fd_Path :: string

definition zero_FileDeletePayload :: FileDeletePayload where
  "zero_FileDeletePayload =
     \<lparr>fd_Nonce = [], fd_Path = []\<rparr>"

definition FileDeletePayload_fields :: "FileDeletePayload fields" where
  "FileDeletePayload_fields =
     [(''nonce'', dec_field fd_Nonce (\<lambda>x. fd_Nonce_update (\<lambda>_. x)) dec_string),
      (''path'', dec_field fd_Path (\<lambda>x. fd_Path_update (\<lambda>_. x)) dec_string)]"

record FileRenamePayload =
  fr_Nonce :: string
  fr_From :: string
  fr_To :: string

definition zero_FileRenamePayload :: FileRenamePayload where
  "zero_FileRenamePayload =
     \<lparr>fr_Nonce = [], fr_From = [], fr_To = []\<rparr>"

definition FileRenamePayload_fields :: "FileRenamePayload fields" where
  "FileRenamePayload_fields =
     [(''nonce'', dec_field fr_Nonce (\<lambda>x. fr_Nonce_update (\<lambda>_. x)) dec_string),
      (''from'', dec_field fr_From (\<lambda>x. fr_From_update (\<lambda>_. x)) dec_string),
      (''to'', dec_field fr_To (\<lambda>x. fr_To_update (\<lambda>_. x)) dec_string)]"

record FileChunkPayload =
  fc_Nonce :: string
  fc_TransferID :: string
  fc_Path :: string
  fc_Offset :: int
  fc_TotalSize :: int
  fc_ChunkIndex :: int
  fc_TotalChunks :: int
  fc_DataB64 :: string
  fc_Sha256 :: string
  fc_Policy :: string
  fc_SourceMtime :: int

definition zero_FileChunkPayload :: FileChunkPayload where
  "zero_FileChunkPayload =
     \<lparr>fc_Nonce = [], fc_TransferID = [], fc_Path = [], fc_Offset = 0,
      fc_TotalSize = 0, fc_ChunkIndex = 0, fc_TotalChunks = 0, fc_DataB64 = [],
      fc_Sha256 = [], fc_Policy = [], fc_SourceMtime = 0\<rparr>"

definition FileChunkPayload_fields :: "FileChunkPayload fields" where
  "FileChunkPayload_fields =
     [(''nonce'', dec_field fc_Nonce (\<lambda>x. fc_Nonce_update (\<lambda>_. x)) dec_string),
      (''transfer_id'',
        dec_field fc_TransferID (\<lambda>x. fc_TransferID_update (\<lambda>_. x)) dec_string),
      (''path'', dec_field fc_Path (\<lambda>x. fc_Path_update (\<lambda>_. x)) dec_string),
      (''offset'', dec_field fc_Offset (\<lambda>x. fc_Offset_update (\<lambda>_. x)) dec_int),
      (''total_size'', dec_field fc_TotalSize (\<lambda>x. fc_TotalSize_update (\<lambda>_. x)) dec_int),
      (''chunk_index'',
        dec_field fc_ChunkIndex (\<lambda>x. fc_ChunkIndex_update (\<lambda>_. x)) dec_int),
      (''total_chunks'',
        dec_field fc_TotalChunks (\<lambda>x. fc_TotalChunks_update (\<lambda>_. x)) dec_int),
      (''data_b64'', dec_field fc_DataB64 (\<lambda>x. fc_DataB64_update (\<lambda>_. x)) dec_string),
      (''sha256'', dec_field fc_Sha256 (\<lambda>x. fc_Sha256_update (\<lambda>_. x)) dec_string),
      (''policy'', dec_field fc_Policy (\<lambda>x. fc_Policy_update (\<lambda>_. x)) dec_string),
      (''source_mtime'',
        dec_field fc_SourceMtime (\<lambda>x. fc_SourceMtime_update (\<lambda>_. x)) dec_int)]"

record FilePullReqPayload =
  fp_Nonce :: string
  fp_TransferID :: string
  fp_Path :: string

definition zero_FilePullReqPayload :: FilePullReqPayload where
  "zero_FilePullReqPayload =
     \<lparr>fp_Nonce = [], fp_TransferID = [], fp_Path = []\<rparr>"

definition FilePullReqPayload_fields :: "FilePullReqPayload fields" where
  "FilePullReqPayload_fields =
     [(''nonce'', dec_field fp_Nonce (\<lambda>x. fp_Nonce_update (\<lambda>_. x)) dec_string),
      (''transfer_id'',
        dec_field fp_TransferID (\<lambda>x. fp_TransferID_update (\<lambda>_. x)) dec_string),
      (''path'', dec_field fp_Path (\<lambda>x. fp_Path_update (\<lambda>_. x)) dec_string)]"

record FileAckPayload =
  fa_Nonce :: string
  fa_TransferID :: string
  fa_OK :: bool
  fa_Error :: string

definition zero_FileAckPayload :: FileAckPayload where
  "zero_FileAckPayload =
     \<lparr>fa_Nonce = [], fa_TransferID = [], fa_OK = False, fa_Error = []\<rparr>"

definition FileAckPayload_fields :: "FileAckPayload fields" where
  "FileAckPayload_fields =
     [(''nonce'', dec_field fa_Nonce (\<lambda>x. fa_Nonce_update (\<lambda>_. x)) dec_string),
      (''transfer_id'',
        dec_field fa_TransferID (\<lambda>x. fa_TransferID_update (\<lambda>_. x)) dec_string),
      (''ok'', dec_field fa_OK (\<lambda>x. fa_OK_update (\<lambda>_. x)) dec_bool),
      (''error'', dec_field fa_Error (\<lambda>x. fa_Error_update (\<lambda>_. x)) dec_string)]"

record FileCancelPayload =
  fx_Nonce :: string
  fx_TransferID :: string
  fx_Path :: string

definition zero_FileCancelPayload :: FileCancelPayload where
  "zero_FileCancelPayload =
     \<lparr>fx_Nonce = [], fx_TransferID = [], fx_Path = []\<rparr>"

definition FileCancelPayload_fields :: "FileCancelPayload fields" where
  "FileCancelPayload_fields =
     [(''nonce'', dec_field fx_Nonce (\<lambda>x. fx_Nonce_update (\<lambda>_. x)) dec_string),
      (''transfer_id'',
        dec_field fx_TransferID (\<lambda>x. fx_TransferID_update (\<lambda>_. x)) dec_string),
      (''path'', dec_field fx_Path (\<lambda>x. fx_Path_update (\<lambda>_. x)) dec_string)]"

record FileStatReqPayload =
  fsq_Nonce :: string
  fsq_TransferID :: string

definition zero_FileStatReqPayload :: FileStatReqPayload where
  "zero_FileStatReqPayload =
     \<lparr>fsq_Nonce = [], fsq_TransferID = []\<rparr>"

definition FileStatReqPayload_fields :: "FileStatReqPayload fields" where
  "FileStatReqPayload_fields =
     [(''nonce'', dec_field fsq_Nonce (\<lambda>x. fsq_Nonce_update (\<lambda>_. x)) dec_string),
      (''transfer_id'',
        dec_field fsq_TransferID (\<lambda>x. fsq_TransferID_update (\<lambda>_. x)) dec_string)]"

record FileStatRespPayload =
  fsr_Nonce :: string
  fsr_TransferID :: string
  fsr_NextChunk :: int
  fsr_TotalChunks :: int
  fsr_Error :: string

definition zero_FileStatRespPayload :: FileStatRespPayload where
  "zero_FileStatRespPayload =
     \<lparr>fsr_Nonce = [], fsr_TransferID = [], fsr_NextChunk = 0, fsr_TotalChunks = 0,
      fsr_Error = []\<rparr>"

definition FileStatRespPayload_fields :: "FileStatRespPayload fields" where
  "FileStatRespPayload_fields =
     [(''nonce'', dec_field fsr_Nonce (\<lambda>x. fsr_Nonce_update (\<lambda>_. x)) dec_string),
      (''transfer_id'',
        dec_field fsr_TransferID (\<lambda>x. fsr_TransferID_update (\<lambda>_. x)) dec_string),
      (''next_chunk'', dec_field fsr_NextChunk (\<lambda>x. fsr_NextChunk_update (\<lambda>_. x)) dec_int),
      (''total_chunks'',
        dec_field fsr_TotalChunks (\<lambda>x. fsr_TotalChunks_update (\<lambda>_. x)) dec_int),
      (''error'', dec_field fsr_Error (\<lambda>x. fsr_Error_update (\<lambda>_. x)) dec_string)]"

end
