(* ===== verification/Go_Paths.thy ===== *)
theory Go_Paths
  imports Go_Text
begin

text \<open>
  What the program uses of \<open>path/filepath\<close> on Unix: \<open>Clean\<close>, \<open>IsAbs\<close>, \<open>IsLocal\<close>,
  \<open>Base\<close> and \<open>Ext\<close>. The meaning of a relative path is given by \<open>walk\<close>, which follows its
  components from a directory; \<open>walk_clean\<close> shows that cleaning keeps that meaning.
\<close>

abbreviation slash :: char where "slash \<equiv> CHR ''/''"

section \<open>Lexical operations\<close>

definition clean_step :: "bool \<Rightarrow> string \<Rightarrow> string list \<Rightarrow> string list" where
  "clean_step rooted p st =
     (if p = [] \<or> p = ''.'' then st
      else if p = ''..'' then
        (case st of
           [] \<Rightarrow> if rooted then [] else [p]
         | q # r \<Rightarrow> if q = ''..'' then p # st else r)
      else p # st)"

definition clean_parts :: "bool \<Rightarrow> string list \<Rightarrow> string list" where
  "clean_parts rooted ps = rev (fold (clean_step rooted) ps [])"

definition is_abs :: "string \<Rightarrow> bool" where
  "is_abs s \<longleftrightarrow> s \<noteq> [] \<and> hd s = slash"

definition path_clean :: "string \<Rightarrow> string" where
  "path_clean s =
     (if s = [] then ''.''
      else
        let body = join_on slash (clean_parts (is_abs s) (split_on slash s))
        in if is_abs s then slash # body else if body = [] then ''.'' else body)"

definition is_local :: "string \<Rightarrow> bool" where
  "is_local s =
     (if is_abs s \<or> s = [] then False
      else
        let dots = list_ex (\<lambda>p. p = ''.'' \<or> p = ''..'') (split_on slash s);
            q = (if dots then path_clean s else s)
        in \<not> (q = ''..'' \<or> prefix ''../'' q))"

definition path_base :: "string \<Rightarrow> string" where
  "path_base s =
     (if s = [] then ''.''
      else
        let t = rev (dropWhile (\<lambda>c. c = slash) (rev s));
            b = rev (takeWhile (\<lambda>c. c \<noteq> slash) (rev t))
        in if b = [] then [slash] else b)"

definition path_ext :: "string \<Rightarrow> string" where
  "path_ext s =
     (let r = takeWhile (\<lambda>c. c \<noteq> slash) (rev s)
      in if CHR ''.'' \<in> set r then CHR ''.'' # rev (takeWhile (\<lambda>c. c \<noteq> CHR ''.'') r) else [])"

section \<open>The meaning of a relative path\<close>

text \<open>A directory is the list of the names below the root, the innermost first.\<close>

definition walk_step :: "string \<Rightarrow> string list \<Rightarrow> string list" where
  "walk_step p d =
     (if p = [] \<or> p = ''.'' then d else if p = ''..'' then tl d else p # d)"

definition walk :: "string list \<Rightarrow> string list \<Rightarrow> string list" where
  "walk ps d = fold walk_step ps d"

text \<open>Cleaned components: never empty nor a dot, and any dot-dot comes before every name.\<close>

definition clean_stack :: "string list \<Rightarrow> bool" where
  "clean_stack st \<longleftrightarrow>
     (\<exists>ns k. st = ns @ replicate k ''..'' \<and> [] \<notin> set ns \<and> ''.'' \<notin> set ns \<and> ''..'' \<notin> set ns)"

lemma clean_stack_Nil: "clean_stack []"
  by (simp add: clean_stack_def)

lemma clean_stack_elems: "clean_stack st \<Longrightarrow> p \<in> set st \<Longrightarrow> p \<noteq> [] \<and> p \<noteq> ''.''"
  by (auto simp: clean_stack_def)

lemma clean_stack_step: "clean_stack st \<Longrightarrow> clean_stack (clean_step False p st)"
proof -
  assume "clean_stack st"
  then obtain ns k where s: "st = ns @ replicate k ''..''"
    "[] \<notin> set ns" "''.'' \<notin> set ns" "''..'' \<notin> set ns" by (auto simp: clean_stack_def)
  have name: "clean_stack (p # st)" if "p \<noteq> []" "p \<noteq> ''.''" "p \<noteq> ''..''"
    unfolding clean_stack_def
    by (rule exI [of _ "p # ns"], rule exI [of _ k]) (use s that in auto)
  have drop: "clean_stack r" if "ns = q # r'" "st = q # r" for q r r'
    unfolding clean_stack_def
    by (rule exI [of _ r'], rule exI [of _ k]) (use s that in auto)
  have up: "clean_stack (''..'' # st)" if "ns = []"
    unfolding clean_stack_def
    by (rule exI [of _ "[]"], rule exI [of _ "Suc k"]) (use s that in simp)
  show ?thesis
  proof (cases ns)
    case Nil
    then show ?thesis using s name up \<open>clean_stack st\<close>
      by (cases k) (auto simp: clean_step_def)
  next
    case (Cons q r')
    then have "q \<noteq> ''..''" using s by auto
    then show ?thesis using s name drop Cons \<open>clean_stack st\<close> by (simp add: clean_step_def)
  qed
qed

lemma clean_stack_fold: "clean_stack st \<Longrightarrow> clean_stack (fold (clean_step False) ps st)"
  by (induction ps arbitrary: st) (simp_all add: clean_stack_step)

lemma clean_parts_subset: "set (fold (clean_step b) ps st) \<subseteq> set ps \<union> set st"
proof (induction ps arbitrary: st)
  case (Cons p ps)
  have "set (clean_step b p st) \<subseteq> insert p (set st)"
    by (auto simp: clean_step_def split: list.splits if_splits)
  then show ?case using Cons [of "clean_step b p st"] by auto
qed simp

text \<open>Walking the cleaned components is walking the components.\<close>

lemma walk_rev_stack_step:
  assumes "clean_stack st"
  shows "walk (rev (clean_step False p st)) d = walk_step p (walk (rev st) d)"
proof (cases "p = ''..''")
  case True
  show ?thesis
  proof (cases st)
    case Nil
    then show ?thesis using True by (simp add: clean_step_def walk_def)
  next
    case (Cons q r)
    have q: "q \<noteq> []" "q \<noteq> ''.''" using clean_stack_elems [OF assms, of q] Cons by simp_all
    then show ?thesis using True Cons by (simp add: clean_step_def walk_def walk_step_def)
  qed
qed (simp add: clean_step_def walk_def walk_step_def)

lemma walk_clean_parts: "walk (clean_parts False ps) d = walk ps d"
proof -
  have "walk (rev (fold (clean_step False) ps st)) d = walk ps (walk (rev st) d)"
    if "clean_stack st" for st
    using that
  proof (induction ps arbitrary: st)
    case (Cons p ps)
    then show ?case
      using clean_stack_step walk_rev_stack_step by (simp add: walk_def)
  qed (simp add: walk_def)
  from this [OF clean_stack_Nil] show ?thesis by (simp add: clean_parts_def walk_def)
qed


section \<open>Cleaned paths\<close>

lemma clean_parts_elems:
  assumes "p \<in> set (clean_parts False (split_on slash s))"
  shows "p \<noteq> []" "p \<noteq> ''.''" "slash \<notin> set p" "set p \<subseteq> set s"
proof -
  have "p \<in> set (fold (clean_step False) (split_on slash s) [])"
    using assms by (simp add: clean_parts_def)
  then show "p \<noteq> []" "p \<noteq> ''.''"
    using clean_stack_elems [OF clean_stack_fold [OF clean_stack_Nil]] by blast+
  have "p \<in> set (split_on slash s)"
    using assms clean_parts_subset [of False "split_on slash s" "[]"]
    by (auto simp: clean_parts_def)
  then show "slash \<notin> set p" "set p \<subseteq> set s"
    using split_parts_free split_parts_subset by blast+
qed

lemma clean_parts_no_dotdot:
  assumes "clean_parts False ps \<noteq> []" "hd (clean_parts False ps) \<noteq> ''..''"
  shows "''..'' \<notin> set (clean_parts False ps)"
proof -
  obtain ns k where f: "fold (clean_step False) ps [] = ns @ replicate k ''..''" "''..'' \<notin> set ns"
    using clean_stack_fold [OF clean_stack_Nil, of ps] by (auto simp: clean_stack_def)
  then have c: "clean_parts False ps = replicate k ''..'' @ rev ns"
    by (simp add: clean_parts_def)
  then have "k = 0" using assms(2) by (cases k) auto
  then show ?thesis using c f by simp
qed

lemma join_on_eq_Nil: "\<forall>p \<in> set ps. p \<noteq> [] \<Longrightarrow> join_on d ps = [] \<longleftrightarrow> ps = []"
  by (induction d ps rule: join_on.induct) auto

lemma path_clean_rel:
  assumes "s \<noteq> []" "\<not> is_abs s"
  defines "ps \<equiv> clean_parts False (split_on slash s)"
  shows "path_clean s = (if ps = [] then ''.'' else join_on slash ps)"
    and "split_on slash (path_clean s) = (if ps = [] then [''.''] else ps)"
proof -
  have "\<forall>p \<in> set ps. p \<noteq> []" using clean_parts_elems by (simp add: ps_def)
  then show c: "path_clean s = (if ps = [] then ''.'' else join_on slash ps)"
    using assms join_on_eq_Nil [of ps slash] by (simp add: path_clean_def)
  have "\<forall>p \<in> set ps. slash \<notin> set p" using clean_parts_elems by (simp add: ps_def)
  then show "split_on slash (path_clean s) = (if ps = [] then [''.''] else ps)"
    unfolding c by (simp add: split_join split_on_free)
qed

lemma walk_path_clean:
  assumes "\<not> is_abs s"
  shows "walk (split_on slash (path_clean s)) d = walk (split_on slash s) d"
proof (cases "s = []")
  case False
  have "walk (split_on slash (path_clean s)) d = walk (clean_parts False (split_on slash s)) d"
    using path_clean_rel(2) [OF False assms] by (simp add: walk_def walk_step_def)
  then show ?thesis by (simp add: walk_clean_parts)
qed (simp add: path_clean_def walk_def walk_step_def)

lemma walk_names:
  "\<forall>p \<in> set ps. p \<noteq> [] \<and> p \<noteq> ''.'' \<and> p \<noteq> ''..'' \<Longrightarrow> walk ps d = rev ps @ d"
  unfolding walk_def by (induction ps arbitrary: d) (auto simp: walk_step_def)

lemma path_base_no_slash: "path_base s = [slash] \<or> slash \<notin> set (path_base s)"
  by (auto simp: path_base_def Let_def dest: set_takeWhileD)


text \<open>Cleaning never lengthens a path.\<close>

definition weight :: "string list \<Rightarrow> nat" where
  "weight ps = sum_list (map (\<lambda>p. Suc (length p)) ps)"

lemma weight_simps [simp]: "weight [] = 0" "weight (p # ps) = Suc (length p) + weight ps"
  by (simp_all add: weight_def)

lemma weight_rev [simp]: "weight (rev ps) = weight ps"
  by (induction ps) (simp_all add: weight_def)

lemma length_join_on: "ps \<noteq> [] \<Longrightarrow> Suc (length (join_on d ps)) = weight ps"
  by (induction d ps rule: join_on.induct) auto

lemma weight_clean_fold: "weight (fold (clean_step b) ps st) \<le> weight ps + weight st"
proof (induction ps arbitrary: st)
  case (Cons p ps)
  have "weight (clean_step b p st) \<le> Suc (length p) + weight st"
    by (cases st) (auto simp: clean_step_def)
  then show ?case using Cons [of "clean_step b p st"] by simp
qed simp

lemma length_path_clean:
  assumes "s \<noteq> []" "\<not> is_abs s"
  shows "length (path_clean s) \<le> length s"
proof -
  let ?ps = "clean_parts False (split_on slash s)"
  have s: "Suc (length s) = weight (split_on slash s)"
    using length_join_on [of "split_on slash s" slash] by (simp add: join_split)
  have "weight ?ps \<le> Suc (length s)"
    using weight_clean_fold [of False "split_on slash s" "[]"] s by (simp add: clean_parts_def)
  then show ?thesis
    using assms length_join_on [of ?ps slash] path_clean_rel(1) [OF assms]
    by (cases s) auto
qed

end
