(* ===== verification/Go_Eval.thy ===== *)
theory Go_Eval
  imports Go_Text
begin

text \<open>
  On ASCII text the string functions are simple list functions, which the simplifier
  evaluates quickly; the collection \<open>go_eval\<close> holds these equations.
\<close>

definition ascii :: "string \<Rightarrow> bool" where
  "ascii s \<longleftrightarrow> list_all (\<lambda>c. byte c < 128) s"

definition ascii_space :: "char \<Rightarrow> bool" where
  "ascii_space c \<longleftrightarrow> (9 \<le> byte c \<and> byte c \<le> 13) \<or> byte c = 32"

lemma ascii_simps [simp]: "ascii []" "ascii (c # s) \<longleftrightarrow> byte c < 128 \<and> ascii s"
  by (simp_all add: ascii_def)

lemma ascii_append [simp]: "ascii (s @ t) \<longleftrightarrow> ascii s \<and> ascii t"
  by (simp add: ascii_def)

lemma runes_ascii [go_eval]: "ascii s \<Longrightarrow> runes s = map byte s"
  by (induction s) (simp_all add: runes_ascii_Cons)

lemma is_space_ascii: "byte c < 128 \<Longrightarrow> is_space (byte c) \<longleftrightarrow> ascii_space c"
  by (auto simp: is_space_def ascii_space_def)

lemma trim_left_ascii: "ascii s \<Longrightarrow> trim_left_space s = dropWhile ascii_space s"
proof (induction s)
  case (Cons c s)
  then show ?case
    by (subst trim_left_space.simps) (simp add: Let_def is_space_ascii)
qed (simp add: trim_left_space.simps)

lemma trim_right_ascii: "ascii s \<Longrightarrow> trim_right_space s = rev (dropWhile ascii_space (rev s))"
proof (induction s rule: rev_induct)
  case (snoc c s)
  then show ?case
    by (subst trim_right_space.simps) (simp add: decode_last_rune_def is_space_ascii)
qed (simp add: trim_right_space.simps)

lemma ascii_dropWhile: "ascii s \<Longrightarrow> ascii (dropWhile P s)"
  unfolding ascii_def list_all_iff by (meson set_dropWhileD)

lemma trim_space_ascii [go_eval]:
  "ascii s \<Longrightarrow> trim_space s = rev (dropWhile ascii_space (rev (dropWhile ascii_space s)))"
  by (simp add: trim_space_def trim_left_ascii trim_right_ascii ascii_dropWhile)

lemma ascii_space_eval [go_eval]:
  "ascii_space (Char b0 b1 b2 b3 b4 b5 b6 b7) \<longleftrightarrow>
     (let b = byte (Char b0 b1 b2 b3 b4 b5 b6 b7) in (9 \<le> b \<and> b \<le> 13) \<or> b = 32)"
  by (simp add: ascii_space_def Let_def)

definition lower_char :: "char \<Rightarrow> char" where
  "lower_char c = (if 65 \<le> byte c \<and> byte c \<le> 90 then char_of (byte c + 32) else c)"

lemma encode_rune_lower:
  "byte c < 128 \<Longrightarrow> encode_rune (rune_lower (byte c)) = [lower_char c]"
  by (auto simp: rune_lower_def lower_char_def encode_rune_def)

lemma to_lower_ascii [go_eval]: "ascii s \<Longrightarrow> to_lower s = map lower_char s"
  by (induction s) (simp_all add: to_lower_def runes_ascii_Cons encode_rune_lower
      string_of_runes_def)

lemma string_of_runes_ascii [go_eval]:
  "list_all (\<lambda>r. r < 128) rs \<Longrightarrow> string_of_runes rs = map char_of rs"
  by (induction rs) (simp_all add: string_of_runes_def encode_rune_def)

text \<open>Lower-case words (the spelling of every mode and kind) are fixed by trimming and folding.\<close>

definition lower_word :: "string \<Rightarrow> bool" where
  "lower_word s \<longleftrightarrow> list_all (\<lambda>c. byte c = 95 \<or> byte c = 45 \<or> (48 \<le> byte c \<and> byte c \<le> 57) \<or>
     (97 \<le> byte c \<and> byte c \<le> 122)) s"

lemma lower_word_fixed: "lower_word s \<Longrightarrow> to_lower (trim_space s) = s"
proof -
  assume w: "lower_word s"
  then have a: "ascii s" by (auto simp: lower_word_def ascii_def list_all_iff)
  have ns: "\<not> ascii_space c" "lower_char c = c" if "c \<in> set s" for c
    using w that by (auto simp: lower_word_def list_all_iff ascii_space_def lower_char_def)
  have dw: "dropWhile ascii_space t = t" if "set t \<subseteq> set s" for t
    using ns(1) that by (cases t) auto
  then have "trim_space s = s" using a by (simp add: trim_space_ascii)
  moreover have "map lower_char s = s" using ns(2) by (simp add: map_idI)
  ultimately show ?thesis using a by (simp add: to_lower_ascii)
qed

section \<open>Text without spaces\<close>

lemma decode_last_rune_in_runes:
  assumes "s \<noteq> []" "fst (decode_last_rune s) \<noteq> rune_error"
  shows "fst (decode_last_rune s) \<in> set (runes s)"
proof -
  let ?k = "length s - snd (decode_last_rune s)"
  have st: "rune_start (byte (hd (drop ?k s)))" by (rule decode_last_rune_start[OF assms])
  then have "runes (take ?k s @ drop ?k s) = runes (take ?k s) @ runes (drop ?k s)"
    by (intro runes_append_start) simp
  then have sub: "set (runes (drop ?k s)) \<subseteq> set (runes s)" by simp
  have w: "0 < snd (decode_last_rune s)" using assms(1) by (rule decode_last_rune_width)
  then have ne: "drop ?k s \<noteq> []" using assms(1) by (metis diff_less drop_eq_Nil2 length_greater_0_conv not_le)
  have "fst (decode_last_rune s) = fst (decode_rune (drop ?k s))"
  proof (cases "byte (last s) < 128")
    case True
    then have "drop ?k s = [last s]" using assms(1)
      by (cases s rule: rev_cases) (simp_all add: decode_last_rune_def)
    then show ?thesis using True assms(1) by (simp add: decode_last_rune_def Let_def)
  next
    case False
    then show ?thesis using assms
      by (auto simp: decode_last_rune_def Let_def split: option.splits if_splits)
  qed
  also have "\<dots> \<in> set (runes (drop ?k s))" using ne by (subst runes.simps) simp
  finally show ?thesis using sub by blast
qed

lemma trim_space_no_space:
  assumes "\<forall>r \<in> set (runes s). \<not> is_space r"
  shows "trim_space s = s"
proof (cases "s = []")
  case False
  have "fst (decode_rune s) \<in> set (runes s)" using False by (subst runes.simps) simp
  then have "trim_left_space s = s" using assms by (subst trim_left_space.simps) auto
  moreover have "\<not> is_space (fst (decode_last_rune s))"
    using decode_last_rune_in_runes[OF False] assms by (metis not_is_space_rune_error)
  then have "trim_right_space s = s" by (subst trim_right_space.simps) simp
  ultimately show ?thesis by (simp add: trim_space_def)
qed simp

lemma ascii_byte_in_runes:
  assumes "c \<in> set s" "byte c < 128"
  shows "byte c \<in> set (runes s)"
proof -
  obtain p q where s: "s = p @ c # q" using assms(1) by (meson split_list)
  have "runes (p @ c # q) = runes p @ runes (c # q)"
    using assms(2) by (intro runes_append_start) (simp add: rune_start_def cont_byte_def)
  then show ?thesis using assms(2) s by (simp add: runes_ascii_Cons)
qed

lemma spaces_no_letters:
  "list_all (\<lambda>r. \<not> in_ranges letter_ranges r \<and> \<not> in_ranges digit_ranges r)
     [0x85, 0xA0, 0x1680, 0x2000, 0x2001, 0x2002, 0x2003, 0x2004, 0x2005, 0x2006, 0x2007,
      0x2008, 0x2009, 0x200A, 0x2028, 0x2029, 0x202F, 0x205F, 0x3000]"
  by (simp add: in_ranges_def letter_ranges_def digit_ranges_def)

lemma space_not_name:
  assumes "is_space r" shows "\<not> is_letter r" "\<not> is_digit r"
proof -
  have "r \<in> set [0x2000, 0x2001, 0x2002, 0x2003, 0x2004, 0x2005, 0x2006, 0x2007, 0x2008, 0x2009, 0x200A]"
    if "0x2000 \<le> r" "r \<le> 0x200A"
    using that by (simp, presburger)
  then have "r < 128 \<and> (r \<le> 13 \<or> r = 32) \<or> (r \<ge> 128 \<and> r \<in> set [0x85, 0xA0, 0x1680, 0x2000, 0x2001, 0x2002,
      0x2003, 0x2004, 0x2005, 0x2006, 0x2007, 0x2008, 0x2009, 0x200A, 0x2028, 0x2029, 0x202F, 0x205F, 0x3000])"
    using assms unfolding is_space_def by fastforce
  then show "\<not> is_letter r" "\<not> is_digit r"
    using spaces_no_letters unfolding is_letter_def is_digit_def list_all_iff by auto
qed

end
