(* ===== verification/Wire_Common.thy ===== *)
theory Wire_Common
  imports Go_Encoding Go_Eval
begin

text \<open>
  Checks several features share: the machine-readable error codes and permission domains
  (\<open>packages/core/photos.go\<close>) and the content hash (\<open>packages/core/clipboard_sync.go\<close>).
\<close>

definition ErrorCodePermissionDenied :: string where [go_consts]:
  "ErrorCodePermissionDenied = ''permission_denied''"
definition ErrorCodeNotFound :: string where [go_consts]: "ErrorCodeNotFound = ''not_found''"
definition ErrorCodeInvalidArg :: string where [go_consts]: "ErrorCodeInvalidArg = ''invalid_arg''"
definition ErrorCodeInternal :: string where [go_consts]: "ErrorCodeInternal = ''internal''"
definition PermissionPhotos :: string where [go_consts]: "PermissionPhotos = ''photos''"
definition PermissionFiles :: string where [go_consts]: "PermissionFiles = ''files''"

definition SanitizeErrorCode :: "string \<Rightarrow> bool" where
  "SanitizeErrorCode s =
     (if s = [] then True
      else if 64 < length s then False
      else trim_space s \<in> {ErrorCodePermissionDenied, ErrorCodeNotFound, ErrorCodeInvalidArg,
                            ErrorCodeInternal})"

definition SanitizePermission :: "string \<Rightarrow> bool" where
  "SanitizePermission s =
     (if s = [] then True
      else trim_space s = PermissionPhotos \<or> trim_space s = PermissionFiles)"

definition SanitizeContentHash :: "string \<Rightarrow> bool" where
  "SanitizeContentHash s =
     (if s = [] then True
      else if length s \<noteq> 64 then False
      else list_all (\<lambda>r. (48 \<le> r \<and> r \<le> 57) \<or> (97 \<le> r \<and> r \<le> 102)) (runes s))"

text \<open>A hexadecimal SHA-256 digest passes the content hash check.\<close>

lemma ascii_hex_encode: "ascii (hex_encode s)"
  using hex_encode_lower [of _ s]
  by (force simp: ascii_def list_all_iff is_lower_hex_def)

lemma hex_encode_runes: "runes (hex_encode s) = map byte (hex_encode s)"
  by (rule runes_ascii [OF ascii_hex_encode])

lemma SanitizeContentHash_hex: "length s = 32 \<Longrightarrow> SanitizeContentHash (hex_encode s)"
proof -
  assume "length s = 32"
  moreover have "list_all (\<lambda>r. (48 \<le> r \<and> r \<le> 57) \<or> (97 \<le> r \<and> r \<le> 102)) (runes (hex_encode s))"
    using hex_encode_lower [of _ s] unfolding hex_encode_runes
    by (auto simp: list_all_iff is_lower_hex_def)
  ultimately show ?thesis by (simp add: SanitizeContentHash_def)
qed


text \<open>Base64 text has no space to trim.\<close>

lemma b64_enc_all:
  assumes "\<And>n. n < 64 \<Longrightarrow> P (e n)" "P CHR ''=''" "c \<in> set (b64_enc e pad s)"
  shows "P c"
  using assms by (induction e pad s rule: b64_enc.induct) (auto split: if_splits)

lemma b64_std_char_byte: "n < 64 \<Longrightarrow> 43 \<le> byte (b64_std_char n) \<and> byte (b64_std_char n) < 123"
  by (auto simp: b64_std_char_def)

lemma b64_std_encode_byte:
  assumes "c \<in> set (b64_std_encode s)"
  shows "43 \<le> byte c \<and> byte c < 123"
  using b64_enc_all [of "\<lambda>c. 43 \<le> byte c \<and> byte c < 123" b64_std_char c True s]
    b64_std_char_byte assms by (simp add: b64_std_encode_def)

lemma trim_b64_std [simp]: "trim_space (b64_std_encode s) = b64_std_encode s"
proof (rule trim_space_plain)
  have "\<not> is_space (byte c) \<and> byte c < 128" if "c \<in> set (b64_std_encode s)" for c
    using b64_std_encode_byte [OF that] by (auto simp: is_space_def)
  then show "plain_ends (b64_std_encode s)" by (auto simp: plain_ends_def)
qed

lemma b64_std_encode_eq_Nil [simp]: "b64_std_encode s = [] \<longleftrightarrow> s = []"
  by (metis b64_std.enc_eq_iff b64_enc.simps(1) b64_std_encode_def)

lemma hex_decode_encode_some [simp]: "hex_decode (hex_encode s) = Some s"
  by (rule hex.dec_enc)

end
