(* ===== verification/Files.thy ===== *)
theory Files
  imports Files_Wire Go_Paths Wire_Common
begin

text \<open>
  File browsing and chunked transfer (\<open>packages/core/files.go\<close>): the path and name
  sandbox, transfer ids, the arithmetic of chunks with its two strides, the validators of
  every file payload, the conflict policies, and the keep-both naming loop.
\<close>

section \<open>Constants\<close>

definition MaxFilePathLen :: nat where [go_consts]: "MaxFilePathLen = 1024"
definition MaxFileNameLen :: nat where [go_consts]: "MaxFileNameLen = 255"
definition MaxFilesPerList :: nat where [go_consts]: "MaxFilesPerList = 500"
definition MaxFileChunkRaw :: int where [go_consts]: "MaxFileChunkRaw = 4194304"
definition LegacyFileChunkRaw :: int where [go_consts]: "LegacyFileChunkRaw = 1048576"
definition MaxFileChunkB64Len :: nat where [go_consts]: "MaxFileChunkB64Len = 5700000"
definition MaxFileTotalSize :: int where [go_consts]: "MaxFileTotalSize = 8589934592"
definition MaxFileTransferIDLen :: nat where [go_consts]: "MaxFileTransferIDLen = 64"
definition MinFileTransferIDLen :: nat where [go_consts]: "MinFileTransferIDLen = 16"
definition FilePolicyOverwrite :: string where [go_consts]: "FilePolicyOverwrite = ''overwrite''"
definition FilePolicyIfNewer :: string where [go_consts]: "FilePolicyIfNewer = ''if_newer''"

section \<open>Chunk arithmetic\<close>

definition FileChunkSizeForPeer :: "bool \<Rightarrow> int" where
  "FileChunkSizeForPeer peerSupportsLarge =
     (if peerSupportsLarge then MaxFileChunkRaw else LegacyFileChunkRaw)"

definition TotalChunksForSize :: "int \<Rightarrow> int \<Rightarrow> int" where
  "TotalChunksForSize totalSize chunkSize =
     (let chunkSize = (if chunkSize \<le> 0 then LegacyFileChunkRaw else chunkSize);
          n = go_div (wrap64 (totalSize + chunkSize - 1)) chunkSize
      in if totalSize = 0 then 1 else n)"

section \<open>The path sandbox\<close>

definition bad_rune :: "nat \<Rightarrow> bool" where
  "bad_rune r \<longleftrightarrow> r = 0 \<or> r < 0x20 \<or> r = 0x7F"

abbreviation nul :: char where "nul \<equiv> CHR 0x00"

definition path_part_ok :: "string \<Rightarrow> bool" where
  "path_part_ok p \<longleftrightarrow>
     p \<noteq> [] \<and> p \<noteq> ''.'' \<and> p \<noteq> ''..'' \<and> length p \<le> MaxFileNameLen \<and>
     CHR 0x5C \<notin> set p \<and> nul \<notin> set p \<and> \<not> list_ex bad_rune (runes p)"

definition SanitizeFilePath :: "string \<Rightarrow> string option" where
  "SanitizeFilePath s =
     (let trimmed = trim_space s
      in if trimmed = [] then Some []
         else if MaxFilePathLen < length trimmed then None
         else if CHR 0x5C \<in> set trimmed \<or> nul \<in> set trimmed then None
         else if is_abs trimmed then None
         else if list_ex bad_rune (runes trimmed) then None
         else
           let cleaned = path_clean trimmed
           in if cleaned = ''.'' then Some []
              else if \<not> is_local cleaned then None
              else if prefix ''..'' cleaned then None
              else if list_all path_part_ok (split_on slash cleaned) then Some cleaned
              else None)"

definition SanitizeFileName :: "string \<Rightarrow> string option" where
  "SanitizeFileName s =
     (let trimmed = trim_space s
      in if trimmed = [] \<or> MaxFileNameLen < length trimmed then None
         else if slash \<in> set trimmed \<or> CHR 0x5C \<in> set trimmed \<or> nul \<in> set trimmed then None
         else if \<not> is_local trimmed then None
         else if trimmed = ''.'' \<or> trimmed = ''..'' then None
         else if list_ex bad_rune (runes trimmed) then None
         else Some trimmed)"

definition SanitizeTransferID :: "string \<Rightarrow> string option" where
  "SanitizeTransferID s =
     (let trimmed = trim_space s; l = length trimmed
      in if trimmed = [] then None
         else if l < MinFileTransferIDLen \<or> MaxFileTransferIDLen < l then None
         else if l mod 2 \<noteq> 0 then None
         else if hex_decode trimmed = None then None
         else Some (to_lower trimmed))"

section \<open>Chunks\<close>

definition SanitizeFilePolicy :: "string \<Rightarrow> bool" where
  "SanitizeFilePolicy p \<longleftrightarrow> p = [] \<or> p = FilePolicyOverwrite \<or> p = FilePolicyIfNewer"

definition DecodeFileChunkData :: "string \<Rightarrow> string option" where
  "DecodeFileChunkData dataB64 =
     (if dataB64 = [] then Some []
      else if MaxFileChunkB64Len < length dataB64 then None
      else case b64_std_decode (trim_space dataB64) of
             None \<Rightarrow> None
           | Some raw \<Rightarrow> if MaxFileChunkRaw < int (length raw) then None else Some raw)"

definition decodedChunkLen :: "string \<Rightarrow> int option" where
  "decodedChunkLen dataB64 =
     (if dataB64 = [] then Some 0
      else if MaxFileChunkB64Len < length dataB64 then None
      else case b64_std_decode (trim_space dataB64) of
             None \<Rightarrow> None
           | Some raw \<Rightarrow>
               if MaxFileChunkRaw < int (length raw) then None else Some (int (length raw)))"

definition chunkStrideFor :: "int \<Rightarrow> int \<Rightarrow> int option" where
  "chunkStrideFor totalSize totalChunks =
     (if totalChunks < 1 then None
      else
        let legacy = TotalChunksForSize totalSize LegacyFileChunkRaw;
            max = TotalChunksForSize totalSize MaxFileChunkRaw
        in if totalChunks = legacy \<and> totalChunks = max then Some LegacyFileChunkRaw
           else if totalChunks = legacy then Some LegacyFileChunkRaw
           else if totalChunks = max then Some MaxFileChunkRaw
           else None)"

definition sanitizeFileChunkLengths :: "FileChunkPayload \<Rightarrow> int \<Rightarrow> bool" where
  "sanitizeFileChunkLengths p rawLen =
     (if fc_Nonce p = [] then False
      else if SanitizeTransferID (fc_TransferID p) = None then False
      else if SanitizeFilePath (fc_Path p) = None then False
      else if fc_Path p = [] then False
      else if fc_TotalSize p < 0 \<or> MaxFileTotalSize < fc_TotalSize p then False
      else if fc_Offset p < 0 \<or> fc_TotalSize p < fc_Offset p then False
      else if fc_ChunkIndex p < 0 \<or> fc_TotalChunks p < 1 then False
      else if fc_TotalChunks p \<le> fc_ChunkIndex p then False
      else case chunkStrideFor (fc_TotalSize p) (fc_TotalChunks p) of
        None \<Rightarrow> False
      | Some stride \<Rightarrow>
          if MaxFileChunkRaw < rawLen then False
          else if fc_Offset p \<noteq> wrap64 (fc_ChunkIndex p * stride) then False
          else if fc_ChunkIndex p < fc_TotalChunks p - 1 \<and> fc_DataB64 p = [] then False
          else if MaxFileChunkB64Len < length (fc_DataB64 p) then False
          else if fc_DataB64 p \<noteq> [] \<and>
                  rawLen \<noteq> (if fc_ChunkIndex p < fc_TotalChunks p - 1 then stride
                             else fc_TotalSize p - fc_Offset p) then False
          else if fc_DataB64 p = [] \<and>
                  \<not> (fc_TotalSize p = 0 \<and> fc_TotalChunks p = 1 \<and> fc_Offset p = 0) then False
          else if fc_Sha256 p \<noteq> [] \<and>
                  (length (fc_Sha256 p) \<noteq> 64 \<or> hex_decode (fc_Sha256 p) = None \<or>
                   fc_ChunkIndex p \<noteq> fc_TotalChunks p - 1) then False
          else if \<not> SanitizeFilePolicy (fc_Policy p) then False
          else if fc_SourceMtime p < 0 then False
          else True)"

definition SanitizeFileChunk :: "FileChunkPayload \<Rightarrow> bool" where
  "SanitizeFileChunk p =
     (case decodedChunkLen (fc_DataB64 p) of
        None \<Rightarrow> False
      | Some rawLen \<Rightarrow> sanitizeFileChunkLengths p rawLen)"

definition SanitizeFileChunkWithRawLen :: "FileChunkPayload \<Rightarrow> int \<Rightarrow> bool" where
  "SanitizeFileChunkWithRawLen p rawLen = sanitizeFileChunkLengths p rawLen"

section \<open>Conflicts\<close>

definition IsSourceNewer :: "int \<Rightarrow> int \<Rightarrow> int \<Rightarrow> int \<Rightarrow> bool" where
  "IsSourceNewer sourceMtime targetMtime sourceSize targetSize =
     (if sourceMtime \<noteq> targetMtime then targetMtime < sourceMtime
      else sourceSize \<noteq> targetSize)"

fun itoa_loop :: "nat \<Rightarrow> string \<Rightarrow> string" where
  "itoa_loop i buf =
     (if i = 0 then buf else itoa_loop (i div 10) (char_of (48 + i mod 10) # buf))"

declare itoa_loop.simps [simp del]

definition itoa :: "int \<Rightarrow> string" where
  "itoa i =
     (if i = 0 then ''0''
      else
        let neg = i < 0; i = (if neg then wrap64 (- i) else i);
            buf = itoa_loop (nat i) []
        in if neg then CHR ''-'' # buf else buf)"

text \<open>The stem and extension that keep-both numbering works on.\<close>

definition keep_both_split :: "string \<Rightarrow> string \<times> string" where
  "keep_both_split remotePath =
     (case cut_last slash remotePath of
        Some (dir, file) \<Rightarrow>
          (case cut_last CHR ''.'' file of
             Some (stem, ext) \<Rightarrow>
               if stem \<noteq> [] then (dir @ slash # stem, CHR ''.'' # ext) else (remotePath, [])
           | None \<Rightarrow> (remotePath, []))
      | None \<Rightarrow>
          (case cut_last CHR ''.'' remotePath of
             Some (stem, ext) \<Rightarrow>
               if stem \<noteq> [] then (stem, CHR ''.'' # ext) else (remotePath, [])
           | None \<Rightarrow> (remotePath, [])))"

definition keep_both_candidate :: "string \<Rightarrow> int \<Rightarrow> string" where
  "keep_both_candidate remotePath i =
     (case keep_both_split remotePath of
        (base, ext) \<Rightarrow> base @ '' ('' @ itoa i @ '')'' @ ext)"

text \<open>The loop has no bound of its own; fuel stands for the iterations it is allowed.\<close>

fun keep_both_loop :: "nat \<Rightarrow> string \<Rightarrow> string set \<Rightarrow> int \<Rightarrow> string option" where
  "keep_both_loop 0 remotePath existing i = None"
| "keep_both_loop (Suc fuel) remotePath existing i =
     (let candidate = keep_both_candidate remotePath i
      in if candidate \<notin> existing then Some candidate
         else keep_both_loop fuel remotePath existing (wrap64 (i + 1)))"

definition KeepBothName :: "nat \<Rightarrow> string \<Rightarrow> string set \<Rightarrow> string option" where
  "KeepBothName fuel remotePath existing =
     (if remotePath \<notin> existing then Some remotePath
      else keep_both_loop fuel remotePath existing 2)"

section \<open>The other payload validators\<close>

definition SanitizeFileList :: "FileListPayload \<Rightarrow> bool" where
  "SanitizeFileList p =
     (if fl_Nonce p = [] \<or> trim_space (fl_ReqID p) = [] then False
      else if 64 < length (fl_ReqID p) then False
      else if SanitizeFilePath (fl_Path p) = None then False
      else True)"

definition file_entry_ok :: "FileEntry \<Rightarrow> bool" where
  "file_entry_ok e =
     (if fe_Name e = [] \<or> MaxFileNameLen < length (fe_Name e) then False
      else if SanitizeFileName (fe_Name e) = None then False
      else if fe_Path e \<noteq> [] \<and> SanitizeFilePath (fe_Path e) = None then False
      else if fe_Size e < 0 \<or> MaxFileTotalSize < fe_Size e then False
      else if fe_ModTime e < 0 then False
      else True)"

definition SanitizeFileListResp :: "FileListRespPayload \<Rightarrow> bool" where
  "SanitizeFileListResp p =
     (if flr_Nonce p = [] \<or> trim_space (flr_ReqID p) = [] then False
      else if 64 < length (flr_ReqID p) then False
      else if MaxFilesPerList < length (flr_Entries p) then False
      else if \<not> list_all file_entry_ok (flr_Entries p) then False
      else if 512 < length (flr_Error p) then False
      else if \<not> SanitizeErrorCode (flr_ErrorCode p) then False
      else if \<not> SanitizePermission (flr_Permission p) then False
      else True)"

definition SanitizeFileMkdir :: "FileMkdirPayload \<Rightarrow> bool" where
  "SanitizeFileMkdir p =
     (if fm_Nonce p = [] then False
      else if SanitizeFilePath (fm_Path p) = None then False
      else if fm_Path p = [] then False
      else True)"

definition SanitizeFileDelete :: "FileDeletePayload \<Rightarrow> bool" where
  "SanitizeFileDelete p =
     (if fd_Nonce p = [] then False
      else if SanitizeFilePath (fd_Path p) = None then False
      else if fd_Path p = [] then False
      else True)"

definition SanitizeFileRename :: "FileRenamePayload \<Rightarrow> bool" where
  "SanitizeFileRename p =
     (if fr_Nonce p = [] then False
      else if SanitizeFilePath (fr_From p) = None then False
      else if fr_From p = [] then False
      else if SanitizeFilePath (fr_To p) = None then False
      else if fr_To p = [] then False
      else if fr_From p = fr_To p then False
      else True)"

definition SanitizeFilePullReq :: "FilePullReqPayload \<Rightarrow> bool" where
  "SanitizeFilePullReq p =
     (if fp_Nonce p = [] then False
      else if SanitizeFilePath (fp_Path p) = None then False
      else if fp_Path p = [] then False
      else if fp_TransferID p \<noteq> [] \<and> SanitizeTransferID (fp_TransferID p) = None then False
      else True)"

definition SanitizeFileAck :: "FileAckPayload \<Rightarrow> bool" where
  "SanitizeFileAck p =
     (if fa_Nonce p = [] then False
      else if SanitizeTransferID (fa_TransferID p) = None then False
      else if 512 < length (fa_Error p) then False
      else True)"

definition SanitizeFileCancel :: "FileCancelPayload \<Rightarrow> bool" where
  "SanitizeFileCancel p =
     (if fx_Nonce p = [] then False
      else if SanitizeTransferID (fx_TransferID p) = None then False
      else if fx_Path p \<noteq> [] \<and> SanitizeFilePath (fx_Path p) = None then False
      else True)"

definition SanitizeFileStatReq :: "FileStatReqPayload \<Rightarrow> bool" where
  "SanitizeFileStatReq p =
     (if fsq_Nonce p = [] then False
      else if SanitizeTransferID (fsq_TransferID p) = None then False
      else True)"

definition SanitizeFileStatResp :: "FileStatRespPayload \<Rightarrow> bool" where
  "SanitizeFileStatResp p =
     (if fsr_Nonce p = [] then False
      else if SanitizeTransferID (fsr_TransferID p) = None then False
      else if fsr_NextChunk p < 0 \<or> fsr_TotalChunks p < 1 \<or> fsr_TotalChunks p < fsr_NextChunk p
      then False
      else if 512 < length (fsr_Error p) then False
      else True)"


section \<open>The sandbox holds\<close>

lemmas path_eval = go_eval go_consts Let_def is_abs_def bad_rune_def path_part_ok_def
  path_clean_def clean_parts_def clean_step_def is_local_def

lemma SanitizeFilePath_SomeE:
  assumes "SanitizeFilePath s = Some p"
  obtains "p = []" "trim_space s = []"
  | "p = []" "trim_space s \<noteq> []" "\<not> is_abs (trim_space s)" "path_clean (trim_space s) = ''.''"
  | "p = path_clean (trim_space s)" "trim_space s \<noteq> []" "\<not> is_abs (trim_space s)"
    "list_all path_part_ok (split_on slash p)" "length (trim_space s) \<le> MaxFilePathLen"
  using assms by (auto simp: SanitizeFilePath_def Let_def split: if_splits)

text \<open>
  C3. The file sandbox cannot be escaped: an accepted path, followed from any directory,
  leads to the place its own components name below that directory, never above it; it is
  the place the peer's own spelling, trimmed, leads to; each component is a non-empty name
  of at most 255 bytes other than dot and dot-dot without slash, backslash, NUL or control
  characters; and the path is at most 1024 bytes.
\<close>

theorem file_path_sandbox:
  assumes "SanitizeFilePath s = Some p"
  shows "walk (split_on slash p) d = (if p = [] then d else rev (split_on slash p) @ d) \<and>
         walk (split_on slash (trim_space s)) d = walk (split_on slash p) d \<and>
         (p \<noteq> [] \<longrightarrow> list_all path_part_ok (split_on slash p)) \<and>
         length p \<le> MaxFilePathLen"
  using assms
proof (cases rule: SanitizeFilePath_SomeE)
  case 1
  then show ?thesis by (simp add: walk_def walk_step_def)
next
  case 2
  have "walk (split_on slash (trim_space s)) d = walk (split_on slash ''.'') d"
    using walk_path_clean [OF 2(3), of d] 2(4) by simp
  then show ?thesis using 2 by (simp add: walk_def walk_step_def)
next
  case 3
  have "p \<noteq> []" using 3(4) by (auto simp: path_part_ok_def)
  moreover have "walk (split_on slash p) d = rev (split_on slash p) @ d"
    by (rule walk_names) (use 3(4) in \<open>auto simp: list_all_iff path_part_ok_def\<close>)
  moreover have "walk (split_on slash (trim_space s)) d = walk (split_on slash p) d"
    using walk_path_clean [OF 3(3), of d] 3(1) by simp
  moreover have "length p \<le> MaxFilePathLen"
    using length_path_clean [OF 3(2,3)] 3(1,5) by simp
  ultimately show ?thesis using 3(4) by simp
qed

theorem file_path_sandbox_witness:
  "SanitizeFilePath ''a/../docs//x.txt '' = Some ''docs/x.txt'' \<and>
   walk (split_on slash ''docs/x.txt'') [''home''] = [''x.txt'', ''docs'', ''home'']"
proof
  show e: "SanitizeFilePath ''a/../docs//x.txt '' = Some ''docs/x.txt''"
    by (simp add: SanitizeFilePath_def path_eval)
  show "walk (split_on slash ''docs/x.txt'') [''home''] = [''x.txt'', ''docs'', ''home'']"
    using file_path_sandbox [OF e, of "[''home'']"] by simp
qed

text \<open>
  The validators of state-changing file messages test the raw path against the empty
  string only, so a delete whose path is a dot, a space or a name followed by dot-dot is
  accepted although it denotes the sandbox root itself.
\<close>

theorem file_delete_accepts_root:
  "SanitizeFileDelete \<lparr>fd_Nonce = ''n'', fd_Path = ''.''\<rparr> \<and> SanitizeFilePath ''.'' = Some [] \<and>
   SanitizeFileDelete \<lparr>fd_Nonce = ''n'', fd_Path = '' ''\<rparr> \<and> SanitizeFilePath '' '' = Some [] \<and>
   SanitizeFileDelete \<lparr>fd_Nonce = ''n'', fd_Path = ''a/..''\<rparr> \<and> SanitizeFilePath ''a/..'' = Some []"
proof -
  have "SanitizeFilePath ''.'' = Some []" "SanitizeFilePath '' '' = Some []"
    "SanitizeFilePath ''a/..'' = Some []" by (simp_all add: SanitizeFilePath_def path_eval)
  then show ?thesis by (simp add: SanitizeFileDelete_def)
qed


section \<open>Chunks tile the file\<close>

definition file_stride :: "int \<Rightarrow> bool" where
  "file_stride stride \<longleftrightarrow> stride = LegacyFileChunkRaw \<or> stride = MaxFileChunkRaw"

lemma file_stride_bounds: "file_stride k \<Longrightarrow> 0 < k \<and> k \<le> 4194304"
  by (auto simp: file_stride_def go_consts)

lemma TotalChunksForSize_pos:
  assumes "0 < t" "t \<le> MaxFileTotalSize" "file_stride k"
  shows "TotalChunksForSize t k = (t + k - 1) div k"
    and "(TotalChunksForSize t k - 1) * k < t" "t \<le> TotalChunksForSize t k * k"
    and "0 < TotalChunksForSize t k"
proof -
  have k: "0 < k" "k \<le> 4194304" using file_stride_bounds [OF assms(3)] by simp_all
  have "int64 (t + k - 1)" using assms k by (simp add: int64_def go_consts)
  then show e: "TotalChunksForSize t k = (t + k - 1) div k"
    using assms k by (simp add: TotalChunksForSize_def Let_def)
  show "(TotalChunksForSize t k - 1) * k < t" "t \<le> TotalChunksForSize t k * k"
    unfolding e using ceil_div_bounds [OF k(1) assms(1)] by (simp_all add: algebra_simps)
  then show "0 < TotalChunksForSize t k"
    using k assms(1) by (metis less_le_trans zero_less_mult_pos2)
qed

lemma chunkStrideFor_SomeD:
  "chunkStrideFor t n = Some k \<Longrightarrow> file_stride k \<and> n = TotalChunksForSize t k"
  by (auto simp: chunkStrideFor_def file_stride_def Let_def split: if_splits)

lemma decodedChunkLen_eq:
  "decodedChunkLen d = map_option (\<lambda>raw. int (length raw)) (DecodeFileChunkData d)"
  by (simp add: decodedChunkLen_def DecodeFileChunkData_def split: option.split)

lemma chunk_index_mult:
  fixes i k n t :: int
  assumes "0 \<le> i" "i < n" "(n - 1) * k < t" "0 < k"
  shows "i * k \<le> (n - 1) * k"
  using assms by (simp add: mult_right_mono)

lemma file_chunk_offset:
  assumes "0 \<le> i" "i < TotalChunksForSize t k" "0 \<le> t" "t \<le> MaxFileTotalSize" "file_stride k"
  shows "wrap64 (i * k) = i * k"
proof (cases "t = 0")
  case True
  then have "i = 0" using assms by (simp add: TotalChunksForSize_def Let_def)
  then show ?thesis by (simp add: int64_def)
next
  case False
  then have "i * k \<le> (TotalChunksForSize t k - 1) * k" "(TotalChunksForSize t k - 1) * k < t"
    using assms TotalChunksForSize_pos [of t k] chunk_index_mult [of i] file_stride_bounds [OF assms(5)]
    by auto
  moreover have "0 \<le> i * k" using assms(1) file_stride_bounds [OF assms(5)] by simp
  ultimately have "int64 (i * k)" using assms(4) by (simp add: int64_def go_consts)
  then show ?thesis by simp
qed

text \<open>
  C19. Every accepted chunk is exactly one tile of its file: for one of the two strides, the
  chunk count is the number of strides that cover the file, the offset is the index times
  the stride, and the decoded bytes reach from there to the next multiple of the stride or
  the end of the file, whichever comes first. So chunks of one transfer never overlap,
  never leave a gap and never write past the declared size.
\<close>

theorem file_chunk_tile:
  assumes "SanitizeFileChunk p"
  shows "\<exists>stride raw. file_stride stride \<and> DecodeFileChunkData (fc_DataB64 p) = Some raw \<and>
           fc_TotalChunks p = TotalChunksForSize (fc_TotalSize p) stride \<and>
           fc_Offset p = fc_ChunkIndex p * stride \<and>
           fc_Offset p + int (length raw) =
             min (fc_TotalSize p) ((fc_ChunkIndex p + 1) * stride)"
proof -
  obtain raw where raw: "DecodeFileChunkData (fc_DataB64 p) = Some raw"
    and ok: "sanitizeFileChunkLengths p (int (length raw))"
    using assms by (auto simp: SanitizeFileChunk_def decodedChunkLen_eq split: option.splits)
  obtain k where k: "chunkStrideFor (fc_TotalSize p) (fc_TotalChunks p) = Some k"
    using ok by (auto simp: sanitizeFileChunkLengths_def split: if_splits option.splits)
  note st = chunkStrideFor_SomeD [OF k]
  have t: "0 \<le> fc_TotalSize p" "fc_TotalSize p \<le> MaxFileTotalSize"
    and i: "0 \<le> fc_ChunkIndex p" "fc_ChunkIndex p < fc_TotalChunks p"
    and off: "fc_Offset p = wrap64 (fc_ChunkIndex p * k)"
    and data: "fc_DataB64 p \<noteq> [] \<Longrightarrow> int (length raw) =
        (if fc_ChunkIndex p < fc_TotalChunks p - 1 then k else fc_TotalSize p - fc_Offset p)"
    and empty: "fc_DataB64 p = [] \<Longrightarrow> fc_TotalSize p = 0"
    using ok k by (auto simp: sanitizeFileChunkLengths_def split: if_splits)
  have off: "fc_Offset p = fc_ChunkIndex p * k"
    using off file_chunk_offset [of "fc_ChunkIndex p" "fc_TotalSize p" k] t i st by simp
  have kpos: "0 < k" using file_stride_bounds st by blast
  have "fc_Offset p + int (length raw) = min (fc_TotalSize p) ((fc_ChunkIndex p + 1) * k)"
  proof (cases "fc_TotalSize p = 0")
    case True
    then have "fc_ChunkIndex p = 0" "fc_TotalChunks p = 1"
      using st i by (simp_all add: TotalChunksForSize_def Let_def)
    moreover have "raw = [] \<or> fc_DataB64 p \<noteq> []" using raw by (auto simp: DecodeFileChunkData_def)
    ultimately show ?thesis using True off data kpos by auto
  next
    case False
    note n = TotalChunksForSize_pos(2,3) [of "fc_TotalSize p" k]
    have n: "(fc_TotalChunks p - 1) * k < fc_TotalSize p" "fc_TotalSize p \<le> fc_TotalChunks p * k"
      using n False t st by auto
    show ?thesis
    proof (cases "fc_ChunkIndex p < fc_TotalChunks p - 1")
      case True
      then have "(fc_ChunkIndex p + 1) * k \<le> (fc_TotalChunks p - 1) * k"
        using kpos by (simp add: mult_right_mono)
      moreover have "int (length raw) = k" using data empty False True by auto
      ultimately show ?thesis using off n by (simp add: algebra_simps)
    next
      case last: False
      then have "fc_ChunkIndex p = fc_TotalChunks p - 1" using i by linarith
      moreover have "int (length raw) = fc_TotalSize p - fc_Offset p" using data empty False last by auto
      ultimately show ?thesis using n by (simp add: algebra_simps)
    qed
  qed
  then show ?thesis using st raw off by blast
qed


lemma sample_chunk_ok:
  "SanitizeFileChunk \<lparr>fc_Nonce = ''n'', fc_TransferID = ''00112233aabbccdd'', fc_Path = ''a.bin'',
     fc_Offset = 0, fc_TotalSize = 2, fc_ChunkIndex = 0, fc_TotalChunks = 1, fc_DataB64 = ''AQI='',
     fc_Sha256 = [], fc_Policy = ''overwrite'', fc_SourceMtime = 7\<rparr>"
proof -
  have "SanitizeTransferID ''00112233aabbccdd'' \<noteq> None"
    by (simp add: SanitizeTransferID_def go_eval go_consts hex_val_def Let_def)
  moreover have "SanitizeFilePath ''a.bin'' \<noteq> None"
    by (simp add: SanitizeFilePath_def path_eval)
  moreover have "decodedChunkLen ''AQI='' = Some 2"
    by (simp add: decodedChunkLen_def go_eval go_consts b64_std_decode_def b64_dec_def
        is_newline_def b64_std_val_def Let_def)
  moreover have "chunkStrideFor 2 1 = Some LegacyFileChunkRaw"
    by (simp add: chunkStrideFor_def TotalChunksForSize_def go_consts Let_def wrap64_def)
  ultimately show ?thesis
    by (simp add: SanitizeFileChunk_def sanitizeFileChunkLengths_def SanitizeFilePolicy_def
        go_consts wrap64_def)
qed

theorem file_chunk_tile_witness:
  "\<exists>stride raw. file_stride stride \<and> DecodeFileChunkData ''AQI='' = Some raw \<and>
     1 = TotalChunksForSize 2 stride \<and> 0 + int (length raw) = min 2 ((0 + 1) * stride)"
  using file_chunk_tile [OF sample_chunk_ok] by auto

section \<open>Keep-both naming\<close>

lemma itoa_loop_digits: "0 < n \<Longrightarrow> itoa_loop n buf = dec_digits n @ buf"
proof (induction n arbitrary: buf rule: dec_digits.induct)
  case (1 n)
  show ?case
  proof (cases "n < 10")
    case True
    then show ?thesis using "1.prems"
      by (simp add: itoa_loop.simps [of n] itoa_loop.simps [of 0] dec_digits.simps [of n]
          digit_char_def)
  next
    case False
    then have "itoa_loop (n div 10) (char_of (48 + n mod 10) # buf) =
        dec_digits (n div 10) @ char_of (48 + n mod 10) # buf" using 1 by simp
    then show ?thesis using False
      by (simp add: itoa_loop.simps [of n] dec_digits.simps [of n] digit_char_def)
  qed
qed

lemma itoa_format_int: "int64 i \<Longrightarrow> i \<noteq> - (2 ^ 63) \<Longrightarrow> itoa i = format_int i"
proof -
  assume i: "int64 i" "i \<noteq> - (2 ^ 63)"
  then have "int64 (- i)" by (simp add: int64_def)
  moreover have "digit_char 0 = CHR ''0''" by (simp add: digit_char_def) code_simp
  ultimately show ?thesis
    by (auto simp: itoa_def format_int_def itoa_loop_digits Let_def dec_digits.simps [of 0])
qed

text \<open>
  The hand-written integer formatter agrees with the library's for every 64-bit integer
  but the smallest, whose negation overflows and which it prints as a lone minus sign.
\<close>

theorem itoa_correct:
  "int64 i \<Longrightarrow> itoa i = (if i = - (2 ^ 63) then ''-'' else format_int i)"
  using itoa_format_int [of i]
  by (auto simp: itoa_def wrap64_def itoa_loop.simps [of 0])

theorem itoa_correct_witness: "itoa (-120) = format_int (-120)"
  using itoa_correct [of "-120"] by (simp add: int64_def)

lemma keep_both_candidate_inj:
  assumes "keep_both_candidate p i = keep_both_candidate p j" "2 \<le> i" "i < 2 ^ 63" "2 \<le> j" "j < 2 ^ 63"
  shows "i = j"
proof -
  obtain b e where "keep_both_split p = (b, e)" by force
  then have eq: "itoa i = itoa j" using assms(1) by (simp add: keep_both_candidate_def)
  have i: "int64 i" "i \<noteq> - (2 ^ 63)" and j: "int64 j" "j \<noteq> - (2 ^ 63)"
    using assms(2-5) by (simp_all add: int64_def)
  have "format_int i = format_int j"
    using eq unfolding itoa_format_int [OF i] itoa_format_int [OF j] .
  then show ?thesis
    using parse_format_int [OF i(1)] parse_format_int [OF j(1)] by (metis option.inject)
qed

lemma keep_both_loop_Some:
  assumes "finite E" "card (E \<inter> keep_both_candidate p ` {i ..< 2 ^ 63}) < fuel"
    and "2 \<le> i" "i + int fuel < 2 ^ 63"
  shows "\<exists>j. keep_both_loop fuel p E i = Some (keep_both_candidate p j) \<and>
    i \<le> j \<and> keep_both_candidate p j \<notin> E \<and> (\<forall>k. i \<le> k \<and> k < j \<longrightarrow> keep_both_candidate p k \<in> E)"
  using assms
proof (induction fuel arbitrary: i)
  case (Suc fuel)
  show ?case
  proof (cases "keep_both_candidate p i \<in> E")
    case False
    then show ?thesis by (intro exI [of _ i]) auto
  next
    case True
    let ?S = "\<lambda>i. E \<inter> keep_both_candidate p ` {i ..< 2 ^ 63}"
    have "keep_both_candidate p i \<notin> keep_both_candidate p ` {i + 1 ..< 2 ^ 63}"
      using keep_both_candidate_inj Suc.prems by fastforce
    then have "?S (i + 1) \<subset> ?S i" using True Suc.prems by auto
    then have "card (?S (i + 1)) < card (?S i)" using Suc.prems(1) by (simp add: psubset_card_mono)
    then have "card (?S (i + 1)) < fuel" using Suc.prems(2) by simp
    then obtain j where j: "keep_both_loop fuel p E (i + 1) = Some (keep_both_candidate p j)"
      "i + 1 \<le> j" "keep_both_candidate p j \<notin> E"
      "\<forall>k. i + 1 \<le> k \<and> k < j \<longrightarrow> keep_both_candidate p k \<in> E"
      using Suc.IH [of "i + 1"] Suc.prems by auto
    have "wrap64 (i + 1) = i + 1" using Suc.prems by (simp add: int64_def)
    moreover have "\<forall>k. i \<le> k \<and> k < j \<longrightarrow> keep_both_candidate p k \<in> E"
      using j(4) True by (metis add1_zle_eq order_le_less)
    ultimately show ?thesis using True j by (intro exI [of _ j]) simp
  qed
qed simp

text \<open>
  C31. The keep-both loop ends: for every finite set of taken names (fewer than two to the
  sixty), with one iteration more than there are taken names, it returns a name that is not
  taken; it is the path itself when that is free, else the numbered copy with the smallest
  free number from 2 on.
\<close>

theorem keep_both_terminates_fresh:
  assumes "finite existing" "card existing < fuel" "fuel < 2 ^ 60"
  shows "\<exists>name. KeepBothName fuel remotePath existing = Some name \<and> name \<notin> existing \<and>
           (remotePath \<notin> existing \<longrightarrow> name = remotePath) \<and>
           (remotePath \<in> existing \<longrightarrow>
              (\<exists>j \<ge> 2. name = keep_both_candidate remotePath j \<and>
                 (\<forall>k. 2 \<le> k \<and> k < j \<longrightarrow> keep_both_candidate remotePath k \<in> existing)))"
proof (cases "remotePath \<in> existing")
  case True
  have "card (existing \<inter> keep_both_candidate remotePath ` {2 ..< 2 ^ 63}) < fuel"
    using assms(1,2) by (meson card_mono inf_le1 le_less_trans)
  moreover have "2 + int fuel < 2 ^ 63" using assms(3) by simp
  ultimately show ?thesis
    using keep_both_loop_Some [OF assms(1), of remotePath 2 fuel] True
    by (auto simp: KeepBothName_def)
qed (simp add: KeepBothName_def)

theorem keep_both_terminates_fresh_witness:
  "\<exists>name. KeepBothName 3 ''p.png'' {''p.png'', ''p (2).png''} = Some name \<and>
     name \<notin> {''p.png'', ''p (2).png''}"
  using keep_both_terminates_fresh [of "{''p.png'', ''p (2).png''}" 3 "''p.png''"] by auto

end
