(* ===== verification/Envelope_Wire.thy ===== *)
theory Envelope_Wire
  imports Go_Json_Decode
begin

text \<open>
  The payload structs of \<open>packages/core/envelope.go\<close>: for each, its record, its zero value and how
  \<open>json.Unmarshal\<close> fills its fields.
\<close>

record PingPayload =
  ping_Nonce :: string
  ping_SentAt :: int
  ping_DeviceName :: string
  ping_Model :: string
  ping_BatteryPct :: "int option"
  ping_Charging :: "bool option"
  ping_FilesPermission :: string
  ping_PhotosPermission :: string

definition zero_PingPayload :: PingPayload where
  "zero_PingPayload =
     \<lparr>ping_Nonce = [], ping_SentAt = 0, ping_DeviceName = [], ping_Model = [],
      ping_BatteryPct = None, ping_Charging = None, ping_FilesPermission = [],
      ping_PhotosPermission = []\<rparr>"

definition PingPayload_fields :: "PingPayload fields" where
  "PingPayload_fields =
     [(''nonce'', dec_field ping_Nonce (\<lambda>x. ping_Nonce_update (\<lambda>_. x)) dec_string),
      (''sent_at'', dec_field ping_SentAt (\<lambda>x. ping_SentAt_update (\<lambda>_. x)) dec_int),
      (''device_name'',
        dec_field ping_DeviceName (\<lambda>x. ping_DeviceName_update (\<lambda>_. x)) dec_string),
      (''model'', dec_field ping_Model (\<lambda>x. ping_Model_update (\<lambda>_. x)) dec_string),
      (''battery_pct'',
        dec_field ping_BatteryPct (\<lambda>x. ping_BatteryPct_update (\<lambda>_. x)) (dec_ptr dec_int 0)),
      (''charging'',
        dec_field ping_Charging (\<lambda>x. ping_Charging_update (\<lambda>_. x)) (dec_ptr dec_bool False)),
      (''files_permission'',
        dec_field ping_FilesPermission (\<lambda>x. ping_FilesPermission_update (\<lambda>_. x)) dec_string),
      (''photos_permission'',
        dec_field ping_PhotosPermission (\<lambda>x. ping_PhotosPermission_update (\<lambda>_. x)) dec_string)]"

record PongPayload =
  pong_Nonce :: string
  pong_ReceivedAt :: int

definition zero_PongPayload :: PongPayload where
  "zero_PongPayload =
     \<lparr>pong_Nonce = [], pong_ReceivedAt = 0\<rparr>"

definition PongPayload_fields :: "PongPayload fields" where
  "PongPayload_fields =
     [(''nonce'', dec_field pong_Nonce (\<lambda>x. pong_Nonce_update (\<lambda>_. x)) dec_string),
      (''received_at'',
        dec_field pong_ReceivedAt (\<lambda>x. pong_ReceivedAt_update (\<lambda>_. x)) dec_int)]"

record ErrorPayload =
  ep_Code :: string
  ep_Message :: string
  ep_RequiredBuild :: int
  ep_RequiredVersion :: string
  ep_CurrentVersion :: string
  ep_Device :: string

definition zero_ErrorPayload :: ErrorPayload where
  "zero_ErrorPayload =
     \<lparr>ep_Code = [], ep_Message = [], ep_RequiredBuild = 0, ep_RequiredVersion = [],
      ep_CurrentVersion = [], ep_Device = []\<rparr>"

definition ErrorPayload_fields :: "ErrorPayload fields" where
  "ErrorPayload_fields =
     [(''code'', dec_field ep_Code (\<lambda>x. ep_Code_update (\<lambda>_. x)) dec_string),
      (''message'', dec_field ep_Message (\<lambda>x. ep_Message_update (\<lambda>_. x)) dec_string),
      (''required_build'',
        dec_field ep_RequiredBuild (\<lambda>x. ep_RequiredBuild_update (\<lambda>_. x)) dec_int),
      (''required_version'',
        dec_field ep_RequiredVersion (\<lambda>x. ep_RequiredVersion_update (\<lambda>_. x)) dec_string),
      (''current_version'',
        dec_field ep_CurrentVersion (\<lambda>x. ep_CurrentVersion_update (\<lambda>_. x)) dec_string),
      (''device'', dec_field ep_Device (\<lambda>x. ep_Device_update (\<lambda>_. x)) dec_string)]"

end
