(* ===== verification/Message_Types.thy ===== *)
theory Message_Types
  imports Prelude
begin

text \<open>
  The message types and capabilities of the wire protocol, as the files of \<open>packages/core\<close>
  name them. The strings are pairwise different, which the collection \<open>type_consts\<close> lets
  the simplifier decide.
\<close>

named_theorems type_consts

definition TypeClipManifest :: string where [type_consts]: "TypeClipManifest = ''clip-image-manifest''"
definition TypeClipChunk :: string where [type_consts]: "TypeClipChunk = ''clip-image-chunk''"
definition TypeContactsListReq :: string where [type_consts]: "TypeContactsListReq = ''contacts-list-req''"
definition TypeContactsListResp :: string where [type_consts]: "TypeContactsListResp = ''contacts-list-resp''"
definition TypeContactAvatarReq :: string where [type_consts]: "TypeContactAvatarReq = ''contact-avatar-req''"
definition TypeContactAvatarResp :: string where [type_consts]: "TypeContactAvatarResp = ''contact-avatar-resp''"
definition TypeContactsChanged :: string where [type_consts]: "TypeContactsChanged = ''contacts-changed''"
definition TypeContactDeleteReq :: string where [type_consts]: "TypeContactDeleteReq = ''contact-delete-req''"
definition TypeContactDeleteResp :: string where [type_consts]: "TypeContactDeleteResp = ''contact-delete-resp''"
definition TypeDNDState :: string where [type_consts]: "TypeDNDState = ''dnd-state''"
definition TypeDNDSet :: string where [type_consts]: "TypeDNDSet = ''dnd-set''"
definition TypePing :: string where [type_consts]: "TypePing = ''ping''"
definition TypePong :: string where [type_consts]: "TypePong = ''pong''"
definition TypeError :: string where [type_consts]: "TypeError = ''error''"
definition TypeNotifPost :: string where [type_consts]: "TypeNotifPost = ''notif-post''"
definition TypeNotifDismiss :: string where [type_consts]: "TypeNotifDismiss = ''notif-dismiss''"
definition TypeNotifAppsReq :: string where [type_consts]: "TypeNotifAppsReq = ''notif-apps-req''"
definition TypeNotifAppsResp :: string where [type_consts]: "TypeNotifAppsResp = ''notif-apps-resp''"
definition TypeClipPush :: string where [type_consts]: "TypeClipPush = ''clip-push''"
definition TypeSettingsSync :: string where [type_consts]: "TypeSettingsSync = ''settings-sync''"
definition TypeUnpair :: string where [type_consts]: "TypeUnpair = ''unpair''"
definition TypeFileList :: string where [type_consts]: "TypeFileList = ''file-list''"
definition TypeFileListResp :: string where [type_consts]: "TypeFileListResp = ''file-list-resp''"
definition TypeFileMkdir :: string where [type_consts]: "TypeFileMkdir = ''file-mkdir''"
definition TypeFileDelete :: string where [type_consts]: "TypeFileDelete = ''file-delete''"
definition TypeFileRename :: string where [type_consts]: "TypeFileRename = ''file-rename''"
definition TypeFileChunk :: string where [type_consts]: "TypeFileChunk = ''file-chunk''"
definition TypeFilePullReq :: string where [type_consts]: "TypeFilePullReq = ''file-pull-req''"
definition TypeFileAck :: string where [type_consts]: "TypeFileAck = ''file-ack''"
definition TypeFileCancel :: string where [type_consts]: "TypeFileCancel = ''file-cancel''"
definition TypeFileStatReq :: string where [type_consts]: "TypeFileStatReq = ''file-stat-req''"
definition TypeFileStatResp :: string where [type_consts]: "TypeFileStatResp = ''file-stat-resp''"
definition TypeSMSThreadsReq :: string where [type_consts]: "TypeSMSThreadsReq = ''sms-threads-req''"
definition TypeSMSThreadsResp :: string where [type_consts]: "TypeSMSThreadsResp = ''sms-threads-resp''"
definition TypeSMSMessagesReq :: string where [type_consts]: "TypeSMSMessagesReq = ''sms-messages-req''"
definition TypeSMSMessagesResp :: string where [type_consts]: "TypeSMSMessagesResp = ''sms-messages-resp''"
definition TypeSMSSendReq :: string where [type_consts]: "TypeSMSSendReq = ''sms-send-req''"
definition TypeSMSSendResp :: string where [type_consts]: "TypeSMSSendResp = ''sms-send-resp''"
definition TypeSMSPush :: string where [type_consts]: "TypeSMSPush = ''sms-push''"
definition TypeSMSChanged :: string where [type_consts]: "TypeSMSChanged = ''sms-changed''"
definition TypeSMSMarkReadReq :: string where [type_consts]: "TypeSMSMarkReadReq = ''sms-mark-read-req''"
definition TypeSMSMarkReadResp :: string where [type_consts]: "TypeSMSMarkReadResp = ''sms-mark-read-resp''"
definition TypePhotoList :: string where [type_consts]: "TypePhotoList = ''photo-list''"
definition TypePhotoListResp :: string where [type_consts]: "TypePhotoListResp = ''photo-list-resp''"
definition TypePhotoThumbReq :: string where [type_consts]: "TypePhotoThumbReq = ''photo-thumb-req''"
definition TypePhotoThumbResp :: string where [type_consts]: "TypePhotoThumbResp = ''photo-thumb-resp''"
definition TypePhotoPullReq :: string where [type_consts]: "TypePhotoPullReq = ''photo-pull-req''"
definition TypePhotoChunk :: string where [type_consts]: "TypePhotoChunk = ''photo-chunk''"
definition TypePhotoDelete :: string where [type_consts]: "TypePhotoDelete = ''photo-delete''"
definition TypePhotoDeleteResp :: string where [type_consts]: "TypePhotoDeleteResp = ''photo-delete-resp''"
definition TypePlaybackState :: string where [type_consts]: "TypePlaybackState = ''playback-state''"
definition TypePlaybackCmd :: string where [type_consts]: "TypePlaybackCmd = ''playback-cmd''"

definition CapabilityContacts :: string where [type_consts]: "CapabilityContacts = ''contacts''"
definition CapabilityDND :: string where [type_consts]: "CapabilityDND = ''dnd''"
definition CapabilityPing :: string where [type_consts]: "CapabilityPing = ''ping''"
definition CapabilityNotifications :: string where [type_consts]: "CapabilityNotifications = ''notifications''"
definition CapabilityClipboard :: string where [type_consts]: "CapabilityClipboard = ''clipboard''"
definition CapabilitySettingsSync :: string where [type_consts]: "CapabilitySettingsSync = ''settings-sync''"
definition CapabilityFiles :: string where [type_consts]: "CapabilityFiles = ''files''"
definition CapabilityFilesAck :: string where [type_consts]: "CapabilityFilesAck = ''files-ack''"
definition CapabilityFilesLargeChunk :: string where [type_consts]: "CapabilityFilesLargeChunk = ''files-large-chunk''"
definition CapabilityMessages :: string where [type_consts]: "CapabilityMessages = ''messages''"
definition CapabilityPhotos :: string where [type_consts]: "CapabilityPhotos = ''photos''"
definition CapabilityPlayback :: string where [type_consts]: "CapabilityPlayback = ''playback''"

end
