(* ===== verification/Modes.thy ===== *)
theory Modes
  imports Go_Eval
begin

text \<open>
  The small enumerations that peers exchange as strings (\<open>packages/core/features.go\<close>,
  \<open>packages/core/playback.go\<close>): origins, clipboard and playback directions, notification
  filter modes, clipboard kinds, playback outputs and states. Each has a function that
  trims, lower-cases and maps unknown input to a default; what the rest of the program
  relies on is the locale \<open>normaliser\<close>.
\<close>

section \<open>The contract of a normaliser\<close>

locale normaliser =
  fixes norm :: "string \<Rightarrow> string" and canon :: "string list"
  assumes norm_canon: "norm s \<in> set canon" and norm_fixed: "c \<in> set canon \<Longrightarrow> norm c = c"
begin

lemma norm_idem [simp]: "norm (norm s) = norm s"
  using norm_canon norm_fixed by blast

lemma norm_range: "range norm = set canon"
proof
  show "set canon \<subseteq> range norm" using norm_fixed by (metis rangeI subsetI)
qed (use norm_canon in auto)

lemma norm_eq_iff: "norm s = c \<Longrightarrow> c \<in> set canon"
  using norm_canon by metis

end

section \<open>Origins\<close>

definition OriginMac :: string where [go_consts]: "OriginMac = ''mac''"
definition OriginMacOS :: string where [go_consts]: "OriginMacOS = ''macos''"
definition OriginAndroid :: string where [go_consts]: "OriginAndroid = ''android''"

definition NormalizeOrigin :: "string \<Rightarrow> string" where
  "NormalizeOrigin s =
     (let n = to_lower (trim_space s) in if n = OriginMacOS then OriginMac else n)"

definition NormalizeUpdatedBy :: "string \<Rightarrow> string" where
  "NormalizeUpdatedBy s = NormalizeOrigin s"

definition IsMacSide :: "string \<Rightarrow> bool" where
  "IsMacSide s \<longleftrightarrow> NormalizeOrigin s = OriginMac"

section \<open>Clipboard directions\<close>

definition ClipboardBoth :: string where [go_consts]: "ClipboardBoth = ''both''"
definition ClipboardMacToAndroid :: string where [go_consts]: "ClipboardMacToAndroid = ''mac_to_android''"
definition ClipboardAndroidToMac :: string where [go_consts]: "ClipboardAndroidToMac = ''android_to_mac''"
definition ClipboardDisabled :: string where [go_consts]: "ClipboardDisabled = ''disabled''"

definition clipboard_modes :: "string list" where [go_consts]:
  "clipboard_modes = [''both'', ''mac_to_android'', ''android_to_mac'', ''disabled'']"

definition NormalizeClipboardMode :: "string \<Rightarrow> string" where
  "NormalizeClipboardMode s =
     (let n = to_lower (trim_space s)
      in if n \<in> {ClipboardBoth, ClipboardMacToAndroid, ClipboardAndroidToMac, ClipboardDisabled} then n
         else ClipboardBoth)"

definition IsValidClipboardMode :: "string \<Rightarrow> bool" where
  "IsValidClipboardMode s \<longleftrightarrow> to_lower (trim_space s) \<in>
     {ClipboardBoth, ClipboardMacToAndroid, ClipboardAndroidToMac, ClipboardDisabled}"

definition ClipboardModeAllowsSend :: "string \<Rightarrow> string \<Rightarrow> bool" where
  "ClipboardModeAllowsSend mode origin =
     (let m = NormalizeClipboardMode mode; o' = NormalizeOrigin origin
      in if m = ClipboardDisabled then False
         else if m = ClipboardMacToAndroid then o' = OriginMac
         else if m = ClipboardAndroidToMac then o' = OriginAndroid
         else True)"

definition ClipboardModeAllowsReceive :: "string \<Rightarrow> string \<Rightarrow> bool" where
  "ClipboardModeAllowsReceive mode origin =
     (let m = NormalizeClipboardMode mode; o' = NormalizeOrigin origin
      in if m = ClipboardDisabled then False
         else if m = ClipboardMacToAndroid then o' = OriginMac
         else if m = ClipboardAndroidToMac then o' = OriginAndroid
         else True)"

section \<open>Notification filter modes\<close>

definition NotifAllExceptMuted :: string where [go_consts]: "NotifAllExceptMuted = ''all_except_muted''"
definition NotifOnlyAllowed :: string where [go_consts]: "NotifOnlyAllowed = ''only_allowed''"

definition NormalizeNotifMode :: "string \<Rightarrow> string" where
  "NormalizeNotifMode s =
     (let n = to_lower (trim_space s)
      in if n \<in> {NotifAllExceptMuted, NotifOnlyAllowed} then n else NotifAllExceptMuted)"

definition IsValidNotifMode :: "string \<Rightarrow> bool" where
  "IsValidNotifMode s \<longleftrightarrow> to_lower (trim_space s) \<in> {NotifAllExceptMuted, NotifOnlyAllowed}"

section \<open>Clipboard kinds\<close>

definition ClipKindText :: string where [go_consts]: "ClipKindText = ''text''"
definition ClipKindImage :: string where [go_consts]: "ClipKindImage = ''image''"

definition NormalizeClipKind :: "string \<Rightarrow> string" where
  "NormalizeClipKind s =
     (if to_lower (trim_space s) = ClipKindImage then ClipKindImage else ClipKindText)"

section \<open>Playback\<close>

definition PlaybackBoth :: string where [go_consts]: "PlaybackBoth = ''both''"
definition PlaybackMacToAndroid :: string where [go_consts]: "PlaybackMacToAndroid = ''mac_to_android''"
definition PlaybackAndroidToMac :: string where [go_consts]: "PlaybackAndroidToMac = ''android_to_mac''"
definition PlaybackDisabled :: string where [go_consts]: "PlaybackDisabled = ''disabled''"
definition PlaybackOutputInApp :: string where [go_consts]: "PlaybackOutputInApp = ''inapp''"
definition PlaybackOutputSystem :: string where [go_consts]: "PlaybackOutputSystem = ''system''"
definition PlaybackPlaying :: string where [go_consts]: "PlaybackPlaying = ''playing''"
definition PlaybackPaused :: string where [go_consts]: "PlaybackPaused = ''paused''"
definition PlaybackStopped :: string where [go_consts]: "PlaybackStopped = ''stopped''"

definition NormalizePlaybackMode :: "string \<Rightarrow> string" where
  "NormalizePlaybackMode s =
     (let n = to_lower (trim_space s)
      in if n \<in> {PlaybackBoth, PlaybackMacToAndroid, PlaybackAndroidToMac, PlaybackDisabled} then n
         else PlaybackBoth)"

definition IsValidPlaybackMode :: "string \<Rightarrow> bool" where
  "IsValidPlaybackMode s \<longleftrightarrow> to_lower (trim_space s) \<in>
     {PlaybackBoth, PlaybackMacToAndroid, PlaybackAndroidToMac, PlaybackDisabled}"

definition PlaybackModeAllowsSend :: "string \<Rightarrow> string \<Rightarrow> bool" where
  "PlaybackModeAllowsSend mode origin =
     (let m = NormalizePlaybackMode mode; o' = NormalizeOrigin origin
      in if m = PlaybackDisabled then False
         else if m = PlaybackMacToAndroid then o' = OriginMac
         else if m = PlaybackAndroidToMac then o' = OriginAndroid
         else True)"

definition PlaybackModeAllowsReceive :: "string \<Rightarrow> string \<Rightarrow> bool" where
  "PlaybackModeAllowsReceive mode origin = PlaybackModeAllowsSend mode origin"

definition PlaybackModeAllowsState :: "string \<Rightarrow> bool" where
  "PlaybackModeAllowsState mode =
     (let m = NormalizePlaybackMode mode in m = PlaybackBoth \<or> m = PlaybackAndroidToMac)"

definition PlaybackModeAllowsCommand :: "string \<Rightarrow> bool" where
  "PlaybackModeAllowsCommand mode =
     (let m = NormalizePlaybackMode mode in m = PlaybackBoth \<or> m = PlaybackMacToAndroid)"

definition NormalizePlaybackOutput :: "string \<Rightarrow> string" where
  "NormalizePlaybackOutput s =
     (if to_lower (trim_space s) = PlaybackOutputSystem then PlaybackOutputSystem
      else PlaybackOutputInApp)"

definition IsValidPlaybackOutput :: "string \<Rightarrow> bool" where
  "IsValidPlaybackOutput s \<longleftrightarrow>
     to_lower (trim_space s) \<in> {PlaybackOutputInApp, PlaybackOutputSystem}"

definition NormalizePlaybackState :: "string \<Rightarrow> string" where
  "NormalizePlaybackState s =
     (let n = to_lower (trim_space s)
      in if n \<in> {PlaybackPlaying, PlaybackPaused} then n else PlaybackStopped)"

section \<open>They are normalisers\<close>

lemma NormalizeOrigin_mac [simp]: "NormalizeOrigin ''mac'' = ''mac''"
  by (simp add: NormalizeOrigin_def go_consts lower_word_fixed lower_word_def Let_def)

lemma normaliserI:
  assumes "\<And>s. norm s = (let n = to_lower (trim_space s) in if n \<in> set canon then n else d)"
    and "d \<in> set canon" and "list_all lower_word canon"
  shows "normaliser norm canon"
proof
  show "norm s \<in> set canon" for s using assms by (simp add: Let_def)
  show "norm c = c" if "c \<in> set canon" for c
    using assms that by (auto simp: Let_def list_all_iff lower_word_fixed)
qed

interpretation clipboard_mode: normaliser NormalizeClipboardMode clipboard_modes
  by (rule normaliserI[where d = ClipboardBoth])
    (simp_all add: NormalizeClipboardMode_def go_consts lower_word_def Let_def)

interpretation notif_mode: normaliser NormalizeNotifMode "[''all_except_muted'', ''only_allowed'']"
  by (rule normaliserI[where d = NotifAllExceptMuted])
    (simp_all add: NormalizeNotifMode_def go_consts lower_word_def Let_def)

interpretation clip_kind: normaliser NormalizeClipKind "[''text'', ''image'']"
  by (rule normaliserI[where d = ClipKindText])
    (simp_all add: NormalizeClipKind_def go_consts lower_word_def Let_def)

interpretation playback_mode: normaliser NormalizePlaybackMode clipboard_modes
  by (rule normaliserI[where d = PlaybackBoth])
    (simp_all add: NormalizePlaybackMode_def go_consts lower_word_def Let_def)

interpretation playback_output: normaliser NormalizePlaybackOutput "[''inapp'', ''system'']"
  by (rule normaliserI[where d = PlaybackOutputInApp])
    (simp_all add: NormalizePlaybackOutput_def go_consts lower_word_def Let_def)

interpretation playback_state: normaliser NormalizePlaybackState "[''playing'', ''paused'', ''stopped'']"
  by (rule normaliserI[where d = PlaybackStopped])
    (simp_all add: NormalizePlaybackState_def go_consts lower_word_def Let_def)

text \<open>
  The direction gate of the clipboard is the one of playback, and it decides by the
  direction alone: nothing passes when disabled, everything passes in both directions, and
  a one-way mode lets exactly its own side's messages through, however the mode and the
  origin were spelled.
\<close>

theorem direction_gate:
  "ClipboardModeAllowsSend mode origin = ClipboardModeAllowsReceive mode origin \<and>
   ClipboardModeAllowsSend mode origin = PlaybackModeAllowsSend mode origin \<and>
   ClipboardModeAllowsSend mode origin =
     (NormalizeClipboardMode mode = ''both'' \<or>
      (NormalizeClipboardMode mode = ''mac_to_android'' \<and> IsMacSide origin) \<or>
      (NormalizeClipboardMode mode = ''android_to_mac'' \<and> NormalizeOrigin origin = ''android''))"
proof -
  have same: "NormalizePlaybackMode mode = NormalizeClipboardMode mode"
    by (simp add: NormalizePlaybackMode_def NormalizeClipboardMode_def go_consts Let_def)
  have "NormalizeClipboardMode mode \<in> set clipboard_modes" by (rule clipboard_mode.norm_canon)
  then show ?thesis
    by (simp add: ClipboardModeAllowsSend_def ClipboardModeAllowsReceive_def
        PlaybackModeAllowsSend_def IsMacSide_def same go_consts) (elim disjE; simp)
qed

end
