(* ===== verification/Features_Wire.thy ===== *)
theory Features_Wire
  imports Go_Json_Decode
begin

text \<open>
  The payload structs of \<open>packages/core/features.go\<close>: for each, its record, its zero value and how
  \<open>json.Unmarshal\<close> fills its fields.
\<close>

record NotifPostPayload =
  np_Nonce :: string
  np_ID :: string
  np_App :: string
  np_PackageName :: string
  np_IconB64 :: string
  np_GroupKey :: string
  np_Title :: string
  np_Text :: string
  np_PostedAt :: int
  np_Ongoing :: bool
  np_HasProgress :: bool

definition zero_NotifPostPayload :: NotifPostPayload where
  "zero_NotifPostPayload =
     \<lparr>np_Nonce = [], np_ID = [], np_App = [], np_PackageName = [], np_IconB64 = [],
      np_GroupKey = [], np_Title = [], np_Text = [], np_PostedAt = 0,
      np_Ongoing = False, np_HasProgress = False\<rparr>"

definition NotifPostPayload_fields :: "NotifPostPayload fields" where
  "NotifPostPayload_fields =
     [(''nonce'', dec_field np_Nonce (\<lambda>x. np_Nonce_update (\<lambda>_. x)) dec_string),
      (''id'', dec_field np_ID (\<lambda>x. np_ID_update (\<lambda>_. x)) dec_string),
      (''app'', dec_field np_App (\<lambda>x. np_App_update (\<lambda>_. x)) dec_string),
      (''package_name'',
        dec_field np_PackageName (\<lambda>x. np_PackageName_update (\<lambda>_. x)) dec_string),
      (''app_icon_b64'', dec_field np_IconB64 (\<lambda>x. np_IconB64_update (\<lambda>_. x)) dec_string),
      (''group_key'', dec_field np_GroupKey (\<lambda>x. np_GroupKey_update (\<lambda>_. x)) dec_string),
      (''title'', dec_field np_Title (\<lambda>x. np_Title_update (\<lambda>_. x)) dec_string),
      (''text'', dec_field np_Text (\<lambda>x. np_Text_update (\<lambda>_. x)) dec_string),
      (''posted_at'', dec_field np_PostedAt (\<lambda>x. np_PostedAt_update (\<lambda>_. x)) dec_int),
      (''ongoing'', dec_field np_Ongoing (\<lambda>x. np_Ongoing_update (\<lambda>_. x)) dec_bool),
      (''has_progress'',
        dec_field np_HasProgress (\<lambda>x. np_HasProgress_update (\<lambda>_. x)) dec_bool)]"

record NotifDismissPayload =
  nd_Nonce :: string
  nd_ID :: string

definition zero_NotifDismissPayload :: NotifDismissPayload where
  "zero_NotifDismissPayload =
     \<lparr>nd_Nonce = [], nd_ID = []\<rparr>"

definition NotifDismissPayload_fields :: "NotifDismissPayload fields" where
  "NotifDismissPayload_fields =
     [(''nonce'', dec_field nd_Nonce (\<lambda>x. nd_Nonce_update (\<lambda>_. x)) dec_string),
      (''id'', dec_field nd_ID (\<lambda>x. nd_ID_update (\<lambda>_. x)) dec_string)]"

record NotifAppEntry =
  nae_PackageName :: string
  nae_App :: string
  nae_IconB64 :: string

definition zero_NotifAppEntry :: NotifAppEntry where
  "zero_NotifAppEntry =
     \<lparr>nae_PackageName = [], nae_App = [], nae_IconB64 = []\<rparr>"

definition NotifAppEntry_fields :: "NotifAppEntry fields" where
  "NotifAppEntry_fields =
     [(''package_name'',
        dec_field nae_PackageName (\<lambda>x. nae_PackageName_update (\<lambda>_. x)) dec_string),
      (''app'', dec_field nae_App (\<lambda>x. nae_App_update (\<lambda>_. x)) dec_string),
      (''app_icon_b64'',
        dec_field nae_IconB64 (\<lambda>x. nae_IconB64_update (\<lambda>_. x)) dec_string)]"

record NotifAppsReqPayload =
  nar_Nonce :: string
  nar_ReqID :: string
  nar_Cursor :: string
  nar_Limit :: int
  nar_WithIcons :: "bool option"

definition zero_NotifAppsReqPayload :: NotifAppsReqPayload where
  "zero_NotifAppsReqPayload =
     \<lparr>nar_Nonce = [], nar_ReqID = [], nar_Cursor = [], nar_Limit = 0,
      nar_WithIcons = None\<rparr>"

definition NotifAppsReqPayload_fields :: "NotifAppsReqPayload fields" where
  "NotifAppsReqPayload_fields =
     [(''nonce'', dec_field nar_Nonce (\<lambda>x. nar_Nonce_update (\<lambda>_. x)) dec_string),
      (''req_id'', dec_field nar_ReqID (\<lambda>x. nar_ReqID_update (\<lambda>_. x)) dec_string),
      (''cursor'', dec_field nar_Cursor (\<lambda>x. nar_Cursor_update (\<lambda>_. x)) dec_string),
      (''limit'', dec_field nar_Limit (\<lambda>x. nar_Limit_update (\<lambda>_. x)) dec_int),
      (''with_icons'',
        dec_field nar_WithIcons (\<lambda>x. nar_WithIcons_update (\<lambda>_. x)) (dec_ptr dec_bool False))]"

record NotifAppsRespPayload =
  nas_Nonce :: string
  nas_ReqID :: string
  nas_Entries :: "NotifAppEntry list"
  nas_NextCursor :: string
  nas_Error :: string
  nas_ErrorCode :: string

definition zero_NotifAppsRespPayload :: NotifAppsRespPayload where
  "zero_NotifAppsRespPayload =
     \<lparr>nas_Nonce = [], nas_ReqID = [], nas_Entries = [], nas_NextCursor = [],
      nas_Error = [], nas_ErrorCode = []\<rparr>"

definition NotifAppsRespPayload_fields :: "NotifAppsRespPayload fields" where
  "NotifAppsRespPayload_fields =
     [(''nonce'', dec_field nas_Nonce (\<lambda>x. nas_Nonce_update (\<lambda>_. x)) dec_string),
      (''req_id'', dec_field nas_ReqID (\<lambda>x. nas_ReqID_update (\<lambda>_. x)) dec_string),
      (''entries'',
        dec_field nas_Entries (\<lambda>x. nas_Entries_update (\<lambda>_. x)) (dec_slice (dec_struct NotifAppEntry_fields) zero_NotifAppEntry)),
      (''next_cursor'',
        dec_field nas_NextCursor (\<lambda>x. nas_NextCursor_update (\<lambda>_. x)) dec_string),
      (''error'', dec_field nas_Error (\<lambda>x. nas_Error_update (\<lambda>_. x)) dec_string),
      (''error_code'',
        dec_field nas_ErrorCode (\<lambda>x. nas_ErrorCode_update (\<lambda>_. x)) dec_string)]"

record ClipPushPayload =
  cp_Nonce :: string
  cp_Kind :: string
  cp_Text :: string
  cp_Mime :: string
  cp_ImageB64 :: string
  cp_ChangedAt :: int
  cp_ChangedC :: int
  cp_Origin :: string
  cp_Filename :: string
  cp_ContentHash :: string
  cp_Sensitive :: bool

definition zero_ClipPushPayload :: ClipPushPayload where
  "zero_ClipPushPayload =
     \<lparr>cp_Nonce = [], cp_Kind = [], cp_Text = [], cp_Mime = [], cp_ImageB64 = [],
      cp_ChangedAt = 0, cp_ChangedC = 0, cp_Origin = [], cp_Filename = [],
      cp_ContentHash = [], cp_Sensitive = False\<rparr>"

definition ClipPushPayload_fields :: "ClipPushPayload fields" where
  "ClipPushPayload_fields =
     [(''nonce'', dec_field cp_Nonce (\<lambda>x. cp_Nonce_update (\<lambda>_. x)) dec_string),
      (''kind'', dec_field cp_Kind (\<lambda>x. cp_Kind_update (\<lambda>_. x)) dec_string),
      (''text'', dec_field cp_Text (\<lambda>x. cp_Text_update (\<lambda>_. x)) dec_string),
      (''mime'', dec_field cp_Mime (\<lambda>x. cp_Mime_update (\<lambda>_. x)) dec_string),
      (''image_b64'', dec_field cp_ImageB64 (\<lambda>x. cp_ImageB64_update (\<lambda>_. x)) dec_string),
      (''changed_at'', dec_field cp_ChangedAt (\<lambda>x. cp_ChangedAt_update (\<lambda>_. x)) dec_int),
      (''changed_c'', dec_field cp_ChangedC (\<lambda>x. cp_ChangedC_update (\<lambda>_. x)) dec_int),
      (''origin'', dec_field cp_Origin (\<lambda>x. cp_Origin_update (\<lambda>_. x)) dec_string),
      (''filename'', dec_field cp_Filename (\<lambda>x. cp_Filename_update (\<lambda>_. x)) dec_string),
      (''content_hash'',
        dec_field cp_ContentHash (\<lambda>x. cp_ContentHash_update (\<lambda>_. x)) dec_string),
      (''sensitive'', dec_field cp_Sensitive (\<lambda>x. cp_Sensitive_update (\<lambda>_. x)) dec_bool)]"

record UnpairPayload =
  up_Nonce :: string

definition zero_UnpairPayload :: UnpairPayload where
  "zero_UnpairPayload =
     \<lparr>up_Nonce = []\<rparr>"

definition UnpairPayload_fields :: "UnpairPayload fields" where
  "UnpairPayload_fields =
     [(''nonce'', dec_field up_Nonce (\<lambda>x. up_Nonce_update (\<lambda>_. x)) dec_string)]"

record SettingsSyncPayload =
  ss_Nonce :: string
  ss_NotificationsEnabled :: "bool option"
  ss_ClipboardMode :: string
  ss_NotifMode :: string
  ss_MutedPackages :: "string list"
  ss_AllowedPackages :: "string list"
  ss_PlaybackMode :: string
  ss_PlaybackOutput :: string
  ss_ClipboardAllowSensitive :: "bool option"
  ss_UpdatedUnix :: int
  ss_UpdatedBy :: string

definition zero_SettingsSyncPayload :: SettingsSyncPayload where
  "zero_SettingsSyncPayload =
     \<lparr>ss_Nonce = [], ss_NotificationsEnabled = None, ss_ClipboardMode = [],
      ss_NotifMode = [], ss_MutedPackages = [], ss_AllowedPackages = [],
      ss_PlaybackMode = [], ss_PlaybackOutput = [],
      ss_ClipboardAllowSensitive = None, ss_UpdatedUnix = 0, ss_UpdatedBy = []\<rparr>"

definition SettingsSyncPayload_fields :: "SettingsSyncPayload fields" where
  "SettingsSyncPayload_fields =
     [(''nonce'', dec_field ss_Nonce (\<lambda>x. ss_Nonce_update (\<lambda>_. x)) dec_string),
      (''notifications_enabled'',
        dec_field ss_NotificationsEnabled (\<lambda>x. ss_NotificationsEnabled_update (\<lambda>_. x)) (dec_ptr dec_bool False)),
      (''clipboard_mode'',
        dec_field ss_ClipboardMode (\<lambda>x. ss_ClipboardMode_update (\<lambda>_. x)) dec_string),
      (''notif_mode'',
        dec_field ss_NotifMode (\<lambda>x. ss_NotifMode_update (\<lambda>_. x)) dec_string),
      (''muted_packages'',
        dec_field ss_MutedPackages (\<lambda>x. ss_MutedPackages_update (\<lambda>_. x)) (dec_slice dec_string [])),
      (''allowed_packages'',
        dec_field ss_AllowedPackages (\<lambda>x. ss_AllowedPackages_update (\<lambda>_. x)) (dec_slice dec_string [])),
      (''playback_mode'',
        dec_field ss_PlaybackMode (\<lambda>x. ss_PlaybackMode_update (\<lambda>_. x)) dec_string),
      (''playback_output'',
        dec_field ss_PlaybackOutput (\<lambda>x. ss_PlaybackOutput_update (\<lambda>_. x)) dec_string),
      (''clipboard_allow_sensitive'',
        dec_field ss_ClipboardAllowSensitive (\<lambda>x. ss_ClipboardAllowSensitive_update (\<lambda>_. x)) (dec_ptr dec_bool False)),
      (''updated_unix'',
        dec_field ss_UpdatedUnix (\<lambda>x. ss_UpdatedUnix_update (\<lambda>_. x)) dec_int),
      (''updated_by'',
        dec_field ss_UpdatedBy (\<lambda>x. ss_UpdatedBy_update (\<lambda>_. x)) dec_string)]"

end
