(* ===== verification/Notif_Filter.thy ===== *)
theory Notif_Filter
  imports Modes Features_Wire Wire_Common "HOL-Library.Char_ord" "HOL-Library.List_Lexorder"
  "HOL-Library.Multiset"
begin

text \<open>
  Notification mirroring (\<open>packages/core/features.go\<close>): package names and icons, the
  per-app filter lists with their hand-written insertion sort, the mirroring predicate and
  the app inventory pages. Go compares strings byte by byte, which is the lexicographic
  order of \<open>HOL-Library.List_Lexorder\<close>.
\<close>

section \<open>Limits\<close>

definition MaxNotifIDLen :: nat where [go_consts]: "MaxNotifIDLen = 256"
definition MaxNotifAppLen :: nat where [go_consts]: "MaxNotifAppLen = 64"
definition MaxNotifTitleLen :: nat where [go_consts]: "MaxNotifTitleLen = 128"
definition MaxNotifTextLen :: nat where [go_consts]: "MaxNotifTextLen = 512"
definition MaxNotifPackageLen :: nat where [go_consts]: "MaxNotifPackageLen = 128"
definition MaxNotifIconB64Len :: nat where [go_consts]: "MaxNotifIconB64Len = 32768"
definition MaxNotifGroupLen :: nat where [go_consts]: "MaxNotifGroupLen = 128"
definition MaxNotifFilterApps :: nat where [go_consts]: "MaxNotifFilterApps = 100"
definition MaxNotifAppsPerResp :: nat where [go_consts]: "MaxNotifAppsPerResp = 50"
definition DefaultNotifAppsLimit :: int where [go_consts]: "DefaultNotifAppsLimit = 50"
definition MaxNotifAppsReqIDLen :: nat where [go_consts]: "MaxNotifAppsReqIDLen = 64"

section \<open>Fields\<close>

definition SanitizeNotifID :: "string \<Rightarrow> string option" where
  "SanitizeNotifID s =
     (let trimmed = trim_space s
      in if trimmed = [] \<or> length (runes trimmed) > MaxNotifIDLen then None else Some trimmed)"

definition SanitizePackageName :: "string \<Rightarrow> string" where
  "SanitizePackageName s =
     (let trimmed = trim_space s
      in if trimmed = [] then []
         else if length (runes trimmed) > MaxNotifPackageLen
         then trim_space (string_of_runes (take MaxNotifPackageLen (runes trimmed)))
         else trimmed)"

definition SanitizeGroupKey :: "string \<Rightarrow> string" where
  "SanitizeGroupKey s =
     (let trimmed = trim_space s
      in if trimmed = [] then []
         else if length (runes trimmed) > MaxNotifGroupLen
         then trim_space (string_of_runes (take MaxNotifGroupLen (runes trimmed)))
         else trimmed)"

definition TruncateNotifField :: "string \<Rightarrow> int \<Rightarrow> string" where
  "TruncateNotifField s mx =
     (let trimmed = trim_space s
      in if mx \<le> 0 then []
         else if int (length (runes trimmed)) > mx
         then trim_space (string_of_runes (take (nat mx) (runes trimmed)))
         else trimmed)"

definition b64_rune :: "nat \<Rightarrow> bool" where
  "b64_rune r \<longleftrightarrow> (65 \<le> r \<and> r \<le> 90) \<or> (97 \<le> r \<and> r \<le> 122) \<or> (48 \<le> r \<and> r \<le> 57) \<or>
     r = 43 \<or> r = 47 \<or> r = 61"

definition SanitizeNotifIconB64 :: "string \<Rightarrow> string" where
  "SanitizeNotifIconB64 s =
     (let trimmed = trim_space s
      in if trimmed = [] then []
         else if length trimmed > MaxNotifIconB64Len then []
         else if list_all b64_rune (runes trimmed) then trimmed else [])"

section \<open>Filter lists\<close>

fun filter_collect :: "string list \<Rightarrow> string list \<Rightarrow> string list" where
  "filter_collect [] out = out"
| "filter_collect (raw # rest) out =
     (let pkg = SanitizePackageName raw
      in if pkg = [] then filter_collect rest out
         else if pkg \<in> set out then filter_collect rest out
         else let out = out @ [pkg]
              in if length out \<ge> MaxNotifFilterApps then out else filter_collect rest out)"

fun sink :: "string list \<Rightarrow> nat \<Rightarrow> string list" where
  "sink out 0 = out"
| "sink out (Suc j) =
     (if out ! Suc j < out ! j
      then sink (out[Suc j := out ! j, j := out ! Suc j]) j else out)"

definition insertion_sort :: "string list \<Rightarrow> string list" where
  "insertion_sort out = fold (\<lambda>i out. sink out i) [1..<length out] out"

definition SanitizeNotifFilterList :: "string list \<Rightarrow> string list" where
  "SanitizeNotifFilterList inp =
     (if inp = [] then []
      else let out = filter_collect inp []
           in if out = [] then [] else insertion_sort out)"

definition ShouldMirrorNotif ::
  "string \<Rightarrow> string list \<Rightarrow> string list \<Rightarrow> string \<Rightarrow> bool \<Rightarrow> bool" where
  "ShouldMirrorNotif mode muted allowed packageName hasProgress =
     (if hasProgress then False
      else let m = NormalizeNotifMode mode; pkg = SanitizePackageName packageName
           in if m = NotifOnlyAllowed
              then (if pkg = [] then False else list_ex (\<lambda>a. a = pkg) allowed)
              else (if pkg = [] then True else \<not> list_ex (\<lambda>b. b = pkg) muted))"

definition IsStaleNotifPost :: "int \<Rightarrow> int \<Rightarrow> int \<Rightarrow> bool" where
  "IsStaleNotifPost postedAt nowUnix maxAgeSec =
     (if postedAt \<le> 0 then False
      else if maxAgeSec \<le> 0 then False
      else wrap64 (nowUnix - postedAt) > maxAgeSec)"

section \<open>App inventory\<close>

definition NotifAppsWantIcons :: "NotifAppsReqPayload \<Rightarrow> bool" where
  "NotifAppsWantIcons p = (case nar_WithIcons p of None \<Rightarrow> True | Some b \<Rightarrow> b)"

definition EffectiveNotifAppsLimit :: "int \<Rightarrow> int" where
  "EffectiveNotifAppsLimit limit = (if limit = 0 then DefaultNotifAppsLimit else limit)"

definition SanitizeNotifAppsReq :: "NotifAppsReqPayload \<Rightarrow> bool" where
  "SanitizeNotifAppsReq p =
     (if nar_Nonce p = [] then False
      else let reqID = trim_space (nar_ReqID p)
      in if reqID = [] \<or> length reqID > MaxNotifAppsReqIDLen then False
      else if nar_Cursor p \<noteq> [] \<and> SanitizePackageName (nar_Cursor p) = [] then False
      else if nar_Limit p \<noteq> 0 \<and> (nar_Limit p < 1 \<or> nar_Limit p > int MaxNotifAppsPerResp) then False
      else True)"

definition SanitizeNotifAppEntry :: "NotifAppEntry \<Rightarrow> bool" where
  "SanitizeNotifAppEntry e =
     (if SanitizePackageName (nae_PackageName e) = [] then False
      else if length (runes (nae_App e)) > MaxNotifAppLen then False
      else if nae_IconB64 e = [] then True
      else SanitizeNotifIconB64 (nae_IconB64 e) \<noteq> [])"

definition SanitizeNotifAppsResp :: "NotifAppsRespPayload \<Rightarrow> bool" where
  "SanitizeNotifAppsResp p =
     (if nas_Nonce p = [] then False
      else let reqID = trim_space (nas_ReqID p)
      in if reqID = [] \<or> length reqID > MaxNotifAppsReqIDLen then False
      else if length (nas_Entries p) > MaxNotifAppsPerResp then False
      else if \<not> list_all SanitizeNotifAppEntry (nas_Entries p) then False
      else if nas_NextCursor p \<noteq> [] \<and> SanitizePackageName (nas_NextCursor p) = [] then False
      else if length (nas_Error p) > 512 then False
      else SanitizeErrorCode (nas_ErrorCode p))"

section \<open>Package names\<close>

lemma SanitizePackageName_cap: "SanitizePackageName s = cap_runes 128 (trim_space s)"
  by (simp add: SanitizePackageName_def cap_runes_def Let_def go_consts)

lemma SanitizeGroupKey_cap: "SanitizeGroupKey s = cap_runes 128 (trim_space s)"
  by (simp add: SanitizeGroupKey_def cap_runes_def Let_def go_consts)

lemma TruncateNotifField_cap:
  "0 \<le> m \<Longrightarrow> TruncateNotifField s m = (if m = 0 then [] else cap_runes (nat m) (trim_space s))"
  by (auto simp: TruncateNotifField_def cap_runes_def Let_def)

lemma package_name_idem [simp]: "SanitizePackageName (SanitizePackageName s) = SanitizePackageName s"
  by (simp add: SanitizePackageName_cap trim_space_cap_runes)

section \<open>The insertion sort\<close>

lemma sink_insort:
  "sorted p \<Longrightarrow> sink (p @ x # s) (length p) = insort x p @ s"
proof (induction p arbitrary: s rule: rev_induct)
  case (snoc y p)
  then have sp: "sorted p" "\<forall>z \<in> set p. z \<le> y" by (simp_all add: sorted_append)
  show ?case
  proof (cases "x < y")
    case True
    have step: "sink ((p @ [y]) @ x # s) (length (p @ [y])) = sink (p @ x # y # s) (length p)"
      using True by (simp add: nth_append list_update_append)
    have "insort x (p @ [y]) = insort x p @ [y]"
      using sp True by (induction p) auto
    then show ?thesis using step snoc.IH[OF sp(1)] by simp
  next
    case False
    have "sorted (p @ [y, x])" using snoc.prems False sp by (auto simp: sorted_append)
    then have "insort x (p @ [y]) = p @ [y, x]"
      using snoc.prems properties_for_sort[of "p @ [y, x]" "x # p @ [y]"]
      by (simp add: sorted_sort_id)
    then show ?thesis using False by (simp add: nth_append)
  qed
qed simp

lemma insertion_sort_steps:
  "n \<le> length out \<Longrightarrow> 0 < n \<Longrightarrow>
   fold (\<lambda>i out. sink out i) [1..<n] out = sort (take n out) @ drop n out"
proof (induction n)
  case (Suc n)
  show ?case
  proof (cases "n = 0")
    case True
    then show ?thesis using Suc.prems by (cases out) simp_all
  next
    case False
    then have "fold (\<lambda>i out. sink out i) [1..<Suc n] out
      = sink (sort (take n out) @ out ! n # drop (Suc n) out) (length (sort (take n out)))"
      using Suc by (simp add: Cons_nth_drop_Suc)
    also have "\<dots> = insort (out ! n) (sort (take n out)) @ drop (Suc n) out"
      by (rule sink_insort) simp
    also have "insort (out ! n) (sort (take n out)) = sort (take (Suc n) out)"
      using Suc.prems
      by (intro properties_for_sort[symmetric])
        (simp_all add: sorted_insort take_Suc_conv_app_nth)
    finally show ?thesis .
  qed
qed simp

lemma insertion_sort_sort: "insertion_sort out = sort out"
  using insertion_sort_steps[of "length out" out] by (cases "out = []") (simp_all add: insertion_sort_def)

section \<open>Filter lists\<close>

lemma filter_collect_spec:
  assumes "distinct out" "length out < 100"
  shows "distinct (filter_collect inp out) \<and> length (filter_collect inp out) \<le> 100 \<and>
    set (filter_collect inp out) \<subseteq> set out \<union> (SanitizePackageName ` set inp - {[]}) \<and>
    (length (filter_collect inp out) < 100 \<longrightarrow>
      set (filter_collect inp out) = set out \<union> (SanitizePackageName ` set inp - {[]}))"
  using assms
proof (induction inp out rule: filter_collect.induct)
  case (2 raw rest out)
  let ?pkg = "SanitizePackageName raw"
  consider (skip) "?pkg = [] \<or> ?pkg \<in> set out"
    | (full) "?pkg \<noteq> []" "?pkg \<notin> set out" "length out = 99"
    | (more) "?pkg \<noteq> []" "?pkg \<notin> set out" "length out < 99"
    using "2.prems" by linarith
  then show ?case
  proof cases
    case skip
    then have "filter_collect (raw # rest) out = filter_collect rest out" by (auto simp: Let_def)
    moreover have "set out \<union> (SanitizePackageName ` set (raw # rest) - {[]})
        = set out \<union> (SanitizePackageName ` set rest - {[]})" using skip by auto
    ultimately show ?thesis using "2.IH"(1,2) "2.prems" skip by (cases "?pkg = []") simp_all
  next
    case full
    then show ?thesis using "2.prems" by (auto simp: Let_def go_consts)
  next
    case more
    then have eq: "filter_collect (raw # rest) out = filter_collect rest (out @ [?pkg])"
      by (simp add: Let_def go_consts)
    have "set out \<union> (SanitizePackageName ` set (raw # rest) - {[]})
        = set (out @ [?pkg]) \<union> (SanitizePackageName ` set rest - {[]})" using more by auto
    then show ?thesis
      unfolding eq using "2.IH"(3)[of ?pkg "out @ [?pkg]"] "2.prems" more by (simp add: go_consts)
  qed
qed simp

lemmas filter_collect_inv = filter_collect_spec[THEN conjunct1]
  filter_collect_spec[THEN conjunct2, THEN conjunct1]
  filter_collect_spec[THEN conjunct2, THEN conjunct2, THEN conjunct1]
  filter_collect_spec[THEN conjunct2, THEN conjunct2, THEN conjunct2, rule_format]

lemma filter_collect_fixed:
  assumes "distinct (out @ inp)" "length (out @ inp) \<le> 100"
    and "\<forall>p \<in> set inp. p \<noteq> [] \<and> SanitizePackageName p = p"
  shows "filter_collect inp out = out @ inp"
  using assms
proof (induction inp out rule: filter_collect.induct)
  case (2 raw rest out)
  then show ?case
    by (cases "length out = 99") (simp_all add: Let_def go_consts)
qed simp

lemma SanitizeNotifFilterList_sort: "SanitizeNotifFilterList inp = sort (filter_collect inp [])"
  by (simp add: SanitizeNotifFilterList_def insertion_sort_sort Let_def)

lemma filter_list_props:
  assumes "r = SanitizeNotifFilterList inp"
  shows "sorted r" "distinct r" "length r \<le> 100" "set r \<subseteq> SanitizePackageName ` set inp - {[]}"
  using filter_collect_inv(1-3)[of "[]" inp] assms by (simp_all add: SanitizeNotifFilterList_sort)

lemma filter_list_set:
  assumes "card (SanitizePackageName ` set inp - {[]}) \<le> 100"
  shows "set (SanitizeNotifFilterList inp) = SanitizePackageName ` set inp - {[]}"
proof (cases "length (filter_collect inp []) < 100")
  case True
  then show ?thesis using filter_collect_inv(4)[of "[]" inp] by (simp add: SanitizeNotifFilterList_sort)
next
  case False
  let ?r = "SanitizeNotifFilterList inp"
  have "length ?r \<ge> 100" using False by (simp add: SanitizeNotifFilterList_sort)
  then have "card (set ?r) \<ge> 100"
    using filter_list_props(2)[of ?r inp] distinct_card[of ?r] by simp
  then show ?thesis
    using assms filter_list_props(4)[of ?r inp] by (intro card_seteq) auto
qed

lemma filter_list_idem [simp]:
  "SanitizeNotifFilterList (SanitizeNotifFilterList inp) = SanitizeNotifFilterList inp"
proof -
  let ?r = "SanitizeNotifFilterList inp"
  have fixed: "\<forall>p \<in> set ?r. p \<noteq> [] \<and> SanitizePackageName p = p"
    using filter_list_props(4)[of ?r inp] by auto
  have "filter_collect ?r [] = ?r"
    using filter_collect_fixed[of "[]" ?r] filter_list_props[of ?r inp] fixed by simp
  then show ?thesis
    using filter_list_props(1)[of ?r inp]
    by (simp add: SanitizeNotifFilterList_sort[of ?r] sorted_sort_id)
qed

text \<open>
  C32. A sanitized filter list is strictly ascending, has at most 100 entries, each a
  non-empty package name the sanitizer leaves alone, taken from the input; it is the library
  sort of the collected names although the code sorts by swapping neighbours; unless the
  input names more than 100 packages nothing is lost; and sanitizing again changes nothing,
  which last-writer-wins comparison of settings relies on.
\<close>

theorem filter_list_canonical:
  "let r = SanitizeNotifFilterList inp
   in sorted_wrt (<) r \<and> length r \<le> 100 \<and>
      r = sort (filter_collect inp []) \<and>
      set r \<subseteq> SanitizePackageName ` set inp - {[]} \<and>
      (card (SanitizePackageName ` set inp - {[]}) \<le> 100 \<longrightarrow>
         set r = SanitizePackageName ` set inp - {[]}) \<and>
      SanitizeNotifFilterList r = r"
  using filter_list_props[of "SanitizeNotifFilterList inp" inp]
  by (simp add: Let_def filter_list_set strict_sorted_iff flip: SanitizeNotifFilterList_sort)

theorem filter_list_canonical_witness:
  "set (SanitizeNotifFilterList [''b'', '' a '', ''b'', '''']) = {''a'', ''b''}"
proof -
  have im: "SanitizePackageName ` set [''b'', '' a '', ''b'', ''''] - {[]} = {''a'', ''b''}"
    by (auto simp: SanitizePackageName_def go_consts go_eval Let_def)
  have "card (SanitizePackageName ` set [''b'', '' a '', ''b'', []] - {[]}) \<le> 100"
    unfolding im by simp
  with filter_list_canonical[of "[''b'', '' a '', ''b'', []]", unfolded Let_def] im
  show ?thesis by metis
qed

text \<open>
  With filter lists that went through the sanitizer, mirroring is exactly set
  membership of the package name: progress notifications never pass; only-allowed passes the
  named packages of the allowed list; otherwise everything passes but the muted ones, and
  the spelling of the raw lists (spaces, order, repetitions) does not matter.
\<close>

theorem mirror_by_membership:
  assumes "card (SanitizePackageName ` set muted - {[]}) \<le> 100"
    and "card (SanitizePackageName ` set allowed - {[]}) \<le> 100"
  shows "ShouldMirrorNotif mode (SanitizeNotifFilterList muted) (SanitizeNotifFilterList allowed)
           pkg progress \<longleftrightarrow>
         \<not> progress \<and>
         (if NormalizeNotifMode mode = ''only_allowed''
          then SanitizePackageName pkg \<in> SanitizePackageName ` set allowed - {[]}
          else SanitizePackageName pkg \<notin> SanitizePackageName ` set muted - {[]})"
  using filter_list_set[OF assms(1)] filter_list_set[OF assms(2)]
  by (simp add: ShouldMirrorNotif_def Let_def list_ex_iff NotifOnlyAllowed_def)

theorem mirror_by_membership_witness:
  "\<not> ShouldMirrorNotif '''' (SanitizeNotifFilterList ['' org.x '']) (SanitizeNotifFilterList [])
       ''org.x'' False"
proof -
  have pkg: "SanitizePackageName '' org.x '' = ''org.x''" "SanitizePackageName ''org.x'' = ''org.x''"
    by (simp_all add: SanitizePackageName_def go_consts go_eval Let_def)
  have mode: "NormalizeNotifMode '''' = ''all_except_muted''"
    by (simp add: NormalizeNotifMode_def go_consts go_eval Let_def)
  show ?thesis
    using mirror_by_membership[of "['' org.x '']" "[]" "''''" "''org.x''" False]
    by (simp add: pkg mode)
qed

end
