(* ===== verification/Clip_Content.thy ===== *)
theory Clip_Content
  imports Modes Features_Wire Wire_Common Go_Paths
begin

text \<open>
  Clipboard contents (\<open>packages/core/features.go\<close>): text and image limits, the MIME
  whitelist, magic bytes, file names, and the check of a whole clip-push payload.
\<close>

section \<open>Limits\<close>

definition MaxClipLen :: nat where [go_consts]: "MaxClipLen = 262144"
definition MaxClipImageRaw :: nat where [go_consts]: "MaxClipImageRaw = 5242880"
definition MaxClipImageB64Len :: nat where [go_consts]: "MaxClipImageB64Len = 7100000"

section \<open>Text and MIME types\<close>

definition SanitizeClipText :: "string \<Rightarrow> string option" where
  "SanitizeClipText s = (if length s > MaxClipLen then None else Some s)"

definition AllowedClipImageMimes :: "string list" where
  "AllowedClipImageMimes =
     [''image/png'', ''image/jpeg'', ''image/jpg'', ''image/webp'', ''image/gif'',
      ''image/tiff'', ''image/heic'', ''image/heif'']"

definition SanitizeClipMime :: "string \<Rightarrow> string option" where
  "SanitizeClipMime s =
     (let n = to_lower (trim_space s);
          n = (if n = ''image/jpg'' then ''image/jpeg'' else n)
      in if n \<in> set AllowedClipImageMimes then Some n else None)"

section \<open>File names\<close>

definition trim_suffix :: "string \<Rightarrow> string \<Rightarrow> string" where
  "trim_suffix s t = (if suffix t s then take (length s - length t) s else s)"

definition clip_name_rune :: "nat \<Rightarrow> bool" where
  "clip_name_rune r \<longleftrightarrow> is_letter r \<or> is_digit r \<or> r = 46 \<or> r = 45 \<or> r = 95"

definition clip_name_cap :: "string \<Rightarrow> string" where
  "clip_name_cap base =
     (if length base > 255
      then
        let ext = path_ext base;
            ext = (if length ext > 20 then [] else ext);
            stem = trim_suffix base ext;
            maxStem = 255 - int (length ext)
        in if maxStem < 1 then []
           else let rs = runes stem;
                    stem = (if int (length rs) > maxStem
                            then string_of_runes (take (nat maxStem) rs) else stem)
                in stem @ ext
      else base)"

definition SanitizeClipFilename :: "string \<Rightarrow> string" where
  "SanitizeClipFilename s =
     (let trimmed = trim_space s
      in if trimmed = [] then []
      else let base = path_base trimmed
      in if base = ''.'' \<or> base = [slash] then []
      else if \<not> is_local base then []
      else if slash \<in> set base \<or> CHR 0x5C \<in> set base then []
      else if base = ''.'' \<or> base = ''..'' then []
      else if \<not> list_all clip_name_rune (runes base) then []
      else let base = clip_name_cap base
      in if length base = 0 \<or> length base > 255 then [] else base)"

section \<open>Magic bytes\<close>

fun bytes_from :: "string \<Rightarrow> nat \<Rightarrow> nat list \<Rightarrow> bool" where
  "bytes_from raw i [] \<longleftrightarrow> True"
| "bytes_from raw i (b # bs) \<longleftrightarrow> byte (raw ! i) = b \<and> bytes_from raw (Suc i) bs"

definition png_magic :: "string \<Rightarrow> bool" where
  "png_magic raw \<longleftrightarrow> length raw \<ge> 8 \<and>
     bytes_from raw 0 [0x89, 0x50, 0x4E, 0x47, 0x0D, 0x0A, 0x1A, 0x0A]"

definition jpeg_magic :: "string \<Rightarrow> bool" where
  "jpeg_magic raw \<longleftrightarrow> length raw \<ge> 3 \<and> bytes_from raw 0 [0xFF, 0xD8, 0xFF]"

definition gif_magic :: "string \<Rightarrow> bool" where
  "gif_magic raw \<longleftrightarrow> length raw \<ge> 6 \<and> bytes_from raw 0 [0x47, 0x49, 0x46, 0x38] \<and>
     (byte (raw ! 4) = 0x37 \<or> byte (raw ! 4) = 0x39) \<and> byte (raw ! 5) = 0x61"

definition webp_magic :: "string \<Rightarrow> bool" where
  "webp_magic raw \<longleftrightarrow> length raw \<ge> 12 \<and> bytes_from raw 0 [0x52, 0x49, 0x46, 0x46] \<and>
     bytes_from raw 8 [0x57, 0x45, 0x42, 0x50]"

definition ftyp_magic :: "string \<Rightarrow> bool" where
  "ftyp_magic raw \<longleftrightarrow> length raw \<ge> 12 \<and> bytes_from raw 4 [0x66, 0x74, 0x79, 0x70]"

definition tiff_magic :: "string \<Rightarrow> bool" where
  "tiff_magic raw \<longleftrightarrow> length raw \<ge> 4 \<and>
     (bytes_from raw 0 [0x49, 0x49, 0x2A, 0x00] \<or> bytes_from raw 0 [0x4D, 0x4D, 0x00, 0x2A])"

definition sniffHEICBrand :: "string \<Rightarrow> string" where
  "sniffHEICBrand raw =
     (if length raw < 12 then []
      else
        let brands = take 4 (drop 8 raw);
            compat = (if length raw \<ge> 32 then take 16 (drop 16 raw)
                      else if length raw > 16 then drop 16 raw else []);
            blob = brands @ [CHR 0x00] @ compat
        in if list_ex (\<lambda>still. sublist still blob) [''heic'', ''heix'', ''heim'', ''heis'']
           then ''image/heic''
           else if list_ex (\<lambda>sq. sublist sq blob) [''msf1'', ''hevc'', ''hevx'', ''hevs''] then []
           else if sublist ''mif1'' blob then ''image/heif''
           else [])"

definition SniffImageMime :: "string \<Rightarrow> string" where
  "SniffImageMime raw =
     (if png_magic raw then ''image/png''
      else if jpeg_magic raw then ''image/jpeg''
      else if gif_magic raw then ''image/gif''
      else if webp_magic raw then ''image/webp''
      else if ftyp_magic raw then sniffHEICBrand raw
      else if tiff_magic raw then ''image/tiff''
      else [])"

definition riff_size :: "string \<Rightarrow> nat" where
  "riff_size raw =
     byte (raw ! 4) + byte (raw ! 5) * 2 ^ 8 + byte (raw ! 6) * 2 ^ 16 + byte (raw ! 7) * 2 ^ 24"

definition sanitizeMagic :: "string \<Rightarrow> string \<Rightarrow> bool" where
  "sanitizeMagic mime raw =
     (if mime = ''image/png'' then png_magic raw
      else if mime = ''image/jpeg'' then jpeg_magic raw
      else if mime = ''image/gif'' then gif_magic raw
      else if mime = ''image/webp''
      then (if \<not> webp_magic raw then False
            else int (riff_size raw) = int (length raw) - 8)
      else if mime = ''image/heic'' \<or> mime = ''image/heif''
      then (if \<not> ftyp_magic raw then False else SniffImageMime raw = mime)
      else if mime = ''image/tiff'' then tiff_magic raw
      else False)"

section \<open>Names for images\<close>

definition ClipImageExt :: "string \<Rightarrow> string" where
  "ClipImageExt mime =
     (let m = to_lower (trim_space mime)
      in if m = ''image/jpeg'' then ''.jpg''
         else if m = ''image/png'' then ''.png''
         else if m = ''image/webp'' then ''.webp''
         else if m = ''image/gif'' then ''.gif''
         else if m = ''image/tiff'' then ''.tiff''
         else if m = ''image/heic'' \<or> m = ''image/heif'' then ''.heic''
         else ''.png'')"

text \<open>The extension on the right of the comparison is ASCII, so simple case folding is the
  one \<open>encoding/json\<close> uses for ASCII field names.\<close>

definition equal_fold_ext :: "string \<Rightarrow> string \<Rightarrow> bool" where
  "equal_fold_ext s ext \<longleftrightarrow> fold_key s = fold_key ext"

definition SynthesizeClipFilename :: "string \<Rightarrow> string \<Rightarrow> int \<Rightarrow> string" where
  "SynthesizeClipFilename input mime ts =
     (let ext = ClipImageExt mime; s = SanitizeClipFilename input
      in if s \<noteq> []
         then if equal_fold_ext (path_ext s) ext then s
              else if path_ext s = [] then s @ ext
              else trim_suffix s (path_ext s) @ ext
         else ''clip-'' @ trim_space (filter (\<lambda>c. c \<noteq> slash) (filter (\<lambda>c. c \<noteq> CHR ''.'') ext)) @ ext)"

section \<open>Images and pushes\<close>

definition SanitizeClipImage :: "string \<Rightarrow> string \<Rightarrow> string option" where
  "SanitizeClipImage b64 mime =
     (if length b64 = 0 \<or> length b64 > MaxClipImageB64Len then None
      else case SanitizeClipMime mime of
        None \<Rightarrow> None
      | Some m \<Rightarrow>
         (case b64_std_decode (trim_space b64) of
            None \<Rightarrow> None
          | Some raw \<Rightarrow>
              if length raw = 0 \<or> length raw > MaxClipImageRaw then None
              else if \<not> sanitizeMagic m raw then None
              else Some raw))"

definition SanitizeClipPush :: "ClipPushPayload \<Rightarrow> bool" where
  "SanitizeClipPush p =
     (if cp_Nonce p = [] then False
      else if cp_ChangedAt p < 0 \<or> cp_ChangedC p < 0 then False
      else if \<not> SanitizeContentHash (cp_ContentHash p) then False
      else let kind = NormalizeClipKind (cp_Kind p)
      in if kind = ClipKindImage
         then (if SanitizeClipImage (cp_ImageB64 p) (cp_Mime p) = None then False
               else if cp_Filename p \<noteq> [] \<and> SanitizeClipFilename (cp_Filename p) = [] then False
               else True)
         else SanitizeClipText (cp_Text p) \<noteq> None)"

section \<open>What the magic check accepts\<close>

lemma magic_first_byte:
  "png_magic raw \<Longrightarrow> byte (raw ! 0) = 0x89" "jpeg_magic raw \<Longrightarrow> byte (raw ! 0) = 0xFF"
  "gif_magic raw \<Longrightarrow> byte (raw ! 0) = 0x47" "webp_magic raw \<Longrightarrow> byte (raw ! 0) = 0x52"
  "tiff_magic raw \<Longrightarrow> byte (raw ! 0) = 0x49 \<or> byte (raw ! 0) = 0x4D"
  by (auto simp: png_magic_def jpeg_magic_def gif_magic_def webp_magic_def tiff_magic_def)

lemma if_chain_range:
  "(if a then x0 else if b then x else if c then x0 else if d then y else x0) \<in> {x0, x, y}"
  by simp

lemma heic_brand_cases: "sniffHEICBrand raw \<in> {[], ''image/heic'', ''image/heif''}"
  unfolding sniffHEICBrand_def Let_def by (rule if_chain_range)

lemma sniff_first:
  "png_magic raw \<Longrightarrow> SniffImageMime raw = ''image/png''"
  "jpeg_magic raw \<Longrightarrow> SniffImageMime raw = ''image/jpeg''"
  "gif_magic raw \<Longrightarrow> SniffImageMime raw = ''image/gif''"
  "webp_magic raw \<Longrightarrow> SniffImageMime raw = ''image/webp''"
  "tiff_magic raw \<Longrightarrow> \<not> ftyp_magic raw \<Longrightarrow> SniffImageMime raw = ''image/tiff''"
  using magic_first_byte[of raw] by (auto simp: SniffImageMime_def)

lemma sniff_inv:
  "SniffImageMime raw = ''image/png'' \<Longrightarrow> png_magic raw"
  "SniffImageMime raw = ''image/jpeg'' \<Longrightarrow> jpeg_magic raw"
  "SniffImageMime raw = ''image/gif'' \<Longrightarrow> gif_magic raw"
  "SniffImageMime raw = ''image/webp'' \<Longrightarrow> webp_magic raw"
  "SniffImageMime raw = ''image/tiff'' \<Longrightarrow> tiff_magic raw"
  "SniffImageMime raw = ''image/heic'' \<Longrightarrow> ftyp_magic raw"
  "SniffImageMime raw = ''image/heif'' \<Longrightarrow> ftyp_magic raw"
  using heic_brand_cases[of raw] by (auto simp: SniffImageMime_def split: if_splits)

lemma sniff_range:
  "SniffImageMime raw \<in> {[], ''image/png'', ''image/jpeg'', ''image/gif'', ''image/webp'',
     ''image/tiff'', ''image/heic'', ''image/heif''}"
  using heic_brand_cases[of raw] by (auto simp: SniffImageMime_def)

text \<open>
  The magic check accepts an image for a MIME type exactly when sniffing its bytes
  gives that type (and, for WebP, the RIFF size is the length of the file); the one
  exception is a TIFF header followed by an \<open>ftyp\<close> box, which is accepted as TIFF although
  the sniffer reads it as HEIF or rejects it.
\<close>

theorem magic_iff_sniff:
  "sanitizeMagic mime raw \<longleftrightarrow>
     (SniffImageMime raw = mime \<and> mime \<noteq> [] \<and>
      (if mime = ''image/webp'' then int (riff_size raw) = int (length raw) - 8 else True)) \<or>
     (mime = ''image/tiff'' \<and> tiff_magic raw \<and> ftyp_magic raw)"
  (is "?l \<longleftrightarrow> ?r")
proof
  assume ?l
  then show ?r
    using sniff_first[of raw] by (auto simp: sanitizeMagic_def split: if_splits)
next
  assume ?r
  then show ?l
    using sniff_range[of raw] sniff_inv[of raw] by (auto simp: sanitizeMagic_def split: if_splits)
qed

section \<open>File names are single safe components\<close>

definition clip_name_ok :: "string \<Rightarrow> bool" where
  "clip_name_ok r \<longleftrightarrow> r \<noteq> [] \<and> length r \<le> 255 \<and> r \<noteq> ''.'' \<and> r \<noteq> ''..'' \<and>
     list_all clip_name_rune (runes r)"

lemma clip_rune_not_space: "clip_name_rune r \<Longrightarrow> \<not> is_space r"
  using space_not_name[of r] by (auto simp: clip_name_rune_def is_space_def)

lemma clip_rune_chars:
  assumes "list_all clip_name_rune (runes s)"
  shows "slash \<notin> set s" "CHR 0x5C \<notin> set s"
proof -
  have "\<not> clip_name_rune 47" "\<not> clip_name_rune 92"
    by (simp_all add: clip_name_rune_def is_letter_def is_digit_def)
  then show "slash \<notin> set s" "CHR 0x5C \<notin> set s"
    using assms ascii_byte_in_runes[of slash s] ascii_byte_in_runes[of "CHR 0x5C" s]
    by (auto simp: list_all_iff)
qed

lemma path_base_name: "s \<noteq> [] \<Longrightarrow> slash \<notin> set s \<Longrightarrow> path_base s = s"
proof -
  assume s: "s \<noteq> []" "slash \<notin> set s"
  have "dropWhile (\<lambda>c. c = slash) (rev s) = rev s"
    using s by (cases "rev s") (auto simp: rev_swap)
  moreover have "takeWhile (\<lambda>c. c \<noteq> slash) (rev s) = rev s"
    using s(2) by (auto simp: takeWhile_eq_all_conv)
  ultimately show ?thesis
    using s(1) unfolding path_base_def Let_def by (simp del: takeWhile_eq_all_conv)
qed

lemma is_local_name:
  "s \<noteq> [] \<Longrightarrow> slash \<notin> set s \<Longrightarrow> s \<noteq> ''.'' \<Longrightarrow> s \<noteq> ''..'' \<Longrightarrow> is_local s"
  by (cases s) (auto simp: is_local_def is_abs_def split_on_free prefix_def)

lemma clip_filename_fixed: "clip_name_ok s \<Longrightarrow> SanitizeClipFilename s = s"
  using clip_rune_chars[of s] clip_rune_not_space trim_space_no_space[of s]
  by (auto simp: clip_name_ok_def SanitizeClipFilename_def Let_def path_base_name is_local_name
      clip_name_cap_def list_all_iff)

lemma path_ext_suffix: "suffix (path_ext s) s"
proof (cases "path_ext s = []")
  case False
  let ?r = "takeWhile (\<lambda>c. c \<noteq> slash) (rev s)"
  let ?e = "takeWhile (\<lambda>c. c \<noteq> CHR ''.'') ?r"
  have ext: "path_ext s = CHR ''.'' # rev ?e" and dot: "CHR ''.'' \<in> set ?r"
    using False by (auto simp: path_ext_def Let_def split: if_splits)
  obtain e d where r: "?r = e @ CHR ''.'' # d" "CHR ''.'' \<notin> set e"
    using split_list_first[OF dot] by blast
  have "?e = e" unfolding r(1) using r(2) by (subst takeWhile_append2) auto
  then have "prefix (?e @ [CHR ''.'']) ?r" unfolding r(1) by simp
  then have "prefix (?e @ [CHR ''.'']) (rev s)"
    using prefix_order.trans takeWhile_is_prefix by blast
  then show ?thesis by (simp add: ext suffix_to_prefix)
qed simp

lemma trim_suffix_append: "suffix t s \<Longrightarrow> trim_suffix s t @ t = s"
  by (auto simp: trim_suffix_def suffix_def)

lemma path_ext_start: "path_ext s = [] \<or> rune_start (byte (hd (path_ext s)))"
  by (simp add: path_ext_def Let_def rune_start_def cont_byte_def)

lemma runes_cut:
  assumes "e = [] \<or> rune_start (byte (hd e))"
  shows "runes (string_of_runes (take n (runes s)) @ e) = take n (runes s) @ runes e"
proof -
  have "\<forall>r \<in> set (take n (runes s)). scalar r" using runes_scalar in_set_takeD by fast
  then show ?thesis using assms by (simp add: runes_append_start runes_string_of_runes)
qed

lemma clip_name_cap_ok:
  assumes "list_all clip_name_rune (runes base)" "base \<noteq> ''.''" "base \<noteq> ''..''"
    and "clip_name_cap base \<noteq> []" "length (clip_name_cap base) \<le> 255"
  shows "clip_name_ok (clip_name_cap base)"
proof (cases "length base > 255")
  case True
  define ext where "ext = (if length (path_ext base) > 20 then [] else path_ext base)"
  define stem where "stem = trim_suffix base ext"
  have ext: "suffix ext base" "length ext \<le> 20" "ext = [] \<or> rune_start (byte (hd ext))"
    using path_ext_suffix path_ext_start by (auto simp: ext_def)
  have base: "base = stem @ ext" using trim_suffix_append[OF ext(1)] by (simp add: stem_def)
  let ?n = "255 - length ext"
  have n: "nat (255 - int (length ext)) = ?n" "\<not> 255 - int (length ext) < 1" using ext(2) by simp_all
  have capped: "clip_name_cap base =
      (if int (length (runes stem)) > 255 - int (length ext)
       then string_of_runes (take ?n (runes stem)) @ ext else base)"
    unfolding clip_name_cap_def Let_def ext_def[symmetric] stem_def[symmetric]
    using True n base[symmetric] by simp
  have long: "int (length (runes stem)) > 255 - int (length ext)"
    using capped True assms(5) by (auto split: if_splits)
  have r: "clip_name_cap base = string_of_runes (take ?n (runes stem)) @ ext"
    using capped long by simp
  have "runes (clip_name_cap base) = take ?n (runes stem) @ runes ext"
    unfolding r by (rule runes_cut[OF ext(3)])
  moreover have "runes base = runes stem @ runes ext" unfolding base using ext(3) by (rule runes_append_start)
  ultimately have "set (runes (clip_name_cap base)) \<subseteq> set (runes base)"
    and cnt: "length (runes (clip_name_cap base)) \<ge> 235"
    using ext(2) long by (auto dest: in_set_takeD)
  then have "list_all clip_name_rune (runes (clip_name_cap base))"
    using assms(1) by (auto simp: list_all_iff)
  moreover have "length (clip_name_cap base) \<ge> 235" using cnt length_runes_le le_trans by blast
  ultimately show ?thesis using assms(4,5) by (auto simp: clip_name_ok_def)
qed (use assms in \<open>simp add: clip_name_ok_def clip_name_cap_def\<close>)

lemma clip_filename_ok:
  assumes "SanitizeClipFilename s \<noteq> []"
  shows "clip_name_ok (SanitizeClipFilename s)"
proof -
  let ?base = "path_base (trim_space s)"
  have c: "list_all clip_name_rune (runes ?base)" "?base \<noteq> ''.''" "?base \<noteq> ''..''"
      "clip_name_cap ?base \<noteq> []" "length (clip_name_cap ?base) \<le> 255"
    and eq: "SanitizeClipFilename s = clip_name_cap ?base"
    using assms unfolding SanitizeClipFilename_def Let_def by (auto split: if_splits)
  show ?thesis unfolding eq by (rule clip_name_cap_ok[OF c])
qed

text \<open>
  A file name that survives the clipboard's sanitizer is one safe path component of at
  most 255 bytes made of letters, digits, dots, dashes and underscores: no separator of
  either kind, not a dot entry, local, and equal to its own base name; sanitizing it again
  gives it back, so both ends agree on the name.
\<close>

theorem clip_filename_safe:
  assumes "SanitizeClipFilename s = r" "r \<noteq> []"
  shows "length r \<le> 255 \<and> slash \<notin> set r \<and> CHR 0x5C \<notin> set r \<and> r \<noteq> ''.'' \<and> r \<noteq> ''..'' \<and>
         is_local r \<and> path_base r = r \<and> list_all clip_name_rune (runes r) \<and>
         SanitizeClipFilename r = r"
proof -
  have ok: "clip_name_ok r" using clip_filename_ok assms by blast
  then have runes: "list_all clip_name_rune (runes r)" by (simp add: clip_name_ok_def)
  show ?thesis
    using ok clip_rune_chars[OF runes] clip_filename_fixed[OF ok] is_local_name[of r]
    by (simp add: clip_name_ok_def path_base_name)
qed

theorem clip_filename_safe_witness:
  "SanitizeClipFilename ''tmp/a_1.png'' = ''a_1.png'' \<and> SanitizeClipFilename ''a_1.png'' = ''a_1.png''"
proof -
  have s: "SanitizeClipFilename ''tmp/a_1.png'' = ''a_1.png''"
    by (simp add: SanitizeClipFilename_def Let_def go_eval path_base_def is_local_def is_abs_def
        clip_name_rune_def is_letter_def is_digit_def clip_name_cap_def prefix_def)
  from clip_filename_safe[OF s] s show ?thesis by simp
qed

end
