(* ===== verification/Sync_Wire.thy ===== *)
theory Sync_Wire
  imports Go_Json_Decode
begin

text \<open>
  The payload structs of \<open>clipboard_sync.go\<close>, \<open>playback.go\<close> and
  \<open>dnd.go\<close> in \<open>packages/core\<close>: for each, its record, its zero value and how
  \<open>json.Unmarshal\<close> fills its fields.
\<close>

record ClipManifestPayload =
  cm_Nonce :: string
  cm_SessionID :: string
  cm_Mime :: string
  cm_Filename :: string
  cm_TotalRaw :: int
  cm_TotalChunks :: int
  cm_ChunkSize :: int
  cm_ChangedAt :: int
  cm_ChangedC :: int
  cm_Origin :: string
  cm_ContentHash :: string
  cm_Sensitive :: bool

definition zero_ClipManifestPayload :: ClipManifestPayload where
  "zero_ClipManifestPayload =
     \<lparr>cm_Nonce = [], cm_SessionID = [], cm_Mime = [], cm_Filename = [],
      cm_TotalRaw = 0, cm_TotalChunks = 0, cm_ChunkSize = 0, cm_ChangedAt = 0,
      cm_ChangedC = 0, cm_Origin = [], cm_ContentHash = [], cm_Sensitive = False\<rparr>"

definition ClipManifestPayload_fields :: "ClipManifestPayload fields" where
  "ClipManifestPayload_fields =
     [(''nonce'', dec_field cm_Nonce (\<lambda>x. cm_Nonce_update (\<lambda>_. x)) dec_string),
      (''session_id'',
        dec_field cm_SessionID (\<lambda>x. cm_SessionID_update (\<lambda>_. x)) dec_string),
      (''mime'', dec_field cm_Mime (\<lambda>x. cm_Mime_update (\<lambda>_. x)) dec_string),
      (''filename'', dec_field cm_Filename (\<lambda>x. cm_Filename_update (\<lambda>_. x)) dec_string),
      (''total_raw'', dec_field cm_TotalRaw (\<lambda>x. cm_TotalRaw_update (\<lambda>_. x)) dec_int),
      (''total_chunks'',
        dec_field cm_TotalChunks (\<lambda>x. cm_TotalChunks_update (\<lambda>_. x)) dec_int),
      (''chunk_size'', dec_field cm_ChunkSize (\<lambda>x. cm_ChunkSize_update (\<lambda>_. x)) dec_int),
      (''changed_at'', dec_field cm_ChangedAt (\<lambda>x. cm_ChangedAt_update (\<lambda>_. x)) dec_int),
      (''changed_c'', dec_field cm_ChangedC (\<lambda>x. cm_ChangedC_update (\<lambda>_. x)) dec_int),
      (''origin'', dec_field cm_Origin (\<lambda>x. cm_Origin_update (\<lambda>_. x)) dec_string),
      (''content_hash'',
        dec_field cm_ContentHash (\<lambda>x. cm_ContentHash_update (\<lambda>_. x)) dec_string),
      (''sensitive'', dec_field cm_Sensitive (\<lambda>x. cm_Sensitive_update (\<lambda>_. x)) dec_bool)]"

record ClipChunkPayload =
  cc_Nonce :: string
  cc_SessionID :: string
  cc_ChunkIndex :: int
  cc_TotalChunks :: int
  cc_Offset :: int
  cc_TotalRaw :: int
  cc_DataB64 :: string
  cc_ContentHash :: string

definition zero_ClipChunkPayload :: ClipChunkPayload where
  "zero_ClipChunkPayload =
     \<lparr>cc_Nonce = [], cc_SessionID = [], cc_ChunkIndex = 0, cc_TotalChunks = 0,
      cc_Offset = 0, cc_TotalRaw = 0, cc_DataB64 = [], cc_ContentHash = []\<rparr>"

definition ClipChunkPayload_fields :: "ClipChunkPayload fields" where
  "ClipChunkPayload_fields =
     [(''nonce'', dec_field cc_Nonce (\<lambda>x. cc_Nonce_update (\<lambda>_. x)) dec_string),
      (''session_id'',
        dec_field cc_SessionID (\<lambda>x. cc_SessionID_update (\<lambda>_. x)) dec_string),
      (''chunk_index'',
        dec_field cc_ChunkIndex (\<lambda>x. cc_ChunkIndex_update (\<lambda>_. x)) dec_int),
      (''total_chunks'',
        dec_field cc_TotalChunks (\<lambda>x. cc_TotalChunks_update (\<lambda>_. x)) dec_int),
      (''offset'', dec_field cc_Offset (\<lambda>x. cc_Offset_update (\<lambda>_. x)) dec_int),
      (''total_raw'', dec_field cc_TotalRaw (\<lambda>x. cc_TotalRaw_update (\<lambda>_. x)) dec_int),
      (''data_b64'', dec_field cc_DataB64 (\<lambda>x. cc_DataB64_update (\<lambda>_. x)) dec_string),
      (''content_hash'',
        dec_field cc_ContentHash (\<lambda>x. cc_ContentHash_update (\<lambda>_. x)) dec_string)]"

record PlaybackStatePayload =
  ps_Nonce :: string
  ps_Title :: string
  ps_Artist :: string
  ps_Album :: string
  ps_PackageName :: string
  ps_App :: string
  ps_State :: string
  ps_PositionMs :: int
  ps_DurationMs :: int
  ps_UpdatedMs :: int
  ps_ArtworkB64 :: string
  ps_ArtworkMime :: string
  ps_Origin :: string

definition zero_PlaybackStatePayload :: PlaybackStatePayload where
  "zero_PlaybackStatePayload =
     \<lparr>ps_Nonce = [], ps_Title = [], ps_Artist = [], ps_Album = [],
      ps_PackageName = [], ps_App = [], ps_State = [], ps_PositionMs = 0,
      ps_DurationMs = 0, ps_UpdatedMs = 0, ps_ArtworkB64 = [], ps_ArtworkMime = [],
      ps_Origin = []\<rparr>"

definition PlaybackStatePayload_fields :: "PlaybackStatePayload fields" where
  "PlaybackStatePayload_fields =
     [(''nonce'', dec_field ps_Nonce (\<lambda>x. ps_Nonce_update (\<lambda>_. x)) dec_string),
      (''title'', dec_field ps_Title (\<lambda>x. ps_Title_update (\<lambda>_. x)) dec_string),
      (''artist'', dec_field ps_Artist (\<lambda>x. ps_Artist_update (\<lambda>_. x)) dec_string),
      (''album'', dec_field ps_Album (\<lambda>x. ps_Album_update (\<lambda>_. x)) dec_string),
      (''package_name'',
        dec_field ps_PackageName (\<lambda>x. ps_PackageName_update (\<lambda>_. x)) dec_string),
      (''app'', dec_field ps_App (\<lambda>x. ps_App_update (\<lambda>_. x)) dec_string),
      (''state'', dec_field ps_State (\<lambda>x. ps_State_update (\<lambda>_. x)) dec_string),
      (''position_ms'',
        dec_field ps_PositionMs (\<lambda>x. ps_PositionMs_update (\<lambda>_. x)) dec_int),
      (''duration_ms'',
        dec_field ps_DurationMs (\<lambda>x. ps_DurationMs_update (\<lambda>_. x)) dec_int),
      (''updated_ms'', dec_field ps_UpdatedMs (\<lambda>x. ps_UpdatedMs_update (\<lambda>_. x)) dec_int),
      (''artwork_b64'',
        dec_field ps_ArtworkB64 (\<lambda>x. ps_ArtworkB64_update (\<lambda>_. x)) dec_string),
      (''artwork_mime'',
        dec_field ps_ArtworkMime (\<lambda>x. ps_ArtworkMime_update (\<lambda>_. x)) dec_string),
      (''origin'', dec_field ps_Origin (\<lambda>x. ps_Origin_update (\<lambda>_. x)) dec_string)]"

record PlaybackCmdPayload =
  pc_Nonce :: string
  pc_Cmd :: string
  pc_Origin :: string

definition zero_PlaybackCmdPayload :: PlaybackCmdPayload where
  "zero_PlaybackCmdPayload =
     \<lparr>pc_Nonce = [], pc_Cmd = [], pc_Origin = []\<rparr>"

definition PlaybackCmdPayload_fields :: "PlaybackCmdPayload fields" where
  "PlaybackCmdPayload_fields =
     [(''nonce'', dec_field pc_Nonce (\<lambda>x. pc_Nonce_update (\<lambda>_. x)) dec_string),
      (''cmd'', dec_field pc_Cmd (\<lambda>x. pc_Cmd_update (\<lambda>_. x)) dec_string),
      (''origin'', dec_field pc_Origin (\<lambda>x. pc_Origin_update (\<lambda>_. x)) dec_string)]"

record DNDStatePayload =
  ds_Nonce :: string
  ds_Enabled :: bool
  ds_UpdatedMs :: int
  ds_HasPermission :: bool
  ds_Origin :: string

definition zero_DNDStatePayload :: DNDStatePayload where
  "zero_DNDStatePayload =
     \<lparr>ds_Nonce = [], ds_Enabled = False, ds_UpdatedMs = 0, ds_HasPermission = False,
      ds_Origin = []\<rparr>"

definition DNDStatePayload_fields :: "DNDStatePayload fields" where
  "DNDStatePayload_fields =
     [(''nonce'', dec_field ds_Nonce (\<lambda>x. ds_Nonce_update (\<lambda>_. x)) dec_string),
      (''enabled'', dec_field ds_Enabled (\<lambda>x. ds_Enabled_update (\<lambda>_. x)) dec_bool),
      (''updated_ms'', dec_field ds_UpdatedMs (\<lambda>x. ds_UpdatedMs_update (\<lambda>_. x)) dec_int),
      (''has_permission'',
        dec_field ds_HasPermission (\<lambda>x. ds_HasPermission_update (\<lambda>_. x)) dec_bool),
      (''origin'', dec_field ds_Origin (\<lambda>x. ds_Origin_update (\<lambda>_. x)) dec_string)]"

record DNDSetPayload =
  dset_Nonce :: string
  dset_Enabled :: bool
  dset_Origin :: string

definition zero_DNDSetPayload :: DNDSetPayload where
  "zero_DNDSetPayload =
     \<lparr>dset_Nonce = [], dset_Enabled = False, dset_Origin = []\<rparr>"

definition DNDSetPayload_fields :: "DNDSetPayload fields" where
  "DNDSetPayload_fields =
     [(''nonce'', dec_field dset_Nonce (\<lambda>x. dset_Nonce_update (\<lambda>_. x)) dec_string),
      (''enabled'', dec_field dset_Enabled (\<lambda>x. dset_Enabled_update (\<lambda>_. x)) dec_bool),
      (''origin'', dec_field dset_Origin (\<lambda>x. dset_Origin_update (\<lambda>_. x)) dec_string)]"

end
