(* ===== verification/Last_Writer.thy ===== *)
theory Last_Writer
  imports Prelude "HOL-Library.Product_Lexorder"
begin

text \<open>
  Last-writer-wins registers. Settings, clipboard and playback state are each one register
  that both devices write and exchange; the receiving side replaces its value when a
  predicate says the remote one wins. The locale states what such a predicate promises (it
  compares ranks of a linear order) and proves once what the stores rely on: redelivery does
  nothing, the newest value ends up in the register, and two replicas that saw the same
  updates in any order agree.
\<close>

definition lww_merge :: "('s \<Rightarrow> 's \<Rightarrow> bool) \<Rightarrow> 's \<Rightarrow> 's \<Rightarrow> 's" where
  "lww_merge wins l r = (if wins l r then r else l)"

locale last_writer =
  fixes wins :: "'s \<Rightarrow> 's \<Rightarrow> bool" and rank :: "'s \<Rightarrow> 'k :: linorder"
  assumes wins_rank: "wins l r \<longleftrightarrow> rank l < rank r"
begin

lemma wins_irrefl: "\<not> wins x x"
  by (simp add: wins_rank)

lemma wins_trans: "wins x y \<Longrightarrow> wins y z \<Longrightarrow> wins x z"
  by (simp add: wins_rank)

lemma wins_asym: "wins x y \<Longrightarrow> \<not> wins y x"
  by (simp add: wins_rank)

lemma rank_merge: "rank (lww_merge wins l r) = max (rank l) (rank r)"
  by (auto simp: lww_merge_def wins_rank max_def)

lemma merge_idem: "lww_merge wins (lww_merge wins l r) r = lww_merge wins l r"
  by (simp add: lww_merge_def wins_rank)

lemma merge_assoc:
  "lww_merge wins (lww_merge wins a b) c = lww_merge wins a (lww_merge wins b c)"
  by (auto simp: lww_merge_def wins_rank)

lemma merge_commute: "rank a \<noteq> rank b \<Longrightarrow> lww_merge wins a b = lww_merge wins b a"
  by (auto simp: lww_merge_def wins_rank)

lemma fold_merge_mem: "foldl (lww_merge wins) s xs \<in> insert s (set xs)"
  by (induction xs arbitrary: s) (force simp: lww_merge_def)+

lemma fold_merge_rank: "rank (foldl (lww_merge wins) s xs) = Max (rank ` insert s (set xs))"
proof (induction xs arbitrary: s)
  case (Cons x xs)
  then show ?case
    by (cases "xs = []") (simp_all add: rank_merge max.assoc)
qed simp

lemma converge:
  assumes "set xs = set ys" "inj_on rank (insert s (set xs))"
  shows "foldl (lww_merge wins) s xs = foldl (lww_merge wins) s ys"
  using assms fold_merge_mem[of s xs] fold_merge_mem[of s ys]
    fold_merge_rank[of s xs] fold_merge_rank[of s ys]
  by (metis inj_onD)

end

end
