(* ===== verification/Clip_Sync.thy ===== *)
theory Clip_Sync
  imports Clip_Content Sync_Wire Last_Writer Go_Sha256
begin

text \<open>
  Clipboard synchronisation primitives (\<open>packages/core/clipboard_sync.go\<close>): hybrid
  logical clock stamps on 64-bit integers, the last-writer-wins comparison, content hashes,
  and the manifest and chunk checks of the large-image lane.
\<close>

section \<open>Limits\<close>

definition ClipChunkRaw :: int where [go_consts]: "ClipChunkRaw = 1048576"
definition MaxClipChunkB64Len :: nat where [go_consts]: "MaxClipChunkB64Len = 1800000"
definition MaxClipTotalRaw :: int where [go_consts]: "MaxClipTotalRaw = 26214400"
definition MaxClipChunks :: int where [go_consts]: "MaxClipChunks = 32"
definition MaxClipSessionIDLen :: nat where [go_consts]: "MaxClipSessionIDLen = 64"

section \<open>Hybrid logical clocks\<close>

record ClipStamp =
  stamp_L :: int
  stamp_C :: int

definition ClipStampNext :: "ClipStamp \<Rightarrow> int \<Rightarrow> ClipStamp" where
  "ClipStampNext stored wall =
     (let wall = (if wall < 0 then 0 else wall)
      in if wall > stamp_L stored then \<lparr>stamp_L = wall, stamp_C = 0\<rparr>
         else if wall = stamp_L stored
         then \<lparr>stamp_L = stamp_L stored, stamp_C = wrap64 (stamp_C stored + 1)\<rparr>
         else \<lparr>stamp_L = stamp_L stored, stamp_C = wrap64 (stamp_C stored + 1)\<rparr>)"

definition ClipStampOnReceive :: "ClipStamp \<Rightarrow> ClipStamp \<Rightarrow> int \<Rightarrow> ClipStamp" where
  "ClipStampOnReceive local remote wall =
     (let l = stamp_L local;
          l = (if stamp_L remote > l then stamp_L remote else l);
          l = (if wall > l then wall else l);
          c = (if l = stamp_L local \<and> l = stamp_L remote
               then wrap64 ((if stamp_C remote > stamp_C local then stamp_C remote else stamp_C local) + 1)
               else if l = stamp_L local then wrap64 (stamp_C local + 1)
               else if l = stamp_L remote then wrap64 (stamp_C remote + 1)
               else 0)
      in \<lparr>stamp_L = l, stamp_C = c\<rparr>)"

definition CompareClipStamps :: "ClipStamp \<Rightarrow> ClipStamp \<Rightarrow> int" where
  "CompareClipStamps a b =
     (if stamp_L a \<noteq> stamp_L b then (if stamp_L a < stamp_L b then -1 else 1)
      else if stamp_C a \<noteq> stamp_C b then (if stamp_C a < stamp_C b then -1 else 1)
      else 0)"

definition RemoteClipWinsEx :: "int \<Rightarrow> int \<Rightarrow> int \<Rightarrow> int \<Rightarrow> bool" where
  "RemoteClipWinsEx localL localC remoteL remoteC =
     (if remoteL \<le> 0 then False
      else if remoteL \<noteq> localL then remoteL > localL
      else remoteC > localC)"

definition RemoteClipWins :: "int \<Rightarrow> int \<Rightarrow> bool" where
  "RemoteClipWins localChangedAt remoteChangedAt =
     (if remoteChangedAt \<le> 0 then False else remoteChangedAt > localChangedAt)"

section \<open>Content hashes and session ids\<close>

definition ContentHashForBytes :: "string \<Rightarrow> string" where
  "ContentHashForBytes raw = hex_encode (sha256 raw)"

definition ContentHashForText :: "string \<Rightarrow> string" where
  "ContentHashForText s = ContentHashForBytes s"

definition session_rune :: "nat \<Rightarrow> bool" where
  "session_rune r \<longleftrightarrow> (48 \<le> r \<and> r \<le> 57) \<or> (97 \<le> r \<and> r \<le> 102) \<or> (65 \<le> r \<and> r \<le> 70) \<or>
     r = 45 \<or> r = 95"

definition SanitizeClipSessionID :: "string \<Rightarrow> string option" where
  "SanitizeClipSessionID s =
     (let trimmed = trim_space s
      in if trimmed = [] \<or> length trimmed > MaxClipSessionIDLen then None
         else if list_all session_rune (runes trimmed) then Some trimmed else None)"

section \<open>Manifests and chunks\<close>

definition SanitizeClipManifest :: "ClipManifestPayload \<Rightarrow> bool" where
  "SanitizeClipManifest p =
     (if cm_Nonce p = [] then False
      else if SanitizeClipSessionID (cm_SessionID p) = None then False
      else if SanitizeClipMime (cm_Mime p) = None then False
      else if cm_Filename p \<noteq> [] \<and> SanitizeClipFilename (cm_Filename p) = [] then False
      else if cm_TotalRaw p \<le> int MaxClipImageRaw \<or> cm_TotalRaw p > MaxClipTotalRaw then False
      else if cm_TotalChunks p < 2 \<or> cm_TotalChunks p > MaxClipChunks then False
      else if cm_ChunkSize p \<noteq> ClipChunkRaw then False
      else if go_div (cm_TotalRaw p + cm_ChunkSize p - 1) (cm_ChunkSize p) \<noteq> cm_TotalChunks p then False
      else if cm_ChangedAt p < 0 \<or> cm_ChangedC p < 0 then False
      else if \<not> SanitizeContentHash (cm_ContentHash p) \<or> cm_ContentHash p = [] then False
      else if NormalizeOrigin (cm_Origin p) = [] then False
      else True)"

definition SanitizeClipChunk :: "ClipChunkPayload \<Rightarrow> bool" where
  "SanitizeClipChunk p =
     (if cc_Nonce p = [] then False
      else if SanitizeClipSessionID (cc_SessionID p) = None then False
      else if cc_TotalChunks p < 2 \<or> cc_TotalChunks p > MaxClipChunks then False
      else if cc_ChunkIndex p < 0 \<or> cc_ChunkIndex p \<ge> cc_TotalChunks p then False
      else if cc_TotalRaw p \<le> int MaxClipImageRaw \<or> cc_TotalRaw p > MaxClipTotalRaw then False
      else if cc_Offset p \<noteq> cc_ChunkIndex p * ClipChunkRaw then False
      else if cc_Offset p < 0 \<or> cc_Offset p \<ge> cc_TotalRaw p then False
      else if length (cc_DataB64 p) > MaxClipChunkB64Len then False
      else if cc_DataB64 p = [] then False
      else case b64_std_decode (trim_space (cc_DataB64 p)) of
             None \<Rightarrow> False
           | Some raw \<Rightarrow>
               if length raw = 0 \<or> int (length raw) > ClipChunkRaw then False
               else if cc_ContentHash p \<noteq> [] \<and> \<not> SanitizeContentHash (cc_ContentHash p) then False
               else if cc_ChunkIndex p \<noteq> cc_TotalChunks p - 1 \<and> cc_ContentHash p \<noteq> [] then False
               else True)"

definition DecodeClipChunkData :: "string \<Rightarrow> string option" where
  "DecodeClipChunkData dataB64 =
     (if dataB64 = [] \<or> length dataB64 > MaxClipChunkB64Len then None
      else case b64_std_decode (trim_space dataB64) of
             None \<Rightarrow> None
           | Some raw \<Rightarrow>
               if length raw = 0 \<or> int (length raw) > ClipChunkRaw then None else Some raw)"

definition TotalClipChunksForSize :: "int \<Rightarrow> int" where
  "TotalClipChunksForSize totalRaw =
     (if totalRaw \<le> 0 then 1
      else let n = go_div (wrap64 (totalRaw + ClipChunkRaw - 1)) ClipChunkRaw
           in if n < 1 then 1 else n)"

definition ConcealedPasteboardTypes :: "string list" where
  "ConcealedPasteboardTypes =
     [''org.nspasteboard.concealed-type'', ''org.nspasteboard.transient-type'',
      ''org.nspasteboard.auto-generated'', ''com.agilebits.onepassword'']"

definition HasConcealedPasteboardType :: "string list \<Rightarrow> bool" where
  "HasConcealedPasteboardType types =
     list_ex (\<lambda>t. trim_space t \<in> set ConcealedPasteboardTypes) types"

section \<open>Stamps are ordered\<close>

definition stamp_rank :: "ClipStamp \<Rightarrow> int \<times> int" where
  "stamp_rank s = (stamp_L s, stamp_C s)"

lemma compare_stamps:
  "CompareClipStamps a b = (if stamp_rank a < stamp_rank b then -1 else if stamp_rank b < stamp_rank a then 1 else 0)"
  by (auto simp: CompareClipStamps_def stamp_rank_def less_prod_def)

definition clip_wins :: "ClipStamp \<Rightarrow> ClipStamp \<Rightarrow> bool" where
  "clip_wins l r = RemoteClipWinsEx (stamp_L l) (stamp_C l) (stamp_L r) (stamp_C r)"

definition clip_rank :: "ClipStamp \<Rightarrow> int \<times> int" where
  "clip_rank s = (if stamp_L s \<le> 0 then (0, 0) else (stamp_L s, stamp_C s))"

interpretation clip: last_writer clip_wins clip_rank
  by unfold_locales (auto simp: clip_wins_def clip_rank_def RemoteClipWinsEx_def less_prod_def)

interpretation clip_legacy: last_writer RemoteClipWins "max 0"
  by unfold_locales (auto simp: RemoteClipWins_def)

lemma stamp_next_later:
  assumes "0 \<le> stamp_C s" "stamp_C s < 2 ^ 63 - 1"
  shows "stamp_rank s < stamp_rank (ClipStampNext s wall)"
    and "wall \<le> stamp_L (ClipStampNext s wall)" and "0 \<le> stamp_C (ClipStampNext s wall)"
proof -
  have "wrap64 (stamp_C s + 1) = stamp_C s + 1" using assms by (intro wrap64_id) (simp add: int64_def)
  then show "stamp_rank s < stamp_rank (ClipStampNext s wall)"
    and "wall \<le> stamp_L (ClipStampNext s wall)" and "0 \<le> stamp_C (ClipStampNext s wall)"
    using assms by (auto simp: ClipStampNext_def stamp_rank_def less_prod_def Let_def)
qed

lemma stamp_receive_later:
  assumes "0 \<le> stamp_C a" "stamp_C a < 2 ^ 63 - 1" "0 \<le> stamp_C b" "stamp_C b < 2 ^ 63 - 1"
  shows "stamp_rank a < stamp_rank (ClipStampOnReceive a b wall)"
    and "stamp_rank b < stamp_rank (ClipStampOnReceive a b wall)"
    and "wall \<le> stamp_L (ClipStampOnReceive a b wall)" "0 \<le> stamp_C (ClipStampOnReceive a b wall)"
proof -
  have w: "wrap64 (stamp_C a + 1) = stamp_C a + 1" "wrap64 (stamp_C b + 1) = stamp_C b + 1"
    using assms by (simp_all add: int64_def)
  show "stamp_rank a < stamp_rank (ClipStampOnReceive a b wall)"
    and "stamp_rank b < stamp_rank (ClipStampOnReceive a b wall)"
    and "wall \<le> stamp_L (ClipStampOnReceive a b wall)" "0 \<le> stamp_C (ClipStampOnReceive a b wall)"
    using assms by (auto simp: ClipStampOnReceive_def stamp_rank_def less_prod_def Let_def w)
qed

text \<open>
  C30. Clock stamps only go forward: a new local stamp is later than the stored one, and a
  stamp taken on receipt is later than both the local and the received one, and neither
  falls behind the wall clock, as long as the counters are below the largest 64-bit integer.
\<close>

theorem hlc_monotone:
  assumes "0 \<le> stamp_C a" "stamp_C a < 2 ^ 63 - 1" "0 \<le> stamp_C b" "stamp_C b < 2 ^ 63 - 1"
  shows "CompareClipStamps a (ClipStampNext a wall) = -1 \<and>
         CompareClipStamps a (ClipStampOnReceive a b wall) = -1 \<and>
         CompareClipStamps b (ClipStampOnReceive a b wall) = -1 \<and>
         wall \<le> stamp_L (ClipStampNext a wall) \<and> wall \<le> stamp_L (ClipStampOnReceive a b wall)"
  using stamp_next_later[OF assms(1,2)] stamp_receive_later[OF assms] by (simp add: compare_stamps)

theorem hlc_monotone_witness:
  "CompareClipStamps \<lparr>stamp_L = 7, stamp_C = 2\<rparr>
     (ClipStampOnReceive \<lparr>stamp_L = 7, stamp_C = 1\<rparr> \<lparr>stamp_L = 7, stamp_C = 2\<rparr> 5) = -1"
  using hlc_monotone[of "\<lparr>stamp_L = 7, stamp_C = 1\<rparr>" "\<lparr>stamp_L = 7, stamp_C = 2\<rparr>" 5] by simp

text \<open>
  At the largest 64-bit counter the clock runs backwards: a peer that sends a stamp with
  that counter makes the next local stamp of the same second compare as earlier.
\<close>

theorem hlc_counter_wraps:
  "CompareClipStamps \<lparr>stamp_L = l, stamp_C = 2 ^ 63 - 1\<rparr>
     (ClipStampNext \<lparr>stamp_L = l, stamp_C = 2 ^ 63 - 1\<rparr> l) = (if l < 0 then -1 else 1)"
  using wrap64_succ_max by (simp add: ClipStampNext_def CompareClipStamps_def Let_def)

end
