(* ===== verification/Settings_Sync.thy ===== *)
theory Settings_Sync
  imports Notif_Filter Last_Writer
begin

text \<open>
  The settings blob both devices exchange (\<open>packages/core/features.go\<close>): its
  canonicalisation and the last-writer-wins rule, an instance of \<open>last_writer\<close> with the
  timestamp and the side as rank.
\<close>

definition SanitizeSettings :: "SettingsSyncPayload \<Rightarrow> SettingsSyncPayload option" where
  "SanitizeSettings p =
     (if ss_UpdatedUnix p < 0 then None
      else Some (p\<lparr>
        ss_UpdatedBy := NormalizeUpdatedBy (ss_UpdatedBy p),
        ss_ClipboardMode := NormalizeClipboardMode (ss_ClipboardMode p),
        ss_NotifMode := NormalizeNotifMode (ss_NotifMode p),
        ss_MutedPackages := SanitizeNotifFilterList (ss_MutedPackages p),
        ss_AllowedPackages := SanitizeNotifFilterList (ss_AllowedPackages p),
        ss_PlaybackMode := NormalizePlaybackMode (ss_PlaybackMode p),
        ss_PlaybackOutput := NormalizePlaybackOutput (ss_PlaybackOutput p)\<rparr>))"

definition RemoteSettingsWins :: "SettingsSyncPayload \<Rightarrow> SettingsSyncPayload \<Rightarrow> bool" where
  "RemoteSettingsWins local remote =
     (if ss_UpdatedUnix remote \<noteq> ss_UpdatedUnix local
      then ss_UpdatedUnix remote > ss_UpdatedUnix local
      else let remoteMac = IsMacSide (ss_UpdatedBy remote); localMac = IsMacSide (ss_UpdatedBy local)
           in if remoteMac \<noteq> localMac then remoteMac else False)"

definition ClipboardAllowSensitive :: "SettingsSyncPayload \<Rightarrow> bool" where
  "ClipboardAllowSensitive p =
     (case ss_ClipboardAllowSensitive p of None \<Rightarrow> False | Some b \<Rightarrow> b)"

definition settings_rank :: "SettingsSyncPayload \<Rightarrow> int \<times> bool" where
  "settings_rank p = (ss_UpdatedUnix p, IsMacSide (ss_UpdatedBy p))"

interpretation settings: last_writer RemoteSettingsWins settings_rank
  by unfold_locales (auto simp: RemoteSettingsWins_def settings_rank_def less_prod_def Let_def)

section \<open>Origins given in ASCII\<close>

lemma lower_char_idem [simp]: "lower_char (lower_char c) = lower_char c"
  by (auto simp: lower_char_def)

lemma ascii_lower_char [simp]: "byte c < 128 \<Longrightarrow> byte (lower_char c) < 128"
  by (simp add: lower_char_def)

lemma ascii_space_lower [simp]: "ascii_space (lower_char c) = ascii_space c"
  by (auto simp: lower_char_def ascii_space_def)

lemma ascii_map_lower: "ascii s \<Longrightarrow> ascii (map lower_char s)"
  by (simp add: ascii_def list_all_iff)

lemma trim_map_lower:
  assumes "ascii s" shows "trim_space (map lower_char s) = map lower_char (trim_space s)"
proof -
  have "dropWhile ascii_space (map lower_char t) = map lower_char (dropWhile ascii_space t)" for t
    by (induction t) simp_all
  then show ?thesis using assms by (simp add: trim_space_ascii ascii_map_lower rev_map)
qed

lemma ascii_trim: "ascii s \<Longrightarrow> ascii (trim_space s)"
  using set_trim_space[of s] by (auto simp: ascii_def list_all_iff)

lemma to_lower_trim_idem:
  "ascii s \<Longrightarrow> to_lower (trim_space (to_lower (trim_space s))) = to_lower (trim_space s)"
  by (simp add: to_lower_ascii ascii_trim ascii_map_lower trim_map_lower)

lemma NormalizeOrigin_idem: "ascii s \<Longrightarrow> NormalizeOrigin (NormalizeOrigin s) = NormalizeOrigin s"
  by (cases "to_lower (trim_space s) = OriginMacOS")
    (simp_all add: NormalizeOrigin_def[of s] OriginMac_def Let_def,
     simp add: NormalizeOrigin_def to_lower_trim_idem Let_def)

lemma ascii_NormalizeOrigin: "ascii s \<Longrightarrow> ascii (NormalizeOrigin s)"
  by (simp add: NormalizeOrigin_def OriginMac_def to_lower_ascii ascii_trim ascii_map_lower Let_def)

section \<open>Canonical blobs\<close>

lemma SanitizeSettings_idem:
  assumes "SanitizeSettings p = Some q" "ascii (ss_UpdatedBy p)"
  shows "SanitizeSettings q = Some q"
  using assms
  by (auto simp: SanitizeSettings_def NormalizeUpdatedBy_def NormalizeOrigin_idem
      clipboard_mode.norm_idem notif_mode.norm_idem playback_mode.norm_idem
      playback_output.norm_idem split: if_splits)

lemma SanitizeSettings_rank:
  assumes "SanitizeSettings p = Some q" "ascii (ss_UpdatedBy p)"
  shows "settings_rank q = settings_rank p"
  using assms
  by (auto simp: SanitizeSettings_def settings_rank_def IsMacSide_def NormalizeUpdatedBy_def
      NormalizeOrigin_idem OriginMac_def split: if_splits)

end
