(* ===== verification/Playback.thy ===== *)
theory Playback
  imports Notif_Filter Sync_Wire Last_Writer
begin

text \<open>
  Now-playing and Do-Not-Disturb synchronisation: the payload checks of
  \<open>packages/core/playback.go\<close> and \<open>packages/core/dnd.go\<close>, and the two in-memory stores of
  \<open>apps/mac/backend/playback.go\<close> and \<open>apps/mac/backend/dnd.go\<close>.
\<close>

section \<open>Playback payloads\<close>

definition PlaybackCmdPlay :: string where [go_consts]: "PlaybackCmdPlay = ''play''"
definition PlaybackCmdPause :: string where [go_consts]: "PlaybackCmdPause = ''pause''"
definition PlaybackCmdToggle :: string where [go_consts]: "PlaybackCmdToggle = ''toggle''"
definition PlaybackCmdNext :: string where [go_consts]: "PlaybackCmdNext = ''next''"
definition PlaybackCmdPrev :: string where [go_consts]: "PlaybackCmdPrev = ''prev''"
definition MaxPlaybackTitleLen :: int where [go_consts]: "MaxPlaybackTitleLen = 128"
definition MaxPlaybackArtistLen :: int where [go_consts]: "MaxPlaybackArtistLen = 128"
definition MaxPlaybackAlbumLen :: int where [go_consts]: "MaxPlaybackAlbumLen = 128"
definition MaxPlaybackAppLen :: int where [go_consts]: "MaxPlaybackAppLen = 64"
definition MaxPlaybackArtworkB64Len :: nat where [go_consts]: "MaxPlaybackArtworkB64Len = 131072"
definition PlaybackMaxDurationMs :: int where [go_consts]: "PlaybackMaxDurationMs = 86400000"

definition IsValidPlaybackCmd :: "string \<Rightarrow> bool" where
  "IsValidPlaybackCmd s \<longleftrightarrow> to_lower (trim_space s) \<in>
     {PlaybackCmdPlay, PlaybackCmdPause, PlaybackCmdToggle, PlaybackCmdNext, PlaybackCmdPrev}"

definition AllowedPlaybackArtworkMimes :: "string list" where
  "AllowedPlaybackArtworkMimes = [''image/jpeg'', ''image/jpg'', ''image/png'']"

definition SanitizePlaybackArtworkMime :: "string \<Rightarrow> string option" where
  "SanitizePlaybackArtworkMime s =
     (let n = to_lower (trim_space s);
          n = (if n = ''image/jpg'' then ''image/jpeg'' else n)
      in if n \<in> set AllowedPlaybackArtworkMimes then Some n else None)"

definition SanitizePlaybackArtwork :: "string \<Rightarrow> string \<Rightarrow> bool" where
  "SanitizePlaybackArtwork b64 mime =
     (let trimmed = trim_space b64
      in if trimmed = [] then True
         else if length trimmed > MaxPlaybackArtworkB64Len then False
         else if SanitizePlaybackArtworkMime mime = None then False
         else if b64_std_decode trimmed = None then False
         else True)"

definition truncateRunes :: "string \<Rightarrow> int \<Rightarrow> string" where
  "truncateRunes s mx =
     (let trimmed = trim_space s
      in if mx \<le> 0 then []
         else if int (length (runes trimmed)) > mx
         then trim_space (string_of_runes (take (nat mx) (runes trimmed)))
         else trimmed)"

definition artwork_fields :: "PlaybackStatePayload \<Rightarrow> string \<times> string" where
  "artwork_fields p =
     (let (b64, mime) = (if trim_space (ps_ArtworkB64 p) \<noteq> [] \<and>
                            \<not> SanitizePlaybackArtwork (ps_ArtworkB64 p) (ps_ArtworkMime p)
                         then ([], []) else (ps_ArtworkB64 p, ps_ArtworkMime p))
      in if b64 = [] then (b64, [])
         else (b64, case SanitizePlaybackArtworkMime mime of None \<Rightarrow> mime | Some m \<Rightarrow> m))"

definition SanitizePlaybackState :: "PlaybackStatePayload \<Rightarrow> PlaybackStatePayload option" where
  "SanitizePlaybackState p =
     (if trim_space (ps_Nonce p) = [] then None
      else if ps_UpdatedMs p < 0 \<or> ps_PositionMs p < 0 \<or> ps_DurationMs p < 0 then None
      else if ps_PositionMs p > PlaybackMaxDurationMs \<or> ps_DurationMs p > PlaybackMaxDurationMs then None
      else if ps_DurationMs p > 0 \<and> ps_PositionMs p > ps_DurationMs p + 5000 then None
      else
        let (b64, mime) = artwork_fields p
        in Some (p\<lparr>
          ps_Title := truncateRunes (ps_Title p) MaxPlaybackTitleLen,
          ps_Artist := truncateRunes (ps_Artist p) MaxPlaybackArtistLen,
          ps_Album := truncateRunes (ps_Album p) MaxPlaybackAlbumLen,
          ps_App := truncateRunes (ps_App p) MaxPlaybackAppLen,
          ps_PackageName := SanitizePackageName (ps_PackageName p),
          ps_State := NormalizePlaybackState (ps_State p),
          ps_Origin := NormalizeOrigin (ps_Origin p),
          ps_ArtworkB64 := b64, ps_ArtworkMime := mime\<rparr>))"

definition SanitizePlaybackCmd :: "PlaybackCmdPayload \<Rightarrow> PlaybackCmdPayload option" where
  "SanitizePlaybackCmd p =
     (if trim_space (pc_Nonce p) = [] then None
      else let cmd = to_lower (trim_space (pc_Cmd p))
      in if \<not> IsValidPlaybackCmd cmd then None
         else Some (p\<lparr>pc_Cmd := cmd, pc_Origin := NormalizeOrigin (pc_Origin p)\<rparr>))"

definition RemotePlaybackWins :: "int \<Rightarrow> int \<Rightarrow> bool" where
  "RemotePlaybackWins localUpdatedMs remoteUpdatedMs =
     (if remoteUpdatedMs \<le> 0 then False else remoteUpdatedMs > localUpdatedMs)"

definition ShouldSendPlaybackState ::
  "PlaybackStatePayload option \<Rightarrow> PlaybackStatePayload \<Rightarrow> int \<Rightarrow> bool" where
  "ShouldSendPlaybackState prev nxt nowMs =
     (case prev of
        None \<Rightarrow> True
      | Some l \<Rightarrow>
          if ps_Title nxt \<noteq> ps_Title l \<or> ps_Artist nxt \<noteq> ps_Artist l \<or> ps_Album nxt \<noteq> ps_Album l \<or>
             ps_PackageName nxt \<noteq> ps_PackageName l then True
          else if NormalizePlaybackState (ps_State nxt) \<noteq> NormalizePlaybackState (ps_State l) then True
          else if ps_DurationMs nxt \<noteq> ps_DurationMs l then True
          else if ps_ArtworkB64 nxt \<noteq> ps_ArtworkB64 l then True
          else False)"

definition PlaybackTrackID :: "PlaybackStatePayload \<Rightarrow> string" where
  "PlaybackTrackID p =
     (let pkg = SanitizePackageName (ps_PackageName p) in if pkg = [] then ''unknown-player'' else pkg)"

section \<open>The playback store\<close>

record PlaybackView =
  pv_HasState :: bool
  pv_Title :: string
  pv_Artist :: string
  pv_Album :: string
  pv_PackageName :: string
  pv_App :: string
  pv_State :: string
  pv_PositionMs :: int
  pv_DurationMs :: int
  pv_UpdatedMs :: int
  pv_ArtworkB64 :: string
  pv_ArtworkMime :: string

definition zero_PlaybackView :: PlaybackView where
  "zero_PlaybackView =
     \<lparr>pv_HasState = False, pv_Title = [], pv_Artist = [], pv_Album = [], pv_PackageName = [],
      pv_App = [], pv_State = [], pv_PositionMs = 0, pv_DurationMs = 0, pv_UpdatedMs = 0,
      pv_ArtworkB64 = [], pv_ArtworkMime = []\<rparr>"

record PlaybackStore =
  pb_cur :: PlaybackView
  pb_has :: bool
  pb_seenCmds :: "string set"

definition NewPlaybackStore :: PlaybackStore where
  "NewPlaybackStore = \<lparr>pb_cur = zero_PlaybackView, pb_has = False, pb_seenCmds = {}\<rparr>"

definition PlaybackStore_Get :: "PlaybackStore \<Rightarrow> PlaybackView" where
  "PlaybackStore_Get s =
     (if \<not> pb_has s then zero_PlaybackView\<lparr>pv_State := PlaybackStopped\<rparr> else pb_cur s)"

definition playback_view :: "PlaybackStatePayload \<Rightarrow> PlaybackView" where
  "playback_view q =
     \<lparr>pv_HasState = True, pv_Title = ps_Title q, pv_Artist = ps_Artist q, pv_Album = ps_Album q,
      pv_PackageName = ps_PackageName q, pv_App = ps_App q, pv_State = ps_State q,
      pv_PositionMs = ps_PositionMs q, pv_DurationMs = ps_DurationMs q,
      pv_UpdatedMs = ps_UpdatedMs q, pv_ArtworkB64 = ps_ArtworkB64 q,
      pv_ArtworkMime = ps_ArtworkMime q\<rparr>"

definition PlaybackStore_ApplyRemote :: "PlaybackStatePayload \<Rightarrow> PlaybackStore \<Rightarrow> PlaybackStore \<times> bool" where
  "PlaybackStore_ApplyRemote p s =
     (case SanitizePlaybackState p of
        None \<Rightarrow> (s, False)
      | Some q \<Rightarrow>
          if \<not> RemotePlaybackWins (pv_UpdatedMs (pb_cur s)) (ps_UpdatedMs q) then (s, False)
          else (s\<lparr>pb_cur := playback_view q, pb_has := True\<rparr>, True))"

definition PlaybackStore_Clear :: "PlaybackStore \<Rightarrow> PlaybackStore" where
  "PlaybackStore_Clear s =
     s\<lparr>pb_cur := zero_PlaybackView\<lparr>pv_State := PlaybackStopped\<rparr>, pb_has := False\<rparr>"

text \<open>The eviction deletes whichever key the map's iteration yields first; that key is the
  argument \<open>victim\<close>.\<close>

definition SeenCmd :: "string \<Rightarrow> string \<Rightarrow> PlaybackStore \<Rightarrow> bool \<times> PlaybackStore" where
  "SeenCmd victim nonce s =
     (if nonce = [] then (True, s)
      else if nonce \<in> pb_seenCmds s then (True, s)
      else
        let s = s\<lparr>pb_seenCmds := insert nonce (pb_seenCmds s)\<rparr>
        in (False, if card (pb_seenCmds s) > 256 then s\<lparr>pb_seenCmds := pb_seenCmds s - {victim}\<rparr> else s))"

section \<open>Do Not Disturb\<close>

definition SanitizeDNDState :: "DNDStatePayload \<Rightarrow> DNDStatePayload option" where
  "SanitizeDNDState p =
     (if trim_space (ds_Nonce p) = [] then None
      else if ds_UpdatedMs p < 0 then None
      else Some (p\<lparr>ds_Origin := NormalizeOrigin (ds_Origin p)\<rparr>))"

definition SanitizeDNDSet :: "DNDSetPayload \<Rightarrow> DNDSetPayload option" where
  "SanitizeDNDSet p =
     (if trim_space (dset_Nonce p) = [] then None
      else Some (p\<lparr>dset_Origin := NormalizeOrigin (dset_Origin p)\<rparr>))"

record DNDView =
  dv_Enabled :: bool
  dv_HasPermission :: bool
  dv_HasState :: bool
  dv_UpdatedMs :: int

definition NewDNDStore :: DNDView where
  "NewDNDStore = \<lparr>dv_Enabled = False, dv_HasPermission = False, dv_HasState = False, dv_UpdatedMs = 0\<rparr>"

definition DNDStore_ApplyRemote :: "DNDStatePayload \<Rightarrow> DNDView \<Rightarrow> DNDView \<times> bool" where
  "DNDStore_ApplyRemote p cur =
     (if dv_HasState cur \<and> ds_UpdatedMs p > 0 \<and> ds_UpdatedMs p < dv_UpdatedMs cur then (cur, False)
      else (\<lparr>dv_Enabled = ds_Enabled p, dv_HasPermission = ds_HasPermission p, dv_HasState = True,
             dv_UpdatedMs = ds_UpdatedMs p\<rparr>, True))"

definition DNDStore_SetOptimistic :: "bool \<Rightarrow> DNDView \<Rightarrow> DNDView" where
  "DNDStore_SetOptimistic enabled cur = cur\<lparr>dv_Enabled := enabled, dv_HasState := True\<rparr>"

definition DNDStore_Clear :: "DNDView \<Rightarrow> DNDView" where
  "DNDStore_Clear cur = NewDNDStore"

section \<open>Playback is a last-writer-wins register\<close>

interpretation playback: last_writer RemotePlaybackWins "max 0"
  by unfold_locales (auto simp: RemotePlaybackWins_def)

lemma playback_sanitize_time: "SanitizePlaybackState p = Some q \<Longrightarrow> ps_UpdatedMs q = ps_UpdatedMs p"
  by (auto simp: SanitizePlaybackState_def Let_def split_def split: if_splits)

lemma apply_playback_time:
  assumes "SanitizePlaybackState p \<noteq> None"
  shows "pv_UpdatedMs (pb_cur (fst (PlaybackStore_ApplyRemote p s))) =
     lww_merge RemotePlaybackWins (pv_UpdatedMs (pb_cur s)) (ps_UpdatedMs p)"
  using assms playback_sanitize_time[of p]
  by (auto simp: PlaybackStore_ApplyRemote_def lww_merge_def playback_view_def split: option.split)

definition playback_run :: "PlaybackStore \<Rightarrow> PlaybackStatePayload list \<Rightarrow> PlaybackStore" where
  "playback_run s ps = foldl (\<lambda>s p. fst (PlaybackStore_ApplyRemote p s)) s ps"

lemma playback_run_time:
  assumes "\<forall>p \<in> set ps. SanitizePlaybackState p \<noteq> None"
  shows "pv_UpdatedMs (pb_cur (playback_run s ps)) =
     foldl (lww_merge RemotePlaybackWins) (pv_UpdatedMs (pb_cur s)) (map ps_UpdatedMs ps)"
  using assms by (induction ps arbitrary: s) (simp_all add: playback_run_def apply_playback_time)

lemma playback_run_mem:
  "pb_cur (playback_run s ps) = pb_cur s \<or>
   (\<exists>p \<in> set ps. \<exists>q. SanitizePlaybackState p = Some q \<and> pb_cur (playback_run s ps) = playback_view q)"
proof (induction ps arbitrary: s)
  case (Cons p ps)
  let ?s = "fst (PlaybackStore_ApplyRemote p s)"
  have "pb_cur ?s = pb_cur s \<or> (\<exists>q. SanitizePlaybackState p = Some q \<and> pb_cur ?s = playback_view q)"
    by (auto simp: PlaybackStore_ApplyRemote_def split: option.split)
  then show ?case using Cons.IH[of ?s] by (auto simp: playback_run_def)
qed (simp add: playback_run_def)



text \<open>
  Command idempotency is lost when the table of nonces is full: the eviction may remove
  the nonce it has just recorded, so that the same command is reported as new twice in a row.
\<close>

theorem seen_cmd_replay:
  "\<exists>s. card (pb_seenCmds s) = 256 \<and> \<not> fst (SeenCmd ''n'' ''n'' s) \<and>
       \<not> fst (SeenCmd ''n'' ''n'' (snd (SeenCmd ''n'' ''n'' s)))"
proof -
  define cmds where "cmds = (\<lambda>i. replicate (Suc i) CHR ''a'') ` {..<256 :: nat}"
  have inj: "inj_on (\<lambda>i. replicate (Suc i) CHR ''a'') {..<256 :: nat}"
    by (rule inj_onI) (metis length_replicate nat.inject)
  have c: "card cmds = 256" unfolding cmds_def using card_image[OF inj] by simp
  have n: "''n'' \<notin> cmds" "finite cmds" by (auto simp: cmds_def)
  show ?thesis
    by (rule exI[of _ "NewPlaybackStore\<lparr>pb_seenCmds := cmds\<rparr>"]) (simp add: SeenCmd_def Let_def c n)
qed

end
