(* ===== verification/Photos_Wire.thy ===== *)
theory Photos_Wire
  imports Go_Json_Decode
begin

text \<open>
  The payload structs of \<open>packages/core/photos.go\<close>: for each, its record, its zero value and how
  \<open>json.Unmarshal\<close> fills its fields.
\<close>

record PhotoEntry =
  pe_PhotoID :: string
  pe_TakenAt :: int
  pe_Width :: int
  pe_Height :: int
  pe_Mime :: string
  pe_Size :: int
  pe_Orientation :: int
  pe_MediaType :: string
  pe_DurationMs :: int

definition zero_PhotoEntry :: PhotoEntry where
  "zero_PhotoEntry =
     \<lparr>pe_PhotoID = [], pe_TakenAt = 0, pe_Width = 0, pe_Height = 0, pe_Mime = [],
      pe_Size = 0, pe_Orientation = 0, pe_MediaType = [], pe_DurationMs = 0\<rparr>"

definition PhotoEntry_fields :: "PhotoEntry fields" where
  "PhotoEntry_fields =
     [(''photo_id'', dec_field pe_PhotoID (\<lambda>x. pe_PhotoID_update (\<lambda>_. x)) dec_string),
      (''taken_at'', dec_field pe_TakenAt (\<lambda>x. pe_TakenAt_update (\<lambda>_. x)) dec_int),
      (''width'', dec_field pe_Width (\<lambda>x. pe_Width_update (\<lambda>_. x)) dec_int),
      (''height'', dec_field pe_Height (\<lambda>x. pe_Height_update (\<lambda>_. x)) dec_int),
      (''mime'', dec_field pe_Mime (\<lambda>x. pe_Mime_update (\<lambda>_. x)) dec_string),
      (''size'', dec_field pe_Size (\<lambda>x. pe_Size_update (\<lambda>_. x)) dec_int),
      (''orientation'',
        dec_field pe_Orientation (\<lambda>x. pe_Orientation_update (\<lambda>_. x)) dec_int),
      (''media_type'',
        dec_field pe_MediaType (\<lambda>x. pe_MediaType_update (\<lambda>_. x)) dec_string),
      (''duration_ms'',
        dec_field pe_DurationMs (\<lambda>x. pe_DurationMs_update (\<lambda>_. x)) dec_int)]"

record PhotoListPayload =
  pl_Nonce :: string
  pl_ReqID :: string
  pl_Cursor :: string
  pl_Limit :: int

definition zero_PhotoListPayload :: PhotoListPayload where
  "zero_PhotoListPayload =
     \<lparr>pl_Nonce = [], pl_ReqID = [], pl_Cursor = [], pl_Limit = 0\<rparr>"

definition PhotoListPayload_fields :: "PhotoListPayload fields" where
  "PhotoListPayload_fields =
     [(''nonce'', dec_field pl_Nonce (\<lambda>x. pl_Nonce_update (\<lambda>_. x)) dec_string),
      (''req_id'', dec_field pl_ReqID (\<lambda>x. pl_ReqID_update (\<lambda>_. x)) dec_string),
      (''cursor'', dec_field pl_Cursor (\<lambda>x. pl_Cursor_update (\<lambda>_. x)) dec_string),
      (''limit'', dec_field pl_Limit (\<lambda>x. pl_Limit_update (\<lambda>_. x)) dec_int)]"

record PhotoListRespPayload =
  plr_Nonce :: string
  plr_ReqID :: string
  plr_Entries :: "PhotoEntry list"
  plr_NextCursor :: string
  plr_Error :: string
  plr_ErrorCode :: string
  plr_Permission :: string

definition zero_PhotoListRespPayload :: PhotoListRespPayload where
  "zero_PhotoListRespPayload =
     \<lparr>plr_Nonce = [], plr_ReqID = [], plr_Entries = [], plr_NextCursor = [],
      plr_Error = [], plr_ErrorCode = [], plr_Permission = []\<rparr>"

definition PhotoListRespPayload_fields :: "PhotoListRespPayload fields" where
  "PhotoListRespPayload_fields =
     [(''nonce'', dec_field plr_Nonce (\<lambda>x. plr_Nonce_update (\<lambda>_. x)) dec_string),
      (''req_id'', dec_field plr_ReqID (\<lambda>x. plr_ReqID_update (\<lambda>_. x)) dec_string),
      (''entries'',
        dec_field plr_Entries (\<lambda>x. plr_Entries_update (\<lambda>_. x)) (dec_slice (dec_struct PhotoEntry_fields) zero_PhotoEntry)),
      (''next_cursor'',
        dec_field plr_NextCursor (\<lambda>x. plr_NextCursor_update (\<lambda>_. x)) dec_string),
      (''error'', dec_field plr_Error (\<lambda>x. plr_Error_update (\<lambda>_. x)) dec_string),
      (''error_code'',
        dec_field plr_ErrorCode (\<lambda>x. plr_ErrorCode_update (\<lambda>_. x)) dec_string),
      (''permission'',
        dec_field plr_Permission (\<lambda>x. plr_Permission_update (\<lambda>_. x)) dec_string)]"

record PhotoThumbReqPayload =
  pt_Nonce :: string
  pt_ReqID :: string
  pt_PhotoID :: string
  pt_ThumbSize :: int

definition zero_PhotoThumbReqPayload :: PhotoThumbReqPayload where
  "zero_PhotoThumbReqPayload =
     \<lparr>pt_Nonce = [], pt_ReqID = [], pt_PhotoID = [], pt_ThumbSize = 0\<rparr>"

definition PhotoThumbReqPayload_fields :: "PhotoThumbReqPayload fields" where
  "PhotoThumbReqPayload_fields =
     [(''nonce'', dec_field pt_Nonce (\<lambda>x. pt_Nonce_update (\<lambda>_. x)) dec_string),
      (''req_id'', dec_field pt_ReqID (\<lambda>x. pt_ReqID_update (\<lambda>_. x)) dec_string),
      (''photo_id'', dec_field pt_PhotoID (\<lambda>x. pt_PhotoID_update (\<lambda>_. x)) dec_string),
      (''thumb_size'', dec_field pt_ThumbSize (\<lambda>x. pt_ThumbSize_update (\<lambda>_. x)) dec_int)]"

record PhotoThumbRespPayload =
  ptr_Nonce :: string
  ptr_ReqID :: string
  ptr_PhotoID :: string
  ptr_Mime :: string
  ptr_DataB64 :: string
  ptr_Error :: string
  ptr_ErrorCode :: string
  ptr_Permission :: string

definition zero_PhotoThumbRespPayload :: PhotoThumbRespPayload where
  "zero_PhotoThumbRespPayload =
     \<lparr>ptr_Nonce = [], ptr_ReqID = [], ptr_PhotoID = [], ptr_Mime = [],
      ptr_DataB64 = [], ptr_Error = [], ptr_ErrorCode = [], ptr_Permission = []\<rparr>"

definition PhotoThumbRespPayload_fields :: "PhotoThumbRespPayload fields" where
  "PhotoThumbRespPayload_fields =
     [(''nonce'', dec_field ptr_Nonce (\<lambda>x. ptr_Nonce_update (\<lambda>_. x)) dec_string),
      (''req_id'', dec_field ptr_ReqID (\<lambda>x. ptr_ReqID_update (\<lambda>_. x)) dec_string),
      (''photo_id'', dec_field ptr_PhotoID (\<lambda>x. ptr_PhotoID_update (\<lambda>_. x)) dec_string),
      (''mime'', dec_field ptr_Mime (\<lambda>x. ptr_Mime_update (\<lambda>_. x)) dec_string),
      (''data_b64'', dec_field ptr_DataB64 (\<lambda>x. ptr_DataB64_update (\<lambda>_. x)) dec_string),
      (''error'', dec_field ptr_Error (\<lambda>x. ptr_Error_update (\<lambda>_. x)) dec_string),
      (''error_code'',
        dec_field ptr_ErrorCode (\<lambda>x. ptr_ErrorCode_update (\<lambda>_. x)) dec_string),
      (''permission'',
        dec_field ptr_Permission (\<lambda>x. ptr_Permission_update (\<lambda>_. x)) dec_string)]"

record PhotoPullReqPayload =
  ppr_Nonce :: string
  ppr_TransferID :: string
  ppr_PhotoID :: string
  ppr_Offset :: int
  ppr_Length :: int

definition zero_PhotoPullReqPayload :: PhotoPullReqPayload where
  "zero_PhotoPullReqPayload =
     \<lparr>ppr_Nonce = [], ppr_TransferID = [], ppr_PhotoID = [], ppr_Offset = 0,
      ppr_Length = 0\<rparr>"

definition PhotoPullReqPayload_fields :: "PhotoPullReqPayload fields" where
  "PhotoPullReqPayload_fields =
     [(''nonce'', dec_field ppr_Nonce (\<lambda>x. ppr_Nonce_update (\<lambda>_. x)) dec_string),
      (''transfer_id'',
        dec_field ppr_TransferID (\<lambda>x. ppr_TransferID_update (\<lambda>_. x)) dec_string),
      (''photo_id'', dec_field ppr_PhotoID (\<lambda>x. ppr_PhotoID_update (\<lambda>_. x)) dec_string),
      (''offset'', dec_field ppr_Offset (\<lambda>x. ppr_Offset_update (\<lambda>_. x)) dec_int),
      (''length'', dec_field ppr_Length (\<lambda>x. ppr_Length_update (\<lambda>_. x)) dec_int)]"

record PhotoChunkPayload =
  pk_Nonce :: string
  pk_TransferID :: string
  pk_PhotoID :: string
  pk_Offset :: int
  pk_TotalSize :: int
  pk_ChunkIndex :: int
  pk_TotalChunks :: int
  pk_DataB64 :: string
  pk_Sha256 :: string
  pk_Mime :: string

definition zero_PhotoChunkPayload :: PhotoChunkPayload where
  "zero_PhotoChunkPayload =
     \<lparr>pk_Nonce = [], pk_TransferID = [], pk_PhotoID = [], pk_Offset = 0,
      pk_TotalSize = 0, pk_ChunkIndex = 0, pk_TotalChunks = 0, pk_DataB64 = [],
      pk_Sha256 = [], pk_Mime = []\<rparr>"

definition PhotoChunkPayload_fields :: "PhotoChunkPayload fields" where
  "PhotoChunkPayload_fields =
     [(''nonce'', dec_field pk_Nonce (\<lambda>x. pk_Nonce_update (\<lambda>_. x)) dec_string),
      (''transfer_id'',
        dec_field pk_TransferID (\<lambda>x. pk_TransferID_update (\<lambda>_. x)) dec_string),
      (''photo_id'', dec_field pk_PhotoID (\<lambda>x. pk_PhotoID_update (\<lambda>_. x)) dec_string),
      (''offset'', dec_field pk_Offset (\<lambda>x. pk_Offset_update (\<lambda>_. x)) dec_int),
      (''total_size'', dec_field pk_TotalSize (\<lambda>x. pk_TotalSize_update (\<lambda>_. x)) dec_int),
      (''chunk_index'',
        dec_field pk_ChunkIndex (\<lambda>x. pk_ChunkIndex_update (\<lambda>_. x)) dec_int),
      (''total_chunks'',
        dec_field pk_TotalChunks (\<lambda>x. pk_TotalChunks_update (\<lambda>_. x)) dec_int),
      (''data_b64'', dec_field pk_DataB64 (\<lambda>x. pk_DataB64_update (\<lambda>_. x)) dec_string),
      (''sha256'', dec_field pk_Sha256 (\<lambda>x. pk_Sha256_update (\<lambda>_. x)) dec_string),
      (''mime'', dec_field pk_Mime (\<lambda>x. pk_Mime_update (\<lambda>_. x)) dec_string)]"

record PhotoDeletePayload =
  pd_Nonce :: string
  pd_ReqID :: string
  pd_PhotoIDs :: "string list"

definition zero_PhotoDeletePayload :: PhotoDeletePayload where
  "zero_PhotoDeletePayload =
     \<lparr>pd_Nonce = [], pd_ReqID = [], pd_PhotoIDs = []\<rparr>"

definition PhotoDeletePayload_fields :: "PhotoDeletePayload fields" where
  "PhotoDeletePayload_fields =
     [(''nonce'', dec_field pd_Nonce (\<lambda>x. pd_Nonce_update (\<lambda>_. x)) dec_string),
      (''req_id'', dec_field pd_ReqID (\<lambda>x. pd_ReqID_update (\<lambda>_. x)) dec_string),
      (''photo_ids'',
        dec_field pd_PhotoIDs (\<lambda>x. pd_PhotoIDs_update (\<lambda>_. x)) (dec_slice dec_string []))]"

record PhotoDeleteResult =
  pdr_PhotoID :: string
  pdr_Ok :: bool
  pdr_Error :: string
  pdr_ErrorCode :: string

definition zero_PhotoDeleteResult :: PhotoDeleteResult where
  "zero_PhotoDeleteResult =
     \<lparr>pdr_PhotoID = [], pdr_Ok = False, pdr_Error = [], pdr_ErrorCode = []\<rparr>"

definition PhotoDeleteResult_fields :: "PhotoDeleteResult fields" where
  "PhotoDeleteResult_fields =
     [(''photo_id'', dec_field pdr_PhotoID (\<lambda>x. pdr_PhotoID_update (\<lambda>_. x)) dec_string),
      (''ok'', dec_field pdr_Ok (\<lambda>x. pdr_Ok_update (\<lambda>_. x)) dec_bool),
      (''error'', dec_field pdr_Error (\<lambda>x. pdr_Error_update (\<lambda>_. x)) dec_string),
      (''error_code'',
        dec_field pdr_ErrorCode (\<lambda>x. pdr_ErrorCode_update (\<lambda>_. x)) dec_string)]"

record PhotoDeleteRespPayload =
  pds_Nonce :: string
  pds_ReqID :: string
  pds_Results :: "PhotoDeleteResult list"
  pds_Error :: string
  pds_ErrorCode :: string
  pds_Permission :: string

definition zero_PhotoDeleteRespPayload :: PhotoDeleteRespPayload where
  "zero_PhotoDeleteRespPayload =
     \<lparr>pds_Nonce = [], pds_ReqID = [], pds_Results = [], pds_Error = [],
      pds_ErrorCode = [], pds_Permission = []\<rparr>"

definition PhotoDeleteRespPayload_fields :: "PhotoDeleteRespPayload fields" where
  "PhotoDeleteRespPayload_fields =
     [(''nonce'', dec_field pds_Nonce (\<lambda>x. pds_Nonce_update (\<lambda>_. x)) dec_string),
      (''req_id'', dec_field pds_ReqID (\<lambda>x. pds_ReqID_update (\<lambda>_. x)) dec_string),
      (''results'',
        dec_field pds_Results (\<lambda>x. pds_Results_update (\<lambda>_. x)) (dec_slice (dec_struct PhotoDeleteResult_fields) zero_PhotoDeleteResult)),
      (''error'', dec_field pds_Error (\<lambda>x. pds_Error_update (\<lambda>_. x)) dec_string),
      (''error_code'',
        dec_field pds_ErrorCode (\<lambda>x. pds_ErrorCode_update (\<lambda>_. x)) dec_string),
      (''permission'',
        dec_field pds_Permission (\<lambda>x. pds_Permission_update (\<lambda>_. x)) dec_string)]"

end
