(* ===== verification/Photos.thy ===== *)
theory Photos
  imports Photos_Wire Files
begin

text \<open>
  Photo browsing and transfer (\<open>packages/core/photos.go\<close>): photo ids and their kinds, and the
  validators of the eight photo payloads.
\<close>

section \<open>Constants\<close>

definition MaxPhotoIDLen :: nat where [go_consts]: "MaxPhotoIDLen = 128"
definition MaxPhotosPerList :: nat where [go_consts]: "MaxPhotosPerList = 200"
definition MaxPhotoThumbB64Len :: nat where [go_consts]: "MaxPhotoThumbB64Len = 2000000"
definition MaxPhotoDeleteBatch :: nat where [go_consts]: "MaxPhotoDeleteBatch = 200"
definition MaxPhotoChunkB64Len :: nat where [go_consts]: "MaxPhotoChunkB64Len = 1850000"
definition MinPhotoThumbSize :: int where [go_consts]: "MinPhotoThumbSize = 64"
definition MaxPhotoThumbSize :: int where [go_consts]: "MaxPhotoThumbSize = 1024"
definition MaxVideoDurationMs :: int where [go_consts]: "MaxVideoDurationMs = 24 * 3600 * 1000"
definition MaxPhotoRangeLen :: int where [go_consts]: "MaxPhotoRangeLen = 33554432"
definition MediaTypePhoto :: string where [go_consts]: "MediaTypePhoto = ''photo''"
definition MediaTypeVideo :: string where [go_consts]: "MediaTypeVideo = ''video''"

section \<open>Photo ids\<close>

definition PhotoEntry_IsVideo :: "PhotoEntry \<Rightarrow> bool" where
  "PhotoEntry_IsVideo e \<longleftrightarrow> pe_MediaType e = MediaTypeVideo"

definition SanitizePhotoID :: "string \<Rightarrow> string option" where
  "SanitizePhotoID s =
     (let trimmed = trim_space s
      in if trimmed = [] \<or> MaxPhotoIDLen < length trimmed then None
         else if slash \<in> set trimmed \<or> CHR 0x5C \<in> set trimmed \<or> nul \<in> set trimmed then None
         else if list_ex bad_rune (runes trimmed) then None
         else if trimmed = ''.'' \<or> trimmed = ''..'' then None
         else Some trimmed)"

text \<open>The two namespaced branches of \<open>ParsePhotoID\<close> are the same code with another kind.\<close>

definition photo_row :: "string \<Rightarrow> string \<Rightarrow> (string \<times> string) option" where
  "photo_row kind rest =
     (if rest = [] \<or> MaxPhotoIDLen < length rest \<or>
         list_ex (\<lambda>c. c \<in> {slash, CHR 0x5C, nul, CHR '':''}) rest then None
      else if SanitizePhotoID rest = None then None
      else Some (kind, rest))"

definition ParsePhotoID :: "string \<Rightarrow> (string \<times> string) option" where
  "ParsePhotoID s =
     (let trimmed = trim_space s
      in if trimmed = [] \<or> MaxPhotoIDLen < length trimmed then None
         else if prefix ''img:'' trimmed then photo_row MediaTypePhoto (drop 4 trimmed)
         else if prefix ''vid:'' trimmed then photo_row MediaTypeVideo (drop 4 trimmed)
         else if SanitizePhotoID trimmed = None then None
         else Some (MediaTypePhoto, trimmed))"

definition SanitizeMediaType :: "string \<Rightarrow> bool" where
  "SanitizeMediaType s \<longleftrightarrow> s = [] \<or> s = MediaTypePhoto \<or> s = MediaTypeVideo"

section \<open>Payload validators\<close>

definition SanitizePhotoList :: "PhotoListPayload \<Rightarrow> bool" where
  "SanitizePhotoList p =
     (if pl_Nonce p = [] \<or> trim_space (pl_ReqID p) = [] then False
      else if 64 < length (pl_ReqID p) then False
      else if 256 < length (pl_Cursor p) then False
      else if pl_Limit p \<noteq> 0 \<and> (pl_Limit p < 1 \<or> int MaxPhotosPerList < pl_Limit p) then False
      else True)"

definition photo_entry_ok :: "PhotoEntry \<Rightarrow> bool" where
  "photo_entry_ok e =
     (if SanitizePhotoID (pe_PhotoID e) = None then False
      else if pe_TakenAt e < 0 then False
      else if pe_Size e < 0 \<or> MaxFileTotalSize < pe_Size e then False
      else if pe_Width e < 0 \<or> pe_Height e < 0 then False
      else if pe_Mime e \<noteq> [] \<and> 64 < length (pe_Mime e) then False
      else if \<not> SanitizeMediaType (pe_MediaType e) then False
      else if pe_DurationMs e < 0 \<or> MaxVideoDurationMs < pe_DurationMs e then False
      else True)"

definition SanitizePhotoListResp :: "PhotoListRespPayload \<Rightarrow> bool" where
  "SanitizePhotoListResp p =
     (if plr_Nonce p = [] \<or> trim_space (plr_ReqID p) = [] then False
      else if 64 < length (plr_ReqID p) then False
      else if MaxPhotosPerList < length (plr_Entries p) then False
      else if \<not> list_all photo_entry_ok (plr_Entries p) then False
      else if 256 < length (plr_NextCursor p) then False
      else if 512 < length (plr_Error p) then False
      else if \<not> SanitizeErrorCode (plr_ErrorCode p) then False
      else if \<not> SanitizePermission (plr_Permission p) then False
      else True)"

definition SanitizePhotoThumbReq :: "PhotoThumbReqPayload \<Rightarrow> bool" where
  "SanitizePhotoThumbReq p =
     (if pt_Nonce p = [] \<or> trim_space (pt_ReqID p) = [] then False
      else if 64 < length (pt_ReqID p) then False
      else if SanitizePhotoID (pt_PhotoID p) = None then False
      else if pt_ThumbSize p \<noteq> 0 \<and>
              (pt_ThumbSize p < MinPhotoThumbSize \<or> MaxPhotoThumbSize < pt_ThumbSize p) then False
      else True)"

definition SanitizePhotoThumbResp :: "PhotoThumbRespPayload \<Rightarrow> bool" where
  "SanitizePhotoThumbResp p =
     (if ptr_Nonce p = [] \<or> trim_space (ptr_ReqID p) = [] then False
      else if 64 < length (ptr_ReqID p) then False
      else if SanitizePhotoID (ptr_PhotoID p) = None then False
      else if MaxPhotoThumbB64Len < length (ptr_DataB64 p) then False
      else if ptr_DataB64 p \<noteq> [] \<and> b64_std_decode (trim_space (ptr_DataB64 p)) = None then False
      else if ptr_Mime p \<noteq> [] \<and> 64 < length (ptr_Mime p) then False
      else if 512 < length (ptr_Error p) then False
      else if \<not> SanitizeErrorCode (ptr_ErrorCode p) then False
      else if \<not> SanitizePermission (ptr_Permission p) then False
      else True)"

definition SanitizePhotoPullReq :: "PhotoPullReqPayload \<Rightarrow> bool" where
  "SanitizePhotoPullReq p =
     (if ppr_Nonce p = [] then False
      else if SanitizePhotoID (ppr_PhotoID p) = None then False
      else if ppr_TransferID p \<noteq> [] \<and> SanitizeTransferID (ppr_TransferID p) = None then False
      else if ppr_Offset p < 0 \<or> MaxFileTotalSize < ppr_Offset p then False
      else if ppr_Length p < 0 \<or> MaxFileTotalSize < ppr_Length p then False
      else if 0 < ppr_Length p \<and>
              (MaxPhotoRangeLen < ppr_Length p \<or> MaxFileTotalSize - ppr_Length p < ppr_Offset p)
      then False
      else True)"

definition SanitizePhotoChunk :: "PhotoChunkPayload \<Rightarrow> bool" where
  "SanitizePhotoChunk p =
     (if pk_Nonce p = [] then False
      else if SanitizeTransferID (pk_TransferID p) = None then False
      else if SanitizePhotoID (pk_PhotoID p) = None then False
      else if pk_TotalSize p < 0 \<or> MaxFileTotalSize < pk_TotalSize p then False
      else if pk_Offset p < 0 \<or> pk_TotalSize p < pk_Offset p then False
      else if pk_ChunkIndex p < 0 \<or> pk_TotalChunks p < 1 then False
      else if pk_TotalChunks p \<le> pk_ChunkIndex p then False
      else if pk_TotalChunks p \<noteq>
              (if pk_TotalSize p = 0 then 1
               else go_div (wrap64 (pk_TotalSize p + MaxFileChunkRaw - 1)) MaxFileChunkRaw) then False
      else if pk_Offset p \<noteq> wrap64 (pk_ChunkIndex p * MaxFileChunkRaw) then False
      else if pk_ChunkIndex p < pk_TotalChunks p - 1 \<and> pk_DataB64 p = [] then False
      else if MaxPhotoChunkB64Len < length (pk_DataB64 p) then False
      else if \<not> (if pk_DataB64 p \<noteq> [] then
                  (case b64_std_decode (trim_space (pk_DataB64 p)) of
                     None \<Rightarrow> False
                   | Some raw \<Rightarrow>
                       int (length raw) \<le> MaxFileChunkRaw \<and>
                       int (length raw) =
                         (if pk_ChunkIndex p < pk_TotalChunks p - 1 then MaxFileChunkRaw
                          else pk_TotalSize p - pk_Offset p))
                else pk_TotalSize p = 0 \<and> pk_TotalChunks p = 1 \<and> pk_Offset p = 0) then False
      else if pk_Sha256 p \<noteq> [] \<and>
              (length (pk_Sha256 p) \<noteq> 64 \<or> hex_decode (pk_Sha256 p) = None \<or>
               pk_ChunkIndex p \<noteq> pk_TotalChunks p - 1) then False
      else if pk_Mime p \<noteq> [] \<and> 64 < length (pk_Mime p) then False
      else True)"

fun photo_ids_ok :: "string list \<Rightarrow> string set \<Rightarrow> bool" where
  "photo_ids_ok [] seen = True"
| "photo_ids_ok (i # ids) seen =
     (if SanitizePhotoID i = None then False
      else if i \<in> seen then False
      else photo_ids_ok ids (insert i seen))"

definition SanitizePhotoDelete :: "PhotoDeletePayload \<Rightarrow> bool" where
  "SanitizePhotoDelete p =
     (if pd_Nonce p = [] \<or> trim_space (pd_ReqID p) = [] then False
      else if 64 < length (pd_ReqID p) then False
      else if pd_PhotoIDs p = [] \<or> MaxPhotoDeleteBatch < length (pd_PhotoIDs p) then False
      else photo_ids_ok (pd_PhotoIDs p) {})"

definition delete_result_ok :: "PhotoDeleteResult \<Rightarrow> bool" where
  "delete_result_ok r =
     (if SanitizePhotoID (pdr_PhotoID r) = None then False
      else if 512 < length (pdr_Error r) then False
      else if \<not> SanitizeErrorCode (pdr_ErrorCode r) then False
      else True)"

definition SanitizePhotoDeleteResp :: "PhotoDeleteRespPayload \<Rightarrow> bool" where
  "SanitizePhotoDeleteResp p =
     (if pds_Nonce p = [] \<or> trim_space (pds_ReqID p) = [] then False
      else if 64 < length (pds_ReqID p) then False
      else if MaxPhotoDeleteBatch < length (pds_Results p) then False
      else if \<not> list_all delete_result_ok (pds_Results p) then False
      else if 512 < length (pds_Error p) then False
      else if \<not> SanitizeErrorCode (pds_ErrorCode p) then False
      else if \<not> SanitizePermission (pds_Permission p) then False
      else True)"

section \<open>What the validators guarantee\<close>

lemma SanitizePhotoChunk_last:
  assumes "SanitizePhotoChunk p"
  shows "pk_ChunkIndex p = pk_TotalChunks p - 1 \<and>
         4 * (pk_TotalSize p - pk_Offset p) \<le> 3 * int MaxPhotoChunkB64Len"
proof (cases "pk_DataB64 p = []")
  case True
  then show ?thesis using assms by (simp add: SanitizePhotoChunk_def split: if_splits)
next
  case False
  then obtain raw where r: "b64_std_decode (trim_space (pk_DataB64 p)) = Some raw"
    and len: "int (length raw) = (if pk_ChunkIndex p < pk_TotalChunks p - 1 then MaxFileChunkRaw
                                  else pk_TotalSize p - pk_Offset p)"
    and cap: "length (pk_DataB64 p) \<le> MaxPhotoChunkB64Len"
    and idx: "pk_ChunkIndex p < pk_TotalChunks p"
    using assms by (auto simp: SanitizePhotoChunk_def split: if_splits option.splits)
  have "4 * length raw \<le> 3 * length (trim_space (pk_DataB64 p))"
    using r b64_dec_length by (simp add: b64_std_decode_def)
  also have "\<dots> \<le> 3 * MaxPhotoChunkB64Len"
    using cap length_trim_space_le[of "pk_DataB64 p"] by linarith
  finally have "4 * length raw \<le> 3 * MaxPhotoChunkB64Len" .
  then have b: "4 * int (length raw) \<le> 3 * int MaxPhotoChunkB64Len" by linarith
  then have "\<not> pk_ChunkIndex p < pk_TotalChunks p - 1" using len by (auto simp: go_consts)
  then show ?thesis using b len idx by auto
qed

text \<open>
  Only the last chunk of a photo can cross: a chunk with any other index is refused, since
  it would have to carry 4194304 bytes and its base64 text is capped at 1850000 characters.
  What is left at the offset of an accepted chunk is at most 1387500 bytes, so a photo of
  more than that (and at most one full chunk) is never transferred in one piece.
\<close>

theorem photo_chunks_are_last:
  assumes "SanitizePhotoChunk p"
  shows "pk_ChunkIndex p = pk_TotalChunks p - 1 \<and> pk_TotalSize p - pk_Offset p \<le> 1387500"
  using SanitizePhotoChunk_last[OF assms] by (simp add: go_consts)

definition small_photo_chunk :: PhotoChunkPayload where
  "small_photo_chunk =
     zero_PhotoChunkPayload\<lparr>pk_Nonce := ''n'', pk_TransferID := ''00112233aabbccdd'',
       pk_PhotoID := ''img:7'', pk_TotalSize := 3, pk_TotalChunks := 1, pk_DataB64 := ''AQID''\<rparr>"

theorem photo_chunks_are_last_witness:
  "SanitizePhotoChunk small_photo_chunk \<and> pk_TotalSize small_photo_chunk \<le> 1387500"
proof -
  have "b64_std_decode ''AQID'' = Some [CHR 0x01, CHR 0x02, CHR 0x03]" by code_simp
  moreover have "SanitizeTransferID ''00112233aabbccdd'' \<noteq> None"
    by (simp add: SanitizeTransferID_def go_eval go_consts hex_val_def Let_def)
  moreover have "SanitizePhotoID ''img:7'' = Some ''img:7''"
    by (simp add: SanitizePhotoID_def bad_rune_def go_eval go_consts ascii_def)
  ultimately have "SanitizePhotoChunk small_photo_chunk"
    by (simp add: SanitizePhotoChunk_def small_photo_chunk_def zero_PhotoChunkPayload_def go_eval go_consts
        wrap64_def go_div_def)
  with photo_chunks_are_last[of small_photo_chunk] show ?thesis
    by (simp add: small_photo_chunk_def zero_PhotoChunkPayload_def)
qed

end
