(* ===== verification/Messages_Wire.thy ===== *)
theory Messages_Wire
  imports Go_Json_Decode
begin

text \<open>
  The payload structs of \<open>packages/core/messages.go\<close>: for each, its record, its zero value and how
  \<open>json.Unmarshal\<close> fills its fields.
\<close>

record SMSThread =
  st_ThreadID :: int
  st_Address :: string
  st_ContactName :: string
  st_ContactID :: string
  st_PhotoVersion :: string
  st_Snippet :: string
  st_Date :: int
  st_MessageCount :: int
  st_UnreadCount :: int
  st_Read :: bool

definition zero_SMSThread :: SMSThread where
  "zero_SMSThread =
     \<lparr>st_ThreadID = 0, st_Address = [], st_ContactName = [], st_ContactID = [],
      st_PhotoVersion = [], st_Snippet = [], st_Date = 0, st_MessageCount = 0,
      st_UnreadCount = 0, st_Read = False\<rparr>"

definition SMSThread_fields :: "SMSThread fields" where
  "SMSThread_fields =
     [(''thread_id'', dec_field st_ThreadID (\<lambda>x. st_ThreadID_update (\<lambda>_. x)) dec_int),
      (''address'', dec_field st_Address (\<lambda>x. st_Address_update (\<lambda>_. x)) dec_string),
      (''contact_name'',
        dec_field st_ContactName (\<lambda>x. st_ContactName_update (\<lambda>_. x)) dec_string),
      (''contact_id'',
        dec_field st_ContactID (\<lambda>x. st_ContactID_update (\<lambda>_. x)) dec_string),
      (''photo_version'',
        dec_field st_PhotoVersion (\<lambda>x. st_PhotoVersion_update (\<lambda>_. x)) dec_string),
      (''snippet'', dec_field st_Snippet (\<lambda>x. st_Snippet_update (\<lambda>_. x)) dec_string),
      (''date'', dec_field st_Date (\<lambda>x. st_Date_update (\<lambda>_. x)) dec_int),
      (''message_count'',
        dec_field st_MessageCount (\<lambda>x. st_MessageCount_update (\<lambda>_. x)) dec_int),
      (''unread_count'',
        dec_field st_UnreadCount (\<lambda>x. st_UnreadCount_update (\<lambda>_. x)) dec_int),
      (''read'', dec_field st_Read (\<lambda>x. st_Read_update (\<lambda>_. x)) dec_bool)]"

record SMSMessage =
  sm_ID :: int
  sm_ThreadID :: int
  sm_Address :: string
  sm_Body :: string
  sm_Date :: int
  sm_Type :: int
  sm_Read :: bool
  sm_Status :: int
  sm_ContactName :: string
  sm_ContactID :: string
  sm_PhotoVersion :: string

definition zero_SMSMessage :: SMSMessage where
  "zero_SMSMessage =
     \<lparr>sm_ID = 0, sm_ThreadID = 0, sm_Address = [], sm_Body = [], sm_Date = 0,
      sm_Type = 0, sm_Read = False, sm_Status = 0, sm_ContactName = [],
      sm_ContactID = [], sm_PhotoVersion = []\<rparr>"

definition SMSMessage_fields :: "SMSMessage fields" where
  "SMSMessage_fields =
     [(''id'', dec_field sm_ID (\<lambda>x. sm_ID_update (\<lambda>_. x)) dec_int),
      (''thread_id'', dec_field sm_ThreadID (\<lambda>x. sm_ThreadID_update (\<lambda>_. x)) dec_int),
      (''address'', dec_field sm_Address (\<lambda>x. sm_Address_update (\<lambda>_. x)) dec_string),
      (''body'', dec_field sm_Body (\<lambda>x. sm_Body_update (\<lambda>_. x)) dec_string),
      (''date'', dec_field sm_Date (\<lambda>x. sm_Date_update (\<lambda>_. x)) dec_int),
      (''type'', dec_field sm_Type (\<lambda>x. sm_Type_update (\<lambda>_. x)) dec_int),
      (''read'', dec_field sm_Read (\<lambda>x. sm_Read_update (\<lambda>_. x)) dec_bool),
      (''status'', dec_field sm_Status (\<lambda>x. sm_Status_update (\<lambda>_. x)) dec_int),
      (''contact_name'',
        dec_field sm_ContactName (\<lambda>x. sm_ContactName_update (\<lambda>_. x)) dec_string),
      (''contact_id'',
        dec_field sm_ContactID (\<lambda>x. sm_ContactID_update (\<lambda>_. x)) dec_string),
      (''photo_version'',
        dec_field sm_PhotoVersion (\<lambda>x. sm_PhotoVersion_update (\<lambda>_. x)) dec_string)]"

record SMSThreadsReqPayload =
  stq_Nonce :: string
  stq_ReqID :: string
  stq_Cursor :: string
  stq_Limit :: int
  stq_CursorGen :: int

definition zero_SMSThreadsReqPayload :: SMSThreadsReqPayload where
  "zero_SMSThreadsReqPayload =
     \<lparr>stq_Nonce = [], stq_ReqID = [], stq_Cursor = [], stq_Limit = 0,
      stq_CursorGen = 0\<rparr>"

definition SMSThreadsReqPayload_fields :: "SMSThreadsReqPayload fields" where
  "SMSThreadsReqPayload_fields =
     [(''nonce'', dec_field stq_Nonce (\<lambda>x. stq_Nonce_update (\<lambda>_. x)) dec_string),
      (''req_id'', dec_field stq_ReqID (\<lambda>x. stq_ReqID_update (\<lambda>_. x)) dec_string),
      (''cursor'', dec_field stq_Cursor (\<lambda>x. stq_Cursor_update (\<lambda>_. x)) dec_string),
      (''limit'', dec_field stq_Limit (\<lambda>x. stq_Limit_update (\<lambda>_. x)) dec_int),
      (''cursor_gen'', dec_field stq_CursorGen (\<lambda>x. stq_CursorGen_update (\<lambda>_. x)) dec_int)]"

record SMSThreadsRespPayload =
  sts_Nonce :: string
  sts_ReqID :: string
  sts_Threads :: "SMSThread list"
  sts_NextCursor :: string
  sts_Error :: string
  sts_ErrorCode :: string
  sts_Permission :: string

definition zero_SMSThreadsRespPayload :: SMSThreadsRespPayload where
  "zero_SMSThreadsRespPayload =
     \<lparr>sts_Nonce = [], sts_ReqID = [], sts_Threads = [], sts_NextCursor = [],
      sts_Error = [], sts_ErrorCode = [], sts_Permission = []\<rparr>"

definition SMSThreadsRespPayload_fields :: "SMSThreadsRespPayload fields" where
  "SMSThreadsRespPayload_fields =
     [(''nonce'', dec_field sts_Nonce (\<lambda>x. sts_Nonce_update (\<lambda>_. x)) dec_string),
      (''req_id'', dec_field sts_ReqID (\<lambda>x. sts_ReqID_update (\<lambda>_. x)) dec_string),
      (''threads'',
        dec_field sts_Threads (\<lambda>x. sts_Threads_update (\<lambda>_. x)) (dec_slice (dec_struct SMSThread_fields) zero_SMSThread)),
      (''next_cursor'',
        dec_field sts_NextCursor (\<lambda>x. sts_NextCursor_update (\<lambda>_. x)) dec_string),
      (''error'', dec_field sts_Error (\<lambda>x. sts_Error_update (\<lambda>_. x)) dec_string),
      (''error_code'',
        dec_field sts_ErrorCode (\<lambda>x. sts_ErrorCode_update (\<lambda>_. x)) dec_string),
      (''permission'',
        dec_field sts_Permission (\<lambda>x. sts_Permission_update (\<lambda>_. x)) dec_string)]"

record SMSMessagesReqPayload =
  smq_Nonce :: string
  smq_ReqID :: string
  smq_ThreadID :: int
  smq_Cursor :: string
  smq_Limit :: int
  smq_CursorGen :: int

definition zero_SMSMessagesReqPayload :: SMSMessagesReqPayload where
  "zero_SMSMessagesReqPayload =
     \<lparr>smq_Nonce = [], smq_ReqID = [], smq_ThreadID = 0, smq_Cursor = [],
      smq_Limit = 0, smq_CursorGen = 0\<rparr>"

definition SMSMessagesReqPayload_fields :: "SMSMessagesReqPayload fields" where
  "SMSMessagesReqPayload_fields =
     [(''nonce'', dec_field smq_Nonce (\<lambda>x. smq_Nonce_update (\<lambda>_. x)) dec_string),
      (''req_id'', dec_field smq_ReqID (\<lambda>x. smq_ReqID_update (\<lambda>_. x)) dec_string),
      (''thread_id'', dec_field smq_ThreadID (\<lambda>x. smq_ThreadID_update (\<lambda>_. x)) dec_int),
      (''cursor'', dec_field smq_Cursor (\<lambda>x. smq_Cursor_update (\<lambda>_. x)) dec_string),
      (''limit'', dec_field smq_Limit (\<lambda>x. smq_Limit_update (\<lambda>_. x)) dec_int),
      (''cursor_gen'', dec_field smq_CursorGen (\<lambda>x. smq_CursorGen_update (\<lambda>_. x)) dec_int)]"

record SMSMessagesRespPayload =
  sms_Nonce :: string
  sms_ReqID :: string
  sms_ThreadID :: int
  sms_Messages :: "SMSMessage list"
  sms_NextCursor :: string
  sms_Error :: string
  sms_ErrorCode :: string
  sms_Permission :: string

definition zero_SMSMessagesRespPayload :: SMSMessagesRespPayload where
  "zero_SMSMessagesRespPayload =
     \<lparr>sms_Nonce = [], sms_ReqID = [], sms_ThreadID = 0, sms_Messages = [],
      sms_NextCursor = [], sms_Error = [], sms_ErrorCode = [], sms_Permission = []\<rparr>"

definition SMSMessagesRespPayload_fields :: "SMSMessagesRespPayload fields" where
  "SMSMessagesRespPayload_fields =
     [(''nonce'', dec_field sms_Nonce (\<lambda>x. sms_Nonce_update (\<lambda>_. x)) dec_string),
      (''req_id'', dec_field sms_ReqID (\<lambda>x. sms_ReqID_update (\<lambda>_. x)) dec_string),
      (''thread_id'', dec_field sms_ThreadID (\<lambda>x. sms_ThreadID_update (\<lambda>_. x)) dec_int),
      (''messages'',
        dec_field sms_Messages (\<lambda>x. sms_Messages_update (\<lambda>_. x)) (dec_slice (dec_struct SMSMessage_fields) zero_SMSMessage)),
      (''next_cursor'',
        dec_field sms_NextCursor (\<lambda>x. sms_NextCursor_update (\<lambda>_. x)) dec_string),
      (''error'', dec_field sms_Error (\<lambda>x. sms_Error_update (\<lambda>_. x)) dec_string),
      (''error_code'',
        dec_field sms_ErrorCode (\<lambda>x. sms_ErrorCode_update (\<lambda>_. x)) dec_string),
      (''permission'',
        dec_field sms_Permission (\<lambda>x. sms_Permission_update (\<lambda>_. x)) dec_string)]"

record SMSSendReqPayload =
  ssq_Nonce :: string
  ssq_ReqID :: string
  ssq_Recipient :: string
  ssq_Body :: string
  ssq_ClientID :: string
  ssq_SubID :: string

definition zero_SMSSendReqPayload :: SMSSendReqPayload where
  "zero_SMSSendReqPayload =
     \<lparr>ssq_Nonce = [], ssq_ReqID = [], ssq_Recipient = [], ssq_Body = [],
      ssq_ClientID = [], ssq_SubID = []\<rparr>"

definition SMSSendReqPayload_fields :: "SMSSendReqPayload fields" where
  "SMSSendReqPayload_fields =
     [(''nonce'', dec_field ssq_Nonce (\<lambda>x. ssq_Nonce_update (\<lambda>_. x)) dec_string),
      (''req_id'', dec_field ssq_ReqID (\<lambda>x. ssq_ReqID_update (\<lambda>_. x)) dec_string),
      (''recipient'',
        dec_field ssq_Recipient (\<lambda>x. ssq_Recipient_update (\<lambda>_. x)) dec_string),
      (''body'', dec_field ssq_Body (\<lambda>x. ssq_Body_update (\<lambda>_. x)) dec_string),
      (''client_id'', dec_field ssq_ClientID (\<lambda>x. ssq_ClientID_update (\<lambda>_. x)) dec_string),
      (''sub_id'', dec_field ssq_SubID (\<lambda>x. ssq_SubID_update (\<lambda>_. x)) dec_string)]"

record SMSSendRespPayload =
  sss_Nonce :: string
  sss_ReqID :: string
  sss_ClientID :: string
  sss_OK :: bool
  sss_MessageID :: int
  sss_ThreadID :: int
  sss_SubID :: string
  sss_Error :: string
  sss_ErrorCode :: string
  sss_Permission :: string

definition zero_SMSSendRespPayload :: SMSSendRespPayload where
  "zero_SMSSendRespPayload =
     \<lparr>sss_Nonce = [], sss_ReqID = [], sss_ClientID = [], sss_OK = False,
      sss_MessageID = 0, sss_ThreadID = 0, sss_SubID = [], sss_Error = [],
      sss_ErrorCode = [], sss_Permission = []\<rparr>"

definition SMSSendRespPayload_fields :: "SMSSendRespPayload fields" where
  "SMSSendRespPayload_fields =
     [(''nonce'', dec_field sss_Nonce (\<lambda>x. sss_Nonce_update (\<lambda>_. x)) dec_string),
      (''req_id'', dec_field sss_ReqID (\<lambda>x. sss_ReqID_update (\<lambda>_. x)) dec_string),
      (''client_id'', dec_field sss_ClientID (\<lambda>x. sss_ClientID_update (\<lambda>_. x)) dec_string),
      (''ok'', dec_field sss_OK (\<lambda>x. sss_OK_update (\<lambda>_. x)) dec_bool),
      (''message_id'', dec_field sss_MessageID (\<lambda>x. sss_MessageID_update (\<lambda>_. x)) dec_int),
      (''thread_id'', dec_field sss_ThreadID (\<lambda>x. sss_ThreadID_update (\<lambda>_. x)) dec_int),
      (''sub_id'', dec_field sss_SubID (\<lambda>x. sss_SubID_update (\<lambda>_. x)) dec_string),
      (''error'', dec_field sss_Error (\<lambda>x. sss_Error_update (\<lambda>_. x)) dec_string),
      (''error_code'',
        dec_field sss_ErrorCode (\<lambda>x. sss_ErrorCode_update (\<lambda>_. x)) dec_string),
      (''permission'',
        dec_field sss_Permission (\<lambda>x. sss_Permission_update (\<lambda>_. x)) dec_string)]"

record SMSPushPayload =
  sp_Nonce :: string
  sp_Message :: SMSMessage
  sp_ContactName :: string
  sp_ContactID :: string
  sp_PhotoVersion :: string
  sp_ClientID :: string
  sp_Seq :: int

definition zero_SMSPushPayload :: SMSPushPayload where
  "zero_SMSPushPayload =
     \<lparr>sp_Nonce = [], sp_Message = zero_SMSMessage, sp_ContactName = [],
      sp_ContactID = [], sp_PhotoVersion = [], sp_ClientID = [], sp_Seq = 0\<rparr>"

definition SMSPushPayload_fields :: "SMSPushPayload fields" where
  "SMSPushPayload_fields =
     [(''nonce'', dec_field sp_Nonce (\<lambda>x. sp_Nonce_update (\<lambda>_. x)) dec_string),
      (''message'',
        dec_field sp_Message (\<lambda>x. sp_Message_update (\<lambda>_. x)) (dec_struct SMSMessage_fields)),
      (''contact_name'',
        dec_field sp_ContactName (\<lambda>x. sp_ContactName_update (\<lambda>_. x)) dec_string),
      (''contact_id'',
        dec_field sp_ContactID (\<lambda>x. sp_ContactID_update (\<lambda>_. x)) dec_string),
      (''photo_version'',
        dec_field sp_PhotoVersion (\<lambda>x. sp_PhotoVersion_update (\<lambda>_. x)) dec_string),
      (''client_id'', dec_field sp_ClientID (\<lambda>x. sp_ClientID_update (\<lambda>_. x)) dec_string),
      (''seq'', dec_field sp_Seq (\<lambda>x. sp_Seq_update (\<lambda>_. x)) dec_int)]"

record SMSChangedPayload =
  sc_Nonce :: string
  sc_ChangedAt :: int
  sc_CursorGen :: int

definition zero_SMSChangedPayload :: SMSChangedPayload where
  "zero_SMSChangedPayload =
     \<lparr>sc_Nonce = [], sc_ChangedAt = 0, sc_CursorGen = 0\<rparr>"

definition SMSChangedPayload_fields :: "SMSChangedPayload fields" where
  "SMSChangedPayload_fields =
     [(''nonce'', dec_field sc_Nonce (\<lambda>x. sc_Nonce_update (\<lambda>_. x)) dec_string),
      (''changed_at'', dec_field sc_ChangedAt (\<lambda>x. sc_ChangedAt_update (\<lambda>_. x)) dec_int),
      (''cursor_gen'', dec_field sc_CursorGen (\<lambda>x. sc_CursorGen_update (\<lambda>_. x)) dec_int)]"

record SMSMarkReadReqPayload =
  srq_Nonce :: string
  srq_ReqID :: string
  srq_ThreadID :: int
  srq_MessageID :: int
  srq_Address :: string

definition zero_SMSMarkReadReqPayload :: SMSMarkReadReqPayload where
  "zero_SMSMarkReadReqPayload =
     \<lparr>srq_Nonce = [], srq_ReqID = [], srq_ThreadID = 0, srq_MessageID = 0,
      srq_Address = []\<rparr>"

definition SMSMarkReadReqPayload_fields :: "SMSMarkReadReqPayload fields" where
  "SMSMarkReadReqPayload_fields =
     [(''nonce'', dec_field srq_Nonce (\<lambda>x. srq_Nonce_update (\<lambda>_. x)) dec_string),
      (''req_id'', dec_field srq_ReqID (\<lambda>x. srq_ReqID_update (\<lambda>_. x)) dec_string),
      (''thread_id'', dec_field srq_ThreadID (\<lambda>x. srq_ThreadID_update (\<lambda>_. x)) dec_int),
      (''message_id'', dec_field srq_MessageID (\<lambda>x. srq_MessageID_update (\<lambda>_. x)) dec_int),
      (''address'', dec_field srq_Address (\<lambda>x. srq_Address_update (\<lambda>_. x)) dec_string)]"

record SMSMarkReadRespPayload =
  srs_Nonce :: string
  srs_ReqID :: string
  srs_ThreadID :: int
  srs_MessageID :: int
  srs_OK :: bool
  srs_Error :: string
  srs_ErrorCode :: string
  srs_Permission :: string

definition zero_SMSMarkReadRespPayload :: SMSMarkReadRespPayload where
  "zero_SMSMarkReadRespPayload =
     \<lparr>srs_Nonce = [], srs_ReqID = [], srs_ThreadID = 0, srs_MessageID = 0,
      srs_OK = False, srs_Error = [], srs_ErrorCode = [], srs_Permission = []\<rparr>"

definition SMSMarkReadRespPayload_fields :: "SMSMarkReadRespPayload fields" where
  "SMSMarkReadRespPayload_fields =
     [(''nonce'', dec_field srs_Nonce (\<lambda>x. srs_Nonce_update (\<lambda>_. x)) dec_string),
      (''req_id'', dec_field srs_ReqID (\<lambda>x. srs_ReqID_update (\<lambda>_. x)) dec_string),
      (''thread_id'', dec_field srs_ThreadID (\<lambda>x. srs_ThreadID_update (\<lambda>_. x)) dec_int),
      (''message_id'', dec_field srs_MessageID (\<lambda>x. srs_MessageID_update (\<lambda>_. x)) dec_int),
      (''ok'', dec_field srs_OK (\<lambda>x. srs_OK_update (\<lambda>_. x)) dec_bool),
      (''error'', dec_field srs_Error (\<lambda>x. srs_Error_update (\<lambda>_. x)) dec_string),
      (''error_code'',
        dec_field srs_ErrorCode (\<lambda>x. srs_ErrorCode_update (\<lambda>_. x)) dec_string),
      (''permission'',
        dec_field srs_Permission (\<lambda>x. srs_Permission_update (\<lambda>_. x)) dec_string)]"

end
