(* ===== verification/Contacts_Wire.thy ===== *)
theory Contacts_Wire
  imports Go_Json_Decode
begin

text \<open>
  The payload structs of \<open>packages/core/contacts.go\<close>: for each, its record, its zero value and how
  \<open>json.Unmarshal\<close> fills its fields.
\<close>

record ContactPhone =
  cph_Number :: string
  cph_Type :: string
  cph_Label :: string
  cph_IsPrimary :: bool
  cph_Normalized :: string

definition zero_ContactPhone :: ContactPhone where
  "zero_ContactPhone =
     \<lparr>cph_Number = [], cph_Type = [], cph_Label = [], cph_IsPrimary = False,
      cph_Normalized = []\<rparr>"

definition ContactPhone_fields :: "ContactPhone fields" where
  "ContactPhone_fields =
     [(''number'', dec_field cph_Number (\<lambda>x. cph_Number_update (\<lambda>_. x)) dec_string),
      (''type'', dec_field cph_Type (\<lambda>x. cph_Type_update (\<lambda>_. x)) dec_string),
      (''label'', dec_field cph_Label (\<lambda>x. cph_Label_update (\<lambda>_. x)) dec_string),
      (''is_primary'',
        dec_field cph_IsPrimary (\<lambda>x. cph_IsPrimary_update (\<lambda>_. x)) dec_bool),
      (''normalized_number'',
        dec_field cph_Normalized (\<lambda>x. cph_Normalized_update (\<lambda>_. x)) dec_string)]"

record ContactEmail =
  cem_Address :: string
  cem_Type :: string
  cem_Label :: string

definition zero_ContactEmail :: ContactEmail where
  "zero_ContactEmail =
     \<lparr>cem_Address = [], cem_Type = [], cem_Label = []\<rparr>"

definition ContactEmail_fields :: "ContactEmail fields" where
  "ContactEmail_fields =
     [(''address'', dec_field cem_Address (\<lambda>x. cem_Address_update (\<lambda>_. x)) dec_string),
      (''type'', dec_field cem_Type (\<lambda>x. cem_Type_update (\<lambda>_. x)) dec_string),
      (''label'', dec_field cem_Label (\<lambda>x. cem_Label_update (\<lambda>_. x)) dec_string)]"

record ContactOrganization =
  cor_Company :: string
  cor_Title :: string
  cor_Department :: string

definition zero_ContactOrganization :: ContactOrganization where
  "zero_ContactOrganization =
     \<lparr>cor_Company = [], cor_Title = [], cor_Department = []\<rparr>"

definition ContactOrganization_fields :: "ContactOrganization fields" where
  "ContactOrganization_fields =
     [(''company'', dec_field cor_Company (\<lambda>x. cor_Company_update (\<lambda>_. x)) dec_string),
      (''title'', dec_field cor_Title (\<lambda>x. cor_Title_update (\<lambda>_. x)) dec_string),
      (''department'',
        dec_field cor_Department (\<lambda>x. cor_Department_update (\<lambda>_. x)) dec_string)]"

record ContactPostal =
  cpo_Formatted :: string
  cpo_Type :: string

definition zero_ContactPostal :: ContactPostal where
  "zero_ContactPostal =
     \<lparr>cpo_Formatted = [], cpo_Type = []\<rparr>"

definition ContactPostal_fields :: "ContactPostal fields" where
  "ContactPostal_fields =
     [(''formatted'',
        dec_field cpo_Formatted (\<lambda>x. cpo_Formatted_update (\<lambda>_. x)) dec_string),
      (''type'', dec_field cpo_Type (\<lambda>x. cpo_Type_update (\<lambda>_. x)) dec_string)]"

record ContactEntry =
  ce_ContactID :: string
  ce_DisplayName :: string
  ce_Phones :: "ContactPhone list"
  ce_Emails :: "ContactEmail list"
  ce_AvatarB64 :: string
  ce_Starred :: bool
  ce_LookupKey :: string
  ce_LastUpdatedMs :: int
  ce_PhotoVersion :: string
  ce_PhotoURI :: string
  ce_BirthdayMs :: int
  ce_AnniversaryMs :: int
  ce_Nickname :: string
  ce_Note :: string
  ce_Website :: string
  ce_Organization :: "ContactOrganization option"
  ce_Postal :: "ContactPostal option"

definition zero_ContactEntry :: ContactEntry where
  "zero_ContactEntry =
     \<lparr>ce_ContactID = [], ce_DisplayName = [], ce_Phones = [], ce_Emails = [],
      ce_AvatarB64 = [], ce_Starred = False, ce_LookupKey = [], ce_LastUpdatedMs = 0,
      ce_PhotoVersion = [], ce_PhotoURI = [], ce_BirthdayMs = 0,
      ce_AnniversaryMs = 0, ce_Nickname = [], ce_Note = [], ce_Website = [],
      ce_Organization = None, ce_Postal = None\<rparr>"

definition ContactEntry_fields :: "ContactEntry fields" where
  "ContactEntry_fields =
     [(''contact_id'',
        dec_field ce_ContactID (\<lambda>x. ce_ContactID_update (\<lambda>_. x)) dec_string),
      (''display_name'',
        dec_field ce_DisplayName (\<lambda>x. ce_DisplayName_update (\<lambda>_. x)) dec_string),
      (''phones'',
        dec_field ce_Phones (\<lambda>x. ce_Phones_update (\<lambda>_. x)) (dec_slice (dec_struct ContactPhone_fields) zero_ContactPhone)),
      (''emails'',
        dec_field ce_Emails (\<lambda>x. ce_Emails_update (\<lambda>_. x)) (dec_slice (dec_struct ContactEmail_fields) zero_ContactEmail)),
      (''avatar_b64'',
        dec_field ce_AvatarB64 (\<lambda>x. ce_AvatarB64_update (\<lambda>_. x)) dec_string),
      (''starred'', dec_field ce_Starred (\<lambda>x. ce_Starred_update (\<lambda>_. x)) dec_bool),
      (''lookup_key'',
        dec_field ce_LookupKey (\<lambda>x. ce_LookupKey_update (\<lambda>_. x)) dec_string),
      (''last_updated_ms'',
        dec_field ce_LastUpdatedMs (\<lambda>x. ce_LastUpdatedMs_update (\<lambda>_. x)) dec_int),
      (''photo_version'',
        dec_field ce_PhotoVersion (\<lambda>x. ce_PhotoVersion_update (\<lambda>_. x)) dec_string),
      (''photo_uri'', dec_field ce_PhotoURI (\<lambda>x. ce_PhotoURI_update (\<lambda>_. x)) dec_string),
      (''birthday_ms'',
        dec_field ce_BirthdayMs (\<lambda>x. ce_BirthdayMs_update (\<lambda>_. x)) dec_int),
      (''anniversary_ms'',
        dec_field ce_AnniversaryMs (\<lambda>x. ce_AnniversaryMs_update (\<lambda>_. x)) dec_int),
      (''nickname'', dec_field ce_Nickname (\<lambda>x. ce_Nickname_update (\<lambda>_. x)) dec_string),
      (''note'', dec_field ce_Note (\<lambda>x. ce_Note_update (\<lambda>_. x)) dec_string),
      (''website'', dec_field ce_Website (\<lambda>x. ce_Website_update (\<lambda>_. x)) dec_string),
      (''organization'',
        dec_field ce_Organization (\<lambda>x. ce_Organization_update (\<lambda>_. x)) (dec_ptr (dec_struct ContactOrganization_fields) zero_ContactOrganization)),
      (''postal'',
        dec_field ce_Postal (\<lambda>x. ce_Postal_update (\<lambda>_. x)) (dec_ptr (dec_struct ContactPostal_fields) zero_ContactPostal))]"

record ContactsListReqPayload =
  clq_Nonce :: string
  clq_ReqID :: string
  clq_Cursor :: string
  clq_Limit :: int
  clq_Query :: string
  clq_CursorGen :: int

definition zero_ContactsListReqPayload :: ContactsListReqPayload where
  "zero_ContactsListReqPayload =
     \<lparr>clq_Nonce = [], clq_ReqID = [], clq_Cursor = [], clq_Limit = 0, clq_Query = [],
      clq_CursorGen = 0\<rparr>"

definition ContactsListReqPayload_fields :: "ContactsListReqPayload fields" where
  "ContactsListReqPayload_fields =
     [(''nonce'', dec_field clq_Nonce (\<lambda>x. clq_Nonce_update (\<lambda>_. x)) dec_string),
      (''req_id'', dec_field clq_ReqID (\<lambda>x. clq_ReqID_update (\<lambda>_. x)) dec_string),
      (''cursor'', dec_field clq_Cursor (\<lambda>x. clq_Cursor_update (\<lambda>_. x)) dec_string),
      (''limit'', dec_field clq_Limit (\<lambda>x. clq_Limit_update (\<lambda>_. x)) dec_int),
      (''query'', dec_field clq_Query (\<lambda>x. clq_Query_update (\<lambda>_. x)) dec_string),
      (''cursor_gen'', dec_field clq_CursorGen (\<lambda>x. clq_CursorGen_update (\<lambda>_. x)) dec_int)]"

record ContactsListRespPayload =
  cls_Nonce :: string
  cls_ReqID :: string
  cls_Entries :: "ContactEntry list"
  cls_NextCursor :: string
  cls_TotalCount :: int
  cls_CursorGen :: int
  cls_Error :: string
  cls_ErrorCode :: string
  cls_Permission :: string

definition zero_ContactsListRespPayload :: ContactsListRespPayload where
  "zero_ContactsListRespPayload =
     \<lparr>cls_Nonce = [], cls_ReqID = [], cls_Entries = [], cls_NextCursor = [],
      cls_TotalCount = 0, cls_CursorGen = 0, cls_Error = [], cls_ErrorCode = [],
      cls_Permission = []\<rparr>"

definition ContactsListRespPayload_fields :: "ContactsListRespPayload fields" where
  "ContactsListRespPayload_fields =
     [(''nonce'', dec_field cls_Nonce (\<lambda>x. cls_Nonce_update (\<lambda>_. x)) dec_string),
      (''req_id'', dec_field cls_ReqID (\<lambda>x. cls_ReqID_update (\<lambda>_. x)) dec_string),
      (''entries'',
        dec_field cls_Entries (\<lambda>x. cls_Entries_update (\<lambda>_. x)) (dec_slice (dec_struct ContactEntry_fields) zero_ContactEntry)),
      (''next_cursor'',
        dec_field cls_NextCursor (\<lambda>x. cls_NextCursor_update (\<lambda>_. x)) dec_string),
      (''total_count'',
        dec_field cls_TotalCount (\<lambda>x. cls_TotalCount_update (\<lambda>_. x)) dec_int),
      (''cursor_gen'', dec_field cls_CursorGen (\<lambda>x. cls_CursorGen_update (\<lambda>_. x)) dec_int),
      (''error'', dec_field cls_Error (\<lambda>x. cls_Error_update (\<lambda>_. x)) dec_string),
      (''error_code'',
        dec_field cls_ErrorCode (\<lambda>x. cls_ErrorCode_update (\<lambda>_. x)) dec_string),
      (''permission'',
        dec_field cls_Permission (\<lambda>x. cls_Permission_update (\<lambda>_. x)) dec_string)]"

record ContactAvatarReqPayload =
  caq_Nonce :: string
  caq_ReqID :: string
  caq_ContactID :: string
  caq_HighRes :: bool

definition zero_ContactAvatarReqPayload :: ContactAvatarReqPayload where
  "zero_ContactAvatarReqPayload =
     \<lparr>caq_Nonce = [], caq_ReqID = [], caq_ContactID = [], caq_HighRes = False\<rparr>"

definition ContactAvatarReqPayload_fields :: "ContactAvatarReqPayload fields" where
  "ContactAvatarReqPayload_fields =
     [(''nonce'', dec_field caq_Nonce (\<lambda>x. caq_Nonce_update (\<lambda>_. x)) dec_string),
      (''req_id'', dec_field caq_ReqID (\<lambda>x. caq_ReqID_update (\<lambda>_. x)) dec_string),
      (''contact_id'',
        dec_field caq_ContactID (\<lambda>x. caq_ContactID_update (\<lambda>_. x)) dec_string),
      (''high_res'', dec_field caq_HighRes (\<lambda>x. caq_HighRes_update (\<lambda>_. x)) dec_bool)]"

record ContactAvatarRespPayload =
  cas_Nonce :: string
  cas_ReqID :: string
  cas_ContactID :: string
  cas_Mime :: string
  cas_DataB64 :: string
  cas_PhotoVersion :: string
  cas_Error :: string
  cas_ErrorCode :: string
  cas_Permission :: string

definition zero_ContactAvatarRespPayload :: ContactAvatarRespPayload where
  "zero_ContactAvatarRespPayload =
     \<lparr>cas_Nonce = [], cas_ReqID = [], cas_ContactID = [], cas_Mime = [],
      cas_DataB64 = [], cas_PhotoVersion = [], cas_Error = [], cas_ErrorCode = [],
      cas_Permission = []\<rparr>"

definition ContactAvatarRespPayload_fields :: "ContactAvatarRespPayload fields" where
  "ContactAvatarRespPayload_fields =
     [(''nonce'', dec_field cas_Nonce (\<lambda>x. cas_Nonce_update (\<lambda>_. x)) dec_string),
      (''req_id'', dec_field cas_ReqID (\<lambda>x. cas_ReqID_update (\<lambda>_. x)) dec_string),
      (''contact_id'',
        dec_field cas_ContactID (\<lambda>x. cas_ContactID_update (\<lambda>_. x)) dec_string),
      (''mime'', dec_field cas_Mime (\<lambda>x. cas_Mime_update (\<lambda>_. x)) dec_string),
      (''data_b64'', dec_field cas_DataB64 (\<lambda>x. cas_DataB64_update (\<lambda>_. x)) dec_string),
      (''photo_version'',
        dec_field cas_PhotoVersion (\<lambda>x. cas_PhotoVersion_update (\<lambda>_. x)) dec_string),
      (''error'', dec_field cas_Error (\<lambda>x. cas_Error_update (\<lambda>_. x)) dec_string),
      (''error_code'',
        dec_field cas_ErrorCode (\<lambda>x. cas_ErrorCode_update (\<lambda>_. x)) dec_string),
      (''permission'',
        dec_field cas_Permission (\<lambda>x. cas_Permission_update (\<lambda>_. x)) dec_string)]"

record ContactsChangedPayload =
  cch_Nonce :: string
  cch_ChangedAt :: int
  cch_CursorGen :: int

definition zero_ContactsChangedPayload :: ContactsChangedPayload where
  "zero_ContactsChangedPayload =
     \<lparr>cch_Nonce = [], cch_ChangedAt = 0, cch_CursorGen = 0\<rparr>"

definition ContactsChangedPayload_fields :: "ContactsChangedPayload fields" where
  "ContactsChangedPayload_fields =
     [(''nonce'', dec_field cch_Nonce (\<lambda>x. cch_Nonce_update (\<lambda>_. x)) dec_string),
      (''changed_at'', dec_field cch_ChangedAt (\<lambda>x. cch_ChangedAt_update (\<lambda>_. x)) dec_int),
      (''cursor_gen'', dec_field cch_CursorGen (\<lambda>x. cch_CursorGen_update (\<lambda>_. x)) dec_int)]"

record ContactDeleteReqPayload =
  cdq_Nonce :: string
  cdq_ReqID :: string
  cdq_ContactID :: string
  cdq_LookupKey :: string

definition zero_ContactDeleteReqPayload :: ContactDeleteReqPayload where
  "zero_ContactDeleteReqPayload =
     \<lparr>cdq_Nonce = [], cdq_ReqID = [], cdq_ContactID = [], cdq_LookupKey = []\<rparr>"

definition ContactDeleteReqPayload_fields :: "ContactDeleteReqPayload fields" where
  "ContactDeleteReqPayload_fields =
     [(''nonce'', dec_field cdq_Nonce (\<lambda>x. cdq_Nonce_update (\<lambda>_. x)) dec_string),
      (''req_id'', dec_field cdq_ReqID (\<lambda>x. cdq_ReqID_update (\<lambda>_. x)) dec_string),
      (''contact_id'',
        dec_field cdq_ContactID (\<lambda>x. cdq_ContactID_update (\<lambda>_. x)) dec_string),
      (''lookup_key'',
        dec_field cdq_LookupKey (\<lambda>x. cdq_LookupKey_update (\<lambda>_. x)) dec_string)]"

record ContactDeleteRespPayload =
  cds_Nonce :: string
  cds_ReqID :: string
  cds_ContactID :: string
  cds_OK :: bool
  cds_Error :: string
  cds_ErrorCode :: string
  cds_Permission :: string

definition zero_ContactDeleteRespPayload :: ContactDeleteRespPayload where
  "zero_ContactDeleteRespPayload =
     \<lparr>cds_Nonce = [], cds_ReqID = [], cds_ContactID = [], cds_OK = False,
      cds_Error = [], cds_ErrorCode = [], cds_Permission = []\<rparr>"

definition ContactDeleteRespPayload_fields :: "ContactDeleteRespPayload fields" where
  "ContactDeleteRespPayload_fields =
     [(''nonce'', dec_field cds_Nonce (\<lambda>x. cds_Nonce_update (\<lambda>_. x)) dec_string),
      (''req_id'', dec_field cds_ReqID (\<lambda>x. cds_ReqID_update (\<lambda>_. x)) dec_string),
      (''contact_id'',
        dec_field cds_ContactID (\<lambda>x. cds_ContactID_update (\<lambda>_. x)) dec_string),
      (''ok'', dec_field cds_OK (\<lambda>x. cds_OK_update (\<lambda>_. x)) dec_bool),
      (''error'', dec_field cds_Error (\<lambda>x. cds_Error_update (\<lambda>_. x)) dec_string),
      (''error_code'',
        dec_field cds_ErrorCode (\<lambda>x. cds_ErrorCode_update (\<lambda>_. x)) dec_string),
      (''permission'',
        dec_field cds_Permission (\<lambda>x. cds_Permission_update (\<lambda>_. x)) dec_string)]"

end
