(* ===== verification/Contacts.thy ===== *)
theory Contacts
  imports Contacts_Wire Wire_Common
begin

text \<open>
  The contacts directory (\<open>packages/core/contacts.go\<close>): the field sanitizers, the validators
  of the contact payloads and the comparison of phone numbers.
\<close>

section \<open>Constants\<close>

definition MaxContactIDLen :: nat where [go_consts]: "MaxContactIDLen = 64"
definition MaxContactLookupKeyLen :: nat where [go_consts]: "MaxContactLookupKeyLen = 256"
definition MaxContactNameLen :: nat where [go_consts]: "MaxContactNameLen = 128"
definition MaxPhoneNumberLen :: nat where [go_consts]: "MaxPhoneNumberLen = 32"
definition MaxEmailAddressLen :: nat where [go_consts]: "MaxEmailAddressLen = 128"
definition MaxContactsPerResp :: nat where [go_consts]: "MaxContactsPerResp = 100"
definition MaxContactAvatarB64Len :: nat where [go_consts]: "MaxContactAvatarB64Len = 65536"
definition MaxContactsQueryLen :: nat where [go_consts]: "MaxContactsQueryLen = 128"
definition MaxContactNicknameLen :: nat where [go_consts]: "MaxContactNicknameLen = 128"
definition MaxContactNoteLen :: nat where [go_consts]: "MaxContactNoteLen = 2048"
definition MaxContactWebsiteLen :: nat where [go_consts]: "MaxContactWebsiteLen = 512"
definition MaxContactPhotoURILen :: nat where [go_consts]: "MaxContactPhotoURILen = 512"

section \<open>Field sanitizers\<close>

definition SanitizeContactID :: "string \<Rightarrow> string option" where
  "SanitizeContactID s =
     (let trimmed = trim_space s
      in if trimmed = [] \<or> MaxContactIDLen < rune_count trimmed then None
         else if list_ex is_control (runes trimmed) then None
         else Some trimmed)"

definition SanitizeContactName :: "string \<Rightarrow> string" where
  "SanitizeContactName s =
     (let trimmed = trim_space s
      in if trimmed = [] then [] else cap_runes MaxContactNameLen trimmed)"

definition phone_rune :: "nat \<Rightarrow> bool" where
  "phone_rune r \<longleftrightarrow> is_digit r \<or> r = 43 \<or> r = 45 \<or> r = 40 \<or> r = 41 \<or> r = 46 \<or> r = 32"

definition SanitizePhoneNumber :: "string \<Rightarrow> string option" where
  "SanitizePhoneNumber s =
     (let trimmed = trim_space s
      in if trimmed = [] \<or> MaxPhoneNumberLen < rune_count trimmed then None
         else if \<not> list_all phone_rune (runes trimmed) then None
         else Some trimmed)"

definition SanitizeEmailAddress :: "string \<Rightarrow> string option" where
  "SanitizeEmailAddress s =
     (let trimmed = trim_space s
      in if trimmed = [] \<or> MaxEmailAddressLen < length trimmed then None
         else if CHR 0x40 \<notin> set trimmed then None
         else Some trimmed)"

definition avatar_rune :: "nat \<Rightarrow> bool" where
  "avatar_rune r \<longleftrightarrow>
     (65 \<le> r \<and> r \<le> 90) \<or> (97 \<le> r \<and> r \<le> 122) \<or> (48 \<le> r \<and> r \<le> 57) \<or> r = 43 \<or> r = 47 \<or> r = 61"

definition SanitizeContactAvatarB64 :: "string \<Rightarrow> string" where
  "SanitizeContactAvatarB64 s =
     (let trimmed = trim_space s
      in if trimmed = [] \<or> MaxContactAvatarB64Len < length trimmed then []
         else if list_all avatar_rune (runes trimmed) then trimmed else [])"

definition SanitizeContactNickname :: "string \<Rightarrow> string" where
  "SanitizeContactNickname s = cap_runes MaxContactNicknameLen (trim_space s)"

definition SanitizeContactNote :: "string \<Rightarrow> string" where
  "SanitizeContactNote s = cap_runes MaxContactNoteLen (trim_space s)"

definition SanitizeContactWebsite :: "string \<Rightarrow> string" where
  "SanitizeContactWebsite s =
     (let trimmed = trim_space s
      in if MaxContactWebsiteLen < length trimmed then []
         else if list_ex is_control (runes trimmed) then []
         else trimmed)"

definition SanitizeContactPhotoURI :: "string \<Rightarrow> string" where
  "SanitizeContactPhotoURI s =
     (let trimmed = trim_space s
      in if trimmed = [] \<or> MaxContactPhotoURILen < length trimmed then []
         else if list_ex is_control (runes trimmed) then []
         else trimmed)"

definition SanitizeContactLookupKey :: "string \<Rightarrow> string option" where
  "SanitizeContactLookupKey s =
     (let trimmed = trim_space s
      in if MaxContactLookupKeyLen < rune_count trimmed then None
         else if list_ex is_control (runes trimmed) then None
         else Some trimmed)"

definition SanitizePhotoVersion :: "string \<Rightarrow> string" where
  "SanitizePhotoVersion s =
     (let trimmed = trim_space s
      in if trimmed = [] then []
         else if 128 < rune_count trimmed
         then trim_space (string_of_runes (take 128 (runes trimmed)))
         else if list_ex is_control (runes trimmed) then []
         else trimmed)"

section \<open>Payload validators\<close>

text \<open>\<open>reqID := strings.TrimSpace(p.ReqID)\<close> and its check, as every validator of contacts
  and messages writes it.\<close>

definition bad_req_id :: "string \<Rightarrow> bool" where
  "bad_req_id s \<longleftrightarrow> trim_space s = [] \<or> 64 < length (trim_space s)"

definition SanitizeContactsListReq :: "ContactsListReqPayload \<Rightarrow> bool" where
  "SanitizeContactsListReq p =
     (if clq_Nonce p = [] then False
      else if bad_req_id (clq_ReqID p) then False
      else if 256 < length (clq_Cursor p) then False
      else if clq_Limit p < 0 \<or> int MaxContactsPerResp < clq_Limit p then False
      else if MaxContactsQueryLen < length (clq_Query p) then False
      else True)"

definition SanitizeContactsListResp :: "ContactsListRespPayload \<Rightarrow> bool" where
  "SanitizeContactsListResp p =
     (if cls_Nonce p = [] then False
      else if bad_req_id (cls_ReqID p) then False
      else if MaxContactsPerResp < length (cls_Entries p) then False
      else if 256 < length (cls_NextCursor p) then False
      else if 512 < length (cls_Error p) then False
      else True)"

definition SanitizeContactAvatarReq :: "ContactAvatarReqPayload \<Rightarrow> bool" where
  "SanitizeContactAvatarReq p =
     (if caq_Nonce p = [] then False
      else if bad_req_id (caq_ReqID p) then False
      else SanitizeContactID (caq_ContactID p) \<noteq> None)"

definition SanitizeContactDeleteReq :: "ContactDeleteReqPayload \<Rightarrow> bool" where
  "SanitizeContactDeleteReq p =
     (if cdq_Nonce p = [] then False
      else if bad_req_id (cdq_ReqID p) then False
      else if SanitizeContactID (cdq_ContactID p) = None then False
      else if SanitizeContactLookupKey (cdq_LookupKey p) = None then False
      else True)"

definition SanitizeContactDeleteResp :: "ContactDeleteRespPayload \<Rightarrow> bool" where
  "SanitizeContactDeleteResp p =
     (if cds_Nonce p = [] then False
      else if bad_req_id (cds_ReqID p) then False
      else if 512 < length (cds_Error p) then False
      else True)"

section \<open>Phone numbers\<close>

definition NormalizePhone :: "string \<Rightarrow> string" where
  "NormalizePhone s =
     (let trimmed = trim_space s
      in if trimmed = [] then []
         else
           let digits = string_of_runes (filter is_digit (runes trimmed))
           in if digits = [] then []
              else if prefix ''+'' trimmed then CHR ''+'' # digits
              else digits)"

definition trim_plus :: "string \<Rightarrow> string" where
  "trim_plus s = (if prefix ''+'' s then drop 1 s else s)"

definition normalizeDigits :: "string \<Rightarrow> string" where
  "normalizeDigits s = trim_plus (NormalizePhone s)"

definition stripOne :: "string \<Rightarrow> string" where
  "stripOne d = (if length d = 11 \<and> prefix ''1'' d then drop 1 d else d)"

definition PhonesEqual :: "string \<Rightarrow> string \<Rightarrow> bool" where
  "PhonesEqual a b =
     (let na = NormalizePhone a; nb = NormalizePhone b
      in if na = [] \<or> nb = [] then False
         else if na = nb then True
         else
           let da = normalizeDigits na; db = normalizeDigits nb
           in if da = db then True
              else
                let da = stripOne da; db = stripOne db
                in if da = db then True
                   else
                     let (short, long) = (if length db < length da then (db, da) else (da, db))
                     in if length short < 7 then False else suffix short long)"

section \<open>What normalisation and comparison mean\<close>

text \<open>The digits of a number, as a string, without looking at a plus sign.\<close>

definition phone_digits :: "string \<Rightarrow> string" where
  "phone_digits s = string_of_runes (filter is_digit (runes (trim_space s)))"

lemma NormalizePhone_alt:
  "NormalizePhone s =
     (if phone_digits s = [] then []
      else (if prefix ''+'' (trim_space s) then ''+'' else []) @ phone_digits s)"
  by (auto simp: NormalizePhone_def phone_digits_def Let_def string_of_runes_def)

lemma runes_phone_digits: "runes (phone_digits s) = filter is_digit (runes (trim_space s))"
  unfolding phone_digits_def by (rule runes_string_of_runes) (use runes_scalar in fastforce)

lemma digit_not_space: "is_digit r \<Longrightarrow> \<not> is_space r"
  using space_not_name by blast

lemma runes_plus: "runes (CHR ''+'' # t) = 43 # runes t"
  by (subst runes.simps) simp

lemma not_plus_phone_digits [simp]: "\<not> prefix ''+'' (phone_digits s)"
proof
  assume "prefix ''+'' (phone_digits s)"
  then obtain t where "phone_digits s = CHR ''+'' # t" by (auto simp: prefix_def)
  then have "43 \<in> set (runes (phone_digits s))" by (simp add: runes_plus)
  then show False unfolding runes_phone_digits by (simp add: is_digit_def)
qed

lemma trim_phone_digits [simp]: "trim_space (phone_digits s) = phone_digits s"
  by (rule trim_space_no_space) (auto simp: runes_phone_digits digit_not_space)

lemma trim_plus_phone_digits [simp]: "trim_space (CHR ''+'' # phone_digits s) = CHR ''+'' # phone_digits s"
proof -
  have "\<not> is_space 43" by (simp add: is_space_def)
  then show ?thesis
    by (intro trim_space_no_space) (auto simp: runes_plus runes_phone_digits digit_not_space)
qed

lemma phone_digits_digits [simp]:
  "phone_digits (phone_digits s) = phone_digits s"
  "phone_digits (CHR ''+'' # phone_digits s) = phone_digits s"
proof -
  have "\<not> is_digit 43" by (simp add: is_digit_def)
  then show "phone_digits (phone_digits s) = phone_digits s"
    "phone_digits (CHR ''+'' # phone_digits s) = phone_digits s"
    unfolding phone_digits_def[of "phone_digits s"] phone_digits_def[of "_ # phone_digits s"]
    by (simp_all add: runes_plus runes_phone_digits) (simp_all add: phone_digits_def)
qed

lemma phone_digits_Nil [simp]: "phone_digits [] = []"
  by (simp add: phone_digits_def string_of_runes_def)

lemma NormalizePhone_eq_Nil [simp]: "NormalizePhone s = [] \<longleftrightarrow> phone_digits s = []"
  by (simp add: NormalizePhone_alt)

lemma NormalizePhone_idem [simp]: "NormalizePhone (NormalizePhone s) = NormalizePhone s"
  by (simp add: NormalizePhone_alt)

lemma normalizeDigits_NormalizePhone [simp]: "normalizeDigits (NormalizePhone s) = phone_digits s"
  by (simp add: normalizeDigits_def trim_plus_def NormalizePhone_alt)

lemma phone_digits_NormalizePhone: "NormalizePhone a = NormalizePhone b \<Longrightarrow> phone_digits a = phone_digits b"
  by (metis normalizeDigits_NormalizePhone)

lemma stripOne_length: "length (stripOne d) = (if length d = 11 \<and> prefix ''1'' d then 10 else length d)"
  by (simp add: stripOne_def)

lemma suffix_shorter: "suffix x y \<Longrightarrow> x \<noteq> y \<Longrightarrow> length x < length y"
  by (auto simp: suffix_def)

lemma PhonesEqual_iff:
  "PhonesEqual a b \<longleftrightarrow>
     phone_digits a \<noteq> [] \<and> phone_digits b \<noteq> [] \<and>
     (let x = stripOne (phone_digits a); y = stripOne (phone_digits b)
      in x = y \<or> (7 \<le> length x \<and> suffix x y) \<or> (7 \<le> length y \<and> suffix y x))"
proof (cases "stripOne (phone_digits a) = stripOne (phone_digits b)")
  case True
  then show ?thesis by (simp add: PhonesEqual_def Let_def)
next
  case False
  then have "NormalizePhone a \<noteq> NormalizePhone b" "phone_digits a \<noteq> phone_digits b"
    using phone_digits_NormalizePhone[of a b] by auto
  with False suffix_shorter[of "stripOne (phone_digits a)" "stripOne (phone_digits b)"]
    suffix_shorter[of "stripOne (phone_digits b)" "stripOne (phone_digits a)"]
  show ?thesis by (auto simp: PhonesEqual_def Let_def)
qed

text \<open>
  What comparing two phone numbers decides: after normalisation, which keeps the decimal
  digits and one leading plus sign and is a fixed point, two numbers are equal exactly when
  both have digits and, with the leading 1 of an eleven-digit number dropped, their digits
  are the same or at least seven of them in one are the end of the other. So the
  comparison is symmetric and ignores plus signs and punctuation.
\<close>

theorem phones_equal_iff:
  "NormalizePhone (NormalizePhone a) = NormalizePhone a \<and>
   PhonesEqual (NormalizePhone a) b = PhonesEqual a b \<and>
   PhonesEqual a b = PhonesEqual b a \<and>
   (PhonesEqual a b \<longleftrightarrow>
     phone_digits a \<noteq> [] \<and> phone_digits b \<noteq> [] \<and>
     (let x = stripOne (phone_digits a); y = stripOne (phone_digits b)
      in x = y \<or> (7 \<le> length x \<and> suffix x y) \<or> (7 \<le> length y \<and> suffix y x)))"
proof -
  have "phone_digits (NormalizePhone a) = phone_digits a" by (rule phone_digits_NormalizePhone) simp
  then have "PhonesEqual (NormalizePhone a) b = PhonesEqual a b" by (simp add: PhonesEqual_iff)
  moreover have "PhonesEqual a b = PhonesEqual b a" by (auto simp: PhonesEqual_iff Let_def)
  ultimately show ?thesis using PhonesEqual_iff[of a b] by simp
qed

text \<open>The comparison is not transitive: two subscribers of different areas both equal the
  local form of their common seven digits.\<close>

lemma phone_digits_ascii:
  "ascii t \<Longrightarrow> trim_space t = t \<Longrightarrow> phone_digits t = filter is_dec t"
proof -
  assume a: "ascii t" "trim_space t = t"
  have "string_of_runes (filter is_digit (map byte t)) = filter is_dec t" if "ascii t" for t
    using that by (induction t) (auto simp: ascii_def string_of_runes_def encode_rune_def is_digit_def is_dec_def)
  then show ?thesis using a by (simp add: phone_digits_def runes_ascii)
qed

lemma phones_equal_not_transitive:
  "PhonesEqual ''2125551234'' ''555-1234'' \<and> PhonesEqual ''555-1234'' ''3105551234'' \<and>
   \<not> PhonesEqual ''2125551234'' ''3105551234''"
  by (simp add: PhonesEqual_iff Let_def phone_digits_ascii go_eval ascii_def is_dec_def stripOne_def suffix_def)

text \<open>A photo version longer than 128 runes is cut before the control characters are looked
  for, so that they survive in it.\<close>

lemma photo_version_keeps_control:
  "list_ex is_control (runes (SanitizePhotoVersion (CHR ''a'' # CHR 0x07 # replicate 200 CHR ''a'')))"
proof -
  let ?s = "CHR ''a'' # CHR 0x07 # replicate 200 CHR ''a''"
  have a: "ascii (CHR ''a'' # CHR 0x07 # replicate n CHR ''a'')" for n
    by (simp add: ascii_def list_all_iff)
  have t: "trim_space (CHR ''a'' # CHR 0x07 # replicate n CHR ''a'') = CHR ''a'' # CHR 0x07 # replicate n CHR ''a''"
    if "0 < n" for n
    using that by (intro trim_space_plain) (auto simp: plain_ends_def is_space_def)
  have "runes ?s = map byte ?s" by (rule runes_ascii[OF a])
  then have r: "runes ?s = map byte (take 128 ?s) @ map byte (drop 128 ?s)"
    by (metis append_take_drop_id map_append)
  have k: "take 128 ?s = CHR ''a'' # CHR 0x07 # replicate 126 CHR ''a''" by (simp add: take_Cons')
  have "take 128 (runes ?s) = map byte (CHR ''a'' # CHR 0x07 # replicate 126 CHR ''a'')"
    unfolding r k by simp
  then have "string_of_runes (take 128 (runes ?s)) = CHR ''a'' # CHR 0x07 # replicate 126 CHR ''a''"
    by (simp add: string_of_runes_ascii list_all_iff char_of_def bit_Suc_0_iff)
  moreover have "128 < rune_count ?s" by (simp add: runes_ascii[OF a])
  ultimately show ?thesis
    using t[of 126] t[of 200] a[of 126] by (simp add: SanitizePhotoVersion_def runes_ascii is_control_def)
qed

end
