(* ===== verification/Messages.thy ===== *)
theory Messages
  imports Messages_Wire Contacts
begin

text \<open>
  Text messages (\<open>packages/core/messages.go\<close>): the field sanitizers and the validators of the
  SMS payloads.
\<close>

section \<open>Constants\<close>

definition MaxSMSBodyLen :: nat where [go_consts]: "MaxSMSBodyLen = 5000"
definition MaxSMSAddressLen :: nat where [go_consts]: "MaxSMSAddressLen = 64"
definition MaxSMSThreadsPerResp :: nat where [go_consts]: "MaxSMSThreadsPerResp = 100"
definition MaxSMSMessagesPerResp :: nat where [go_consts]: "MaxSMSMessagesPerResp = 100"
definition MaxSMSClientIDLen :: nat where [go_consts]: "MaxSMSClientIDLen = 64"
definition MaxSubIDLen :: nat where [go_consts]: "MaxSubIDLen = 16"

section \<open>Field sanitizers\<close>

definition SanitizeSubID :: "string \<Rightarrow> string option" where
  "SanitizeSubID s =
     (let trimmed = trim_space s
      in if trimmed = [] then Some []
         else if MaxSubIDLen < length trimmed then None
         else if list_ex (\<lambda>r. r < 48 \<or> 57 < r) (runes trimmed) then None
         else Some trimmed)"

definition sms_address_rune :: "nat \<Rightarrow> bool" where
  "sms_address_rune r \<longleftrightarrow>
     is_digit r \<or> is_letter r \<or> r = 43 \<or> r = 45 \<or> r = 40 \<or> r = 41 \<or> r = 46 \<or> r = 32 \<or> r = 64"

definition SanitizeSMSAddress :: "string \<Rightarrow> string option" where
  "SanitizeSMSAddress s =
     (let trimmed = trim_space s
      in if trimmed = [] \<or> MaxSMSAddressLen < rune_count trimmed then None
         else if \<not> list_all sms_address_rune (runes trimmed) then None
         else Some trimmed)"

definition SanitizeSMSBody :: "string \<Rightarrow> string option" where
  "SanitizeSMSBody s =
     (let trimmed = trim_space s
      in if trimmed = [] \<or> MaxSMSBodyLen < rune_count trimmed then None
         else Some trimmed)"

section \<open>Payload validators\<close>

definition SanitizeSMSSendReq :: "SMSSendReqPayload \<Rightarrow> bool" where
  "SanitizeSMSSendReq p =
     (if ssq_Nonce p = [] then False
      else if bad_req_id (ssq_ReqID p) then False
      else if SanitizeSMSAddress (ssq_Recipient p) = None then False
      else if SanitizeSMSBody (ssq_Body p) = None then False
      else if trim_space (ssq_ClientID p) = [] \<or> MaxSMSClientIDLen < length (trim_space (ssq_ClientID p))
      then False
      else if SanitizeSubID (ssq_SubID p) = None then False
      else True)"

definition SanitizeSMSThreadsReq :: "SMSThreadsReqPayload \<Rightarrow> bool" where
  "SanitizeSMSThreadsReq p =
     (if stq_Nonce p = [] then False
      else if bad_req_id (stq_ReqID p) then False
      else if 256 < length (stq_Cursor p) then False
      else if stq_Limit p < 0 \<or> int MaxSMSThreadsPerResp < stq_Limit p then False
      else True)"

definition SanitizeSMSMessagesReq :: "SMSMessagesReqPayload \<Rightarrow> bool" where
  "SanitizeSMSMessagesReq p =
     (if smq_Nonce p = [] then False
      else if bad_req_id (smq_ReqID p) then False
      else if smq_ThreadID p < 0 then False
      else if 256 < length (smq_Cursor p) then False
      else if smq_Limit p < 0 \<or> int MaxSMSMessagesPerResp < smq_Limit p then False
      else True)"

definition SanitizeSMSMarkReadReq :: "SMSMarkReadReqPayload \<Rightarrow> bool" where
  "SanitizeSMSMarkReadReq p =
     (if srq_Nonce p = [] then False
      else if bad_req_id (srq_ReqID p) then False
      else if srq_ThreadID p < 0 \<or> srq_MessageID p < 0 then False
      else if srq_ThreadID p = 0 \<and> srq_MessageID p = 0 \<and> trim_space (srq_Address p) = [] then False
      else if srq_Address p \<noteq> [] \<and> SanitizeSMSAddress (srq_Address p) = None then False
      else True)"

definition SanitizeSMSMarkReadResp :: "SMSMarkReadRespPayload \<Rightarrow> bool" where
  "SanitizeSMSMarkReadResp p =
     (if srs_Nonce p = [] then False
      else if bad_req_id (srs_ReqID p) then False
      else if 512 < length (srs_Error p) then False
      else True)"

definition SanitizeSMSMessage :: "SMSMessage \<Rightarrow> SMSMessage" where
  "SanitizeSMSMessage m =
     m\<lparr>sm_ContactName := SanitizeContactName (sm_ContactName m),
       sm_ContactID := (case SanitizeContactID (sm_ContactID m) of Some i \<Rightarrow> i | None \<Rightarrow> []),
       sm_PhotoVersion := SanitizePhotoVersion (sm_PhotoVersion m)\<rparr>"

section \<open>What the validators guarantee\<close>

text \<open>An accepted mark-read request names what to mark: a thread, a message or an address that
  is itself accepted.\<close>

lemma mark_read_target:
  "SanitizeSMSMarkReadReq p \<Longrightarrow>
   0 < srq_ThreadID p \<or> 0 < srq_MessageID p \<or> SanitizeSMSAddress (srq_Address p) \<noteq> None"
  by (auto simp: SanitizeSMSMarkReadReq_def split: if_splits)

end
