(* ===== verification/Feature_Payloads.thy ===== *)
theory Feature_Payloads
  imports Message_Types Notif_Filter Clip_Sync Settings_Sync Playback Photos Messages
begin

text \<open>
  The payload checks the server makes before it acknowledges a feature message
  (\<open>featureNonce\<close> and \<open>validateFeaturePayload\<close> in \<open>packages/core/server.go\<close>). The payload is
  what \<open>Envelope.Payload\<close> holds: \<open>None\<close> when the member was absent. The switch over the message
  type is split by feature; a part gives \<open>None\<close> for a type it has no case for.
\<close>

definition nonce_fields :: "string fields" where
  "nonce_fields = [(''nonce'', dec_string)]"

definition featureNonce :: "json option \<Rightarrow> string option" where
  "featureNonce raw =
     (case Option.bind raw (\<lambda>v. dec_struct nonce_fields v []) of
        None \<Rightarrow> None
      | Some n \<Rightarrow> if n = [] then None else Some n)"

definition checked :: "'a fields \<Rightarrow> 'a \<Rightarrow> ('a \<Rightarrow> bool) \<Rightarrow> json option \<Rightarrow> bool" where
  "checked fs zero ok raw =
     (case Option.bind raw (\<lambda>v. dec_struct fs v zero) of None \<Rightarrow> False | Some p \<Rightarrow> ok p)"

definition validate_notif :: "string \<Rightarrow> json option \<Rightarrow> bool option" where
  "validate_notif t raw =
     (if t = TypeNotifPost then
        Some (checked NotifPostPayload_fields zero_NotifPostPayload (\<lambda>p. SanitizeNotifID (np_ID p) \<noteq> None) raw)
      else if t = TypeNotifDismiss then
        Some (checked NotifDismissPayload_fields zero_NotifDismissPayload (\<lambda>p. SanitizeNotifID (nd_ID p) \<noteq> None) raw)
      else if t = TypeNotifAppsReq then
        Some (checked NotifAppsReqPayload_fields zero_NotifAppsReqPayload SanitizeNotifAppsReq raw)
      else if t = TypeNotifAppsResp then
        Some (checked NotifAppsRespPayload_fields zero_NotifAppsRespPayload SanitizeNotifAppsResp raw)
      else None)"

definition validate_clip :: "string \<Rightarrow> json option \<Rightarrow> bool option" where
  "validate_clip t raw =
     (if t = TypeClipPush then
        Some (checked ClipPushPayload_fields zero_ClipPushPayload SanitizeClipPush raw)
      else if t = TypeClipManifest then
        Some (checked ClipManifestPayload_fields zero_ClipManifestPayload SanitizeClipManifest raw)
      else if t = TypeClipChunk then
        Some (checked ClipChunkPayload_fields zero_ClipChunkPayload SanitizeClipChunk raw)
      else None)"

definition validate_sync :: "string \<Rightarrow> json option \<Rightarrow> bool option" where
  "validate_sync t raw =
     (if t = TypeSettingsSync then
        Some (checked SettingsSyncPayload_fields zero_SettingsSyncPayload (\<lambda>p. SanitizeSettings p \<noteq> None) raw)
      else if t = TypePlaybackState then
        Some (checked PlaybackStatePayload_fields zero_PlaybackStatePayload (\<lambda>p. SanitizePlaybackState p \<noteq> None) raw)
      else if t = TypePlaybackCmd then
        Some (checked PlaybackCmdPayload_fields zero_PlaybackCmdPayload (\<lambda>p. SanitizePlaybackCmd p \<noteq> None) raw)
      else if t = TypeUnpair then
        Some (checked UnpairPayload_fields zero_UnpairPayload (\<lambda>p. up_Nonce p \<noteq> []) raw)
      else None)"

definition validate_file :: "string \<Rightarrow> json option \<Rightarrow> bool option" where
  "validate_file t raw =
     (if t = TypeFileList then
        Some (checked FileListPayload_fields zero_FileListPayload SanitizeFileList raw)
      else if t = TypeFileListResp then
        Some (checked FileListRespPayload_fields zero_FileListRespPayload SanitizeFileListResp raw)
      else if t = TypeFileMkdir then
        Some (checked FileMkdirPayload_fields zero_FileMkdirPayload SanitizeFileMkdir raw)
      else if t = TypeFileDelete then
        Some (checked FileDeletePayload_fields zero_FileDeletePayload SanitizeFileDelete raw)
      else if t = TypeFileRename then
        Some (checked FileRenamePayload_fields zero_FileRenamePayload SanitizeFileRename raw)
      else if t = TypeFileChunk then
        Some (checked FileChunkPayload_fields zero_FileChunkPayload SanitizeFileChunk raw)
      else if t = TypeFilePullReq then
        Some (checked FilePullReqPayload_fields zero_FilePullReqPayload SanitizeFilePullReq raw)
      else if t = TypeFileAck then
        Some (checked FileAckPayload_fields zero_FileAckPayload SanitizeFileAck raw)
      else if t = TypeFileCancel then
        Some (checked FileCancelPayload_fields zero_FileCancelPayload SanitizeFileCancel raw)
      else if t = TypeFileStatReq then
        Some (checked FileStatReqPayload_fields zero_FileStatReqPayload SanitizeFileStatReq raw)
      else if t = TypeFileStatResp then
        Some (checked FileStatRespPayload_fields zero_FileStatRespPayload SanitizeFileStatResp raw)
      else None)"

definition validate_photo :: "string \<Rightarrow> json option \<Rightarrow> bool option" where
  "validate_photo t raw =
     (if t = TypePhotoList then
        Some (checked PhotoListPayload_fields zero_PhotoListPayload SanitizePhotoList raw)
      else if t = TypePhotoListResp then
        Some (checked PhotoListRespPayload_fields zero_PhotoListRespPayload SanitizePhotoListResp raw)
      else if t = TypePhotoThumbReq then
        Some (checked PhotoThumbReqPayload_fields zero_PhotoThumbReqPayload SanitizePhotoThumbReq raw)
      else if t = TypePhotoThumbResp then
        Some (checked PhotoThumbRespPayload_fields zero_PhotoThumbRespPayload SanitizePhotoThumbResp raw)
      else if t = TypePhotoPullReq then
        Some (checked PhotoPullReqPayload_fields zero_PhotoPullReqPayload SanitizePhotoPullReq raw)
      else if t = TypePhotoChunk then
        Some (checked PhotoChunkPayload_fields zero_PhotoChunkPayload SanitizePhotoChunk raw)
      else if t = TypePhotoDelete then
        Some (checked PhotoDeletePayload_fields zero_PhotoDeletePayload SanitizePhotoDelete raw)
      else if t = TypePhotoDeleteResp then
        Some (checked PhotoDeleteRespPayload_fields zero_PhotoDeleteRespPayload SanitizePhotoDeleteResp raw)
      else None)"

definition validate_contact :: "string \<Rightarrow> json option \<Rightarrow> bool option" where
  "validate_contact t raw =
     (if t = TypeContactsListReq then
        Some (checked ContactsListReqPayload_fields zero_ContactsListReqPayload SanitizeContactsListReq raw)
      else if t = TypeContactsListResp then
        Some (checked ContactsListRespPayload_fields zero_ContactsListRespPayload SanitizeContactsListResp raw)
      else if t = TypeContactAvatarReq then
        Some (checked ContactAvatarReqPayload_fields zero_ContactAvatarReqPayload SanitizeContactAvatarReq raw)
      else if t = TypeContactAvatarResp then
        Some (checked ContactAvatarRespPayload_fields zero_ContactAvatarRespPayload (\<lambda>_. True) raw)
      else if t = TypeContactsChanged then Some True
      else None)"

definition validate_sms :: "string \<Rightarrow> json option \<Rightarrow> bool option" where
  "validate_sms t raw =
     (if t = TypeSMSThreadsReq then
        Some (checked SMSThreadsReqPayload_fields zero_SMSThreadsReqPayload SanitizeSMSThreadsReq raw)
      else if t = TypeSMSThreadsResp then Some True
      else if t = TypeSMSMessagesReq then
        Some (checked SMSMessagesReqPayload_fields zero_SMSMessagesReqPayload SanitizeSMSMessagesReq raw)
      else if t = TypeSMSMessagesResp then Some True
      else if t = TypeSMSSendReq then
        Some (checked SMSSendReqPayload_fields zero_SMSSendReqPayload SanitizeSMSSendReq raw)
      else if t = TypeSMSSendResp then Some True
      else if t = TypeSMSPush then
        Some (checked SMSPushPayload_fields zero_SMSPushPayload (\<lambda>_. True) raw)
      else if t = TypeSMSChanged then Some True
      else None)"

definition validateFeaturePayload :: "string \<Rightarrow> json option \<Rightarrow> bool" where
  "validateFeaturePayload t raw =
     (case List.map_filter (\<lambda>v. v t raw)
             [validate_notif, validate_clip, validate_sync, validate_file, validate_photo,
              validate_contact, validate_sms] of
        [] \<Rightarrow> False
      | ok # _ \<Rightarrow> ok)"

lemmas validate_parts = validate_notif_def validate_clip_def validate_sync_def validate_file_def
  validate_photo_def validate_contact_def validate_sms_def

text \<open>The switch has no case for the two messages of Do Not Disturb.\<close>

lemma no_dnd_case:
  "\<not> validateFeaturePayload TypeDNDState raw" "\<not> validateFeaturePayload TypeDNDSet raw"
  by (simp_all add: validateFeaturePayload_def validate_parts type_consts List.map_filter_simps)

end
