(* ===== verification/Ping_Server.thy ===== *)
theory Ping_Server
  imports Version_Gate Pairing Envelope_Wire Feature_Payloads
begin

text \<open>
  The HTTP server (\<open>packages/core/server.go\<close>) and its WebSocket lane
  (\<open>packages/core/server_ws.go\<close>). A request is its method, the \<open>Authorization\<close> header, the
  \<open>token\<close> query parameter and the body, with a flag for a body that cannot be read; a reply
  is the status and the JSON value of the body. A handler is a function from the server,
  the clock and the request to the one reply it writes. A certificate is the list of its
  DER blocks.
\<close>

section \<open>Requests and replies\<close>

definition MaxBodyBytes :: nat where [go_consts]: "MaxBodyBytes = 8388608"

record HttpRequest =
  rq_Method :: string
  rq_Auth :: string
  rq_QueryToken :: string
  rq_Body :: string
  rq_BodyFails :: bool

record HttpReply =
  rp_Status :: int
  rp_Body :: json

record Server =
  sv_platform :: string
  sv_caps :: "string list"
  sv_fingerprint :: string
  sv_token :: string

definition TLSCertFingerprint :: "string list \<Rightarrow> string + string" where
  "TLSCertFingerprint cert =
     (case cert of
        [] \<Rightarrow> Inl ''tls certificate must not be empty''
      | der # _ \<Rightarrow> Inr (hex_encode (sha256 der)))"

definition NewServerWithCert ::
  "string \<Rightarrow> string \<Rightarrow> string list \<Rightarrow> string list \<Rightarrow> string \<Rightarrow> string + Server" where
  "NewServerWithCert token platform caps cert fingerprint =
     (if token = [] then Inl ''pair token must not be empty''
      else if platform = [] then Inl ''platform must not be empty''
      else if cert = [] then Inl ''tls certificate must not be empty''
      else case TLSCertFingerprint cert of
             Inl e \<Rightarrow> Inl e
           | Inr want \<Rightarrow>
               let normalized = to_lower (trim_space fingerprint)
               in if normalized \<noteq> want then Inl ''tls fingerprint does not match certificate''
                  else Inr \<lparr>sv_platform = platform, sv_caps = caps, sv_fingerprint = normalized,
                            sv_token = token\<rparr>)"

definition SetToken :: "string \<Rightarrow> Server \<Rightarrow> Server option" where
  "SetToken token s = (if token = [] then None else Some (s\<lparr>sv_token := token\<rparr>))"

definition Server_Sender :: "Server \<Rightarrow> SenderInfo" where
  "Server_Sender s = CurrentSender (sv_platform s)"

definition PongPayload_json :: "PongPayload \<Rightarrow> json" where
  "PongPayload_json p = JObj
     [(''nonce'', JStr (pong_Nonce p)), (''received_at'', jint (pong_ReceivedAt p))]"

definition ErrorPayload_json :: "ErrorPayload \<Rightarrow> json" where
  "ErrorPayload_json p = JObj
     ([(''code'', JStr (ep_Code p)), (''message'', JStr (ep_Message p))] @
      omit_empty (ep_RequiredBuild p \<noteq> 0) (''required_build'', jint (ep_RequiredBuild p)) @
      omit_empty (ep_RequiredVersion p \<noteq> []) (''required_version'', JStr (ep_RequiredVersion p)) @
      omit_empty (ep_CurrentVersion p \<noteq> []) (''current_version'', JStr (ep_CurrentVersion p)) @
      omit_empty (ep_Device p \<noteq> []) (''device'', JStr (ep_Device p)))"

definition UpdateRequiredPayload_json :: "UpdateRequiredPayload \<Rightarrow> json" where
  "UpdateRequiredPayload_json p = JObj
     ([(''code'', JStr (ur_Code p)), (''message'', JStr (ur_Message p)),
       (''required_build'', jint (ur_RequiredBuild p))] @
      omit_empty (ur_RequiredVersion p \<noteq> []) (''required_version'', JStr (ur_RequiredVersion p)) @
      omit_empty (ur_CurrentVersion p \<noteq> []) (''current_version'', JStr (ur_CurrentVersion p)) @
      omit_empty (ur_CurrentBuild p \<noteq> 0) (''current_build'', jint (ur_CurrentBuild p)) @
      [(''device'', JStr (ur_Device p))])"

section \<open>Replies\<close>

definition error_envelope :: "Server \<Rightarrow> string \<Rightarrow> string \<Rightarrow> Envelope" where
  "error_envelope s code msg =
     NewEnvelope TypeError (Server_Sender s) (sv_caps s)
       (Some (ErrorPayload_json (zero_ErrorPayload\<lparr>ep_Code := code, ep_Message := msg\<rparr>)))"

definition writeErrorEnvelope :: "Server \<Rightarrow> int \<Rightarrow> string \<Rightarrow> string \<Rightarrow> HttpReply" where
  "writeErrorEnvelope s status code msg =
     \<lparr>rp_Status = status, rp_Body = Envelope_json (error_envelope s code msg)\<rparr>"

definition reject :: "Server \<Rightarrow> int \<Rightarrow> string \<Rightarrow> string \<Rightarrow> HttpReply" where
  "reject s status reason clientMsg =
     writeErrorEnvelope s status
       (if reason = ''unauthorized'' then CodeUnauthorized else CodeBadRequest) clientMsg"

definition update_envelope :: "Server \<Rightarrow> string \<Rightarrow> int \<Rightarrow> Envelope" where
  "update_envelope s device requiredBuild =
     NewEnvelope TypeError (Server_Sender s) (sv_caps s)
       (Some (UpdateRequiredPayload_json (NewUpdateRequiredPayload device requiredBuild)))"

definition rejectUpdate :: "Server \<Rightarrow> string \<Rightarrow> int \<Rightarrow> HttpReply" where
  "rejectUpdate s device requiredBuild =
     \<lparr>rp_Status = 426, rp_Body = Envelope_json (update_envelope s device requiredBuild)\<rparr>"

definition pong_envelope :: "Server \<Rightarrow> int \<Rightarrow> string \<Rightarrow> Envelope" where
  "pong_envelope s now nonce =
     NewEnvelope TypePong (Server_Sender s) (sv_caps s)
       (Some (PongPayload_json \<lparr>pong_Nonce = nonce, pong_ReceivedAt = now\<rparr>))"

definition pong_reply :: "Server \<Rightarrow> int \<Rightarrow> string \<Rightarrow> HttpReply" where
  "pong_reply s now nonce =
     \<lparr>rp_Status = 200, rp_Body = Envelope_json (pong_envelope s now nonce)\<rparr>"

text \<open>\<open>io.ReadAll(http.MaxBytesReader(...))\<close>.\<close>

definition read_body :: "HttpRequest \<Rightarrow> string option" where
  "read_body r =
     (if rq_BodyFails r \<or> MaxBodyBytes < length (rq_Body r) then None else Some (rq_Body r))"

definition bearerToken :: "HttpRequest \<Rightarrow> string" where
  "bearerToken r =
     (if prefix ''Bearer '' (rq_Auth r) then trim_space (drop 7 (rq_Auth r)) else [])"

text \<open>The switch over the error of the version gate, the same in the two handlers.\<close>

definition gate_reject :: "Server \<Rightarrow> Header \<Rightarrow> core_error \<Rightarrow> HttpReply" where
  "gate_reject s hdr err =
     (case err of
        ErrUnsupportedProtocol _ \<Rightarrow> rejectUpdate s (sv_platform s) CurrentBuild
      | ErrLocalOutdated _ _ \<Rightarrow> rejectUpdate s (sv_platform s) (si_MinPeerBuild (h_Sender hdr))
      | ErrPeerOutdated _ _ \<Rightarrow> rejectUpdate s (si_Platform (h_Sender hdr)) CurrentMinPeerBuild
      | _ \<Rightarrow> reject s 400 ''bad_envelope'' ''malformed request'')"

section \<open>Handlers\<close>

definition handleHealth :: "Server \<Rightarrow> int \<Rightarrow> HttpRequest \<Rightarrow> HttpReply" where
  "handleHealth s now r =
     (if rq_Method r \<noteq> ''GET'' then writeErrorEnvelope s 405 CodeBadRequest ''method not allowed''
      else \<lparr>rp_Status = 200, rp_Body = JObj [(''status'', JStr ''ok'')]\<rparr>)"

definition handlePing :: "Server \<Rightarrow> int \<Rightarrow> HttpRequest \<Rightarrow> HttpReply" where
  "handlePing s now r =
     (if rq_Method r \<noteq> ''POST'' then reject s 405 ''wrong_method'' ''method not allowed''
      else case read_body r of
        None \<Rightarrow> reject s 400 ''bad_body'' ''unreadable request body''
      | Some body \<Rightarrow>
          case ParseAndGateHeader body of
            (hdr, Some err) \<Rightarrow> gate_reject s hdr err
          | (hdr, None) \<Rightarrow>
              if h_Type hdr \<noteq> TypePing then reject s 400 ''wrong_type'' ''expected ping message''
              else if \<not> IsCapabilitySupported (h_Capabilities hdr) CapabilityPing then
                rejectUpdate s (si_Platform (h_Sender hdr)) CurrentBuild
              else if \<not> VerifyToken (sv_token s) (bearerToken r) then
                reject s 403 ''unauthorized'' ''invalid pair token''
              else case unmarshal_into (dec_struct Envelope_fields) body zero_Envelope of
                None \<Rightarrow> reject s 400 ''bad_envelope'' ''malformed request''
              | Some env \<Rightarrow>
                  case DecodePayload (dec_struct PingPayload_fields) zero_PingPayload env of
                    Inl _ \<Rightarrow> reject s 400 ''bad_payload'' ''malformed ping payload''
                  | Inr ping \<Rightarrow>
                      if ping_Nonce ping = [] then
                        reject s 400 ''bad_payload'' ''malformed ping payload''
                      else pong_reply s now (ping_Nonce ping))"

definition handleFeature ::
  "Server \<Rightarrow> int \<Rightarrow> (string \<Rightarrow> string option) \<Rightarrow> HttpRequest \<Rightarrow> HttpReply" where
  "handleFeature s now accepted r =
     (if rq_Method r \<noteq> ''POST'' then reject s 405 ''wrong_method'' ''method not allowed''
      else case read_body r of
        None \<Rightarrow> reject s 400 ''bad_body'' ''unreadable request body''
      | Some body \<Rightarrow>
          case ParseAndGateHeader body of
            (hdr, Some err) \<Rightarrow> gate_reject s hdr err
          | (hdr, None) \<Rightarrow>
              case accepted (h_Type hdr) of
                None \<Rightarrow> reject s 400 ''wrong_type'' ''unexpected message type''
              | Some wantCap \<Rightarrow>
                  if \<not> IsCapabilitySupported (h_Capabilities hdr) wantCap then
                    rejectUpdate s (si_Platform (h_Sender hdr)) CurrentBuild
                  else if \<not> VerifyToken (sv_token s) (bearerToken r) then
                    reject s 403 ''unauthorized'' ''invalid pair token''
                  else case unmarshal_into (dec_struct Envelope_fields) body zero_Envelope of
                    None \<Rightarrow> reject s 400 ''bad_envelope'' ''malformed request''
                  | Some env \<Rightarrow>
                      case featureNonce (env_Payload env) of
                        None \<Rightarrow> reject s 400 ''bad_payload'' ''malformed feature payload''
                      | Some nonce \<Rightarrow>
                          if \<not> validateFeaturePayload (h_Type hdr) (env_Payload env) then
                            reject s 400 ''bad_payload'' ''malformed feature payload''
                          else pong_reply s now nonce)"

text \<open>What each feature route accepts, and the capability it asks for.\<close>

definition handleNotif_accepts :: "string \<Rightarrow> string option" where
  "handleNotif_accepts = map_of
     [(TypeNotifPost, CapabilityNotifications),
      (TypeNotifDismiss, CapabilityNotifications),
      (TypeNotifAppsReq, CapabilityNotifications),
      (TypeNotifAppsResp, CapabilityNotifications)]"

definition handleClip_accepts :: "string \<Rightarrow> string option" where
  "handleClip_accepts = map_of
     [(TypeClipPush, CapabilityClipboard),
      (TypeClipManifest, CapabilityClipboard),
      (TypeClipChunk, CapabilityClipboard)]"

definition handleSettings_accepts :: "string \<Rightarrow> string option" where
  "handleSettings_accepts = map_of
     [(TypeSettingsSync, CapabilitySettingsSync)]"

definition handlePlayback_accepts :: "string \<Rightarrow> string option" where
  "handlePlayback_accepts = map_of
     [(TypePlaybackState, CapabilityPlayback),
      (TypePlaybackCmd, CapabilityPlayback)]"

definition handleDND_accepts :: "string \<Rightarrow> string option" where
  "handleDND_accepts = map_of
     [(TypeDNDState, CapabilityDND),
      (TypeDNDSet, CapabilityDND)]"

definition handleUnpair_accepts :: "string \<Rightarrow> string option" where
  "handleUnpair_accepts = map_of
     [(TypeUnpair, CapabilityPing)]"

definition handleFiles_accepts :: "string \<Rightarrow> string option" where
  "handleFiles_accepts = map_of
     [(TypeFileList, CapabilityFiles),
      (TypeFileListResp, CapabilityFiles),
      (TypeFileMkdir, CapabilityFiles),
      (TypeFileDelete, CapabilityFiles),
      (TypeFileRename, CapabilityFiles),
      (TypeFileChunk, CapabilityFiles),
      (TypeFilePullReq, CapabilityFiles),
      (TypeFileAck, CapabilityFiles),
      (TypeFileCancel, CapabilityFiles),
      (TypeFileStatReq, CapabilityFiles),
      (TypeFileStatResp, CapabilityFiles)]"

definition handlePhotos_accepts :: "string \<Rightarrow> string option" where
  "handlePhotos_accepts = map_of
     [(TypePhotoList, CapabilityPhotos),
      (TypePhotoListResp, CapabilityPhotos),
      (TypePhotoThumbReq, CapabilityPhotos),
      (TypePhotoThumbResp, CapabilityPhotos),
      (TypePhotoPullReq, CapabilityPhotos),
      (TypePhotoChunk, CapabilityPhotos),
      (TypePhotoDelete, CapabilityPhotos),
      (TypePhotoDeleteResp, CapabilityPhotos)]"

definition handleContacts_accepts :: "string \<Rightarrow> string option" where
  "handleContacts_accepts = map_of
     [(TypeContactsListReq, CapabilityContacts),
      (TypeContactsListResp, CapabilityContacts),
      (TypeContactAvatarReq, CapabilityContacts),
      (TypeContactAvatarResp, CapabilityContacts),
      (TypeContactsChanged, CapabilityContacts)]"

definition handleMessages_accepts :: "string \<Rightarrow> string option" where
  "handleMessages_accepts = map_of
     [(TypeSMSThreadsReq, CapabilityMessages),
      (TypeSMSThreadsResp, CapabilityMessages),
      (TypeSMSMessagesReq, CapabilityMessages),
      (TypeSMSMessagesResp, CapabilityMessages),
      (TypeSMSSendReq, CapabilityMessages),
      (TypeSMSSendResp, CapabilityMessages),
      (TypeSMSPush, CapabilityMessages),
      (TypeSMSChanged, CapabilityMessages)]"

definition handleNotif :: "Server \<Rightarrow> int \<Rightarrow> HttpRequest \<Rightarrow> HttpReply" where
  "handleNotif s now r = handleFeature s now handleNotif_accepts r"

definition handleClip :: "Server \<Rightarrow> int \<Rightarrow> HttpRequest \<Rightarrow> HttpReply" where
  "handleClip s now r = handleFeature s now handleClip_accepts r"

definition handleSettings :: "Server \<Rightarrow> int \<Rightarrow> HttpRequest \<Rightarrow> HttpReply" where
  "handleSettings s now r = handleFeature s now handleSettings_accepts r"

definition handlePlayback :: "Server \<Rightarrow> int \<Rightarrow> HttpRequest \<Rightarrow> HttpReply" where
  "handlePlayback s now r = handleFeature s now handlePlayback_accepts r"

definition handleDND :: "Server \<Rightarrow> int \<Rightarrow> HttpRequest \<Rightarrow> HttpReply" where
  "handleDND s now r = handleFeature s now handleDND_accepts r"

definition handleUnpair :: "Server \<Rightarrow> int \<Rightarrow> HttpRequest \<Rightarrow> HttpReply" where
  "handleUnpair s now r = handleFeature s now handleUnpair_accepts r"

definition handleFiles :: "Server \<Rightarrow> int \<Rightarrow> HttpRequest \<Rightarrow> HttpReply" where
  "handleFiles s now r = handleFeature s now handleFiles_accepts r"

definition handlePhotos :: "Server \<Rightarrow> int \<Rightarrow> HttpRequest \<Rightarrow> HttpReply" where
  "handlePhotos s now r = handleFeature s now handlePhotos_accepts r"

definition handleContacts :: "Server \<Rightarrow> int \<Rightarrow> HttpRequest \<Rightarrow> HttpReply" where
  "handleContacts s now r = handleFeature s now handleContacts_accepts r"

definition handleMessages :: "Server \<Rightarrow> int \<Rightarrow> HttpRequest \<Rightarrow> HttpReply" where
  "handleMessages s now r = handleFeature s now handleMessages_accepts r"

text \<open>The routes of \<open>NewServerWithCert\<close>, except the WebSocket upgrade.\<close>

definition routes :: "(string \<times> (Server \<Rightarrow> int \<Rightarrow> HttpRequest \<Rightarrow> HttpReply)) list" where
  "routes =
     [(''/health'', handleHealth), (''/ping'', handlePing), (''/notif'', handleNotif),
      (''/clip'', handleClip), (''/settings'', handleSettings), (''/playback'', handlePlayback),
      (''/dnd'', handleDND), (''/unpair'', handleUnpair), (''/files'', handleFiles),
      (''/photos'', handlePhotos), (''/contacts'', handleContacts), (''/messages'', handleMessages)]"

section \<open>The WebSocket lane\<close>

text \<open>The check before the upgrade: \<open>None\<close> lets the connection in.\<close>

definition ws_admission :: "Server \<Rightarrow> HttpRequest \<Rightarrow> HttpReply option" where
  "ws_admission s r =
     (let token = bearerToken r;
          token = (if token = [] then rq_QueryToken r else token)
      in if \<not> VerifyToken (sv_token s) token
         then Some (writeErrorEnvelope s 403 CodeUnauthorized ''invalid pair token'')
         else None)"

text \<open>What one text frame does: the envelopes written back and the envelope handed on.\<close>

definition ws_gate_error :: "Server \<Rightarrow> Header \<Rightarrow> core_error \<Rightarrow> Envelope" where
  "ws_gate_error s hdr err =
     (case err of
        ErrUnsupportedProtocol _ \<Rightarrow> error_envelope s CodeBadRequest ''unsupported protocol''
      | ErrLocalOutdated _ _ \<Rightarrow> update_envelope s (sv_platform s) (si_MinPeerBuild (h_Sender hdr))
      | ErrPeerOutdated _ _ \<Rightarrow>
          update_envelope s (si_Platform (h_Sender hdr)) CurrentMinPeerBuild
      | _ \<Rightarrow> error_envelope s CodeBadRequest ''malformed envelope'')"

definition ws_pong :: "Server \<Rightarrow> int \<Rightarrow> Envelope \<Rightarrow> Envelope list" where
  "ws_pong s now env =
     (if env_Type env = TypePing then
        (case DecodePayload (dec_struct PingPayload_fields) zero_PingPayload env of
           Inl _ \<Rightarrow> []
         | Inr ping \<Rightarrow> if ping_Nonce ping = [] then [] else [pong_envelope s now (ping_Nonce ping)])
      else [])"

definition ws_frame :: "Server \<Rightarrow> int \<Rightarrow> string \<Rightarrow> Envelope list \<times> Envelope option" where
  "ws_frame s now data =
     (case ParseAndGateHeader data of
        (hdr, Some err) \<Rightarrow> ([ws_gate_error s hdr err], None)
      | (hdr, None) \<Rightarrow>
          (case unmarshal_into (dec_struct Envelope_fields) data zero_Envelope of
             None \<Rightarrow> ([error_envelope s CodeBadRequest ''malformed json''], None)
           | Some env \<Rightarrow> (ws_pong s now env, Some env)))"

text \<open>The ping watchdog: at each tick the connection was active since the last one, or a
  control ping is sent and succeeds or fails. \<open>None\<close> is the closed connection.\<close>

datatype ws_tick = RecentlyActive | PingOk | PingFailed

definition wsPingMaxFailures :: nat where [go_consts]: "wsPingMaxFailures = 2"

fun watchdog_tick :: "ws_tick \<Rightarrow> nat option \<Rightarrow> nat option" where
  "watchdog_tick _ None = None"
| "watchdog_tick RecentlyActive (Some failedPings) = Some 0"
| "watchdog_tick PingOk (Some failedPings) = Some 0"
| "watchdog_tick PingFailed (Some failedPings) =
     (if wsPingMaxFailures \<le> failedPings + 1 then None else Some (failedPings + 1))"

section \<open>When a message is acknowledged\<close>

text \<open>The specification of an acceptable feature request.\<close>

definition acceptable :: "Server \<Rightarrow> (string \<Rightarrow> string option) \<Rightarrow> HttpRequest \<Rightarrow> string \<Rightarrow> bool" where
  "acceptable s accepted r nonce \<longleftrightarrow>
     rq_Method r = ''POST'' \<and> read_body r = Some (rq_Body r) \<and> bearerToken r = sv_token s \<and>
     (\<exists>hdr env cap.
        ParseAndGateHeader (rq_Body r) = (hdr, None) \<and>
        accepted (h_Type hdr) = Some cap \<and> cap \<in> set (h_Capabilities hdr) \<and>
        unmarshal_into (dec_struct Envelope_fields) (rq_Body r) zero_Envelope = Some env \<and>
        featureNonce (env_Payload env) = Some nonce \<and>
        validateFeaturePayload (h_Type hdr) (env_Payload env))"

definition error_reply :: "Server \<Rightarrow> HttpReply \<Rightarrow> bool" where
  "error_reply s rep \<longleftrightarrow>
     (\<exists>status code msg. status \<in> {400, 403, 405} \<and>
        (code = CodeUnauthorized \<longleftrightarrow> status = 403) \<and> code \<in> {CodeUnauthorized, CodeBadRequest} \<and>
        rep = writeErrorEnvelope s status code msg) \<or>
     (\<exists>device build. rep = rejectUpdate s device build)"

lemma IsCapabilitySupported_iff [simp]: "IsCapabilitySupported caps c \<longleftrightarrow> c \<in> set caps"
  by (auto simp: IsCapabilitySupported_def list_ex_iff)

lemma VerifyToken_bearer: "VerifyToken expected provided \<longleftrightarrow> provided = expected"
  by (auto simp: VerifyToken_iff)

lemma read_body_Some: "read_body r = Some b \<Longrightarrow> b = rq_Body r"
  by (simp add: read_body_def split: if_splits)

lemma error_reply_reject [simp]:
  "status \<in> {400, 405} \<Longrightarrow> reason \<noteq> ''unauthorized'' \<Longrightarrow> error_reply s (reject s status reason msg)"
  "error_reply s (reject s 403 ''unauthorized'' msg)"
proof -
  have codes: "CodeUnauthorized \<noteq> CodeBadRequest" by (simp add: go_consts)
  show "error_reply s (reject s status reason msg)"
    if "status \<in> {400, 405}" "reason \<noteq> ''unauthorized''"
    unfolding error_reply_def reject_def using that codes
    by (intro disjI1 exI[of _ status] exI[of _ CodeBadRequest] exI[of _ msg]) auto
  show "error_reply s (reject s 403 ''unauthorized'' msg)"
    unfolding error_reply_def reject_def
    by (intro disjI1 exI[of _ 403] exI[of _ CodeUnauthorized] exI[of _ msg]) simp
qed

lemma error_reply_update [simp]: "error_reply s (rejectUpdate s device build)"
  by (auto simp: error_reply_def)

lemma error_reply_gate [simp]: "error_reply s (gate_reject s hdr err)"
  by (simp add: gate_reject_def split: core_error.split)

lemma error_reply_status: "error_reply s rep \<Longrightarrow> rp_Status rep \<noteq> 200"
  by (auto simp: error_reply_def writeErrorEnvelope_def rejectUpdate_def)

lemma pong_reply_status [simp]: "rp_Status (pong_reply s now nonce) = 200"
  by (simp add: pong_reply_def)

text \<open>The rest of the handler, once the gate has passed.\<close>

definition after_gate ::
  "Server \<Rightarrow> int \<Rightarrow> (string \<Rightarrow> string option) \<Rightarrow> HttpRequest \<Rightarrow> Header \<Rightarrow> HttpReply" where
  "after_gate s now accepted r hdr =
     (case accepted (h_Type hdr) of
        None \<Rightarrow> reject s 400 ''wrong_type'' ''unexpected message type''
      | Some wantCap \<Rightarrow>
          if \<not> wantCap \<in> set (h_Capabilities hdr) then
            rejectUpdate s (si_Platform (h_Sender hdr)) CurrentBuild
          else if bearerToken r \<noteq> sv_token s then
            reject s 403 ''unauthorized'' ''invalid pair token''
          else case unmarshal_into (dec_struct Envelope_fields) (rq_Body r) zero_Envelope of
            None \<Rightarrow> reject s 400 ''bad_envelope'' ''malformed request''
          | Some env \<Rightarrow>
              case featureNonce (env_Payload env) of
                None \<Rightarrow> reject s 400 ''bad_payload'' ''malformed feature payload''
              | Some nonce \<Rightarrow>
                  if \<not> validateFeaturePayload (h_Type hdr) (env_Payload env) then
                    reject s 400 ''bad_payload'' ''malformed feature payload''
                  else pong_reply s now nonce)"

lemma handleFeature_gate:
  assumes "rq_Method r = ''POST''" "read_body r \<noteq> None"
  shows "handleFeature s now accepted r =
     (case ParseAndGateHeader (rq_Body r) of
        (hdr, Some err) \<Rightarrow> gate_reject s hdr err
      | (hdr, None) \<Rightarrow> after_gate s now accepted r hdr)"
proof -
  have b: "read_body r = Some (rq_Body r)" using assms(2) read_body_Some by auto
  show ?thesis
    by (simp only: handleFeature_def after_gate_def VerifyToken_bearer IsCapabilitySupported_iff
        assms(1) b option.case if_False not_True_eq_False simp_thms)
qed

lemma after_gate_cases:
  assumes "rq_Method r = ''POST''" "read_body r = Some (rq_Body r)"
    "ParseAndGateHeader (rq_Body r) = (hdr, None)"
  shows "(\<exists>nonce. acceptable s accepted r nonce \<and> after_gate s now accepted r hdr = pong_reply s now nonce) \<or>
         ((\<nexists>nonce. acceptable s accepted r nonce) \<and> error_reply s (after_gate s now accepted r hdr))"
proof (cases "accepted (h_Type hdr)")
  case None
  then show ?thesis using assms by (simp add: after_gate_def acceptable_def)
next
  case (Some cap)
  note cap = this
  show ?thesis
  proof (cases "cap \<in> set (h_Capabilities hdr) \<and> bearerToken r = sv_token s")
    case False
    then show ?thesis using assms cap by (auto simp: after_gate_def acceptable_def)
  next
    case True
    note ok = this
    show ?thesis
    proof (cases "unmarshal_into (dec_struct Envelope_fields) (rq_Body r) zero_Envelope")
      case None
      then show ?thesis using assms cap ok by (simp add: after_gate_def acceptable_def)
    next
      case (Some env)
      then show ?thesis using assms cap ok
        by (cases "featureNonce (env_Payload env)") (simp_all add: after_gate_def acceptable_def)
    qed
  qed
qed

lemma handleFeature_cases:
  "(\<exists>nonce. acceptable s accepted r nonce \<and> handleFeature s now accepted r = pong_reply s now nonce) \<or>
   ((\<nexists>nonce. acceptable s accepted r nonce) \<and> error_reply s (handleFeature s now accepted r))"
proof (cases "rq_Method r = ''POST'' \<and> read_body r \<noteq> None")
  case False
  then show ?thesis
    by (cases "rq_Method r = ''POST''") (simp_all add: handleFeature_def acceptable_def)
next
  case True
  then have b: "read_body r = Some (rq_Body r)" using read_body_Some by auto
  obtain hdr err where g: "ParseAndGateHeader (rq_Body r) = (hdr, err)" by fastforce
  show ?thesis
  proof (cases err)
    case None
    then show ?thesis using after_gate_cases[OF conjunct1[OF True] b, of hdr s accepted now] g
      by (simp add: handleFeature_gate[OF conjunct1[OF True] conjunct2[OF True]])
  next
    case (Some e)
    then show ?thesis using g
      by (simp add: handleFeature_gate[OF conjunct1[OF True] conjunct2[OF True]] acceptable_def)
  qed
qed

text \<open>
  C4. Every feature request gets one answer, and the answer tells what happened: a pong that
  carries the request's own nonce exactly when the request is a POST with a readable body
  that passes the version gate, is of a type the route takes, advertises the capability of
  that type, bears the server's token, and has a payload with a nonce that passes the
  validator of its type; otherwise an error envelope with one of the statuses 400, 403, 405
  and 426, where 403 goes with UNAUTHORIZED.
\<close>

theorem feature_ack_iff:
  "(rp_Status (handleFeature s now accepted r) = 200 \<longleftrightarrow> (\<exists>nonce. acceptable s accepted r nonce)) \<and>
   (if acceptable s accepted r nonce
    then handleFeature s now accepted r = pong_reply s now nonce else True) \<and>
   (if \<exists>nonce. acceptable s accepted r nonce then True
    else error_reply s (handleFeature s now accepted r))"
proof -
  have "nonce' = nonce" if "acceptable s accepted r nonce'" "acceptable s accepted r nonce" for nonce'
    using that unfolding acceptable_def by fastforce
  then show ?thesis
    using handleFeature_cases[of s accepted r now]
      error_reply_status[of s "handleFeature s now accepted r"] by auto
qed

section \<open>Pings, tokens and the routes\<close>

definition pingable :: "Server \<Rightarrow> HttpRequest \<Rightarrow> string \<Rightarrow> bool" where
  "pingable s r nonce \<longleftrightarrow>
     rq_Method r = ''POST'' \<and> read_body r = Some (rq_Body r) \<and> bearerToken r = sv_token s \<and>
     nonce \<noteq> [] \<and>
     (\<exists>hdr env ping.
        ParseAndGateHeader (rq_Body r) = (hdr, None) \<and> h_Type hdr = TypePing \<and>
        CapabilityPing \<in> set (h_Capabilities hdr) \<and>
        unmarshal_into (dec_struct Envelope_fields) (rq_Body r) zero_Envelope = Some env \<and>
        DecodePayload (dec_struct PingPayload_fields) zero_PingPayload env = Inr ping \<and>
        ping_Nonce ping = nonce)"

definition after_ping_gate :: "Server \<Rightarrow> int \<Rightarrow> HttpRequest \<Rightarrow> Header \<Rightarrow> HttpReply" where
  "after_ping_gate s now r hdr =
     (if h_Type hdr \<noteq> TypePing then reject s 400 ''wrong_type'' ''expected ping message''
      else if \<not> CapabilityPing \<in> set (h_Capabilities hdr) then
        rejectUpdate s (si_Platform (h_Sender hdr)) CurrentBuild
      else if bearerToken r \<noteq> sv_token s then
        reject s 403 ''unauthorized'' ''invalid pair token''
      else case unmarshal_into (dec_struct Envelope_fields) (rq_Body r) zero_Envelope of
        None \<Rightarrow> reject s 400 ''bad_envelope'' ''malformed request''
      | Some env \<Rightarrow>
          case DecodePayload (dec_struct PingPayload_fields) zero_PingPayload env of
            Inl _ \<Rightarrow> reject s 400 ''bad_payload'' ''malformed ping payload''
          | Inr ping \<Rightarrow>
              if ping_Nonce ping = [] then
                reject s 400 ''bad_payload'' ''malformed ping payload''
              else pong_reply s now (ping_Nonce ping))"

lemma handlePing_gate:
  assumes "rq_Method r = ''POST''" "read_body r \<noteq> None"
  shows "handlePing s now r =
     (case ParseAndGateHeader (rq_Body r) of
        (hdr, Some err) \<Rightarrow> gate_reject s hdr err
      | (hdr, None) \<Rightarrow> after_ping_gate s now r hdr)"
proof -
  have b: "read_body r = Some (rq_Body r)" using assms(2) read_body_Some by auto
  show ?thesis
    by (simp only: handlePing_def after_ping_gate_def VerifyToken_bearer IsCapabilitySupported_iff
        assms(1) b option.case if_False not_True_eq_False simp_thms)
qed

lemma after_ping_gate_cases:
  assumes "rq_Method r = ''POST''" "read_body r = Some (rq_Body r)"
    "ParseAndGateHeader (rq_Body r) = (hdr, None)"
  shows "(\<exists>nonce. pingable s r nonce \<and> after_ping_gate s now r hdr = pong_reply s now nonce) \<or>
         ((\<nexists>nonce. pingable s r nonce) \<and> error_reply s (after_ping_gate s now r hdr))"
proof (cases "h_Type hdr = TypePing \<and> CapabilityPing \<in> set (h_Capabilities hdr) \<and>
    bearerToken r = sv_token s")
  case False
  then show ?thesis using assms by (auto simp: after_ping_gate_def pingable_def)
next
  case True
  note ok = this
  show ?thesis
  proof (cases "unmarshal_into (dec_struct Envelope_fields) (rq_Body r) zero_Envelope")
    case None
    then show ?thesis using assms ok by (simp add: after_ping_gate_def pingable_def)
  next
    case (Some env)
    then show ?thesis using assms ok
      by (cases "DecodePayload (dec_struct PingPayload_fields) zero_PingPayload env")
         (auto simp: after_ping_gate_def pingable_def)
  qed
qed

lemma handlePing_cases:
  "(\<exists>nonce. pingable s r nonce \<and> handlePing s now r = pong_reply s now nonce) \<or>
   ((\<nexists>nonce. pingable s r nonce) \<and> error_reply s (handlePing s now r))"
proof (cases "rq_Method r = ''POST'' \<and> read_body r \<noteq> None")
  case False
  then show ?thesis
    by (cases "rq_Method r = ''POST''") (simp_all add: handlePing_def pingable_def)
next
  case True
  then have b: "read_body r = Some (rq_Body r)" using read_body_Some by auto
  obtain hdr err where g: "ParseAndGateHeader (rq_Body r) = (hdr, err)" by fastforce
  show ?thesis
  proof (cases err)
    case None
    then show ?thesis using after_ping_gate_cases[OF conjunct1[OF True] b, of hdr s now] g
      by (simp add: handlePing_gate[OF conjunct1[OF True] conjunct2[OF True]])
  next
    case (Some e)
    then show ?thesis using g
      by (simp add: handlePing_gate[OF conjunct1[OF True] conjunct2[OF True]] pingable_def)
  qed
qed

lemma handlePing_token: "rp_Status (handlePing s now r) = 200 \<Longrightarrow> bearerToken r = sv_token s"
  using handlePing_cases[of s r now] error_reply_status by (auto simp: pingable_def)

lemma handleFeature_token:
  "rp_Status (handleFeature s now accepted r) = 200 \<Longrightarrow> bearerToken r = sv_token s"
  using handleFeature_cases[of s accepted r now] error_reply_status by (auto simp: acceptable_def)

lemmas feature_handlers = handleNotif_def handleClip_def handleSettings_def handlePlayback_def
  handleDND_def handleUnpair_def handleFiles_def handlePhotos_def handleContacts_def
  handleMessages_def

lemma routes_token:
  assumes "(p, h) \<in> set routes" "p \<noteq> ''/health''" "rp_Status (h s now r) = 200"
  shows "bearerToken r = sv_token s"
  using assms by (auto simp: routes_def feature_handlers intro: handlePing_token handleFeature_token)

text \<open>
  C12. Rotating the token revokes the old one: after a new token was set, which is refused only
  for the empty token, every route but the health check answers 200 only to requests that
  bear exactly the new token, and the WebSocket lane lets in only those that bear it in the
  header or, without one there, in the query.
\<close>

theorem token_rotation_revokes:
  assumes "SetToken token s = Some s'" "(p, h) \<in> set routes" "p \<noteq> ''/health''"
  shows "token \<noteq> [] \<and>
         (if rp_Status (h s' now r) = 200 then bearerToken r = token else True) \<and>
         (ws_admission s' r = None \<longleftrightarrow>
            bearerToken r = token \<or> (bearerToken r = [] \<and> rq_QueryToken r = token))"
proof -
  have t: "token \<noteq> []" "sv_token s' = token"
    using assms(1) by (auto simp: SetToken_def split: if_splits)
  then show ?thesis using routes_token[OF assms(2,3), of s' now r]
    by (auto simp: ws_admission_def VerifyToken_iff Let_def split: if_splits)
qed

definition demo_server :: Server where
  "demo_server = \<lparr>sv_platform = ''macos'', sv_caps = [''ping''], sv_fingerprint = [], sv_token = ''old''\<rparr>"

theorem token_rotation_revokes_witness:
  "''new'' \<noteq> [] \<and> (if rp_Status (handlePing (demo_server\<lparr>sv_token := ''new''\<rparr>) 0 \<lparr>rq_Method = ''POST'',
       rq_Auth = ''Bearer old'', rq_QueryToken = [], rq_Body = [], rq_BodyFails = False\<rparr>) = 200
     then bearerToken \<lparr>rq_Method = ''POST'', rq_Auth = ''Bearer old'', rq_QueryToken = [], rq_Body = [],
       rq_BodyFails = False\<rparr> = ''new'' else True)"
  using token_rotation_revokes[of "''new''" demo_server "demo_server\<lparr>sv_token := ''new''\<rparr>"
      "''/ping''" handlePing 0 "\<lparr>rq_Method = ''POST'', rq_Auth = ''Bearer old'', rq_QueryToken = [],
        rq_Body = [], rq_BodyFails = False\<rparr>"]
  by (simp add: SetToken_def routes_def)



text \<open>
  The Do Not Disturb route never acknowledges: it takes the two message types of the
  feature, but the payload validator has no case for them, so that no request whatever is
  answered with a pong.
\<close>

theorem dnd_route_dead: "error_reply s (handleDND s now r) \<and> rp_Status (handleDND s now r) \<noteq> 200"
proof -
  have "\<not> acceptable s handleDND_accepts r nonce" for nonce
    using no_dnd_case by (auto simp: acceptable_def handleDND_accepts_def split: if_splits)
  then show ?thesis
    using handleFeature_cases[of s handleDND_accepts r now] error_reply_status
    by (auto simp: handleDND_def)
qed

section \<open>The watchdog\<close>

lemma watchdog_None [simp]: "fold watchdog_tick ts None = None"
  by (induction ts) auto

lemma watchdog_one:
  "fold watchdog_tick ts (Some 1) = None \<longleftrightarrow>
     (\<exists>ys. ts = PingFailed # ys) \<or> (\<exists>t ys. ts = t # ys \<and> fold watchdog_tick ys (Some 0) = None)"
  by (cases ts; cases "hd ts") (auto simp: go_consts)

lemma watchdog_zero:
  "fold watchdog_tick ts (Some 0) = None \<longleftrightarrow> (\<exists>xs ys. ts = xs @ [PingFailed, PingFailed] @ ys)"
proof (induction ts rule: length_induct)
  case (1 ts)
  show ?case
  proof (cases ts)
    case (Cons t ts')
    show ?thesis
    proof (cases "t = PingFailed")
      case False
      then have "fold watchdog_tick ts (Some 0) = fold watchdog_tick ts' (Some 0)"
        using Cons by (cases t) auto
      then show ?thesis using 1 Cons False by (auto simp: Cons_eq_append_conv)
    next
      case True
      then have e: "fold watchdog_tick ts (Some 0) = fold watchdog_tick ts' (Some 1)"
        using Cons by (simp add: go_consts)
      show ?thesis
      proof (cases ts')
        case (Cons u us)
        show ?thesis
        proof (cases "u = PingFailed")
          case True
          then show ?thesis using \<open>t = PingFailed\<close> \<open>ts = t # ts'\<close> Cons e watchdog_one[of ts'] by force
        next
          case False
          then have "fold watchdog_tick ts' (Some 1) = fold watchdog_tick us (Some 0)"
            using Cons by (cases u) auto
          then show ?thesis using 1 \<open>ts = t # ts'\<close> \<open>t = PingFailed\<close> Cons e False
            by (auto simp: Cons_eq_append_conv)
        qed
      qed (use Cons True e in \<open>auto simp: Cons_eq_append_conv\<close>)
    qed
  qed auto
qed

text \<open>
  C25. The watchdog closes a dead connection and only such: over any run of ticks it closes
  exactly when two control pings in a row failed, so that a connection whose pings stop
  being answered lives at most two ticks more and one that shows activity between failures
  is never closed.
\<close>

theorem watchdog_closes_iff:
  "fold watchdog_tick ts (Some 0) = None \<longleftrightarrow> (\<exists>xs ys. ts = xs @ [PingFailed, PingFailed] @ ys)"
  by (rule watchdog_zero)

end
