(* ===== verification/Ping_Client.thy ===== *)
theory Ping_Client
  imports Ping_Server
begin

text \<open>
  The HTTP client (\<open>packages/core/client.go\<close>) and its meeting with the server. The network is
  an argument: a function from the path and the request to the body of the response, \<open>None\<close>
  when no response came. The random nonce is an argument too, \<open>None\<close> when the entropy source
  failed. A call gives the identity of the peer, when a reply was decoded, and the pong or
  an error.
\<close>

section \<open>Results\<close>

record PeerInfo =
  pi_Platform :: string
  pi_AppBuild :: int
  pi_AppVersion :: string
  pi_Capabilities :: "string list"

definition zero_PeerInfo :: PeerInfo where
  "zero_PeerInfo =
     \<lparr>pi_Platform = [], pi_AppBuild = 0, pi_AppVersion = [], pi_Capabilities = []\<rparr>"

record UpdateRequiredError =
  ue_Device :: string
  ue_RequiredBuild :: int
  ue_RequiredVersion :: string
  ue_CurrentVersion :: string
  ue_Message :: string
  ue_LocalOutdated :: bool

datatype client_error =
    NoEntropy
  | UnsupportedPayload
  | TransportFailed
  | BadReply
  | ReplyProtocol core_error
  | UpdateRequired UpdateRequiredError
  | PeerError string string
  | UnexpectedType string
  | BadPayload core_error
  | ErrNonceMismatch

type_synonym call_result = "PeerInfo \<times> (client_error + PongPayload)"

definition peerInfoFromReply :: "Envelope \<Rightarrow> PeerInfo" where
  "peerInfoFromReply reply =
     \<lparr>pi_Platform = si_Platform (env_Sender reply), pi_AppBuild = si_AppBuild (env_Sender reply),
      pi_AppVersion = si_AppVersion (env_Sender reply), pi_Capabilities = env_Capabilities reply\<rparr>"

definition updateErrorFrom :: "Envelope \<Rightarrow> client_error" where
  "updateErrorFrom reply =
     (case DecodePayload (dec_struct ErrorPayload_fields) zero_ErrorPayload reply of
        Inl e \<Rightarrow> BadPayload e
      | Inr payload \<Rightarrow>
          if ep_Code payload = CodeUpdateRequired then
            UpdateRequired \<lparr>ue_Device = ep_Device payload, ue_RequiredBuild = ep_RequiredBuild payload,
              ue_RequiredVersion = ep_RequiredVersion payload,
              ue_CurrentVersion = ep_CurrentVersion payload, ue_Message = ep_Message payload,
              ue_LocalOutdated = (CurrentBuild < ep_RequiredBuild payload)\<rparr>
          else PeerError (ep_Code payload) (ep_Message payload))"

text \<open>\<open>Unwrap\<close>: which of the two sentinels an update error stands for.\<close>

definition update_is_local :: "UpdateRequiredError \<Rightarrow> bool" where
  "update_is_local e = ue_LocalOutdated e"

section \<open>Calls\<close>

definition FeaturePath :: "string \<Rightarrow> string" where
  "FeaturePath msgType =
     (if msgType \<in> {TypeNotifPost, TypeNotifDismiss, TypeNotifAppsReq, TypeNotifAppsResp} then ''/notif''
      else if msgType \<in> {TypeClipPush, TypeClipManifest, TypeClipChunk} then ''/clip''
      else if msgType = TypeSettingsSync then ''/settings''
      else if msgType = TypeUnpair then ''/unpair''
      else if msgType \<in> {TypeFileList, TypeFileListResp, TypeFileMkdir, TypeFileDelete,
                TypeFileRename, TypeFileChunk, TypeFilePullReq, TypeFileAck, TypeFileCancel,
                TypeFileStatReq, TypeFileStatResp} then ''/files''
      else if msgType \<in> {TypePhotoList, TypePhotoListResp, TypePhotoThumbReq, TypePhotoThumbResp,
                TypePhotoPullReq, TypePhotoChunk, TypePhotoDelete, TypePhotoDeleteResp} then ''/photos''
      else ''/ping'')"

definition freshNonce :: "string option \<Rightarrow> string option" where
  "freshNonce random8 = map_option hex_encode random8"

definition PingPayload_json :: "PingPayload \<Rightarrow> json" where
  "PingPayload_json p = JObj
     ([(''nonce'', JStr (ping_Nonce p)), (''sent_at'', jint (ping_SentAt p))] @
      omit_empty (ping_DeviceName p \<noteq> []) (''device_name'', JStr (ping_DeviceName p)) @
      omit_empty (ping_Model p \<noteq> []) (''model'', JStr (ping_Model p)) @
      (case ping_BatteryPct p of None \<Rightarrow> [] | Some b \<Rightarrow> [(''battery_pct'', jint b)]) @
      (case ping_Charging p of None \<Rightarrow> [] | Some b \<Rightarrow> [(''charging'', JBool b)]) @
      omit_empty (ping_FilesPermission p \<noteq> []) (''files_permission'', JStr (ping_FilesPermission p)) @
      omit_empty (ping_PhotosPermission p \<noteq> []) (''photos_permission'', JStr (ping_PhotosPermission p)))"

definition bearer_request :: "string \<Rightarrow> Envelope \<Rightarrow> HttpRequest" where
  "bearer_request token env =
     \<lparr>rq_Method = ''POST'', rq_Auth = ''Bearer '' @ token, rq_QueryToken = [],
      rq_Body = json_text (Envelope_json env), rq_BodyFails = False\<rparr>"

text \<open>What the two calls do with the response, the same in both.\<close>

definition read_reply :: "string \<Rightarrow> string option \<Rightarrow> call_result" where
  "read_reply nonce response =
     (case response of
        None \<Rightarrow> (zero_PeerInfo, Inl TransportFailed)
      | Some body \<Rightarrow>
          case unmarshal_into (dec_struct Envelope_fields) (take MaxBodyBytes body) zero_Envelope of
            None \<Rightarrow> (zero_PeerInfo, Inl BadReply)
          | Some reply \<Rightarrow>
              case CheckProtocolVersion (env_ProtocolV reply) of
                Some e \<Rightarrow> (zero_PeerInfo, Inl (ReplyProtocol e))
              | None \<Rightarrow>
                  if env_Type reply = TypeError then
                    (peerInfoFromReply reply, Inl (updateErrorFrom reply))
                  else if env_Type reply \<noteq> TypePong then
                    (zero_PeerInfo, Inl (UnexpectedType (env_Type reply)))
                  else case DecodePayload (dec_struct PongPayload_fields) zero_PongPayload reply of
                    Inl e \<Rightarrow> (zero_PeerInfo, Inl (BadPayload e))
                  | Inr pong \<Rightarrow>
                      if \<not> VerifyToken nonce (pong_Nonce pong) then (zero_PeerInfo, Inl ErrNonceMismatch)
                      else (peerInfoFromReply reply, Inr pong))"

definition SendPing ::
  "(string \<Rightarrow> HttpRequest \<Rightarrow> string option) \<Rightarrow> string option \<Rightarrow> string \<Rightarrow> SenderInfo \<Rightarrow>
   string list \<Rightarrow> int \<Rightarrow> call_result" where
  "SendPing post random8 token sender caps sentAt =
     (case freshNonce random8 of
        None \<Rightarrow> (zero_PeerInfo, Inl NoEntropy)
      | Some nonce \<Rightarrow>
          let env = NewEnvelope TypePing sender caps
                (Some (PingPayload_json (zero_PingPayload\<lparr>ping_Nonce := nonce, ping_SentAt := sentAt\<rparr>)))
          in read_reply nonce (post ''/ping'' (bearer_request token env)))"

text \<open>The payload of a feature call is the function that prints it with its nonce stamped,
  \<open>None\<close> for a struct \<open>stampFeatureNonce\<close> does not know.\<close>

definition SendFeature ::
  "(string \<Rightarrow> HttpRequest \<Rightarrow> string option) \<Rightarrow> string option \<Rightarrow> string \<Rightarrow> SenderInfo \<Rightarrow>
   string list \<Rightarrow> string \<Rightarrow> (string \<Rightarrow> json option) \<Rightarrow> call_result" where
  "SendFeature post random8 token sender caps msgType stamped =
     (case freshNonce random8 of
        None \<Rightarrow> (zero_PeerInfo, Inl NoEntropy)
      | Some nonce \<Rightarrow>
          case stamped nonce of
            None \<Rightarrow> (zero_PeerInfo, Inl UnsupportedPayload)
          | Some payload \<Rightarrow>
              let env = NewEnvelope msgType sender caps (Some payload)
              in read_reply nonce (post (FeaturePath msgType) (bearer_request token env)))"

section \<open>Certificate pinning\<close>

text \<open>\<open>NewTOFUClient\<close>: the check of the presented certificates, \<open>None\<close> for a fingerprint that
  is refused.\<close>

definition NewTOFUClient :: "string \<Rightarrow> (string list \<Rightarrow> bool) option" where
  "NewTOFUClient certFingerprint =
     (case hex_decode (to_lower (trim_space certFingerprint)) of
        None \<Rightarrow> None
      | Some fingerprint \<Rightarrow>
          if length fingerprint \<noteq> 32 then None
          else Some (\<lambda>rawCerts. case rawCerts of [] \<Rightarrow> False | der # _ \<Rightarrow> VerifyToken (sha256 der) fingerprint))"

section \<open>Client and server together\<close>

text \<open>The server behind the network: the JSON body followed by the encoder's newline.\<close>

definition server_post :: "Server \<Rightarrow> int \<Rightarrow> string \<Rightarrow> HttpRequest \<Rightarrow> string option" where
  "server_post s now path r =
     map_option (\<lambda>h. json_text (rp_Body (h s now r)) @ [CHR 0x0A]) (map_of routes path)"

lemma hex_encode_eq_Nil: "hex_encode x = [] \<longleftrightarrow> x = []"
  by (cases x) auto

lemma unmarshal_reply:
  "json_printable v \<Longrightarrow> json_depth v \<le> max_nesting \<Longrightarrow>
   unmarshal_into d (json_text v @ [CHR 0x0A]) zero = d v zero"
  by (simp add: unmarshal_into_def json_unmarshal_text_newline)

lemma dec_PongPayload [simp]:
  "valid_utf8 nonce \<Longrightarrow> int64 now \<Longrightarrow>
   dec_struct PongPayload_fields (PongPayload_json \<lparr>pong_Nonce = nonce, pong_ReceivedAt = now\<rparr>)
     zero_PongPayload = Some \<lparr>pong_Nonce = nonce, pong_ReceivedAt = now\<rparr>"
  by (simp add: PongPayload_json_def PongPayload_fields_def field_for_exact dec_field_def
      zero_PongPayload_def)

lemma dec_PingPayload [simp]:
  "valid_utf8 nonce \<Longrightarrow> int64 t \<Longrightarrow>
   dec_struct PingPayload_fields
     (PingPayload_json (zero_PingPayload\<lparr>ping_Nonce := nonce, ping_SentAt := t\<rparr>)) zero_PingPayload
   = Some (zero_PingPayload\<lparr>ping_Nonce := nonce, ping_SentAt := t\<rparr>)"
  by (simp add: PingPayload_json_def PingPayload_fields_def field_for_exact dec_field_def
      zero_PingPayload_def omit_empty_def)

lemma sender_ok_CurrentSender: "valid_utf8 p \<Longrightarrow> sender_ok (CurrentSender p)"
  by (simp add: sender_ok_def CurrentSender_def go_consts int64_def valid_utf8_ascii)

lemma pong_envelope_ok:
  assumes "valid_utf8 (sv_platform s)" "list_all valid_utf8 (sv_caps s)" "valid_utf8 nonce" "int64 now"
  shows "envelope_ok (pong_envelope s now nonce)"
  using assms sender_ok_CurrentSender[OF assms(1)]
  by (simp add: envelope_ok_def pong_envelope_def NewEnvelope_def Server_Sender_def PongPayload_json_def
      go_consts type_consts int64_def valid_utf8_ascii max_nesting_def)

lemma ping_envelope_ok:
  assumes "sender_ok sender" "list_all valid_utf8 caps" "valid_utf8 nonce" "int64 t"
  shows "envelope_ok (NewEnvelope TypePing sender caps
    (Some (PingPayload_json (zero_PingPayload\<lparr>ping_Nonce := nonce, ping_SentAt := t\<rparr>))))"
  using assms
  by (simp add: envelope_ok_def NewEnvelope_def PingPayload_json_def zero_PingPayload_def omit_empty_def
      go_consts type_consts int64_def valid_utf8_ascii max_nesting_def)

lemma gate_printed:
  assumes "envelope_ok (NewEnvelope t sender caps payload)" "CheckPeerVersion sender = None"
  shows "ParseAndGateHeader (json_text (Envelope_json (NewEnvelope t sender caps payload)))
           = (header_of (NewEnvelope t sender caps payload), None)"
    and "unmarshal_into (dec_struct Envelope_fields)
           (json_text (Envelope_json (NewEnvelope t sender caps payload))) zero_Envelope
           = Some (NewEnvelope t sender caps payload)"
proof -
  note ok = Envelope_json_printable[OF assms(1)]
  have "unmarshal_into (dec_struct Header_fields)
      (json_text (Envelope_json (NewEnvelope t sender caps payload))) zero_Header
      = Some (header_of (NewEnvelope t sender caps payload))"
    by (simp only: unmarshal_into_text[OF ok] dec_Header_json[OF assms(1)])
  then show "ParseAndGateHeader (json_text (Envelope_json (NewEnvelope t sender caps payload)))
      = (header_of (NewEnvelope t sender caps payload), None)"
    using assms(2) by (subst gate_iff) (simp add: header_of_def NewEnvelope_def CheckPeerVersion_iff)
  show "unmarshal_into (dec_struct Envelope_fields)
      (json_text (Envelope_json (NewEnvelope t sender caps payload))) zero_Envelope
      = Some (NewEnvelope t sender caps payload)"
    by (simp only: unmarshal_into_text[OF ok] dec_Envelope_json[OF assms(1)])
qed

lemma read_printed_reply:
  assumes "envelope_ok env" "length (json_text (Envelope_json env)) < MaxBodyBytes"
  shows "unmarshal_into (dec_struct Envelope_fields)
    (take MaxBodyBytes (json_text (Envelope_json env) @ [CHR 0x0A])) zero_Envelope = Some env"
  using assms(2) unmarshal_reply[OF Envelope_json_printable[OF assms(1)], of "dec_struct Envelope_fields" zero_Envelope]
    dec_Envelope_json[OF assms(1)]
  by simp

lemma read_reply_printed:
  assumes "envelope_ok env" "length (json_text (Envelope_json env)) < MaxBodyBytes"
    and "env_ProtocolV env = CurrentProtocolV"
  shows "read_reply nonce (Some (json_text (Envelope_json env) @ [CHR 0x0A])) =
    (if env_Type env = TypeError then (peerInfoFromReply env, Inl (updateErrorFrom env))
     else if env_Type env \<noteq> TypePong then (zero_PeerInfo, Inl (UnexpectedType (env_Type env)))
     else case DecodePayload (dec_struct PongPayload_fields) zero_PongPayload env of
       Inl e \<Rightarrow> (zero_PeerInfo, Inl (BadPayload e))
     | Inr pong \<Rightarrow>
         if nonce \<noteq> pong_Nonce pong then (zero_PeerInfo, Inl ErrNonceMismatch)
         else (peerInfoFromReply env, Inr pong))"
proof -
  have "CheckProtocolVersion (env_ProtocolV env) = None" using assms(3) by (simp add: CheckProtocolVersion_iff)
  then show ?thesis
    by (simp only: read_reply_def option.case read_printed_reply[OF assms(1,2)] VerifyToken_iff)
qed

lemma bearer_request_token: "trim_space token = token \<Longrightarrow> bearerToken (bearer_request token env) = token"
  by (simp add: bearerToken_def bearer_request_def)

lemma ping_request_pong:
  assumes "sender_ok sender" "CheckPeerVersion sender = None" "CapabilityPing \<in> set caps"
    and "list_all valid_utf8 caps" "valid_utf8 nonce" "nonce \<noteq> []" "int64 t"
    and "trim_space (sv_token s) = sv_token s"
    and "length (json_text (Envelope_json env)) \<le> MaxBodyBytes"
    and env: "env = NewEnvelope TypePing sender caps
      (Some (PingPayload_json (zero_PingPayload\<lparr>ping_Nonce := nonce, ping_SentAt := t\<rparr>)))"
  shows "handlePing s now (bearer_request (sv_token s) env) = pong_reply s now nonce"
proof -
  let ?r = "bearer_request (sv_token s) env"
  have ok: "envelope_ok env" unfolding env using assms by (intro ping_envelope_ok)
  have r: "rq_Method ?r = ''POST''" "rq_Body ?r = json_text (Envelope_json env)"
    by (simp_all add: bearer_request_def)
  have b: "read_body ?r = Some (rq_Body ?r)"
    using assms(9) by (simp add: read_body_def bearer_request_def)
  let ?p = "zero_PingPayload\<lparr>ping_Nonce := nonce, ping_SentAt := t\<rparr>"
  have "ParseAndGateHeader (rq_Body ?r) = (header_of env, None)"
    unfolding r(2) unfolding env by (rule gate_printed(1)[OF ok[unfolded env] assms(2)])
  moreover have "unmarshal_into (dec_struct Envelope_fields) (rq_Body ?r) zero_Envelope = Some env"
    unfolding r(2) unfolding env by (rule gate_printed(2)[OF ok[unfolded env] assms(2)])
  moreover have "h_Type (header_of env) = TypePing" "CapabilityPing \<in> set (h_Capabilities (header_of env))"
    using assms(3) by (simp_all add: env header_of_def NewEnvelope_def)
  moreover have "DecodePayload (dec_struct PingPayload_fields) zero_PingPayload env = Inr ?p"
    using dec_PingPayload[OF assms(5,7)] by (simp add: DecodePayload_def env NewEnvelope_def)
  moreover have "ping_Nonce ?p = nonce" by simp
  ultimately have "pingable s ?r nonce"
    using r b bearer_request_token[OF assms(8)] assms(6) unfolding pingable_def by blast
  moreover have "n = nonce" if "pingable s ?r n" for n
    using that \<open>pingable s ?r nonce\<close> by (auto simp: pingable_def)
  ultimately show ?thesis using handlePing_cases[of s ?r now] by metis
qed

text \<open>
  C20. A ping is answered: a client whose build the server's gate accepts, that advertises the
  ping capability and holds the server's token, pings a server over a network that delivers,
  and gets back the pong with the nonce it drew and the identity of the server; for UTF-8
  names, 64-bit clocks, a token without outer space and messages within the body limit.
\<close>

theorem ping_answered:
  assumes "sender_ok sender" "CheckPeerVersion sender = None" "CapabilityPing \<in> set caps"
    and "list_all valid_utf8 caps" "random8 \<noteq> []" "int64 t" "int64 now"
    and "valid_utf8 (sv_platform s)" "list_all valid_utf8 (sv_caps s)"
    and "trim_space (sv_token s) = sv_token s"
    and "length (json_text (Envelope_json (NewEnvelope TypePing sender caps (Some (PingPayload_json
           (zero_PingPayload\<lparr>ping_Nonce := hex_encode random8, ping_SentAt := t\<rparr>)))))) \<le> MaxBodyBytes"
    and "length (json_text (Envelope_json (pong_envelope s now (hex_encode random8)))) < MaxBodyBytes"
  shows "SendPing (server_post s now) (Some random8) (sv_token s) sender caps t =
    (\<lparr>pi_Platform = sv_platform s, pi_AppBuild = CurrentBuild, pi_AppVersion = CurrentAppVersion,
      pi_Capabilities = sv_caps s\<rparr>,
     Inr \<lparr>pong_Nonce = hex_encode random8, pong_ReceivedAt = now\<rparr>)"
proof -
  have n: "valid_utf8 (hex_encode random8)" "hex_encode random8 \<noteq> []"
    using assms(5) ascii_hex_encode[of random8] valid_utf8_ascii[of "hex_encode random8"]
    by (simp_all add: ascii_def list_all_iff hex_encode_eq_Nil)
  define env where "env = NewEnvelope TypePing sender caps (Some (PingPayload_json
           (zero_PingPayload\<lparr>ping_Nonce := hex_encode random8, ping_SentAt := t\<rparr>)))"
  have "map_of routes ''/ping'' = Some handlePing" by (simp add: routes_def)
  then have "server_post s now ''/ping'' (bearer_request (sv_token s) env) =
      Some (json_text (Envelope_json (pong_envelope s now (hex_encode random8))) @ [CHR 0x0A])"
    using ping_request_pong[OF assms(1-4) n assms(6,10) assms(11)[folded env_def] env_def, of now]
    by (simp add: server_post_def pong_reply_def)
  moreover have "read_reply (hex_encode random8)
      (Some (json_text (Envelope_json (pong_envelope s now (hex_encode random8))) @ [CHR 0x0A])) =
    (\<lparr>pi_Platform = sv_platform s, pi_AppBuild = CurrentBuild, pi_AppVersion = CurrentAppVersion,
      pi_Capabilities = sv_caps s\<rparr>,
     Inr \<lparr>pong_Nonce = hex_encode random8, pong_ReceivedAt = now\<rparr>)"
    using n(1) assms(7)
    by (subst read_reply_printed[OF pong_envelope_ok[OF assms(8,9) n(1) assms(7)] assms(12)])
      (simp_all add: pong_envelope_def NewEnvelope_def type_consts DecodePayload_def
        peerInfoFromReply_def Server_Sender_def CurrentSender_def)
  ultimately show ?thesis by (simp add: SendPing_def freshNonce_def env_def Let_def)
qed

lemma json_quote_body_ascii: "ascii s \<Longrightarrow> json_quote_body s = concat (map escape_ascii s)"
  by (induction s) (simp_all add: json_quote_body.simps ascii_def)

theorem ping_answered_witness:
  "SendPing (server_post demo_server 1700000000) (Some ''abcdefgh'') ''old'' (CurrentSender ''android'')
     [''ping''] 1690000000 =
   (\<lparr>pi_Platform = ''macos'', pi_AppBuild = 13, pi_AppVersion = ''0.13.0'', pi_Capabilities = [''ping'']\<rparr>,
    Inr \<lparr>pong_Nonce = ''6162636465666768'', pong_ReceivedAt = 1700000000\<rparr>)"
proof -
  have nums: "format_int 1700000000 = ''1700000000''" "format_int 1690000000 = ''1690000000''"
    "format_int 13 = ''13''" "format_int 1 = ''1''"
    by (simp_all add: format_int_def dec_digits.simps digit_char_def) code_simp+
  have hex: "hex_encode ''abcdefgh'' = ''6162636465666768''" by (simp add: hex_char_def) code_simp
  have "length (json_text (Envelope_json (NewEnvelope TypePing (CurrentSender ''android'') [''ping'']
       (Some (PingPayload_json (zero_PingPayload\<lparr>ping_Nonce := hex_encode ''abcdefgh'',
          ping_SentAt := 1690000000\<rparr>)))))) < 500"
    unfolding hex by (simp add: Envelope_json_def NewEnvelope_def SenderInfo_json_def CurrentSender_def
        PingPayload_json_def zero_PingPayload_def omit_empty_def json_quote_def go_consts type_consts
        json_quote_body_ascii ascii_def escape_ascii_def jint_def nums)
  moreover have "length (json_text (Envelope_json (pong_envelope demo_server 1700000000 (hex_encode ''abcdefgh'')))) < 500"
    unfolding hex by (simp add: Envelope_json_def NewEnvelope_def SenderInfo_json_def CurrentSender_def
        pong_envelope_def Server_Sender_def demo_server_def PongPayload_json_def omit_empty_def
        json_quote_def go_consts type_consts json_quote_body_ascii ascii_def escape_ascii_def jint_def nums)
  ultimately have len: "length (json_text (Envelope_json (NewEnvelope TypePing (CurrentSender ''android'') [''ping'']
       (Some (PingPayload_json (zero_PingPayload\<lparr>ping_Nonce := hex_encode ''abcdefgh'',
          ping_SentAt := 1690000000\<rparr>)))))) \<le> MaxBodyBytes"
    "length (json_text (Envelope_json (pong_envelope demo_server 1700000000 (hex_encode ''abcdefgh''))))
       < MaxBodyBytes"
    by (simp_all add: MaxBodyBytes_def)
  have "sender_ok (CurrentSender ''android'')" by (rule sender_ok_CurrentSender) (simp add: valid_utf8_ascii)
  then have "SendPing (server_post demo_server 1700000000) (Some ''abcdefgh'') (sv_token demo_server)
     (CurrentSender ''android'') [''ping''] 1690000000 =
   (\<lparr>pi_Platform = sv_platform demo_server, pi_AppBuild = CurrentBuild, pi_AppVersion = CurrentAppVersion,
      pi_Capabilities = sv_caps demo_server\<rparr>,
    Inr \<lparr>pong_Nonce = hex_encode ''abcdefgh'', pong_ReceivedAt = 1700000000\<rparr>)"
    by (rule ping_answered) (use len in \<open>simp_all add: CheckPeerVersion_iff CurrentSender_def go_consts
        type_consts valid_utf8_ascii int64_def demo_server_def go_eval\<close>)
  then show ?thesis unfolding hex by (simp add: demo_server_def go_consts)
qed

section \<open>Updates, routes and certificates\<close>

lemma dec_UpdateRequired:
  assumes "valid_utf8 (ur_Code p)" "valid_utf8 (ur_Message p)" "valid_utf8 (ur_RequiredVersion p)"
    "valid_utf8 (ur_CurrentVersion p)" "valid_utf8 (ur_Device p)" "int64 (ur_RequiredBuild p)"
  shows "dec_struct ErrorPayload_fields (UpdateRequiredPayload_json p) zero_ErrorPayload =
    Some \<lparr>ep_Code = ur_Code p, ep_Message = ur_Message p, ep_RequiredBuild = ur_RequiredBuild p,
      ep_RequiredVersion = ur_RequiredVersion p, ep_CurrentVersion = ur_CurrentVersion p,
      ep_Device = ur_Device p\<rparr>"
proof -
  have "field_for ErrorPayload_fields ''current_build'' = None"
    by (simp add: ErrorPayload_fields_def field_for_def fold_rune_def)
  then show ?thesis using assms
    by (simp add: UpdateRequiredPayload_json_def ErrorPayload_fields_def field_for_exact dec_field_def
        zero_ErrorPayload_def omit_empty_def)
qed

definition paths_agree :: "string \<Rightarrow> (string \<times> string) list \<Rightarrow> bool" where
  "paths_agree p accepts = list_all (\<lambda>t. FeaturePath (fst t) = p) accepts"

lemma paths_agreeD: "paths_agree p xs \<Longrightarrow> map_of xs t \<noteq> None \<Longrightarrow> FeaturePath t = p"
  by (auto simp: paths_agree_def list_all_iff dest!: map_of_SomeD)

lemma feature_paths:
  "handleNotif_accepts t \<noteq> None \<Longrightarrow> FeaturePath t = ''/notif''"
  "handleClip_accepts t \<noteq> None \<Longrightarrow> FeaturePath t = ''/clip''"
  "handleSettings_accepts t \<noteq> None \<Longrightarrow> FeaturePath t = ''/settings''"
  "handleUnpair_accepts t \<noteq> None \<Longrightarrow> FeaturePath t = ''/unpair''"
  "handleFiles_accepts t \<noteq> None \<Longrightarrow> FeaturePath t = ''/files''"
  "handlePhotos_accepts t \<noteq> None \<Longrightarrow> FeaturePath t = ''/photos''"
  unfolding handleNotif_accepts_def handleClip_accepts_def handleSettings_accepts_def
    handleUnpair_accepts_def handleFiles_accepts_def handlePhotos_accepts_def
  by (erule paths_agreeD[rotated], simp add: paths_agree_def FeaturePath_def type_consts)+

lemma routes_of [simp]:
  "map_of routes ''/notif'' = Some handleNotif" "map_of routes ''/clip'' = Some handleClip"
  "map_of routes ''/settings'' = Some handleSettings" "map_of routes ''/unpair'' = Some handleUnpair"
  "map_of routes ''/files'' = Some handleFiles" "map_of routes ''/photos'' = Some handlePhotos"
  by (simp_all add: routes_def)

text \<open>
  A feature message goes to the route that takes its type: the path the client picks is
  that of the handler that accepts the type, for every type of notifications, clipboard,
  settings, unpairing, files and photos.
\<close>

theorem feature_path_routes:
  assumes "(p, accepts, h) \<in> {(''/notif'', handleNotif_accepts, handleNotif),
      (''/clip'', handleClip_accepts, handleClip), (''/settings'', handleSettings_accepts, handleSettings),
      (''/unpair'', handleUnpair_accepts, handleUnpair), (''/files'', handleFiles_accepts, handleFiles),
      (''/photos'', handlePhotos_accepts, handlePhotos)}"
    and "accepts t \<noteq> None"
  shows "FeaturePath t = p \<and> map_of routes (FeaturePath t) = Some h"
  using assms(1)
proof (elim insertE emptyE Pair_inject)
qed (use assms(2) feature_paths in simp_all)

theorem feature_path_routes_witness:
  "FeaturePath ''file-chunk'' = ''/files'' \<and> map_of routes (FeaturePath ''file-chunk'') = Some handleFiles"
  by (rule feature_path_routes[of _ handleFiles_accepts]) (simp_all add: handleFiles_accepts_def type_consts)

text \<open>
  The types of playback, Do Not Disturb, contacts and messages have a route too, but the
  client sends them to the ping route, where the server refuses every type but ping.
\<close>

theorem feature_path_missing:
  "list_all (\<lambda>t. FeaturePath t = ''/ping'') [TypePlaybackState, TypePlaybackCmd, TypeDNDState, TypeDNDSet,
     TypeContactsListReq, TypeSMSThreadsReq, TypeSMSSendReq, TypeSMSPush] \<and>
   (if h_Type hdr = TypePing then True else after_ping_gate s now r hdr =
      reject s 400 ''wrong_type'' ''expected ping message'')"
  by (simp add: FeaturePath_def type_consts after_ping_gate_def)

text \<open>
  C28. A pinned client talks to one certificate only: for the fingerprint a server shows for
  its certificate, in any case and with outer spaces, the client's check accepts a chain of
  certificates exactly when the leaf has the same SHA-256; and a client is built exactly for
  the fingerprints that decode to 32 bytes.
\<close>

theorem tofu_pins_leaf:
  assumes "TLSCertFingerprint cert = Inr fp" "to_lower (trim_space shown) = fp"
  shows "\<exists>check. NewTOFUClient shown = Some check \<and>
           (check chain \<longleftrightarrow> chain \<noteq> [] \<and> sha256 (hd chain) = sha256 (hd cert))"
proof -
  obtain der rest where c: "cert = der # rest" "fp = hex_encode (sha256 der)"
    using assms(1) by (auto simp: TLSCertFingerprint_def split: list.splits)
  then show ?thesis using assms(2)
    by (auto simp: NewTOFUClient_def length_sha256 VerifyToken_iff split: list.splits)
qed

lemma lower_trim_hex: "to_lower (trim_space (hex_encode x)) = hex_encode x"
  using hex_encode_lower[of _ x]
  by (intro lower_word_fixed) (force simp: lower_word_def is_lower_hex_def list_all_iff)

theorem tofu_pins_leaf_witness:
  "\<exists>check. NewTOFUClient (hex_encode (sha256 ''leaf'')) = Some check \<and>
     (check [''leaf''] \<longleftrightarrow> [''leaf''] \<noteq> [] \<and> sha256 (hd [''leaf'']) = sha256 (hd [''leaf'']))"
proof (rule tofu_pins_leaf)
  show "TLSCertFingerprint [''leaf''] = Inr (hex_encode (sha256 ''leaf''))"
    by (simp add: TLSCertFingerprint_def)
  show "to_lower (trim_space (hex_encode (sha256 ''leaf''))) = hex_encode (sha256 ''leaf'')"
    by (simp add: lower_trim_hex)
qed

lemma ascii_format_int: "ascii (format_int i)"
  using dec_digits_all_dec by (force simp: ascii_def format_int_def list_all_iff is_dec_def)

lemma ascii_AppVersionForBuild: "ascii (AppVersionForBuild b)"
proof (cases "BuildToVersion b")
  case (Some v)
  then have "v \<in> set [''0.1.0'', ''0.2.0'', ''0.3.0'', ''0.4.0'', ''0.5.0'', ''0.6.0'', ''0.7.0'', ''0.8.0'',
      ''0.9.0'', ''0.10.0'', ''0.11.0'', ''0.12.0'', ''0.13.0'']"
    unfolding BuildToVersion_def by (drule_tac map_of_SomeD) auto
  then show ?thesis using Some by (auto simp: AppVersionForBuild_def ascii_def)
qed (simp add: AppVersionForBuild_def ascii_def)

lemma valid_utf8_of_ascii: "ascii s \<Longrightarrow> valid_utf8 s"
  by (rule valid_utf8_ascii) (simp add: ascii_def list_all_iff)

lemma ascii_update_message:
  assumes "ascii device"
  shows "ascii (ur_Message (NewUpdateRequiredPayload device build))"
proof -
  have "ascii ''Update FuseItAll on ''" "ascii '' to ''" "ascii '' (build >= ''" "ascii ''); current ''"
    "ascii CurrentAppVersion" "ascii '' (build ''" "ascii '')''" "ascii '' to build >= ''"
    by (simp_all add: ascii_def go_consts)
  then show ?thesis using assms ascii_format_int ascii_AppVersionForBuild
    by (simp add: NewUpdateRequiredPayload_def Let_def)
qed

lemma update_envelope_ok:
  assumes "valid_utf8 (sv_platform s)" "list_all valid_utf8 (sv_caps s)" "ascii device" "int64 build"
  shows "envelope_ok (update_envelope s device build)"
proof -
  have "json_printable (UpdateRequiredPayload_json (NewUpdateRequiredPayload device build)) \<and>
        json_depth (UpdateRequiredPayload_json (NewUpdateRequiredPayload device build)) < max_nesting"
    using valid_utf8_of_ascii[OF ascii_update_message[OF assms(3)], of build] assms(3,4)
      valid_utf8_of_ascii[OF ascii_AppVersionForBuild] valid_utf8_of_ascii[of device]
    by (simp add: UpdateRequiredPayload_json_def omit_empty_def valid_utf8_ascii max_nesting_def
        NewUpdateRequiredPayload_def Let_def go_consts int64_def)
  then show ?thesis
    using assms(1,2) sender_ok_CurrentSender[OF assms(1)]
    by (simp add: envelope_ok_def update_envelope_def NewEnvelope_def Server_Sender_def
        go_consts type_consts int64_def valid_utf8_ascii)
qed

text \<open>An update reply written out, for the witnesses.\<close>

lemma demo_update:
  "AppVersionForBuild 20 = []"
  "ur_Message (NewUpdateRequiredPayload ''android'' 20) = ''Update FuseItAll on android to build >= 20''"
  "length (json_text (Envelope_json (update_envelope demo_server ''android'' 20))) < MaxBodyBytes"
proof -
  have nums: "format_int 20 = ''20''" "format_int 13 = ''13''" "format_int 1 = ''1''"
    by (simp_all add: format_int_def dec_digits.simps digit_char_def) code_simp+
  show v: "AppVersionForBuild 20 = []" by (simp add: AppVersionForBuild_def BuildToVersion_def)
  show "ur_Message (NewUpdateRequiredPayload ''android'' 20) = ''Update FuseItAll on android to build >= 20''"
    by (simp add: NewUpdateRequiredPayload_def Let_def v nums)
  have "length (json_text (Envelope_json (update_envelope demo_server ''android'' 20))) < 700"
    by (simp add: Envelope_json_def NewEnvelope_def SenderInfo_json_def CurrentSender_def
        update_envelope_def Server_Sender_def demo_server_def UpdateRequiredPayload_json_def omit_empty_def
        NewUpdateRequiredPayload_def v Let_def
        json_quote_def go_consts type_consts json_quote_body_ascii ascii_def escape_ascii_def jint_def nums)
  then show "length (json_text (Envelope_json (update_envelope demo_server ''android'' 20))) < MaxBodyBytes"
    by (simp add: MaxBodyBytes_def)
qed

text \<open>
  An outdated peer learns what to do: when the server answers UPDATE_REQUIRED, the client
  gets an update error with the device, the build and version the server asks for and the
  message the server composed, and the error blames this side exactly when the build asked
  for is above its own; for an ASCII device name, a 64-bit build and a reply within the body
  limit.
\<close>

theorem update_reply_understood:
  assumes "valid_utf8 (sv_platform s)" "list_all valid_utf8 (sv_caps s)" "ascii device" "int64 build"
    and "length (json_text (Envelope_json (update_envelope s device build))) < MaxBodyBytes"
  shows "read_reply nonce (Some (json_text (rp_Body (rejectUpdate s device build)) @ [CHR 0x0A])) =
    (\<lparr>pi_Platform = sv_platform s, pi_AppBuild = CurrentBuild, pi_AppVersion = CurrentAppVersion,
      pi_Capabilities = sv_caps s\<rparr>,
     Inl (UpdateRequired \<lparr>ue_Device = device, ue_RequiredBuild = build,
       ue_RequiredVersion = AppVersionForBuild build, ue_CurrentVersion = CurrentAppVersion,
       ue_Message = ur_Message (NewUpdateRequiredPayload device build),
       ue_LocalOutdated = (CurrentBuild < build)\<rparr>))"
proof -
  let ?p = "NewUpdateRequiredPayload device build"
  have f: "ur_Code ?p = CodeUpdateRequired" "ur_RequiredBuild ?p = build" "ur_Device ?p = device"
    "ur_RequiredVersion ?p = AppVersionForBuild build" "ur_CurrentVersion ?p = CurrentAppVersion"
    by (simp_all add: NewUpdateRequiredPayload_def Let_def)
  have d: "dec_struct ErrorPayload_fields (UpdateRequiredPayload_json ?p) zero_ErrorPayload =
    Some \<lparr>ep_Code = CodeUpdateRequired, ep_Message = ur_Message ?p, ep_RequiredBuild = build,
      ep_RequiredVersion = AppVersionForBuild build, ep_CurrentVersion = CurrentAppVersion,
      ep_Device = device\<rparr>"
    using dec_UpdateRequired[of ?p] f assms(4) valid_utf8_of_ascii[OF assms(3)]
      valid_utf8_of_ascii[OF ascii_update_message[OF assms(3)], of build]
      valid_utf8_of_ascii[OF ascii_AppVersionForBuild]
    by (simp add: go_consts valid_utf8_ascii)
  have e: "rp_Body (rejectUpdate s device build) = Envelope_json (update_envelope s device build)"
    by (simp add: rejectUpdate_def)
  show ?thesis
    unfolding e
    by (subst read_reply_printed[OF update_envelope_ok[OF assms(1-4)] assms(5)])
      (simp_all add: update_envelope_def NewEnvelope_def updateErrorFrom_def DecodePayload_def d
        peerInfoFromReply_def Server_Sender_def CurrentSender_def)
qed

theorem update_reply_understood_witness:
  "read_reply ''n'' (Some (json_text (rp_Body (rejectUpdate demo_server ''android'' 20)) @ [CHR 0x0A])) =
    (\<lparr>pi_Platform = ''macos'', pi_AppBuild = 13, pi_AppVersion = ''0.13.0'', pi_Capabilities = [''ping'']\<rparr>,
     Inl (UpdateRequired \<lparr>ue_Device = ''android'', ue_RequiredBuild = 20, ue_RequiredVersion = [],
       ue_CurrentVersion = ''0.13.0'', ue_Message = ''Update FuseItAll on android to build >= 20'',
       ue_LocalOutdated = True\<rparr>))"
proof -
  have "read_reply ''n'' (Some (json_text (rp_Body (rejectUpdate demo_server ''android'' 20)) @ [CHR 0x0A])) =
    (\<lparr>pi_Platform = sv_platform demo_server, pi_AppBuild = CurrentBuild, pi_AppVersion = CurrentAppVersion,
      pi_Capabilities = sv_caps demo_server\<rparr>,
     Inl (UpdateRequired \<lparr>ue_Device = ''android'', ue_RequiredBuild = 20,
       ue_RequiredVersion = AppVersionForBuild 20, ue_CurrentVersion = CurrentAppVersion,
       ue_Message = ur_Message (NewUpdateRequiredPayload ''android'' 20),
       ue_LocalOutdated = (CurrentBuild < 20)\<rparr>))"
    by (intro update_reply_understood demo_update)
      (simp_all add: demo_server_def valid_utf8_ascii ascii_def int64_def)
  then show ?thesis by (simp only: demo_update(1,2)) (simp add: demo_server_def go_consts)
qed

end
