(* ===== verification/Waiters.thy ===== *)
theory Waiters
  imports Sync_Reliability Ping_Client
begin

text \<open>
  Requests to the phone that wait for an answer. Every backend that asks the phone something
  keeps a map from request ids to channels of capacity one: the caller registers a channel,
  sends, and waits; the ingestion of the answer sends to the channel without blocking
  (\<open>select\<close> with a \<open>default\<close>), so that the first answer stays and later ones are dropped; a
  disconnect sends an error to every channel and empties the map. A waiter is \<open>Some None\<close> in
  the map while its channel is empty and \<open>Some (Some r)\<close> once it holds \<open>r\<close>.
\<close>

type_synonym 'r waiters = "string \<rightharpoonup> 'r option"

definition register_waiter :: "string \<Rightarrow> 'r waiters \<Rightarrow> 'r waiters" where
  "register_waiter req w = w(req \<mapsto> None)"

definition offer :: "'r \<Rightarrow> 'r option \<Rightarrow> 'r option" where
  "offer r ch = (case ch of None \<Rightarrow> Some r | Some old \<Rightarrow> Some old)"

definition deliver :: "string \<Rightarrow> 'r \<Rightarrow> 'r waiters \<Rightarrow> 'r waiters" where
  "deliver req r w = (case w req of None \<Rightarrow> w | Some ch \<Rightarrow> w(req \<mapsto> offer r ch))"

definition answer_of :: "string \<Rightarrow> 'r waiters \<Rightarrow> 'r option" where
  "answer_of req w = (case w req of None \<Rightarrow> None | Some ch \<Rightarrow> ch)"

text \<open>What the channels hold after a disconnect.\<close>

definition fail_all :: "'r \<Rightarrow> 'r waiters \<Rightarrow> (string \<rightharpoonup> 'r)" where
  "fail_all err w = (\<lambda>req. case w req of None \<Rightarrow> None | Some ch \<Rightarrow> offer err ch)"

lemma deliver_other [simp]: "req \<noteq> req' \<Longrightarrow> deliver req r w req' = w req'"
  by (simp add: deliver_def split: option.split)

lemma dom_deliver [simp]: "dom (deliver req r w) = dom w"
  by (auto simp: deliver_def split: option.splits)

lemma deliver_None [simp]: "deliver req r w q = None \<longleftrightarrow> w q = None"
  by (auto simp: deliver_def split: option.split)

lemma answer_of_deliver:
  "answer_of req (deliver req r w) =
     (case w req of None \<Rightarrow> None | Some None \<Rightarrow> Some r | Some (Some old) \<Rightarrow> Some old)"
  by (simp add: answer_of_def deliver_def offer_def split: option.split)

lemma deliver_first: "answer_of req w = Some r \<Longrightarrow> deliver req r' w = w"
  by (auto simp: answer_of_def deliver_def offer_def split: option.splits)

text \<open>Everyone who waits is answered by a disconnect, and nobody else.\<close>

lemma dom_fail_all [simp]: "dom (fail_all err w) = dom w"
  by (auto simp: fail_all_def offer_def dom_def split: option.splits)

text \<open>The correlation id of a request: the first sixteen characters of a fresh transfer id.\<close>

definition freshReqID :: "string option \<Rightarrow> string option" where
  "freshReqID random16 = map_option (\<lambda>b. take 16 (hex_encode b)) random16"

definition em_dash :: string where
  "em_dash = [CHR 0xE2, CHR 0x80, CHR 0x94]"

text \<open>\<open>json.Unmarshal\<close> of the payload of an envelope; an absent payload is an error.\<close>

definition payload_as :: "'a fields \<Rightarrow> 'a \<Rightarrow> Envelope \<Rightarrow> 'a option" where
  "payload_as fs zero env = Option.bind (env_Payload env) (\<lambda>v. dec_struct fs v zero)"

definition CodeCursorInvalid :: string where [go_consts]: "CodeCursorInvalid = ''cursor_invalid''"
definition CodeSyncTimeout :: string where [go_consts]: "CodeSyncTimeout = ''timeout''"

text \<open>How a request ends without an answer of the phone.\<close>

datatype 'u request_error =
    InvalidCursor
  | InvalidLimit
  | InvalidTarget
  | CursorRejected
  | PhoneOffline
  | NeedsUpdate 'u
  | NoEntropyLeft
  | SendFailed
  | SyncTimeout
  | PhoneError string

type_synonym list_error = "UpdateRequiredError request_error"

section \<open>Requests for pages\<close>

text \<open>
  Listings keep, beside the channel of a request, what was asked for and the generation of the
  cache at that time. The two tables have the same domain, and no request is of a later
  generation than the cache (\<open>gen_of\<close> reads it from what was asked for).
\<close>

definition requests_ok :: "('m \<Rightarrow> int) \<Rightarrow> int \<Rightarrow> 'r waiters \<Rightarrow> (string \<rightharpoonup> 'm) \<Rightarrow> bool" where
  "requests_ok gen_of gen w m \<longleftrightarrow>
     (\<forall>req. (m req = None) = (w req = None) \<and> (\<forall>meta. m req = Some meta \<longrightarrow> gen_of meta \<le> gen))"

definition registers :: "('m \<Rightarrow> int) \<Rightarrow> int \<Rightarrow> 'r waiters \<Rightarrow> (string \<rightharpoonup> 'm) \<Rightarrow> 'r waiters \<Rightarrow>
    (string \<rightharpoonup> 'm) \<Rightarrow> bool" where
  "registers gen_of gen w m w' m' \<longleftrightarrow>
     (w' = w \<and> m' = m) \<or>
     (\<exists>req meta. w' = register_waiter req w \<and> m' = m(req \<mapsto> meta) \<and> gen_of meta = gen)"

lemma registers_same [simp]: "registers g n w m w m" by (simp add: registers_def)

lemma registers_new [simp]: "g meta = n \<Longrightarrow> registers g n w m (register_waiter req w) (m(req \<mapsto> meta))"
  by (auto simp: registers_def)

lemma requests_ok_registers: "requests_ok g n w m \<Longrightarrow> registers g n w m w' m' \<Longrightarrow> requests_ok g n w' m'"
  by (auto simp: requests_ok_def registers_def register_waiter_def split: if_splits)

lemma requests_ok_remove: "requests_ok g n w m \<Longrightarrow> requests_ok g n (w(req := None)) (m(req := None))"
  by (simp add: requests_ok_def)

lemma requests_ok_deliver [simp]: "requests_ok g n (deliver req r w) m = requests_ok g n w m"
  by (simp add: requests_ok_def)

lemma requests_ok_later: "requests_ok g n w m \<Longrightarrow> n \<le> n' \<Longrightarrow> requests_ok g n' w m"
  by (force simp: requests_ok_def)

lemma requests_ok_empty: "requests_ok g n w m \<Longrightarrow> requests_ok g n Map.empty (m |` (- dom w))"
  by (auto simp: requests_ok_def restrict_map_def fun_eq_iff)

lemma requests_ok_new [simp]: "requests_ok g n Map.empty Map.empty"
  by (simp add: requests_ok_def)

end
