(* ===== verification/File_State.thy ===== *)
theory File_State
  imports Files Go_Sha256 Waiters "HOL-Library.AList"
begin

text \<open>
  What the Mac knows of its file transfers: the tables of \<open>apps/mac/backend\<close> that \<open>fileMu\<close>
  guards (transfers, drops, retry sessions, pending requests), the local disk, and the
  operations that every transfer shares: failing, cancelling and finishing.

  A Go map is an association list with distinct keys; where the code ranges over a map, the
  order of the list stands for the order Go picks. A hash in progress is the string it was
  fed. Times are nanoseconds, \<open>None\<close> the zero time. A channel that a sender waits on is a
  waiter of the theory \<open>Waiters\<close>, whose answer \<open>None\<close> is the nil error. The snapshots that UI
  events carry prune the tables; they are operations of their own here (\<open>GetTransfers\<close>,
  \<open>GetTransferBatches\<close>).
\<close>

section \<open>Data\<close>

record FileEntryView =
  fv_Name :: string
  fv_Path :: string
  fv_IsDir :: bool
  fv_Size :: int
  fv_ModTime :: int
  fv_Mime :: string

record FileListResult =
  lv_Path :: string
  lv_Entries :: "FileEntryView list"
  lv_Error :: string
  lv_ErrorCode :: string
  lv_Permission :: string

definition zero_FileListResult :: FileListResult where
  "zero_FileListResult =
     \<lparr>lv_Path = [], lv_Entries = [], lv_Error = [], lv_ErrorCode = [], lv_Permission = []\<rparr>"

record FileTransfer =
  ft_ID :: string
  ft_Path :: string
  ft_Direction :: string
  ft_TotalSize :: int
  ft_DoneSize :: int
  ft_Status :: string
  ft_Source :: string
  ft_Resumable :: bool
  ft_Error :: string
  ft_BatchID :: string
  ft_tmpPath :: string
  ft_file :: bool
  ft_dlHash :: "string option"
  ft_dlFed :: int
  ft_dlDirty :: bool
  ft_completedAt :: "int option"

definition zero_FileTransfer :: FileTransfer where
  "zero_FileTransfer =
     \<lparr>ft_ID = [], ft_Path = [], ft_Direction = [], ft_TotalSize = 0, ft_DoneSize = 0,
      ft_Status = [], ft_Source = [], ft_Resumable = False, ft_Error = [], ft_BatchID = [],
      ft_tmpPath = [], ft_file = False, ft_dlHash = None, ft_dlFed = 0, ft_dlDirty = False,
      ft_completedAt = None\<rparr>"

record TransferBatch =
  ba_ID :: string
  ba_TotalFiles :: int
  ba_TotalBytes :: int
  ba_Status :: string
  ba_CreatedAt :: int
  ba_completedAt :: "int option"

record NativeUploadSession =
  us_TransferID :: string
  us_LocalPath :: string
  us_RemotePath :: string
  us_TotalSize :: int
  us_TotalChunks :: int
  us_ChunkSize :: int
  us_Policy :: string
  us_SourceMtime :: int
  us_CreatedAt :: int

record BrowserUploadSession =
  bu_ID :: string
  bu_RemotePath :: string
  bu_TotalSize :: int
  bu_TotalChunks :: int
  bu_Policy :: string
  bu_SourceMtime :: int
  bu_Hash :: string
  bu_NextChunk :: int
  bu_UpdatedAt :: int

record FileStatResult =
  sr_NextChunk :: int
  sr_TotalChunks :: int
  sr_StatErr :: string

type_synonym 'v table = "(string \<times> 'v) list"

record FileState =
  fs_transfers :: "FileTransfer table"
  fs_disk :: "string \<rightharpoonup> string"
  fs_waiters :: "string option waiters"
  fs_lists :: "FileListResult waiters"
  fs_lastList :: FileListResult
  fs_batches :: "TransferBatch table"
  fs_uploadSessions :: "NativeUploadSession table"
  fs_browserUploads :: "BrowserUploadSession table"
  fs_statWaiters :: "FileStatResult waiters"

definition empty_files :: FileState where
  "empty_files =
     \<lparr>fs_transfers = [], fs_disk = Map.empty, fs_waiters = Map.empty, fs_lists = Map.empty,
      fs_lastList = zero_FileListResult, fs_batches = [], fs_uploadSessions = [],
      fs_browserUploads = [], fs_statWaiters = Map.empty\<rparr>"

abbreviation transfer :: "FileState \<Rightarrow> string \<Rightarrow> FileTransfer option" where
  "transfer st \<equiv> map_of (fs_transfers st)"

definition put_transfer :: "string \<Rightarrow> FileTransfer \<Rightarrow> FileState \<Rightarrow> FileState" where
  "put_transfer tid tr st = st\<lparr>fs_transfers := AList.update tid tr (fs_transfers st)\<rparr>"

section \<open>Ending a transfer\<close>

definition part_path :: "FileTransfer \<Rightarrow> string \<Rightarrow> string" where
  "part_path tr tid = ft_tmpPath tr @ ''.part.'' @ tid"

definition removePartFile :: "FileTransfer \<Rightarrow> string \<Rightarrow> (string \<rightharpoonup> string) \<Rightarrow> (string \<rightharpoonup> string)" where
  "removePartFile tr tid disk =
     (if ft_Direction tr \<noteq> ''download'' \<or> ft_tmpPath tr = [] then disk
      else disk(part_path tr tid := None))"

definition runs_in :: "string \<Rightarrow> FileTransfer \<Rightarrow> bool" where
  "runs_in batchID tr \<longleftrightarrow> ft_BatchID tr = batchID \<and> ft_Status tr = ''running''"

definition batch_running :: "string \<Rightarrow> FileState \<Rightarrow> bool" where
  "batch_running batchID st = list_ex (\<lambda>(_, tr). runs_in batchID tr) (fs_transfers st)"

definition refreshBatchCompletion :: "int \<Rightarrow> string \<Rightarrow> FileState \<Rightarrow> FileState" where
  "refreshBatchCompletion now batchID st =
     (if batchID = [] then st
      else case map_of (fs_batches st) batchID of
             None \<Rightarrow> st
           | Some b \<Rightarrow>
               if ba_Status b \<noteq> ''running'' \<or> batch_running batchID st then st
               else st\<lparr>fs_batches :=
                      AList.update batchID (b\<lparr>ba_completedAt := Some now\<rparr>) (fs_batches st)\<rparr>)"

definition notify :: "string \<Rightarrow> string option \<Rightarrow> FileState \<Rightarrow> FileState" where
  "notify tid err st = st\<lparr>fs_waiters := deliver tid err (fs_waiters st)\<rparr>"

definition failTransfer :: "int \<Rightarrow> string \<Rightarrow> string \<Rightarrow> FileState \<Rightarrow> FileState" where
  "failTransfer now tid msg st =
     (case transfer st tid of
        None \<Rightarrow> notify tid (Some msg) st
      | Some tr \<Rightarrow>
          let tr = tr\<lparr>ft_Status := ''error'', ft_Error := msg, ft_completedAt := Some now,
                      ft_file := False\<rparr>
          in refreshBatchCompletion now (ft_BatchID tr)
               (notify tid (Some msg)
                 ((put_transfer tid tr st)\<lparr>fs_disk := removePartFile tr tid (fs_disk st)\<rparr>)))"

text \<open>A running transfer is stopped for good: its retry state goes, its waiter is told.\<close>

definition stop_transfer :: "int \<Rightarrow> string \<Rightarrow> FileTransfer \<Rightarrow> FileState \<Rightarrow> FileState" where
  "stop_transfer now tid tr st =
     (let tr = tr\<lparr>ft_Status := ''cancelled'', ft_completedAt := Some now, ft_Resumable := False,
                 ft_file := False\<rparr>
      in notify tid (Some ''transfer cancelled'')
           ((put_transfer tid tr st)\<lparr>fs_disk := removePartFile tr tid (fs_disk st),
              fs_uploadSessions := AList.delete tid (fs_uploadSessions st),
              fs_browserUploads := AList.delete tid (fs_browserUploads st)\<rparr>))"

definition cancel_payload :: "string \<Rightarrow> string \<Rightarrow> FileCancelPayload" where
  "cancel_payload tid path = zero_FileCancelPayload\<lparr>fx_TransferID := tid, fx_Path := path\<rparr>"

definition CancelTransfer :: "int \<Rightarrow> string \<Rightarrow> FileState \<Rightarrow> string + (FileCancelPayload \<times> FileState)" where
  "CancelTransfer now tid st =
     (case transfer st tid of
        None \<Rightarrow> Inl ''unknown transfer''
      | Some tr \<Rightarrow>
          if ft_Status tr \<noteq> ''running'' then Inl ''transfer not running''
          else Inr (cancel_payload tid (ft_Path tr),
                    refreshBatchCompletion now (ft_BatchID tr) (stop_transfer now tid tr st)))"

text \<open>A sender that reached its end marks its transfer done, unless it was stopped meanwhile.\<close>

definition finish_upload :: "int \<Rightarrow> string \<Rightarrow> int \<Rightarrow> FileState \<Rightarrow> FileState" where
  "finish_upload now tid totalSize st =
     (case transfer st tid of
        None \<Rightarrow> st
      | Some tr \<Rightarrow>
          if ft_Status tr = ''running'' then
            put_transfer tid (tr\<lparr>ft_Status := ''done'', ft_DoneSize := totalSize, ft_completedAt := Some now\<rparr>) st
          else st)"

definition isTransferCancelled :: "string \<Rightarrow> FileState \<Rightarrow> bool" where
  "isTransferCancelled tid st =
     (case transfer st tid of None \<Rightarrow> False | Some tr \<Rightarrow> ft_Status tr = ''cancelled'')"

definition isBatchCancelled :: "string \<Rightarrow> FileState \<Rightarrow> bool" where
  "isBatchCancelled batchID st =
     (if batchID = [] then False
      else case map_of (fs_batches st) batchID of None \<Rightarrow> False | Some b \<Rightarrow> ba_Status b = ''cancelled'')"

section \<open>What these operations leave alone\<close>

lemma zero_FileTransfer_simps [simp]:
  "ft_ID zero_FileTransfer = []"
  "ft_Path zero_FileTransfer = []"
  "ft_Direction zero_FileTransfer = []"
  "ft_TotalSize zero_FileTransfer = 0"
  "ft_DoneSize zero_FileTransfer = 0"
  "ft_Status zero_FileTransfer = []"
  "ft_Source zero_FileTransfer = []"
  "ft_Resumable zero_FileTransfer = False"
  "ft_Error zero_FileTransfer = []"
  "ft_BatchID zero_FileTransfer = []"
  "ft_tmpPath zero_FileTransfer = []"
  "ft_file zero_FileTransfer = False"
  "ft_dlHash zero_FileTransfer = None"
  "ft_dlFed zero_FileTransfer = 0"
  "ft_dlDirty zero_FileTransfer = False"
  "ft_completedAt zero_FileTransfer = None"
  by (simp_all add: zero_FileTransfer_def)

lemma empty_files_simps [simp]:
  "fs_transfers empty_files = []"
  "fs_disk empty_files = Map.empty"
  "fs_waiters empty_files = Map.empty"
  "fs_batches empty_files = []"
  "fs_uploadSessions empty_files = []"
  "fs_browserUploads empty_files = []"
  by (simp_all add: empty_files_def)

lemma transfer_put [simp]:
  "transfer (put_transfer tid tr st) x = (if x = tid then Some tr else transfer st x)"
  by (simp add: put_transfer_def update_conv')

lemma put_transfer_simps [simp]:
  "fs_disk (put_transfer tid tr st) = fs_disk st"
  "fs_waiters (put_transfer tid tr st) = fs_waiters st"
  "fs_lists (put_transfer tid tr st) = fs_lists st"
  "fs_lastList (put_transfer tid tr st) = fs_lastList st"
  "fs_batches (put_transfer tid tr st) = fs_batches st"
  "fs_uploadSessions (put_transfer tid tr st) = fs_uploadSessions st"
  "fs_browserUploads (put_transfer tid tr st) = fs_browserUploads st"
  "fs_statWaiters (put_transfer tid tr st) = fs_statWaiters st"
  by (simp_all add: put_transfer_def)

lemma update_same: "map_of al k = Some v \<Longrightarrow> AList.update k v al = al"
  by (induction al) (auto split: if_splits)

lemma put_transfer_same: "transfer st tid = Some tr \<Longrightarrow> put_transfer tid tr st = st"
  by (simp add: put_transfer_def update_same)

lemma refreshBatchCompletion_simps [simp]:
  "fs_transfers (refreshBatchCompletion now b st) = fs_transfers st"
  "fs_disk (refreshBatchCompletion now b st) = fs_disk st"
  "fs_waiters (refreshBatchCompletion now b st) = fs_waiters st"
  "fs_uploadSessions (refreshBatchCompletion now b st) = fs_uploadSessions st"
  "fs_browserUploads (refreshBatchCompletion now b st) = fs_browserUploads st"
  "fs_lists (refreshBatchCompletion now b st) = fs_lists st"
  "fs_lastList (refreshBatchCompletion now b st) = fs_lastList st"
  "fs_statWaiters (refreshBatchCompletion now b st) = fs_statWaiters st"
  by (simp_all add: refreshBatchCompletion_def split: option.split)

lemma notify_simps [simp]:
  "fs_transfers (notify tid e st) = fs_transfers st"
  "fs_disk (notify tid e st) = fs_disk st"
  "fs_waiters (notify tid e st) = deliver tid e (fs_waiters st)"
  "fs_batches (notify tid e st) = fs_batches st"
  "fs_uploadSessions (notify tid e st) = fs_uploadSessions st"
  "fs_browserUploads (notify tid e st) = fs_browserUploads st"
  "fs_lists (notify tid e st) = fs_lists st"
  "fs_lastList (notify tid e st) = fs_lastList st"
  "fs_statWaiters (notify tid e st) = fs_statWaiters st"
  by (simp_all add: notify_def)

end
