(* ===== verification/File_Transfer.thy ===== *)
theory File_Transfer
  imports File_State
begin

text \<open>
  Moving file contents in \<open>apps/mac/backend\<close>: how an upload cuts a local file into chunk
  payloads (\<open>files.go\<close>, \<open>streamLocalFileInBatch\<close>) and how a download is staged chunk by
  chunk into a part file, verified and committed (\<open>files.go\<close>, \<open>ingestFileChunkBody\<close>).

  The disk is a map from paths to contents; a step of the receiver is given the time and the
  system call that fails in it, if any. The receiver holds its lock, except around disk calls,
  and is driven by the one socket reader, so a step is atomic here.
\<close>

section \<open>Cutting a file into chunks\<close>

definition normalizeWirePolicy :: "string \<Rightarrow> string" where
  "normalizeWirePolicy policy =
     (if policy = FilePolicyOverwrite \<or> policy = FilePolicyIfNewer then policy else [])"

definition freshTransferID :: "string option \<Rightarrow> string option" where
  "freshTransferID random16 = map_option hex_encode random16"

definition upload_chunk ::
  "string \<Rightarrow> string \<Rightarrow> string \<Rightarrow> string \<Rightarrow> int \<Rightarrow> string \<Rightarrow> int \<Rightarrow> int \<Rightarrow> FileChunkPayload" where
  "upload_chunk nonce transferID remotePath policy mtime content chunkSize idx =
     (let policy = normalizeWirePolicy policy;
          totalSize = int (length content);
          totalChunks = TotalChunksForSize totalSize chunkSize;
          offset = wrap64 (idx * chunkSize);
          chunkRaw = take (nat chunkSize) (drop (nat offset) content);
          hashed = take (nat offset + length chunkRaw) content;
          b64 = (if chunkRaw \<noteq> [] then b64_std_encode chunkRaw else []);
          sha = (if idx = totalChunks - 1 then hex_encode (sha256 hashed) else [])
      in \<lparr>fc_Nonce = nonce, fc_TransferID = transferID, fc_Path = remotePath, fc_Offset = offset,
          fc_TotalSize = totalSize, fc_ChunkIndex = idx, fc_TotalChunks = totalChunks,
          fc_DataB64 = b64, fc_Sha256 = sha, fc_Policy = policy, fc_SourceMtime = mtime\<rparr>)"

section \<open>Receiving chunks\<close>

datatype io_fault =
  NoFault | MkdirFails | OpenFails | SeekFails | WriteFails | SyncFails | ReadFails | RenameFails

definition new_download :: "string \<Rightarrow> FileChunkPayload \<Rightarrow> FileTransfer" where
  "new_download staging p =
     zero_FileTransfer\<lparr>ft_ID := fc_TransferID p, ft_Path := fc_Path p, ft_Direction := ''download'',
       ft_TotalSize := fc_TotalSize p, ft_Status := ''running'',
       ft_tmpPath := path_clean (staging @ slash # path_base (fc_Path p))\<rparr>"

text \<open>Writing at an offset past the end leaves a hole of zero bytes.\<close>

definition write_at :: "nat \<Rightarrow> string \<Rightarrow> string \<Rightarrow> string" where
  "write_at off raw old =
     (if raw = [] then old
      else take off (old @ replicate (off - length old) CHR 0x00) @ raw @
           drop (off + length raw) old)"

definition equal_fold_hex :: "string \<Rightarrow> string \<Rightarrow> bool" where
  "equal_fold_hex a b \<longleftrightarrow> map lower_char a = map lower_char b"

definition verifySHA256 :: "(string \<rightharpoonup> string) \<Rightarrow> io_fault \<Rightarrow> string \<Rightarrow> string \<Rightarrow> string option" where
  "verifySHA256 disk fault path wantHex =
     (if fault = ReadFails then Some ''read failed''
      else case disk path of
             None \<Rightarrow> Some ''no such file''
           | Some content \<Rightarrow>
               if \<not> equal_fold_hex (hex_encode (sha256 content)) wantHex
               then Some ''sha256 mismatch'' else None)"

text \<open>Opening the part file and feeding the incremental hash, under the lock.\<close>

definition feed_hash :: "FileChunkPayload \<Rightarrow> string \<Rightarrow> FileTransfer \<Rightarrow> FileTransfer" where
  "feed_hash p raw tr =
     (let tr = (case ft_dlHash tr of
                  None \<Rightarrow> tr\<lparr>ft_dlHash := Some [], ft_dlFed := 0\<rparr>
                | Some _ \<Rightarrow> tr)
      in if \<not> ft_dlDirty tr \<and> fc_Offset p = ft_dlFed tr
         then tr\<lparr>ft_dlHash := map_option (\<lambda>h. h @ raw) (ft_dlHash tr),
                 ft_dlFed := ft_dlFed tr + int (length raw)\<rparr>
         else if fc_Offset p \<noteq> ft_dlFed tr then tr\<lparr>ft_dlDirty := True\<rparr>
         else tr)"

definition commit_error :: "int \<Rightarrow> string \<Rightarrow> string \<Rightarrow> FileTransfer \<Rightarrow> FileState \<Rightarrow> FileState" where
  "commit_error now tid msg tr st =
     notify tid (Some msg)
       (put_transfer tid
          (tr\<lparr>ft_Status := ''error'', ft_Error := msg, ft_completedAt := Some now, ft_file := False\<rparr>) st)"

definition sha_error ::
  "(string \<rightharpoonup> string) \<Rightarrow> io_fault \<Rightarrow> FileChunkPayload \<Rightarrow> FileTransfer \<Rightarrow> string option" where
  "sha_error disk fault p tr =
     (if fc_Sha256 p = [] then None
      else case (ft_dlDirty tr, ft_dlHash tr) of
             (False, Some fed) \<Rightarrow>
               if \<not> equal_fold_hex (hex_encode (sha256 fed)) (fc_Sha256 p)
               then Some ''sha256 mismatch'' else None
           | _ \<Rightarrow> verifySHA256 disk fault (part_path tr (fc_TransferID p)) (fc_Sha256 p))"

definition commit_path :: "FileChunkPayload \<Rightarrow> FileTransfer \<Rightarrow> (string \<rightharpoonup> string) \<Rightarrow> string" where
  "commit_path p tr disk =
     (case disk (ft_tmpPath tr) of
        Some old \<Rightarrow>
          if old = [] then ft_tmpPath tr
          else
            let ext = path_ext (ft_tmpPath tr);
                base = take (length (ft_tmpPath tr) - length ext) (ft_tmpPath tr)
            in base @ ''-'' @ take 6 (fc_TransferID p) @ ext
      | None \<Rightarrow> ft_tmpPath tr)"

text \<open>The final chunk: verify, check the size, and rename into place.\<close>

definition commit_chunk :: "int \<Rightarrow> io_fault \<Rightarrow> FileChunkPayload \<Rightarrow> FileTransfer \<Rightarrow> FileState \<Rightarrow> FileState" where
  "commit_chunk now fault p tr st =
     (let tid = fc_TransferID p; part = part_path tr tid; disk = fs_disk st
      in case sha_error disk fault p tr of
           Some msg \<Rightarrow> commit_error now tid msg tr st
         | None \<Rightarrow>
             if (case disk part of Some c \<Rightarrow> int (length c) \<noteq> fc_TotalSize p | None \<Rightarrow> False)
             then commit_error now tid ''size mismatch'' tr st
             else
               let final = commit_path p tr disk;
                   tr = tr\<lparr>ft_file := False, ft_tmpPath := final\<rparr>
               in case disk part of
                    Some c \<Rightarrow>
                      if fault = RenameFails then commit_error now tid ''rename failed'' tr st
                      else
                        notify tid None
                          ((put_transfer tid (tr\<lparr>ft_Status := ''done'', ft_completedAt := Some now\<rparr>) st)
                             \<lparr>fs_disk := disk(part := None, final \<mapsto> c)\<rparr>)
                  | None \<Rightarrow> commit_error now tid ''rename failed'' tr st)"

text \<open>Writing one chunk into the part file: the state after a failed call, or the new transfer.\<close>

definition stage_chunk ::
  "int \<Rightarrow> io_fault \<Rightarrow> FileChunkPayload \<Rightarrow> string \<Rightarrow> FileTransfer \<Rightarrow> FileState \<Rightarrow>
   FileState + (FileTransfer \<times> FileState)" where
  "stage_chunk now fault p raw tr st =
     (let tid = fc_TransferID p; part = part_path tr tid
      in if fault = MkdirFails then Inl (failTransfer now tid ''mkdir failed'' st)
         else if \<not> ft_file tr \<and> fault = OpenFails then Inl (failTransfer now tid ''open failed'' st)
         else
           let disk = (if ft_file tr then fs_disk st
                       else (fs_disk st)(part \<mapsto>
                         (case fs_disk st part of Some c \<Rightarrow> c | None \<Rightarrow> [])));
               tr = feed_hash p raw (tr\<lparr>ft_file := True\<rparr>);
               st = (put_transfer tid tr st)\<lparr>fs_disk := disk\<rparr>
           in if fault = SeekFails then Inl (failTransfer now tid ''seek failed'' st)
              else if raw \<noteq> [] \<and> fault = WriteFails then Inl (failTransfer now tid ''write failed'' st)
              else
                let disk = disk(part := map_option (write_at (nat (fc_Offset p)) raw) (disk part));
                    st = st\<lparr>fs_disk := disk\<rparr>
                in if fc_ChunkIndex p = fc_TotalChunks p - 1 \<and> fault = SyncFails
                   then Inl (failTransfer now tid ''sync failed'' st)
                   else
                     let tr = tr\<lparr>ft_DoneSize := fc_Offset p + int (length raw)\<rparr>
                     in Inr (tr, put_transfer tid tr st))"

definition ingestFileChunk :: "string \<Rightarrow> int \<Rightarrow> io_fault \<Rightarrow> FileChunkPayload \<Rightarrow> FileState \<Rightarrow> FileState" where
  "ingestFileChunk staging now fault p st =
     (case DecodeFileChunkData (fc_DataB64 p) of
        None \<Rightarrow> st
      | Some raw \<Rightarrow>
          if \<not> SanitizeFileChunkWithRawLen p (int (length raw)) then st
          else
            let tid = fc_TransferID p;
                tr = (case transfer st tid of Some tr \<Rightarrow> tr | None \<Rightarrow> new_download staging p);
                st = put_transfer tid tr st
            in if ft_Status tr = ''cancelled'' \<or> ft_Status tr = ''error'' then st
               else
                 case stage_chunk now fault p raw tr st of
                   Inl st \<Rightarrow> st
                 | Inr (tr, st) \<Rightarrow>
                     if fc_ChunkIndex p = fc_TotalChunks p - 1 then commit_chunk now fault p tr st
                     else put_transfer tid (tr\<lparr>ft_Status := ''running''\<rparr>) st)"

text \<open>A download the user asked for is registered before its first chunk.\<close>

definition register_download :: "string \<Rightarrow> string \<Rightarrow> string \<Rightarrow> FileState \<Rightarrow> FileState" where
  "register_download tid remotePath targetBase st =
     put_transfer tid
       (zero_FileTransfer\<lparr>ft_ID := tid, ft_Path := remotePath, ft_Direction := ''download'',
          ft_Status := ''running'', ft_tmpPath := targetBase @ slash # path_base remotePath\<rparr>) st"

section \<open>What a sender cuts, a receiver accepts and joins\<close>

lemma same_count_one:
  assumes "0 < t" "t \<le> MaxFileTotalSize"
    and "TotalChunksForSize t LegacyFileChunkRaw = TotalChunksForSize t MaxFileChunkRaw"
  shows "TotalChunksForSize t MaxFileChunkRaw = 1"
proof -
  have s: "file_stride LegacyFileChunkRaw" "file_stride MaxFileChunkRaw" by (simp_all add: file_stride_def)
  note l = TotalChunksForSize_pos [OF assms(1,2) s(1)] and m = TotalChunksForSize_pos [OF assms(1,2) s(2)]
  have "(TotalChunksForSize t MaxFileChunkRaw - 1) * MaxFileChunkRaw < TotalChunksForSize t MaxFileChunkRaw * LegacyFileChunkRaw"
    using m(2) l(3) assms(3) by simp
  then show ?thesis using m(4) by (simp add: go_consts)
qed

lemma chunkStrideFor_count:
  assumes "0 \<le> t" "t \<le> MaxFileTotalSize" "file_stride k"
  shows "\<exists>k'. chunkStrideFor t (TotalChunksForSize t k) = Some k' \<and>
           (k' = k \<or> TotalChunksForSize t k = 1)"
proof (cases "t = 0")
  case True
  then show ?thesis by (simp add: chunkStrideFor_def TotalChunksForSize_def Let_def)
next
  case False
  then have t: "0 < t" using assms(1) by simp
  have "0 < TotalChunksForSize t k" using TotalChunksForSize_pos(4) [OF t assms(2,3)] .
  then show ?thesis
    using assms(3) same_count_one [OF t assms(2)]
    by (auto simp: chunkStrideFor_def file_stride_def Let_def)
qed

definition upload_ok :: "string \<Rightarrow> string \<Rightarrow> string \<Rightarrow> int \<Rightarrow> string \<Rightarrow> int \<Rightarrow> bool" where
  "upload_ok nonce transferID remotePath mtime content chunkSize \<longleftrightarrow>
     nonce \<noteq> [] \<and> SanitizeTransferID transferID \<noteq> None \<and> SanitizeFilePath remotePath \<noteq> None \<and>
     remotePath \<noteq> [] \<and> 0 \<le> mtime \<and> int (length content) \<le> MaxFileTotalSize \<and>
     file_stride chunkSize"

lemma upload_chunk_raw:
  assumes "file_stride k" "length raw \<le> nat k"
  shows "DecodeFileChunkData (if raw \<noteq> [] then b64_std_encode raw else []) = Some raw"
proof -
  have k: "length raw \<le> 4194304" using file_stride_bounds [OF assms(1)] assms(2) by linarith
  then have "length (b64_std_encode raw) \<le> MaxFileChunkB64Len" by (simp add: go_consts)
  then show ?thesis
    using k by (simp add: DecodeFileChunkData_def b64_std.dec_enc go_consts)
qed

lemma slice_length:
  assumes "0 \<le> i" "i < TotalChunksForSize t k" "t = int (length xs)" "t \<le> MaxFileTotalSize"
    and "file_stride k"
  shows "int (length (take (nat k) (drop (nat (i * k)) xs))) =
           (if i < TotalChunksForSize t k - 1 then k else t - i * k)"
    and "i * k \<le> t" "t \<noteq> 0 \<Longrightarrow> i * k < t"
proof -
  note kb = file_stride_bounds [OF assms(5)]
  have "i * k \<le> t \<and> (t \<noteq> 0 \<longrightarrow> i * k < t) \<and>
      int (length (take (nat k) (drop (nat (i * k)) xs))) =
        (if i < TotalChunksForSize t k - 1 then k else t - i * k)"
  proof (cases "t = 0")
    case True
    then have "i = 0" using assms by (simp add: TotalChunksForSize_def Let_def)
    then show ?thesis using True assms by (simp add: TotalChunksForSize_def Let_def)
  next
    case False
    then have t: "0 < t" using assms(3) by simp
    note n = TotalChunksForSize_pos(2,3) [OF t assms(4,5)]
    have ik: "i * k \<le> (TotalChunksForSize t k - 1) * k"
      using chunk_index_mult [OF assms(1,2) n(1)] kb by simp
    have nn: "0 \<le> i * k" using assms(1) kb by simp
    show ?thesis
    proof (cases "i < TotalChunksForSize t k - 1")
      case True
      then have "(i + 1) * k \<le> (TotalChunksForSize t k - 1) * k" using kb by (simp add: mult_right_mono)
      then have "i * k + k \<le> t" using n(1) by (simp add: algebra_simps)
      then show ?thesis using True nn kb assms(3) ik n(1) by simp
    next
      case last: False
      then have "TotalChunksForSize t k = i + 1" using assms(2) by simp
      then have "t \<le> i * k + k" using n(2) by (simp add: algebra_simps)
      then show ?thesis using last nn kb assms(3) ik n(1) by simp
    qed
  qed
  then show "int (length (take (nat k) (drop (nat (i * k)) xs))) =
           (if i < TotalChunksForSize t k - 1 then k else t - i * k)"
    and "i * k \<le> t" "t \<noteq> 0 \<Longrightarrow> i * k < t" by blast+
qed

lemma concat_slices: "concat (map (\<lambda>i. take k (drop (i * k) xs)) [0..<n]) = take (n * k) xs"
proof (induction n)
  case (Suc n)
  have "take (n * k + k) xs = take (n * k) xs @ take k (drop (n * k) xs)" by (rule take_add)
  then show ?case using Suc by (simp add: add.commute)
qed simp


lemma sanitizeFileChunkLengthsI:
  assumes "fc_Nonce p \<noteq> []" "SanitizeTransferID (fc_TransferID p) \<noteq> None"
    and "SanitizeFilePath (fc_Path p) \<noteq> None" "fc_Path p \<noteq> []"
    and "0 \<le> fc_TotalSize p" "fc_TotalSize p \<le> MaxFileTotalSize"
    and "0 \<le> fc_Offset p" "fc_Offset p \<le> fc_TotalSize p"
    and "0 \<le> fc_ChunkIndex p" "fc_ChunkIndex p < fc_TotalChunks p"
    and "chunkStrideFor (fc_TotalSize p) (fc_TotalChunks p) = Some stride"
    and "rawLen \<le> MaxFileChunkRaw" "fc_Offset p = wrap64 (fc_ChunkIndex p * stride)"
    and "length (fc_DataB64 p) \<le> MaxFileChunkB64Len"
    and "fc_DataB64 p \<noteq> [] \<Longrightarrow> rawLen = (if fc_ChunkIndex p < fc_TotalChunks p - 1 then stride
           else fc_TotalSize p - fc_Offset p)"
    and "fc_DataB64 p = [] \<Longrightarrow> fc_TotalSize p = 0 \<and> fc_TotalChunks p = 1 \<and> fc_Offset p = 0"
    and "fc_Sha256 p \<noteq> [] \<Longrightarrow> length (fc_Sha256 p) = 64 \<and> hex_decode (fc_Sha256 p) \<noteq> None \<and>
           fc_ChunkIndex p = fc_TotalChunks p - 1"
    and "SanitizeFilePolicy (fc_Policy p)" "0 \<le> fc_SourceMtime p"
  shows "sanitizeFileChunkLengths p rawLen"
proof -
  have g: "\<not> (fc_ChunkIndex p < fc_TotalChunks p - 1 \<and> fc_DataB64 p = [])"
    using assms(9,16) by auto
  have h: "\<not> fc_TotalChunks p < 1" using assms(9,10) by linarith
  have d: "\<not> (fc_DataB64 p \<noteq> [] \<and> rawLen \<noteq> (if fc_ChunkIndex p < fc_TotalChunks p - 1 then stride
           else fc_TotalSize p - fc_Offset p))" using assms(15) by blast
  have e: "\<not> (fc_DataB64 p = [] \<and> \<not> (fc_TotalSize p = 0 \<and> fc_TotalChunks p = 1 \<and> fc_Offset p = 0))"
    using assms(16) by blast
  have f: "\<not> (fc_Sha256 p \<noteq> [] \<and> (length (fc_Sha256 p) \<noteq> 64 \<or> hex_decode (fc_Sha256 p) = None \<or>
      fc_ChunkIndex p \<noteq> fc_TotalChunks p - 1))" using assms(17) by blast
  have n: "\<not> fc_TotalSize p < 0" "\<not> MaxFileTotalSize < fc_TotalSize p" "\<not> fc_Offset p < 0"
    "\<not> fc_TotalSize p < fc_Offset p" "\<not> fc_ChunkIndex p < 0" "\<not> fc_TotalChunks p \<le> fc_ChunkIndex p"
    "\<not> MaxFileChunkRaw < rawLen" "\<not> MaxFileChunkB64Len < length (fc_DataB64 p)" "\<not> fc_SourceMtime p < 0"
    using assms(5-10,12,14,19) by simp_all
  show ?thesis
    unfolding sanitizeFileChunkLengths_def assms(11) option.case
    by (simp only: assms(1-4,18) assms(13) [symmetric] g h d e f n if_False if_True simp_thms)
qed

lemma upload_chunk_wrap:
  assumes "upload_ok nonce tid path mtime content k" "0 \<le> i"
    and "i < TotalChunksForSize (int (length content)) k"
  shows "wrap64 (i * k) = i * k"
  using file_chunk_offset [OF assms(2,3)] assms(1) by (simp add: upload_ok_def)

lemma upload_chunk_fields:
  fixes content k i
  defines "raw \<equiv> take (nat k) (drop (nat (i * k)) content)"
  assumes "wrap64 (i * k) = i * k"
  shows "fc_Nonce (upload_chunk nonce tid path policy mtime content k i) = nonce"
    "fc_TransferID (upload_chunk nonce tid path policy mtime content k i) = tid"
    "fc_Path (upload_chunk nonce tid path policy mtime content k i) = path"
    "fc_Offset (upload_chunk nonce tid path policy mtime content k i) = i * k"
    "fc_TotalSize (upload_chunk nonce tid path policy mtime content k i) = int (length content)"
    "fc_ChunkIndex (upload_chunk nonce tid path policy mtime content k i) = i"
    "fc_TotalChunks (upload_chunk nonce tid path policy mtime content k i) =
       TotalChunksForSize (int (length content)) k"
    "fc_SourceMtime (upload_chunk nonce tid path policy mtime content k i) = mtime"
    "fc_DataB64 (upload_chunk nonce tid path policy mtime content k i) =
       (if raw \<noteq> [] then b64_std_encode raw else [])"
    "fc_Policy (upload_chunk nonce tid path policy mtime content k i) = normalizeWirePolicy policy"
    "fc_Sha256 (upload_chunk nonce tid path policy mtime content k i) =
       (if i = TotalChunksForSize (int (length content)) k - 1
        then hex_encode (sha256 (take (nat (i * k) + length raw) content)) else [])"
  using assms by (simp_all add: upload_chunk_def Let_def)

lemma upload_chunk_decodes:
  assumes "upload_ok nonce tid path mtime content k" "0 \<le> i"
    and "i < TotalChunksForSize (int (length content)) k"
  shows "DecodeFileChunkData (fc_DataB64 (upload_chunk nonce tid path policy mtime content k i)) =
      Some (take (nat k) (drop (nat (i * k)) content))"
  unfolding upload_chunk_fields [OF upload_chunk_wrap [OF assms]]
  using upload_chunk_raw [of k "take (nat k) (drop (nat (i * k)) content)"] assms(1)
  by (simp add: upload_ok_def)

lemma upload_chunk_accepted:
  assumes ok: "upload_ok nonce tid path mtime content k" and i: "0 \<le> i"
    "i < TotalChunksForSize (int (length content)) k"
  shows "SanitizeFileChunk (upload_chunk nonce tid path policy mtime content k i)"
proof -
  let ?t = "int (length content)" and ?N = "TotalChunksForSize (int (length content)) k"
  let ?raw = "take (nat k) (drop (nat (i * k)) content)"
  have k: "file_stride k" "0 \<le> ?t" "?t \<le> MaxFileTotalSize"
    using ok by (simp_all add: upload_ok_def)
  note kb = file_stride_bounds [OF k(1)] and sl = slice_length [OF i refl k(3,1)]
  obtain k' where k': "chunkStrideFor ?t ?N = Some k'" "k' = k \<or> ?N = 1"
    using chunkStrideFor_count [OF k(2,3,1)] by blast
  have off: "i * k = wrap64 (i * k')"
  proof (cases "k' = k")
    case False
    then have "i = 0" using k'(2) i by simp
    then show ?thesis by (simp add: int64_def)
  qed (use upload_chunk_wrap [OF ok i] in simp)
  have len: "int (length ?raw) = (if i < ?N - 1 then k' else ?t - i * k)"
    using sl(1) k'(2) i by auto
  have "?raw = [] \<Longrightarrow> ?t = 0" using sl kb by (auto split: if_splits)
  then have empty: "?raw = [] \<Longrightarrow> ?t = 0 \<and> ?N = 1 \<and> i * k = 0"
    using i by (simp add: TotalChunksForSize_def Let_def)
  have "length ?raw \<le> 4194304" using kb by auto
  then have cap: "length (b64_std_encode ?raw) \<le> MaxFileChunkB64Len"
    "int (length ?raw) \<le> MaxFileChunkRaw" by (simp_all add: go_consts)
  have pol: "SanitizeFilePolicy (normalizeWirePolicy policy)"
    by (simp add: SanitizeFilePolicy_def normalizeWirePolicy_def)
  have up: "nonce \<noteq> []" "SanitizeTransferID tid \<noteq> None" "SanitizeFilePath path \<noteq> None"
    "path \<noteq> []" "0 \<le> mtime" using ok by (simp_all add: upload_ok_def)
  have nn: "0 \<le> i * k" using i kb by simp
  note f = upload_chunk_fields [OF upload_chunk_wrap [OF ok i]]
  have "sanitizeFileChunkLengths (upload_chunk nonce tid path policy mtime content k i)
      (int (length ?raw))"
  proof (rule sanitizeFileChunkLengthsI, unfold f)
    show "chunkStrideFor ?t ?N = Some k'" by (rule k'(1))
    show "(if ?raw \<noteq> [] then b64_std_encode ?raw else []) \<noteq> [] \<Longrightarrow>
        int (length ?raw) = (if i < ?N - 1 then k' else ?t - i * k)" using len by blast
    show "(if ?raw \<noteq> [] then b64_std_encode ?raw else []) = [] \<Longrightarrow>
        ?t = 0 \<and> ?N = 1 \<and> i * k = 0" using empty b64_std_encode_eq_Nil by metis
    show "length (if ?raw \<noteq> [] then b64_std_encode ?raw else []) \<le> MaxFileChunkB64Len"
      using cap(1) by (simp del: length_b64_std_encode)
    show "(if i = ?N - 1 then hex_encode (sha256 (take (nat (i * k) + length ?raw) content)) else []) \<noteq> [] \<Longrightarrow>
        length (if i = ?N - 1 then hex_encode (sha256 (take (nat (i * k) + length ?raw) content)) else []) = 64 \<and>
        hex_decode (if i = ?N - 1 then hex_encode (sha256 (take (nat (i * k) + length ?raw) content)) else []) \<noteq> None \<and>
        i = ?N - 1" by (simp split: if_splits)
  qed (use up k i off nn cap(2) pol sl(2) in simp_all)
  then show ?thesis
    by (simp add: SanitizeFileChunk_def decodedChunkLen_eq upload_chunk_decodes [OF ok i])
qed

lemma upload_chunks_cover:
  assumes "upload_ok nonce tid path mtime content k"
  shows "length content \<le> nat (TotalChunksForSize (int (length content)) k) * nat k"
proof (cases "content = []")
  case False
  let ?N = "TotalChunksForSize (int (length content)) k"
  have k: "file_stride k" "int (length content) \<le> MaxFileTotalSize"
    using assms by (simp_all add: upload_ok_def)
  have "int (length content) \<le> ?N * k" "0 < ?N"
    using TotalChunksForSize_pos(3,4) [OF _ k(2,1)] False by simp_all
  moreover have "?N * k = int (nat ?N * nat k)"
    using \<open>0 < ?N\<close> file_stride_bounds [OF k(1)] by simp
  ultimately show ?thesis by linarith
qed simp

text \<open>
  C13. An upload arrives: for a valid transfer id, path and time and any content of up to
  8 GiB, every chunk the sender cuts, at either stride, passes the receiver's validation,
  and the bytes the receiver decodes from the chunks, joined in order, are the file.
\<close>

theorem upload_chunks_arrive:
  assumes "upload_ok nonce tid path mtime content k"
  shows "(\<forall>i. 0 \<le> i \<and> i < TotalChunksForSize (int (length content)) k \<longrightarrow>
            SanitizeFileChunk (upload_chunk nonce tid path policy mtime content k i)) \<and>
         concat (map (\<lambda>i. the (DecodeFileChunkData
             (fc_DataB64 (upload_chunk nonce tid path policy mtime content k (int i)))))
           [0 ..< nat (TotalChunksForSize (int (length content)) k)]) = content"
proof (intro conjI allI impI)
  fix i assume "0 \<le> i \<and> i < TotalChunksForSize (int (length content)) k"
  then show "SanitizeFileChunk (upload_chunk nonce tid path policy mtime content k i)"
    using upload_chunk_accepted [OF assms] by blast
next
  let ?N = "nat (TotalChunksForSize (int (length content)) k)"
  have "0 < k" using assms file_stride_bounds [of k] by (simp add: upload_ok_def)
  then have "nat (int i * k) = i * nat k" for i by (simp add: nat_mult_distrib)
  then have M: "map (\<lambda>i. the (DecodeFileChunkData
        (fc_DataB64 (upload_chunk nonce tid path policy mtime content k (int i))))) [0 ..< ?N] =
      map (\<lambda>i. take (nat k) (drop (i * nat k) content)) [0 ..< ?N]"
    by (intro map_cong refl) (simp add: upload_chunk_decodes [OF assms])
  show "concat (map (\<lambda>i. the (DecodeFileChunkData
        (fc_DataB64 (upload_chunk nonce tid path policy mtime content k (int i))))) [0 ..< ?N]) = content"
    unfolding M concat_slices using upload_chunks_cover [OF assms] by simp
qed

theorem upload_chunks_arrive_witness:
  "SanitizeFileChunk (upload_chunk ''n'' ''00112233aabbccdd'' ''a.bin'' ''overwrite'' 7 ''hello''
     LegacyFileChunkRaw 0)"
proof -
  have "SanitizeTransferID ''00112233aabbccdd'' \<noteq> None"
    by (simp add: SanitizeTransferID_def go_eval go_consts hex_val_def Let_def)
  moreover have "SanitizeFilePath ''a.bin'' \<noteq> None" by (simp add: SanitizeFilePath_def path_eval)
  ultimately have "upload_ok ''n'' ''00112233aabbccdd'' ''a.bin'' 7 ''hello'' LegacyFileChunkRaw"
    by (simp add: upload_ok_def file_stride_def go_consts)
  moreover have "0 < TotalChunksForSize 5 LegacyFileChunkRaw"
    by (simp add: TotalChunksForSize_def go_consts Let_def wrap64_def)
  ultimately show ?thesis
    using upload_chunks_arrive [of "''n''" "''00112233aabbccdd''" "''a.bin''" 7 "''hello''"
        LegacyFileChunkRaw "''overwrite''"] by simp
qed


section \<open>A finished download is what its hash says\<close>

text \<open>
  The states one download goes through: no part file of its own on disk to begin with, then
  chunks of it, with any system call failing, until it is done.
\<close>

inductive downloading :: "string \<Rightarrow> string \<Rightarrow> FileState \<Rightarrow> bool" for staging tid where
  unknown: "transfer st tid = None \<Longrightarrow> \<forall>x. fs_disk st (x @ ''.part.'' @ tid) = None \<Longrightarrow>
    downloading staging tid st"
| registered: "transfer st tid = None \<Longrightarrow> \<forall>x. fs_disk st (x @ ''.part.'' @ tid) = None \<Longrightarrow>
    downloading staging tid (register_download tid remotePath targetBase st)"
| chunk: "downloading staging tid st \<Longrightarrow> fc_TransferID p = tid \<Longrightarrow>
    (\<And>tr. transfer st tid = Some tr \<Longrightarrow> ft_Status tr \<noteq> ''done'') \<Longrightarrow>
    downloading staging tid (ingestFileChunk staging now fault p st)"

text \<open>
  While the incremental hash is clean, what it was fed is the contents of the part file.
\<close>

definition staged :: "string \<Rightarrow> FileTransfer \<Rightarrow> (string \<rightharpoonup> string) \<Rightarrow> bool" where
  "staged tid tr disk =
     (case ft_dlHash tr of
        None \<Rightarrow> \<not> ft_file tr \<and> \<not> ft_dlDirty tr \<and> disk (part_path tr tid) = None
      | Some fed \<Rightarrow> ft_file tr \<and>
          (case disk (part_path tr tid) of
             None \<Rightarrow> False
           | Some c \<Rightarrow> ft_dlDirty tr \<or> (c = fed \<and> ft_dlFed tr = int (length fed))))"

definition download_inv :: "string \<Rightarrow> FileState \<Rightarrow> bool" where
  "download_inv tid st =
     (case transfer st tid of
        None \<Rightarrow> \<forall>x. fs_disk st (x @ ''.part.'' @ tid) = None
      | Some tr \<Rightarrow> ft_Status tr \<in> {''error'', ''cancelled'', ''done''} \<or> staged tid tr (fs_disk st))"

lemma write_at_end: "write_at (length old) raw old = old @ raw"
  by (simp add: write_at_def)

lemma part_path_simps [simp]:
  "part_path (tr\<lparr>ft_file := b\<rparr>) tid = part_path tr tid"
  "part_path (tr\<lparr>ft_DoneSize := n\<rparr>) tid = part_path tr tid"
  "part_path (tr\<lparr>ft_Status := s\<rparr>) tid = part_path tr tid"
  "part_path (feed_hash p raw tr) tid = part_path tr tid"
  by (auto simp: part_path_def feed_hash_def Let_def split: option.split)

lemma staged_simps [simp]:
  "staged tid (tr\<lparr>ft_DoneSize := n\<rparr>) disk = staged tid tr disk"
  "staged tid (tr\<lparr>ft_Status := s\<rparr>) disk = staged tid tr disk"
  by (simp_all add: staged_def split: option.split)

lemma failTransfer_error:
  "transfer st tid = Some tr \<Longrightarrow>
   \<exists>tr'. transfer (failTransfer now tid msg st) tid = Some tr' \<and> ft_Status tr' = ''error''"
  by (simp add: failTransfer_def Let_def)

text \<open>Feeding the hash and writing at the offset keep the two in step.\<close>

lemma staged_feed:
  assumes "staged tid tr disk" "0 \<le> fc_Offset p"
  defines "disk1 \<equiv> (if ft_file tr then disk
             else disk(part_path tr tid \<mapsto> (case disk (part_path tr tid) of Some c \<Rightarrow> c | None \<Rightarrow> [])))"
  shows "staged tid (feed_hash p raw (tr\<lparr>ft_file := True\<rparr>))
           (disk1(part_path tr tid := map_option (write_at (nat (fc_Offset p)) raw) (disk1 (part_path tr tid))))"
proof (cases "ft_dlHash tr")
  case None
  then have "disk (part_path tr tid) = None" "\<not> ft_file tr" "\<not> ft_dlDirty tr"
    using assms(1) by (simp_all add: staged_def)
  then show ?thesis
    using None assms(2) write_at_end [of "[]" raw]
    by (auto simp: staged_def feed_hash_def disk1_def Let_def part_path_def)
next
  case (Some fed)
  then obtain c where c: "disk (part_path tr tid) = Some c" "ft_file tr"
    "ft_dlDirty tr \<or> (c = fed \<and> ft_dlFed tr = int (length fed))"
    using assms(1) by (auto simp: staged_def split: option.splits)
  then show ?thesis
    using Some assms(2) write_at_end [of fed raw]
    by (auto simp: staged_def feed_hash_def disk1_def Let_def part_path_def)
qed

lemma stage_chunk_cases:
  assumes "staged (fc_TransferID p) tr (fs_disk st)" "0 \<le> fc_Offset p"
    and "transfer st (fc_TransferID p) = Some tr"
  obtains st' tr' where "stage_chunk now fault p raw tr st = Inl st'"
      "transfer st' (fc_TransferID p) = Some tr'" "ft_Status tr' = ''error''"
  | tr' st' where "stage_chunk now fault p raw tr st = Inr (tr', st')"
      "staged (fc_TransferID p) tr' (fs_disk st')" "ft_dlHash tr' \<noteq> None"
      "ft_tmpPath tr' = ft_tmpPath tr"
proof (cases "stage_chunk now fault p raw tr st")
  case (Inl st')
  then have "\<exists>tr'. transfer st' (fc_TransferID p) = Some tr' \<and> ft_Status tr' = ''error''"
    using assms(3) failTransfer_error
    by (fastforce simp: stage_chunk_def Let_def split: if_splits)
  then show thesis using Inl that(1) by blast
next
  case (Inr r)
  obtain tr' st' where r: "r = (tr', st')" by force
  have f: "ft_dlHash (feed_hash p raw tr) \<noteq> None" "ft_tmpPath (feed_hash p raw tr) = ft_tmpPath tr" for tr
    by (auto simp: feed_hash_def Let_def split: option.split)
  have "staged (fc_TransferID p) tr' (fs_disk st') \<and> ft_dlHash tr' \<noteq> None \<and>
      ft_tmpPath tr' = ft_tmpPath tr"
    using Inr r staged_feed [OF assms(1,2), of raw] f
    by (auto simp: stage_chunk_def Let_def split: if_splits)
  then show thesis using Inr r that(2) by blast
qed


lemma commit_chunk_status:
  "\<exists>tr'. transfer (commit_chunk now fault p tr st) (fc_TransferID p) = Some tr' \<and>
     ft_Status tr' \<in> {''error'', ''done''}"
  by (auto simp: commit_chunk_def commit_error_def Let_def split: option.split)

lemma commit_chunk_done:
  assumes "staged (fc_TransferID p) tr (fs_disk st)" "ft_dlHash tr \<noteq> None" "fc_Sha256 p \<noteq> []"
    and "transfer (commit_chunk now fault p tr st) (fc_TransferID p) = Some tr'"
    and "ft_Status tr' = ''done''"
  shows "\<exists>c. fs_disk (commit_chunk now fault p tr st) (ft_tmpPath tr') = Some c \<and>
     equal_fold_hex (hex_encode (sha256 c)) (fc_Sha256 p) \<and> int (length c) = fc_TotalSize p"
proof -
  let ?part = "part_path tr (fc_TransferID p)"
  obtain c where c: "fs_disk st ?part = Some c"
    using assms(1,2) by (auto simp: staged_def split: option.splits)
  have ne: "sha_error (fs_disk st) fault p tr = None" "int (length c) = fc_TotalSize p"
      "fault \<noteq> RenameFails"
    using assms(4,5) c by (auto simp: commit_chunk_def commit_error_def Let_def split: option.splits if_splits)
  have hash: "equal_fold_hex (hex_encode (sha256 c)) (fc_Sha256 p)"
    using ne(1) assms(1-3) c
    by (auto simp: sha_error_def staged_def verifySHA256_def split: option.splits if_splits bool.splits)
  have "ft_tmpPath tr' = commit_path p tr (fs_disk st)"
    "fs_disk (commit_chunk now fault p tr st) (commit_path p tr (fs_disk st)) = Some c"
    using ne c assms(4) by (auto simp: commit_chunk_def Let_def)
  then show ?thesis using hash ne(2) by auto
qed

lemma accepted_offset:
  "SanitizeFileChunkWithRawLen p n \<Longrightarrow> 0 \<le> fc_Offset p"
  by (auto simp: SanitizeFileChunkWithRawLen_def sanitizeFileChunkLengths_def split: if_splits)

text \<open>The transfer a chunk is for, and the three ways a step goes.\<close>

definition transfer_for :: "string \<Rightarrow> FileChunkPayload \<Rightarrow> FileState \<Rightarrow> FileTransfer" where
  "transfer_for staging p st =
     (case transfer st (fc_TransferID p) of Some tr \<Rightarrow> tr | None \<Rightarrow> new_download staging p)"

lemma ingest_cases:
  obtains "ingestFileChunk staging now fault p st = st"
  | raw where "0 \<le> fc_Offset p"
      "ft_Status (transfer_for staging p st) \<noteq> ''cancelled''"
      "ft_Status (transfer_for staging p st) \<noteq> ''error''"
      "ingestFileChunk staging now fault p st =
         (case stage_chunk now fault p raw (transfer_for staging p st)
                 (put_transfer (fc_TransferID p) (transfer_for staging p st) st) of
            Inl st \<Rightarrow> st
          | Inr (tr, st) \<Rightarrow>
              if fc_ChunkIndex p = fc_TotalChunks p - 1 then commit_chunk now fault p tr st
              else put_transfer (fc_TransferID p) (tr\<lparr>ft_Status := ''running''\<rparr>) st)"
proof (cases "DecodeFileChunkData (fc_DataB64 p)")
  case None
  then show thesis using that(1) by (simp add: ingestFileChunk_def)
next
  case (Some raw)
  let ?tr = "transfer_for staging p st"
  show thesis
  proof (cases "SanitizeFileChunkWithRawLen p (int (length raw)) \<and>
      ft_Status ?tr \<noteq> ''cancelled'' \<and> ft_Status ?tr \<noteq> ''error''")
    case True
    then show thesis
      using that(2) [of raw] Some accepted_offset [of p "int (length raw)"]
      by (simp add: ingestFileChunk_def transfer_for_def Let_def)
  next
    case False
    have "transfer st (fc_TransferID p) = Some ?tr"
      if "ft_Status ?tr = ''cancelled'' \<or> ft_Status ?tr = ''error''"
      using that by (auto simp: transfer_for_def new_download_def split: option.splits)
    then have "put_transfer (fc_TransferID p) ?tr st = st"
      if "ft_Status ?tr = ''cancelled'' \<or> ft_Status ?tr = ''error''"
      using that by (simp add: put_transfer_same)
    then show thesis using False that(1) Some
      by (auto simp: ingestFileChunk_def transfer_for_def Let_def)
  qed
qed

lemma staged_transfer_for:
  assumes "download_inv (fc_TransferID p) st"
    and "\<And>tr. transfer st (fc_TransferID p) = Some tr \<Longrightarrow> ft_Status tr \<noteq> ''done''"
    and "ft_Status (transfer_for staging p st) \<noteq> ''cancelled''"
    and "ft_Status (transfer_for staging p st) \<noteq> ''error''"
  shows "staged (fc_TransferID p) (transfer_for staging p st) (fs_disk st)"
  using assms
  by (auto simp: download_inv_def transfer_for_def staged_def new_download_def part_path_def
      split: option.splits)

definition integrity :: "FileChunkPayload \<Rightarrow> FileState \<Rightarrow> bool" where
  "integrity p st =
     (case transfer st (fc_TransferID p) of
        None \<Rightarrow> True
      | Some tr \<Rightarrow> ft_Status tr = ''done'' \<longrightarrow> fc_Sha256 p \<noteq> [] \<longrightarrow>
          (\<exists>c. fs_disk st (ft_tmpPath tr) = Some c \<and>
             equal_fold_hex (hex_encode (sha256 c)) (fc_Sha256 p) \<and>
             int (length c) = fc_TotalSize p))"

text \<open>One chunk: the step keeps the invariant, and what it finishes has its hash and size.\<close>

lemma ingest_step:
  assumes inv: "download_inv (fc_TransferID p) st"
    and nd: "\<And>tr. transfer st (fc_TransferID p) = Some tr \<Longrightarrow> ft_Status tr \<noteq> ''done''"
  shows "download_inv (fc_TransferID p) (ingestFileChunk staging now fault p st) \<and>
         integrity p (ingestFileChunk staging now fault p st)"
proof (cases rule: ingest_cases [of staging now fault p st])
  case 1
  then show ?thesis using inv nd by (auto simp: integrity_def split: option.split)
next
  case (2 raw)
  let ?tr = "transfer_for staging p st"
  let ?st = "put_transfer (fc_TransferID p) ?tr st"
  have sg: "staged (fc_TransferID p) ?tr (fs_disk ?st)"
    using staged_transfer_for [OF inv nd 2(2,3)] by simp
  have tr: "transfer ?st (fc_TransferID p) = Some ?tr" by simp
  show ?thesis
  proof (cases rule: stage_chunk_cases [OF sg 2(1) tr, of now fault raw])
    case (1 st' tr')
    then show ?thesis using \<open>ingestFileChunk staging now fault p st = _\<close>
      by (simp add: download_inv_def integrity_def)
  next
    case out: (2 tr' st')
    show ?thesis
    proof (cases "fc_ChunkIndex p = fc_TotalChunks p - 1")
      case True
      then have e: "ingestFileChunk staging now fault p st = commit_chunk now fault p tr' st'"
        using out \<open>ingestFileChunk staging now fault p st = _\<close> by simp
      obtain t where t: "transfer (commit_chunk now fault p tr' st') (fc_TransferID p) = Some t"
        "ft_Status t \<in> {''error'', ''done''}" using commit_chunk_status by blast
      then show ?thesis
        unfolding e using commit_chunk_done [OF out(2,3)] by (auto simp: download_inv_def integrity_def)
    next
      case False
      then have e: "ingestFileChunk staging now fault p st =
          put_transfer (fc_TransferID p) (tr'\<lparr>ft_Status := ''running''\<rparr>) st'"
        using out \<open>ingestFileChunk staging now fault p st = _\<close> by simp
      show ?thesis unfolding e using out(2) by (simp add: download_inv_def integrity_def)
    qed
  qed
qed

lemma downloading_inv: "downloading staging tid st \<Longrightarrow> download_inv tid st"
proof (induction rule: downloading.induct)
  case (registered st remotePath targetBase)
  then have "fs_disk st ((targetBase @ slash # path_base remotePath) @ ''.part.'' @ tid) = None"
    by blast
  then show ?case
    by (simp add: download_inv_def register_download_def staged_def part_path_def)
next
  case (chunk st p now fault)
  then show ?case using ingest_step [of p st staging now fault] by auto
qed (simp add: download_inv_def)



abbreviation sample_tid :: string where "sample_tid \<equiv> ''00112233aabbccdd''"

abbreviation sample_chunk :: FileChunkPayload where
  "sample_chunk \<equiv> upload_chunk ''n'' sample_tid ''a.bin'' ''overwrite'' 7 ''hello'' LegacyFileChunkRaw 0"

lemma sample_upload_ok:
  "upload_ok ''n'' sample_tid ''a.bin'' 7 ''hello'' LegacyFileChunkRaw"
  "TotalChunksForSize 5 LegacyFileChunkRaw = 1"
proof -
  have "SanitizeTransferID sample_tid \<noteq> None"
    by (simp add: SanitizeTransferID_def go_eval go_consts hex_val_def Let_def)
  moreover have "SanitizeFilePath ''a.bin'' \<noteq> None" by (simp add: SanitizeFilePath_def path_eval)
  ultimately show "upload_ok ''n'' sample_tid ''a.bin'' 7 ''hello'' LegacyFileChunkRaw"
    by (simp add: upload_ok_def file_stride_def go_consts)
  show "TotalChunksForSize 5 LegacyFileChunkRaw = 1"
    by (simp add: TotalChunksForSize_def go_consts Let_def wrap64_def)
qed

lemma sample_chunk_fields:
  "fc_TransferID sample_chunk = sample_tid" "fc_Path sample_chunk = ''a.bin''" "fc_Offset sample_chunk = 0"
  "fc_TotalSize sample_chunk = 5" "fc_ChunkIndex sample_chunk = 0" "fc_TotalChunks sample_chunk = 1"
  "fc_Sha256 sample_chunk = hex_encode (sha256 ''hello'')"
  "DecodeFileChunkData (fc_DataB64 sample_chunk) = Some ''hello''"
  "SanitizeFileChunkWithRawLen sample_chunk 5"
proof -
  have w: "wrap64 (0 * LegacyFileChunkRaw) = 0 * LegacyFileChunkRaw" by (simp add: int64_def)
  note f = upload_chunk_fields [OF w, of "''n''" sample_tid "''a.bin''" "''overwrite''" 7 "''hello''"]
  have d: "DecodeFileChunkData (fc_DataB64 sample_chunk) = Some ''hello''"
    using upload_chunk_decodes [OF sample_upload_ok(1), of 0] sample_upload_ok(2)
    by (simp add: go_consts)
  show "DecodeFileChunkData (fc_DataB64 sample_chunk) = Some ''hello''" by (rule d)
  have "SanitizeFileChunk sample_chunk"
    using upload_chunk_accepted [OF sample_upload_ok(1), of 0] sample_upload_ok(2) by simp
  then show "SanitizeFileChunkWithRawLen sample_chunk 5"
    by (simp add: SanitizeFileChunk_def SanitizeFileChunkWithRawLen_def decodedChunkLen_eq d)
  show "fc_TransferID sample_chunk = sample_tid" "fc_Path sample_chunk = ''a.bin''" "fc_Offset sample_chunk = 0"
    "fc_TotalSize sample_chunk = 5" "fc_ChunkIndex sample_chunk = 0" "fc_TotalChunks sample_chunk = 1"
    "fc_Sha256 sample_chunk = hex_encode (sha256 ''hello'')"
    using f sample_upload_ok(2) by (simp_all add: go_consts)
qed

lemmas ingest_eval = ingestFileChunk_def Let_def new_download_def stage_chunk_def feed_hash_def
  part_path_def write_at_def commit_chunk_def sha_error_def equal_fold_hex_def commit_path_def
  commit_error_def path_base_def path_clean_def clean_parts_def clean_step_def is_abs_def

lemma sample_done:
  "\<exists>tr. transfer (ingestFileChunk ''/s'' 0 NoFault sample_chunk empty_files) sample_tid = Some tr \<and>
     ft_Status tr = ''done'' \<and> ft_tmpPath tr = ''/s/a.bin''"
  by (simp add: ingest_eval sample_chunk_fields)



text \<open>
  Redelivery is not idempotent once a download is done: when the same final chunk of a
  finished one-chunk download arrives again, the receiver opens a new part file, verifies it
  and commits a second copy of the file under a suffixed name.
\<close>

theorem download_redelivery_duplicates:
  "fs_disk (ingestFileChunk ''/s'' 0 NoFault sample_chunk
      (ingestFileChunk ''/s'' 0 NoFault sample_chunk empty_files)) ''/s/a.bin'' = Some ''hello'' \<and>
   fs_disk (ingestFileChunk ''/s'' 0 NoFault sample_chunk
      (ingestFileChunk ''/s'' 0 NoFault sample_chunk empty_files)) ''/s/a-001122.bin'' = Some ''hello''"
proof -
  define st where "st = ingestFileChunk ''/s'' 0 NoFault sample_chunk empty_files"
  have tr: "transfer st sample_tid = Some
       (zero_FileTransfer\<lparr>ft_ID := sample_tid, ft_Path := ''a.bin'', ft_Direction := ''download'',
          ft_TotalSize := 5, ft_DoneSize := 5, ft_Status := ''done'', ft_tmpPath := ''/s/a.bin'',
          ft_dlHash := Some ''hello'', ft_dlFed := 5, ft_completedAt := Some 0\<rparr>)"
    by (simp add: st_def ingest_eval empty_files_def sample_chunk_fields)
  have disk: "fs_disk st ''/s/a.bin'' = Some ''hello''" "fs_disk st ''/s/a.bin.part.00112233aabbccdd'' = None"
    by (simp_all add: st_def ingest_eval empty_files_def sample_chunk_fields)
  show ?thesis
    unfolding st_def [symmetric]
    using tr disk by (simp add: ingest_eval verifySHA256_def path_ext_def sample_chunk_fields)
qed

text \<open>
  The staging directory can be left: the receiver names the staged file after the last
  component of the path as the peer spelled it, so a chunk whose path ends in dot-dot passes
  validation, being a spelling of the sandbox root, and is staged at the parent of the
  staging directory.
\<close>

theorem download_staging_escape:
  "SanitizeFileChunk (upload_chunk ''n'' sample_tid ''a/..'' [] 7 ''hello'' LegacyFileChunkRaw 0) \<and>
   ft_tmpPath (new_download ''/tmp/fuseitall-files''
     (upload_chunk ''n'' sample_tid ''a/..'' [] 7 ''hello'' LegacyFileChunkRaw 0)) = ''/tmp''"
proof -
  have "SanitizeFilePath ''a/..'' \<noteq> None" by (simp add: SanitizeFilePath_def path_eval)
  then have "upload_ok ''n'' sample_tid ''a/..'' 7 ''hello'' LegacyFileChunkRaw"
    using sample_upload_ok(1) by (simp add: upload_ok_def)
  then have "SanitizeFileChunk (upload_chunk ''n'' sample_tid ''a/..'' [] 7 ''hello'' LegacyFileChunkRaw 0)"
    using upload_chunk_accepted [of _ _ _ _ _ _ 0] sample_upload_ok(2) by simp
  moreover have "fc_Path (upload_chunk ''n'' sample_tid ''a/..'' [] 7 ''hello'' LegacyFileChunkRaw 0) = ''a/..''"
    by (simp add: upload_chunk_def Let_def)
  ultimately show ?thesis by (simp add: ingest_eval)
qed

end
