(* ===== verification/Settings_Store.thy ===== *)
theory Settings_Store
  imports Settings_Sync
begin

text \<open>
  The Mac's settings store (\<open>apps/mac/backend/settings.go\<close>): the persisted settings, the
  setters of the UI, adoption of the phone's blob and the pending flag of the next upload.
  The wall clock is an argument, as it is read once by each setter.
\<close>

record AppSettings =
  as_NotificationsEnabled :: bool
  as_NotifMode :: string
  as_MutedPackages :: "string list"
  as_AllowedPackages :: "string list"
  as_ClipboardMode :: string
  as_ClipboardAllowSensitive :: bool
  as_PlaybackMode :: string
  as_PlaybackOutput :: string
  as_UpdatedUnix :: int
  as_UpdatedBy :: string

definition zero_AppSettings :: AppSettings where
  "zero_AppSettings =
     \<lparr>as_NotificationsEnabled = False, as_NotifMode = [], as_MutedPackages = [],
      as_AllowedPackages = [], as_ClipboardMode = [], as_ClipboardAllowSensitive = False,
      as_PlaybackMode = [], as_PlaybackOutput = [], as_UpdatedUnix = 0, as_UpdatedBy = []\<rparr>"

definition AppSettings_fields :: "AppSettings fields" where
  "AppSettings_fields =
     [(''notifications_enabled'',
        dec_field as_NotificationsEnabled (\<lambda>x. as_NotificationsEnabled_update (\<lambda>_. x)) dec_bool),
      (''notif_mode'', dec_field as_NotifMode (\<lambda>x. as_NotifMode_update (\<lambda>_. x)) dec_string),
      (''muted_packages'',
        dec_field as_MutedPackages (\<lambda>x. as_MutedPackages_update (\<lambda>_. x)) (dec_slice dec_string [])),
      (''allowed_packages'',
        dec_field as_AllowedPackages (\<lambda>x. as_AllowedPackages_update (\<lambda>_. x)) (dec_slice dec_string [])),
      (''clipboard_mode'',
        dec_field as_ClipboardMode (\<lambda>x. as_ClipboardMode_update (\<lambda>_. x)) dec_string),
      (''clipboard_allow_sensitive'',
        dec_field as_ClipboardAllowSensitive (\<lambda>x. as_ClipboardAllowSensitive_update (\<lambda>_. x)) dec_bool),
      (''playback_mode'',
        dec_field as_PlaybackMode (\<lambda>x. as_PlaybackMode_update (\<lambda>_. x)) dec_string),
      (''playback_output'',
        dec_field as_PlaybackOutput (\<lambda>x. as_PlaybackOutput_update (\<lambda>_. x)) dec_string),
      (''updated_unix'', dec_field as_UpdatedUnix (\<lambda>x. as_UpdatedUnix_update (\<lambda>_. x)) dec_int),
      (''updated_by'', dec_field as_UpdatedBy (\<lambda>x. as_UpdatedBy_update (\<lambda>_. x)) dec_string)]"

definition AppSettings_json :: "AppSettings \<Rightarrow> json" where
  "AppSettings_json st = JObj
     ([(''notifications_enabled'', JBool (as_NotificationsEnabled st)),
       (''notif_mode'', JStr (as_NotifMode st))] @
      omit_empty (as_MutedPackages st \<noteq> []) (''muted_packages'', JArr (map JStr (as_MutedPackages st))) @
      omit_empty (as_AllowedPackages st \<noteq> [])
        (''allowed_packages'', JArr (map JStr (as_AllowedPackages st))) @
      [(''clipboard_mode'', JStr (as_ClipboardMode st))] @
      omit_empty (as_ClipboardAllowSensitive st)
        (''clipboard_allow_sensitive'', JBool (as_ClipboardAllowSensitive st)) @
      [(''playback_mode'', JStr (as_PlaybackMode st)),
       (''playback_output'', JStr (as_PlaybackOutput st)),
       (''updated_unix'', jint (as_UpdatedUnix st)),
       (''updated_by'', JStr (as_UpdatedBy st))])"

definition DefaultAppSettings :: "int \<Rightarrow> AppSettings" where
  "DefaultAppSettings now =
     zero_AppSettings\<lparr>as_NotificationsEnabled := True, as_NotifMode := NotifAllExceptMuted,
       as_ClipboardMode := ClipboardBoth, as_PlaybackMode := PlaybackBoth,
       as_PlaybackOutput := PlaybackOutputInApp, as_UpdatedUnix := now, as_UpdatedBy := OriginMac\<rparr>"

section \<open>The settings file\<close>

datatype settings_error = SettingsDecode | SettingsNegative | UnknownMode | UnknownPackage | ListFull

text \<open>The keys of \<open>map[string]json.RawMessage\<close>: any object, or null for the nil map.\<close>

fun raw_keys :: "json \<Rightarrow> string list option" where
  "raw_keys (JObj ms) = Some (map fst ms)"
| "raw_keys JNull = Some []"
| "raw_keys _ = None"

definition keep_mode :: "string list \<Rightarrow> string \<Rightarrow> string \<Rightarrow> string \<Rightarrow> (string \<Rightarrow> string) \<Rightarrow> string" where
  "keep_mode keys key v dflt norm = (if key \<notin> set keys \<or> v = [] then dflt else norm v)"

definition decodeAppSettings :: "string \<Rightarrow> settings_error + AppSettings" where
  "decodeAppSettings raw =
     (case Option.bind (json_unmarshal raw) raw_keys of
        None \<Rightarrow> Inl SettingsDecode
      | Some keys \<Rightarrow>
         (case unmarshal_into (dec_struct AppSettings_fields) raw zero_AppSettings of
            None \<Rightarrow> Inl SettingsDecode
          | Some st \<Rightarrow>
              if as_UpdatedUnix st < 0 then Inl SettingsNegative
              else Inr (st\<lparr>
                as_NotificationsEnabled :=
                  (if ''notifications_enabled'' \<notin> set keys then True else as_NotificationsEnabled st),
                as_ClipboardMode :=
                  keep_mode keys ''clipboard_mode'' (as_ClipboardMode st) ClipboardBoth NormalizeClipboardMode,
                as_NotifMode :=
                  keep_mode keys ''notif_mode'' (as_NotifMode st) NotifAllExceptMuted NormalizeNotifMode,
                as_PlaybackMode :=
                  keep_mode keys ''playback_mode'' (as_PlaybackMode st) PlaybackBoth NormalizePlaybackMode,
                as_PlaybackOutput :=
                  keep_mode keys ''playback_output'' (as_PlaybackOutput st) PlaybackOutputInApp
                    NormalizePlaybackOutput,
                as_MutedPackages := SanitizeNotifFilterList (as_MutedPackages st),
                as_AllowedPackages := SanitizeNotifFilterList (as_AllowedPackages st),
                as_UpdatedBy := NormalizeUpdatedBy (as_UpdatedBy st)\<rparr>)))"

text \<open>The bytes \<open>StoreAppSettings\<close> writes.\<close>

definition StoreAppSettings :: "AppSettings \<Rightarrow> string" where
  "StoreAppSettings st = json_text (AppSettings_json st) @ [CHR 0x0A]"

section \<open>The store\<close>

record SettingsStore =
  st_cur :: AppSettings
  st_pending :: bool
  st_persist :: bool

definition NewSettingsStore :: "int \<Rightarrow> string option \<Rightarrow> SettingsStore" where
  "NewSettingsStore now file =
     (case file of
        None \<Rightarrow> \<lparr>st_cur = DefaultAppSettings now, st_pending = False, st_persist = True\<rparr>
      | Some raw \<Rightarrow>
         (case decodeAppSettings raw of
            Inl e \<Rightarrow> \<lparr>st_cur = DefaultAppSettings now, st_pending = False, st_persist = True\<rparr>
          | Inr st \<Rightarrow> \<lparr>st_cur = st, st_pending = False, st_persist = True\<rparr>))"

definition NewInMemorySettingsStore :: "int \<Rightarrow> SettingsStore" where
  "NewInMemorySettingsStore now =
     \<lparr>st_cur = DefaultAppSettings now, st_pending = False, st_persist = False\<rparr>"

definition stamp_mac :: "int \<Rightarrow> AppSettings \<Rightarrow> SettingsStore \<Rightarrow> SettingsStore" where
  "stamp_mac now cur s =
     s\<lparr>st_cur := cur\<lparr>as_UpdatedUnix := now, as_UpdatedBy := OriginMac\<rparr>, st_pending := True\<rparr>"

definition SetNotificationsEnabled :: "int \<Rightarrow> bool \<Rightarrow> SettingsStore \<Rightarrow> settings_error + SettingsStore" where
  "SetNotificationsEnabled now enabled s =
     Inr (stamp_mac now ((st_cur s)\<lparr>as_NotificationsEnabled := enabled\<rparr>) s)"

definition SetClipboardMode :: "int \<Rightarrow> string \<Rightarrow> SettingsStore \<Rightarrow> settings_error + SettingsStore" where
  "SetClipboardMode now mode s =
     (let norm = NormalizeClipboardMode mode
      in if \<not> IsValidClipboardMode norm then Inl UnknownMode
         else Inr (stamp_mac now ((st_cur s)\<lparr>as_ClipboardMode := norm\<rparr>) s))"

definition SetClipboardAllowSensitive :: "int \<Rightarrow> bool \<Rightarrow> SettingsStore \<Rightarrow> settings_error + SettingsStore" where
  "SetClipboardAllowSensitive now allow s =
     Inr (stamp_mac now ((st_cur s)\<lparr>as_ClipboardAllowSensitive := allow\<rparr>) s)"

definition SetNotifMode :: "int \<Rightarrow> string \<Rightarrow> SettingsStore \<Rightarrow> settings_error + SettingsStore" where
  "SetNotifMode now mode s =
     (let norm = NormalizeNotifMode mode
      in if \<not> IsValidNotifMode norm then Inl UnknownMode
         else Inr (stamp_mac now ((st_cur s)\<lparr>as_NotifMode := norm\<rparr>) s))"

definition SetPlaybackMode :: "int \<Rightarrow> string \<Rightarrow> SettingsStore \<Rightarrow> settings_error + SettingsStore" where
  "SetPlaybackMode now mode s =
     (let norm = NormalizePlaybackMode mode
      in if \<not> IsValidPlaybackMode norm then Inl UnknownMode
         else Inr (stamp_mac now ((st_cur s)\<lparr>as_PlaybackMode := norm\<rparr>) s))"

definition SetPlaybackOutput :: "int \<Rightarrow> string \<Rightarrow> SettingsStore \<Rightarrow> settings_error + SettingsStore" where
  "SetPlaybackOutput now out s =
     (let norm = NormalizePlaybackOutput out
      in if \<not> IsValidPlaybackOutput norm then Inl UnknownMode
         else Inr (stamp_mac now ((st_cur s)\<lparr>as_PlaybackOutput := norm\<rparr>) s))"

definition SetAppMuted :: "int \<Rightarrow> string \<Rightarrow> bool \<Rightarrow> SettingsStore \<Rightarrow> settings_error + SettingsStore" where
  "SetAppMuted now pkg muted s =
     (let clean = SanitizePackageName pkg
      in if clean = [] then Inl UnknownPackage
         else
           let kept = filter (\<lambda>p. p \<noteq> clean) (as_MutedPackages (st_cur s))
           in if muted \<and> length kept \<ge> MaxNotifFilterApps then Inl ListFull
              else let kept = (if muted then SanitizeNotifFilterList (kept @ [clean]) else kept)
                   in Inr (stamp_mac now ((st_cur s)\<lparr>as_MutedPackages := kept\<rparr>) s))"

definition SetAppAllowed :: "int \<Rightarrow> string \<Rightarrow> bool \<Rightarrow> SettingsStore \<Rightarrow> settings_error + SettingsStore" where
  "SetAppAllowed now pkg allowed s =
     (let clean = SanitizePackageName pkg
      in if clean = [] then Inl UnknownPackage
         else
           let kept = filter (\<lambda>p. p \<noteq> clean) (as_AllowedPackages (st_cur s))
           in if allowed \<and> length kept \<ge> MaxNotifFilterApps then Inl ListFull
              else let kept = (if allowed then SanitizeNotifFilterList (kept @ [clean]) else kept)
                   in Inr (stamp_mac now ((st_cur s)\<lparr>as_AllowedPackages := kept\<rparr>) s))"

definition blank_settings :: "int \<Rightarrow> string \<Rightarrow> SettingsSyncPayload" where
  "blank_settings unix by' = zero_SettingsSyncPayload\<lparr>ss_UpdatedUnix := unix, ss_UpdatedBy := by'\<rparr>"

definition adopt_settings :: "SettingsSyncPayload \<Rightarrow> AppSettings \<Rightarrow> AppSettings" where
  "adopt_settings r cur = cur\<lparr>
     as_NotificationsEnabled :=
       (case ss_NotificationsEnabled r of None \<Rightarrow> as_NotificationsEnabled cur | Some b \<Rightarrow> b),
     as_ClipboardMode := ss_ClipboardMode r,
     as_NotifMode := ss_NotifMode r,
     as_MutedPackages := ss_MutedPackages r,
     as_AllowedPackages := ss_AllowedPackages r,
     as_PlaybackMode := ss_PlaybackMode r,
     as_PlaybackOutput := ss_PlaybackOutput r,
     as_ClipboardAllowSensitive :=
       (case ss_ClipboardAllowSensitive r of None \<Rightarrow> as_ClipboardAllowSensitive cur | Some b \<Rightarrow> b),
     as_UpdatedUnix := ss_UpdatedUnix r,
     as_UpdatedBy := NormalizeUpdatedBy (ss_UpdatedBy r)\<rparr>"

definition SettingsStore_ApplyRemote :: "SettingsSyncPayload \<Rightarrow> SettingsStore \<Rightarrow> SettingsStore \<times> bool" where
  "SettingsStore_ApplyRemote remote s =
     (case SanitizeSettings remote of
        None \<Rightarrow> (s, False)
      | Some r \<Rightarrow>
          if \<not> RemoteSettingsWins
                (blank_settings (as_UpdatedUnix (st_cur s)) (as_UpdatedBy (st_cur s))) r
          then (s, False)
          else (s\<lparr>st_cur := adopt_settings r (st_cur s), st_pending := False\<rparr>, True))"

definition SettingsStore_TakePending :: "SettingsStore \<Rightarrow> SettingsStore \<times> AppSettings option" where
  "SettingsStore_TakePending s =
     (if \<not> st_pending s then (s, None) else (s\<lparr>st_pending := False\<rparr>, Some (st_cur s)))"

definition SettingsStore_HasPending :: "SettingsStore \<Rightarrow> bool" where
  "SettingsStore_HasPending s = st_pending s"

text \<open>What \<open>persistSnapshot\<close> leaves in the file.\<close>

definition persistSnapshot :: "SettingsStore \<Rightarrow> string option \<Rightarrow> string option" where
  "persistSnapshot s file = (if \<not> st_persist s then file else Some (StoreAppSettings (st_cur s)))"

section \<open>The blob sent to the phone\<close>

definition or_default :: "string \<Rightarrow> string \<Rightarrow> string" where
  "or_default v dflt = (if v = [] then dflt else v)"

definition settings_blob :: "AppSettings \<Rightarrow> SettingsSyncPayload" where
  "settings_blob st = zero_SettingsSyncPayload\<lparr>
     ss_NotificationsEnabled := Some (as_NotificationsEnabled st),
     ss_ClipboardMode := or_default (as_ClipboardMode st) ClipboardBoth,
     ss_NotifMode := or_default (as_NotifMode st) NotifAllExceptMuted,
     ss_MutedPackages := as_MutedPackages st,
     ss_AllowedPackages := as_AllowedPackages st,
     ss_PlaybackMode := or_default (as_PlaybackMode st) PlaybackBoth,
     ss_PlaybackOutput := or_default (as_PlaybackOutput st) PlaybackOutputInApp,
     ss_ClipboardAllowSensitive := Some (as_ClipboardAllowSensitive st),
     ss_UpdatedUnix := as_UpdatedUnix st,
     ss_UpdatedBy := as_UpdatedBy st\<rparr>"

text \<open>\<open>requeueSettings\<close>, when the upload failed.\<close>

definition requeueSettings :: "SettingsStore \<Rightarrow> SettingsStore" where
  "requeueSettings s = s\<lparr>st_pending := True\<rparr>"

section \<open>The store's invariant\<close>

definition settings_ok :: "AppSettings \<Rightarrow> bool" where
  "settings_ok st \<longleftrightarrow>
     NormalizeNotifMode (as_NotifMode st) = as_NotifMode st \<and>
     NormalizeClipboardMode (as_ClipboardMode st) = as_ClipboardMode st \<and>
     NormalizePlaybackMode (as_PlaybackMode st) = as_PlaybackMode st \<and>
     NormalizePlaybackOutput (as_PlaybackOutput st) = as_PlaybackOutput st \<and>
     SanitizeNotifFilterList (as_MutedPackages st) = as_MutedPackages st \<and>
     SanitizeNotifFilterList (as_AllowedPackages st) = as_AllowedPackages st \<and>
     0 \<le> as_UpdatedUnix st \<and> ascii (as_UpdatedBy st) \<and>
     NormalizeOrigin (as_UpdatedBy st) = as_UpdatedBy st"

text \<open>What may happen to the store while the program runs. Timestamps are after 1970 and
  the phone names itself in ASCII.\<close>

inductive settings_step :: "SettingsStore \<Rightarrow> SettingsStore \<Rightarrow> bool" where
  set_enabled: "0 \<le> now \<Longrightarrow> SetNotificationsEnabled now b s = Inr s' \<Longrightarrow> settings_step s s'"
| set_clipboard: "0 \<le> now \<Longrightarrow> SetClipboardMode now m s = Inr s' \<Longrightarrow> settings_step s s'"
| set_sensitive: "0 \<le> now \<Longrightarrow> SetClipboardAllowSensitive now b s = Inr s' \<Longrightarrow> settings_step s s'"
| set_notif: "0 \<le> now \<Longrightarrow> SetNotifMode now m s = Inr s' \<Longrightarrow> settings_step s s'"
| set_playback: "0 \<le> now \<Longrightarrow> SetPlaybackMode now m s = Inr s' \<Longrightarrow> settings_step s s'"
| set_output: "0 \<le> now \<Longrightarrow> SetPlaybackOutput now m s = Inr s' \<Longrightarrow> settings_step s s'"
| set_muted: "0 \<le> now \<Longrightarrow> SetAppMuted now pkg b s = Inr s' \<Longrightarrow> settings_step s s'"
| set_allowed: "0 \<le> now \<Longrightarrow> SetAppAllowed now pkg b s = Inr s' \<Longrightarrow> settings_step s s'"
| remote: "ascii (ss_UpdatedBy r) \<Longrightarrow> settings_step s (fst (SettingsStore_ApplyRemote r s))"
| take: "settings_step s (fst (SettingsStore_TakePending s))"
| requeue: "settings_step s (requeueSettings s)"

lemma filter_list_fixed:
  "SanitizeNotifFilterList l = l \<longleftrightarrow>
     sorted l \<and> distinct l \<and> length l \<le> 100 \<and> (\<forall>p \<in> set l. p \<noteq> [] \<and> SanitizePackageName p = p)"
proof
  assume l: "SanitizeNotifFilterList l = l"
  show "sorted l \<and> distinct l \<and> length l \<le> 100 \<and> (\<forall>p \<in> set l. p \<noteq> [] \<and> SanitizePackageName p = p)"
    using filter_list_props[of l l] l by auto
next
  assume "sorted l \<and> distinct l \<and> length l \<le> 100 \<and> (\<forall>p \<in> set l. p \<noteq> [] \<and> SanitizePackageName p = p)"
  then show "SanitizeNotifFilterList l = l"
    using filter_collect_fixed[of "[]" l] by (simp add: SanitizeNotifFilterList_sort sorted_sort_id)
qed

lemma filter_list_remove:
  "SanitizeNotifFilterList l = l \<Longrightarrow>
   SanitizeNotifFilterList (filter (\<lambda>p. p \<noteq> c) l) = filter (\<lambda>p. p \<noteq> c) l"
  by (auto simp: filter_list_fixed sorted_wrt_filter intro: le_trans[OF length_filter_le])

lemma modes_fixed:
  "NormalizeNotifMode NotifAllExceptMuted = NotifAllExceptMuted"
  "NormalizeClipboardMode ClipboardBoth = ClipboardBoth"
  "NormalizePlaybackMode PlaybackBoth = PlaybackBoth"
  "NormalizePlaybackOutput PlaybackOutputInApp = PlaybackOutputInApp"
  by (simp_all add: notif_mode.norm_fixed clipboard_mode.norm_fixed playback_mode.norm_fixed
      playback_output.norm_fixed go_consts)

lemma settings_ok_default: "0 \<le> now \<Longrightarrow> settings_ok (DefaultAppSettings now)"
  by (simp add: settings_ok_def DefaultAppSettings_def zero_AppSettings_def modes_fixed
      SanitizeNotifFilterList_def OriginMac_def)

lemma settings_ok_stamp:
  "0 \<le> now \<Longrightarrow> settings_ok (cur\<lparr>as_UpdatedUnix := 0, as_UpdatedBy := OriginMac\<rparr>) \<Longrightarrow>
   settings_ok (st_cur (stamp_mac now cur s))"
  by (simp add: settings_ok_def stamp_mac_def OriginMac_def)

lemma settings_ok_adopt:
  assumes "settings_ok cur" "SanitizeSettings r = Some q" "ascii (ss_UpdatedBy r)"
  shows "settings_ok (adopt_settings q cur)"
  using assms
  by (auto simp: settings_ok_def adopt_settings_def SanitizeSettings_def NormalizeUpdatedBy_def
      NormalizeOrigin_idem ascii_NormalizeOrigin clipboard_mode.norm_idem notif_mode.norm_idem
      playback_mode.norm_idem playback_output.norm_idem split: if_splits)

lemmas setter_defs = SetNotificationsEnabled_def SetClipboardMode_def SetClipboardAllowSensitive_def
  SetNotifMode_def SetPlaybackMode_def SetPlaybackOutput_def SetAppMuted_def SetAppAllowed_def

lemma settings_step_ok: "settings_step s s' \<Longrightarrow> settings_ok (st_cur s) \<Longrightarrow> settings_ok (st_cur s')"
proof (induction rule: settings_step.induct)
  case (remote r s)
  then show ?case
    by (auto simp: SettingsStore_ApplyRemote_def intro: settings_ok_adopt split: option.split)
qed (auto simp: setter_defs Let_def settings_ok_def stamp_mac_def OriginMac_def filter_list_remove
    SettingsStore_TakePending_def requeueSettings_def clipboard_mode.norm_idem notif_mode.norm_idem
    playback_mode.norm_idem playback_output.norm_idem split: if_splits)

text \<open>
  From the first launch on, whatever the UI sets, the phone sends or the upload loop
  does, the store's settings stay canonical: every mode is one of the known modes, both
  filter lists are sorted, free of duplicates and at most 100 long, the timestamp is not
  negative and the writer is normalised.
\<close>

theorem settings_store_invariant:
  assumes "settings_step\<^sup>*\<^sup>* (NewInMemorySettingsStore now) s" "0 \<le> now"
  shows "settings_ok (st_cur s)"
  using assms
  by (induction rule: rtranclp_induct)
    (auto simp: NewInMemorySettingsStore_def settings_ok_default intro: settings_step_ok)

theorem settings_store_invariant_witness:
  "settings_ok (st_cur (requeueSettings (NewInMemorySettingsStore 5)))"
  by (rule settings_store_invariant[of 5])
    (auto intro: settings_step.requeue)

section \<open>The store is a last-writer-wins register\<close>

definition settings_of :: "SettingsSyncPayload \<Rightarrow> AppSettings" where
  "settings_of r = adopt_settings r zero_AppSettings"

definition complete_blob :: "SettingsSyncPayload \<Rightarrow> bool" where
  "complete_blob r \<longleftrightarrow> 0 \<le> ss_UpdatedUnix r \<and> ascii (ss_UpdatedBy r) \<and>
     ss_NotificationsEnabled r \<noteq> None \<and> ss_ClipboardAllowSensitive r \<noteq> None"

definition clean_blob :: "SettingsSyncPayload \<Rightarrow> SettingsSyncPayload" where
  "clean_blob r = (the (SanitizeSettings r))\<lparr>ss_Nonce := []\<rparr>"

definition apply_all :: "SettingsStore \<Rightarrow> SettingsSyncPayload list \<Rightarrow> SettingsStore" where
  "apply_all s rs = foldl (\<lambda>s r. fst (SettingsStore_ApplyRemote r s)) s rs"

lemma norm_nonempty:
  "NormalizeNotifMode m \<noteq> []" "NormalizeClipboardMode m \<noteq> []"
  "NormalizePlaybackMode m \<noteq> []" "NormalizePlaybackOutput m \<noteq> []"
  using notif_mode.norm_canon[of m] clipboard_mode.norm_canon[of m]
    playback_mode.norm_canon[of m] playback_output.norm_canon[of m]
  by (auto simp: clipboard_modes_def)

lemma settings_blob_modes:
  assumes "settings_ok st"
  shows "or_default (as_NotifMode st) d = as_NotifMode st"
    "or_default (as_ClipboardMode st) d = as_ClipboardMode st"
    "or_default (as_PlaybackMode st) d = as_PlaybackMode st"
    "or_default (as_PlaybackOutput st) d = as_PlaybackOutput st"
    "NormalizeUpdatedBy (as_UpdatedBy st) = as_UpdatedBy st"
  using assms norm_nonempty unfolding settings_ok_def or_default_def NormalizeUpdatedBy_def by metis+

lemma settings_of_blob: "settings_ok st \<Longrightarrow> settings_of (settings_blob st) = st"
  by (rule AppSettings.equality)
    (simp_all add: settings_of_def adopt_settings_def settings_blob_def settings_blob_modes)

lemma clean_blob_complete:
  assumes "complete_blob r"
  shows "SanitizeSettings r = Some ((clean_blob r)\<lparr>ss_Nonce := ss_Nonce r\<rparr>)"
    and "settings_rank (clean_blob r) = settings_rank r"
    and "adopt_settings ((clean_blob r)\<lparr>ss_Nonce := n\<rparr>) cur = settings_of (clean_blob r)"
    and "settings_blob (settings_of (clean_blob r)) = clean_blob r"
proof -
  obtain q where q: "SanitizeSettings r = Some q"
    using assms by (auto simp: complete_blob_def SanitizeSettings_def)
  have by': "NormalizeOrigin (ss_UpdatedBy q) = ss_UpdatedBy q"
    and ptr: "ss_NotificationsEnabled q \<noteq> None" "ss_ClipboardAllowSensitive q \<noteq> None"
    and nonce: "ss_Nonce q = ss_Nonce r"
    and modes: "ss_NotifMode q \<noteq> []" "ss_ClipboardMode q \<noteq> []" "ss_PlaybackMode q \<noteq> []"
      "ss_PlaybackOutput q \<noteq> []"
    using q assms
    by (auto simp: SanitizeSettings_def complete_blob_def NormalizeUpdatedBy_def
        NormalizeOrigin_idem norm_nonempty split: if_splits)
  have cl: "clean_blob r = q\<lparr>ss_Nonce := []\<rparr>" by (simp add: clean_blob_def q)
  show "SanitizeSettings r = Some ((clean_blob r)\<lparr>ss_Nonce := ss_Nonce r\<rparr>)"
    using q nonce by (simp add: cl flip: nonce)
  show "settings_rank (clean_blob r) = settings_rank r"
    using SanitizeSettings_rank[OF q] assms by (simp add: cl complete_blob_def settings_rank_def)
  show "adopt_settings ((clean_blob r)\<lparr>ss_Nonce := n\<rparr>) cur = settings_of (clean_blob r)"
    using ptr by (cases cur) (auto simp: cl settings_of_def adopt_settings_def zero_AppSettings_def)
  show "settings_blob (settings_of (clean_blob r)) = clean_blob r"
    using ptr modes by'
    by (cases q) (auto simp: cl settings_of_def settings_blob_def adopt_settings_def
        zero_AppSettings_def zero_SettingsSyncPayload_def or_default_def NormalizeUpdatedBy_def)
qed

lemma wins_blob:
  "RemoteSettingsWins (blank_settings (as_UpdatedUnix c) (as_UpdatedBy c)) r \<longleftrightarrow>
   RemoteSettingsWins (settings_blob c) (r\<lparr>ss_Nonce := []\<rparr>)"
  by (simp add: RemoteSettingsWins_def blank_settings_def settings_blob_def)

lemma apply_refines:
  assumes "complete_blob r" "settings_ok (st_cur s)"
  shows "settings_blob (st_cur (fst (SettingsStore_ApplyRemote r s))) =
           lww_merge RemoteSettingsWins (settings_blob (st_cur s)) (clean_blob r)"
    and "settings_ok (st_cur (fst (SettingsStore_ApplyRemote r s)))"
proof -
  note cl = clean_blob_complete[OF assms(1)]
  have nonce: "(clean_blob r)\<lparr>ss_Nonce := []\<rparr> = clean_blob r" by (simp add: clean_blob_def)
  show "settings_blob (st_cur (fst (SettingsStore_ApplyRemote r s))) =
           lww_merge RemoteSettingsWins (settings_blob (st_cur s)) (clean_blob r)"
    by (simp add: SettingsStore_ApplyRemote_def cl(1) wins_blob nonce cl(3,4) lww_merge_def)
  show "settings_ok (st_cur (fst (SettingsStore_ApplyRemote r s)))"
    using settings_step_ok[OF settings_step.remote assms(2)] assms(1) by (simp add: complete_blob_def)
qed

lemma apply_all_refines:
  assumes "\<forall>r \<in> set rs. complete_blob r" "settings_ok (st_cur s)"
  shows "settings_blob (st_cur (apply_all s rs)) =
           foldl (lww_merge RemoteSettingsWins) (settings_blob (st_cur s)) (map clean_blob rs)"
    and "settings_ok (st_cur (apply_all s rs))"
  using assms
proof (induction rs arbitrary: s)
  case (Cons r rs)
  {
    case 1
    then show ?case using Cons.IH(1) apply_refines[of r s] by (simp add: apply_all_def)
  next
    case 2
    then show ?case using Cons.IH(2) apply_refines[of r s] by (simp add: apply_all_def)
  }
qed (simp_all add: apply_all_def)

text \<open>
  The settings store refines a last-writer-wins register of settings blobs: seen as the
  blob the next upload would send, adopting a complete blob is the merge of the abstract
  register, whatever the store held.
\<close>

theorem settings_refines_register:
  assumes "complete_blob r" "settings_ok (st_cur s)"
  shows "settings_blob (st_cur (fst (SettingsStore_ApplyRemote r s))) =
         lww_merge RemoteSettingsWins (settings_blob (st_cur s)) (clean_blob r)"
  by (rule apply_refines(1)[OF assms])

theorem settings_refines_register_witness:
  "settings_blob (st_cur (fst (SettingsStore_ApplyRemote (settings_blob (DefaultAppSettings 9))
     (NewInMemorySettingsStore 5)))) =
   lww_merge RemoteSettingsWins (settings_blob (DefaultAppSettings 5))
     (clean_blob (settings_blob (DefaultAppSettings 9)))"
proof -
  have "complete_blob (settings_blob (DefaultAppSettings 9))"
    by (simp add: complete_blob_def settings_blob_def DefaultAppSettings_def OriginMac_def)
  then show ?thesis
    using settings_refines_register[of "settings_blob (DefaultAppSettings 9)" "NewInMemorySettingsStore 5"]
    by (simp add: NewInMemorySettingsStore_def settings_ok_default)
qed



section \<open>The settings file\<close>

definition settings_utf8 :: "AppSettings \<Rightarrow> bool" where
  "settings_utf8 st \<longleftrightarrow> list_all valid_utf8 (as_MutedPackages st) \<and>
     list_all valid_utf8 (as_AllowedPackages st) \<and> int64 (as_UpdatedUnix st)"

lemma AppSettings_keys_utf8:
  "list_all valid_utf8 [''notifications_enabled'', ''notif_mode'', ''muted_packages'',
     ''allowed_packages'', ''clipboard_mode'', ''clipboard_allow_sensitive'', ''playback_mode'',
     ''playback_output'', ''updated_unix'', ''updated_by'']"
  by (simp add: valid_utf8_ascii)

lemma settings_modes_utf8:
  assumes "settings_ok st"
  shows "valid_utf8 (as_NotifMode st)" "valid_utf8 (as_ClipboardMode st)"
    "valid_utf8 (as_PlaybackMode st)" "valid_utf8 (as_PlaybackOutput st)" "valid_utf8 (as_UpdatedBy st)"
proof -
  have w: "valid_utf8 m" if "m \<in> set clipboard_modes \<or> m \<in> set [''all_except_muted'', ''only_allowed'']
      \<or> m \<in> set [''inapp'', ''system'']" for m
    using that by (auto simp: clipboard_modes_def intro!: valid_utf8_ascii)
  have "as_NotifMode st \<in> set [''all_except_muted'', ''only_allowed'']"
    "as_ClipboardMode st \<in> set clipboard_modes" "as_PlaybackMode st \<in> set clipboard_modes"
    "as_PlaybackOutput st \<in> set [''inapp'', ''system'']"
    using assms notif_mode.norm_canon clipboard_mode.norm_canon playback_mode.norm_canon
      playback_output.norm_canon unfolding settings_ok_def by metis+
  then show "valid_utf8 (as_NotifMode st)" "valid_utf8 (as_ClipboardMode st)"
    "valid_utf8 (as_PlaybackMode st)" "valid_utf8 (as_PlaybackOutput st)" using w by blast+
  show "valid_utf8 (as_UpdatedBy st)"
    using assms by (intro valid_utf8_ascii) (simp add: settings_ok_def ascii_def list_all_iff)
qed

lemma AppSettings_json_printable:
  assumes "settings_ok st" "settings_utf8 st"
  shows "json_printable (AppSettings_json st)" "json_depth (AppSettings_json st) \<le> max_nesting"
  using assms AppSettings_keys_utf8 settings_modes_utf8[OF assms(1)]
  by (auto simp: AppSettings_json_def settings_utf8_def omit_empty_def max_nesting_def list_all_iff)

lemma dec_AppSettings_json:
  assumes "settings_ok st" "settings_utf8 st"
  shows "dec_struct AppSettings_fields (AppSettings_json st) zero_AppSettings = Some st"
  using assms settings_modes_utf8[OF assms(1)]
  by (simp add: AppSettings_json_def AppSettings_fields_def field_for_exact dec_field_def
      omit_empty_def zero_AppSettings_def settings_utf8_def)

lemma settings_decode_store:
  assumes "settings_ok st" "settings_utf8 st"
  shows "decodeAppSettings (StoreAppSettings st) = Inr st"
proof -
  have u: "json_unmarshal (StoreAppSettings st) = Some (AppSettings_json st)"
    unfolding StoreAppSettings_def
    by (rule json_unmarshal_text_newline[OF AppSettings_json_printable[OF assms]])
  have keys: "\<exists>ks. raw_keys (AppSettings_json st) = Some ks \<and> {''notifications_enabled'',
      ''clipboard_mode'', ''notif_mode'', ''playback_mode'', ''playback_output''} \<subseteq> set ks"
    by (simp add: AppSettings_json_def)
  have keep: "keep_mode ks k m d f = m" if "k \<in> set ks" "f m = m" "f m \<noteq> []" for ks k m d f
    using that by (simp add: keep_mode_def)
  show ?thesis
    using keys u dec_AppSettings_json[OF assms] assms(1) norm_nonempty
    by (auto simp: decodeAppSettings_def unmarshal_into_def settings_ok_def NormalizeUpdatedBy_def
        intro!: AppSettings.equality keep)
qed

text \<open>
  A restart keeps the settings: for canonical settings with UTF-8 package names and a
  64-bit timestamp, what \<open>persistSnapshot\<close> wrote is exactly what the next
  \<open>NewSettingsStore\<close> loads; an in-memory (demo) store leaves the file alone.
\<close>

theorem settings_survive_restart:
  assumes "settings_ok (st_cur s)" "settings_utf8 (st_cur s)" "st_persist s"
  shows "st_cur (NewSettingsStore now (persistSnapshot s file)) = st_cur s \<and>
         persistSnapshot (NewInMemorySettingsStore now) file = file"
  using settings_decode_store[OF assms(1,2)] assms(3)
  by (simp add: persistSnapshot_def NewSettingsStore_def NewInMemorySettingsStore_def)

theorem settings_survive_restart_witness:
  "st_cur (NewSettingsStore 7 (persistSnapshot (NewSettingsStore 5 None) None)) = DefaultAppSettings 5"
proof -
  have "settings_utf8 (DefaultAppSettings 5)"
    by (simp add: settings_utf8_def DefaultAppSettings_def zero_AppSettings_def int64_def)
  then show ?thesis
    using settings_survive_restart[of "NewSettingsStore 5 None" 7 None] settings_ok_default[of 5]
    by (simp add: NewSettingsStore_def)
qed

end
