(* ===== verification/Clip_Hub.thy ===== *)
theory Clip_Hub
  imports Clip_Sync "HOL-Library.AList" "HOL-Library.Multiset"
begin

text \<open>
  Chunked clipboard images on the Mac (\<open>apps/mac/backend/clipboard_chunk.go\<close>): splitting an
  image into chunks, and the hub that reassembles inbound sessions. The hub's Go map is an
  association list; its order stands for the order in which the sweep happens to iterate.
  Time is in nanoseconds and an argument.
\<close>

record clipChunkSession =
  cs_manifest :: ClipManifestPayload
  cs_chunks :: "int \<rightharpoonup> string"
  cs_received :: int
  cs_totalRaw :: int
  cs_updated :: int

type_synonym ClipChunkHub = "(string \<times> clipChunkSession) list"

definition NewClipChunkHub :: ClipChunkHub where
  "NewClipChunkHub = []"

definition session_ttl :: int where
  "session_ttl = 300000000000"

fun oldest_session :: "ClipChunkHub \<Rightarrow> (string \<times> int) option \<Rightarrow> (string \<times> int) option" where
  "oldest_session [] best = best"
| "oldest_session ((i, sess) # h) best =
     oldest_session h
       (case best of
          None \<Rightarrow> Some (i, cs_updated sess)
        | Some (j, at') \<Rightarrow>
            if j = [] \<or> cs_updated sess < at' then Some (i, cs_updated sess) else best)"

definition sweepLocked :: "int \<Rightarrow> ClipChunkHub \<Rightarrow> ClipChunkHub" where
  "sweepLocked now h =
     (let h = filter (\<lambda>(i, sess). \<not> now - cs_updated sess > session_ttl) h
      in if length h > 8
         then (case oldest_session h None of
                 None \<Rightarrow> h
               | Some (oldest, _) \<Rightarrow> if oldest \<noteq> [] then AList.delete oldest h else h)
         else h)"

definition ClipChunkHub_Begin :: "int \<Rightarrow> ClipManifestPayload \<Rightarrow> ClipChunkHub \<Rightarrow> ClipChunkHub \<times> bool" where
  "ClipChunkHub_Begin now m h =
     (let h = sweepLocked now h
      in case map_of h (cm_SessionID m) of
           Some _ \<Rightarrow> (h, False)
         | None \<Rightarrow>
             (AList.update (cm_SessionID m)
                \<lparr>cs_manifest = m, cs_chunks = Map.empty, cs_received = 0,
                 cs_totalRaw = cm_TotalRaw m, cs_updated = now\<rparr> h, True))"

fun assemble :: "(int \<rightharpoonup> string) \<Rightarrow> int list \<Rightarrow> string option" where
  "assemble chunks [] = Some []"
| "assemble chunks (i # is) =
     (case chunks i of
        None \<Rightarrow> None
      | Some part \<Rightarrow> map_option (\<lambda>rest. part @ rest) (assemble chunks is))"

definition reassembled_push :: "ClipManifestPayload \<Rightarrow> string \<Rightarrow> ClipPushPayload" where
  "reassembled_push m assembled =
     zero_ClipPushPayload\<lparr>cp_Kind := ClipKindImage,
       cp_Mime := (case SanitizeClipMime (cm_Mime m) of None \<Rightarrow> [] | Some x \<Rightarrow> x),
       cp_ImageB64 := b64_std_encode assembled,
       cp_Filename := SanitizeClipFilename (cm_Filename m),
       cp_ChangedAt := cm_ChangedAt m, cp_ChangedC := cm_ChangedC m, cp_Origin := cm_Origin m,
       cp_ContentHash := to_lower (cm_ContentHash m), cp_Sensitive := cm_Sensitive m\<rparr>"

definition finish_session :: "ClipManifestPayload \<Rightarrow> int \<Rightarrow> string \<Rightarrow> ClipPushPayload option" where
  "finish_session m totalRaw assembled =
     (if int (length assembled) \<noteq> totalRaw then None
      else if fold_key (ContentHashForBytes assembled) \<noteq> fold_key (cm_ContentHash m) then None
      else if SanitizeClipImage (b64_std_encode assembled) (cm_Mime m) = None \<and>
              SniffImageMime assembled = [] then None
      else Some (reassembled_push m assembled))"

definition ClipChunkHub_Add ::
  "int \<Rightarrow> ClipChunkPayload \<Rightarrow> ClipChunkHub \<Rightarrow> ClipChunkHub \<times> ClipPushPayload option" where
  "ClipChunkHub_Add now c h =
     (case DecodeClipChunkData (cc_DataB64 c) of
        None \<Rightarrow> (h, None)
      | Some raw \<Rightarrow>
         (case map_of h (cc_SessionID c) of
            None \<Rightarrow> (h, None)
          | Some sess \<Rightarrow>
              let m = cs_manifest sess
              in if cc_TotalChunks c \<noteq> cm_TotalChunks m \<or> cc_TotalRaw c \<noteq> cm_TotalRaw m
                 then (AList.delete (cc_SessionID c) h, None)
                 else if cs_chunks sess (cc_ChunkIndex c) \<noteq> None then (h, None)
                 else
                   let sess = sess\<lparr>cs_chunks := (cs_chunks sess)(cc_ChunkIndex c \<mapsto> raw),
                                   cs_received := cs_received sess + 1, cs_updated := now\<rparr>
                   in if cs_received sess \<noteq> cm_TotalChunks m
                      then (AList.update (cc_SessionID c) sess h, None)
                      else (AList.delete (cc_SessionID c) h,
                            Option.bind (assemble (cs_chunks sess) [0..cm_TotalChunks m - 1])
                              (finish_session m (cs_totalRaw sess)))))"

function splitClipBytes_from :: "string \<Rightarrow> string list" where
  "splitClipBytes_from raw =
     (if raw = [] then []
      else take (nat ClipChunkRaw) raw # splitClipBytes_from (drop (nat ClipChunkRaw) raw))"
  by pat_completeness auto
termination
  by (relation "measure length") (auto simp: ClipChunkRaw_def)

declare splitClipBytes_from.simps [simp del]

definition splitClipBytes :: "string \<Rightarrow> string list" where
  "splitClipBytes raw = (let chunks = splitClipBytes_from raw in if chunks = [] then [[]] else chunks)"

text \<open>The chunk \<open>sendLargeClipboardImage\<close> builds from part \<open>i\<close>.\<close>

definition large_chunk :: "string \<Rightarrow> string \<Rightarrow> string \<Rightarrow> nat \<Rightarrow> ClipChunkPayload" where
  "large_chunk nonce session raw i =
     (let parts = splitClipBytes raw
      in zero_ClipChunkPayload\<lparr>
           cc_Nonce := nonce, cc_SessionID := session, cc_ChunkIndex := int i,
           cc_TotalChunks := TotalClipChunksForSize (int (length raw)),
           cc_Offset := int i * ClipChunkRaw, cc_TotalRaw := int (length raw),
           cc_DataB64 := b64_std_encode (parts ! i),
           cc_ContentHash := (if i = length parts - 1 then ContentHashForBytes raw else [])\<rparr>)"

definition large_manifest ::
  "string \<Rightarrow> string \<Rightarrow> string \<Rightarrow> string \<Rightarrow> ClipStamp \<Rightarrow> bool \<Rightarrow> string \<Rightarrow> ClipManifestPayload" where
  "large_manifest nonce session mime filename stamp sensitive raw =
     zero_ClipManifestPayload\<lparr>
       cm_Nonce := nonce, cm_SessionID := session,
       cm_Mime := (case SanitizeClipMime mime of None \<Rightarrow> [] | Some m \<Rightarrow> m),
       cm_Filename := SanitizeClipFilename filename,
       cm_TotalRaw := int (length raw), cm_TotalChunks := TotalClipChunksForSize (int (length raw)),
       cm_ChunkSize := ClipChunkRaw, cm_ChangedAt := stamp_L stamp, cm_ChangedC := stamp_C stamp,
       cm_Origin := OriginMac, cm_ContentHash := ContentHashForBytes raw, cm_Sensitive := sensitive\<rparr>"

section \<open>Splitting\<close>

lemma split_from_concat: "concat (splitClipBytes_from raw) = raw"
  by (induction raw rule: splitClipBytes_from.induct) (subst splitClipBytes_from.simps, simp)

lemma split_from_parts:
  "p \<in> set (splitClipBytes_from raw) \<Longrightarrow> p \<noteq> [] \<and> length p \<le> 1048576"
proof (induction raw rule: splitClipBytes_from.induct)
  case (1 raw)
  then show ?case
    by (subst (asm) (2) splitClipBytes_from.simps) (auto simp: ClipChunkRaw_def split: if_splits)
qed

lemma split_from_count: "length (splitClipBytes_from raw) = (length raw + 1048575) div 1048576"
proof (induction raw rule: splitClipBytes_from.induct)
  case (1 raw)
  show ?case
  proof (cases "length raw \<le> 1048576")
    case True
    have "(length raw + 1048575) div 1048576 = 1" if "raw \<noteq> []"
      using that True by (intro div_nat_eqI) (cases raw; simp)+
    then show ?thesis using True
      by (subst splitClipBytes_from.simps, subst splitClipBytes_from.simps)
        (auto simp: ClipChunkRaw_def)
  next
    case False
    then have "raw \<noteq> []" by auto
    then have "length (splitClipBytes_from raw) = Suc ((length raw - 1048576 + 1048575) div 1048576)"
      using 1 by (subst splitClipBytes_from.simps) (simp add: ClipChunkRaw_def)
    also have "\<dots> = (length raw + 1048575) div 1048576" using False by (simp add: div_add_self2[symmetric] del: div_add_self2)
    finally show ?thesis .
  qed
qed

lemma split_nonempty: "raw \<noteq> [] \<Longrightarrow> splitClipBytes raw = splitClipBytes_from raw"
  by (subst (asm) split_from_concat[symmetric]) (auto simp: splitClipBytes_def Let_def)

lemma split_count:
  assumes "raw \<noteq> []" "int (length raw) \<le> MaxClipTotalRaw"
  shows "TotalClipChunksForSize (int (length raw)) = int (length (splitClipBytes raw))"
proof -
  let ?n = "(length raw + 1048575) div 1048576"
  have "1 \<le> ?n" using assms(1) by (cases raw) simp_all
  moreover have "wrap64 (int (length raw) + ClipChunkRaw - 1) = int (length raw + 1048575)"
    using assms(2) by (simp add: wrap64_id int64_def go_consts)
  ultimately have "TotalClipChunksForSize (int (length raw)) = int ?n"
    using assms(1) by (simp add: TotalClipChunksForSize_def Let_def ClipChunkRaw_def zdiv_int)
  then show ?thesis by (simp add: split_nonempty[OF assms(1)] split_from_count)
qed

lemma decode_part: "p \<noteq> [] \<Longrightarrow> length p \<le> 1048576 \<Longrightarrow> DecodeClipChunkData (b64_std_encode p) = Some p"
  by (simp add: DecodeClipChunkData_def go_consts b64_std_decode_encode)

section \<open>Reassembly\<close>

definition session_inv :: "string list \<Rightarrow> ClipManifestPayload \<Rightarrow> nat set \<Rightarrow> clipChunkSession \<Rightarrow> bool" where
  "session_inv parts m got sess \<longleftrightarrow>
     cs_manifest sess = m \<and> cs_totalRaw sess = cm_TotalRaw m \<and> got \<subseteq> {..<length parts} \<and>
     cs_received sess = int (card got) \<and>
     (\<forall>k. cs_chunks sess k = (if 0 \<le> k \<and> nat k \<in> got then Some (parts ! nat k) else None))"

fun add_chunks :: "ClipChunkHub \<Rightarrow> (int \<times> ClipChunkPayload) list \<Rightarrow> ClipChunkHub \<times> ClipPushPayload list" where
  "add_chunks h [] = (h, [])"
| "add_chunks h ((now, c) # cs) =
     (let (h', p) = ClipChunkHub_Add now c h; (h'', ps) = add_chunks h' cs
      in (h'', (case p of None \<Rightarrow> [] | Some x \<Rightarrow> [x]) @ ps))"

lemma assemble_parts:
  "(\<And>i. i < length parts \<Longrightarrow> chunks (int (k + i)) = Some (parts ! i)) \<Longrightarrow>
   assemble chunks [int k..int (k + length parts) - 1] = Some (concat parts)"
proof (induction parts arbitrary: k)
  case (Cons p ps)
  have "chunks (int k) = Some p" using Cons.prems[of 0] by simp
  moreover have "assemble chunks [int (Suc k)..int (Suc k + length ps) - 1] = Some (concat ps)"
    by (rule Cons.IH) (use Cons.prems[of "Suc _"] in simp)
  ultimately show ?case by (simp add: upto_rec1 add.commute)
qed simp

lemma Add_part:
  assumes "map_of h (cc_SessionID c) = Some sess" "session_inv parts m got sess"
    and "cc_ChunkIndex c = int i" "i < length parts" "i \<notin> got"
    and "cc_TotalChunks c = cm_TotalChunks m" "cc_TotalRaw c = cm_TotalRaw m"
    and "cm_TotalChunks m = int (length parts)"
    and "DecodeClipChunkData (cc_DataB64 c) = Some (parts ! i)"
  shows "Suc (card got) < length parts \<Longrightarrow>
      \<exists>sess'. ClipChunkHub_Add now c h = (AList.update (cc_SessionID c) sess' h, None) \<and>
        session_inv parts m (insert i got) sess'" (is "?A \<Longrightarrow> ?B")
    and "Suc (card got) = length parts \<Longrightarrow>
      ClipChunkHub_Add now c h =
        (AList.delete (cc_SessionID c) h, finish_session m (cm_TotalRaw m) (concat parts))" (is "?C \<Longrightarrow> ?D")
proof -
  define sess' where "sess' = sess\<lparr>cs_chunks := (cs_chunks sess)(cc_ChunkIndex c \<mapsto> parts ! i),
      cs_received := cs_received sess + 1, cs_updated := now\<rparr>"
  note inv = assms(2)[unfolded session_inv_def]
  have fin: "finite got" using inv finite_subset by blast
  have inv': "session_inv parts m (insert i got) sess'"
    using inv assms(3-5) fin by (auto simp: session_inv_def sess'_def)
  have fresh: "cs_chunks sess (cc_ChunkIndex c) = None" using inv assms(3,5) by simp
  have step: "ClipChunkHub_Add now c h =
      (if int (card got) + 1 \<noteq> int (length parts) then (AList.update (cc_SessionID c) sess' h, None)
       else (AList.delete (cc_SessionID c) h,
             Option.bind (assemble (cs_chunks sess') [0..int (length parts) - 1])
               (finish_session m (cm_TotalRaw m))))"
    using assms(1,6-9) inv fresh by (simp add: ClipChunkHub_Add_def Let_def flip: sess'_def) (simp add: sess'_def)
  show ?B if ?A
  proof (intro exI conjI)
    show "ClipChunkHub_Add now c h = (AList.update (cc_SessionID c) sess' h, None)" using step that by simp
  qed (rule inv')
  show ?D if ?C
  proof -
    have "card (insert i got) = length parts" using that fin assms(5) by simp
    then have all: "insert i got = {..<length parts}"
      using inv assms(4) by (intro card_subset_eq) auto
    have "cs_chunks sess' (int (0 + k)) = Some (parts ! k)" if "k < length parts" for k
    proof -
      have "k \<in> insert i got" using that unfolding all by simp
      then show ?thesis using inv'[unfolded session_inv_def] by simp
    qed
    then have "assemble (cs_chunks sess') [0..int (length parts) - 1] = Some (concat parts)"
      using assemble_parts[of parts "cs_chunks sess'" 0] by simp
    then show ?thesis using step that by simp
  qed
qed

definition delivers :: "string list \<Rightarrow> ClipManifestPayload \<Rightarrow> nat \<Rightarrow> ClipChunkPayload \<Rightarrow> bool" where
  "delivers parts m i c \<longleftrightarrow> cc_SessionID c = cm_SessionID m \<and> cc_ChunkIndex c = int i \<and>
     cc_TotalChunks c = cm_TotalChunks m \<and> cc_TotalRaw c = cm_TotalRaw m \<and>
     DecodeClipChunkData (cc_DataB64 c) = Some (parts ! i)"

lemma Add_repeated:
  assumes "map_of h (cc_SessionID c) = Some sess" "session_inv parts m got sess"
    and "delivers parts m i c" "i \<in> got"
  shows "ClipChunkHub_Add now c h = (h, None)"
  using assms by (simp add: ClipChunkHub_Add_def session_inv_def delivers_def Let_def)

lemma add_chunks_gone:
  "map_of h sid = None \<Longrightarrow> \<forall>c \<in> set cs. cc_SessionID (snd c) = sid \<Longrightarrow> snd (add_chunks h cs) = []"
proof (induction h cs rule: add_chunks.induct)
  case (2 h now c cs)
  then have "ClipChunkHub_Add now c h = (h, None)"
    by (simp add: ClipChunkHub_Add_def split: option.split)
  then show ?case using 2 by (simp add: split_def)
qed simp

lemma add_chunks_parts:
  assumes "map_of h (cm_SessionID m) = Some sess" "session_inv parts m got sess"
    and "cm_TotalChunks m = int (length parts)" "card got < length parts"
    and "{..<length parts} \<subseteq> got \<union> set js" "set js \<subseteq> {..<length parts}"
    and "\<forall>i \<in> set js. delivers parts m i (mk i)"
  shows "snd (add_chunks h (map (\<lambda>i. (now i, mk i)) js)) =
     (case finish_session m (cm_TotalRaw m) (concat parts) of None \<Rightarrow> [] | Some x \<Rightarrow> [x])"
  using assms
proof (induction js arbitrary: h sess got)
  case Nil
  have "finite got" using Nil.prems(2) by (auto simp: session_inv_def intro: finite_subset)
  then have "length parts \<le> card got" using Nil.prems(5) card_mono[of got "{..<length parts}"] by simp
  then show ?case using Nil.prems(4) by simp
next
  case (Cons i js)
  have i: "i < length parts" and d: "delivers parts m i (mk i)" using Cons.prems(6,7) by auto
  have fin: "finite got" using Cons.prems(2) by (auto simp: session_inv_def intro: finite_subset)
  have sid: "map_of h (cc_SessionID (mk i)) = Some sess" using Cons.prems(1) d by (simp add: delivers_def)
  show ?case
  proof (cases "i \<in> got")
    case True
    then have "snd (add_chunks h (map (\<lambda>i. (now i, mk i)) js)) =
        (case finish_session m (cm_TotalRaw m) (concat parts) of None \<Rightarrow> [] | Some x \<Rightarrow> [x])"
      using Cons.prems by (intro Cons.IH[of h sess got]) auto
    then show ?thesis
      using Add_repeated[OF sid Cons.prems(2) d True, of "now i"] by (simp add: split_def)
  next
    case new: False
    note add = Add_part[OF _ Cons.prems(2) _ i new _ _ Cons.prems(3), of h "mk i" "now i"]
    show ?thesis
    proof (cases "Suc (card got) = length parts")
      case True
      then have "ClipChunkHub_Add (now i) (mk i) h =
          (AList.delete (cm_SessionID m) h, finish_session m (cm_TotalRaw m) (concat parts))"
        using add(2) d Cons.prems(1) by (simp add: delivers_def)
      moreover have "snd (add_chunks (AList.delete (cm_SessionID m) h) (map (\<lambda>i. (now i, mk i)) js)) = []"
        using Cons.prems(7) by (intro add_chunks_gone[of _ "cm_SessionID m"]) (auto simp: delivers_def delete_conv')
      ultimately show ?thesis by (simp add: split_def split: option.split)
    next
      case False
      then have lt: "Suc (card got) < length parts" using Cons.prems(4) by simp
      then obtain sess' where s: "ClipChunkHub_Add (now i) (mk i) h = (AList.update (cm_SessionID m) sess' h, None)"
          "session_inv parts m (insert i got) sess'"
        using add(1) d Cons.prems(1) by (auto simp: delivers_def)
      have "snd (add_chunks (AList.update (cm_SessionID m) sess' h) (map (\<lambda>i. (now i, mk i)) js)) =
          (case finish_session m (cm_TotalRaw m) (concat parts) of None \<Rightarrow> [] | Some x \<Rightarrow> [x])"
        using Cons.prems(3,5,6,7) lt new fin s(2)
        by (intro Cons.IH[of _ sess' "insert i got"]) (auto simp: update_conv')
      then show ?thesis by (simp add: s(1) split_def)
    qed
  qed
qed

lemma Begin_fresh:
  assumes "map_of (sweepLocked t h) (cm_SessionID m) = None"
  shows "snd (ClipChunkHub_Begin t m h)"
    and "\<exists>sess. map_of (fst (ClipChunkHub_Begin t m h)) (cm_SessionID m) = Some sess \<and>
          session_inv parts m {} sess"
  using assms by (simp_all add: ClipChunkHub_Begin_def Let_def update_conv' session_inv_def)

lemma large_chunk_delivers:
  assumes "raw \<noteq> []" "i < length (splitClipBytes raw)"
  shows "delivers (splitClipBytes raw) (large_manifest n0 sid mime fn stamp sens raw) i
           (large_chunk nonce sid raw i)"
proof -
  have "splitClipBytes raw ! i \<in> set (splitClipBytes_from raw)"
    using assms nth_mem split_nonempty by metis
  then show ?thesis
    using split_from_parts
    by (simp add: delivers_def large_chunk_def large_manifest_def Let_def decode_part)
qed

text \<open>
  C14. A large image survives the chunk lane: after the manifest opened a session, the chunks
  the sender cuts, arriving in any order, at any times and any number of times, each at least
  once, produce exactly one push, which carries the image's bytes, name, stamp and hash;
  whatever else the hub holds.
\<close>

theorem clip_chunks_reassemble:
  assumes "raw \<noteq> []" "int (length raw) \<le> MaxClipTotalRaw" "SniffImageMime raw \<noteq> []"
    and "m = large_manifest n0 sid mime fn stamp sens raw"
    and "map_of (sweepLocked t h) sid = None"
    and "set js = {..<length (splitClipBytes raw)}"
  shows "snd (ClipChunkHub_Begin t m h) \<and>
         snd (add_chunks (fst (ClipChunkHub_Begin t m h))
                (map (\<lambda>i. (now i, large_chunk (nonce i) sid raw i)) js)) = [reassembled_push m raw]"
proof -
  let ?parts = "splitClipBytes raw"
  have m: "cm_SessionID m = sid" "cm_TotalRaw m = int (length raw)" "cm_ContentHash m = ContentHashForBytes raw"
      "cm_TotalChunks m = int (length ?parts)"
    using assms(2,4) split_count[OF assms(1)] by (simp_all add: large_manifest_def)
  have ne: "?parts \<noteq> []"
    using assms(1) split_nonempty split_from_concat[of raw] by (cases "?parts") auto
  obtain sess where s: "map_of (fst (ClipChunkHub_Begin t m h)) (cm_SessionID m) = Some sess"
      "session_inv ?parts m {} sess"
    using Begin_fresh(2)[of t h m ?parts] assms(5) m(1) by auto
  have "finish_session m (cm_TotalRaw m) (concat ?parts) = Some (reassembled_push m raw)"
    using assms(3) m split_nonempty[OF assms(1)]
    by (simp add: finish_session_def split_from_concat)
  moreover have "\<forall>i \<in> set js. delivers ?parts m i (large_chunk (nonce i) sid raw i)"
    using large_chunk_delivers[OF assms(1)] assms(4,6) by simp
  ultimately show ?thesis
    using add_chunks_parts[OF s m(4), of js] assms(6) ne Begin_fresh(1)[of t h m] assms(5) m(1) by simp
qed

theorem clip_chunks_reassemble_witness:
  "\<exists>raw. raw \<noteq> [] \<and>
     snd (add_chunks (fst (ClipChunkHub_Begin 0 (large_manifest ''n'' ''a1'' ''image/jpeg'' [] \<lparr>stamp_L = 1, stamp_C = 0\<rparr> False raw) []))
        [(0, large_chunk ''k'' ''a1'' raw 0)]) =
     [reassembled_push (large_manifest ''n'' ''a1'' ''image/jpeg'' [] \<lparr>stamp_L = 1, stamp_C = 0\<rparr> False raw) raw]"
proof -
  let ?raw = "[CHR 0xFF, CHR 0xD8, CHR 0xFF]"
  have one: "splitClipBytes ?raw = [?raw]"
    unfolding split_nonempty[OF list.simps(3)]
    by (subst splitClipBytes_from.simps, subst splitClipBytes_from.simps) (simp add: ClipChunkRaw_def)
  have "jpeg_magic ?raw" by (simp add: jpeg_magic_def)
  then have "SniffImageMime ?raw \<noteq> []" by (simp add: sniff_first)
  moreover have "map_of (sweepLocked 0 []) ''a1'' = None" by (simp add: sweepLocked_def Let_def)
  ultimately show ?thesis
    using clip_chunks_reassemble[OF list.simps(3) _ _ refl, of "CHR 0xFF" "[CHR 0xD8, CHR 0xFF]" 0 "[]" "''a1''" "[0]"
        "''n''" "''image/jpeg''" "[]" "\<lparr>stamp_L = 1, stamp_C = 0\<rparr>" False "\<lambda>_. 0" "\<lambda>_. ''k''"]
    by (intro exI[of _ ?raw]) (simp add: one MaxClipTotalRaw_def lessThan_Suc)
qed

text \<open>The push that a chunk session produces is never valid: the lane is for images above
  5 MiB and the validation of pushes refuses those, whatever nonce it is given.\<close>

lemma reassembled_push_invalid:
  assumes "finish_session m totalRaw assembled = Some push" "SanitizeClipManifest m" "totalRaw = cm_TotalRaw m"
  shows "\<not> SanitizeClipPush (push\<lparr>cp_Nonce := nonce\<rparr>)"
proof -
  have push: "push = reassembled_push m assembled" and len: "length assembled > MaxClipImageRaw"
    using assms by (auto simp: finish_session_def SanitizeClipManifest_def split: if_splits)
  have "SanitizeClipImage (b64_std_encode assembled) mm = None" for mm
    using len by (simp add: SanitizeClipImage_def b64_std_decode_encode split: option.split)
  moreover have "NormalizeClipKind ClipKindImage = ClipKindImage"
    by (simp add: clip_kind.norm_fixed ClipKindImage_def)
  ultimately show ?thesis by (simp add: SanitizeClipPush_def push reassembled_push_def Let_def)
qed

lemma length_ContentHash: "length (ContentHashForBytes raw) = 64" "SanitizeContentHash (ContentHashForBytes raw)"
  by (simp_all add: ContentHashForBytes_def length_sha256 SanitizeContentHash_hex)

lemma large_manifest_valid:
  assumes "5242880 < length raw" "int (length raw) \<le> MaxClipTotalRaw"
    and "nonce \<noteq> []" "SanitizeClipSessionID sid \<noteq> None" "SanitizeClipMime mime = Some mm"
    and "SanitizeClipMime mm = Some mm" "0 \<le> stamp_L stamp" "0 \<le> stamp_C stamp"
  shows "SanitizeClipManifest (large_manifest nonce sid mime [] stamp sens raw)"
proof -
  let ?n = "int (length raw)"
  have ne: "raw \<noteq> []" using assms(1) by auto
  have t: "TotalClipChunksForSize ?n = (?n + 1048575) div 1048576"
    using split_count[OF ne assms(2)] split_nonempty[OF ne] by (simp add: split_from_count zdiv_int)
  have b: "?n \<le> 26214400" "5242880 < ?n" using assms(1,2) by (simp_all add: MaxClipTotalRaw_def)
  then have k: "2 \<le> (?n + 1048575) div 1048576" "(?n + 1048575) div 1048576 \<le> 32" by simp_all
  have "SanitizeClipFilename [] = []" by (simp add: SanitizeClipFilename_def)
  then show ?thesis
    using assms(3-8) t b k length_ContentHash[of raw]
    by (auto simp: SanitizeClipManifest_def large_manifest_def go_consts add_ac)
qed

lemma large_session_exists:
  "\<exists>m raw push. SanitizeClipManifest m \<and> finish_session m (cm_TotalRaw m) raw = Some push"
proof -
  define pad where "pad = replicate 5242878 CHR 0x00"
  define raw where "raw = [CHR 0xFF, CHR 0xD8, CHR 0xFF] @ pad"
  have len: "length raw = 5242881" by (simp add: raw_def pad_def)
  have "jpeg_magic raw" by (simp add: jpeg_magic_def raw_def)
  then have sniff: "SniffImageMime raw \<noteq> []" by (simp add: sniff_first)
  let ?m = "large_manifest ''n'' ''a1'' ''image/jpeg'' [] \<lparr>stamp_L = 1, stamp_C = 0\<rparr> False raw"
  have mime: "SanitizeClipMime ''image/jpeg'' = Some ''image/jpeg''"
    by (simp add: SanitizeClipMime_def AllowedClipImageMimes_def go_eval lower_char_def Let_def)
  have sid: "SanitizeClipSessionID ''a1'' \<noteq> None"
    by (simp add: SanitizeClipSessionID_def session_rune_def go_consts go_eval Let_def)
  have ok: "SanitizeClipManifest ?m"
    using large_manifest_valid[of raw "''n''" "''a1''" "''image/jpeg''" "''image/jpeg''"] len mime sid
    by (simp add: MaxClipTotalRaw_def)
  have fin: "finish_session ?m (cm_TotalRaw ?m) raw = Some (reassembled_push ?m raw)"
    using sniff by (simp add: finish_session_def large_manifest_def)
  show ?thesis using ok fin by blast
qed

end
