(* ===== verification/Clip_Store.thy ===== *)
theory Clip_Store
  imports Clip_Hub Sync_Reliability
begin

text \<open>
  The Mac's clipboard store (\<open>apps/mac/backend/clipboard.go\<close>): the latest contents with
  their clock stamp, the pending upload, the table of nonces already seen and the hash of
  what was last applied; local copies, adoption of pushes, and the routing of the three
  clipboard messages to it.
\<close>

record ClipNotice =
  cn_HasText :: bool
  cn_Kind :: string
  cn_Text :: string
  cn_Mime :: string
  cn_ImageB64 :: string
  cn_Filename :: string
  cn_ChangedUnix :: int
  cn_ChangedC :: int
  cn_Origin :: string
  cn_Preview :: string
  cn_Pending :: bool
  cn_Sensitive :: bool

definition zero_ClipNotice :: ClipNotice where
  "zero_ClipNotice =
     \<lparr>cn_HasText = False, cn_Kind = [], cn_Text = [], cn_Mime = [], cn_ImageB64 = [],
      cn_Filename = [], cn_ChangedUnix = 0, cn_ChangedC = 0, cn_Origin = [], cn_Preview = [],
      cn_Pending = False, cn_Sensitive = False\<rparr>"

record ClipStore =
  c_kind :: string
  c_text :: string
  c_mime :: string
  c_imageB64 :: string
  c_filename :: string
  c_changedAt :: int
  c_changedC :: int
  c_contentHash :: string
  c_sensitive :: bool
  c_origin :: string
  c_has :: bool
  c_pending :: bool
  c_hlc :: ClipStamp
  c_seen :: "string \<rightharpoonup> int"
  c_seenOrder :: "string list"
  c_lastHash :: string

definition NewClipStore :: ClipStore where
  "NewClipStore =
     \<lparr>c_kind = [], c_text = [], c_mime = [], c_imageB64 = [], c_filename = [], c_changedAt = 0,
      c_changedC = 0, c_contentHash = [], c_sensitive = False, c_origin = [], c_has = False,
      c_pending = False, c_hlc = \<lparr>stamp_L = 0, stamp_C = 0\<rparr>, c_seen = Map.empty,
      c_seenOrder = [], c_lastHash = []\<rparr>"

section \<open>Stamps and nonces\<close>

definition nextStampLocked :: "int \<Rightarrow> ClipStore \<Rightarrow> ClipStamp \<times> ClipStore" where
  "nextStampLocked wall s =
     (let wall = (if wall < 0 then 0 else wall);
          wall = (if wall \<le> c_changedAt s then c_changedAt s else wall);
          stored = c_hlc s;
          stored = (if c_has s \<and> (c_changedAt s > stamp_L stored \<or>
                         (c_changedAt s = stamp_L stored \<and> c_changedC s > stamp_C stored))
                    then \<lparr>stamp_L = c_changedAt s, stamp_C = c_changedC s\<rparr> else stored);
          next' = ClipStampNext stored wall
      in (next', s\<lparr>c_hlc := next'\<rparr>))"

definition noteSeenLocked :: "string \<Rightarrow> int \<Rightarrow> ClipStore \<Rightarrow> bool \<times> ClipStore" where
  "noteSeenLocked nonce now s =
     (if nonce = [] then (False, s)
      else if c_seen s nonce \<noteq> None then (True, s)
      else
        let s = s\<lparr>c_seen := (c_seen s)(nonce \<mapsto> now), c_seenOrder := c_seenOrder s @ [nonce]\<rparr>
        in if length (c_seenOrder s) > 256
           then (False, s\<lparr>c_seenOrder := tl (c_seenOrder s),
                          c_seen := (c_seen s)(hd (c_seenOrder s) := None)\<rparr>)
           else (False, s))"

definition previewOf :: "string \<Rightarrow> string" where
  "previewOf s = (let rs = runes s in if length rs > 200 then string_of_runes (take 200 rs) else s)"

section \<open>Reading\<close>

definition ClipStore_Get :: "ClipStore \<Rightarrow> ClipNotice" where
  "ClipStore_Get s =
     (let kind = (if c_kind s = [] then ClipKindText else c_kind s);
          preview = (if kind = ClipKindImage
                     then c_mime s @ '' image'' @
                          (if c_imageB64 s \<noteq> [] then '' ('' @ c_mime s @ '')'' else []) @
                          (if c_filename s \<noteq> [] then '' '' @ c_filename s else [])
                     else previewOf (c_text s))
      in \<lparr>cn_HasText = c_has s, cn_Kind = kind, cn_Text = c_text s, cn_Mime = c_mime s,
          cn_ImageB64 = c_imageB64 s, cn_Filename = c_filename s, cn_ChangedUnix = c_changedAt s,
          cn_ChangedC = c_changedC s, cn_Origin = c_origin s, cn_Preview = preview,
          cn_Pending = c_pending s, cn_Sensitive = c_sensitive s\<rparr>)"

definition ClipStore_HasPending :: "ClipStore \<Rightarrow> bool" where
  "ClipStore_HasPending s = (c_pending s \<and> c_has s)"

section \<open>Local copies\<close>

definition SetLocalWithMeta :: "string \<Rightarrow> int \<Rightarrow> bool \<Rightarrow> ClipStore \<Rightarrow> (ClipNotice \<times> ClipStore) option" where
  "SetLocalWithMeta text changedAt sensitive s =
     (case SanitizeClipText text of
        None \<Rightarrow> None
      | Some _ \<Rightarrow>
          let hash = ContentHashForText text
          in if c_has s \<and> c_kind s = ClipKindText \<and> c_text s = text
             then Some (zero_ClipNotice\<lparr>cn_HasText := True, cn_Kind := ClipKindText, cn_Text := c_text s,
                     cn_ChangedUnix := c_changedAt s, cn_ChangedC := c_changedC s, cn_Origin := c_origin s,
                     cn_Preview := previewOf (c_text s), cn_Pending := c_pending s,
                     cn_Sensitive := c_sensitive s\<rparr>, s)
             else
               let (stamp, s) = nextStampLocked changedAt s;
                   s = s\<lparr>c_kind := ClipKindText, c_text := text, c_mime := [], c_imageB64 := [],
                         c_filename := [], c_contentHash := hash, c_sensitive := sensitive,
                         c_changedAt := stamp_L stamp, c_changedC := stamp_C stamp,
                         c_origin := OriginMac, c_has := True, c_pending := True, c_lastHash := hash\<rparr>
               in Some (zero_ClipNotice\<lparr>cn_HasText := True, cn_Kind := ClipKindText, cn_Text := text,
                     cn_ChangedUnix := stamp_L stamp, cn_ChangedC := stamp_C stamp,
                     cn_Origin := OriginMac, cn_Preview := previewOf text, cn_Pending := True,
                     cn_Sensitive := sensitive\<rparr>, s))"

definition SetLocal :: "string \<Rightarrow> int \<Rightarrow> ClipStore \<Rightarrow> (ClipNotice \<times> ClipStore) option" where
  "SetLocal text changedAt s = SetLocalWithMeta text changedAt False s"

definition SetLocalImageWithMeta ::
  "string \<Rightarrow> string \<Rightarrow> string \<Rightarrow> int \<Rightarrow> bool \<Rightarrow> ClipStore \<Rightarrow> (ClipNotice \<times> ClipStore) option" where
  "SetLocalImageWithMeta b64 mime filename changedAt sensitive s =
     (case SanitizeClipImage b64 mime of
        None \<Rightarrow> None
      | Some raw \<Rightarrow>
          let m = (case SanitizeClipMime mime of None \<Rightarrow> [] | Some m \<Rightarrow> m);
              fn = SanitizeClipFilename filename;
              hash = ContentHashForBytes raw
          in if c_has s \<and> c_kind s = ClipKindImage \<and> c_imageB64 s = b64 \<and> c_mime s = m \<and> c_filename s = fn
             then Some (zero_ClipNotice\<lparr>cn_HasText := True, cn_Kind := ClipKindImage, cn_Mime := c_mime s,
                     cn_ImageB64 := c_imageB64 s, cn_Filename := c_filename s,
                     cn_ChangedUnix := c_changedAt s, cn_ChangedC := c_changedC s, cn_Origin := c_origin s,
                     cn_Preview := m @ '' image'', cn_Pending := c_pending s,
                     cn_Sensitive := c_sensitive s\<rparr>, s)
             else
               let (stamp, s) = nextStampLocked changedAt s;
                   s = s\<lparr>c_kind := ClipKindImage, c_mime := m, c_imageB64 := b64, c_text := [],
                         c_filename := fn, c_contentHash := hash, c_sensitive := sensitive,
                         c_changedAt := stamp_L stamp, c_changedC := stamp_C stamp,
                         c_origin := OriginMac, c_has := True, c_pending := True, c_lastHash := hash\<rparr>;
                   preview = m @ '' image'' @ (if fn \<noteq> [] then '' '' @ fn else [])
               in Some (zero_ClipNotice\<lparr>cn_HasText := True, cn_Kind := ClipKindImage, cn_Mime := m,
                     cn_ImageB64 := b64, cn_Filename := fn, cn_ChangedUnix := stamp_L stamp,
                     cn_ChangedC := stamp_C stamp, cn_Origin := OriginMac, cn_Preview := preview,
                     cn_Pending := True, cn_Sensitive := sensitive\<rparr>, s))"

definition SetLocalImageWithFilename ::
  "string \<Rightarrow> string \<Rightarrow> string \<Rightarrow> int \<Rightarrow> ClipStore \<Rightarrow> (ClipNotice \<times> ClipStore) option" where
  "SetLocalImageWithFilename b64 mime filename changedAt s =
     SetLocalImageWithMeta b64 mime filename changedAt False s"

definition SetLocalImage :: "string \<Rightarrow> string \<Rightarrow> int \<Rightarrow> ClipStore \<Rightarrow> (ClipNotice \<times> ClipStore) option" where
  "SetLocalImage b64 mime changedAt s = SetLocalImageWithFilename b64 mime [] changedAt s"

section \<open>Pushes from the phone\<close>

definition adopt_content :: "ClipPushPayload \<Rightarrow> ClipStore \<Rightarrow> ClipStore" where
  "adopt_content p s =
     (if NormalizeClipKind (cp_Kind p) = ClipKindImage
      then
        let m = (case SanitizeClipMime (cp_Mime p) of None \<Rightarrow> [] | Some m \<Rightarrow> m);
            s = s\<lparr>c_kind := ClipKindImage, c_mime := m, c_imageB64 := cp_ImageB64 p, c_text := [],
                  c_filename := SanitizeClipFilename (cp_Filename p)\<rparr>
        in if cp_ContentHash p \<noteq> []
           then s\<lparr>c_contentHash := cp_ContentHash p, c_lastHash := cp_ContentHash p\<rparr>
           else (case SanitizeClipImage (cp_ImageB64 p) m of
                   None \<Rightarrow> s
                 | Some raw \<Rightarrow> s\<lparr>c_contentHash := ContentHashForBytes raw,
                                c_lastHash := ContentHashForBytes raw\<rparr>)
      else
        let s = s\<lparr>c_kind := ClipKindText, c_text := cp_Text p, c_mime := [], c_imageB64 := [],
                  c_filename := []\<rparr>;
            h = (if cp_ContentHash p \<noteq> [] then cp_ContentHash p else ContentHashForText (cp_Text p))
        in s\<lparr>c_contentHash := h, c_lastHash := h\<rparr>)"

definition adopt_push :: "ClipPushPayload \<Rightarrow> string \<Rightarrow> ClipStore \<Rightarrow> ClipStore" where
  "adopt_push p origin s =
     (adopt_content p s)\<lparr>
        c_changedAt := cp_ChangedAt p, c_changedC := cp_ChangedC p, c_origin := origin,
        c_has := True, c_sensitive := cp_Sensitive p, c_pending := False,
        c_hlc := ClipStampOnReceive (c_hlc s)
                   \<lparr>stamp_L = cp_ChangedAt p, stamp_C = cp_ChangedC p\<rparr> (cp_ChangedAt p)\<rparr>"

definition ClipStore_ApplyRemote :: "ClipPushPayload \<Rightarrow> ClipStore \<Rightarrow> ClipStore \<times> bool" where
  "ClipStore_ApplyRemote p s =
     (if \<not> SanitizeClipPush p then (s, False)
      else
        let (dup, s) = noteSeenLocked (cp_Nonce p) (cp_ChangedAt p) s
        in if cp_Nonce p \<noteq> [] \<and> dup then (s, False)
           else if \<not> RemoteClipWinsEx (c_changedAt s) (c_changedC s) (cp_ChangedAt p) (cp_ChangedC p)
           then (s, False)
           else
             let origin = NormalizeOrigin (cp_Origin p);
                 origin = (if origin = [] then OriginAndroid else origin)
             in if origin = OriginMac then (s, False)
                else if cp_ContentHash p \<noteq> [] \<and> cp_ContentHash p = c_lastHash s \<and> c_has s
                then (s, False)
                else (adopt_push p origin s, True))"

section \<open>The pending upload\<close>

definition ClipStore_TakePending :: "ClipStore \<Rightarrow> ClipStore \<times> ClipPushPayload option" where
  "ClipStore_TakePending s =
     (if \<not> c_pending s \<or> \<not> c_has s then (s, None)
      else
        let kind = (if c_kind s = [] then ClipKindText else c_kind s);
            hash = (if c_contentHash s \<noteq> [] then c_contentHash s
                    else if kind = ClipKindImage
                    then (case SanitizeClipImage (c_imageB64 s) (c_mime s) of
                            None \<Rightarrow> [] | Some raw \<Rightarrow> ContentHashForBytes raw)
                    else ContentHashForText (c_text s))
        in (s\<lparr>c_pending := False\<rparr>,
            Some (zero_ClipPushPayload\<lparr>cp_Kind := kind, cp_Text := c_text s, cp_Mime := c_mime s,
                cp_ImageB64 := c_imageB64 s, cp_Filename := c_filename s,
                cp_ChangedAt := c_changedAt s, cp_ChangedC := c_changedC s, cp_Origin := c_origin s,
                cp_ContentHash := hash, cp_Sensitive := c_sensitive s\<rparr>)))"

definition TakePendingText :: "ClipStore \<Rightarrow> ClipStore \<times> (string \<times> int) option" where
  "TakePendingText s =
     (case ClipStore_TakePending s of
        (s', None) \<Rightarrow> (s', None)
      | (s', Some p) \<Rightarrow>
          if cp_Kind p = ClipKindImage then (s'\<lparr>c_pending := True\<rparr>, None)
          else (s', Some (cp_Text p, cp_ChangedAt p)))"

definition requeueClip :: "ClipStore \<Rightarrow> ClipStore" where
  "requeueClip s = (if c_has s then s\<lparr>c_pending := True\<rparr> else s)"

section \<open>Routing\<close>

text \<open>\<open>ingestClipBody\<close>, \<open>ingestClipManifestBody\<close> and \<open>ingestClipChunkBody\<close> after parsing.
  The result says whether the pasteboard is written. The nonce that replaces an empty one is
  an argument; it is empty when the entropy source failed.\<close>

definition mode_or_both :: "string \<Rightarrow> string" where
  "mode_or_both mode = (if mode = [] then ClipboardBoth else mode)"

definition ingestClip :: "string \<Rightarrow> ClipPushPayload \<Rightarrow> ClipStore \<Rightarrow> ClipStore \<times> bool" where
  "ingestClip mode p s =
     (if \<not> ClipboardModeAllowsReceive (mode_or_both mode) (cp_Origin p) then (s, False)
      else ClipStore_ApplyRemote p s)"

definition ingestClipManifest :: "int \<Rightarrow> string \<Rightarrow> ClipManifestPayload \<Rightarrow> ClipChunkHub \<Rightarrow> ClipChunkHub" where
  "ingestClipManifest now mode m h =
     (if \<not> ClipboardModeAllowsReceive (mode_or_both mode) (cm_Origin m) then h
      else fst (ClipChunkHub_Begin now m h))"

definition ingestClipChunk ::
  "int \<Rightarrow> string \<Rightarrow> string \<Rightarrow> ClipChunkPayload \<Rightarrow> ClipChunkHub \<Rightarrow> ClipStore \<Rightarrow> ClipChunkHub \<times> ClipStore \<times> bool" where
  "ingestClipChunk now mode fresh c h s =
     (case ClipChunkHub_Add now c h of
        (h', None) \<Rightarrow> (h', s, False)
      | (h', Some push) \<Rightarrow>
          let push = (if cp_Nonce push = [] then push\<lparr>cp_Nonce := fresh\<rparr> else push)
          in (h', ingestClip mode push s))"

section \<open>A push is applied at most once\<close>

definition seen_inv :: "ClipStore \<Rightarrow> bool" where
  "seen_inv s \<longleftrightarrow> distinct (c_seenOrder s) \<and> length (c_seenOrder s) \<le> 256 \<and>
     dom (c_seen s) = set (c_seenOrder s)"

definition push_key :: "ClipPushPayload \<Rightarrow> string" where
  "push_key p = (if SanitizeClipPush p then cp_Nonce p else [])"

definition push_mark :: "ClipPushPayload \<Rightarrow> ClipStore \<Rightarrow> bool \<times> ClipStore" where
  "push_mark p s = (push_key p \<noteq> [] \<and> c_seen s (push_key p) = None, fst (ClipStore_ApplyRemote p s))"

lemma seen_map: "seen_inv s \<Longrightarrow> c_seen s k = None \<longleftrightarrow> k \<notin> set (c_seenOrder s)"
  by (auto simp: seen_inv_def)

lemma noteSeen_order:
  assumes "seen_inv s"
  shows "c_seenOrder (snd (noteSeenLocked n now s)) =
      (if n = [] \<or> n \<in> set (c_seenOrder s) then c_seenOrder s
       else drop (length (c_seenOrder s) + 1 - 256) (c_seenOrder s @ [n]))"
    and "seen_inv (snd (noteSeenLocked n now s))"
    and "fst (noteSeenLocked n now s) \<longleftrightarrow> n \<noteq> [] \<and> n \<in> set (c_seenOrder s)"
proof -
  consider (old) "n = [] \<or> n \<in> set (c_seenOrder s)"
    | (room) "n \<noteq> []" "n \<notin> set (c_seenOrder s)" "length (c_seenOrder s) < 256"
    | (full) "n \<noteq> []" "n \<notin> set (c_seenOrder s)" "length (c_seenOrder s) = 256"
    using assms by (force simp: seen_inv_def)
  then have "c_seenOrder (snd (noteSeenLocked n now s)) =
      (if n = [] \<or> n \<in> set (c_seenOrder s) then c_seenOrder s
       else drop (length (c_seenOrder s) + 1 - 256) (c_seenOrder s @ [n])) \<and>
      seen_inv (snd (noteSeenLocked n now s)) \<and>
      (fst (noteSeenLocked n now s) \<longleftrightarrow> n \<noteq> [] \<and> n \<in> set (c_seenOrder s))"
  proof cases
    case full
    then obtain x xs where xs: "c_seenOrder s = x # xs" by (cases "c_seenOrder s") auto
    have eq: "noteSeenLocked n now s = (False, s\<lparr>c_seen := (c_seen s)(n \<mapsto> now, x := None),
        c_seenOrder := xs @ [n]\<rparr>)"
      using full seen_map[OF assms, of n] xs by (simp add: noteSeenLocked_def Let_def)
    show ?thesis using full assms xs unfolding eq by (auto simp: seen_inv_def)
  qed (use assms seen_map[OF assms, of n] in \<open>auto simp: noteSeenLocked_def Let_def seen_inv_def\<close>)
  then show "c_seenOrder (snd (noteSeenLocked n now s)) =
      (if n = [] \<or> n \<in> set (c_seenOrder s) then c_seenOrder s
       else drop (length (c_seenOrder s) + 1 - 256) (c_seenOrder s @ [n]))"
    and "seen_inv (snd (noteSeenLocked n now s))"
    and "fst (noteSeenLocked n now s) \<longleftrightarrow> n \<noteq> [] \<and> n \<in> set (c_seenOrder s)" by simp_all
qed

lemma adopt_content_seen [simp]:
  "c_seen (adopt_content p s) = c_seen s" "c_seenOrder (adopt_content p s) = c_seenOrder s"
  "c_has (adopt_content p s) = c_has s"
  by (auto simp: adopt_content_def Let_def split: option.split)

lemma adopt_push_seen [simp]:
  "c_seen (adopt_push p org s) = c_seen s" "c_seenOrder (adopt_push p org s) = c_seenOrder s"
  by (simp_all add: adopt_push_def)

lemma guard_chain:
  "(if a then (s, False) else if b then (t, False) else if c then (t, False)
    else if d then (t, False) else if e then (t, False) else (u, True)) = r \<Longrightarrow>
   a \<and> r = (s, False) \<or> \<not> a \<and> r = (t, False) \<or> \<not> a \<and> \<not> b \<and> \<not> c \<and> r = (u, True)"
  by (auto split: if_splits)

lemma apply_remote_cases:
  obtains (invalid) "\<not> SanitizeClipPush p" "ClipStore_ApplyRemote p s = (s, False)"
  | (kept) t where "SanitizeClipPush p" "t = snd (noteSeenLocked (cp_Nonce p) (cp_ChangedAt p) s)"
      "ClipStore_ApplyRemote p s = (t, False)"
  | (adopted) t org where "SanitizeClipPush p" "t = snd (noteSeenLocked (cp_Nonce p) (cp_ChangedAt p) s)"
      "\<not> fst (noteSeenLocked (cp_Nonce p) (cp_ChangedAt p) s)"
      "RemoteClipWinsEx (c_changedAt t) (c_changedC t) (cp_ChangedAt p) (cp_ChangedC p)"
      "ClipStore_ApplyRemote p s = (adopt_push p org t, True)"
proof -
  have "cp_Nonce p \<noteq> []" if "SanitizeClipPush p" using that by (auto simp: SanitizeClipPush_def)
  with guard_chain[OF ClipStore_ApplyRemote_def[unfolded Let_def split_def, symmetric], of p s]
  show ?thesis by (elim disjE conjE) (simp; rule that; simp)+
qed

lemma apply_remote_seen:
  "c_seen (fst (ClipStore_ApplyRemote p s)) =
     (if SanitizeClipPush p then c_seen (snd (noteSeenLocked (cp_Nonce p) (cp_ChangedAt p) s)) else c_seen s)"
  "c_seenOrder (fst (ClipStore_ApplyRemote p s)) =
     (if SanitizeClipPush p then c_seenOrder (snd (noteSeenLocked (cp_Nonce p) (cp_ChangedAt p) s))
      else c_seenOrder s)"
  by (cases p s rule: apply_remote_cases; simp)+

lemma apply_remote_seen_inv: "seen_inv s \<Longrightarrow> seen_inv (fst (ClipStore_ApplyRemote p s))"
  using noteSeen_order(2)[of s "cp_Nonce p" "cp_ChangedAt p"]
  by (simp add: seen_inv_def apply_remote_seen)

interpretation pushes: seen_window "\<lambda>_. 256" c_seenOrder seen_inv push_key push_mark
proof
  fix s :: ClipStore and p :: ClipPushPayload
  assume s: "seen_inv s"
  show "(0::nat) < 256" "length (c_seenOrder s) \<le> 256" "distinct (c_seenOrder s)"
    using s by (simp_all add: seen_inv_def)
  show "seen_inv (snd (push_mark p s))" using s by (simp add: push_mark_def apply_remote_seen_inv)
  show "fst (push_mark p s) \<longleftrightarrow> push_key p \<noteq> [] \<and> push_key p \<notin> set (c_seenOrder s)"
    using s by (simp add: push_mark_def seen_map)
  show "c_seenOrder (snd (push_mark p s)) =
      (if push_key p = [] \<or> push_key p \<in> set (c_seenOrder s) then c_seenOrder s
       else drop (length (c_seenOrder s) + 1 - 256) (c_seenOrder s @ [push_key p]))"
    using noteSeen_order(1)[OF s, of "cp_Nonce p" "cp_ChangedAt p"]
    by (cases "cp_Nonce p = []") (simp_all add: push_mark_def apply_remote_seen push_key_def)
qed simp

lemma apply_remote_dup:
  assumes "seen_inv s" "c_seen s (cp_Nonce p) \<noteq> None" "cp_Nonce p \<noteq> []"
  shows "\<not> snd (ClipStore_ApplyRemote p s)"
  using noteSeen_order(3)[OF assms(1), of "cp_Nonce p" "cp_ChangedAt p"] assms seen_map[OF assms(1)]
  by (cases p s rule: apply_remote_cases) simp_all

text \<open>
  C10. A clipboard push takes effect at most once: after a valid push was processed, a second
  delivery of its nonce is refused whatever its contents, as long as fewer than 256 other
  pushes were processed in between.
\<close>

theorem clip_push_at_most_once:
  assumes "seen_inv s" "SanitizeClipPush p" "c_seen s (cp_Nonce p) = None"
    and "length ps < 256" "cp_Nonce q = cp_Nonce p"
  shows "\<not> snd (ClipStore_ApplyRemote q
            (fold (\<lambda>r s. fst (ClipStore_ApplyRemote r s)) ps (fst (ClipStore_ApplyRemote p s))))"
proof -
  let ?s = "fold (\<lambda>r s. fst (ClipStore_ApplyRemote r s)) ps (fst (ClipStore_ApplyRemote p s))"
  have n: "cp_Nonce p \<noteq> []" using assms(2) by (auto simp: SanitizeClipPush_def)
  have k: "push_key p = cp_Nonce p" using assms(2) by (simp add: push_key_def)
  have run: "pushes.mark_all ps (snd (push_mark p s)) = ?s"
    by (simp add: pushes.mark_all_def push_mark_def)
  have "\<not> fst (push_mark p (pushes.mark_all ps (snd (push_mark p s))))"
    using assms(1,3,4) n k by (intro pushes.no_second_application) (simp_all add: push_mark_def)
  then have "c_seen ?s (cp_Nonce q) \<noteq> None" using n k run assms(5) by (simp add: push_mark_def)
  moreover have "seen_inv ?s"
    using pushes.mark_all_inv[of "snd (push_mark p s)" ps] pushes.mark_inv[OF assms(1), of p] run by simp
  ultimately show ?thesis using apply_remote_dup n assms(5) by simp
qed

lemma valid_text_push:
  "length t \<le> 262144 \<Longrightarrow> n \<noteq> [] \<Longrightarrow> 0 \<le> at' \<Longrightarrow>
   SanitizeClipPush (zero_ClipPushPayload\<lparr>cp_Nonce := n, cp_Text := t, cp_ChangedAt := at'\<rparr>)"
proof -
  have "NormalizeClipKind [] = ''text''"
    by (simp add: NormalizeClipKind_def go_consts go_eval)
  then show "length t \<le> 262144 \<Longrightarrow> n \<noteq> [] \<Longrightarrow> 0 \<le> at' \<Longrightarrow>
      SanitizeClipPush (zero_ClipPushPayload\<lparr>cp_Nonce := n, cp_Text := t, cp_ChangedAt := at'\<rparr>)"
    by (simp add: SanitizeClipPush_def zero_ClipPushPayload_def SanitizeContentHash_def
        SanitizeClipText_def go_consts)
qed

lemma seen_inv_new: "seen_inv NewClipStore"
  by (simp add: seen_inv_def NewClipStore_def)

theorem clip_push_at_most_once_witness:
  "\<not> snd (ClipStore_ApplyRemote (zero_ClipPushPayload\<lparr>cp_Nonce := ''n'', cp_Text := ''b'', cp_ChangedAt := 9\<rparr>)
        (fst (ClipStore_ApplyRemote
          (zero_ClipPushPayload\<lparr>cp_Nonce := ''n'', cp_Text := ''a'', cp_ChangedAt := 5\<rparr>) NewClipStore)))"
  using clip_push_at_most_once[OF seen_inv_new, of
      "zero_ClipPushPayload\<lparr>cp_Nonce := ''n'', cp_Text := ''a'', cp_ChangedAt := 5\<rparr>" "[]"
      "zero_ClipPushPayload\<lparr>cp_Nonce := ''n'', cp_Text := ''b'', cp_ChangedAt := 9\<rparr>"]
    valid_text_push[of "''a''" "''n''" 5]
  by (simp add: NewClipStore_def)

section \<open>Contents only move forward\<close>

definition clip_stamp :: "ClipStore \<Rightarrow> int \<times> int" where
  "clip_stamp s = (c_changedAt s, c_changedC s)"

definition clip_content :: "ClipStore \<Rightarrow> string \<times> string \<times> string \<times> string \<times> string" where
  "clip_content s = (c_kind s, c_text s, c_mime s, c_imageB64 s, c_filename s)"

definition clip_inv :: "ClipStore \<Rightarrow> bool" where
  "clip_inv s \<longleftrightarrow> seen_inv s \<and> 0 \<le> c_changedAt s \<and> 0 \<le> c_changedC s \<and> 0 \<le> stamp_L (c_hlc s) \<and>
     0 \<le> stamp_C (c_hlc s) \<and> (if c_has s then True else c_changedAt s = 0 \<and> c_changedC s = 0)"

definition counters_free :: "ClipStore \<Rightarrow> bool" where
  "counters_free s \<longleftrightarrow> c_changedC s < 2 ^ 63 - 1 \<and> stamp_C (c_hlc s) < 2 ^ 63 - 1"

inductive clip_step :: "ClipStore \<Rightarrow> ClipStore \<Rightarrow> bool" where
  copy_text: "counters_free s \<Longrightarrow> SetLocalWithMeta t w b s = Some (n, s') \<Longrightarrow> clip_step s s'"
| copy_image: "counters_free s \<Longrightarrow> SetLocalImageWithMeta i m f w b s = Some (n, s') \<Longrightarrow> clip_step s s'"
| push: "counters_free s \<Longrightarrow> cp_ChangedC p < 2 ^ 63 - 1 \<Longrightarrow> clip_step s (fst (ClipStore_ApplyRemote p s))"
| upload: "clip_step s (fst (ClipStore_TakePending s))"
| upload_text: "clip_step s (fst (TakePendingText s))"
| requeue: "clip_step s (requeueClip s)"

lemma next_stamp_later:
  assumes "clip_inv s" "counters_free s"
  shows "clip_stamp s < stamp_rank (fst (nextStampLocked w s))"
    and "snd (nextStampLocked w s) = s\<lparr>c_hlc := fst (nextStampLocked w s)\<rparr>"
    and "0 \<le> stamp_L (fst (nextStampLocked w s))" "0 \<le> stamp_C (fst (nextStampLocked w s))"
proof -
  define stored where "stored = (if c_has s \<and> (c_changedAt s > stamp_L (c_hlc s) \<or>
      (c_changedAt s = stamp_L (c_hlc s) \<and> c_changedC s > stamp_C (c_hlc s)))
     then \<lparr>stamp_L = c_changedAt s, stamp_C = c_changedC s\<rparr> else c_hlc s)"
  obtain w' where nx: "fst (nextStampLocked w s) = ClipStampNext stored w'"
    unfolding nextStampLocked_def Let_def stored_def by simp
  have ge: "clip_stamp s \<le> stamp_rank stored" and c: "0 \<le> stamp_C stored" "stamp_C stored < 2 ^ 63 - 1"
      "0 \<le> stamp_L stored"
    using assms by (auto simp: stored_def clip_inv_def counters_free_def clip_stamp_def stamp_rank_def
        less_eq_prod_def split: if_splits)
  have later: "stamp_rank stored < stamp_rank (ClipStampNext stored w')"
    by (rule stamp_next_later(1)[OF c(1,2)])
  with ge show "clip_stamp s < stamp_rank (fst (nextStampLocked w s))" unfolding nx by (rule le_less_trans)
  show "0 \<le> stamp_L (fst (nextStampLocked w s))"
    using later c(3) unfolding nx by (auto simp: stamp_rank_def less_prod_def)
  show "0 \<le> stamp_C (fst (nextStampLocked w s))" unfolding nx by (rule stamp_next_later(3)[OF c(1,2)])
qed (simp add: nextStampLocked_def Let_def)

definition forward :: "ClipStore \<Rightarrow> ClipStore \<Rightarrow> bool" where
  "forward s s' \<longleftrightarrow> clip_inv s' \<and> clip_stamp s \<le> clip_stamp s' \<and>
     (if clip_content s' = clip_content s then True else clip_stamp s < clip_stamp s')"

lemma forward_same: "clip_inv s \<Longrightarrow> forward s (s\<lparr>c_pending := b\<rparr>)"
  by (simp add: forward_def clip_inv_def clip_stamp_def clip_content_def seen_inv_def)

lemma forward_local:
  assumes "clip_inv s" "counters_free s" "nextStampLocked w s = (st, s1)"
    and "c_changedAt s' = stamp_L st" "c_changedC s' = stamp_C st" "c_hlc s' = st" "c_has s'"
    and "c_seen s' = c_seen s1" "c_seenOrder s' = c_seenOrder s1"
  shows "forward s s'"
proof -
  note n = next_stamp_later[OF assms(1,2), of w, unfolded assms(3), simplified]
  have "clip_stamp s < clip_stamp s'" using n(1) assms(4,5) by (simp add: clip_stamp_def stamp_rank_def)
  moreover have "clip_inv s'"
    using assms n by (simp add: clip_inv_def seen_inv_def)
  ultimately show ?thesis by (simp add: forward_def less_imp_le)
qed

lemma forward_push:
  assumes "clip_inv s" "counters_free s" "cp_ChangedC p < 2 ^ 63 - 1"
  shows "forward s (fst (ClipStore_ApplyRemote p s))"
proof -
  let ?t = "snd (noteSeenLocked (cp_Nonce p) (cp_ChangedAt p) s)"
  have t: "c_changedAt ?t = c_changedAt s" "c_changedC ?t = c_changedC s" "c_hlc ?t = c_hlc s"
      "c_has ?t = c_has s" "clip_content ?t = clip_content s"
    by (simp_all add: noteSeenLocked_def Let_def clip_content_def)
  have seen: "seen_inv ?t" using assms(1) noteSeen_order(2) by (simp add: clip_inv_def)
  have kept: "forward s ?t" "forward s s"
    using assms(1) seen t by (auto simp: forward_def clip_inv_def clip_stamp_def)
  show ?thesis
  proof (cases p s rule: apply_remote_cases)
    case (adopted t' org)
    then have nn: "0 \<le> cp_ChangedAt p" "0 \<le> cp_ChangedC p" by (auto simp: SanitizeClipPush_def split: if_splits)
    have later: "clip_stamp s < (cp_ChangedAt p, cp_ChangedC p)"
      using adopted(2,4) t by (auto simp: RemoteClipWinsEx_def clip_stamp_def less_prod_def split: if_splits)
    define r where "r = \<lparr>stamp_L = cp_ChangedAt p, stamp_C = cp_ChangedC p\<rparr>"
    have hlc: "0 \<le> stamp_C (ClipStampOnReceive (c_hlc s) r (cp_ChangedAt p))"
        "0 \<le> stamp_L (ClipStampOnReceive (c_hlc s) r (cp_ChangedAt p))"
      using stamp_receive_later[of "c_hlc s" r "cp_ChangedAt p"] assms nn
      by (auto simp: clip_inv_def counters_free_def r_def stamp_rank_def less_prod_def)
    have "clip_stamp s < clip_stamp (adopt_push p org ?t)"
      using later unfolding clip_stamp_def[of "adopt_push p org ?t"] by (simp add: adopt_push_def)
    moreover have "clip_inv (adopt_push p org ?t)"
      using nn hlc seen t(3) by (simp add: clip_inv_def adopt_push_def r_def seen_inv_def)
    ultimately have "forward s (adopt_push p org ?t)" by (simp add: forward_def less_imp_le)
    then show ?thesis using adopted(2,5) by simp
  qed (use kept in simp_all)
qed

lemma step_forward: "clip_step s s' \<Longrightarrow> clip_inv s \<Longrightarrow> forward s s'"
proof (induction rule: clip_step.induct)
  case (copy_text s t w b n s')
  show ?case
  proof (cases "c_has s \<and> c_kind s = ClipKindText \<and> c_text s = t")
    case True
    then have "s' = s" using copy_text(2) by (auto simp: SetLocalWithMeta_def Let_def split: option.splits)
    then show ?thesis using forward_same[OF copy_text.prems, of "c_pending s"] by simp
  next
    case False
    obtain st s1 where st: "nextStampLocked w s = (st, s1)" by force
    have h: "c_hlc s1 = st" using next_stamp_later(2)[OF copy_text.prems copy_text(1), of w] st by simp
    show ?thesis
      using copy_text(2) False h
      by (intro forward_local[OF copy_text.prems copy_text(1) st])
        (auto simp: SetLocalWithMeta_def Let_def st split: option.splits if_splits)
  qed
next
  case (copy_image s i m f w b n s')
  obtain raw where raw: "SanitizeClipImage i m = Some raw"
    using copy_image(2) by (auto simp: SetLocalImageWithMeta_def split: option.splits)
  obtain st s1 where st: "nextStampLocked w s = (st, s1)" by force
  have h: "c_hlc s1 = st" using next_stamp_later(2)[OF copy_image.prems copy_image(1), of w] st by simp
  show ?case
  proof (cases "s' = s")
    case True
    then show ?thesis using forward_same[OF copy_image.prems, of "c_pending s"] by simp
  next
    case False
    show ?thesis
      using copy_image(2) False h raw
      by (intro forward_local[OF copy_image.prems copy_image(1) st])
        (auto simp: SetLocalImageWithMeta_def Let_def st split: if_splits)
  qed
next
  case (upload s)
  then show ?case using forward_same[of s False] forward_same[of s "c_pending s"]
    by (simp add: ClipStore_TakePending_def Let_def)
next
  case (upload_text s)
  then show ?case using forward_same[of s False] forward_same[of s "c_pending s"] forward_same[of s True]
    by (simp add: TakePendingText_def ClipStore_TakePending_def Let_def)
next
  case (requeue s)
  then show ?case using forward_same[of s True] forward_same[of s "c_pending s"] by (simp add: requeueClip_def)
qed (rule forward_push)



section \<open>The chunk lane ends nowhere\<close>

definition hub_ok :: "ClipChunkHub \<Rightarrow> bool" where
  "hub_ok h \<longleftrightarrow> (\<forall>sess \<in> ran (map_of h).
     SanitizeClipManifest (cs_manifest sess) \<and> cs_totalRaw sess = cm_TotalRaw (cs_manifest sess))"

lemma hub_okD: "hub_ok h \<Longrightarrow> map_of h i = Some sess \<Longrightarrow>
    SanitizeClipManifest (cs_manifest sess) \<and> cs_totalRaw sess = cm_TotalRaw (cs_manifest sess)"
  by (auto simp: hub_ok_def ran_def)

lemma Add_push:
  assumes "hub_ok h" "ClipChunkHub_Add now c h = (h', Some push)"
  shows "\<exists>m raw. SanitizeClipManifest m \<and> finish_session m (cm_TotalRaw m) raw = Some push"
  using assms
  by (auto simp: ClipChunkHub_Add_def Let_def bind_eq_Some_conv dest!: hub_okD
      split: option.splits if_splits) blast

text \<open>
  C33. No chunked image ever reaches the clipboard: with validated manifests in the hub,
  handling any chunk leaves the clipboard store exactly as it was and writes nothing to the
  pasteboard, because the reassembled push, always above 5 MiB, fails the push validation.
\<close>

theorem chunk_lane_inert:
  assumes "hub_ok h"
  shows "snd (ingestClipChunk now mode fresh c h s) = (s, False)"
proof -
  have drop: "ingestClip mode q s = (s, False)" if "\<not> SanitizeClipPush q" for q
    using that by (simp add: ingestClip_def ClipStore_ApplyRemote_def)
  show ?thesis
  proof (cases "ClipChunkHub_Add now c h")
    case (Pair h' r)
    show ?thesis
    proof (cases r)
      case (Some push)
      obtain m raw where m: "SanitizeClipManifest m" "finish_session m (cm_TotalRaw m) raw = Some push"
        using Add_push[OF assms] Pair Some by blast
      have "\<not> SanitizeClipPush (push\<lparr>cp_Nonce := n\<rparr>)" for n
        by (rule reassembled_push_invalid[OF m(2,1) refl])
      moreover have "push = push\<lparr>cp_Nonce := cp_Nonce push\<rparr>" by simp
      ultimately have "\<not> SanitizeClipPush push" "\<not> SanitizeClipPush (push\<lparr>cp_Nonce := fresh\<rparr>)"
        by metis+
      then show ?thesis by (simp add: ingestClipChunk_def Pair Some drop Let_def)
    qed (simp add: ingestClipChunk_def Pair)
  qed
qed

theorem chunk_lane_inert_witness:
  "\<exists>h. h \<noteq> [] \<and> hub_ok h \<and> snd (ingestClipChunk 0 ''both'' ''n'' zero_ClipChunkPayload h NewClipStore) =
     (NewClipStore, False)"
proof -
  obtain m raw push where m: "SanitizeClipManifest m" "finish_session m (cm_TotalRaw m) raw = Some push"
    using large_session_exists by blast
  have "hub_ok [(''a1'', \<lparr>cs_manifest = m, cs_chunks = Map.empty, cs_received = 0,
      cs_totalRaw = cm_TotalRaw m, cs_updated = 0\<rparr>)]"
    using m(1) by (simp add: hub_ok_def)
  from chunk_lane_inert[OF this] this show ?thesis by blast
qed

end
