(* ===== verification/Notif_Store.thy ===== *)
theory Notif_Store
  imports Notif_Filter
begin

text \<open>
  The Mac's mirror of the phone's notifications (\<open>apps/mac/backend/notifications.go\<close>): the
  rows, newest first, the badge, the icon cache, the banner throttle and the queue of
  dismissals for the phone. The clock is an argument.
\<close>

definition maxNotifs :: nat where [go_consts]: "maxNotifs = 100"
definition bannerCooldownSec :: int where [go_consts]: "bannerCooldownSec = 30"
definition stalePostMaxAgeSec :: int where [go_consts]: "stalePostMaxAgeSec = 300"
definition maxPendingDismiss :: nat where [go_consts]: "maxPendingDismiss = 50"

record NotifItem =
  ni_ID :: string
  ni_App :: string
  ni_PackageName :: string
  ni_IconB64 :: string
  ni_GroupKey :: string
  ni_Title :: string
  ni_Text :: string
  ni_PostedUnix :: int

record NotifStore =
  ns_items :: "NotifItem list"
  ns_pendingDismiss :: "string list"
  ns_unseen :: int
  ns_iconCache :: "string \<rightharpoonup> string"
  ns_lastBannerUnix :: "string \<rightharpoonup> int"

definition NewNotifStore :: NotifStore where
  "NewNotifStore = \<lparr>ns_items = [], ns_pendingDismiss = [], ns_unseen = 0,
     ns_iconCache = Map.empty, ns_lastBannerUnix = Map.empty\<rparr>"

definition NotifStore_List :: "NotifStore \<Rightarrow> NotifItem list \<times> int" where
  "NotifStore_List s = (ns_items s, ns_unseen s)"

definition MarkSeen :: "NotifStore \<Rightarrow> NotifStore" where
  "MarkSeen s = s\<lparr>ns_unseen := 0\<rparr>"

definition IconForPackage :: "string \<Rightarrow> NotifStore \<Rightarrow> string" where
  "IconForPackage pkg s = (case ns_iconCache s pkg of None \<Rightarrow> [] | Some i \<Rightarrow> i)"

section \<open>Posting\<close>

text \<open>The icon cache, and the icon the row gets.\<close>

definition cache_icon :: "string \<Rightarrow> string \<Rightarrow> NotifStore \<Rightarrow> string \<times> NotifStore" where
  "cache_icon pkg icon s =
     (if pkg \<noteq> []
      then if icon \<noteq> [] then (icon, s\<lparr>ns_iconCache := (ns_iconCache s)(pkg \<mapsto> icon)\<rparr>)
           else case ns_iconCache s pkg of Some cached \<Rightarrow> (cached, s) | None \<Rightarrow> (icon, s)
      else (icon, s))"

definition notif_item :: "NotifPostPayload \<Rightarrow> string \<Rightarrow> string \<Rightarrow> NotifItem" where
  "notif_item p i icon =
     \<lparr>ni_ID = i, ni_App = TruncateNotifField (np_App p) (int MaxNotifAppLen),
      ni_PackageName = SanitizePackageName (np_PackageName p), ni_IconB64 = icon,
      ni_GroupKey = SanitizeGroupKey (np_GroupKey p),
      ni_Title = TruncateNotifField (np_Title p) (int MaxNotifTitleLen),
      ni_Text = TruncateNotifField (np_Text p) (int MaxNotifTextLen), ni_PostedUnix = np_PostedAt p\<rparr>"

definition repost :: "int \<Rightarrow> NotifItem \<Rightarrow> NotifItem \<Rightarrow> NotifStore \<Rightarrow> NotifStore \<times> bool \<times> bool" where
  "repost now item it s =
     (let item = (if ni_IconB64 item = [] \<and> ni_IconB64 it \<noteq> []
                  then item\<lparr>ni_IconB64 := ni_IconB64 it\<rparr> else item);
          s = s\<lparr>ns_items := item # remove1 it (ns_items s)\<rparr>
      in if ni_Title it = ni_Title item \<and> ni_Text it = ni_Text item then (s, True, False)
         else
           let s = s\<lparr>ns_unseen := ns_unseen s + 1\<rparr>
           in case ns_lastBannerUnix s (ni_ID item) of
                Some prev \<Rightarrow>
                  if wrap64 (now - prev) < bannerCooldownSec then (s, True, False)
                  else (s\<lparr>ns_lastBannerUnix := (ns_lastBannerUnix s)(ni_ID item \<mapsto> now)\<rparr>, True, True)
              | None \<Rightarrow>
                  (s\<lparr>ns_lastBannerUnix := (ns_lastBannerUnix s)(ni_ID item \<mapsto> now)\<rparr>, True, True))"

definition NotifStore_Post :: "int \<Rightarrow> NotifPostPayload \<Rightarrow> NotifStore \<Rightarrow> NotifStore \<times> bool \<times> bool" where
  "NotifStore_Post now p s =
     (case SanitizeNotifID (np_ID p) of
        None \<Rightarrow> (s, False, False)
      | Some i \<Rightarrow>
          if np_HasProgress p then (s, False, False)
          else if np_PostedAt p > 0 \<and> wrap64 (now - np_PostedAt p) > stalePostMaxAgeSec
          then (s, False, False)
          else
            let (icon, s) = cache_icon (SanitizePackageName (np_PackageName p))
                              (SanitizeNotifIconB64 (np_IconB64 p)) s;
                item = notif_item p i icon
            in case find (\<lambda>it. ni_ID it = i) (ns_items s) of
                 Some it \<Rightarrow> repost now item it s
               | None \<Rightarrow>
                   (s\<lparr>ns_items := take maxNotifs (item # ns_items s), ns_unseen := ns_unseen s + 1,
                      ns_lastBannerUnix := (ns_lastBannerUnix s)(i \<mapsto> now)\<rparr>, True, True))"

section \<open>Dismissing\<close>

definition NotifStore_Dismiss :: "string \<Rightarrow> NotifStore \<Rightarrow> NotifStore \<times> bool" where
  "NotifStore_Dismiss i s =
     (case SanitizeNotifID i of
        None \<Rightarrow> (s, False)
      | Some clean \<Rightarrow>
          let known = list_ex (\<lambda>it. ni_ID it = clean) (ns_items s);
              queue = ns_pendingDismiss s @ [clean]
          in (s\<lparr>ns_items := filter (\<lambda>it. ni_ID it \<noteq> clean) (ns_items s),
                ns_pendingDismiss := drop (length queue - maxPendingDismiss) queue\<rparr>, known))"

definition ApplyRemoteDismiss :: "string \<Rightarrow> NotifStore \<Rightarrow> NotifStore" where
  "ApplyRemoteDismiss i s =
     (case SanitizeNotifID i of
        None \<Rightarrow> s
      | Some clean \<Rightarrow> s\<lparr>ns_items := filter (\<lambda>it. ni_ID it \<noteq> clean) (ns_items s)\<rparr>)"

definition NotifStore_Clear :: "NotifStore \<Rightarrow> NotifStore" where
  "NotifStore_Clear s = s\<lparr>ns_items := [], ns_unseen := 0\<rparr>"

definition TakePendingDismissals :: "NotifStore \<Rightarrow> NotifStore \<times> string list" where
  "TakePendingDismissals s = (s\<lparr>ns_pendingDismiss := []\<rparr>, ns_pendingDismiss s)"

section \<open>The mirror's invariant\<close>

definition item_ok :: "NotifItem \<Rightarrow> bool" where
  "item_ok it \<longleftrightarrow> SanitizeNotifID (ni_ID it) = Some (ni_ID it) \<and>
     rune_count (ni_App it) \<le> 64 \<and> rune_count (ni_Title it) \<le> 128 \<and> rune_count (ni_Text it) \<le> 512 \<and>
     rune_count (ni_PackageName it) \<le> 128 \<and> rune_count (ni_GroupKey it) \<le> 128 \<and>
     SanitizeNotifIconB64 (ni_IconB64 it) = ni_IconB64 it"

definition notifs_ok :: "NotifStore \<Rightarrow> bool" where
  "notifs_ok s \<longleftrightarrow> distinct (map ni_ID (ns_items s)) \<and> length (ns_items s) \<le> 100 \<and>
     list_all item_ok (ns_items s) \<and> length (ns_pendingDismiss s) \<le> 50 \<and> 0 \<le> ns_unseen s \<and>
     (\<forall>pkg icon. ns_iconCache s pkg = Some icon \<longrightarrow> SanitizeNotifIconB64 icon = icon)"

inductive notif_step :: "NotifStore \<Rightarrow> NotifStore \<Rightarrow> bool" where
  post: "notif_step s (fst (NotifStore_Post now p s))"
| dismiss: "notif_step s (fst (NotifStore_Dismiss i s))"
| remote_dismiss: "notif_step s (ApplyRemoteDismiss i s)"
| seen: "notif_step s (MarkSeen s)"
| clear: "notif_step s (NotifStore_Clear s)"
| take: "notif_step s (fst (TakePendingDismissals s))"

lemma notif_id_fixed: "SanitizeNotifID s = Some i \<Longrightarrow> SanitizeNotifID i = Some i"
  by (auto simp: SanitizeNotifID_def Let_def split: if_splits)

lemma icon_fixed [simp]: "SanitizeNotifIconB64 (SanitizeNotifIconB64 s) = SanitizeNotifIconB64 s"
  by (auto simp: SanitizeNotifIconB64_def Let_def)

lemma icon_Nil [simp]: "SanitizeNotifIconB64 [] = []"
  by (simp add: SanitizeNotifIconB64_def)

lemma truncate_bound: "0 < m \<Longrightarrow> rune_count (TruncateNotifField s (int m)) \<le> m"
  using rune_count_cap_runes[of m "trim_space s"] by (simp add: TruncateNotifField_cap)

lemma notif_item_ok:
  assumes "SanitizeNotifID s = Some i" "SanitizeNotifIconB64 icon = icon"
  shows "item_ok (notif_item p i icon)"
  using assms notif_id_fixed truncate_bound[of 64] truncate_bound[of 128] truncate_bound[of 512]
    rune_count_cap_runes[of 128]
  by (simp add: item_ok_def notif_item_def go_consts SanitizePackageName_cap SanitizeGroupKey_cap)

lemma cache_icon_props:
  assumes "notifs_ok s" "SanitizeNotifIconB64 icon = icon" "cache_icon pkg icon s = (icon', s')"
  shows "SanitizeNotifIconB64 icon' = icon'" "notifs_ok s'" "ns_items s' = ns_items s"
  using assms by (auto simp: cache_icon_def notifs_ok_def split: if_splits option.splits)

lemma remove1_key_filter:
  "distinct (map f xs) \<Longrightarrow> x \<in> set xs \<Longrightarrow> remove1 x xs = filter (\<lambda>y. f y \<noteq> f x) xs"
proof (induction xs)
  case (Cons y ys)
  show ?case
  proof (cases "y = x")
    case True
    then have "\<forall>z \<in> set ys. f z \<noteq> f x" using Cons.prems(1) by (auto simp: image_iff)
    then show ?thesis using True by simp
  next
    case False
    then show ?thesis using Cons by auto
  qed
qed simp

lemma repost_ok:
  assumes "notifs_ok s" "item_ok item" "it \<in> set (ns_items s)" "ni_ID it = ni_ID item"
  shows "notifs_ok (fst (repost now item it s))"
proof -
  define item' where "item' = (if ni_IconB64 item = [] \<and> ni_IconB64 it \<noteq> []
      then item\<lparr>ni_IconB64 := ni_IconB64 it\<rparr> else item)"
  have it: "item_ok it" using assms(1,3) by (simp add: notifs_ok_def list_all_iff)
  have item': "item_ok item'" "ni_ID item' = ni_ID item"
    using assms(2) it by (auto simp: item'_def item_ok_def)
  let ?rest = "filter (\<lambda>y. ni_ID y \<noteq> ni_ID it) (ns_items s)"
  have rest: "remove1 it (ns_items s) = ?rest"
    using assms(1,3) by (intro remove1_key_filter) (simp_all add: notifs_ok_def)
  have "length ?rest < length (ns_items s)" using assms(3) by (intro length_filter_less) auto
  then have len: "length (item' # ?rest) \<le> 100" using assms(1) by (simp add: notifs_ok_def)
  have dist: "distinct (map ni_ID (item' # ?rest))"
    using assms(1,4) item'(2) by (auto simp: notifs_ok_def distinct_map_filter)
  have all: "list_all item_ok (item' # ?rest)"
    using assms(1) item'(1) by (auto simp: notifs_ok_def list_all_iff)
  have eq: "ns_items (fst (repost now item it s)) = item' # ?rest"
    and "ns_pendingDismiss (fst (repost now item it s)) = ns_pendingDismiss s"
    and "ns_iconCache (fst (repost now item it s)) = ns_iconCache s"
    and "0 \<le> ns_unseen (fst (repost now item it s))"
    using assms(1) rest unfolding repost_def item'_def[symmetric] Let_def
    by (simp_all add: notifs_ok_def split: option.split)
  then show ?thesis using assms(1) len dist all by (simp add: notifs_ok_def)
qed

lemma post_ok: "notifs_ok s \<Longrightarrow> notifs_ok (fst (NotifStore_Post now p s))"
proof (cases "SanitizeNotifID (np_ID p)")
  case (Some i)
  assume s: "notifs_ok s"
  obtain icon s' where c: "cache_icon (SanitizePackageName (np_PackageName p))
      (SanitizeNotifIconB64 (np_IconB64 p)) s = (icon, s')" by force
  note props = cache_icon_props[OF s icon_fixed c]
  let ?item = "notif_item p i icon"
  have ok: "item_ok ?item" using Some props(1) by (rule notif_item_ok)
  have new: "notifs_ok (s'\<lparr>ns_items := take maxNotifs (?item # ns_items s'), ns_unseen := ns_unseen s' + 1,
      ns_lastBannerUnix := m\<rparr>)" if "find (\<lambda>it. ni_ID it = i) (ns_items s') = None" for m
  proof -
    have "i \<notin> ni_ID ` set (ns_items s')" using that by (auto simp: find_None_iff)
    then have "distinct (map ni_ID (?item # ns_items s'))"
      using props(2) by (simp add: notifs_ok_def notif_item_def)
    then have "distinct (map ni_ID (take maxNotifs (?item # ns_items s')))"
      by (metis distinct_take take_map)
    moreover have "list_all item_ok (take maxNotifs (?item # ns_items s'))"
      using props(2) ok in_set_takeD[of _ "99" "ns_items s'"]
      by (auto simp: notifs_ok_def list_all_iff maxNotifs_def)
    ultimately show ?thesis using props(2) by (simp add: notifs_ok_def maxNotifs_def)
  qed
  have old: "notifs_ok (fst (repost now ?item it s'))"
    if "find (\<lambda>it. ni_ID it = i) (ns_items s') = Some it" for it
  proof -
    have "it \<in> set (ns_items s')" "ni_ID it = i"
      using that by (auto simp: find_Some_iff)
    then show ?thesis using repost_ok[OF props(2) ok] by (simp add: notif_item_def)
  qed
  show ?thesis
    using s new old Some
    by (simp add: NotifStore_Post_def Let_def c split: option.split)
qed (simp add: NotifStore_Post_def)

lemma notif_step_ok: "notif_step s s' \<Longrightarrow> notifs_ok s \<Longrightarrow> notifs_ok s'"
proof (induction rule: notif_step.induct)
  case (post s now p)
  then show ?case by (rule post_ok)
next
  case (dismiss s i)
  then show ?case
    by (auto simp: NotifStore_Dismiss_def notifs_ok_def Let_def distinct_map_filter list_all_iff
        maxPendingDismiss_def intro: le_trans[OF length_filter_le] split: option.split)
next
  case (remote_dismiss s i)
  then show ?case
    by (auto simp: ApplyRemoteDismiss_def notifs_ok_def distinct_map_filter list_all_iff
        intro: le_trans[OF length_filter_le] split: option.split)
qed (simp_all add: MarkSeen_def NotifStore_Clear_def TakePendingDismissals_def notifs_ok_def)

lemma notifs_ok_new: "notifs_ok NewNotifStore"
  by (simp add: notifs_ok_def NewNotifStore_def)



text \<open>
  What a post does: a rejected one leaves the mirror alone; an accepted one puts the row
  for its ID first and keeps every other row in order, dropping only the hundredth when the
  ID is new; an ID already on screen raises a banner only when its text changed and the last
  banner is at least 30 seconds old.
\<close>

theorem notif_post_behaviour:
  assumes "notifs_ok s" "NotifStore_Post now p s = (s', accepted, banner)"
  shows "if accepted
         then \<exists>i item. SanitizeNotifID (np_ID p) = Some i \<and> \<not> np_HasProgress p \<and> ni_ID item = i \<and>
                ns_items s' = take 100 (item # filter (\<lambda>it. ni_ID it \<noteq> i) (ns_items s)) \<and>
                (if banner \<and> i \<in> ni_ID ` set (ns_items s)
                 then (case ns_lastBannerUnix s i of None \<Rightarrow> True | Some prev \<Rightarrow> 30 \<le> wrap64 (now - prev))
                 else True)
         else s' = s \<and> \<not> banner"
proof (cases "SanitizeNotifID (np_ID p)")
  case (Some i)
  obtain icon s1 where c: "cache_icon (SanitizePackageName (np_PackageName p))
      (SanitizeNotifIconB64 (np_IconB64 p)) s = (icon, s1)" by force
  note props = cache_icon_props[OF assms(1) icon_fixed c]
  have lb: "ns_lastBannerUnix s1 = ns_lastBannerUnix s"
    using c by (auto simp: cache_icon_def split: if_splits option.splits)
  let ?item = "notif_item p i icon"
  show ?thesis
  proof (cases "find (\<lambda>it. ni_ID it = i) (ns_items s)")
    case None
    then have "filter (\<lambda>it. ni_ID it \<noteq> i) (ns_items s) = ns_items s"
      by (auto simp: find_None_iff filter_id_conv)
    moreover have "i \<notin> ni_ID ` set (ns_items s)" using None by (auto simp: find_None_iff)
    ultimately show ?thesis
      using assms(2) Some None props(3)
      by (auto simp: NotifStore_Post_def c Let_def maxNotifs_def notif_item_def split: if_splits)
  next
    case (Some it)
    then have it: "it \<in> set (ns_items s)" "ni_ID it = i" by (auto simp: find_Some_iff)
    let ?rest = "filter (\<lambda>y. ni_ID y \<noteq> i) (ns_items s)"
    have rest: "remove1 it (ns_items s) = ?rest"
      using remove1_key_filter[of ni_ID "ns_items s" it] assms(1) it by (simp add: notifs_ok_def)
    have "length ?rest < length (ns_items s)" using it by (intro length_filter_less) auto
    then have "length ?rest \<le> 99" using assms(1) by (simp add: notifs_ok_def)
    then show ?thesis
      using assms(2) \<open>SanitizeNotifID (np_ID p) = Some i\<close> Some props(3) rest lb
      by (auto simp: NotifStore_Post_def c Let_def repost_def notif_item_def bannerCooldownSec_def
          split: if_splits option.splits)
  qed
qed (use assms(2) in \<open>simp add: NotifStore_Post_def\<close>)

theorem notif_post_behaviour_witness:
  "\<exists>s' item. NotifStore_Post 0 (zero_NotifPostPayload\<lparr>np_ID := ''k''\<rparr>) NewNotifStore = (s', True, True) \<and>
     ni_ID item = ''k'' \<and> ns_items s' = [item]"
proof -
  have i: "SanitizeNotifID ''k'' = Some ''k''"
    by (simp add: SanitizeNotifID_def go_consts go_eval Let_def)
  obtain s' where s': "NotifStore_Post 0 (zero_NotifPostPayload\<lparr>np_ID := ''k''\<rparr>) NewNotifStore = (s', True, True)"
    by (simp add: NotifStore_Post_def i NewNotifStore_def zero_NotifPostPayload_def cache_icon_def
        SanitizePackageName_def Let_def)
  from notif_post_behaviour[OF notifs_ok_new this] i
  show ?thesis using s' by (auto simp: NewNotifStore_def zero_NotifPostPayload_def)
qed

text \<open>
  The badge can count rows that are gone: after a post and its dismissal the mirror is
  empty while the badge still shows one unseen notification.
\<close>

theorem badge_counts_dismissed:
  "let s = fst (NotifStore_Dismiss ''k'' (fst (NotifStore_Post 0
             (zero_NotifPostPayload\<lparr>np_ID := ''k'', np_Title := ''t''\<rparr>) NewNotifStore)))
   in ns_items s = [] \<and> ns_unseen s = 1"
proof -
  have i: "SanitizeNotifID ''k'' = Some ''k''"
    by (simp add: SanitizeNotifID_def go_consts go_eval Let_def)
  show ?thesis
    by (simp add: NotifStore_Post_def NotifStore_Dismiss_def i NewNotifStore_def zero_NotifPostPayload_def
        cache_icon_def SanitizePackageName_def notif_item_def maxNotifs_def Let_def)
qed

end
