(* ===== verification/Session_Wire.thy ===== *)
theory Session_Wire
  imports Version_Gate
begin

text \<open>
  The anonymous structs \<open>ParsePeerDevice\<close> and \<open>ParsePeerPingFull\<close> decode a ping into
  (\<open>apps/mac/backend/device_facts.go\<close>, \<open>service.go\<close>).
\<close>

record PingFacts =
  pf_DeviceName :: string
  pf_Model :: string
  pf_BatteryPct :: "int option"
  pf_Charging :: "bool option"
  pf_FilesPermission :: string
  pf_PhotosPermission :: string

definition zero_PingFacts :: PingFacts where
  "zero_PingFacts =
     \<lparr>pf_DeviceName = [], pf_Model = [], pf_BatteryPct = None, pf_Charging = None,
      pf_FilesPermission = [], pf_PhotosPermission = []\<rparr>"

definition PingFacts_fields :: "PingFacts fields" where
  "PingFacts_fields =
     [(''device_name'',
        dec_field pf_DeviceName (\<lambda>x. pf_DeviceName_update (\<lambda>_. x)) dec_string),
      (''model'', dec_field pf_Model (\<lambda>x. pf_Model_update (\<lambda>_. x)) dec_string),
      (''battery_pct'',
        dec_field pf_BatteryPct (\<lambda>x. pf_BatteryPct_update (\<lambda>_. x)) (dec_ptr dec_int 0)),
      (''charging'',
        dec_field pf_Charging (\<lambda>x. pf_Charging_update (\<lambda>_. x)) (dec_ptr dec_bool False)),
      (''files_permission'',
        dec_field pf_FilesPermission (\<lambda>x. pf_FilesPermission_update (\<lambda>_. x)) dec_string),
      (''photos_permission'',
        dec_field pf_PhotosPermission (\<lambda>x. pf_PhotosPermission_update (\<lambda>_. x)) dec_string)]"

record PingFactsEnv =
  pfe_Type :: string
  pfe_Sender :: SenderInfo
  pfe_Capabilities :: "string list"
  pfe_Payload :: PingFacts

definition zero_PingFactsEnv :: PingFactsEnv where
  "zero_PingFactsEnv =
     \<lparr>pfe_Type = [], pfe_Sender = zero_SenderInfo, pfe_Capabilities = [],
      pfe_Payload = zero_PingFacts\<rparr>"

definition PingFactsEnv_fields :: "PingFactsEnv fields" where
  "PingFactsEnv_fields =
     [(''type'', dec_field pfe_Type (\<lambda>x. pfe_Type_update (\<lambda>_. x)) dec_string),
      (''sender'',
        dec_field pfe_Sender (\<lambda>x. pfe_Sender_update (\<lambda>_. x)) (dec_struct SenderInfo_fields)),
      (''capabilities'',
        dec_field pfe_Capabilities (\<lambda>x. pfe_Capabilities_update (\<lambda>_. x)) (dec_slice dec_string [])),
      (''payload'',
        dec_field pfe_Payload (\<lambda>x. pfe_Payload_update (\<lambda>_. x)) (dec_struct PingFacts_fields))]"

record PingReply =
  pr_ReplyPort :: "int option"
  pr_ReplyFingerprint :: string

definition zero_PingReply :: PingReply where
  "zero_PingReply =
     \<lparr>pr_ReplyPort = None, pr_ReplyFingerprint = []\<rparr>"

definition PingReply_fields :: "PingReply fields" where
  "PingReply_fields =
     [(''reply_port'',
        dec_field pr_ReplyPort (\<lambda>x. pr_ReplyPort_update (\<lambda>_. x)) (dec_ptr dec_int 0)),
      (''reply_fingerprint'',
        dec_field pr_ReplyFingerprint (\<lambda>x. pr_ReplyFingerprint_update (\<lambda>_. x)) dec_string)]"

record PingReplyEnv =
  pre_Type :: string
  pre_Payload :: PingReply

definition zero_PingReplyEnv :: PingReplyEnv where
  "zero_PingReplyEnv =
     \<lparr>pre_Type = [], pre_Payload = zero_PingReply\<rparr>"

definition PingReplyEnv_fields :: "PingReplyEnv fields" where
  "PingReplyEnv_fields =
     [(''type'', dec_field pre_Type (\<lambda>x. pre_Type_update (\<lambda>_. x)) dec_string),
      (''payload'',
        dec_field pre_Payload (\<lambda>x. pre_Payload_update (\<lambda>_. x)) (dec_struct PingReply_fields))]"

end
