(* ===== verification/Device_Wire.thy ===== *)
theory Device_Wire
  imports Go_Json_Decode
begin

text \<open>
  The file of the remembered phone (\<open>apps/mac/backend/persist.go\<close>): the record, its zero
  value and how \<open>json.Unmarshal\<close> fills its fields.
\<close>

record LastDevice =
  ld_Host :: string
  ld_Port :: int
  ld_LastSeenUnix :: int
  ld_Fingerprint :: string
  ld_DeviceName :: string
  ld_Model :: string
  ld_BatteryPct :: "int option"
  ld_Charging :: "bool option"
  ld_BatteryUnix :: int
  ld_CustomName :: string
  ld_CandidateHosts :: "string list"
  ld_Platform :: string
  ld_AppBuild :: int
  ld_AppVersion :: string
  ld_Capabilities :: "string list"

definition zero_LastDevice :: LastDevice where
  "zero_LastDevice =
     \<lparr>ld_Host = [], ld_Port = 0, ld_LastSeenUnix = 0, ld_Fingerprint = [],
      ld_DeviceName = [], ld_Model = [], ld_BatteryPct = None, ld_Charging = None,
      ld_BatteryUnix = 0, ld_CustomName = [], ld_CandidateHosts = [],
      ld_Platform = [], ld_AppBuild = 0, ld_AppVersion = [], ld_Capabilities = []\<rparr>"

definition LastDevice_fields :: "LastDevice fields" where
  "LastDevice_fields =
     [(''host'', dec_field ld_Host (\<lambda>x. ld_Host_update (\<lambda>_. x)) dec_string),
      (''port'', dec_field ld_Port (\<lambda>x. ld_Port_update (\<lambda>_. x)) dec_int),
      (''last_seen_unix'',
        dec_field ld_LastSeenUnix (\<lambda>x. ld_LastSeenUnix_update (\<lambda>_. x)) dec_int),
      (''fingerprint'',
        dec_field ld_Fingerprint (\<lambda>x. ld_Fingerprint_update (\<lambda>_. x)) dec_string),
      (''device_name'',
        dec_field ld_DeviceName (\<lambda>x. ld_DeviceName_update (\<lambda>_. x)) dec_string),
      (''model'', dec_field ld_Model (\<lambda>x. ld_Model_update (\<lambda>_. x)) dec_string),
      (''battery_pct'',
        dec_field ld_BatteryPct (\<lambda>x. ld_BatteryPct_update (\<lambda>_. x)) (dec_ptr dec_int 0)),
      (''charging'',
        dec_field ld_Charging (\<lambda>x. ld_Charging_update (\<lambda>_. x)) (dec_ptr dec_bool False)),
      (''battery_unix'',
        dec_field ld_BatteryUnix (\<lambda>x. ld_BatteryUnix_update (\<lambda>_. x)) dec_int),
      (''custom_name'',
        dec_field ld_CustomName (\<lambda>x. ld_CustomName_update (\<lambda>_. x)) dec_string),
      (''candidate_hosts'',
        dec_field ld_CandidateHosts (\<lambda>x. ld_CandidateHosts_update (\<lambda>_. x)) (dec_slice dec_string [])),
      (''platform'', dec_field ld_Platform (\<lambda>x. ld_Platform_update (\<lambda>_. x)) dec_string),
      (''app_build'', dec_field ld_AppBuild (\<lambda>x. ld_AppBuild_update (\<lambda>_. x)) dec_int),
      (''app_version'',
        dec_field ld_AppVersion (\<lambda>x. ld_AppVersion_update (\<lambda>_. x)) dec_string),
      (''capabilities'',
        dec_field ld_Capabilities (\<lambda>x. ld_Capabilities_update (\<lambda>_. x)) (dec_slice dec_string []))]"

end
