(* ===== verification/Discovery_Wire.thy ===== *)
theory Discovery_Wire
  imports Go_Json_Decode
begin

text \<open>
  The payload structs of \<open>packages/core/discovery.go\<close>: for each, its record, its zero value and how
  \<open>json.Unmarshal\<close> fills its fields.
\<close>

record DiscoveryRecord =
  dr_V :: int
  dr_Fingerprint :: string
  dr_Host :: string
  dr_Port :: int
  dr_Build :: int

definition zero_DiscoveryRecord :: DiscoveryRecord where
  "zero_DiscoveryRecord =
     \<lparr>dr_V = 0, dr_Fingerprint = [], dr_Host = [], dr_Port = 0, dr_Build = 0\<rparr>"

definition DiscoveryRecord_fields :: "DiscoveryRecord fields" where
  "DiscoveryRecord_fields =
     [(''v'', dec_field dr_V (\<lambda>x. dr_V_update (\<lambda>_. x)) dec_int),
      (''fp'', dec_field dr_Fingerprint (\<lambda>x. dr_Fingerprint_update (\<lambda>_. x)) dec_string),
      (''host'', dec_field dr_Host (\<lambda>x. dr_Host_update (\<lambda>_. x)) dec_string),
      (''port'', dec_field dr_Port (\<lambda>x. dr_Port_update (\<lambda>_. x)) dec_int),
      (''build'', dec_field dr_Build (\<lambda>x. dr_Build_update (\<lambda>_. x)) dec_int)]"

record DiscoveryProbe =
  dp_V :: int
  dp_Type :: string
  dp_Fingerprint :: string

definition zero_DiscoveryProbe :: DiscoveryProbe where
  "zero_DiscoveryProbe =
     \<lparr>dp_V = 0, dp_Type = [], dp_Fingerprint = []\<rparr>"

definition DiscoveryProbe_fields :: "DiscoveryProbe fields" where
  "DiscoveryProbe_fields =
     [(''v'', dec_field dp_V (\<lambda>x. dp_V_update (\<lambda>_. x)) dec_int),
      (''type'', dec_field dp_Type (\<lambda>x. dp_Type_update (\<lambda>_. x)) dec_string),
      (''fp'', dec_field dp_Fingerprint (\<lambda>x. dp_Fingerprint_update (\<lambda>_. x)) dec_string)]"

end
