(* ===== verification/Discovery.thy ===== *)
theory Discovery
  imports Discovery_Wire Version_Gate Go_Encoding Go_Eval
begin

text \<open>
  LAN discovery (\<open>packages/core/discovery.go\<close>): the UDP beacon and probe, the mDNS TXT record,
  and the remembered addresses of a peer. The parts of the standard library they use come
  first: \<open>net.ParseIP\<close>, \<open>net.JoinHostPort\<close> and the \<open>%d\<close> of \<open>fmt.Sscanf\<close>.
\<close>

section \<open>Addresses\<close>

definition ipv4_field :: "string \<Rightarrow> bool" where
  "ipv4_field f \<longleftrightarrow>
     f \<noteq> [] \<and> list_all is_dec f \<and> (hd f = CHR ''0'' \<longrightarrow> f = ''0'') \<and> length f \<le> 3 \<and>
     (case parse_dec 0 f of None \<Rightarrow> False | Some n \<Rightarrow> n \<le> 255)"

definition is_ipv4 :: "string \<Rightarrow> bool" where
  "is_ipv4 s \<longleftrightarrow> (let fs = split_on CHR ''.'' s in length fs = 4 \<and> list_all ipv4_field fs)"

definition is_hex_char :: "char \<Rightarrow> bool" where
  "is_hex_char c \<longleftrightarrow> hex_val c \<noteq> None"

text \<open>The groups of an IPv6 address: how many fit still, whether the double colon was seen.\<close>

fun v6_groups :: "nat \<Rightarrow> bool \<Rightarrow> string \<Rightarrow> bool" where
  "v6_groups 0 ellipsis s = (s = [] \<and> \<not> ellipsis)"
| "v6_groups (Suc m) ellipsis s =
     (let h = takeWhile is_hex_char s; t = dropWhile is_hex_char s
      in if h = [] \<or> 4 < length h then False
         else if t \<noteq> [] \<and> hd t = CHR ''.'' then
           (ellipsis \<or> Suc m = 2) \<and> 2 \<le> Suc m \<and> is_ipv4 s \<and> (ellipsis \<longleftrightarrow> Suc m \<noteq> 2)
         else if t = [] then (ellipsis \<longleftrightarrow> m \<noteq> 0)
         else if hd t \<noteq> CHR '':'' \<or> tl t = [] then False
         else if hd (tl t) = CHR '':'' then
           (if ellipsis then False
            else if tl (tl t) = [] then m \<noteq> 0
            else v6_groups m True (tl (tl t)))
         else v6_groups m ellipsis (tl t))"

definition is_ipv6 :: "string \<Rightarrow> bool" where
  "is_ipv6 s \<longleftrightarrow>
     CHR ''%'' \<notin> set s \<and>
     (if prefix ''::'' s then drop 2 s = [] \<or> v6_groups 8 True (drop 2 s) else v6_groups 8 False s)"

text \<open>\<open>net.ParseIP\<close>: the first of dot, colon and percent decides.\<close>

definition is_ip :: "string \<Rightarrow> bool" where
  "is_ip s =
     (case dropWhile (\<lambda>c. c \<notin> {CHR ''.'', CHR '':'', CHR ''%''}) s of
        [] \<Rightarrow> False
      | c # _ \<Rightarrow> if c = CHR ''.'' then is_ipv4 s else if c = CHR '':'' then is_ipv6 s else False)"

definition JoinHostPort :: "string \<Rightarrow> string \<Rightarrow> string" where
  "JoinHostPort host port =
     (if CHR '':'' \<in> set host then ''['' @ host @ '']:'' @ port
      else host @ '':'' @ port)"

text \<open>\<open>fmt.Sscanf(s, "%d", ...)\<close>: a sign, at least one digit, and what follows is not read.\<close>

definition sscan_int :: "string \<Rightarrow> int option" where
  "sscan_int s =
     (let neg = (s \<noteq> [] \<and> hd s = CHR ''-'');
          rest = (if s \<noteq> [] \<and> (hd s = CHR ''-'' \<or> hd s = CHR ''+'') then tl s else s);
          digits = takeWhile is_dec rest
      in if digits = [] then None
         else case parse_dec 0 digits of
           None \<Rightarrow> None
         | Some n \<Rightarrow> let i = (if neg then - int n else int n) in if int64 i then Some i else None)"

section \<open>Beacons and probes\<close>

definition DiscoveryTXTVersion :: int where [go_consts]: "DiscoveryTXTVersion = 1"
definition MaxCandidateHosts :: nat where [go_consts]: "MaxCandidateHosts = 4"

definition DiscoveryRecord_json :: "DiscoveryRecord \<Rightarrow> json" where
  "DiscoveryRecord_json r = JObj
     (omit_empty (dr_V r \<noteq> 0) (''v'', jint (dr_V r)) @
      [(''fp'', JStr (dr_Fingerprint r)), (''host'', JStr (dr_Host r)), (''port'', jint (dr_Port r))] @
      omit_empty (dr_Build r \<noteq> 0) (''build'', jint (dr_Build r)))"

definition EncodeDiscoveryBeacon :: "DiscoveryRecord \<Rightarrow> string" where
  "EncodeDiscoveryBeacon rec =
     (let rec = (if dr_V rec = 0 then rec\<lparr>dr_V := DiscoveryTXTVersion\<rparr> else rec);
          rec = rec\<lparr>dr_Fingerprint := to_lower (trim_space (dr_Fingerprint rec)),
                    dr_Host := trim_space (dr_Host rec)\<rparr>
      in json_text (DiscoveryRecord_json rec))"

datatype discovery_error =
    BadBeacon
  | BeaconVersion int
  | BeaconPort
  | BeaconHost
  | NotAProbe
  | EmptyProbe

definition ParseDiscoveryBeacon :: "string \<Rightarrow> discovery_error + DiscoveryRecord" where
  "ParseDiscoveryBeacon data =
     (case unmarshal_into (dec_struct DiscoveryRecord_fields) data zero_DiscoveryRecord of
        None \<Rightarrow> Inl BadBeacon
      | Some rec \<Rightarrow>
          let rec = (if dr_V rec = 0 then rec\<lparr>dr_V := DiscoveryTXTVersion\<rparr> else rec)
          in if DiscoveryTXTVersion < dr_V rec then Inl (BeaconVersion (dr_V rec))
             else if dr_Port rec < 1 \<or> 65535 < dr_Port rec then Inl BeaconPort
             else if trim_space (dr_Host rec) = [] then Inl BeaconHost
             else Inr (rec\<lparr>dr_Host := trim_space (dr_Host rec),
                           dr_Fingerprint := to_lower (trim_space (dr_Fingerprint rec))\<rparr>))"

definition DiscoveryProbe_json :: "DiscoveryProbe \<Rightarrow> json" where
  "DiscoveryProbe_json p = JObj
     (omit_empty (dp_V p \<noteq> 0) (''v'', jint (dp_V p)) @
      [(''type'', JStr (dp_Type p)), (''fp'', JStr (dp_Fingerprint p))])"

definition EncodeDiscoveryProbe :: "string \<Rightarrow> string" where
  "EncodeDiscoveryProbe fp =
     json_text (DiscoveryProbe_json
       \<lparr>dp_V = DiscoveryTXTVersion, dp_Type = ''probe'', dp_Fingerprint = to_lower (trim_space fp)\<rparr>)"

definition ParseDiscoveryProbe :: "string \<Rightarrow> discovery_error + DiscoveryProbe" where
  "ParseDiscoveryProbe data =
     (case unmarshal_into (dec_struct DiscoveryProbe_fields) data zero_DiscoveryProbe of
        None \<Rightarrow> Inl BadBeacon
      | Some probe \<Rightarrow>
          if dp_Type probe \<noteq> ''probe'' then Inl NotAProbe
          else let fp = to_lower (trim_space (dp_Fingerprint probe))
               in if fp = [] then Inl EmptyProbe else Inr (probe\<lparr>dp_Fingerprint := fp\<rparr>))"

text \<open>The TXT record, as a map; a missing key reads as the empty string.\<close>

definition BuildDiscoveryTXT :: "DiscoveryRecord \<Rightarrow> string \<Rightarrow> string option" where
  "BuildDiscoveryTXT rec = map_of
     [(''v'', format_int DiscoveryTXTVersion),
      (''fp'', to_lower (trim_space (dr_Fingerprint rec))),
      (''host'', trim_space (dr_Host rec)),
      (''port'', format_int (dr_Port rec)),
      (''build'', format_int (dr_Build rec))]"

definition txt_get :: "(string \<Rightarrow> string option) \<Rightarrow> string \<Rightarrow> string" where
  "txt_get m k = (case m k of None \<Rightarrow> [] | Some v \<Rightarrow> v)"

definition ParseDiscoveryTXT :: "(string \<Rightarrow> string option) \<Rightarrow> DiscoveryRecord option" where
  "ParseDiscoveryTXT m =
     (if txt_get m ''v'' \<noteq> format_int DiscoveryTXTVersion then None
      else case sscan_int (trim_space (txt_get m ''port'')) of
        None \<Rightarrow> None
      | Some port \<Rightarrow>
          if port < 1 \<or> 65535 < port then None
          else
            let build = (case sscan_int (trim_space (txt_get m ''build'')) of None \<Rightarrow> 0 | Some b \<Rightarrow> b);
                host = trim_space (txt_get m ''host'')
            in if host = [] then None
               else Some (zero_DiscoveryRecord\<lparr>dr_Fingerprint := to_lower (trim_space (txt_get m ''fp'')),
                            dr_Host := host, dr_Port := port, dr_Build := build\<rparr>))"

section \<open>Remembered addresses\<close>

text \<open>The closure \<open>push\<close> of the two functions.\<close>

definition push_host :: "string \<Rightarrow> string list \<Rightarrow> string list" where
  "push_host h out =
     (let h = trim_space h
      in if h = [] \<or> h \<in> set out then out
         else if \<not> is_ip h then out
         else out @ [h])"

definition MergeCandidateHosts :: "string \<Rightarrow> string list \<Rightarrow> string list" where
  "MergeCandidateHosts latest existing =
     take MaxCandidateHosts (fold push_host existing (push_host latest []))"

text \<open>The stable sort of \<open>OrderedPeerTargets\<close> compares a host with the one before it: the
  primary moves forward past others, and no other pair is out of order since its indices
  ascend. The insertion sort the library runs on up to twenty elements is written out.\<close>

fun sink_primary :: "string \<Rightarrow> string \<Rightarrow> string list \<Rightarrow> string list" where
  "sink_primary primary h [] = [h]"
| "sink_primary primary h (g # sorted_rev) =
     (if h = primary then g # sink_primary primary h sorted_rev else h # g # sorted_rev)"

definition primary_first :: "string \<Rightarrow> string list \<Rightarrow> string list" where
  "primary_first primary hosts = rev (fold (sink_primary primary) hosts [])"

definition OrderedPeerTargets :: "string \<Rightarrow> int \<Rightarrow> string list \<Rightarrow> string list" where
  "OrderedPeerTargets primaryHost primaryPort candidates =
     map (\<lambda>h. JoinHostPort h (format_int primaryPort))
       (primary_first (trim_space primaryHost) (fold push_host candidates (push_host primaryHost [])))"


section \<open>What is remembered\<close>

definition host_ok :: "string \<Rightarrow> bool" where
  "host_ok h \<longleftrightarrow> trim_space h = h \<and> h \<noteq> [] \<and> is_ip h"

lemma push_host_ok:
  assumes "distinct out" "list_all host_ok out"
  shows "distinct (push_host h out) \<and> list_all host_ok (push_host h out)"
  using assms by (simp add: push_host_def Let_def host_ok_def)

lemma push_hosts_ok:
  "distinct out \<Longrightarrow> list_all host_ok out \<Longrightarrow>
   distinct (fold push_host hs out) \<and> list_all host_ok (fold push_host hs out)"
  by (induction hs arbitrary: out) (use push_host_ok in auto)

lemma push_host_mem: "x \<in> set (push_host h out) \<Longrightarrow> x \<in> set out \<or> x = trim_space h"
  by (auto simp: push_host_def Let_def split: if_splits)

lemma push_hosts_mem: "x \<in> set (fold push_host hs out) \<Longrightarrow> x \<in> set out \<or> x \<in> trim_space ` set hs"
  by (induction hs arbitrary: out) (use push_host_mem in force)+

lemma push_hosts_prefix: "prefix out (fold push_host hs out)"
proof (induction hs arbitrary: out)
  case (Cons h hs)
  have "prefix out (push_host h out)" by (simp add: push_host_def Let_def)
  then show ?case using Cons[of "push_host h out"] prefix_order.trans by (metis fold_simps(2))
qed simp

lemma push_host_fixed: "host_ok h \<Longrightarrow> push_host h out = (if h \<in> set out then out else out @ [h])"
  by (simp add: push_host_def host_ok_def Let_def)

lemma push_hosts_fixed:
  "distinct (out @ hs) \<Longrightarrow> list_all host_ok hs \<Longrightarrow> fold push_host hs out = out @ hs"
  by (induction hs arbitrary: out) (simp_all add: push_host_fixed)

lemma push_hosts_skip:
  "host_ok x \<Longrightarrow> x \<in> set out \<Longrightarrow> fold push_host (filter (\<lambda>y. y \<noteq> x) hs) out = fold push_host hs out"
proof (induction hs arbitrary: out)
  case (Cons h hs)
  have "set out \<subseteq> set (push_host h out)" by (auto simp: push_host_def Let_def)
  then show ?case using Cons by (auto simp: push_host_fixed)
qed simp

lemma merge_candidates_facts:
  "length (MergeCandidateHosts h hs) \<le> 4 \<and> distinct (MergeCandidateHosts h hs) \<and>
   list_all host_ok (MergeCandidateHosts h hs) \<and>
   set (MergeCandidateHosts h hs) \<subseteq> trim_space ` set (h # hs) \<and>
   (if host_ok (trim_space h) then hd (MergeCandidateHosts h hs) = trim_space h else True) \<and>
   MergeCandidateHosts h (MergeCandidateHosts h hs) = MergeCandidateHosts h hs"
proof -
  let ?f = "fold push_host hs (push_host h [])"
  have one: "push_host h [] = (if host_ok (trim_space h) then [trim_space h] else [])"
    by (simp add: push_host_def host_ok_def Let_def)
  have ok: "distinct ?f" "list_all host_ok ?f"
    using push_hosts_ok[of "push_host h []" hs] push_host_ok[of "[]" h] by auto
  let ?m = "take MaxCandidateHosts ?f"
  have mok: "distinct ?m" "list_all host_ok ?m"
    using ok by (auto simp: list_all_iff dest: in_set_takeD)
  have mem: "set ?m \<subseteq> trim_space ` set (h # hs)"
    using push_hosts_mem[of _ hs "push_host h []"] push_host_mem[of _ h "[]"] by (fastforce dest: in_set_takeD)
  have hd: "hd ?m = trim_space h \<and> ?m = trim_space h # tl ?m" if "host_ok (trim_space h)"
    using that push_hosts_prefix[of "[trim_space h]" hs] one by (auto simp: prefix_def go_consts)
  have "MergeCandidateHosts h ?m = ?m"
  proof (cases "host_ok (trim_space h)")
    case True
    have "fold push_host ?m [trim_space h] = fold push_host (tl ?m) [trim_space h]"
      using hd[OF True] push_host_fixed[OF True, of "[trim_space h]"] by (metis fold_simps(2) list.set_intros(1))
    also have "\<dots> = [trim_space h] @ tl ?m"
    proof (rule push_hosts_fixed)
      show "distinct ([trim_space h] @ tl ?m)" using hd[OF True] mok(1) by (metis append_Cons append_Nil)
      show "list_all host_ok (tl ?m)" using mok(2) by (cases ?m) auto
    qed
    finally show ?thesis using hd[OF True] True one by (simp add: MergeCandidateHosts_def)
  next
    case False
    then show ?thesis using one mok by (simp add: MergeCandidateHosts_def push_hosts_fixed)
  qed
  then show ?thesis using mok mem hd
    unfolding MergeCandidateHosts_def by (auto simp: MaxCandidateHosts_def)
qed

text \<open>
  The remembered addresses of a peer stay clean: at most four, each once, each a trimmed IP
  address that was given, the latest first when it is one; and remembering the same latest
  address again changes nothing.
\<close>

theorem merge_candidates:
  "length (MergeCandidateHosts h hs) \<le> 4 \<and> distinct (MergeCandidateHosts h hs) \<and>
   list_all host_ok (MergeCandidateHosts h hs) \<and>
   set (MergeCandidateHosts h hs) \<subseteq> trim_space ` set (h # hs) \<and>
   (if host_ok (trim_space h) then hd (MergeCandidateHosts h hs) = trim_space h else True) \<and>
   MergeCandidateHosts h (MergeCandidateHosts h hs) = MergeCandidateHosts h hs"
  by (rule merge_candidates_facts)

text \<open>The sort changes nothing: the primary was pushed first.\<close>

lemma sink_primary_other: "h \<noteq> p \<Longrightarrow> sink_primary p h out = h # out"
  by (cases out) auto

lemma sink_all_other: "p \<notin> set hs \<Longrightarrow> fold (sink_primary p) hs out = rev hs @ out"
  by (induction hs arbitrary: out) (auto simp: sink_primary_other)

lemma primary_first_id: "distinct hs \<Longrightarrow> p \<in> set hs \<Longrightarrow> hd hs = p \<Longrightarrow> primary_first p hs = hs"
  by (cases hs) (auto simp: primary_first_def sink_all_other)

lemma dial_order:
  "OrderedPeerTargets p port cs =
     map (\<lambda>h. JoinHostPort h (format_int port)) (fold push_host cs (push_host p []))"
proof -
  let ?f = "fold push_host cs (push_host p [])"
  have d: "distinct ?f" "list_all host_ok ?f"
    using push_hosts_ok[of "push_host p []" cs] push_host_ok[of "[]" p] by auto
  have "primary_first (trim_space p) ?f = ?f"
  proof (cases "trim_space p \<in> set ?f")
    case True
    then have "host_ok (trim_space p)" using d by (auto simp: list_all_iff)
    then have "push_host p [] = [trim_space p]" by (simp add: push_host_def host_ok_def Let_def)
    then have "hd ?f = trim_space p" using push_hosts_prefix[of "[trim_space p]" cs] by (auto simp: prefix_def)
    then show ?thesis using primary_first_id d(1) True by blast
  qed (simp add: primary_first_def sink_all_other)
  then show ?thesis by (simp add: OrderedPeerTargets_def)
qed

section \<open>A beacon survives the wire\<close>

lemma dec_DiscoveryRecord_json [simp]:
  "valid_utf8 (dr_Fingerprint r) \<Longrightarrow> valid_utf8 (dr_Host r) \<Longrightarrow> int64 (dr_V r) \<Longrightarrow> int64 (dr_Port r) \<Longrightarrow>
   int64 (dr_Build r) \<Longrightarrow>
   dec_struct DiscoveryRecord_fields (DiscoveryRecord_json r) zero_DiscoveryRecord = Some r"
  by (simp add: DiscoveryRecord_json_def DiscoveryRecord_fields_def field_for_exact dec_field_def
      zero_DiscoveryRecord_def omit_empty_def)

lemma sscan_format_nat: "0 \<le> i \<Longrightarrow> int64 i \<Longrightarrow> sscan_int (format_int i) = Some i"
proof -
  assume i: "0 \<le> i" "int64 i"
  obtain c cs where c: "dec_digits (nat i) = c # cs" by (cases "dec_digits (nat i)") auto
  have all: "list_all is_dec (dec_digits (nat i))" using dec_digits_all_dec by (auto simp: list_all_iff)
  then have "is_dec c" using c by simp
  then have ns: "c \<noteq> CHR ''-''" "c \<noteq> CHR ''+''" by (auto simp: is_dec_def)
  have f: "format_int i = dec_digits (nat i)" using i by (simp add: format_int_def)
  have "takeWhile is_dec (dec_digits (nat i)) = dec_digits (nat i)"
    using all by (simp add: takeWhile_eq_all_conv list_all_iff)
  then show ?thesis using i ns c f parse_dec_digits[of "nat i"]
    by (simp add: sscan_int_def Let_def)
qed

lemma trim_format_int [simp]: "trim_space (format_int i) = format_int i"
proof (rule trim_space_plain)
  have "\<not> is_space (byte c) \<and> byte c < 128" if "c \<in> set (format_int i)" for c
    using that dec_digits_all_dec by (fastforce simp: format_int_def is_dec_def is_space_def split: if_splits)
  then show "plain_ends (format_int i)" by (auto simp: plain_ends_def)
qed

text \<open>
  A beacon says what the sender meant: a record of this version with a 64-bit build, a port
  in range, a trimmed UTF-8 host and a lower-case fingerprint, sent as a UDP beacon or as a
  TXT record, is read back as the same coordinates, fingerprint and build.
\<close>

theorem discovery_round_trip:
  assumes "dr_V r \<in> {0, 1}" "1 \<le> dr_Port r" "dr_Port r \<le> 65535" "0 \<le> dr_Build r" "int64 (dr_Build r)"
    and "trim_space (dr_Host r) = dr_Host r" "dr_Host r \<noteq> []" "valid_utf8 (dr_Host r)"
    and "lower_word (dr_Fingerprint r)"
  shows "ParseDiscoveryBeacon (EncodeDiscoveryBeacon r) = Inr (r\<lparr>dr_V := 1\<rparr>) \<and>
         ParseDiscoveryTXT (BuildDiscoveryTXT r) = Some (r\<lparr>dr_V := 0\<rparr>)"
proof
  have fp: "to_lower (trim_space (dr_Fingerprint r)) = dr_Fingerprint r"
    using assms(9) by (rule lower_word_fixed)
  have a: "valid_utf8 (dr_Fingerprint r)"
    using assms(9) by (intro valid_utf8_ascii) (auto simp: lower_word_def list_all_iff)
  have p: "int64 (dr_Port r)" using assms(2,3) by (simp add: int64_def)
  let ?r = "r\<lparr>dr_V := 1\<rparr>"
  have e: "EncodeDiscoveryBeacon r = json_text (DiscoveryRecord_json ?r)"
    using assms(1,6) fp by (cases r) (auto simp: EncodeDiscoveryBeacon_def go_consts Let_def)
  have pr: "json_printable (DiscoveryRecord_json ?r)" "json_depth (DiscoveryRecord_json ?r) \<le> max_nesting"
    using a assms(5,8) p by (simp_all add: DiscoveryRecord_json_def omit_empty_def valid_utf8_ascii max_nesting_def int64_def)
  have "unmarshal_into (dec_struct DiscoveryRecord_fields) (EncodeDiscoveryBeacon r) zero_DiscoveryRecord = Some ?r"
    unfolding e unmarshal_into_text[OF pr] using a assms(5,8) p
    by (intro dec_DiscoveryRecord_json) (simp_all add: int64_def)
  then show "ParseDiscoveryBeacon (EncodeDiscoveryBeacon r) = Inr ?r"
    using assms(2,3,6,7) fp by (simp add: ParseDiscoveryBeacon_def go_consts Let_def)
  show "ParseDiscoveryTXT (BuildDiscoveryTXT r) = Some (r\<lparr>dr_V := 0\<rparr>)"
    using sscan_format_nat[of "dr_Port r"] sscan_format_nat[of "dr_Build r"] assms p fp
    by (simp add: ParseDiscoveryTXT_def BuildDiscoveryTXT_def txt_get_def go_consts zero_DiscoveryRecord_def)
qed

theorem discovery_round_trip_witness:
  "ParseDiscoveryBeacon (EncodeDiscoveryBeacon
     \<lparr>dr_V = 0, dr_Fingerprint = ''ab12'', dr_Host = ''10.0.0.2'', dr_Port = 8443, dr_Build = 13\<rparr>)
   = Inr \<lparr>dr_V = 1, dr_Fingerprint = ''ab12'', dr_Host = ''10.0.0.2'', dr_Port = 8443, dr_Build = 13\<rparr>"
  using discovery_round_trip[of "\<lparr>dr_V = 0, dr_Fingerprint = ''ab12'', dr_Host = ''10.0.0.2'',
      dr_Port = 8443, dr_Build = 13\<rparr>"]
  by (simp add: go_eval ascii_def int64_def lower_word_def valid_utf8_ascii)

end
