(* ===== verification/Device_File.thy ===== *)
theory Device_File
  imports Device_Wire Discovery
begin

text \<open>
  The remembered phone on disk (\<open>apps/mac/backend/persist.go\<close>): validation on load, the
  printed form on store. The file is the string it holds, \<open>None\<close> when it does not exist.
\<close>

datatype device_error = DecodeDevice | DeviceHostEmpty | DevicePortRange int | DeviceUnreadable

definition or_empty :: "string option \<Rightarrow> string" where
  "or_empty m = (case m of Some s \<Rightarrow> s | None \<Rightarrow> [])"

definition clean_battery :: "LastDevice \<Rightarrow> LastDevice" where
  "clean_battery dev =
     (let dev = (case ld_BatteryPct dev of
                   Some pct \<Rightarrow>
                     if \<not> SanitizeBatteryPct pct
                     then dev\<lparr>ld_BatteryPct := None, ld_Charging := None, ld_BatteryUnix := 0\<rparr> else dev
                 | None \<Rightarrow> dev)
      in if ld_BatteryPct dev = None then dev\<lparr>ld_Charging := None, ld_BatteryUnix := 0\<rparr> else dev)"

definition decodeLastDevice :: "string \<Rightarrow> device_error + LastDevice" where
  "decodeLastDevice raw =
     (case unmarshal_into (dec_struct LastDevice_fields) raw zero_LastDevice of
        None \<Rightarrow> Inl DecodeDevice
      | Some dev \<Rightarrow>
          if trim_space (ld_Host dev) = [] then Inl DeviceHostEmpty
          else if ld_Port dev < 1 \<or> 65535 < ld_Port dev then Inl (DevicePortRange (ld_Port dev))
          else
            let dev = dev\<lparr>ld_DeviceName := or_empty (SanitizeDeviceLabel (ld_DeviceName dev)),
                          ld_Model := or_empty (SanitizeDeviceLabel (ld_Model dev))\<rparr>;
                dev = clean_battery dev;
                dev = dev\<lparr>ld_CustomName := or_empty (SanitizeDeviceLabel (ld_CustomName dev))\<rparr>
            in Inr (dev\<lparr>ld_CandidateHosts := MergeCandidateHosts (ld_Host dev) (ld_CandidateHosts dev)\<rparr>))"

definition opt_member :: "string \<Rightarrow> ('a \<Rightarrow> json) \<Rightarrow> 'a option \<Rightarrow> (string \<times> json) list" where
  "opt_member k f m = (case m of None \<Rightarrow> [] | Some x \<Rightarrow> [(k, f x)])"

definition LastDevice_json :: "LastDevice \<Rightarrow> json" where
  "LastDevice_json d = JObj
     ([(''host'', JStr (ld_Host d)), (''port'', jint (ld_Port d)),
       (''last_seen_unix'', jint (ld_LastSeenUnix d))] @
      omit_empty (ld_Fingerprint d \<noteq> []) (''fingerprint'', JStr (ld_Fingerprint d)) @
      omit_empty (ld_DeviceName d \<noteq> []) (''device_name'', JStr (ld_DeviceName d)) @
      omit_empty (ld_Model d \<noteq> []) (''model'', JStr (ld_Model d)) @
      opt_member ''battery_pct'' jint (ld_BatteryPct d) @
      opt_member ''charging'' JBool (ld_Charging d) @
      omit_empty (ld_BatteryUnix d \<noteq> 0) (''battery_unix'', jint (ld_BatteryUnix d)) @
      omit_empty (ld_CustomName d \<noteq> []) (''custom_name'', JStr (ld_CustomName d)) @
      omit_empty (ld_CandidateHosts d \<noteq> []) (''candidate_hosts'', JArr (map JStr (ld_CandidateHosts d))) @
      omit_empty (ld_Platform d \<noteq> []) (''platform'', JStr (ld_Platform d)) @
      omit_empty (ld_AppBuild d \<noteq> 0) (''app_build'', jint (ld_AppBuild d)) @
      omit_empty (ld_AppVersion d \<noteq> []) (''app_version'', JStr (ld_AppVersion d)) @
      omit_empty (ld_Capabilities d \<noteq> []) (''capabilities'', JArr (map JStr (ld_Capabilities d))))"

definition StoreLastDevice :: "LastDevice \<Rightarrow> string" where
  "StoreLastDevice dev = json_text (LastDevice_json dev) @ [CHR 0x0A]"

text \<open>\<open>LoadLastDevice\<close>: the file, whether it can be read, and what is found; \<open>Inr None\<close> is no
  file.\<close>

definition LoadLastDevice :: "string option \<Rightarrow> bool \<Rightarrow> device_error + LastDevice option" where
  "LoadLastDevice disk readable =
     (case disk of
        None \<Rightarrow> Inr None
      | Some raw \<Rightarrow>
          if \<not> readable then Inl DeviceUnreadable
          else case decodeLastDevice raw of Inl e \<Rightarrow> Inl e | Inr dev \<Rightarrow> Inr (Some dev))"

section \<open>Well-formed devices\<close>

definition label_ok :: "string \<Rightarrow> bool" where
  "label_ok s \<longleftrightarrow> s = [] \<or> SanitizeDeviceLabel s = Some s"

definition device_ok :: "LastDevice \<Rightarrow> bool" where
  "device_ok d \<longleftrightarrow>
     trim_space (ld_Host d) \<noteq> [] \<and> 1 \<le> ld_Port d \<and> ld_Port d \<le> 65535 \<and>
     label_ok (ld_DeviceName d) \<and> label_ok (ld_Model d) \<and> label_ok (ld_CustomName d) \<and>
     (case ld_BatteryPct d of
        None \<Rightarrow> ld_Charging d = None \<and> ld_BatteryUnix d = 0
      | Some pct \<Rightarrow> SanitizeBatteryPct pct) \<and>
     MergeCandidateHosts (ld_Host d) (ld_CandidateHosts d) = ld_CandidateHosts d"

definition device_printable :: "LastDevice \<Rightarrow> bool" where
  "device_printable d \<longleftrightarrow>
     list_all valid_utf8 [ld_Host d, ld_Fingerprint d, ld_DeviceName d, ld_Model d, ld_CustomName d,
       ld_Platform d, ld_AppVersion d] \<and>
     list_all valid_utf8 (ld_CandidateHosts d) \<and> list_all valid_utf8 (ld_Capabilities d) \<and>
     int64 (ld_LastSeenUnix d) \<and> int64 (ld_BatteryUnix d) \<and> int64 (ld_AppBuild d)"

lemma SanitizeDeviceLabel_idem: "SanitizeDeviceLabel s = Some t \<Longrightarrow> SanitizeDeviceLabel t = Some t"
  by (auto simp: SanitizeDeviceLabel_def Let_def split: if_splits)

lemma label_ok_or_empty [simp]: "label_ok (or_empty (SanitizeDeviceLabel s))"
  by (cases "SanitizeDeviceLabel s") (auto simp: label_ok_def or_empty_def SanitizeDeviceLabel_idem)

lemma or_empty_label [simp]: "label_ok s \<Longrightarrow> or_empty (SanitizeDeviceLabel s) = s"
  by (auto simp: label_ok_def or_empty_def SanitizeDeviceLabel_def)


lemma battery_clean:
  "case ld_BatteryPct (clean_battery d) of
     None \<Rightarrow> ld_Charging (clean_battery d) = None \<and> ld_BatteryUnix (clean_battery d) = 0
   | Some pct \<Rightarrow> SanitizeBatteryPct pct"
  by (auto simp: clean_battery_def Let_def split: option.split)

lemma clean_battery_same:
  "(case ld_BatteryPct d of None \<Rightarrow> ld_Charging d = None \<and> ld_BatteryUnix d = 0
    | Some pct \<Rightarrow> SanitizeBatteryPct pct) \<Longrightarrow> clean_battery d = d"
  by (cases d) (auto simp: clean_battery_def Let_def split: option.splits)

lemma clean_battery_keeps [simp]:
  "ld_Host (clean_battery d) = ld_Host d" "ld_Port (clean_battery d) = ld_Port d"
  "ld_DeviceName (clean_battery d) = ld_DeviceName d" "ld_Model (clean_battery d) = ld_Model d"
  "ld_CustomName (clean_battery d) = ld_CustomName d"
  "ld_CandidateHosts (clean_battery d) = ld_CandidateHosts d"
  by (simp_all add: clean_battery_def Let_def split: option.split)

lemma decode_device_ok:
  assumes "decodeLastDevice raw = Inr d"
  shows "device_ok d"
proof -
  obtain e c where e: "trim_space (ld_Host e) \<noteq> []" "1 \<le> ld_Port e" "ld_Port e \<le> 65535"
    and c: "c = e\<lparr>ld_DeviceName := or_empty (SanitizeDeviceLabel (ld_DeviceName e)),
                   ld_Model := or_empty (SanitizeDeviceLabel (ld_Model e))\<rparr>"
    and d: "d = (clean_battery c)\<lparr>ld_CustomName := or_empty (SanitizeDeviceLabel (ld_CustomName e)),
                  ld_CandidateHosts := MergeCandidateHosts (ld_Host e) (ld_CandidateHosts e)\<rparr>"
    using assms by (auto simp: decodeLastDevice_def Let_def split: option.splits if_splits)
  have m: "MergeCandidateHosts h (MergeCandidateHosts h hs) = MergeCandidateHosts h hs" for h hs
    using merge_candidates_facts by blast
  show ?thesis
    using e battery_clean[of c] unfolding device_ok_def d
    by (simp add: m split: option.splits) (simp_all add: c m)
qed

text \<open>Decoding an object member by member: an optional member sets its field to the value it
  was printed from, and its absence leaves the field, which must then hold the zero value.\<close>

lemma dec_omit:
  assumes "map_of fs k = Some (dec_field get put d)" "\<And>p. d v p = Some x" "\<not> b \<Longrightarrow> put x r = r"
  shows "dec_members fs (omit_empty b (k, v) @ ms) r = dec_members fs ms (put x r)"
  using assms by (cases b) (simp_all add: omit_empty_def field_for_exact dec_field_def)

lemma dec_omit_strings:
  "map_of fs k = Some (dec_field get put dec_string) \<Longrightarrow> (s = [] \<Longrightarrow> put [] r = r) \<Longrightarrow>
   dec_members fs (omit_empty (s \<noteq> []) (k, JStr s) @ ms) r = dec_members fs ms (put s r)"
  by (rule dec_omit[of fs k get put dec_string]) auto

lemma dec_omit_int:
  "map_of fs k = Some (dec_field get put dec_int) \<Longrightarrow> int64 i \<Longrightarrow> (i = 0 \<Longrightarrow> put 0 r = r) \<Longrightarrow>
   dec_members fs (omit_empty (i \<noteq> 0) (k, jint i) @ ms) r = dec_members fs ms (put i r)"
  by (rule dec_omit[of fs k get put dec_int]) auto

lemma dec_omit_list:
  "map_of fs k = Some (dec_field get put (dec_slice dec_string [])) \<Longrightarrow> (xs = [] \<Longrightarrow> put [] r = r) \<Longrightarrow>
   dec_members fs (omit_empty (xs \<noteq> []) (k, JArr (map JStr xs)) @ ms) r = dec_members fs ms (put xs r)"
  by (rule dec_omit[of fs k get put "dec_slice dec_string []"]) (auto simp: dec_elems_strings)

lemma dec_opt:
  assumes "map_of fs k = Some (dec_field get put (dec_ptr d z))" "m = None \<Longrightarrow> put None r = r"
    and "\<And>x p. m = Some x \<Longrightarrow> d (f x) p = Some x \<and> f x \<noteq> JNull"
  shows "dec_members fs (opt_member k f m @ ms) r = dec_members fs ms (put m r)"
  using assms by (cases m) (simp_all add: opt_member_def field_for_exact dec_field_def dec_ptr_def)

lemmas dec_optional = dec_omit_strings dec_omit_int dec_omit_list dec_opt

lemma jint_not_null [simp]: "jint i \<noteq> JNull"
  by (simp add: jint_def)

lemma dec_strings [simp]: "dec_slice dec_string [] (JArr (map JStr xs)) p = Some xs"
  by (simp add: dec_elems_strings)

lemma dec_LastDevice_json:
  assumes "device_printable d" "int64 (ld_Port d)" "pred_option int64 (ld_BatteryPct d)"
  shows "dec_struct LastDevice_fields (LastDevice_json d) zero_LastDevice = Some d"
  using assms unfolding LastDevice_json_def LastDevice_fields_def
  by (simp add: dec_optional dec_omit_list[where ms = "[]", simplified] field_for_exact dec_field_def
      zero_LastDevice_def device_printable_def pred_option_def)

lemma flat_printable:
  assumes "\<forall>m \<in> set ms. valid_utf8 (fst m) \<and> json_printable (snd m) \<and> json_depth (snd m) \<le> 1"
  shows "json_printable (JObj ms)" "json_depth (JObj ms) \<le> max_nesting"
proof -
  have "foldr max (map (\<lambda>m. json_depth (snd m)) ms) 0 \<le> 1" using assms by (induction ms) auto
  then show "json_depth (JObj ms) \<le> max_nesting" by (simp add: max_nesting_def)
qed (use assms in simp)

lemma LastDevice_json_printable:
  assumes "device_printable d" "int64 (ld_Port d)" "pred_option int64 (ld_BatteryPct d)"
  shows "json_printable (LastDevice_json d)" "json_depth (LastDevice_json d) \<le> max_nesting"
proof -
  have caps: "foldr max (map (json_depth \<circ> JStr) xs) 0 = 0" for xs by (induction xs) auto
  have opt: "(\<forall>m \<in> set (omit_empty b m'). P m) \<longleftrightarrow> (b \<longrightarrow> P m')"
    "(\<forall>m \<in> set (opt_member k f x). P m) \<longleftrightarrow> (\<forall>y. x = Some y \<longrightarrow> P (k, f y))"
    for b m' P k and f :: "'x \<Rightarrow> json" and x
    by (auto simp: omit_empty_def opt_member_def split: option.split)
  have "\<forall>m \<in> set ms. valid_utf8 (fst m) \<and> json_printable (snd m) \<and> json_depth (snd m) \<le> 1"
    if "LastDevice_json d = JObj ms" for ms
    using that[symmetric] assms unfolding LastDevice_json_def
    by (simp add: ball_Un opt valid_utf8_ascii device_printable_def list_all_iff caps)
  then show "json_printable (LastDevice_json d)" "json_depth (LastDevice_json d) \<le> max_nesting"
    using flat_printable by (simp_all only: LastDevice_json_def) blast+
qed

text \<open>
  C35. Whatever the file holds, a device that is loaded is well formed: a host, a port in
  range, sanitized names, a battery level of 0 to 100 or none at all, and clean candidate
  addresses that start from the host.
\<close>

theorem loaded_device_ok:
  "case LoadLastDevice disk readable of
     Inl e \<Rightarrow> disk \<noteq> None
   | Inr None \<Rightarrow> disk = None
   | Inr (Some d) \<Rightarrow> device_ok d"
  using decode_device_ok by (auto simp: LoadLastDevice_def split: option.splits sum.splits)

lemma device_decode_store:
  assumes "device_ok (d\<lparr>ld_CandidateHosts := MergeCandidateHosts (ld_Host d) (ld_CandidateHosts d)\<rparr>)"
    and "device_printable d"
  shows "decodeLastDevice (StoreLastDevice d) =
         Inr (d\<lparr>ld_CandidateHosts := MergeCandidateHosts (ld_Host d) (ld_CandidateHosts d)\<rparr>)"
proof -
  have i: "int64 (ld_Port d)" "pred_option int64 (ld_BatteryPct d)"
    using assms(1) by (auto simp: device_ok_def int64_def SanitizeBatteryPct_def split: option.splits)
  note pr = LastDevice_json_printable[OF assms(2) i]
  have "unmarshal_into (dec_struct LastDevice_fields) (StoreLastDevice d) zero_LastDevice = Some d"
    using dec_LastDevice_json[OF assms(2) i] json_unmarshal_text_newline[OF pr]
    by (simp add: unmarshal_into_def StoreLastDevice_def)
  moreover have "clean_battery d = d"
    using assms(1) by (intro clean_battery_same) (simp add: device_ok_def split: option.splits)
  ultimately show ?thesis using assms(1)
    by (simp add: decodeLastDevice_def device_ok_def Let_def)
qed

end
