(* ===== verification/Peer_Session.thy ===== *)
theory Peer_Session
  imports Session_Wire Device_File Ping_Client
begin

text \<open>
  What the Mac knows of the phone (\<open>apps/mac/backend\<close>: \<open>service.go\<close>, \<open>peer_caps.go\<close>,
  \<open>device_facts.go\<close>, \<open>pair_status.go\<close>, \<open>pairing_rotation.go\<close>, \<open>service_ws.go\<close>): the live return
  path, the remembered phone, the advertised facts, the cached version, the update notice and
  the accept and reject stamps. Times are nanoseconds of the Unix clock, \<open>None\<close> the zero time;
  a WebSocket is a number. Log lines and UI events are left out, and so is demo mode.
\<close>

section \<open>State\<close>

record Session =
  se_peerHost :: string
  se_peerPort :: int
  se_peerFingerprint :: string
  se_activeWS :: "nat option"
  se_lastSeen :: "int option"
  se_lastHost :: string
  se_lastPort :: int
  se_lastDeviceSeen :: "int option"
  se_deviceName :: string
  se_deviceModel :: string
  se_batteryPct :: int
  se_hasBattery :: bool
  se_charging :: bool
  se_batteryAt :: "int option"
  se_customName :: string
  se_peerPlatform :: string
  se_peerBuild :: int
  se_peerVersion :: string
  se_peerCapabilities :: "string list"
  se_peerLearnedAt :: "int option"
  se_candidateHosts :: "string list"
  se_lastUpdateMsg :: string
  se_lastUpdateSelf :: bool
  se_lastUpdateSet :: bool
  se_lastUpdateReqVer :: string
  se_lastUpdateCurVer :: string
  se_lastUpdateReqBuild :: int
  se_lastRejectKind :: string
  se_lastRejectUnix :: int
  se_lastAcceptUnix :: int
  se_filesPermission :: string
  se_photosPermission :: string
  se_deviceFile :: "string option"

definition empty_session :: Session where
  "empty_session =
     \<lparr>se_peerHost = [], se_peerPort = 0, se_peerFingerprint = [], se_activeWS = None,
      se_lastSeen = None, se_lastHost = [], se_lastPort = 0, se_lastDeviceSeen = None,
      se_deviceName = [], se_deviceModel = [], se_batteryPct = 0, se_hasBattery = False,
      se_charging = False, se_batteryAt = None, se_customName = [], se_peerPlatform = [],
      se_peerBuild = 0, se_peerVersion = [], se_peerCapabilities = [], se_peerLearnedAt = None,
      se_candidateHosts = [], se_lastUpdateMsg = [], se_lastUpdateSelf = False,
      se_lastUpdateSet = False, se_lastUpdateReqVer = [], se_lastUpdateCurVer = [],
      se_lastUpdateReqBuild = 0, se_lastRejectKind = [], se_lastRejectUnix = 0,
      se_lastAcceptUnix = 0, se_filesPermission = [], se_photosPermission = [],
      se_deviceFile = None\<rparr>"

definition second :: int where "second = 1000000000"
definition peerTTL :: int where [go_consts]: "peerTTL = 60 * second"

text \<open>\<open>Time.Unix\<close> and \<open>time.Unix(s, 0)\<close>; the zero time is the first of January of year 1.\<close>

definition unix_of :: "int option \<Rightarrow> int" where
  "unix_of t = (case t of None \<Rightarrow> - 62135596800 | Some n \<Rightarrow> n div second)"

text \<open>\<open>time.Since(t) < peerTTL\<close>.\<close>

definition within_ttl :: "int \<Rightarrow> int option \<Rightarrow> bool" where
  "within_ttl now t = (case t of None \<Rightarrow> False | Some n \<Rightarrow> now - n < peerTTL)"

section \<open>Presence\<close>

definition IsPaired :: "int \<Rightarrow> Session \<Rightarrow> bool" where
  "IsPaired now s =
     (if se_activeWS s \<noteq> None then True
      else if se_peerHost s = [] \<or> se_peerPort s \<le> 0 then False
      else within_ttl now (se_lastSeen s))"

definition GetPeerAddr :: "int \<Rightarrow> Session \<Rightarrow> string" where
  "GetPeerAddr now s =
     (if se_peerHost s = [] \<or> se_peerPort s \<le> 0 then []
      else if \<not> within_ttl now (se_lastSeen s) then []
      else JoinHostPort (se_peerHost s) (format_int (se_peerPort s)))"

definition clearPeer :: "Session \<Rightarrow> Session" where
  "clearPeer s = s\<lparr>se_peerHost := [], se_peerPort := 0, se_lastSeen := None\<rparr>"

definition recordAccept :: "int \<Rightarrow> Session \<Rightarrow> Session" where
  "recordAccept now s = s\<lparr>se_lastAcceptUnix := now div second\<rparr>"

definition recordReject :: "int \<Rightarrow> string \<Rightarrow> Session \<Rightarrow> Session" where
  "recordReject now kind s =
     (let kind = trim_space kind
      in if kind = [] then s
         else s\<lparr>se_lastRejectKind := kind, se_lastRejectUnix := now div second\<rparr>)"

definition setUpdateDetail ::
  "string \<Rightarrow> bool \<Rightarrow> string \<Rightarrow> string \<Rightarrow> int \<Rightarrow> Session \<Rightarrow> Session" where
  "setUpdateDetail msg self reqVer curVer reqBuild s =
     s\<lparr>se_lastUpdateMsg := msg, se_lastUpdateSelf := self, se_lastUpdateSet := True,
       se_lastUpdateReqVer := reqVer, se_lastUpdateCurVer := curVer,
       se_lastUpdateReqBuild := reqBuild\<rparr>"

text \<open>The clause shared by \<open>applyFactsLocked\<close> and \<open>learnPeer\<close>: a satisfied notice goes.\<close>

definition satisfied :: "Session \<Rightarrow> bool" where
  "satisfied s \<longleftrightarrow> se_lastUpdateSet s \<and> \<not> se_lastUpdateSelf s \<and> 0 < se_lastUpdateReqBuild s \<and>
     se_lastUpdateReqBuild s \<le> se_peerBuild s"

definition clear_satisfied :: "Session \<Rightarrow> Session" where
  "clear_satisfied s =
     (if satisfied s
      then s\<lparr>se_lastUpdateSet := False, se_lastUpdateMsg := [], se_lastUpdateReqBuild := 0,
             se_lastUpdateReqVer := [], se_lastUpdateCurVer := []\<rparr>
      else s)"

section \<open>Facts\<close>

record DeviceFacts =
  fa_DeviceName :: string
  fa_HasName :: bool
  fa_Model :: string
  fa_HasModel :: bool
  fa_BatteryPct :: int
  fa_HasBattery :: bool
  fa_Charging :: bool
  fa_HasCharging :: bool
  fa_FilesPermission :: string
  fa_HasFilesPerm :: bool
  fa_PhotosPermission :: string
  fa_HasPhotosPerm :: bool
  fa_Platform :: string
  fa_HasPlatform :: bool
  fa_AppBuild :: int
  fa_HasBuild :: bool
  fa_AppVersion :: string
  fa_HasVersion :: bool
  fa_Capabilities :: "string list"
  fa_HasCaps :: bool

definition zero_DeviceFacts :: DeviceFacts where
  "zero_DeviceFacts =
     \<lparr>fa_DeviceName = [], fa_HasName = False, fa_Model = [], fa_HasModel = False,
      fa_BatteryPct = 0, fa_HasBattery = False, fa_Charging = False, fa_HasCharging = False,
      fa_FilesPermission = [], fa_HasFilesPerm = False, fa_PhotosPermission = [],
      fa_HasPhotosPerm = False, fa_Platform = [], fa_HasPlatform = False, fa_AppBuild = 0,
      fa_HasBuild = False, fa_AppVersion = [], fa_HasVersion = False, fa_Capabilities = [],
      fa_HasCaps = False\<rparr>"

definition normalizePermissionHint :: "string \<Rightarrow> string" where
  "normalizePermissionHint s =
     (if s \<in> {''granted'', ''denied'', ''limited''} then s else [])"

definition ParsePeerDevice :: "string \<Rightarrow> DeviceFacts" where
  "ParsePeerDevice body =
     (case unmarshal_into (dec_struct PingFactsEnv_fields) body zero_PingFactsEnv of
        None \<Rightarrow> zero_DeviceFacts
      | Some env \<Rightarrow>
          if pfe_Type env \<noteq> TypePing then zero_DeviceFacts
          else
            let sender = pfe_Sender env; p = pfe_Payload env;
                name = SanitizeDeviceLabel (pf_DeviceName p);
                model = SanitizeDeviceLabel (pf_Model p);
                battery = (case pf_BatteryPct p of
                             Some pct \<Rightarrow> if SanitizeBatteryPct pct then Some pct else None
                           | None \<Rightarrow> None);
                files = normalizePermissionHint (pf_FilesPermission p);
                photos = normalizePermissionHint (pf_PhotosPermission p)
            in \<lparr>fa_DeviceName = or_empty name, fa_HasName = (name \<noteq> None),
                fa_Model = or_empty model, fa_HasModel = (model \<noteq> None),
                fa_BatteryPct = (case battery of Some pct \<Rightarrow> pct | None \<Rightarrow> 0),
                fa_HasBattery = (battery \<noteq> None),
                fa_Charging = (battery \<noteq> None \<and> pf_Charging p = Some True),
                fa_HasCharging = (battery \<noteq> None \<and> pf_Charging p \<noteq> None),
                fa_FilesPermission = files, fa_HasFilesPerm = (files \<noteq> []),
                fa_PhotosPermission = photos, fa_HasPhotosPerm = (photos \<noteq> []),
                fa_Platform = si_Platform sender, fa_HasPlatform = (si_Platform sender \<noteq> []),
                fa_AppBuild = (if 0 < si_AppBuild sender then si_AppBuild sender else 0),
                fa_HasBuild = (0 < si_AppBuild sender),
                fa_AppVersion = si_AppVersion sender, fa_HasVersion = (si_AppVersion sender \<noteq> []),
                fa_Capabilities = pfe_Capabilities env, fa_HasCaps = (pfe_Capabilities env \<noteq> [])\<rparr>)"

definition applyFactsLocked :: "DeviceFacts \<Rightarrow> int \<Rightarrow> Session \<Rightarrow> Session" where
  "applyFactsLocked f now s =
     clear_satisfied
       (s\<lparr>se_deviceName := (if fa_HasName f then fa_DeviceName f else se_deviceName s),
          se_deviceModel := (if fa_HasModel f then fa_Model f else se_deviceModel s),
          se_batteryPct := (if fa_HasBattery f then fa_BatteryPct f else se_batteryPct s),
          se_hasBattery := (fa_HasBattery f \<or> se_hasBattery s),
          se_batteryAt := (if fa_HasBattery f then Some now else se_batteryAt s),
          se_charging := (if fa_HasBattery f then fa_HasCharging f \<and> fa_Charging f else se_charging s),
          se_filesPermission :=
            (if fa_HasFilesPerm f then fa_FilesPermission f else se_filesPermission s),
          se_photosPermission :=
            (if fa_HasPhotosPerm f then fa_PhotosPermission f else se_photosPermission s),
          se_peerPlatform := (if fa_HasPlatform f then fa_Platform f else se_peerPlatform s),
          se_peerBuild := (if fa_HasBuild f then fa_AppBuild f else se_peerBuild s),
          se_peerLearnedAt := (if fa_HasBuild f then Some now else se_peerLearnedAt s),
          se_peerVersion := (if fa_HasVersion f then fa_AppVersion f else se_peerVersion s),
          se_peerCapabilities := (if fa_HasCaps f then fa_Capabilities f else se_peerCapabilities s)\<rparr>)"

section \<open>The remembered phone\<close>

definition snapshotLastDevice :: "Session \<Rightarrow> LastDevice" where
  "snapshotLastDevice s =
     \<lparr>ld_Host = se_lastHost s, ld_Port = se_lastPort s,
      ld_LastSeenUnix = unix_of (se_lastDeviceSeen s), ld_Fingerprint = se_peerFingerprint s,
      ld_DeviceName = se_deviceName s, ld_Model = se_deviceModel s,
      ld_BatteryPct = (if se_hasBattery s then Some (se_batteryPct s) else None),
      ld_Charging = (if se_hasBattery s then Some (se_charging s) else None),
      ld_BatteryUnix = (if se_hasBattery s then unix_of (se_batteryAt s) else 0),
      ld_CustomName = se_customName s, ld_CandidateHosts = se_candidateHosts s,
      ld_Platform = se_peerPlatform s, ld_AppBuild = se_peerBuild s,
      ld_AppVersion = se_peerVersion s, ld_Capabilities = se_peerCapabilities s\<rparr>"

text \<open>Storing is best effort: the flag says whether the write succeeded.\<close>

definition persistDevice :: "bool \<Rightarrow> Session \<Rightarrow> Session" where
  "persistDevice ok s =
     (if ok then s\<lparr>se_deviceFile := Some (StoreLastDevice (snapshotLastDevice s))\<rparr> else s)"

definition strip_colons :: "string \<Rightarrow> string" where
  "strip_colons s = filter (\<lambda>c. c \<noteq> CHR '' '') (filter (\<lambda>c. c \<noteq> CHR '':'') s)"

definition normalizeFingerprint :: "string \<Rightarrow> string" where
  "normalizeFingerprint s = strip_colons (to_lower (trim_space s))"

definition setPeerWithFacts ::
  "int \<Rightarrow> bool \<Rightarrow> string \<Rightarrow> int \<Rightarrow> string \<Rightarrow> DeviceFacts \<Rightarrow> Session \<Rightarrow> Session" where
  "setPeerWithFacts now ok host port fp facts s =
     (if host = [] \<or> port \<le> 0 then s
      else
        let newFP = normalizeFingerprint fp;
            s = s\<lparr>se_peerHost := host, se_peerPort := port, se_lastSeen := Some now,
                  se_lastHost := host, se_lastPort := port, se_lastDeviceSeen := Some now,
                  se_candidateHosts := MergeCandidateHosts host (se_candidateHosts s),
                  se_peerFingerprint :=
                    (if newFP \<noteq> [] \<and> newFP \<noteq> se_peerFingerprint s then newFP
                     else se_peerFingerprint s)\<rparr>
        in persistDevice ok (applyFactsLocked facts now s))"

definition mergeFacts :: "int \<Rightarrow> bool \<Rightarrow> DeviceFacts \<Rightarrow> Session \<Rightarrow> Session" where
  "mergeFacts now ok facts s =
     (if se_lastPort s \<le> 0 then s
      else persistDevice ok
             (applyFactsLocked facts now (s\<lparr>se_lastSeen := Some now, se_lastDeviceSeen := Some now\<rparr>)))"

definition refreshPeer :: "int \<Rightarrow> bool \<Rightarrow> string \<Rightarrow> int \<Rightarrow> Session \<Rightarrow> Session" where
  "refreshPeer now ok host port s =
     (if host = [] \<or> port \<le> 0 then s
      else persistDevice ok
             (s\<lparr>se_peerHost := host, se_peerPort := port, se_lastSeen := Some now,
                se_lastHost := host, se_lastPort := port, se_lastDeviceSeen := Some now\<rparr>))"

definition learnPeer ::
  "int \<Rightarrow> bool \<Rightarrow> string \<Rightarrow> int \<Rightarrow> string \<Rightarrow> string list \<Rightarrow> Session \<Rightarrow> Session" where
  "learnPeer now ok platform build version caps s =
     (let s' = s\<lparr>se_peerPlatform := (if platform \<noteq> [] then platform else se_peerPlatform s),
                 se_peerBuild := (if 0 < build then build else se_peerBuild s),
                 se_peerLearnedAt := (if 0 < build then Some now else se_peerLearnedAt s),
                 se_peerVersion := (if version \<noteq> [] then version else se_peerVersion s),
                 se_peerCapabilities := (if caps \<noteq> [] then caps else se_peerCapabilities s)\<rparr>;
          changed = ((platform \<noteq> [] \<and> platform \<noteq> se_peerPlatform s) \<or>
                     (0 < build \<and> build \<noteq> se_peerBuild s) \<or>
                     (version \<noteq> [] \<and> version \<noteq> se_peerVersion s) \<or>
                     (caps \<noteq> [] \<and> caps \<noteq> se_peerCapabilities s) \<or> satisfied s');
          s'' = clear_satisfied s'
      in if changed then persistDevice ok s'' else s'')"

definition pinPeerFingerprint :: "bool \<Rightarrow> string \<Rightarrow> Session \<Rightarrow> Session" where
  "pinPeerFingerprint ok fp s =
     (let first = (se_peerFingerprint s = []);
          s' = (if first then s\<lparr>se_peerFingerprint := fp\<rparr> else s)
      in if first \<and> se_lastHost s \<noteq> [] \<and> 0 < se_lastPort s then persistDevice ok s' else s')"

text \<open>\<open>SetCustomName\<close>: \<open>None\<close> when the name or the state is refused; the rename stands in
  memory even if it cannot be stored, and the flag then says so.\<close>

definition SetCustomName :: "bool \<Rightarrow> string \<Rightarrow> Session \<Rightarrow> Session option" where
  "SetCustomName ok name s =
     (let trimmed = trim_space name
      in if trimmed \<noteq> [] \<and> SanitizeDeviceLabel trimmed = None then None
         else if se_lastHost s = [] \<or> se_lastPort s \<le> 0 then None
         else Some (persistDevice ok (s\<lparr>se_customName := trimmed\<rparr>)))"

section \<open>Feature gating\<close>

definition checkPeerCapability ::
  "int \<Rightarrow> string \<Rightarrow> int \<Rightarrow> Session \<Rightarrow> UpdateRequiredError option \<times> Session" where
  "checkPeerCapability now requiredCap minBuild s =
     (let build = se_peerBuild s; caps = se_peerCapabilities s;
          platform = (if se_peerPlatform s = [] then ''android'' else se_peerPlatform s);
          peerLacks =
            (if 0 < build then
               (if minBuild \<le> build then False
                else if \<not> within_ttl now (se_peerLearnedAt s) then False
                else True)
             else if caps \<noteq> [] then \<not> IsCapabilitySupported caps requiredCap
             else False)
      in if peerLacks then
           let upd = NewPeerUpdateRequiredPayload platform minBuild build
           in (Some \<lparr>ue_Device = platform, ue_RequiredBuild = ur_RequiredBuild upd,
                     ue_RequiredVersion = ur_RequiredVersion upd,
                     ue_CurrentVersion = ur_CurrentVersion upd, ue_Message = ur_Message upd,
                     ue_LocalOutdated = False\<rparr>,
               setUpdateDetail (ur_Message upd) False (ur_RequiredVersion upd)
                 (ur_CurrentVersion upd) (ur_RequiredBuild upd) s)
         else (None, s))"

section \<open>Connecting, leaving, forgetting\<close>

definition OnWSConnect :: "int \<Rightarrow> nat \<Rightarrow> string \<Rightarrow> Session \<Rightarrow> Session" where
  "OnWSConnect now conn host s =
     recordAccept now
       (s\<lparr>se_activeWS := Some conn, se_lastSeen := Some now, se_peerHost := host,
          se_peerPort := (if se_peerPort s \<le> 0 \<and> 0 < se_lastPort s then se_lastPort s
                          else se_peerPort s)\<rparr>)"

definition OnWSPing :: "int \<Rightarrow> nat \<Rightarrow> Session \<Rightarrow> Session" where
  "OnWSPing now conn s = (if se_activeWS s = Some conn then s\<lparr>se_lastSeen := Some now\<rparr> else s)"

definition OnWSDisconnect :: "nat \<Rightarrow> Session \<Rightarrow> Session" where
  "OnWSDisconnect conn s =
     (if se_activeWS s = Some conn
      then s\<lparr>se_activeWS := None, se_peerHost := [], se_peerPort := 0, se_lastSeen := None\<rparr>
      else s)"

definition NotifyLocalNetworkDown :: "Session \<Rightarrow> Session" where
  "NotifyLocalNetworkDown s =
     (case se_activeWS s of
        Some ws \<Rightarrow> OnWSDisconnect ws s
      | None \<Rightarrow> if se_peerHost s \<noteq> [] then clearPeer s else s)"

text \<open>The fields both farewells drop; a file that cannot be deleted stays.\<close>

definition drop_identity :: "Session \<Rightarrow> Session" where
  "drop_identity s =
     empty_session\<lparr>se_activeWS := se_activeWS s, se_deviceFile := se_deviceFile s\<rparr>"

definition ingestUnpair :: "bool \<Rightarrow> Session \<Rightarrow> Session" where
  "ingestUnpair ok s =
     (let had = (se_lastHost s \<noteq> [] \<and> 0 < se_lastPort s); s' = drop_identity s
      in if had \<and> ok then s'\<lparr>se_deviceFile := None\<rparr> else s')"

definition ForgetLastDevice :: "bool \<Rightarrow> Session \<Rightarrow> Session option" where
  "ForgetLastDevice ok s =
     (if se_lastHost s = [] \<or> se_lastPort s \<le> 0 then None
      else let s' = (drop_identity s)\<lparr>se_activeWS := None\<rparr>
           in Some (if ok then s'\<lparr>se_deviceFile := None\<rparr> else s'))"

text \<open>The part of \<open>NewService\<close> that restores the phone from disk.\<close>

definition restore_session :: "string option \<Rightarrow> bool \<Rightarrow> Session" where
  "restore_session disk readable =
     (let s = empty_session\<lparr>se_deviceFile := disk\<rparr>
      in case LoadLastDevice disk readable of
           Inr (Some dev) \<Rightarrow>
             s\<lparr>se_lastHost := ld_Host dev, se_lastPort := ld_Port dev,
               se_candidateHosts := MergeCandidateHosts (ld_Host dev) (ld_CandidateHosts dev),
               se_lastDeviceSeen :=
                 (if 0 < ld_LastSeenUnix dev then Some (ld_LastSeenUnix dev * second) else None),
               se_peerFingerprint := ld_Fingerprint dev,
               se_deviceName := ld_DeviceName dev, se_deviceModel := ld_Model dev,
               se_customName := ld_CustomName dev, se_peerPlatform := ld_Platform dev,
               se_peerBuild := ld_AppBuild dev, se_peerVersion := ld_AppVersion dev,
               se_peerCapabilities := ld_Capabilities dev,
               se_batteryPct := (case ld_BatteryPct dev of Some pct \<Rightarrow> pct | None \<Rightarrow> 0),
               se_hasBattery := (ld_BatteryPct dev \<noteq> None),
               se_charging := (ld_BatteryPct dev \<noteq> None \<and> ld_Charging dev = Some True),
               se_batteryAt :=
                 (if ld_BatteryPct dev \<noteq> None \<and> 0 < ld_BatteryUnix dev
                  then Some (ld_BatteryUnix dev * second) else None)\<rparr>
         | _ \<Rightarrow> s)"

section \<open>What every session keeps\<close>

definition session_ok :: "Session \<Rightarrow> bool" where
  "session_ok s \<longleftrightarrow>
     label_ok (se_deviceName s) \<and> label_ok (se_deviceModel s) \<and> label_ok (se_customName s) \<and>
     (se_hasBattery s \<longrightarrow> SanitizeBatteryPct (se_batteryPct s)) \<and>
     list_all host_ok (se_candidateHosts s) \<and> distinct (se_candidateHosts s) \<and>
     length (se_candidateHosts s) \<le> 4 \<and>
     (se_lastHost s = [] \<longrightarrow> se_lastPort s = 0) \<and>
     (se_lastHost s \<noteq> [] \<longrightarrow>
        trim_space (se_lastHost s) \<noteq> [] \<and> 1 \<le> se_lastPort s \<and> se_lastPort s \<le> 65535) \<and>
     0 \<le> se_peerPort s \<and> se_peerPort s \<le> 65535 \<and>
     se_filesPermission s \<in> {[], ''granted'', ''denied'', ''limited''} \<and>
     se_photosPermission s \<in> {[], ''granted'', ''denied'', ''limited''}"

definition facts_ok :: "DeviceFacts \<Rightarrow> bool" where
  "facts_ok f \<longleftrightarrow>
     (fa_HasName f \<longrightarrow> label_ok (fa_DeviceName f)) \<and> (fa_HasModel f \<longrightarrow> label_ok (fa_Model f)) \<and>
     (fa_HasBattery f \<longrightarrow> SanitizeBatteryPct (fa_BatteryPct f)) \<and>
     fa_FilesPermission f \<in> {[], ''granted'', ''denied'', ''limited''} \<and>
     fa_PhotosPermission f \<in> {[], ''granted'', ''denied'', ''limited''}"

lemma facts_ok_zero [simp]: "facts_ok zero_DeviceFacts"
  by (simp add: facts_ok_def zero_DeviceFacts_def)

lemma facts_ok_parse [simp]: "facts_ok (ParsePeerDevice body)"
proof (cases "unmarshal_into (dec_struct PingFactsEnv_fields) body zero_PingFactsEnv")
  case (Some env)
  then show ?thesis
    by (cases "pfe_Type env = TypePing")
      (auto simp: ParsePeerDevice_def facts_ok_def zero_DeviceFacts_def Let_def
        normalizePermissionHint_def split: option.splits)
qed (simp add: ParsePeerDevice_def)

lemma session_ok_empty [simp]: "session_ok empty_session"
  by (simp add: session_ok_def empty_session_def label_ok_def)

lemma clear_satisfied_fields [simp]:
  "se_deviceName (clear_satisfied s) = se_deviceName s"
  "se_deviceModel (clear_satisfied s) = se_deviceModel s"
  "se_customName (clear_satisfied s) = se_customName s"
  "se_hasBattery (clear_satisfied s) = se_hasBattery s"
  "se_batteryPct (clear_satisfied s) = se_batteryPct s"
  "se_candidateHosts (clear_satisfied s) = se_candidateHosts s"
  "se_lastHost (clear_satisfied s) = se_lastHost s" "se_lastPort (clear_satisfied s) = se_lastPort s"
  "se_peerHost (clear_satisfied s) = se_peerHost s" "se_peerPort (clear_satisfied s) = se_peerPort s"
  "se_lastSeen (clear_satisfied s) = se_lastSeen s" "se_activeWS (clear_satisfied s) = se_activeWS s"
  "se_filesPermission (clear_satisfied s) = se_filesPermission s"
  "se_photosPermission (clear_satisfied s) = se_photosPermission s"
  "se_peerBuild (clear_satisfied s) = se_peerBuild s"
  "se_peerPlatform (clear_satisfied s) = se_peerPlatform s"
  "se_peerCapabilities (clear_satisfied s) = se_peerCapabilities s"
  "se_peerLearnedAt (clear_satisfied s) = se_peerLearnedAt s"
  by (simp_all add: clear_satisfied_def)

lemma not_satisfied_clear [simp]: "\<not> satisfied (clear_satisfied s)"
  by (simp add: clear_satisfied_def) (simp add: satisfied_def)

lemma persistDevice_more [simp]:
  "session_ok (persistDevice ok s) = session_ok s" "satisfied (persistDevice ok s) = satisfied s"
  "se_peerHost (persistDevice ok s) = se_peerHost s" "se_peerPort (persistDevice ok s) = se_peerPort s"
  "se_lastSeen (persistDevice ok s) = se_lastSeen s" "se_activeWS (persistDevice ok s) = se_activeWS s"
  "se_peerBuild (persistDevice ok s) = se_peerBuild s"
  "se_peerLearnedAt (persistDevice ok s) = se_peerLearnedAt s"
  "se_lastUpdateSet (persistDevice ok s) = se_lastUpdateSet s"
  by (simp_all add: persistDevice_def session_ok_def satisfied_def)

text \<open>The invariant reads neither presence nor version nor notices.\<close>

lemma session_ok_others [simp]:
  "session_ok (se_peerHost_update g_peerHost s) = session_ok s"
  "session_ok (se_peerFingerprint_update g_peerFingerprint s) = session_ok s"
  "session_ok (se_activeWS_update g_activeWS s) = session_ok s"
  "session_ok (se_lastSeen_update g_lastSeen s) = session_ok s"
  "session_ok (se_lastDeviceSeen_update g_lastDeviceSeen s) = session_ok s"
  "session_ok (se_charging_update g_charging s) = session_ok s"
  "session_ok (se_batteryAt_update g_batteryAt s) = session_ok s"
  "session_ok (se_peerPlatform_update g_peerPlatform s) = session_ok s"
  "session_ok (se_peerBuild_update g_peerBuild s) = session_ok s"
  "session_ok (se_peerVersion_update g_peerVersion s) = session_ok s"
  "session_ok (se_peerCapabilities_update g_peerCapabilities s) = session_ok s"
  "session_ok (se_peerLearnedAt_update g_peerLearnedAt s) = session_ok s"
  "session_ok (se_lastUpdateMsg_update g_lastUpdateMsg s) = session_ok s"
  "session_ok (se_lastUpdateSelf_update g_lastUpdateSelf s) = session_ok s"
  "session_ok (se_lastUpdateSet_update g_lastUpdateSet s) = session_ok s"
  "session_ok (se_lastUpdateReqVer_update g_lastUpdateReqVer s) = session_ok s"
  "session_ok (se_lastUpdateCurVer_update g_lastUpdateCurVer s) = session_ok s"
  "session_ok (se_lastUpdateReqBuild_update g_lastUpdateReqBuild s) = session_ok s"
  "session_ok (se_lastRejectKind_update g_lastRejectKind s) = session_ok s"
  "session_ok (se_lastRejectUnix_update g_lastRejectUnix s) = session_ok s"
  "session_ok (se_lastAcceptUnix_update g_lastAcceptUnix s) = session_ok s"
  "session_ok (se_deviceFile_update g_deviceFile s) = session_ok s"
  by (simp_all add: session_ok_def)

lemma session_ok_clear_satisfied [simp]: "session_ok (clear_satisfied s) = session_ok s"
  by (simp add: session_ok_def)

lemma session_ok_facts:
  "session_ok s \<Longrightarrow> facts_ok f \<Longrightarrow> session_ok (applyFactsLocked f now s)"
  unfolding applyFactsLocked_def session_ok_clear_satisfied
  by (simp add: session_ok_def facts_ok_def)

definition port_ok :: "int \<Rightarrow> bool" where
  "port_ok p \<longleftrightarrow> 1 \<le> p \<and> p \<le> 65535"

text \<open>The steps of a session: contacts of the phone, answers to our pings, user actions.\<close>

inductive session_step :: "Session \<Rightarrow> Session \<Rightarrow> bool" where
  "trim_space host \<noteq> [] \<Longrightarrow> port_ok port \<Longrightarrow> facts_ok f \<Longrightarrow>
   session_step s (setPeerWithFacts now ok host port fp f s)"
| "facts_ok f \<Longrightarrow> session_step s (mergeFacts now ok f s)"
| "trim_space host \<noteq> [] \<Longrightarrow> port_ok port \<Longrightarrow> session_step s (refreshPeer now ok host port s)"
| "session_step s (learnPeer now ok platform build version caps s)"
| "session_step s (pinPeerFingerprint ok fp s)"
| "SetCustomName ok name s = Some s' \<Longrightarrow> session_step s s'"
| "session_step s (snd (checkPeerCapability now cap minBuild s))"
| "session_step s (setUpdateDetail msg self reqVer curVer reqBuild s)"
| "session_step s (recordAccept now s)"
| "session_step s (recordReject now kind s)"
| "session_step s (OnWSConnect now conn host s)"
| "session_step s (OnWSPing now conn s)"
| "session_step s (OnWSDisconnect conn s)"
| "session_step s (NotifyLocalNetworkDown s)"
| "session_step s (clearPeer s)"
| "session_step s (ingestUnpair ok s)"
| "ForgetLastDevice ok s = Some s' \<Longrightarrow> session_step s s'"
| "session_step s (restore_session disk readable)"

lemma merged_ok:
  "list_all host_ok (MergeCandidateHosts h hs) \<and> distinct (MergeCandidateHosts h hs) \<and>
   length (MergeCandidateHosts h hs) \<le> 4"
  using merge_candidates_facts[of h hs] by simp

lemma last_ok:
  "trim_space host \<noteq> [] \<Longrightarrow> port_ok port \<Longrightarrow>
   (host = [] \<longrightarrow> port = 0) \<and>
   (host \<noteq> [] \<longrightarrow> trim_space host \<noteq> [] \<and> 1 \<le> port \<and> port \<le> 65535)"
  by (auto simp: port_ok_def)

lemma session_ok_setPeer:
  assumes "session_ok s" "trim_space host \<noteq> []" "port_ok port" "facts_ok f"
  shows "session_ok (setPeerWithFacts now ok host port fp f s)"
proof -
  have h: "host \<noteq> []" "\<not> port \<le> 0" "0 \<le> port" "port \<le> 65535" using assms(2,3) by (auto simp: port_ok_def)
  define s1 where "s1 = s\<lparr>se_peerHost := host, se_peerPort := port, se_lastSeen := Some now,
      se_lastHost := host, se_lastPort := port, se_lastDeviceSeen := Some now,
      se_candidateHosts := MergeCandidateHosts host (se_candidateHosts s),
      se_peerFingerprint := (if normalizeFingerprint fp \<noteq> [] \<and>
          normalizeFingerprint fp \<noteq> se_peerFingerprint s then normalizeFingerprint fp
        else se_peerFingerprint s)\<rparr>"
  have "session_ok s1"
    using assms(1) merged_ok[of host "se_candidateHosts s"] last_ok[OF assms(2,3)] h(3,4)
    unfolding session_ok_def s1_def by simp
  moreover have "setPeerWithFacts now ok host port fp f s = persistDevice ok (applyFactsLocked f now s1)"
    using h(1,2) by (simp add: setPeerWithFacts_def Let_def s1_def)
  ultimately show ?thesis using assms(4) by (simp add: session_ok_facts)
qed

lemma session_ok_merge: "session_ok s \<Longrightarrow> facts_ok f \<Longrightarrow> session_ok (mergeFacts now ok f s)"
  by (simp add: mergeFacts_def session_ok_facts)

lemma session_ok_drop [simp]: "session_ok (drop_identity s)"
  by (simp add: drop_identity_def session_ok_def empty_session_def label_ok_def)

lemma session_ok_restore: "session_ok (restore_session disk readable)"
proof (cases "LoadLastDevice disk readable")
  case (Inr r)
  show ?thesis
  proof (cases r)
    case (Some dev)
    have "device_ok dev" using Inr Some decode_device_ok
      by (auto simp: LoadLastDevice_def split: option.splits sum.splits if_splits)
    then have "label_ok (ld_DeviceName dev)" "label_ok (ld_Model dev)" "label_ok (ld_CustomName dev)"
      "trim_space (ld_Host dev) \<noteq> []" "port_ok (ld_Port dev)"
      "\<And>pct. ld_BatteryPct dev = Some pct \<Longrightarrow> SanitizeBatteryPct pct"
      by (auto simp: device_ok_def port_ok_def split: option.splits)
    then show ?thesis using Inr Some merged_ok[of "ld_Host dev" "ld_CandidateHosts dev"]
        last_ok[of "ld_Host dev" "ld_Port dev"]
      by (auto simp: restore_session_def Let_def session_ok_def empty_session_def)
  qed (use Inr in \<open>simp add: restore_session_def Let_def session_ok_def empty_session_def label_ok_def\<close>)
qed (simp add: restore_session_def Let_def session_ok_def empty_session_def label_ok_def)

lemma session_ok_step: "session_step s s' \<Longrightarrow> session_ok s \<Longrightarrow> session_ok s'"
proof (induction rule: session_step.induct)
  case (1 host port f s now ok fp)
  then show ?case by (intro session_ok_setPeer)
next
  case (2 f s now ok)
  then show ?case by (intro session_ok_merge)
next
  case (3 host port s now ok)
  then have facts: "trim_space host \<noteq> []" "1 \<le> port" "port \<le> 65535" "session_ok s"
    by (simp_all add: port_ok_def)
  have "host \<noteq> []" using facts(1) by auto
  with facts have "session_ok (s\<lparr>se_peerHost := host, se_peerPort := port, se_lastSeen := Some now,
      se_lastHost := host, se_lastPort := port, se_lastDeviceSeen := Some now\<rparr>)"
    by (simp add: session_ok_def)
  then show ?case using 3 by (simp add: refreshPeer_def)
next
  case (6 ok name s s')
  then have "label_ok (trim_space name)"
    by (auto simp: SetCustomName_def Let_def label_ok_def SanitizeDeviceLabel_def split: if_splits)
  then have "session_ok (s\<lparr>se_customName := trim_space name\<rparr>)" using 6 by (simp add: session_ok_def)
  then show ?case using 6 by (auto simp: SetCustomName_def Let_def split: if_splits)
next
  case (7 s now cap minBuild)
  then show ?case by (simp add: checkPeerCapability_def Let_def setUpdateDetail_def)
next
  case (11 s now conn host)
  then show ?case
    by (cases "se_lastHost s = []") (simp_all add: OnWSConnect_def recordAccept_def session_ok_def)
next
  case (16 s ok)
  show ?case using session_ok_drop[of s] by (simp add: ingestUnpair_def Let_def)
next
  case (17 ok s s')
  then show ?case using session_ok_drop[of s] by (auto simp: ForgetLastDevice_def Let_def split: if_splits)
next
  case (18 s disk readable)
  then show ?case by (intro session_ok_restore)
next
  case (13 conn s)
  then show ?case by (simp add: OnWSDisconnect_def session_ok_def)
next
  case (14 s)
  then show ?case
    by (simp add: NotifyLocalNetworkDown_def OnWSDisconnect_def clearPeer_def session_ok_def split: option.split)
next
  case (15 s)
  then show ?case by (simp add: clearPeer_def session_ok_def)
qed (simp_all add: learnPeer_def pinPeerFingerprint_def recordAccept_def recordReject_def OnWSPing_def
    setUpdateDetail_def Let_def)

text \<open>
  C9. Whatever the phone and the user do, what the Mac knows of the phone stays well formed:
  over any run of contacts, answers, disconnections, renames, farewells and restarts the
  names are sanitized labels, a known battery is between 0 and 100, the remembered addresses
  are at most four distinct IP addresses, the remembered port is in range exactly when a
  phone is remembered, and the permission hints are of the three known words or unknown.
\<close>

theorem session_invariant:
  assumes "session_step\<^sup>*\<^sup>* (restore_session disk readable) s"
  shows "session_ok s"
  using assms by (induction rule: rtranclp_induct) (use session_ok_restore session_ok_step in auto)

theorem session_invariant_witness:
  "session_ok (ingestUnpair True (setPeerWithFacts 5 True ''10.0.0.7'' 8443 [] zero_DeviceFacts
     (restore_session None True)))"
proof (rule session_invariant)
  have "session_step (restore_session None True) (setPeerWithFacts 5 True ''10.0.0.7'' 8443 [] zero_DeviceFacts
     (restore_session None True))"
    by (rule session_step.intros(1)) (simp_all add: go_eval ascii_def port_ok_def)
  moreover have "session_step (setPeerWithFacts 5 True ''10.0.0.7'' 8443 [] zero_DeviceFacts
     (restore_session None True)) (ingestUnpair True (setPeerWithFacts 5 True ''10.0.0.7'' 8443 [] zero_DeviceFacts
     (restore_session None True)))" by (rule session_step.intros)
  ultimately show "session_step\<^sup>*\<^sup>* (restore_session None True) (ingestUnpair True (setPeerWithFacts 5 True ''10.0.0.7'' 8443 [] zero_DeviceFacts
     (restore_session None True)))" by (meson converse_rtranclp_into_rtranclp rtranclp.rtrancl_refl)
qed

section \<open>Presence, the update notice, restart and farewell\<close>

lemma after_setPeer [simp]:
  "host \<noteq> [] \<Longrightarrow> 0 < port \<Longrightarrow>
   se_lastSeen (setPeerWithFacts now ok host port fp f s) = Some now \<and>
   se_peerHost (setPeerWithFacts now ok host port fp f s) = host \<and>
   se_peerPort (setPeerWithFacts now ok host port fp f s) = port \<and>
   se_activeWS (setPeerWithFacts now ok host port fp f s) = se_activeWS s"
  by (simp add: setPeerWithFacts_def Let_def applyFactsLocked_def)

text \<open>
  C24. A phone that has just reached the Mac is paired for exactly the presence window: until
  a minute after its last contact, and for as long as a socket of its is open; its return
  address is known for the same window and not a moment longer, socket or not.
\<close>

theorem presence_window:
  fixes t now port :: int and ok :: bool and host fp :: string and f :: DeviceFacts and s :: Session
  assumes "host \<noteq> []" "0 < port"
  defines "s' \<equiv> setPeerWithFacts t ok host port fp f s"
  shows "(IsPaired now s' \<longleftrightarrow> se_activeWS s \<noteq> None \<or> now < t + 60 * second) \<and>
         (GetPeerAddr now s' = (if now < t + 60 * second then JoinHostPort host (format_int port) else []))"
  using assms by (auto simp: IsPaired_def GetPeerAddr_def within_ttl_def peerTTL_def)

theorem presence_window_witness:
  "IsPaired (60 * second - 1) (setPeerWithFacts 0 True ''10.0.0.7'' 8443 [] zero_DeviceFacts empty_session) \<and>
   \<not> IsPaired (60 * second) (setPeerWithFacts 0 True ''10.0.0.7'' 8443 [] zero_DeviceFacts empty_session)"
  using presence_window[of "''10.0.0.7''" 8443 "60 * second - 1" 0 True "[]" zero_DeviceFacts empty_session]
    presence_window[of "''10.0.0.7''" 8443 "60 * second" 0 True "[]" zero_DeviceFacts empty_session]
  by (simp add: empty_session_def second_def)

lemma after_learn:
  "0 < build \<Longrightarrow> se_peerBuild (learnPeer now ok platform build version caps s) = build \<and>
   se_peerLearnedAt (learnPeer now ok platform build version caps s) = Some now \<and>
   \<not> satisfied (learnPeer now ok platform build version caps s)"
  by (simp add: learnPeer_def Let_def)

text \<open>
  C26. A phone that has updated is believed at once, and a build that was only read from disk
  accuses nobody: after a contact with build \<open>b\<close> every feature that needs at most \<open>b\<close> passes
  the gate and no notice that asks for at most \<open>b\<close> is left standing; after a restart no
  phone with a known build is refused, whatever the feature needs, until it is heard again.
\<close>

theorem gate_trusts_fresh_builds:
  fixes t b :: int and ok :: bool and platform version :: string and caps :: "string list"
    and s :: Session
  assumes "0 < b"
  defines "s1 \<equiv> learnPeer t ok platform b version caps s"
  shows "(if minBuild \<le> b then fst (checkPeerCapability now cap minBuild s1) = None else True) \<and>
         (if se_lastUpdateSet s1 \<and> \<not> se_lastUpdateSelf s1 \<and> 0 < se_lastUpdateReqBuild s1
          then b < se_lastUpdateReqBuild s1 else True) \<and>
         (if 0 < se_peerBuild (restore_session disk r)
          then checkPeerCapability now cap minBuild (restore_session disk r) =
               (None, restore_session disk r) else True)"
proof -
  note l = after_learn[OF assms(1), of t ok platform version caps s]
  have "se_peerLearnedAt (restore_session disk r) = None"
    by (simp add: restore_session_def Let_def empty_session_def split: sum.split option.split)
  moreover have "if se_lastUpdateSet s1 \<and> \<not> se_lastUpdateSelf s1 \<and> 0 < se_lastUpdateReqBuild s1
          then b < se_lastUpdateReqBuild s1 else True"
    using l unfolding s1_def satisfied_def by auto
  ultimately show ?thesis
    using l assms(1) unfolding s1_def
    by (auto simp: checkPeerCapability_def Let_def within_ttl_def simp del: not_le split: if_splits)
qed

theorem gate_trusts_fresh_builds_witness:
  "fst (checkPeerCapability 7 ''clip'' 11 (learnPeer 5 True ''android'' 12 [] [] empty_session)) = None"
  using gate_trusts_fresh_builds[of 12 11 7 "''clip''" 5 True "''android''" "[]" "[]" empty_session None True]
  by simp

lemma restored_not_paired: "\<not> IsPaired now (restore_session disk r)"
  by (simp add: restore_session_def Let_def IsPaired_def empty_session_def split: sum.split option.split)

lemma unix_printable: "int64 (unix_of None)" by (simp add: unix_of_def int64_def)

text \<open>
  C21. The remembered phone survives a restart of the Mac: what a well-formed session stored is
  what the next session knows (addresses, pin, names, version, capabilities and battery),
  the phone is not taken to be present, and its build is not yet verified.
\<close>

theorem phone_survives_restart:
  fixes s :: Session
  assumes "session_ok s" "se_lastHost s \<noteq> []" "device_printable (snapshotLastDevice s)"
  defines "r \<equiv> restore_session (se_deviceFile (persistDevice True s)) True"
  shows "se_lastHost r = se_lastHost s \<and> se_lastPort r = se_lastPort s \<and>
         se_candidateHosts r = MergeCandidateHosts (se_lastHost s) (se_candidateHosts s) \<and>
         se_peerFingerprint r = se_peerFingerprint s \<and>
         se_deviceName r = se_deviceName s \<and> se_deviceModel r = se_deviceModel s \<and>
         se_customName r = se_customName s \<and> se_peerPlatform r = se_peerPlatform s \<and>
         se_peerBuild r = se_peerBuild s \<and> se_peerVersion r = se_peerVersion s \<and>
         se_peerCapabilities r = se_peerCapabilities s \<and> se_hasBattery r = se_hasBattery s \<and>
         se_batteryPct r = (if se_hasBattery s then se_batteryPct s else 0) \<and>
         se_charging r = (se_hasBattery s \<and> se_charging s) \<and>
         se_peerLearnedAt r = None \<and> \<not> IsPaired now r"
proof -
  let ?d = "snapshotLastDevice s"
  let ?m = "?d\<lparr>ld_CandidateHosts := MergeCandidateHosts (ld_Host ?d) (ld_CandidateHosts ?d)\<rparr>"
  have m: "MergeCandidateHosts h (MergeCandidateHosts h hs) = MergeCandidateHosts h hs" for h hs
    using merge_candidates_facts by blast
  have "device_ok ?m"
    using assms(1,2) by (simp add: device_ok_def snapshotLastDevice_def session_ok_def m)
  then have "decodeLastDevice (StoreLastDevice ?d) = Inr ?m" using assms(3) by (rule device_decode_store)
  then have "LoadLastDevice (se_deviceFile (persistDevice True s)) True = Inr (Some ?m)"
    by (simp add: LoadLastDevice_def persistDevice_def)
  then show ?thesis
    using restored_not_paired[of now "se_deviceFile (persistDevice True s)" True]
    unfolding r_def by (simp add: restore_session_def Let_def snapshotLastDevice_def empty_session_def m)
qed

theorem phone_survives_restart_witness:
  "se_lastHost (restore_session (se_deviceFile (persistDevice True
     (empty_session\<lparr>se_lastHost := ''10.0.0.7'', se_lastPort := 8443, se_deviceFile := None\<rparr>))) True)
   = ''10.0.0.7''"
proof -
  have "session_ok (empty_session\<lparr>se_lastHost := ''10.0.0.7'', se_lastPort := 8443, se_deviceFile := None\<rparr>)"
    by (simp add: session_ok_def empty_session_def label_ok_def go_eval ascii_def)
  moreover have "device_printable (snapshotLastDevice
     (empty_session\<lparr>se_lastHost := ''10.0.0.7'', se_lastPort := 8443, se_deviceFile := None\<rparr>))"
    by (simp add: device_printable_def snapshotLastDevice_def empty_session_def valid_utf8_ascii
        unix_of_def int64_def)
  ultimately show ?thesis
    using phone_survives_restart[of "empty_session\<lparr>se_lastHost := ''10.0.0.7'', se_lastPort := 8443,
        se_deviceFile := None\<rparr>" 0] by (simp add: empty_session_def)
qed

text \<open>
  A farewell from the phone drops everything the Mac knew of it except the socket: a
  phone that says goodbye over plain HTTP is gone, one whose WebSocket is still open stays
  paired, with no name and no address, until the socket closes. Forgetting the phone from
  the Mac's side closes the socket first.
\<close>

theorem farewell_presence:
  "(IsPaired now (ingestUnpair ok s) \<longleftrightarrow> se_activeWS s \<noteq> None) \<and>
   GetPeerAddr now (ingestUnpair ok s) = [] \<and> se_lastHost (ingestUnpair ok s) = [] \<and>
   (case ForgetLastDevice ok s of
      None \<Rightarrow> se_lastHost s = [] \<or> se_lastPort s \<le> 0
    | Some s' \<Rightarrow> \<not> IsPaired now s' \<and> se_peerFingerprint s' = [])"
  by (auto simp: IsPaired_def GetPeerAddr_def ingestUnpair_def ForgetLastDevice_def drop_identity_def
      empty_session_def Let_def)

end
