(* ===== verification/Typed_Body.thy ===== *)
theory Typed_Body
  imports Go_Json_Decode
begin

text \<open>
  The parsers of inbound bodies share one shape: an anonymous struct with a type and a typed
  payload is unmarshalled, the type compared, the payload checked.
\<close>

record 'p typed_body =
  tb_Type :: string
  tb_Payload :: 'p

definition typed_fields :: "'p fields \<Rightarrow> 'p typed_body fields" where
  "typed_fields fs =
     [(''type'', dec_field tb_Type (\<lambda>x. tb_Type_update (\<lambda>_. x)) dec_string),
      (''payload'', dec_field tb_Payload (\<lambda>x. tb_Payload_update (\<lambda>_. x)) (dec_struct fs))]"

definition parse_typed :: "'p fields \<Rightarrow> 'p \<Rightarrow> string \<Rightarrow> string \<Rightarrow> 'p option" where
  "parse_typed fs zero want body =
     (case unmarshal_into (dec_struct (typed_fields fs)) body \<lparr>tb_Type = [], tb_Payload = zero\<rparr> of
        None \<Rightarrow> None
      | Some env \<Rightarrow> if tb_Type env \<noteq> want then None else Some (tb_Payload env))"

definition only_if :: "('p \<Rightarrow> bool) \<Rightarrow> 'p option \<Rightarrow> 'p option" where
  "only_if ok p = (case p of None \<Rightarrow> None | Some x \<Rightarrow> if ok x then Some x else None)"

end
