(* ===== verification/File_Manager.thy ===== *)
theory File_Manager
  imports File_Transfer Typed_Body Peer_Session
begin

text \<open>
  The file commands of the Mac and its bookkeeping (\<open>files.go\<close>, \<open>files_batch.go\<close>,
  \<open>files_ack.go\<close>, \<open>files_resume.go\<close>, \<open>files_conflict.go\<close> of \<open>apps/mac/backend\<close>): listings and
  the requests to make, delete and rename, drops of many files, delivery confirmations, and the
  snapshots of the UI with what they prune. Whether the phone is paired, the result of the
  version gate and of sending, and fresh randomness are arguments. A payload is given as the
  code builds it; the nonce is stamped by \<open>NewEnvelope\<close>.
\<close>

section \<open>Requests\<close>

definition offline_hint :: string where
  "offline_hint = ''phone is offline '' @ em_dash @ '' reconnect first''"

definition ListPhoneFiles_begin ::
  "string \<Rightarrow> bool \<Rightarrow> UpdateRequiredError option \<Rightarrow> string option \<Rightarrow> FileState \<Rightarrow>
   (FileListResult \<times> list_error + FileListPayload) \<times> FileState" where
  "ListPhoneFiles_begin path paired gate random16 st =
     (let zero = zero_FileListResult
      in case SanitizeFilePath path of
           None \<Rightarrow> (Inl (zero, InvalidTarget), st)
         | Some san \<Rightarrow>
             if \<not> paired then (Inl (zero, PhoneOffline), st)
             else case gate of
               Some upd \<Rightarrow>
                 (Inl (zero\<lparr>lv_Error := ue_Message upd, lv_ErrorCode := CodeUpdateRequired\<rparr>,
                       NeedsUpdate upd), st)
             | None \<Rightarrow>
                 (case freshReqID random16 of
                    None \<Rightarrow> (Inl (zero, NoEntropyLeft), st)
                  | Some req \<Rightarrow>
                      (Inr (zero_FileListPayload\<lparr>fl_ReqID := req, fl_Path := san\<rparr>),
                       st\<lparr>fs_lists := register_waiter req (fs_lists st)\<rparr>)))"

definition ListPhoneFiles_end ::
  "string \<Rightarrow> bool \<Rightarrow> FileState \<Rightarrow> (FileListResult \<times> list_error option) \<times> FileState" where
  "ListPhoneFiles_end req sent st =
     (let gone = (\<lambda>st. st\<lparr>fs_lists := (fs_lists st)(req := None)\<rparr>)
      in if \<not> sent then ((zero_FileListResult, Some SendFailed), gone st)
         else case answer_of req (fs_lists st) of
           None \<Rightarrow> ((zero_FileListResult, Some SyncTimeout), gone st)
         | Some res \<Rightarrow>
             ((res, if lv_Error res \<noteq> [] then Some (PhoneError (lv_Error res)) else None),
              gone (st\<lparr>fs_lastList := res\<rparr>)))"

definition GetLastFileList :: "FileState \<Rightarrow> FileListResult" where
  "GetLastFileList st = fs_lastList st"

definition MkdirPhone :: "string \<Rightarrow> bool \<Rightarrow> string + FileMkdirPayload" where
  "MkdirPhone path paired =
     (if SanitizeFilePath path = None then Inl ''invalid path''
      else if path = [] then Inl ''path must not be empty''
      else if \<not> paired then Inl offline_hint
      else Inr (zero_FileMkdirPayload\<lparr>fm_Path := path\<rparr>))"

definition DeletePhone :: "string \<Rightarrow> bool \<Rightarrow> string + FileDeletePayload" where
  "DeletePhone path paired =
     (if SanitizeFilePath path = None then Inl ''invalid path''
      else if path = [] then Inl ''path must not be empty''
      else if \<not> paired then Inl offline_hint
      else Inr (zero_FileDeletePayload\<lparr>fd_Path := path\<rparr>))"

text \<open>The part of a path before its last slash, empty when there is none.\<close>

definition parentRemoteDir :: "string \<Rightarrow> string" where
  "parentRemoteDir path = rev (tl (dropWhile (\<lambda>c. c \<noteq> slash) (rev path)))"

definition RenamePhone :: "string \<Rightarrow> string \<Rightarrow> bool \<Rightarrow> string + FileRenamePayload" where
  "RenamePhone from to paired =
     (if SanitizeFilePath from = None then Inl ''invalid source path''
      else if SanitizeFilePath to = None then Inl ''invalid destination path''
      else if from = [] \<or> to = [] then Inl ''path must not be empty''
      else if from = to then Inl ''source and destination are the same''
      else if parentRemoteDir from \<noteq> parentRemoteDir to then Inl ''rename must stay in the same folder''
      else if SanitizeFileName (path_base to) = None then Inl ''invalid new name''
      else if \<not> paired then Inl offline_hint
      else Inr (zero_FileRenamePayload\<lparr>fr_From := from, fr_To := to\<rparr>))"

text \<open>The answer of the user interface to a request that was sent, or could not be.\<close>

definition sent_result :: "string \<Rightarrow> string option \<Rightarrow> string \<Rightarrow> string + string" where
  "sent_result op sendError msg =
     (case sendError of Some e \<Rightarrow> Inl (op @ '': '' @ e) | None \<Rightarrow> Inr msg)"

section \<open>Downloads\<close>

definition RequestPhoneFile ::
  "string \<Rightarrow> string \<Rightarrow> bool \<Rightarrow> string option \<Rightarrow> bool \<Rightarrow> FileState \<Rightarrow>
   (string + string \<times> FilePullReqPayload) \<times> FileState" where
  "RequestPhoneFile remotePath targetBase paired random16 dirMade st =
     (if SanitizeFilePath remotePath = None then (Inl ''invalid remote path'', st)
      else if remotePath = [] then (Inl ''path must not be empty'', st)
      else if \<not> paired then (Inl offline_hint, st)
      else case freshTransferID random16 of
        None \<Rightarrow> (Inl ''generate transfer id failed'', st)
      | Some tid \<Rightarrow>
          if \<not> dirMade then (Inl ''mkdir download dir failed'', st)
          else (Inr (tid, zero_FilePullReqPayload\<lparr>fp_Path := remotePath, fp_TransferID := tid\<rparr>),
                register_download tid remotePath (path_clean targetBase) st))"

definition RequestPhoneFile_end ::
  "int \<Rightarrow> string \<Rightarrow> string option \<Rightarrow> FileState \<Rightarrow> (string + string) \<times> FileState" where
  "RequestPhoneFile_end now tid sendError st =
     (case sendError of
        Some e \<Rightarrow> (Inl (''request file: '' @ e), failTransfer now tid e st)
      | None \<Rightarrow> (Inr tid, st))"

text \<open>Dragging a file out: a download to an exact path, with a waiter for its end.\<close>

definition DownloadFileToExactPath_begin ::
  "string \<Rightarrow> string \<Rightarrow> bool \<Rightarrow> string option \<Rightarrow> bool \<Rightarrow> FileState \<Rightarrow>
   (string + string \<times> FilePullReqPayload) \<times> FileState" where
  "DownloadFileToExactPath_begin remotePath exactDestPath paired random16 dirMade st =
     (let dest = path_clean exactDestPath
      in if SanitizeFilePath remotePath = None \<or> remotePath = [] then (Inl ''invalid remote path'', st)
         else if \<not> paired then (Inl offline_hint, st)
         else if dest = [] \<or> dest = ''.'' then (Inl ''invalid destination path'', st)
         else if \<not> dirMade then (Inl ''mkdir destination dir failed'', st)
         else case freshTransferID random16 of
           None \<Rightarrow> (Inl ''generate transfer id failed'', st)
         | Some tid \<Rightarrow>
             (Inr (tid, zero_FilePullReqPayload\<lparr>fp_Path := remotePath, fp_TransferID := tid\<rparr>),
              put_transfer tid
                (zero_FileTransfer\<lparr>ft_ID := tid, ft_Path := remotePath, ft_Direction := ''download'',
                   ft_Status := ''running'', ft_tmpPath := dest\<rparr>)
                (st\<lparr>fs_waiters := register_waiter tid (fs_waiters st)\<rparr>)))"

definition drop_waiter :: "string \<Rightarrow> FileState \<Rightarrow> FileState" where
  "drop_waiter tid st = st\<lparr>fs_waiters := (fs_waiters st)(tid := None)\<rparr>"

definition DownloadFileToExactPath_end ::
  "int \<Rightarrow> string \<Rightarrow> string option \<Rightarrow> FileState \<Rightarrow> string option \<times> FileState" where
  "DownloadFileToExactPath_end now tid sendError st =
     (case sendError of
        Some e \<Rightarrow> (Some (''request file: '' @ e), drop_waiter tid (failTransfer now tid e st))
      | None \<Rightarrow>
          (case answer_of tid (fs_waiters st) of
             Some err \<Rightarrow> (err, drop_waiter tid st)
           | None \<Rightarrow>
               (Some ''download timed out'',
                drop_waiter tid (failTransfer now tid ''download timed out'' st))))"

definition staged_download :: "string \<Rightarrow> (string \<rightharpoonup> string) \<Rightarrow> FileTransfer \<Rightarrow> bool" where
  "staged_download remotePath disk tr \<longleftrightarrow>
     ft_Path tr = remotePath \<and> ft_Status tr = ''done'' \<and> ft_Direction tr = ''download'' \<and>
     disk (ft_tmpPath tr) \<noteq> None"

definition PrepareDownloadForDrag :: "string \<Rightarrow> FileState \<Rightarrow> string + string" where
  "PrepareDownloadForDrag remotePath st =
     (if SanitizeFilePath remotePath = None \<or> remotePath = [] then Inl ''invalid path''
      else case find (\<lambda>(_, tr). staged_download remotePath (fs_disk st) tr) (fs_transfers st) of
             Some (_, tr) \<Rightarrow> Inr (ft_tmpPath tr)
           | None \<Rightarrow> Inl ''file not staged'')"

section \<open>Drops\<close>

definition BeginUploadBatch ::
  "int \<Rightarrow> int \<Rightarrow> int \<Rightarrow> string option \<Rightarrow> FileState \<Rightarrow> (string + string) \<times> FileState" where
  "BeginUploadBatch now totalFiles totalBytes random16 st =
     (if totalFiles < 0 \<or> 10000 < totalFiles then (Inl ''invalid file count'', st)
      else if totalBytes < 0 \<or> 2 ^ 50 < totalBytes then (Inl ''invalid byte count'', st)
      else case freshTransferID random16 of
        None \<Rightarrow> (Inl ''generate transfer id failed'', st)
      | Some bid \<Rightarrow>
          (Inr bid,
           st\<lparr>fs_batches := AList.update bid
               \<lparr>ba_ID = bid, ba_TotalFiles = (if totalFiles = 0 then 1 else totalFiles),
                ba_TotalBytes = totalBytes, ba_Status = ''running'', ba_CreatedAt = now,
                ba_completedAt = None\<rparr> (fs_batches st)\<rparr>))"

definition AttachTransferToBatch ::
  "string \<Rightarrow> string \<Rightarrow> FileState \<Rightarrow> (string + string) \<times> FileState" where
  "AttachTransferToBatch tid batchID st =
     (case transfer st tid of
        None \<Rightarrow> (Inl ''unknown transfer'', st)
      | Some tr \<Rightarrow>
          (case map_of (fs_batches st) batchID of
             None \<Rightarrow> (Inl ''unknown upload batch'', st)
           | Some b \<Rightarrow>
               if ba_Status b \<noteq> ''running'' then (Inl ''upload batch not running'', st)
               else (Inr ''Attached.'', put_transfer tid (tr\<lparr>ft_BatchID := batchID\<rparr>) st)))"

text \<open>The running members of a drop, in the order the table is ranged over.\<close>

definition members_running :: "string \<Rightarrow> FileState \<Rightarrow> (string \<times> FileTransfer) list" where
  "members_running batchID st = filter (\<lambda>(_, tr). runs_in batchID tr) (fs_transfers st)"

definition CancelUploadBatch ::
  "int \<Rightarrow> string \<Rightarrow> FileState \<Rightarrow> (string + FileCancelPayload list) \<times> FileState" where
  "CancelUploadBatch now batchID st =
     (case map_of (fs_batches st) batchID of
        None \<Rightarrow> (Inl ''unknown upload batch'', st)
      | Some b \<Rightarrow>
          if ba_Status b \<noteq> ''running'' then (Inl ''upload batch not running'', st)
          else
            let b = b\<lparr>ba_Status := ''cancelled'', ba_completedAt := Some now\<rparr>;
                members = members_running batchID st;
                st = st\<lparr>fs_batches := AList.update batchID b (fs_batches st)\<rparr>
            in (Inr (map (\<lambda>(tid, tr). cancel_payload tid (ft_Path tr)) members),
                fold (\<lambda>(tid, tr). stop_transfer now tid tr) members st))"

section \<open>Confirmations, cancellations and offsets from the phone\<close>

definition ParseFileAck :: "string \<Rightarrow> FileAckPayload option" where
  "ParseFileAck body =
     only_if SanitizeFileAck (parse_typed FileAckPayload_fields zero_FileAckPayload TypeFileAck body)"

definition ParseFileCancel :: "string \<Rightarrow> FileCancelPayload option" where
  "ParseFileCancel body =
     only_if SanitizeFileCancel
       (parse_typed FileCancelPayload_fields zero_FileCancelPayload TypeFileCancel body)"

definition ParseFileStatResp :: "string \<Rightarrow> FileStatRespPayload option" where
  "ParseFileStatResp body =
     only_if SanitizeFileStatResp
       (parse_typed FileStatRespPayload_fields zero_FileStatRespPayload TypeFileStatResp body)"

definition ParseFileListResp :: "string \<Rightarrow> FileListRespPayload option" where
  "ParseFileListResp body =
     only_if SanitizeFileListResp
       (parse_typed FileListRespPayload_fields zero_FileListRespPayload TypeFileListResp body)"

definition ackReason :: "FileAckPayload \<Rightarrow> string" where
  "ackReason p = (if fa_Error p \<noteq> [] then fa_Error p else ''phone rejected file'')"

definition ackError :: "FileAckPayload \<Rightarrow> string option" where
  "ackError p = (if fa_OK p then None else Some (ackReason p))"

definition ingestFileAck :: "int \<Rightarrow> FileAckPayload \<Rightarrow> FileState \<Rightarrow> FileState" where
  "ingestFileAck now p st =
     (let tid = fa_TransferID p; st = notify tid (ackError p) st
      in case transfer st tid of
           None \<Rightarrow> st
         | Some tr \<Rightarrow>
             if ft_Status tr \<noteq> ''running'' then st
             else if fa_OK p then
               put_transfer tid
                 (tr\<lparr>ft_Status := ''done'', ft_DoneSize := ft_TotalSize tr, ft_completedAt := Some now\<rparr>) st
             else
               put_transfer tid
                 (tr\<lparr>ft_Status := ''error'', ft_Error := ackReason p, ft_completedAt := Some now\<rparr>) st)"

definition ingestFileCancel :: "int \<Rightarrow> FileCancelPayload \<Rightarrow> FileState \<Rightarrow> FileState" where
  "ingestFileCancel now p st =
     (let tid = fx_TransferID p;
          st = (case transfer st tid of
                  None \<Rightarrow> st
                | Some tr \<Rightarrow>
                    if ft_Status tr \<noteq> ''running'' then st
                    else
                      let tr = tr\<lparr>ft_Status := ''cancelled'', ft_completedAt := Some now, ft_file := False\<rparr>
                      in (put_transfer tid tr st)\<lparr>fs_disk := removePartFile tr tid (fs_disk st)\<rparr>)
      in notify tid (Some ''transfer cancelled'') st)"

definition ingestFileStatResp :: "FileStatRespPayload \<Rightarrow> FileState \<Rightarrow> FileState" where
  "ingestFileStatResp p st =
     st\<lparr>fs_statWaiters := deliver (fsr_TransferID p)
          \<lparr>sr_NextChunk = fsr_NextChunk p, sr_TotalChunks = fsr_TotalChunks p, sr_StatErr = fsr_Error p\<rparr>
          (fs_statWaiters st)\<rparr>"

definition entry_view :: "FileEntry \<Rightarrow> FileEntryView" where
  "entry_view e =
     \<lparr>fv_Name = fe_Name e, fv_Path = fe_Path e, fv_IsDir = fe_IsDir e, fv_Size = fe_Size e,
      fv_ModTime = fe_ModTime e, fv_Mime = fe_Mime e\<rparr>"

definition ingestFileListResp :: "FileListRespPayload \<Rightarrow> FileState \<Rightarrow> FileState" where
  "ingestFileListResp p st =
     (let res = \<lparr>lv_Path = [], lv_Entries = map entry_view (flr_Entries p), lv_Error = flr_Error p,
                 lv_ErrorCode = flr_ErrorCode p, lv_Permission = flr_Permission p\<rparr>
      in if fs_lists st (flr_ReqID p) \<noteq> None
         then st\<lparr>fs_lists := deliver (flr_ReqID p) res (fs_lists st)\<rparr>
         else st\<lparr>fs_lastList := res\<rparr>)"

definition ingest_if :: "('p \<Rightarrow> FileState \<Rightarrow> FileState) \<Rightarrow> 'p option \<Rightarrow> FileState \<Rightarrow> FileState" where
  "ingest_if f p st = (case p of None \<Rightarrow> st | Some p \<Rightarrow> f p st)"

text \<open>
  What an accepted body of the files lane does to the tables. The chunk handler validates the
  payload itself; requests of the phone for a list, a file or an offset are not served.
\<close>

definition ingestFileBody ::
  "string \<Rightarrow> int \<Rightarrow> io_fault \<Rightarrow> string \<Rightarrow> string \<Rightarrow> FileState \<Rightarrow> FileState" where
  "ingestFileBody staging now fault t body st =
     (if t = TypeFileListResp then ingest_if ingestFileListResp (ParseFileListResp body) st
      else if t = TypeFileChunk then
        ingest_if (ingestFileChunk staging now fault)
          (parse_typed FileChunkPayload_fields zero_FileChunkPayload TypeFileChunk body) st
      else if t = TypeFileAck then ingest_if (ingestFileAck now) (ParseFileAck body) st
      else if t = TypeFileCancel then ingest_if (ingestFileCancel now) (ParseFileCancel body) st
      else if t = TypeFileStatResp then ingest_if ingestFileStatResp (ParseFileStatResp body) st
      else st)"

section \<open>Snapshots for the user interface\<close>

definition minute :: int where "minute = 60 * second"

definition browserUploadIdleTimeout :: int where "browserUploadIdleTimeout = 30 * minute"

definition uploadResumeWindow :: int where "uploadResumeWindow = 30 * minute"

definition uploadBatchWindow :: int where "uploadBatchWindow = 60 * second"

definition stall_transfer :: "int \<Rightarrow> string \<Rightarrow> FileState \<Rightarrow> FileState" where
  "stall_transfer now tid st =
     (case transfer st tid of
        None \<Rightarrow> st
      | Some tr \<Rightarrow>
          if ft_Status tr = ''running'' then
            put_transfer tid
              (tr\<lparr>ft_Status := ''error'', ft_Error := ''upload stalled'', ft_Resumable := False,
                  ft_completedAt := Some now\<rparr>) st
          else st)"

definition idle_session :: "int \<Rightarrow> BrowserUploadSession \<Rightarrow> bool" where
  "idle_session now sess \<longleftrightarrow> browserUploadIdleTimeout < now - bu_UpdatedAt sess"

definition sweepBrowserUploads :: "int \<Rightarrow> FileState \<Rightarrow> FileCancelPayload list \<times> FileState" where
  "sweepBrowserUploads now st =
     (let stale = filter (\<lambda>(_, sess). idle_session now sess) (fs_browserUploads st);
          kept = filter (\<lambda>(_, sess). \<not> idle_session now sess) (fs_browserUploads st)
      in (map (\<lambda>(tid, sess). cancel_payload tid (bu_RemotePath sess))
            (filter (\<lambda>(_, sess). bu_RemotePath sess \<noteq> []) stale),
          fold (\<lambda>(tid, _). stall_transfer now tid) stale (st\<lparr>fs_browserUploads := kept\<rparr>)))"

definition set_resumable :: "bool \<Rightarrow> string \<Rightarrow> FileState \<Rightarrow> FileState" where
  "set_resumable r tid st =
     (case transfer st tid of None \<Rightarrow> st | Some tr \<Rightarrow> put_transfer tid (tr\<lparr>ft_Resumable := r\<rparr>) st)"

definition expired_session :: "int \<Rightarrow> NativeUploadSession \<Rightarrow> bool" where
  "expired_session now sess \<longleftrightarrow> uploadResumeWindow < now - us_CreatedAt sess"

definition sweepUploadSessions :: "int \<Rightarrow> FileState \<Rightarrow> FileCancelPayload list \<times> FileState" where
  "sweepUploadSessions now st =
     (let stale = filter (\<lambda>(_, sess). expired_session now sess) (fs_uploadSessions st);
          kept = filter (\<lambda>(_, sess). \<not> expired_session now sess) (fs_uploadSessions st)
      in (map (\<lambda>(tid, sess). cancel_payload tid (us_RemotePath sess))
            (filter (\<lambda>(_, sess). us_RemotePath sess \<noteq> []) stale),
          fold (\<lambda>(tid, _). set_resumable False tid) stale (st\<lparr>fs_uploadSessions := kept\<rparr>)))"

text \<open>Finished transfers stay for five seconds, those of a drop as long as the drop.\<close>

definition prunable :: "int \<Rightarrow> FileState \<Rightarrow> FileTransfer \<Rightarrow> bool" where
  "prunable now st tr \<longleftrightarrow>
     ft_Status tr \<noteq> ''running'' \<and>
     (case ft_completedAt tr of None \<Rightarrow> False | Some t \<Rightarrow> 5 * second < now - t) \<and>
     \<not> (ft_BatchID tr \<noteq> [] \<and> map_of (fs_batches st) (ft_BatchID tr) \<noteq> None)"

definition drop_transfers :: "(FileTransfer \<Rightarrow> bool) \<Rightarrow> FileState \<Rightarrow> FileState" where
  "drop_transfers gone st =
     st\<lparr>fs_transfers := filter (\<lambda>(_, tr). \<not> gone tr) (fs_transfers st),
       fs_disk := fold (\<lambda>(tid, tr). removePartFile tr tid)
         (filter (\<lambda>(_, tr). gone tr) (fs_transfers st)) (fs_disk st)\<rparr>"

record FileTransferView =
  tv_ID :: string
  tv_Path :: string
  tv_Direction :: string
  tv_Status :: string
  tv_Progress :: int
  tv_TotalSize :: int
  tv_DoneSize :: int
  tv_Error :: string
  tv_Source :: string
  tv_Resumable :: bool
  tv_BatchID :: string

definition transfer_view :: "FileTransfer \<Rightarrow> FileTransferView" where
  "transfer_view tr =
     \<lparr>tv_ID = ft_ID tr, tv_Path = ft_Path tr, tv_Direction = ft_Direction tr, tv_Status = ft_Status tr,
      tv_Progress = (if 0 < ft_TotalSize tr then go_div (wrap64 (ft_DoneSize tr * 100)) (ft_TotalSize tr)
                     else if ft_Status tr = ''done'' then 100 else 0),
      tv_TotalSize = ft_TotalSize tr, tv_DoneSize = ft_DoneSize tr, tv_Error = ft_Error tr,
      tv_Source = ft_Source tr, tv_Resumable = ft_Resumable tr, tv_BatchID = ft_BatchID tr\<rparr>"

definition GetTransfers ::
  "int \<Rightarrow> FileState \<Rightarrow> (FileTransferView list \<times> FileCancelPayload list) \<times> FileState" where
  "GetTransfers now st =
     (let (cancels, st) = sweepBrowserUploads now st;
          (cancels', st) = sweepUploadSessions now st;
          st = drop_transfers (prunable now st) st
      in ((map (transfer_view \<circ> snd) (fs_transfers st), cancels @ cancels'), st))"

definition prune_batch :: "int \<Rightarrow> string \<times> TransferBatch \<Rightarrow> FileState \<Rightarrow> FileState" where
  "prune_batch now = (\<lambda>(bid, b) st.
     if batch_running bid st then st
     else case ba_completedAt b of
       Some t \<Rightarrow>
         if uploadBatchWindow < now - t then
           drop_transfers (\<lambda>tr. ft_BatchID tr = bid)
             (st\<lparr>fs_batches := AList.delete bid (fs_batches st)\<rparr>)
         else st
     | None \<Rightarrow>
         if ba_Status b = ''running'' then
           st\<lparr>fs_batches := AList.update bid (b\<lparr>ba_completedAt := Some now\<rparr>) (fs_batches st)\<rparr>
         else st)"

record TransferBatchView =
  bv_ID :: string
  bv_TotalFiles :: int
  bv_DoneFiles :: int
  bv_TotalBytes :: int
  bv_DoneBytes :: int
  bv_CurrentPath :: string
  bv_Status :: string
  bv_Progress :: int

definition after :: "int \<Rightarrow> int option \<Rightarrow> bool" where
  "after t cur = (case cur of None \<Rightarrow> True | Some c \<Rightarrow> c < t)"

text \<open>The member that finished last, or failing that one that runs.\<close>

fun latest_path :: "FileTransfer list \<Rightarrow> int option \<Rightarrow> string \<Rightarrow> string" where
  "latest_path [] at path = path"
| "latest_path (tr # trs) at path =
     (case ft_completedAt tr of
        Some t \<Rightarrow>
          if after t at then latest_path trs (Some t) (ft_Path tr)
          else latest_path trs at (if ft_Status tr = ''running'' \<and> path = [] then ft_Path tr else path)
      | None \<Rightarrow>
          latest_path trs at (if ft_Status tr = ''running'' \<and> path = [] then ft_Path tr else path))"

definition current_path :: "FileTransfer list \<Rightarrow> string" where
  "current_path trs =
     (case find (\<lambda>tr. ft_Status tr = ''running'') trs of
        Some tr \<Rightarrow> ft_Path tr
      | None \<Rightarrow> latest_path trs None [])"

definition has_status :: "string \<Rightarrow> FileTransfer list \<Rightarrow> bool" where
  "has_status status trs = list_ex (\<lambda>tr. ft_Status tr = status) trs"

definition batch_status :: "string \<Rightarrow> FileTransfer list \<Rightarrow> string" where
  "batch_status stored trs =
     (if has_status ''running'' trs then ''running''
      else if has_status ''cancelled'' trs \<and> \<not> has_status ''error'' trs then ''cancelled''
      else if has_status ''error'' trs then ''error''
      else if trs \<noteq> [] \<and> list_all (\<lambda>tr. ft_Status tr = ''done'') trs then ''done''
      else stored)"

definition batch_view :: "FileState \<Rightarrow> TransferBatch \<Rightarrow> TransferBatchView" where
  "batch_view st b =
     (let trs = map snd (filter (\<lambda>(_, tr). ft_BatchID tr = ba_ID b) (fs_transfers st));
          doneBytes = fold (\<lambda>tr n. wrap64 (n + ft_DoneSize tr)) trs 0;
          status = batch_status (ba_Status b) trs;
          prog = (if 0 < ba_TotalBytes b
                  then max 0 (min 100 (go_div (wrap64 (doneBytes * 100)) (ba_TotalBytes b)))
                  else if status = ''done'' then 100 else 0)
      in \<lparr>bv_ID = ba_ID b, bv_TotalFiles = ba_TotalFiles b,
          bv_DoneFiles = int (length (filter (\<lambda>tr. ft_Status tr = ''done'') trs)),
          bv_TotalBytes = ba_TotalBytes b, bv_DoneBytes = doneBytes, bv_CurrentPath = current_path trs,
          bv_Status = status, bv_Progress = prog\<rparr>)"

definition GetTransferBatches :: "int \<Rightarrow> FileState \<Rightarrow> TransferBatchView list \<times> FileState" where
  "GetTransferBatches now st =
     (let st = fold (prune_batch now) (fs_batches st) st
      in (map (batch_view st \<circ> snd) (fs_batches st), st))"

end
