(* ===== verification/File_Upload.thy ===== *)
theory File_Upload
  imports File_Manager
begin

text \<open>
  Sending files to the phone (\<open>files.go\<close>, \<open>files_parallel.go\<close>, \<open>files_resume.go\<close>,
  \<open>files_conflict.go\<close> of \<open>apps/mac/backend\<close>). A sender is a loop over the chunks of one file;
  what happens between two of its critical sections (an acknowledgement, a cancellation, a
  snapshot) is another operation, so the loop is cut there: \<open>send_begin\<close> registers the transfer,
  \<open>send_chunk\<close> is one round of the loop, \<open>send_finish\<close> the wait for the confirmation and the end.
  The contents of the local file, whether the phone takes part in confirmations and the outcome
  of each attempt to send are arguments.
\<close>

section \<open>One attempt after the other\<close>

text \<open>
  Three attempts at most: each is given by the error of the send, if any, and whether the phone
  was still paired after it. The text of the last error is the error.
\<close>

fun send_attempts :: "nat \<Rightarrow> (string option \<times> bool) list \<Rightarrow> string option \<Rightarrow> string option" where
  "send_attempts n [] err = (case err of None \<Rightarrow> Some ''send chunk failed'' | Some e \<Rightarrow> Some e)"
| "send_attempts 0 outcomes err = (case err of None \<Rightarrow> Some ''send chunk failed'' | Some e \<Rightarrow> Some e)"
| "send_attempts (Suc n) ((res, paired) # outcomes) err =
     (case res of
        None \<Rightarrow> None
      | Some e \<Rightarrow> if \<not> paired then Some e else send_attempts n outcomes (Some e))"

definition sendFileChunkWithRetry :: "(string option \<times> bool) list \<Rightarrow> string option" where
  "sendFileChunkWithRetry outcomes = send_attempts 3 outcomes None"

section \<open>Native uploads\<close>

definition largeChunkBuild :: int where "largeChunkBuild = 11"

definition peerSupportsLargeChunks :: "Session \<Rightarrow> bool" where
  "peerSupportsLargeChunks s =
     (if 0 < se_peerBuild s \<and> se_peerBuild s < largeChunkBuild then False
      else if se_peerBuild s = 0 then False
      else IsCapabilitySupported (se_peerCapabilities s) CapabilityFilesLargeChunk)"

definition negotiatedChunkSize :: "Session \<Rightarrow> int" where
  "negotiatedChunkSize s = FileChunkSizeForPeer (peerSupportsLargeChunks s)"

definition peerSupportsFileAck :: "Session \<Rightarrow> bool" where
  "peerSupportsFileAck s = IsCapabilitySupported (se_peerCapabilities s) CapabilityFilesAck"

text \<open>What a sender works from: the local file and where it goes.\<close>

record upload =
  up_local :: string
  up_remote :: string
  up_policy :: string
  up_mtime :: int
  up_content :: string
  up_stride :: int
  up_batch :: string

definition up_size :: "upload \<Rightarrow> int" where
  "up_size u = int (length (up_content u))"

definition up_chunks :: "upload \<Rightarrow> int" where
  "up_chunks u = TotalChunksForSize (up_size u) (up_stride u)"

text \<open>The checks of \<open>uploadOneFileWithPolicyInBatch\<close>: the phone's path of a local file.\<close>

definition remote_target :: "string \<Rightarrow> string \<Rightarrow> string option" where
  "remote_target clean remoteDir =
     (let name = (if SanitizeFileName (path_base clean) = None then ''file'' else path_base clean);
          remotePath = (if remoteDir = [] then name else remoteDir @ slash # name)
      in if SanitizeFilePath remotePath = None then None else Some remotePath)"

definition send_begin :: "string \<Rightarrow> upload \<Rightarrow> FileState \<Rightarrow> FileState" where
  "send_begin tid u st =
     put_transfer tid
       (zero_FileTransfer\<lparr>ft_ID := tid, ft_Path := up_remote u, ft_Direction := ''upload'',
          ft_TotalSize := up_size u, ft_Status := ''running'', ft_Source := ''local'',
          ft_BatchID := up_batch u\<rparr>) st"

definition saveNativeSession :: "int \<Rightarrow> string \<Rightarrow> upload \<Rightarrow> FileState \<Rightarrow> FileState" where
  "saveNativeSession now tid u st =
     set_resumable True tid
       (st\<lparr>fs_uploadSessions := AList.update tid
            \<lparr>us_TransferID = tid, us_LocalPath = up_local u, us_RemotePath = up_remote u,
             us_TotalSize = up_size u, us_TotalChunks = up_chunks u,
             us_ChunkSize = (if up_stride u \<le> 0 then LegacyFileChunkRaw else up_stride u),
             us_Policy = normalizeWirePolicy (up_policy u), us_SourceMtime = up_mtime u,
             us_CreatedAt = now\<rparr> (fs_uploadSessions st)\<rparr>)"

definition set_done_size :: "string \<Rightarrow> int \<Rightarrow> FileState \<Rightarrow> FileState" where
  "set_done_size tid n st =
     (case transfer st tid of None \<Rightarrow> st | Some tr \<Rightarrow> put_transfer tid (tr\<lparr>ft_DoneSize := n\<rparr>) st)"

text \<open>The end of a sender, whatever way it ends: the deferred function.\<close>

definition send_deferred :: "int \<Rightarrow> string \<Rightarrow> upload \<Rightarrow> FileState \<Rightarrow> FileState" where
  "send_deferred now tid u st =
     refreshBatchCompletion now (up_batch u) (finish_upload now tid (up_size u) st)"

definition send_failed :: "int \<Rightarrow> string \<Rightarrow> upload \<Rightarrow> string \<Rightarrow> FileState \<Rightarrow> FileState" where
  "send_failed now tid u err st =
     refreshBatchCompletion now (up_batch u) (saveNativeSession now tid u (failTransfer now tid err st))"

text \<open>
  One chunk on its way: before the last one a waiter is registered when the phone confirms
  uploads; the chunk that went out is returned, or the error of the last attempt.
\<close>

definition put_chunk ::
  "bool \<Rightarrow> string \<Rightarrow> string \<Rightarrow> upload \<Rightarrow> int \<Rightarrow> (string option \<times> bool) list \<Rightarrow> FileState \<Rightarrow>
   (string + FileChunkPayload) \<times> FileState" where
  "put_chunk wantsAck nonce tid u idx outcomes st =
     (let p = upload_chunk nonce tid (up_remote u) (up_policy u) (up_mtime u) (up_content u)
                (up_stride u) idx;
          st = (if idx = up_chunks u - 1 \<and> wantsAck
                then st\<lparr>fs_waiters := register_waiter tid (fs_waiters st)\<rparr> else st)
      in case sendFileChunkWithRetry outcomes of
           Some e \<Rightarrow> (Inl e, st)
         | None \<Rightarrow>
             (Inr p, set_done_size tid (fc_Offset p + min (up_stride u) (up_size u - fc_Offset p)) st))"

text \<open>
  One round of the loop of \<open>streamLocalFileInBatch\<close>: the chunk that was sent, or how the sender
  ended.
\<close>

definition send_chunk ::
  "int \<Rightarrow> bool \<Rightarrow> string \<Rightarrow> string \<Rightarrow> upload \<Rightarrow> int \<Rightarrow> bool \<Rightarrow> (string option \<times> bool) list \<Rightarrow> FileState \<Rightarrow>
   (string + FileChunkPayload) \<times> FileState" where
  "send_chunk now wantsAck nonce tid u idx readFails outcomes st =
     (if isTransferCancelled tid st then (Inl ''transfer cancelled'', send_deferred now tid u st)
      else if up_size u \<noteq> 0 \<and> readFails then
        (Inl ''read chunk failed'', send_deferred now tid u (failTransfer now tid ''read failed'' st))
      else case put_chunk wantsAck nonce tid u idx outcomes st of
        (Inl e, st) \<Rightarrow> (Inl (''send chunk: '' @ e), send_deferred now tid u (send_failed now tid u e st))
      | (Inr p, st) \<Rightarrow> (Inr p, st))"

text \<open>
  After the last chunk: the answer of the waiter, which is gone afterwards; no answer within
  five minutes is an error.
\<close>

definition wait_ack :: "string \<Rightarrow> FileState \<Rightarrow> string option \<times> FileState" where
  "wait_ack tid st =
     (case answer_of tid (fs_waiters st) of
        Some err \<Rightarrow> (err, drop_waiter tid st)
      | None \<Rightarrow> (Some ''phone did not confirm delivery'', drop_waiter tid st))"

definition send_finish :: "int \<Rightarrow> bool \<Rightarrow> string \<Rightarrow> upload \<Rightarrow> FileState \<Rightarrow> string option \<times> FileState" where
  "send_finish now wantsAck tid u st =
     (if \<not> wantsAck then (None, send_deferred now tid u st)
      else case wait_ack tid st of
        (None, st) \<Rightarrow> (None, send_deferred now tid u st)
      | (Some e, st) \<Rightarrow>
          (Some (''delivery not confirmed: '' @ e), send_deferred now tid u (send_failed now tid u e st)))"

text \<open>
  The parallel senders of a drop: \<open>sendUploadChunks\<close> without a deferred end, and
  \<open>completeUploadSend\<close>, which keeps the retry state only when the local file is still there.
\<close>

definition pipe_chunk ::
  "int \<Rightarrow> bool \<Rightarrow> string \<Rightarrow> string \<Rightarrow> upload \<Rightarrow> int \<Rightarrow> bool \<Rightarrow> (string option \<times> bool) list \<Rightarrow> FileState \<Rightarrow>
   (string + FileChunkPayload) \<times> FileState" where
  "pipe_chunk now wantsAck nonce tid u idx readFails outcomes st =
     (if isTransferCancelled tid st then
        (Inl ''transfer cancelled'', failTransfer now tid ''transfer cancelled'' st)
      else if up_size u \<noteq> 0 \<and> readFails then
        (Inl ''read chunk failed'', failTransfer now tid ''read failed'' st)
      else case put_chunk wantsAck nonce tid u idx outcomes st of
        (Inl e, st) \<Rightarrow> (Inl (''send chunk: '' @ e), send_failed now tid u e st)
      | (Inr p, st) \<Rightarrow> (Inr p, st))"

definition completeUploadSend ::
  "int \<Rightarrow> bool \<Rightarrow> bool \<Rightarrow> string \<Rightarrow> upload \<Rightarrow> FileState \<Rightarrow> string option \<times> FileState" where
  "completeUploadSend now wantsAck fileThere tid u st =
     (case (if wantsAck then wait_ack tid st else (None, st)) of
        (None, st) \<Rightarrow> (None, send_deferred now tid u st)
      | (Some e, st) \<Rightarrow>
          (Some (''delivery not confirmed: '' @ e),
           if fileThere then send_failed now tid u e st
           else refreshBatchCompletion now (up_batch u) (failTransfer now tid e st)))"

text \<open>
  What the user interface decided for a file, and the checks before it is sent: a local path
  that exists and is a file of at most 8 GiB, and a path of the sandbox. \<open>stat\<close> gives whether a
  path is a directory, its size and its time.
\<close>

record DecidedUpload =
  de_LocalPath :: string
  de_RemotePath :: string
  de_Policy :: string

record upload_task =
  ta_localPath :: string
  ta_remotePath :: string
  ta_policy :: string
  ta_size :: int
  ta_mtime :: int

definition check_decided ::
  "(string \<Rightarrow> (bool \<times> int \<times> int) option) \<Rightarrow> DecidedUpload \<Rightarrow> string + upload_task" where
  "check_decided stat d =
     (let clean = path_clean (de_LocalPath d)
      in if trim_space (de_LocalPath d) = [] \<or> clean = [] \<or> clean = ''.'' then
           Inl (''invalid local path: empty drop '' @ em_dash @ '' re-select the file in Finder'')
         else case SanitizeFilePath (de_RemotePath d) of
           None \<Rightarrow>
             Inl (''invalid remote path: empty destination '' @ em_dash @ '' pick a phone folder'')
         | Some remotePath \<Rightarrow>
             if remotePath = [] then
               Inl (''invalid remote path: empty destination '' @ em_dash @ '' pick a phone folder'')
             else case stat clean of
               None \<Rightarrow> Inl ''stat local file failed''
             | Some (isDir, len, mtime) \<Rightarrow>
                 if isDir then Inl (''is directory: '' @ path_base clean @ '' (use folder upload)'')
                 else if MaxFileTotalSize < len then
                   Inl (''file too large (max 8 GiB): '' @ path_base clean)
                 else Inr \<lparr>ta_localPath = clean, ta_remotePath = remotePath,
                           ta_policy = normalizeWirePolicy (de_Policy d), ta_size = len, ta_mtime = mtime\<rparr>)"

fun check_all_decided ::
  "(string \<Rightarrow> (bool \<times> int \<times> int) option) \<Rightarrow> DecidedUpload list \<Rightarrow> string + upload_task list" where
  "check_all_decided stat [] = Inr []"
| "check_all_decided stat (d # ds) =
     (case check_decided stat d of
        Inl e \<Rightarrow> Inl e
      | Inr t \<Rightarrow> (case check_all_decided stat ds of Inl e \<Rightarrow> Inl e | Inr ts \<Rightarrow> Inr (t # ts)))"

text \<open>The drop's id, the tasks and the state in which they start, or why nothing is sent.\<close>

definition UploadDecidedFiles ::
  "int \<Rightarrow> (string \<Rightarrow> (bool \<times> int \<times> int) option) \<Rightarrow> bool \<Rightarrow> string option \<Rightarrow> DecidedUpload list \<Rightarrow>
   string \<Rightarrow> FileState \<Rightarrow> (string + string \<times> upload_task list) \<times> FileState" where
  "UploadDecidedFiles now stat paired random16 decided batchID st =
     (if decided = [] then (Inl ''no files to upload'', st)
      else if 10000 < length decided then (Inl ''too many files in one batch'', st)
      else if \<not> paired then (Inl offline_hint, st)
      else if batchID \<noteq> [] \<and> map_of (fs_batches st) batchID = None then (Inl ''unknown upload batch'', st)
      else
        let (batchID, st) =
              (if batchID \<noteq> [] then (batchID, st)
               else case BeginUploadBatch now (int (length decided)) 0 random16 st of
                      (Inr bid, st) \<Rightarrow> (bid, st)
                    | (Inl _, st) \<Rightarrow> ([], st))
        in if isBatchCancelled batchID st then (Inl ''transfer cancelled'', st)
           else (case check_all_decided stat decided of Inl e \<Rightarrow> Inl e | Inr ts \<Rightarrow> Inr (batchID, ts), st))"

section \<open>Retrying an upload\<close>

definition queryUploadStat_begin :: "string \<Rightarrow> FileState \<Rightarrow> FileStatReqPayload \<times> FileState" where
  "queryUploadStat_begin tid st =
     (zero_FileStatReqPayload\<lparr>fsq_TransferID := tid\<rparr>,
      st\<lparr>fs_statWaiters := register_waiter tid (fs_statWaiters st)\<rparr>)"

definition queryUploadStat_end :: "string \<Rightarrow> bool \<Rightarrow> FileState \<Rightarrow> int \<times> FileState" where
  "queryUploadStat_end tid sent st =
     (if \<not> sent then 0
      else case answer_of tid (fs_statWaiters st) of
             Some r \<Rightarrow> if sr_StatErr r \<noteq> [] \<or> sr_NextChunk r < 0 then 0 else sr_NextChunk r
           | None \<Rightarrow> 0,
      st\<lparr>fs_statWaiters := (fs_statWaiters st)(tid := None)\<rparr>)"

definition dropNativeSession :: "string \<Rightarrow> FileState \<Rightarrow> FileState" where
  "dropNativeSession tid st =
     set_resumable False tid (st\<lparr>fs_uploadSessions := AList.delete tid (fs_uploadSessions st)\<rparr>)"

text \<open>The checks before the offset is asked for; \<open>stat\<close> is whether a directory, and the size.\<close>

definition ResumeUpload_begin ::
  "string \<Rightarrow> (string \<Rightarrow> (bool \<times> int) option) \<Rightarrow> bool \<Rightarrow> FileState \<Rightarrow>
   (string + NativeUploadSession) \<times> FileState" where
  "ResumeUpload_begin tid stat paired st =
     (case map_of (fs_uploadSessions st) tid of
        None \<Rightarrow> (Inl (''upload no longer retryable '' @ em_dash @ '' send it again''), st)
      | Some sess \<Rightarrow>
          (case stat (us_LocalPath sess) of
             None \<Rightarrow> (Inl ''stat local file failed'', st)
           | Some (isDir, len) \<Rightarrow>
               if isDir \<or> len \<noteq> us_TotalSize sess then
                 (Inl (''file changed since upload started '' @ em_dash @ '' send it again''),
                  dropNativeSession tid st)
               else if \<not> paired then (Inl offline_hint, st)
               else (Inr sess, st)))"

text \<open>
  The start of \<open>resumeNativeChunks\<close> from the answer of the phone: nothing is left to send, or the
  confirmed chunks are read again for the hash and the transfer runs again.
\<close>

definition resume_row :: "NativeUploadSession \<Rightarrow> int \<Rightarrow> FileTransfer option \<Rightarrow> FileTransfer" where
  "resume_row sess sent tr =
     (case tr of
        Some tr \<Rightarrow> tr\<lparr>ft_Status := ''running'', ft_Error := [], ft_DoneSize := sent\<rparr>
      | None \<Rightarrow>
          zero_FileTransfer\<lparr>ft_ID := us_TransferID sess, ft_Path := us_RemotePath sess,
            ft_Direction := ''upload'', ft_TotalSize := us_TotalSize sess, ft_DoneSize := sent,
            ft_Status := ''running'', ft_Source := ''local'', ft_Resumable := True\<rparr>)"

definition resume_stride :: "NativeUploadSession \<Rightarrow> int" where
  "resume_stride sess = (if us_ChunkSize sess \<le> 0 then LegacyFileChunkRaw else us_ChunkSize sess)"

definition resume_start ::
  "NativeUploadSession \<Rightarrow> string option \<Rightarrow> int \<Rightarrow> FileState \<Rightarrow> (string + string option) \<times> FileState" where
  "resume_start sess content next st =
     (if us_TotalChunks sess \<le> next then
        (Inr (Some ''Already on the phone.''), dropNativeSession (us_TransferID sess) st)
      else case content of
        None \<Rightarrow> (Inl ''open local file failed'', st)
      | Some c \<Rightarrow>
          if int (length c) < next * resume_stride sess then (Inl ''re-read chunk failed'', st)
          else
            (Inr None,
             put_transfer (us_TransferID sess)
               (resume_row sess (wrap64 (next * resume_stride sess)) (transfer st (us_TransferID sess))) st))"

definition resume_payload :: "string \<Rightarrow> NativeUploadSession \<Rightarrow> string \<Rightarrow> int \<Rightarrow> FileChunkPayload" where
  "resume_payload nonce sess content idx =
     (let offset = wrap64 (idx * resume_stride sess);
          raw = (if us_TotalSize sess = 0 then []
                 else take (nat (resume_stride sess)) (drop (nat offset) content));
          hashed = take (nat offset + length raw) content
      in \<lparr>fc_Nonce = nonce, fc_TransferID = us_TransferID sess, fc_Path = us_RemotePath sess,
          fc_Offset = offset, fc_TotalSize = us_TotalSize sess, fc_ChunkIndex = idx,
          fc_TotalChunks = us_TotalChunks sess,
          fc_DataB64 = (if raw \<noteq> [] then b64_std_encode raw else []),
          fc_Sha256 = (if idx = us_TotalChunks sess - 1 then hex_encode (sha256 hashed) else []),
          fc_Policy = us_Policy sess, fc_SourceMtime = us_SourceMtime sess\<rparr>)"

definition resume_chunk ::
  "int \<Rightarrow> bool \<Rightarrow> string \<Rightarrow> NativeUploadSession \<Rightarrow> string \<Rightarrow> int \<Rightarrow> bool \<Rightarrow> (string option \<times> bool) list \<Rightarrow>
   FileState \<Rightarrow> (string + FileChunkPayload) \<times> FileState" where
  "resume_chunk now wantsAck nonce sess content idx readFails outcomes st =
     (let tid = us_TransferID sess; p = resume_payload nonce sess content idx
      in if isTransferCancelled tid st then (Inl ''transfer cancelled'', st)
         else if us_TotalSize sess \<noteq> 0 \<and> readFails then
           (Inl ''read chunk failed'', failTransfer now tid ''read failed'' st)
         else
           let st = (if idx = us_TotalChunks sess - 1 \<and> wantsAck
                     then st\<lparr>fs_waiters := register_waiter tid (fs_waiters st)\<rparr> else st)
           in case sendFileChunkWithRetry outcomes of
                Some e \<Rightarrow>
                  (Inl (''send chunk: '' @ e), failTransfer now tid (''send chunk: '' @ e) st)
              | None \<Rightarrow>
                  (Inr p,
                   set_done_size tid
                     (fc_Offset p + min (resume_stride sess) (int (length content) - fc_Offset p)) st))"

definition resume_finish :: "int \<Rightarrow> bool \<Rightarrow> NativeUploadSession \<Rightarrow> string \<Rightarrow> FileState \<Rightarrow> string option \<times> FileState" where
  "resume_finish now wantsAck sess batchID st =
     (let tid = us_TransferID sess
      in case (if wantsAck then wait_ack tid st else (None, st)) of
           (Some e, st) \<Rightarrow> (Some (''delivery not confirmed: '' @ e), failTransfer now tid e st)
         | (None, st) \<Rightarrow>
             (None,
              dropNativeSession tid
                (refreshBatchCompletion now batchID (finish_upload now tid (us_TotalSize sess) st))))"

end
