(* ===== verification/File_Browser.thy ===== *)
theory File_Browser
  imports File_Upload
begin

text \<open>
  Uploads that the user interface cuts into slices itself (\<open>files_conflict.go\<close>,
  \<open>files_resume.go\<close> and \<open>files.go\<close> of \<open>apps/mac/backend\<close>): a session per transfer counts the
  slices and feeds the hash. Slices are always of the legacy stride. A hash is the string it was
  fed; the session's hash is written outside the lock, before the slice is sent.
\<close>

definition join_remote :: "string \<Rightarrow> string \<Rightarrow> string" where
  "join_remote dir name = (if dir = [] then name else dir @ slash # name)"

text \<open>\<open>mkdirRemoteParents\<close>: the directory, and the paths it asks the phone to make, in order.\<close>

fun parent_chain :: "string \<Rightarrow> string list \<Rightarrow> string list" where
  "parent_chain cur [] = []"
| "parent_chain cur (p # ps) = join_remote cur p # parent_chain (join_remote cur p) ps"

definition mkdirRemoteParents :: "string \<Rightarrow> string \<Rightarrow> string \<times> FileMkdirPayload list" where
  "mkdirRemoteParents remoteDir subDir =
     (let base = (if subDir = [] then remoteDir else join_remote remoteDir subDir)
      in (base,
          if SanitizeFilePath base = None \<or> base = [] then []
          else map (\<lambda>d. zero_FileMkdirPayload\<lparr>fm_Path := d\<rparr>) (parent_chain [] (split_on slash base))))"

definition path_dir :: "string \<Rightarrow> string" where
  "path_dir path =
     path_clean (rev (dropWhile (\<lambda>c. c \<noteq> slash) (rev path)))"

text \<open>Where a dropped file goes, and the directories made for it.\<close>

definition browser_target ::
  "string \<Rightarrow> string \<Rightarrow> string \<Rightarrow> (string + string) \<times> FileMkdirPayload list" where
  "browser_target filename relPath remoteDir =
     (case SanitizeFilePath remoteDir of
        None \<Rightarrow> (Inl ''invalid remote directory'', [])
      | Some remoteSan \<Rightarrow>
          if relPath \<noteq> [] \<and> SanitizeFilePath relPath = None then (Inl ''invalid relative path'', [])
          else
            let dir = path_dir relPath;
                (base, mkdirs) = (if relPath \<noteq> [] \<and> dir \<noteq> ''.'' \<and> dir \<noteq> []
                                  then mkdirRemoteParents remoteSan dir else (remoteSan, []));
                name = (if relPath = [] then filename else path_base relPath)
            in (if SanitizeFileName name = None then Inl ''invalid filename''
                else Inr (join_remote base name), mkdirs))"

definition beginBrowserSessionInBatch ::
  "int \<Rightarrow> string \<Rightarrow> int \<Rightarrow> string \<Rightarrow> int \<Rightarrow> string \<Rightarrow> bool \<Rightarrow> string option \<Rightarrow> FileState \<Rightarrow>
   (string + string) \<times> FileState" where
  "beginBrowserSessionInBatch now remotePath totalSize policy mtime batchID paired random16 st =
     (if SanitizeFilePath remotePath = None \<or> remotePath = [] then (Inl ''invalid remote path'', st)
      else if \<not> paired then (Inl offline_hint, st)
      else case freshTransferID random16 of
        None \<Rightarrow> (Inl ''generate transfer id failed'', st)
      | Some tid \<Rightarrow>
          (Inr tid,
           put_transfer tid
             (zero_FileTransfer\<lparr>ft_ID := tid, ft_Path := remotePath, ft_Direction := ''upload'',
                ft_TotalSize := totalSize, ft_Status := ''running'', ft_Source := ''browser'',
                ft_BatchID := batchID\<rparr>)
             (st\<lparr>fs_browserUploads := AList.update tid
                  \<lparr>bu_ID = tid, bu_RemotePath = remotePath, bu_TotalSize = totalSize,
                   bu_TotalChunks = TotalChunksForSize totalSize LegacyFileChunkRaw,
                   bu_Policy = normalizeWirePolicy policy, bu_SourceMtime = mtime, bu_Hash = [],
                   bu_NextChunk = 0, bu_UpdatedAt = now\<rparr> (fs_browserUploads st)\<rparr>)))"

definition unknown_batch :: "string \<Rightarrow> FileState \<Rightarrow> bool" where
  "unknown_batch batchID st \<longleftrightarrow> batchID \<noteq> [] \<and> map_of (fs_batches st) batchID = None"

definition BeginBrowserUploadInBatch ::
  "int \<Rightarrow> string \<Rightarrow> string \<Rightarrow> string \<Rightarrow> int \<Rightarrow> string \<Rightarrow> int \<Rightarrow> string \<Rightarrow> bool \<Rightarrow> string option \<Rightarrow>
   FileState \<Rightarrow> ((string + string) \<times> FileMkdirPayload list) \<times> FileState" where
  "BeginBrowserUploadInBatch now filename relPath remoteDir totalSize policy mtime batchID paired random16 st =
     (if unknown_batch batchID st then ((Inl ''unknown upload batch'', []), st)
      else if totalSize < 0 \<or> MaxFileTotalSize < totalSize then ((Inl ''file too large'', []), st)
      else case browser_target filename relPath remoteDir of
        (Inl e, mkdirs) \<Rightarrow> ((Inl e, mkdirs), st)
      | (Inr remotePath, mkdirs) \<Rightarrow>
          (case beginBrowserSessionInBatch now remotePath totalSize policy mtime batchID paired random16 st of
             (res, st) \<Rightarrow> ((res, mkdirs), st)))"

definition BeginBrowserUpload ::
  "int \<Rightarrow> string \<Rightarrow> string \<Rightarrow> string \<Rightarrow> int \<Rightarrow> string \<Rightarrow> int \<Rightarrow> bool \<Rightarrow> string option \<Rightarrow>
   FileState \<Rightarrow> ((string + string) \<times> FileMkdirPayload list) \<times> FileState" where
  "BeginBrowserUpload now filename relPath remoteDir totalSize policy mtime paired random16 st =
     (if totalSize < 0 \<or> MaxFileTotalSize < totalSize then ((Inl ''file too large'', []), st)
      else case browser_target filename relPath remoteDir of
        (Inl e, mkdirs) \<Rightarrow> ((Inl e, mkdirs), st)
      | (Inr remotePath, mkdirs) \<Rightarrow>
          (case beginBrowserSessionInBatch now remotePath totalSize policy mtime [] paired random16 st of
             (res, st) \<Rightarrow> ((res, mkdirs), st)))"

definition BeginBrowserUploadToPathInBatch ::
  "int \<Rightarrow> string \<Rightarrow> int \<Rightarrow> string \<Rightarrow> int \<Rightarrow> string \<Rightarrow> bool \<Rightarrow> string option \<Rightarrow> FileState \<Rightarrow>
   (string + string) \<times> FileState" where
  "BeginBrowserUploadToPathInBatch now remotePath totalSize policy mtime batchID paired random16 st =
     (if SanitizeFilePath remotePath = None \<or> remotePath = [] then (Inl ''invalid remote path'', st)
      else if totalSize < 0 \<or> MaxFileTotalSize < totalSize then (Inl ''file too large'', st)
      else if unknown_batch batchID st then (Inl ''unknown upload batch'', st)
      else beginBrowserSessionInBatch now remotePath totalSize policy mtime batchID paired random16 st)"

section \<open>Slices\<close>

definition slice_size :: "BrowserUploadSession \<Rightarrow> int \<Rightarrow> int option" where
  "slice_size sess idx =
     (if idx < bu_TotalChunks sess - 1 then Some LegacyFileChunkRaw
      else if idx = bu_TotalChunks sess - 1
      then Some (wrap64 (bu_TotalSize sess - wrap64 (idx * LegacyFileChunkRaw)))
      else None)"

definition decodeBrowserSlice :: "string \<Rightarrow> BrowserUploadSession \<Rightarrow> int \<Rightarrow> string + string" where
  "decodeBrowserSlice b64chunk sess idx =
     (case b64_std_decode (trim_space b64chunk) of
        None \<Rightarrow> Inl ''invalid base64''
      | Some raw \<Rightarrow>
          (case slice_size sess idx of
             None \<Rightarrow> Inl ''chunk past end''
           | Some n \<Rightarrow> if int (length raw) \<noteq> n then Inl ''chunk size mismatch'' else Inr raw))"

definition slice_payload :: "BrowserUploadSession \<Rightarrow> string \<Rightarrow> string \<Rightarrow> FileChunkPayload" where
  "slice_payload sess tid raw =
     (let idx = bu_NextChunk sess
      in \<lparr>fc_Nonce = tid, fc_TransferID = tid, fc_Path = bu_RemotePath sess,
          fc_Offset = wrap64 (idx * LegacyFileChunkRaw), fc_TotalSize = bu_TotalSize sess,
          fc_ChunkIndex = idx, fc_TotalChunks = bu_TotalChunks sess,
          fc_DataB64 = (if raw \<noteq> [] then b64_std_encode raw else []),
          fc_Sha256 = (if idx = bu_TotalChunks sess - 1 then hex_encode (sha256 (bu_Hash sess @ raw))
                       else []),
          fc_Policy = bu_Policy sess, fc_SourceMtime = bu_SourceMtime sess\<rparr>)"

definition put_session :: "string \<Rightarrow> BrowserUploadSession \<Rightarrow> FileState \<Rightarrow> FileState" where
  "put_session tid sess st =
     (if map_of (fs_browserUploads st) tid = None then st
      else st\<lparr>fs_browserUploads := AList.update tid sess (fs_browserUploads st)\<rparr>)"

text \<open>A slice could not be delivered: the transfer fails and is offered for a retry.\<close>

definition slice_failed :: "int \<Rightarrow> string \<Rightarrow> BrowserUploadSession \<Rightarrow> string \<Rightarrow> FileState \<Rightarrow> FileState" where
  "slice_failed now tid sess err st =
     put_session tid (sess\<lparr>bu_UpdatedAt := now\<rparr>) (set_resumable True tid (failTransfer now tid err st))"

definition slice_sent :: "int \<Rightarrow> bool \<Rightarrow> string \<Rightarrow> BrowserUploadSession \<Rightarrow> int \<Rightarrow> FileState \<Rightarrow> FileState" where
  "slice_sent now acked tid sess n st =
     (let last = (bu_NextChunk sess = bu_TotalChunks sess - 1);
          st = (case transfer st tid of
                  None \<Rightarrow> st
                | Some tr \<Rightarrow>
                    let tr = tr\<lparr>ft_DoneSize := n\<rparr>
                    in put_transfer tid
                         (if last \<and> \<not> acked \<and> ft_Status tr = ''running''
                          then tr\<lparr>ft_Status := ''done'', ft_completedAt := Some now\<rparr> else tr) st);
          st = (if last then st\<lparr>fs_browserUploads := AList.delete tid (fs_browserUploads st)\<rparr>
                else put_session tid
                       (sess\<lparr>bu_NextChunk := bu_NextChunk sess + 1, bu_UpdatedAt := now\<rparr>) st)
      in if last \<and> \<not> acked
         then (case transfer st tid of
                 None \<Rightarrow> st
               | Some tr \<Rightarrow> refreshBatchCompletion now (ft_BatchID tr) st)
         else st)"

text \<open>
  \<open>SendBrowserChunk\<close> up to the wait for the confirmation: the payload that was sent and whether it
  was the last one.
\<close>

definition SendBrowserChunk_begin ::
  "int \<Rightarrow> bool \<Rightarrow> string \<Rightarrow> string \<Rightarrow> (string option \<times> bool) list \<Rightarrow> FileState \<Rightarrow>
   (string + FileChunkPayload \<times> bool) \<times> FileState" where
  "SendBrowserChunk_begin now wantsAck tid b64chunk outcomes st =
     (case map_of (fs_browserUploads st) tid of
        None \<Rightarrow> (Inl ''unknown upload session'', st)
      | Some sess \<Rightarrow>
          if isTransferCancelled tid st then
            (Inl ''transfer cancelled'',
             st\<lparr>fs_browserUploads := AList.delete tid (fs_browserUploads st)\<rparr>)
          else case decodeBrowserSlice b64chunk sess (bu_NextChunk sess) of
            Inl e \<Rightarrow> (Inl e, st)
          | Inr raw \<Rightarrow>
              let p = slice_payload sess tid raw;
                  sess = sess\<lparr>bu_Hash := bu_Hash sess @ raw\<rparr>;
                  st = put_session tid sess st;
                  last = (bu_NextChunk sess = bu_TotalChunks sess - 1)
              in if \<not> SanitizeFileChunk p then (Inl ''chunk failed validation'', st)
                 else
                   let st = (if last \<and> wantsAck
                             then st\<lparr>fs_waiters := register_waiter tid (fs_waiters st)\<rparr> else st)
                   in case sendFileChunkWithRetry outcomes of
                        Some e \<Rightarrow> (Inl (''send chunk: '' @ e), slice_failed now tid sess e st)
                      | None \<Rightarrow>
                          (Inr (p, last),
                           slice_sent now wantsAck tid sess (fc_Offset p + int (length raw)) st))"

definition SendBrowserChunk_end :: "int \<Rightarrow> string \<Rightarrow> string \<Rightarrow> FileState \<Rightarrow> string option \<times> FileState" where
  "SendBrowserChunk_end now tid batchID st =
     (case wait_ack tid st of
        (Some e, st) \<Rightarrow>
          (Some (''delivery not confirmed: '' @ e),
           (let st = set_resumable True tid (failTransfer now tid e st)
            in case map_of (fs_browserUploads st) tid of
                 None \<Rightarrow> st
               | Some sess \<Rightarrow> put_session tid (sess\<lparr>bu_UpdatedAt := now\<rparr>) st))
      | (None, st) \<Rightarrow>
          (None, refreshBatchCompletion now batchID (set_resumable False tid st)))"

definition AbortBrowserUpload ::
  "int \<Rightarrow> string \<Rightarrow> FileState \<Rightarrow> (string + FileCancelPayload) \<times> FileState" where
  "AbortBrowserUpload now tid st =
     (let st = st\<lparr>fs_browserUploads := AList.delete tid (fs_browserUploads st)\<rparr>
      in case transfer st tid of
           None \<Rightarrow> (Inl ''unknown upload session'', st)
         | Some tr \<Rightarrow>
             let tr' = tr\<lparr>ft_Resumable := False\<rparr>;
                 tr' = (if ft_Status tr' = ''running''
                        then tr'\<lparr>ft_Status := ''cancelled'', ft_completedAt := Some now\<rparr> else tr')
             in (Inr (cancel_payload tid (ft_Path tr)),
                 refreshBatchCompletion now (ft_BatchID tr) (put_transfer tid tr' st)))"

text \<open>A retry: the hash starts again, and the interface replays the confirmed slices into it.\<close>

definition ResumeBrowserUpload_begin ::
  "string \<Rightarrow> bool \<Rightarrow> FileState \<Rightarrow> string + BrowserUploadSession" where
  "ResumeBrowserUpload_begin tid paired st =
     (case map_of (fs_browserUploads st) tid of
        None \<Rightarrow> Inl (''upload no longer retryable '' @ em_dash @ '' send it again'')
      | Some sess \<Rightarrow> if \<not> paired then Inl offline_hint else Inr sess)"

definition ResumeBrowserUpload_end ::
  "string \<Rightarrow> BrowserUploadSession \<Rightarrow> int \<Rightarrow> FileState \<Rightarrow> int \<times> FileState" where
  "ResumeBrowserUpload_end tid sess next st =
     (if bu_TotalChunks sess \<le> next then (bu_TotalChunks sess, st)
      else
        (next,
         (let st = (case map_of (fs_browserUploads st) tid of
                      None \<Rightarrow> st
                    | Some cur \<Rightarrow> put_session tid (cur\<lparr>bu_Hash := [], bu_NextChunk := 0\<rparr>) st);
              doneSize = wrap64 (next * LegacyFileChunkRaw)
          in case transfer st tid of
               None \<Rightarrow> st
             | Some tr \<Rightarrow>
                 put_transfer tid
                   (tr\<lparr>ft_Status := ''running'', ft_Error := [],
                       ft_DoneSize := (if ft_TotalSize tr < doneSize then ft_TotalSize tr else doneSize),
                       ft_Resumable := True\<rparr>) st)))"

definition RehashBrowserChunk :: "int \<Rightarrow> string \<Rightarrow> string \<Rightarrow> FileState \<Rightarrow> string option \<times> FileState" where
  "RehashBrowserChunk now tid b64chunk st =
     (case map_of (fs_browserUploads st) tid of
        None \<Rightarrow> (Some ''unknown upload session'', st)
      | Some sess \<Rightarrow>
          (case decodeBrowserSlice b64chunk sess (bu_NextChunk sess) of
             Inl e \<Rightarrow> (Some e, st)
           | Inr raw \<Rightarrow>
               (None, put_session tid
                  (sess\<lparr>bu_Hash := bu_Hash sess @ raw, bu_NextChunk := bu_NextChunk sess + 1,
                        bu_UpdatedAt := now\<rparr>) st)))"

section \<open>A whole file from the browser\<close>

text \<open>The name, the directory and the directories made for a file given with a relative path.\<close>

definition rel_target :: "string \<Rightarrow> string \<Rightarrow> string + string \<times> string \<times> FileMkdirPayload list" where
  "rel_target relPath remoteDir =
     (if relPath = [] then Inr (''file'', remoteDir, [])
      else if SanitizeFilePath relPath = None then Inl ''invalid relative path''
      else
        let dir = path_dir relPath
        in if dir \<noteq> ''.'' \<and> dir \<noteq> [] then
             (case mkdirRemoteParents remoteDir dir of
                (base, mkdirs) \<Rightarrow> Inr (path_base relPath, base, mkdirs))
           else Inr (path_base relPath, remoteDir, []))"

text \<open>\<open>UploadBrowserFileToRemotePath\<close>: the name and the directory of an exact path.\<close>

definition exact_target :: "string \<Rightarrow> string + string \<times> string" where
  "exact_target remotePath =
     (if SanitizeFilePath remotePath = None \<or> remotePath = [] then Inl ''invalid remote path''
      else Inr (path_base remotePath, if path_dir remotePath = ''.'' then [] else path_dir remotePath))"

definition UploadBrowserFile_begin ::
  "string \<Rightarrow> string \<Rightarrow> string \<Rightarrow> string \<Rightarrow> int \<Rightarrow> bool \<Rightarrow> int \<Rightarrow> string option \<Rightarrow> FileState \<Rightarrow>
   (string + string \<times> upload) \<times> FileState" where
  "UploadBrowserFile_begin b64 filename remoteDir policy mtime paired stride random16 st =
     (if trim_space b64 = [] then (Inl ''empty file'', st)
      else case b64_std_decode (trim_space b64) of
        None \<Rightarrow> (Inl ''invalid base64'', st)
      | Some raw \<Rightarrow>
          if MaxFileTotalSize < int (length raw) then (Inl ''file too large'', st)
          else if SanitizeFileName filename = None then (Inl ''invalid filename'', st)
          else case SanitizeFilePath remoteDir of
            None \<Rightarrow> (Inl ''invalid remote directory'', st)
          | Some remoteSan \<Rightarrow>
              let remotePath = join_remote remoteSan filename
              in if \<not> paired then (Inl offline_hint, st)
                 else if SanitizeFilePath remotePath = None then (Inl ''invalid remote path'', st)
                 else case freshTransferID random16 of
                   None \<Rightarrow> (Inl ''generate transfer id failed'', st)
                 | Some tid \<Rightarrow>
                     (let u = \<lparr>up_local = [], up_remote = remotePath, up_policy = policy, up_mtime = mtime,
                               up_content = raw, up_stride = stride, up_batch = []\<rparr>
                      in (Inr (tid, u),
                          put_transfer tid
                            (zero_FileTransfer\<lparr>ft_ID := tid, ft_Path := remotePath,
                               ft_Direction := ''upload'', ft_TotalSize := up_size u,
                               ft_Status := ''running'', ft_Source := ''browser''\<rparr>) st)))"

text \<open>One round of its loop, without retries and without a confirmation; the end is deferred.\<close>

definition browser_file_chunk ::
  "int \<Rightarrow> string \<Rightarrow> string \<Rightarrow> upload \<Rightarrow> int \<Rightarrow> string option \<Rightarrow> FileState \<Rightarrow>
   (string + FileChunkPayload) \<times> FileState" where
  "browser_file_chunk now nonce tid u idx sendError st =
     (if isTransferCancelled tid st then (Inl ''transfer cancelled'', st)
      else
        let p = upload_chunk nonce tid (up_remote u) (up_policy u) (up_mtime u) (up_content u)
                  (up_stride u) idx
        in case sendError of
             Some e \<Rightarrow> (Inl (''send chunk: '' @ e), failTransfer now tid e st)
           | None \<Rightarrow>
               (Inr p, set_done_size tid (min (wrap64 (fc_Offset p + up_stride u)) (up_size u)) st))"

definition UploadBrowserFile_end :: "int \<Rightarrow> string \<Rightarrow> upload \<Rightarrow> FileState \<Rightarrow> FileState" where
  "UploadBrowserFile_end now tid u st = finish_upload now tid (up_size u) st"

end
