(* ===== verification/File_Delivery.thy ===== *)
theory File_Delivery
  imports File_Browser
begin

text \<open>
  The sender and the receiver together: chunks that arrive without a gap, repeated or not, build
  the file up from its start, and the final chunk commits it. A retried upload sends the chunks
  of the first attempt, so a file that was interrupted arrives all the same. The receiver is the
  Mac's own, which the phone mirrors.
\<close>

section \<open>Writing into the part file\<close>

lemma write_at_overlap:
  assumes "off \<le> m" "m \<le> length content"
  shows "write_at off (take k (drop off content)) (take m content) =
           take (max m (off + length (take k (drop off content)))) content"
proof (cases "take k (drop off content) = []")
  case True
  show ?thesis unfolding True using assms(1) by (simp add: write_at_def max.absorb1)
next
  case False
  have len: "off + length (take k (drop off content)) \<le> length content" using assms by simp
  let ?e = "off + length (take k (drop off content))"
  have "take k (drop off content) = drop off (take ?e content)"
    by (cases "k \<le> length content - off") (simp_all add: drop_take min_def)
  then have "take off content @ take k (drop off content) = take ?e content"
    by (metis add.commute append_take_drop_id le_add1 min.absorb1 take_take)
  moreover have "drop ?e (take m content) = drop ?e (take (max m ?e) content)"
    by (simp add: drop_take max_def)
  moreover have "take ?e content = take ?e (take (max m ?e) content)" by simp
  ultimately have "take off content @ take k (drop off content) @ drop ?e (take m content) =
      take (max m ?e) content"
    by (metis append_assoc append_take_drop_id)
  then show ?thesis using False assms by (simp add: write_at_def min_def)
qed

section \<open>A receiver that has the first bytes\<close>

definition receiving :: "string \<Rightarrow> string \<Rightarrow> string \<Rightarrow> nat \<Rightarrow> FileState \<Rightarrow> bool" where
  "receiving tid dest content m st \<longleftrightarrow>
     (\<exists>tr. transfer st tid = Some tr \<and> ft_Status tr = ''running'' \<and> ft_tmpPath tr = dest \<and>
        staged tid tr (fs_disk st) \<and>
        (case fs_disk st (part_path tr tid) of None \<Rightarrow> m = 0 | Some c \<Rightarrow> c = take m content))"

lemma receiving_registered:
  assumes "\<forall>x. fs_disk st (x @ ''.part.'' @ tid) = None"
  shows "receiving tid (targetBase @ slash # path_base remotePath) content 0
           (register_download tid remotePath targetBase st)"
proof -
  have "fs_disk st ((targetBase @ slash # path_base remotePath) @ ''.part.'' @ tid) = None"
    using assms by blast
  then show ?thesis
    by (simp add: receiving_def register_download_def staged_def part_path_def)
qed

text \<open>What the receiver reads from a chunk that the sender cut.\<close>

definition cut :: "string \<Rightarrow> nat \<Rightarrow> nat \<Rightarrow> string" where
  "cut content k i = take k (drop (i * k) content)"

definition carries :: "string \<Rightarrow> string \<Rightarrow> nat \<Rightarrow> nat \<Rightarrow> nat \<Rightarrow> FileChunkPayload \<Rightarrow> bool" where
  "carries tid content k n i p \<longleftrightarrow>
     DecodeFileChunkData (fc_DataB64 p) = Some (cut content k i) \<and>
     SanitizeFileChunkWithRawLen p (int (length (cut content k i))) \<and>
     fc_TransferID p = tid \<and> fc_Offset p = int (i * k) \<and> fc_TotalSize p = int (length content) \<and>
     fc_ChunkIndex p = int i \<and> fc_TotalChunks p = int n \<and> i * k \<le> length content \<and>
     (i = n - 1 \<longrightarrow> length content \<le> i * k + k \<and> fc_Sha256 p = hex_encode (sha256 content))"

definition up_count :: "string \<Rightarrow> int \<Rightarrow> nat" where
  "up_count content k = nat (TotalChunksForSize (int (length content)) k)"

lemma chunk_count:
  assumes "upload_ok nonce tid path mtime content k"
  shows "0 < TotalChunksForSize (int (length content)) k" "0 < up_count content k"
    "int (up_count content k) = TotalChunksForSize (int (length content)) k"
proof -
  show "0 < TotalChunksForSize (int (length content)) k"
  proof (cases "content = []")
    case False
    then show ?thesis
      using assms TotalChunksForSize_pos(4) [of "int (length content)" k] by (simp add: upload_ok_def)
  qed (simp add: TotalChunksForSize_def Let_def)
  then show "0 < up_count content k"
    "int (up_count content k) = TotalChunksForSize (int (length content)) k"
    by (simp_all add: up_count_def)
qed

lemma upload_chunk_carries:
  assumes ok: "upload_ok nonce tid path mtime content k" and i: "i < up_count content k"
  shows "carries tid content (nat k) (up_count content k) i
           (upload_chunk nonce tid path policy mtime content k (int i))"
proof -
  let ?p = "upload_chunk nonce tid path policy mtime content k (int i)"
  have lt: "0 \<le> int i" "int i < TotalChunksForSize (int (length content)) k"
    using i chunk_count(3)[OF ok] by simp_all
  have k: "file_stride k" "int (length content) \<le> MaxFileTotalSize" "0 < k"
    using ok file_stride_bounds[of k] by (simp_all add: upload_ok_def)
  have nat: "nat (int i * k) = i * nat k" "int i * k = int (i * nat k)"
    using k(3) by (simp_all add: nat_mult_distrib)
  have dec: "DecodeFileChunkData (fc_DataB64 ?p) = Some (cut content (nat k) i)"
    unfolding cut_def using upload_chunk_decodes[OF ok lt] by (simp only: nat(1))
  have san: "SanitizeFileChunkWithRawLen ?p (int (length (cut content (nat k) i)))"
    using upload_chunk_accepted[OF ok lt, of policy]
    by (simp add: SanitizeFileChunk_def SanitizeFileChunkWithRawLen_def decodedChunkLen_eq dec)
  note f = upload_chunk_fields [OF upload_chunk_wrap [OF ok lt]]
  note sl = slice_length [OF lt refl k(2,1)]
  have le: "i * nat k \<le> length content" using sl(2) nat(2) by linarith
  have last: "length content \<le> i * nat k + nat k \<and> fc_Sha256 ?p = hex_encode (sha256 content)"
    if "i = up_count content k - 1"
  proof -
    have e: "int i = TotalChunksForSize (int (length content)) k - 1"
      using that chunk_count[OF ok] by simp
    then have "int (length (take (nat k) (drop (i * nat k) content))) = int (length content) - int (i * nat k)"
      using sl(1) nat by simp
    then have l: "length content = i * nat k + length (take (nat k) (drop (i * nat k) content))"
      using le by linarith
    have "fc_Sha256 ?p = hex_encode (sha256 (take (i * nat k +
        length (take (nat k) (drop (i * nat k) content))) content))"
      unfolding f(11) using e nat(1) by (simp only: simp_thms if_True)
    then have "fc_Sha256 ?p = hex_encode (sha256 content)"
      unfolding l[symmetric] by (simp only: take_all order_refl)
    moreover have "length content \<le> i * nat k + nat k" using l by (metis add_left_mono length_take min.cobounded2)
    ultimately show ?thesis by blast
  qed
  show ?thesis
  proof (unfold carries_def, intro conjI impI)
    show "fc_Offset ?p = int (i * nat k)" unfolding f(4) by (rule nat(2))
    show "fc_TotalChunks ?p = int (up_count content k)"
      unfolding f(7) by (rule chunk_count(3)[OF ok, symmetric])
  qed (use dec san f(2,5,6) le last in blast)+
qed

lemma stage_chunk_ok:
  "stage_chunk now NoFault p raw tr st =
     (let tid = fc_TransferID p; part = part_path tr tid;
          disk = (if ft_file tr then fs_disk st
                  else (fs_disk st)(part \<mapsto> (case fs_disk st part of Some c \<Rightarrow> c | None \<Rightarrow> [])));
          fed = feed_hash p raw (tr\<lparr>ft_file := True\<rparr>);
          tr' = fed\<lparr>ft_DoneSize := fc_Offset p + int (length raw)\<rparr>
      in Inr (tr', put_transfer tid tr'
           ((put_transfer tid fed st)\<lparr>fs_disk :=
              disk(part := map_option (write_at (nat (fc_Offset p)) raw) (disk part))\<rparr>)))"
  by (simp add: stage_chunk_def Let_def)

lemma feed_hash_simps [simp]:
  "ft_tmpPath (feed_hash p raw tr) = ft_tmpPath tr" "ft_Status (feed_hash p raw tr) = ft_Status tr"
  by (auto simp: feed_hash_def Let_def split: option.split)

text \<open>Staging one chunk that leaves no gap.\<close>

lemma stage_carried:
  assumes "transfer st tid = Some tr" "ft_Status tr = ''running''" "ft_tmpPath tr = dest"
    and "staged tid tr (fs_disk st)"
    and "case fs_disk st (part_path tr tid) of None \<Rightarrow> m = 0 | Some c \<Rightarrow> c = take m content"
    and "carries tid content k n i p" "i * k \<le> m" "m \<le> length content"
  obtains tr' st' where "stage_chunk now NoFault p (cut content k i) tr (put_transfer tid tr st) = Inr (tr', st')"
    "transfer st' tid = Some tr'" "ft_Status tr' = ''running''" "ft_tmpPath tr' = dest"
    "staged tid tr' (fs_disk st')"
    "fs_disk st' (part_path tr' tid) = Some (take (max m (i * k + length (cut content k i))) content)"
proof -
  let ?raw = "cut content k i" and ?part = "part_path tr tid"
  define disk where "disk = (if ft_file tr then fs_disk st
    else (fs_disk st)(?part \<mapsto> (case fs_disk st ?part of Some c \<Rightarrow> c | None \<Rightarrow> [])))"
  define tr' where "tr' = (feed_hash p ?raw (tr\<lparr>ft_file := True\<rparr>))\<lparr>ft_DoneSize := fc_Offset p + int (length ?raw)\<rparr>"
  have p: "fc_TransferID p = tid" "fc_Offset p = int (i * k)" using assms(6) by (simp_all add: carries_def)
  define st' where "st' = put_transfer tid tr'
    ((put_transfer tid (feed_hash p ?raw (tr\<lparr>ft_file := True\<rparr>)) (put_transfer tid tr st))\<lparr>fs_disk :=
       disk(?part := map_option (write_at (nat (fc_Offset p)) ?raw) (disk ?part))\<rparr>)"
  have d: "disk ?part = Some (take m content)"
    using assms(4,5) by (auto simp: disk_def staged_def split: option.splits)
  have pp: "part_path tr' tid = ?part" by (simp add: tr'_def)
  have s: "stage_chunk now NoFault p ?raw tr (put_transfer tid tr st) = Inr (tr', st')"
    unfolding stage_chunk_ok Let_def p(1) st'_def tr'_def disk_def by simp
  have sg: "staged tid tr' (fs_disk st')"
    using staged_feed[OF assms(4), of p ?raw] p(2) unfolding st'_def tr'_def disk_def by simp
  have w: "fs_disk st' ?part = Some (take (max m (i * k + length ?raw)) content)"
    using write_at_overlap[OF assms(7,8), of k] d
    by (simp add: st'_def p(2) cut_def del: of_nat_mult length_take length_drop)
  show thesis
    by (rule that[OF s _ _ _ sg]) (use assms(2,3) w in \<open>simp_all add: st'_def tr'_def\<close>)
qed

text \<open>The receiver accepts the chunk and stages it.\<close>

lemma ingest_carried:
  assumes "transfer st tid = Some tr" "ft_Status tr = ''running''" "carries tid content k n i p"
  shows "ingestFileChunk staging now NoFault p st =
           (case stage_chunk now NoFault p (cut content k i) tr (put_transfer tid tr st) of
              Inl st \<Rightarrow> st
            | Inr (tr, st) \<Rightarrow>
                if i = n - 1 \<and> 0 < n then commit_chunk now NoFault p tr st
                else put_transfer tid (tr\<lparr>ft_Status := ''running''\<rparr>) st)"
proof -
  have p: "DecodeFileChunkData (fc_DataB64 p) = Some (cut content k i)"
    "SanitizeFileChunkWithRawLen p (int (length (cut content k i)))" "fc_TransferID p = tid"
    using assms(3) by (simp_all add: carries_def)
  have last: "(fc_ChunkIndex p = fc_TotalChunks p - 1) = (i = n - 1 \<and> 0 < n)"
    using assms(3) by (auto simp: carries_def)
  show ?thesis
    unfolding ingestFileChunk_def p option.case Let_def assms(1) last using p(2) assms(2) by simp
qed

lemma receiving_step:
  assumes "receiving tid dest content m st" "carries tid content k n i p" "i * k \<le> m"
    and "m \<le> length content" "i < n - 1"
  shows "receiving tid dest content (max m (i * k + length (cut content k i)))
           (ingestFileChunk staging now NoFault p st)"
proof -
  obtain tr where tr: "transfer st tid = Some tr" "ft_Status tr = ''running''" "ft_tmpPath tr = dest"
    "staged tid tr (fs_disk st)"
    "case fs_disk st (part_path tr tid) of None \<Rightarrow> m = 0 | Some c \<Rightarrow> c = take m content"
    using assms(1) by (auto simp: receiving_def)
  obtain tr' st' where s: "stage_chunk now NoFault p (cut content k i) tr (put_transfer tid tr st) = Inr (tr', st')"
    "transfer st' tid = Some tr'" "ft_Status tr' = ''running''" "ft_tmpPath tr' = dest"
    "staged tid tr' (fs_disk st')"
    "fs_disk st' (part_path tr' tid) = Some (take (max m (i * k + length (cut content k i))) content)"
    by (rule stage_carried[OF tr assms(2-4)])
  have "ingestFileChunk staging now NoFault p st = put_transfer tid (tr'\<lparr>ft_Status := ''running''\<rparr>) st'"
    using ingest_carried[OF tr(1,2) assms(2)] s(1) assms(5) by simp
  then show ?thesis using s(4-6) by (simp add: receiving_def)
qed

lemma equal_fold_hex_refl [simp]: "equal_fold_hex h h"
  by (simp add: equal_fold_hex_def)

text \<open>The final chunk commits the file.\<close>

lemma receiving_commit:
  assumes "receiving tid dest content m st" "carries tid content k n i p" "i * k \<le> m"
    and "m \<le> length content" "i = n - 1" "0 < n"
  shows "\<exists>tr. transfer (ingestFileChunk staging now NoFault p st) tid = Some tr \<and>
           ft_Status tr = ''done'' \<and>
           fs_disk (ingestFileChunk staging now NoFault p st) (ft_tmpPath tr) = Some content"
proof -
  obtain tr where tr: "transfer st tid = Some tr" "ft_Status tr = ''running''" "ft_tmpPath tr = dest"
    "staged tid tr (fs_disk st)"
    "case fs_disk st (part_path tr tid) of None \<Rightarrow> m = 0 | Some c \<Rightarrow> c = take m content"
    using assms(1) by (auto simp: receiving_def)
  obtain tr' st' where s: "stage_chunk now NoFault p (cut content k i) tr (put_transfer tid tr st) = Inr (tr', st')"
    "transfer st' tid = Some tr'" "ft_Status tr' = ''running''" "ft_tmpPath tr' = dest"
    "staged tid tr' (fs_disk st')"
    "fs_disk st' (part_path tr' tid) = Some (take (max m (i * k + length (cut content k i))) content)"
    by (rule stage_carried[OF tr assms(2-4)])
  have p: "fc_TransferID p = tid" "fc_TotalSize p = int (length content)" "i * k \<le> length content"
    "length content \<le> i * k + k" "fc_Sha256 p = hex_encode (sha256 content)"
    using assms(2,5) by (simp_all add: carries_def)
  have "i * k + length (cut content k i) = length content" using p(3,4) by (simp add: cut_def)
  then have part: "fs_disk st' (part_path tr' tid) = Some content" using s(6) assms(4) by simp
  have sha: "sha_error (fs_disk st') NoFault p tr' = None"
    using s(5) part p(1,5)
    by (auto simp: sha_error_def staged_def verifySHA256_def split: option.splits bool.splits)
  have e: "ingestFileChunk staging now NoFault p st = commit_chunk now NoFault p tr' st'"
    using ingest_carried[OF tr(1,2) assms(2)] s(1) assms(5,6) by simp
  show ?thesis unfolding e using part sha p(1,2) by (simp add: commit_chunk_def Let_def)
qed

section \<open>Chunks without a gap\<close>

text \<open>
  The number of chunks there are from the start after chunks in this order, and whether each
  came when all before it were there.
\<close>

fun frontier :: "nat \<Rightarrow> nat list \<Rightarrow> nat" where
  "frontier f [] = f"
| "frontier f (i # is) = frontier (max f (Suc i)) is"

fun gapless :: "nat \<Rightarrow> nat list \<Rightarrow> bool" where
  "gapless f [] \<longleftrightarrow> True"
| "gapless f (i # is) \<longleftrightarrow> i \<le> f \<and> gapless (max f (Suc i)) is"

lemma gapless_append: "gapless f (is @ js) \<longleftrightarrow> gapless f is \<and> gapless (frontier f is) js"
  by (induction "is" arbitrary: f) auto

lemma frontier_append: "frontier f (is @ js) = frontier (frontier f is) js"
  by (induction "is" arbitrary: f) auto

lemma gapless_upt: "a \<le> f \<Longrightarrow> a \<le> b \<Longrightarrow> gapless f [a..<b] \<and> frontier f [a..<b] = max f b"
proof (induction b)
  case (Suc b)
  show ?case
  proof (cases "a = Suc b")
    case False
    then show ?thesis using Suc by (simp add: gapless_append frontier_append del: upt_Suc add: upt_Suc)
  qed (use Suc in simp)
qed simp

lemma cut_end: "i * k \<le> l \<Longrightarrow> l = length content \<Longrightarrow>
    i * k + length (cut content k i) = min ((i + 1) * k) l"
  by (auto simp: cut_def min_def add_mult_distrib)

lemma frontier_bytes:
  fixes i f k l :: nat
  assumes "i \<le> f"
  shows "max (min (f * k) l) (min ((i + 1) * k) l) = min (max f (Suc i) * k) l"
proof (cases "Suc i \<le> f")
  case True
  then have "(i + 1) * k \<le> f * k" by (metis Suc_eq_plus1 mult_le_mono1)
  then show ?thesis using True by (simp add: max_absorb1)
next
  case False
  then have "i = f" using assms by simp
  then show ?thesis by simp
qed

lemma receiving_many:
  assumes "receiving tid dest content (min (f * k) (length content)) st"
    and "gapless f (map fst ips)" "\<forall>(i, now, p) \<in> set ips. carries tid content k n i p \<and> i < n - 1"
  shows "receiving tid dest content (min (frontier f (map fst ips) * k) (length content))
           (fold (\<lambda>(i, now, p). ingestFileChunk staging now NoFault p) ips st)"
  using assms
proof (induction ips arbitrary: f st)
  case (Cons x ips)
  obtain i now p where x: "x = (i, now, p)" by (metis prod_cases3)
  have c: "carries tid content k n i p" "i < n - 1" and le: "i \<le> f" using Cons.prems x by auto
  have ik: "i * k \<le> length content" using c(1) by (simp add: carries_def)
  then have "i * k \<le> min (f * k) (length content)" using le by simp
  from receiving_step[OF Cons.prems(1) c(1) this _ c(2), of staging now]
  have "receiving tid dest content (max (min (f * k) (length content)) (min ((i + 1) * k) (length content)))
      (ingestFileChunk staging now NoFault p st)"
    using cut_end[OF ik refl] by simp
  moreover note frontier_bytes[OF le, of k "length content"]
  ultimately show ?case using Cons.IH[of "max f (Suc i)"] Cons.prems(2,3) x by simp
qed simp

section \<open>Delivery\<close>

text \<open>A receiver that knows nothing of a transfer.\<close>

definition unknown_to :: "FileState \<Rightarrow> string \<Rightarrow> bool" where
  "unknown_to st tid \<longleftrightarrow> transfer st tid = None \<and> (\<forall>x. fs_disk st (x @ ''.part.'' @ tid) = None)"

lemma ingest_unknown:
  assumes "transfer st tid = None" "carries tid content k n i p"
  shows "ingestFileChunk staging now NoFault p st =
           ingestFileChunk staging now NoFault p (put_transfer tid (new_download staging p) st)"
proof -
  have p: "DecodeFileChunkData (fc_DataB64 p) = Some (cut content k i)"
    "SanitizeFileChunkWithRawLen p (int (length (cut content k i)))" "fc_TransferID p = tid"
    using assms(2) by (simp_all add: carries_def)
  have "put_transfer tid tr (put_transfer tid tr st) = put_transfer tid tr st" for tr
    by (rule put_transfer_same) simp
  then show ?thesis
    unfolding ingestFileChunk_def p option.case Let_def using p(2) assms(1) by simp
qed

lemma receiving_unknown:
  assumes "unknown_to st tid"
  shows "receiving tid (ft_tmpPath (new_download staging p)) content 0
           (put_transfer tid (new_download staging p) st)"
proof -
  have "fs_disk st (ft_tmpPath (new_download staging p) @ ''.part.'' @ tid) = None"
    using assms unfolding unknown_to_def by blast
  then show ?thesis
    by (simp add: receiving_def staged_def part_path_def new_download_def)
qed

lemma delivered:
  fixes staging content :: string and now :: int and n k :: nat
  assumes "unknown_to st tid" "gapless 0 (map fst ips)" "n - 1 \<le> frontier 0 (map fst ips)"
    and "\<forall>(i, now, p) \<in> set ips. carries tid content k n i p \<and> i < n - 1"
    and "carries tid content k n (n - 1) p" "0 < n"
  defines "st' \<equiv> fold (\<lambda>(i, now, p). ingestFileChunk staging now NoFault p) (ips @ [(n - 1, now, p)]) st"
  shows "\<exists>tr. transfer st' tid = Some tr \<and> ft_Status tr = ''done'' \<and>
           fs_disk st' (ft_tmpPath tr) = Some content"
proof -
  have none: "transfer st tid = None" using assms(1) by (simp add: unknown_to_def)
  obtain q where "receiving tid (ft_tmpPath (new_download staging q)) content 0
      (put_transfer tid (new_download staging q) st)" and
    e: "st' = fold (\<lambda>(i, now, p). ingestFileChunk staging now NoFault p) (ips @ [(n - 1, now, p)])
      (put_transfer tid (new_download staging q) st)"
  proof (cases ips)
    case Nil
    then show thesis
      using that[of p] receiving_unknown[OF assms(1)] ingest_unknown[OF none assms(5)]
      by (simp add: st'_def)
  next
    case (Cons x xs)
    obtain i t q where "x = (i, t, q)" by (metis prod_cases3)
    then show thesis
      using that[of q] receiving_unknown[OF assms(1)] assms(4) Cons ingest_unknown[OF none, of content k n i q]
      by (simp add: st'_def)
  qed
  then have "receiving tid (ft_tmpPath (new_download staging q)) content
      (min (0 * k) (length content)) (put_transfer tid (new_download staging q) st)" by simp
  from receiving_many[OF this assms(2,4)]
  have r: "receiving tid (ft_tmpPath (new_download staging q)) content
      (min (frontier 0 (map fst ips) * k) (length content))
      (fold (\<lambda>(i, now, p). ingestFileChunk staging now NoFault p) ips
        (put_transfer tid (new_download staging q) st))" .
  have "(n - 1) * k \<le> min (frontier 0 (map fst ips) * k) (length content)"
    using assms(3,5) by (simp add: carries_def)
  from receiving_commit[OF r assms(5) this _ refl assms(6)] show ?thesis unfolding e by simp
qed

text \<open>
  An upload is delivered: the receiver that is sent every chunk of a valid upload, each after
  all those before it came, and any of them again until the final one, ends with the file on
  its disk, byte for byte, and the transfer done.
\<close>

theorem upload_delivered:
  fixes staging policy content :: string and k now :: int and st :: FileState
  assumes "upload_ok nonce tid path mtime content k" "unknown_to st tid"
    and "gapless 0 (map fst steps)" "\<forall>(i, _) \<in> set steps. i < up_count content k - 1"
    and "up_count content k - 1 \<le> frontier 0 (map fst steps)"
  defines "recv \<equiv> \<lambda>(i, now). ingestFileChunk staging now NoFault
             (upload_chunk nonce tid path policy mtime content k (int i))"
  defines "st' \<equiv> fold recv (steps @ [(up_count content k - 1, now)]) st"
  shows "\<exists>tr. transfer st' tid = Some tr \<and> ft_Status tr = ''done'' \<and>
           fs_disk st' (ft_tmpPath tr) = Some content"
proof -
  let ?p = "\<lambda>i. upload_chunk nonce tid path policy mtime content k (int i)"
  let ?n = "up_count content k"
  let ?ips = "map (\<lambda>(i, now). (i, now, ?p i)) steps"
  have n: "0 < ?n" by (rule chunk_count(2)[OF assms(1)])
  have c: "carries tid content (nat k) ?n i (?p i)" if "i < ?n" for i
    by (rule upload_chunk_carries[OF assms(1) that])
  have f: "map fst ?ips = map fst steps" by (simp add: comp_def split_def)
  have e: "st' = fold (\<lambda>(i, now, p). ingestFileChunk staging now NoFault p) (?ips @ [(?n - 1, now, ?p (?n - 1))]) st"
    by (simp add: st'_def recv_def fold_map comp_def split_def)
  have g: "\<forall>(i, now, p) \<in> set ?ips. carries tid content (nat k) ?n i p \<and> i < ?n - 1"
    using assms(4) c by fastforce
  show ?thesis
    unfolding e
    by (rule delivered[OF assms(2) _ _ g c n]) (unfold f, rule assms(3), rule assms(5), use n in simp)
qed

theorem upload_delivered_witness:
  "\<exists>tr. transfer (ingestFileChunk ''/s'' 7 NoFault sample_chunk empty_files) sample_tid = Some tr \<and>
     fs_disk (ingestFileChunk ''/s'' 7 NoFault sample_chunk empty_files) (ft_tmpPath tr) = Some ''hello''"
proof -
  have "unknown_to empty_files sample_tid" by (simp add: unknown_to_def)
  moreover have "up_count ''hello'' LegacyFileChunkRaw = 1" using sample_upload_ok(2) by (simp add: up_count_def)
  ultimately show ?thesis
    using upload_delivered[OF sample_upload_ok(1), where st = empty_files and steps = "[]" and staging = "''/s''" and now = 7
        and policy = "''overwrite''"] by auto
qed

lemma set_resumable_simps [simp]:
  "fs_uploadSessions (set_resumable r tid st) = fs_uploadSessions st"
  "fs_browserUploads (set_resumable r tid st) = fs_browserUploads st"
  "fs_disk (set_resumable r tid st) = fs_disk st"
  "fs_waiters (set_resumable r tid st) = fs_waiters st"
  "fs_batches (set_resumable r tid st) = fs_batches st"
  by (simp_all add: set_resumable_def split: option.split)

text \<open>A retry sends the chunks of the first attempt.\<close>

lemma saved_session:
  assumes "map_of (fs_uploadSessions (send_failed now tid u err st)) tid = Some sess"
  shows "us_TransferID sess = tid" "us_RemotePath sess = up_remote u" "us_TotalSize sess = up_size u"
    "us_TotalChunks sess = up_chunks u"
    "us_ChunkSize sess = (if up_stride u \<le> 0 then LegacyFileChunkRaw else up_stride u)"
    "us_Policy sess = normalizeWirePolicy (up_policy u)" "us_SourceMtime sess = up_mtime u"
  using assms by (auto simp: send_failed_def saveNativeSession_def update_conv')

lemma resume_payload_same:
  assumes "map_of (fs_uploadSessions (send_failed now tid u err st)) tid = Some sess" "0 < up_stride u"
  shows "resume_payload nonce sess (up_content u) idx =
           upload_chunk nonce tid (up_remote u) (up_policy u) (up_mtime u) (up_content u) (up_stride u) idx"
proof -
  have stride: "resume_stride sess = up_stride u"
    using assms(2) by (simp add: resume_stride_def saved_session(5)[OF assms(1)])
  have raw: "(if int (length c) = 0 then [] else take a (drop b c)) = take a (drop b c)"
    for c :: string and a b by simp
  show ?thesis
    unfolding resume_payload_def upload_chunk_def stride saved_session(1-4,6,7)[OF assms(1)] Let_def
      up_chunks_def up_size_def raw by (rule refl)
qed

text \<open>
  An interrupted upload is delivered by its retry: after any number of chunks and a failure, the
  retry starts again from the chunk the phone asks for and the file arrives byte for byte.
\<close>

theorem interrupted_upload_delivered:
  fixes staging :: string and u :: upload and clock :: "FileChunkPayload \<Rightarrow> int" and st mac :: FileState
  assumes "upload_ok nonce tid (up_remote u) (up_mtime u) (up_content u) (up_stride u)"
    and "unknown_to st tid" "n = nat (up_chunks u)" "asked \<le> m" "m < n"
    and "map_of (fs_uploadSessions (send_failed now tid u err mac)) tid = Some sess"
  defines "first \<equiv> map (\<lambda>i. upload_chunk nonce tid (up_remote u) (up_policy u) (up_mtime u)
             (up_content u) (up_stride u) (int i)) [0..<m]"
  defines "retry \<equiv> map (\<lambda>i. resume_payload nonce sess (up_content u) (int i)) [asked..<n]"
  defines "st' \<equiv> fold (\<lambda>p. ingestFileChunk staging (clock p) NoFault p) (first @ retry) st"
  shows "fst (resume_start sess (Some (up_content u)) (int asked) mac) = Inr None \<and>
         (\<exists>tr. transfer st' tid = Some tr \<and> ft_Status tr = ''done'' \<and>
           fs_disk st' (ft_tmpPath tr) = Some (up_content u))"
proof
  let ?k = "up_stride u" and ?c = "up_content u"
  let ?p = "\<lambda>i. upload_chunk nonce tid (up_remote u) (up_policy u) (up_mtime u) ?c ?k (int i)"
  have k: "file_stride ?k" "0 < ?k" using assms(1) file_stride_bounds[of ?k] by (simp_all add: upload_ok_def)
  have n: "n = up_count ?c ?k" "0 < n" using assms(3,5) by (simp_all add: up_count_def up_chunks_def up_size_def)
  have c: "carries tid ?c (nat ?k) n i (?p i)" if "i < n" for i
    unfolding n(1) by (rule upload_chunk_carries[OF assms(1)]) (use that n(1) in simp)
  have "asked * nat ?k \<le> length ?c" using c[of asked] assms(4,5) by (simp add: carries_def)
  then have "int asked * ?k \<le> int (length ?c)"
    using k(2) by (metis int_nat_eq less_imp_le of_nat_le_iff of_nat_mult)
  moreover have "resume_stride sess = ?k" "us_TotalChunks sess = int n"
    using k(2) n chunk_count(3)[OF assms(1)]
    by (simp_all add: resume_stride_def saved_session[OF assms(6)] up_chunks_def up_size_def)
  ultimately show "fst (resume_start sess (Some ?c) (int asked) mac) = Inr None"
    using assms(4,5) by (simp add: resume_start_def)
  let ?is = "[0..<m] @ [asked..<n - 1]"
  let ?ips = "map (\<lambda>i. (i, clock (?p i), ?p i)) ?is"
  have "[asked..<n] = [asked..<n - 1] @ [n - 1]"
    using assms(4,5) n(2) by (metis Suc_diff_1 less_Suc_eq_le order_le_less_trans upt_Suc_append)
  then have "first @ retry = map ?p (?is @ [n - 1])"
    by (simp add: first_def retry_def resume_payload_same[OF assms(6) k(2)])
  then have e: "st' = fold (\<lambda>(i, now, p). ingestFileChunk staging now NoFault p)
      (?ips @ [(n - 1, clock (?p (n - 1)), ?p (n - 1))]) st"
    by (simp add: st'_def fold_map comp_def)
  have g: "gapless 0 ?is \<and> n - 1 \<le> frontier 0 ?is"
    using gapless_upt[of 0 0 m] gapless_upt[of asked m "n - 1"] assms(4,5)
    by (simp add: gapless_append frontier_append)
  have f: "map fst ?ips = ?is" by (simp add: comp_def)
  have all: "\<forall>(i, now, p) \<in> set ?ips. carries tid ?c (nat ?k) n i p \<and> i < n - 1"
    using c assms(5) by auto
  show "\<exists>tr. transfer st' tid = Some tr \<and> ft_Status tr = ''done'' \<and>
      fs_disk st' (ft_tmpPath tr) = Some ?c"
    unfolding e
    by (rule delivered[OF assms(2) _ _ all c n(2)]) (unfold f, use g n(2) in simp_all)
qed

abbreviation sample_upload :: upload where
  "sample_upload \<equiv> \<lparr>up_local = ''/a.bin'', up_remote = ''a.bin'', up_policy = [], up_mtime = 7,
     up_content = ''hello'', up_stride = LegacyFileChunkRaw, up_batch = []\<rparr>"

definition sample_session :: NativeUploadSession where
  "sample_session =
     \<lparr>us_TransferID = sample_tid, us_LocalPath = ''/a.bin'', us_RemotePath = ''a.bin'', us_TotalSize = 5,
      us_TotalChunks = 1, us_ChunkSize = LegacyFileChunkRaw, us_Policy = [], us_SourceMtime = 7,
      us_CreatedAt = 0\<rparr>"

lemma sample_saved:
  "map_of (fs_uploadSessions (send_failed 0 sample_tid sample_upload ''offline'' empty_files)) sample_tid =
     Some sample_session"
  using sample_upload_ok(2)
  by (simp add: send_failed_def saveNativeSession_def up_size_def up_chunks_def sample_session_def
      normalizeWirePolicy_def failTransfer_def go_consts)

theorem interrupted_upload_delivered_witness:
  "\<exists>tr. transfer (ingestFileChunk ''/s'' 0 NoFault (resume_payload ''n'' sample_session ''hello'' 0)
      empty_files) sample_tid = Some tr \<and> ft_Status tr = ''done''"
proof -
  have ok: "upload_ok ''n'' sample_tid (up_remote sample_upload) (up_mtime sample_upload)
      (up_content sample_upload) (up_stride sample_upload)"
    using sample_upload_ok(1) by simp
  have "unknown_to empty_files sample_tid" by (simp add: unknown_to_def)
  moreover have "up_chunks sample_upload = 1"
    using sample_upload_ok(2) by (simp add: up_chunks_def up_size_def)
  ultimately show ?thesis
    using interrupted_upload_delivered[OF ok _ _ _ _ sample_saved, where st = empty_files and n = 1
        and asked = 0 and m = 0 and staging = "''/s''" and clock = "\<lambda>_. 0"] by auto
qed

end
