(* ===== verification/File_Steps.thy ===== *)
theory File_Steps
  imports File_Delivery
begin

text \<open>
  The operations on the tables of file transfers as a step relation, the invariant they keep, and
  what the bookkeeping promises the user interface: acknowledgements decide running transfers
  only, whoever waits is answered, finished rows go away. The last section shows where a
  cancelled or refused upload is offered for a retry against the code's word.
\<close>

section \<open>Tables\<close>

definition table_ok :: "(string \<Rightarrow> 'v \<Rightarrow> bool) \<Rightarrow> 'v table \<Rightarrow> bool" where
  "table_ok P al \<longleftrightarrow> distinct (map fst al) \<and> (\<forall>(k, v) \<in> set al. P k v)"

lemma table_ok_Nil [simp]: "table_ok P []"
  by (simp add: table_ok_def)

lemma table_ok_lookup: "table_ok P al \<Longrightarrow> map_of al k = Some v \<Longrightarrow> P k v"
  by (auto simp: table_ok_def dest: map_of_SomeD)

lemma set_update_subset: "set (AList.update k v al) \<subseteq> insert (k, v) (set al)"
  by (induction al) auto

lemma table_ok_update: "table_ok P al \<Longrightarrow> P k v \<Longrightarrow> table_ok P (AList.update k v al)"
  using set_update_subset[of k v al] by (fastforce simp: table_ok_def intro: distinct_update)

lemma table_ok_filter: "table_ok P al \<Longrightarrow> table_ok P (filter Q al)"
  by (auto simp: table_ok_def distinct_map_filter)

lemma table_ok_delete: "table_ok P al \<Longrightarrow> table_ok P (AList.delete k al)"
  by (simp add: AList.delete_eq table_ok_filter)

section \<open>The invariant\<close>

definition row_ok :: "string \<Rightarrow> FileTransfer \<Rightarrow> bool" where
  "row_ok tid tr \<longleftrightarrow>
     ft_ID tr = tid \<and> ft_Status tr \<in> {''running'', ''done'', ''error'', ''cancelled''} \<and>
     (ft_Status tr \<noteq> ''running'' \<longrightarrow> ft_completedAt tr \<noteq> None) \<and>
     ft_Direction tr \<in> {''upload'', ''download''}"

definition batch_ok :: "string \<Rightarrow> TransferBatch \<Rightarrow> bool" where
  "batch_ok bid b \<longleftrightarrow>
     ba_ID b = bid \<and> ba_Status b \<in> {''running'', ''cancelled''} \<and>
     1 \<le> ba_TotalFiles b \<and> ba_TotalFiles b \<le> 10000 \<and> 0 \<le> ba_TotalBytes b"

definition native_ok :: "string \<Rightarrow> NativeUploadSession \<Rightarrow> bool" where
  "native_ok tid s \<longleftrightarrow>
     us_TransferID s = tid \<and> us_RemotePath s \<noteq> [] \<and> 0 < us_ChunkSize s \<and>
     us_TotalChunks s = TotalChunksForSize (us_TotalSize s) (us_ChunkSize s)"

definition browser_ok :: "string \<Rightarrow> BrowserUploadSession \<Rightarrow> bool" where
  "browser_ok tid s \<longleftrightarrow>
     bu_ID s = tid \<and> SanitizeFilePath (bu_RemotePath s) \<noteq> None \<and> bu_RemotePath s \<noteq> [] \<and>
     0 \<le> bu_TotalSize s \<and> bu_TotalSize s \<le> MaxFileTotalSize \<and>
     bu_TotalChunks s = TotalChunksForSize (bu_TotalSize s) LegacyFileChunkRaw \<and>
     0 \<le> bu_NextChunk s \<and> bu_NextChunk s \<le> bu_TotalChunks s"

definition files_ok :: "FileState \<Rightarrow> bool" where
  "files_ok st \<longleftrightarrow>
     table_ok row_ok (fs_transfers st) \<and> table_ok batch_ok (fs_batches st) \<and>
     table_ok native_ok (fs_uploadSessions st) \<and> table_ok browser_ok (fs_browserUploads st)"

named_theorems files_ok_intros

lemma files_ok_empty: "files_ok empty_files"
  by (simp add: files_ok_def)

lemma files_ok_put [files_ok_intros]: "files_ok st \<Longrightarrow> row_ok tid tr \<Longrightarrow> files_ok (put_transfer tid tr st)"
  by (simp add: files_ok_def put_transfer_def table_ok_update)

lemma files_ok_row: "files_ok st \<Longrightarrow> transfer st tid = Some tr \<Longrightarrow> row_ok tid tr"
  by (auto simp: files_ok_def dest: table_ok_lookup)

lemma files_ok_simps [simp]:
  "files_ok (st\<lparr>fs_disk := d\<rparr>) = files_ok st"
  "files_ok (st\<lparr>fs_waiters := w\<rparr>) = files_ok st"
  "files_ok (st\<lparr>fs_lists := l\<rparr>) = files_ok st"
  "files_ok (st\<lparr>fs_lastList := r\<rparr>) = files_ok st"
  "files_ok (st\<lparr>fs_statWaiters := sw\<rparr>) = files_ok st"
  "files_ok (notify tid e st) = files_ok st"
  "files_ok (drop_waiter tid st) = files_ok st"
  by (simp_all add: files_ok_def notify_def drop_waiter_def)

lemma files_ok_refresh [files_ok_intros]:
  "files_ok st \<Longrightarrow> files_ok (refreshBatchCompletion now b st)"
  by (auto simp: refreshBatchCompletion_def files_ok_def batch_ok_def split: option.split
      intro!: table_ok_update dest: table_ok_lookup)

lemma files_ok_fail [files_ok_intros]: "files_ok st \<Longrightarrow> files_ok (failTransfer now tid msg st)"
  using files_ok_row[of st tid]
  by (auto simp: failTransfer_def Let_def row_ok_def split: option.split intro!: files_ok_intros)

lemma files_ok_delete_native [files_ok_intros]:
  "files_ok st \<Longrightarrow> files_ok (st\<lparr>fs_uploadSessions := AList.delete tid (fs_uploadSessions st)\<rparr>)"
  by (simp add: files_ok_def table_ok_delete)

lemma files_ok_delete_browser [files_ok_intros]:
  "files_ok st \<Longrightarrow> files_ok (st\<lparr>fs_browserUploads := AList.delete tid (fs_browserUploads st)\<rparr>)"
  by (simp add: files_ok_def table_ok_delete)

lemma files_ok_stop:
  "files_ok st \<Longrightarrow> row_ok tid tr \<Longrightarrow> files_ok (stop_transfer now tid tr st)"
  by (auto simp: stop_transfer_def Let_def files_ok_def put_transfer_def row_ok_def
      intro!: table_ok_update table_ok_delete)

lemma files_ok_cancel:
  "files_ok st \<Longrightarrow> CancelTransfer now tid st = Inr (p, st') \<Longrightarrow> files_ok st'"
  using files_ok_row[of st tid]
  by (auto simp: CancelTransfer_def split: option.splits if_splits intro!: files_ok_intros files_ok_stop)

lemma files_ok_finish [files_ok_intros]: "files_ok st \<Longrightarrow> files_ok (finish_upload now tid n st)"
  using files_ok_row[of st tid]
  by (auto simp: finish_upload_def row_ok_def split: option.split intro!: files_ok_intros)

lemma files_ok_resumable [files_ok_intros]: "files_ok st \<Longrightarrow> files_ok (set_resumable r tid st)"
  using files_ok_row[of st tid]
  by (auto simp: set_resumable_def row_ok_def split: option.split intro!: files_ok_intros)

lemma files_ok_done_size [files_ok_intros]: "files_ok st \<Longrightarrow> files_ok (set_done_size tid n st)"
  using files_ok_row[of st tid]
  by (auto simp: set_done_size_def row_ok_def split: option.split intro!: files_ok_intros)

section \<open>Receiving\<close>

lemma row_ok_new [simp]: "row_ok (fc_TransferID p) (new_download staging p)"
  by (simp add: row_ok_def new_download_def)

lemma row_ok_feed [simp]: "row_ok tid (feed_hash p raw tr) = row_ok tid tr"
  by (auto simp: row_ok_def feed_hash_def Let_def split: option.split)

lemma row_ok_simps [simp]:
  "row_ok tid (tr\<lparr>ft_file := b\<rparr>) = row_ok tid tr"
  "row_ok tid (tr\<lparr>ft_DoneSize := n\<rparr>) = row_ok tid tr"
  "row_ok tid (tr\<lparr>ft_tmpPath := path\<rparr>) = row_ok tid tr"
  "row_ok tid (tr\<lparr>ft_Error := err\<rparr>) = row_ok tid tr"
  by (simp_all add: row_ok_def)

lemma row_ok_status:
  "row_ok tid tr \<Longrightarrow> row_ok tid (tr\<lparr>ft_Status := ''running''\<rparr>)"
  "row_ok tid tr \<Longrightarrow> s \<in> {''done'', ''error'', ''cancelled''} \<Longrightarrow>
     row_ok tid (tr\<lparr>ft_Status := s, ft_completedAt := Some now\<rparr>)"
  by (auto simp: row_ok_def)

lemma files_ok_commit_error:
  "files_ok st \<Longrightarrow> row_ok tid tr \<Longrightarrow> files_ok (commit_error now tid msg tr st)"
  by (auto simp: commit_error_def row_ok_def intro!: files_ok_put)

lemma files_ok_commit_chunk:
  "files_ok st \<Longrightarrow> row_ok (fc_TransferID p) tr \<Longrightarrow> files_ok (commit_chunk now fault p tr st)"
  by (auto simp: commit_chunk_def Let_def row_ok_def split: option.split
      intro!: files_ok_put files_ok_commit_error)

lemma files_ok_stage_chunk:
  assumes "files_ok st" "row_ok (fc_TransferID p) tr"
  shows "case stage_chunk now fault p raw tr st of
           Inl st' \<Rightarrow> files_ok st' | Inr (tr', st') \<Rightarrow> files_ok st' \<and> row_ok (fc_TransferID p) tr'"
  using assms by (simp add: stage_chunk_def Let_def files_ok_fail files_ok_put)

lemma files_ok_chunk:
  assumes "files_ok st"
  shows "files_ok (ingestFileChunk staging now fault p st)"
proof (cases rule: ingest_cases[of staging now fault p st])
  case (2 raw)
  have tr: "row_ok (fc_TransferID p) (transfer_for staging p st)"
    using files_ok_row[OF assms] by (auto simp: transfer_for_def split: option.split)
  have "case stage_chunk now fault p raw (transfer_for staging p st)
      (put_transfer (fc_TransferID p) (transfer_for staging p st) st) of
        Inl st' \<Rightarrow> files_ok st' | Inr (tr', st') \<Rightarrow> files_ok st' \<and> row_ok (fc_TransferID p) tr'"
    by (rule files_ok_stage_chunk[OF files_ok_put[OF assms tr] tr])
  then show ?thesis
    unfolding 2(4)
    by (auto split: sum.splits intro!: files_ok_commit_chunk files_ok_put row_ok_status(1))
qed (use assms in simp)

lemma files_ok_register_download:
  "files_ok st \<Longrightarrow> files_ok (register_download tid remotePath base st)"
  by (auto simp: register_download_def row_ok_def intro!: files_ok_put)

lemma files_ok_ack: "files_ok st \<Longrightarrow> files_ok (ingestFileAck now p st)"
  using files_ok_row[of st "fa_TransferID p"]
  by (auto simp: ingestFileAck_def Let_def row_ok_def split: option.split intro!: files_ok_put)

lemma files_ok_remote_cancel: "files_ok st \<Longrightarrow> files_ok (ingestFileCancel now p st)"
  using files_ok_row[of st "fx_TransferID p"]
  by (auto simp: ingestFileCancel_def Let_def row_ok_def split: option.split intro!: files_ok_put)

lemma files_ok_lists [simp]: "files_ok (ingestFileListResp p st) = files_ok st"
  by (simp add: ingestFileListResp_def Let_def)

lemma files_ok_stat [simp]: "files_ok (ingestFileStatResp p st) = files_ok st"
  by (simp add: ingestFileStatResp_def)

lemma files_ok_body: "files_ok st \<Longrightarrow> files_ok (ingestFileBody staging now fault t body st)"
  by (simp add: ingestFileBody_def ingest_if_def files_ok_chunk files_ok_ack files_ok_remote_cancel
      split: option.split)

section \<open>Snapshots and drops\<close>

lemma files_ok_drop_transfers: "files_ok st \<Longrightarrow> files_ok (drop_transfers gone st)"
  by (simp add: drop_transfers_def files_ok_def table_ok_filter)

lemma files_ok_stall: "files_ok st \<Longrightarrow> files_ok (stall_transfer now tid st)"
  using files_ok_row[of st tid]
  by (auto simp: stall_transfer_def row_ok_def split: option.split intro!: files_ok_put)

lemma files_ok_fold:
  assumes "\<And>x st. x \<in> set xs \<Longrightarrow> files_ok st \<Longrightarrow> files_ok (f x st)" "files_ok st"
  shows "files_ok (fold f xs st)"
  using assms by (induction xs arbitrary: st) auto

lemma files_ok_sweep_browser: "files_ok st \<Longrightarrow> files_ok (snd (sweepBrowserUploads now st))"
  by (auto simp: sweepBrowserUploads_def Let_def files_ok_def intro!: table_ok_filter
      files_ok_fold[unfolded files_ok_def] files_ok_stall[unfolded files_ok_def])

lemma files_ok_sweep_native: "files_ok st \<Longrightarrow> files_ok (snd (sweepUploadSessions now st))"
  by (auto simp: sweepUploadSessions_def Let_def files_ok_def intro!: table_ok_filter
      files_ok_fold[unfolded files_ok_def] files_ok_resumable[unfolded files_ok_def])

lemma files_ok_GetTransfers: "files_ok st \<Longrightarrow> files_ok (snd (GetTransfers now st))"
  using files_ok_sweep_browser[of st now] files_ok_sweep_native[of "snd (sweepBrowserUploads now st)" now]
  by (simp add: GetTransfers_def Let_def split_beta files_ok_drop_transfers)

lemma files_ok_prune_batch:
  assumes "files_ok st" "batch_ok bid b"
  shows "files_ok (prune_batch now (bid, b) st)"
proof -
  have "files_ok (st\<lparr>fs_batches := AList.delete bid (fs_batches st)\<rparr>)"
    using assms(1) by (simp add: files_ok_def table_ok_delete)
  moreover have "files_ok (st\<lparr>fs_batches := AList.update bid (b\<lparr>ba_completedAt := Some now\<rparr>) (fs_batches st)\<rparr>)"
    using assms by (simp add: files_ok_def table_ok_update batch_ok_def)
  ultimately show ?thesis
    using assms(1) by (simp add: prune_batch_def files_ok_drop_transfers split: option.split)
qed

lemma files_ok_GetTransferBatches: "files_ok st \<Longrightarrow> files_ok (snd (GetTransferBatches now st))"
  by (auto simp: GetTransferBatches_def Let_def files_ok_def[of st] table_ok_def[of batch_ok]
      intro!: files_ok_fold files_ok_prune_batch)

lemma files_ok_begin_batch: "files_ok st \<Longrightarrow> files_ok (snd (BeginUploadBatch now n bytes r st))"
  by (auto simp: BeginUploadBatch_def files_ok_def batch_ok_def split: option.split intro!: table_ok_update)

lemma files_ok_attach: "files_ok st \<Longrightarrow> files_ok (snd (AttachTransferToBatch tid bid st))"
  using files_ok_row[of st tid]
  by (auto simp: AttachTransferToBatch_def row_ok_def split: option.split intro!: files_ok_put)

lemma files_ok_cancel_batch: "files_ok st \<Longrightarrow> files_ok (snd (CancelUploadBatch now bid st))"
proof -
  assume ok: "files_ok st"
  have "files_ok (st\<lparr>fs_batches := AList.update bid (b\<lparr>ba_Status := ''cancelled'', ba_completedAt := Some now\<rparr>) (fs_batches st)\<rparr>)"
    if "map_of (fs_batches st) bid = Some b" for b
    using ok that by (auto simp: files_ok_def batch_ok_def intro!: table_ok_update dest: table_ok_lookup)
  moreover have "row_ok tid tr" if "(tid, tr) \<in> set (members_running bid st)" for tid tr
    using ok that by (auto simp: members_running_def files_ok_def table_ok_def)
  ultimately show ?thesis using ok
    by (auto simp: CancelUploadBatch_def Let_def split: option.split intro!: files_ok_fold files_ok_stop)
qed

section \<open>Sending\<close>

definition valid_upload :: "upload \<Rightarrow> bool" where
  "valid_upload u \<longleftrightarrow> up_remote u \<noteq> [] \<and> 0 < up_stride u"

lemma files_ok_begin [files_ok_intros]: "files_ok st \<Longrightarrow> files_ok (send_begin tid u st)"
  by (auto simp: send_begin_def row_ok_def intro!: files_ok_put)

lemma files_ok_save: "files_ok st \<Longrightarrow> valid_upload u \<Longrightarrow> files_ok (saveNativeSession now tid u st)"
  unfolding saveNativeSession_def
  by (rule files_ok_resumable)
    (simp add: files_ok_def table_ok_update native_ok_def valid_upload_def up_chunks_def up_size_def)

lemma files_ok_deferred [files_ok_intros]: "files_ok st \<Longrightarrow> files_ok (send_deferred now tid u st)"
  by (simp add: send_deferred_def files_ok_intros)

lemma files_ok_send_failed:
  "files_ok st \<Longrightarrow> valid_upload u \<Longrightarrow> files_ok (send_failed now tid u err st)"
  by (simp add: send_failed_def files_ok_intros files_ok_save)

lemma files_ok_put_chunk:
  "files_ok st \<Longrightarrow> files_ok (snd (put_chunk wantsAck nonce tid u idx outcomes st))"
  by (simp add: put_chunk_def Let_def files_ok_intros split: option.split)

lemma files_ok_send_chunk:
  assumes "files_ok st" "valid_upload u"
  shows "files_ok (snd (send_chunk now wantsAck nonce tid u idx rf outcomes st))"
    "files_ok (snd (pipe_chunk now wantsAck nonce tid u idx rf outcomes st))"
  using assms files_ok_put_chunk[OF assms(1), of wantsAck nonce tid u idx outcomes]
  by (auto simp: send_chunk_def pipe_chunk_def split: prod.split sum.split
      intro!: files_ok_intros files_ok_send_failed)

lemma files_ok_wait_ack: "files_ok (snd (wait_ack tid st)) = files_ok st"
  by (simp add: wait_ack_def split: option.split)

lemma files_ok_send_finish:
  assumes "files_ok st" "valid_upload u"
  shows "files_ok (snd (send_finish now wantsAck tid u st))"
    "files_ok (snd (completeUploadSend now wantsAck there tid u st))"
  using assms files_ok_wait_ack[of tid st]
  by (auto simp: send_finish_def completeUploadSend_def split: prod.split option.split
      intro!: files_ok_intros files_ok_send_failed)

lemma files_ok_drop_native [files_ok_intros]: "files_ok st \<Longrightarrow> files_ok (dropNativeSession tid st)"
  unfolding dropNativeSession_def by (rule files_ok_resumable) (rule files_ok_delete_native)

lemma files_ok_resume:
  assumes "files_ok st"
  shows "files_ok (snd (ResumeUpload_begin tid stat paired st))"
    "files_ok (snd (resume_start sess content asked st))"
    "files_ok (snd (resume_chunk now wantsAck nonce sess c idx rf outcomes st))"
    "files_ok (snd (resume_finish now wantsAck sess bid st))"
  using assms files_ok_row[OF assms, of "us_TransferID sess"] files_ok_wait_ack[of "us_TransferID sess" st]
  by (auto simp: ResumeUpload_begin_def resume_start_def resume_chunk_def resume_finish_def Let_def
      resume_row_def row_ok_def split: option.split prod.split intro!: files_ok_intros)

section \<open>Slices from the browser\<close>

lemma files_ok_browser_begin:
  assumes "files_ok st" "0 \<le> len" "len \<le> MaxFileTotalSize"
  shows "files_ok (snd (beginBrowserSessionInBatch now path len policy mtime bid paired r st))"
proof -
  have "0 \<le> TotalChunksForSize len LegacyFileChunkRaw"
    using assms TotalChunksForSize_pos(4)[of len LegacyFileChunkRaw]
    by (cases "len = 0") (auto simp: file_stride_def TotalChunksForSize_def Let_def)
  then show ?thesis
    using assms
    by (auto simp: beginBrowserSessionInBatch_def files_ok_def browser_ok_def row_ok_def put_transfer_def
        split: option.split intro!: table_ok_update)
qed

lemma files_ok_browser_uploads:
  assumes "files_ok st"
  shows "files_ok (snd (BeginBrowserUpload now name rel dir len policy mtime paired r st))"
    "files_ok (snd (BeginBrowserUploadInBatch now name rel dir len policy mtime bid paired r st))"
    "files_ok (snd (BeginBrowserUploadToPathInBatch now path len policy mtime bid paired r st))"
  using assms files_ok_browser_begin[OF assms]
  by (auto simp: BeginBrowserUpload_def BeginBrowserUploadInBatch_def BeginBrowserUploadToPathInBatch_def
      split_beta split: prod.split sum.split)

lemma files_ok_session: "files_ok st \<Longrightarrow> map_of (fs_browserUploads st) tid = Some s \<Longrightarrow> browser_ok tid s"
  by (auto simp: files_ok_def dest: table_ok_lookup)

lemma files_ok_put_session: "files_ok st \<Longrightarrow> browser_ok tid s \<Longrightarrow> files_ok (put_session tid s st)"
  by (simp add: put_session_def files_ok_def table_ok_update)

lemma browser_ok_simps [simp]:
  "browser_ok tid (s\<lparr>bu_UpdatedAt := now\<rparr>) = browser_ok tid s"
  "browser_ok tid (s\<lparr>bu_Hash := h\<rparr>) = browser_ok tid s"
  by (simp_all add: browser_ok_def)

lemma browser_ok_advance:
  "browser_ok tid s \<Longrightarrow> bu_NextChunk s < bu_TotalChunks s \<Longrightarrow>
   browser_ok tid (s\<lparr>bu_NextChunk := bu_NextChunk s + 1, bu_UpdatedAt := now\<rparr>)"
  "browser_ok tid s \<Longrightarrow> browser_ok tid (s\<lparr>bu_Hash := [], bu_NextChunk := 0\<rparr>)"
  by (auto simp: browser_ok_def)

lemma decoded_in_range: "decodeBrowserSlice b64 s idx = Inr raw \<Longrightarrow> idx < bu_TotalChunks s"
  by (auto simp: decodeBrowserSlice_def slice_size_def split: option.splits if_splits)

lemma files_ok_slice_sent:
  assumes "files_ok st" "browser_ok tid s" "bu_NextChunk s < bu_TotalChunks s"
  shows "files_ok (slice_sent now acked tid s n st)"
proof -
  have r: "row_ok tid tr" if "transfer st tid = Some tr" for tr using files_ok_row[OF assms(1) that] .
  define st1 where "st1 = (case transfer st tid of None \<Rightarrow> st
    | Some tr \<Rightarrow> let tr = tr\<lparr>ft_DoneSize := n\<rparr>
        in put_transfer tid
             (if bu_NextChunk s = bu_TotalChunks s - 1 \<and> \<not> acked \<and> ft_Status tr = ''running''
              then tr\<lparr>ft_Status := ''done'', ft_completedAt := Some now\<rparr> else tr) st)"
  have st1: "files_ok st1"
    using assms(1) r by (auto simp: st1_def Let_def split: option.split intro!: files_ok_put row_ok_status)
  have "slice_sent now acked tid s n st =
      (let st = (if bu_NextChunk s = bu_TotalChunks s - 1
                 then st1\<lparr>fs_browserUploads := AList.delete tid (fs_browserUploads st1)\<rparr>
                 else put_session tid (s\<lparr>bu_NextChunk := bu_NextChunk s + 1, bu_UpdatedAt := now\<rparr>) st1)
       in if bu_NextChunk s = bu_TotalChunks s - 1 \<and> \<not> acked
          then (case transfer st tid of
                  None \<Rightarrow> st
                | Some tr \<Rightarrow> refreshBatchCompletion now (ft_BatchID tr) st)
          else st)"
    unfolding slice_sent_def st1_def Let_def ..
  then show ?thesis
    using st1 files_ok_put_session[OF st1 browser_ok_advance(1)[OF assms(2,3)]]
    by (auto simp: Let_def split: option.split intro!: files_ok_intros)
qed

lemma files_ok_slice_failed:
  "files_ok st \<Longrightarrow> browser_ok tid s \<Longrightarrow> files_ok (slice_failed now tid s err st)"
  by (simp add: slice_failed_def files_ok_put_session files_ok_intros)

lemma files_ok_send_slice:
  assumes "files_ok st"
  shows "files_ok (snd (SendBrowserChunk_begin now wantsAck tid b64 outcomes st))"
proof (cases "map_of (fs_browserUploads st) tid")
  case (Some s)
  let ?s = "\<lambda>raw. s\<lparr>bu_Hash := bu_Hash s @ raw\<rparr>"
  have b: "browser_ok tid (?s raw)" for raw using files_ok_session[OF assms Some] by simp
  have "files_ok (put_session tid (?s raw) st)" for raw by (rule files_ok_put_session[OF assms b])
  then show ?thesis
    using Some assms b decoded_in_range[of b64 s "bu_NextChunk s"]
    by (auto simp: SendBrowserChunk_begin_def Let_def split: sum.split option.split
        intro!: files_ok_slice_failed files_ok_slice_sent files_ok_delete_browser)
qed (use assms in \<open>simp add: SendBrowserChunk_begin_def\<close>)

lemma files_ok_slice_end: "files_ok st \<Longrightarrow> files_ok (snd (SendBrowserChunk_end now tid bid st))"
  using files_ok_wait_ack[of tid st]
  by (auto simp: SendBrowserChunk_end_def Let_def split: prod.split option.split
      intro!: files_ok_intros files_ok_put_session dest: files_ok_session[rotated])

lemma files_ok_abort: "files_ok st \<Longrightarrow> files_ok (snd (AbortBrowserUpload now tid st))"
  using files_ok_row[of st tid]
  by (auto simp: AbortBrowserUpload_def Let_def row_ok_def split: option.split
      intro!: files_ok_intros)

lemma files_ok_rehash:
  assumes "files_ok st"
  shows "files_ok (snd (RehashBrowserChunk now tid b64 st))"
proof (cases "map_of (fs_browserUploads st) tid")
  case (Some s)
  have "browser_ok tid (s\<lparr>bu_Hash := h, bu_NextChunk := bu_NextChunk s + 1, bu_UpdatedAt := now\<rparr>)"
    if "bu_NextChunk s < bu_TotalChunks s" for h
    using browser_ok_advance(1)[of tid "s\<lparr>bu_Hash := h\<rparr>"] files_ok_session[OF assms Some] that by simp
  then show ?thesis
    using Some assms decoded_in_range[of b64 s]
    by (auto simp: RehashBrowserChunk_def split: sum.split intro!: files_ok_put_session)
qed (use assms in \<open>simp add: RehashBrowserChunk_def\<close>)

lemma files_ok_browser_resume:
  assumes ok: "files_ok st"
  shows "files_ok (snd (ResumeBrowserUpload_end tid s asked st))"
proof -
  define st1 where "st1 = (case map_of (fs_browserUploads st) tid of None \<Rightarrow> st
    | Some cur \<Rightarrow> put_session tid (cur\<lparr>bu_Hash := [], bu_NextChunk := 0\<rparr>) st)"
  have st1: "files_ok st1"
    using ok files_ok_session[OF ok]
    by (auto simp: st1_def split: option.split intro!: files_ok_put_session browser_ok_advance(2))
  show ?thesis
    using ok st1 files_ok_row[OF st1, of tid]
    unfolding ResumeBrowserUpload_end_def Let_def st1_def[symmetric]
    by (auto simp: row_ok_def split: option.split intro!: files_ok_put)
qed

lemma files_ok_whole_file:
  assumes "files_ok st"
  shows "files_ok (snd (UploadBrowserFile_begin b64 name dir policy mtime paired stride r st))"
    "files_ok (snd (browser_file_chunk now nonce tid u idx e st))"
    "files_ok (UploadBrowserFile_end now tid u st)"
  using assms
  by (auto simp: UploadBrowserFile_begin_def browser_file_chunk_def UploadBrowserFile_end_def Let_def row_ok_def
      split: option.split intro!: files_ok_intros)

section \<open>Steps\<close>

text \<open>
  Every operation of the file manager, in any order: a sender's rounds may be interleaved with
  everything else. A sender works on a valid upload; nothing is assumed of what the phone sends.
\<close>

inductive file_step :: "FileState \<Rightarrow> FileState \<Rightarrow> bool" where
  list_begin: "file_step st (snd (ListPhoneFiles_begin path paired gate r st))"
| list_end: "file_step st (snd (ListPhoneFiles_end req sent st))"
| request: "file_step st (snd (RequestPhoneFile path base paired r made st))"
| request_end: "file_step st (snd (RequestPhoneFile_end now tid e st))"
| drag: "file_step st (snd (DownloadFileToExactPath_begin path dest paired r made st))"
| drag_end: "file_step st (snd (DownloadFileToExactPath_end now tid e st))"
| inbound: "file_step st (ingestFileBody staging now fault t body st)"
| cancel: "CancelTransfer now tid st = Inr (p, st') \<Longrightarrow> file_step st st'"
| batch: "file_step st (snd (BeginUploadBatch now files bytes r st))"
| attach: "file_step st (snd (AttachTransferToBatch tid bid st))"
| cancel_batch: "file_step st (snd (CancelUploadBatch now bid st))"
| snapshot: "file_step st (snd (GetTransfers now st))"
| batch_snapshot: "file_step st (snd (GetTransferBatches now st))"
| upload: "valid_upload u \<Longrightarrow> file_step st (send_begin tid u st)"
| upload_chunk: "valid_upload u \<Longrightarrow>
    file_step st (snd (send_chunk now wantsAck nonce tid u idx rf outcomes st))"
| upload_end: "valid_upload u \<Longrightarrow> file_step st (snd (send_finish now wantsAck tid u st))"
| decided: "file_step st (snd (UploadDecidedFiles now stat paired r ds bid st))"
| pipe_chunk: "valid_upload u \<Longrightarrow>
    file_step st (snd (pipe_chunk now wantsAck nonce tid u idx rf outcomes st))"
| pipe_end: "valid_upload u \<Longrightarrow> file_step st (snd (completeUploadSend now wantsAck there tid u st))"
| ask_offset: "file_step st (snd (queryUploadStat_begin tid st))"
| offset: "file_step st (snd (queryUploadStat_end tid sent st))"
| retry: "file_step st (snd (ResumeUpload_begin tid statf paired st))"
| retry_start: "file_step st (snd (resume_start sess content asked st))"
| retry_chunk: "file_step st (snd (resume_chunk now wantsAck nonce sess c idx rf outcomes st))"
| retry_end: "file_step st (snd (resume_finish now wantsAck sess bid st))"
| browser: "file_step st (snd (BeginBrowserUpload now name rel dir len policy mtime paired r st))"
| browser_batch:
    "file_step st (snd (BeginBrowserUploadInBatch now name rel dir len policy mtime bid paired r st))"
| browser_path:
    "file_step st (snd (BeginBrowserUploadToPathInBatch now path len policy mtime bid paired r st))"
| slice: "file_step st (snd (SendBrowserChunk_begin now wantsAck tid b64 outcomes st))"
| slice_end: "file_step st (snd (SendBrowserChunk_end now tid bid st))"
| abort: "file_step st (snd (AbortBrowserUpload now tid st))"
| browser_retry: "file_step st (snd (ResumeBrowserUpload_end tid sess' asked st))"
| rehash: "file_step st (snd (RehashBrowserChunk now tid b64 st))"
| whole: "file_step st (snd (UploadBrowserFile_begin b64 name dir policy mtime paired stride r st))"
| whole_chunk: "file_step st (snd (browser_file_chunk now nonce tid u idx e st))"
| whole_end: "file_step st (UploadBrowserFile_end now tid u st)"

lemma files_ok_requests:
  assumes "files_ok st"
  shows "files_ok (snd (ListPhoneFiles_begin path paired gate r st))"
    "files_ok (snd (ListPhoneFiles_end req sent st))"
    "files_ok (snd (RequestPhoneFile path base paired r made st))"
    "files_ok (snd (RequestPhoneFile_end now tid e st))"
    "files_ok (snd (DownloadFileToExactPath_begin path dest paired r made st))"
    "files_ok (snd (DownloadFileToExactPath_end now tid e st))"
  using assms
  by (auto simp: ListPhoneFiles_begin_def ListPhoneFiles_end_def RequestPhoneFile_def RequestPhoneFile_end_def
      DownloadFileToExactPath_begin_def DownloadFileToExactPath_end_def Let_def row_ok_def
      split: option.split intro!: files_ok_intros files_ok_register_download)

lemma files_ok_decided: "files_ok st \<Longrightarrow> files_ok (snd (UploadDecidedFiles now stat paired r ds bid st))"
  using files_ok_begin_batch[of st now "int (length ds)" 0 r]
  by (auto simp: UploadDecidedFiles_def split: prod.split sum.split)

lemma files_ok_offset:
  "files_ok st \<Longrightarrow> files_ok (snd (queryUploadStat_begin tid st))"
  "files_ok st \<Longrightarrow> files_ok (snd (queryUploadStat_end tid sent st))"
  by (simp_all add: queryUploadStat_begin_def queryUploadStat_end_def)

lemma file_step_ok: "file_step st st' \<Longrightarrow> files_ok st \<Longrightarrow> files_ok st'"
  by (induction rule: file_step.induct)
    (simp_all add: files_ok_requests files_ok_body files_ok_cancel files_ok_begin_batch files_ok_attach
      files_ok_cancel_batch files_ok_GetTransfers files_ok_GetTransferBatches files_ok_begin
      files_ok_send_chunk files_ok_send_finish files_ok_decided files_ok_offset files_ok_resume
      files_ok_browser_uploads files_ok_send_slice files_ok_slice_end files_ok_abort
      files_ok_browser_resume files_ok_rehash files_ok_whole_file)

lemma file_steps_ok: "file_step\<^sup>*\<^sup>* st st' \<Longrightarrow> files_ok st \<Longrightarrow> files_ok st'"
  by (induction rule: rtranclp_induct) (auto intro: file_step_ok)

section \<open>What the user interface is promised\<close>

text \<open>
  The file manager keeps its tables in order whatever happens: in every state it can reach, keys
  are unique and name their rows, a transfer that does not run has an end, a drop is running or
  cancelled and counts up to 10000 files, a retry session knows the phone's path and its chunk
  count, a browser session is within its slices. So a snapshot leaves, beside running transfers,
  only what ended within five seconds and the members of a drop that is still listed.
\<close>

lemma drop_transfers_rows: "x \<in> set (fs_transfers (drop_transfers gone st)) \<Longrightarrow>
    x \<in> set (fs_transfers st) \<and> \<not> gone (snd x)"
  by (auto simp: drop_transfers_def)

theorem file_manager_invariant:
  assumes "file_step\<^sup>*\<^sup>* empty_files st"
  shows "files_ok st \<and>
         (\<forall>(tid, tr) \<in> set (fs_transfers (snd (GetTransfers now st))).
            ft_Status tr = ''running'' \<or>
            (\<exists>t. ft_completedAt tr = Some t \<and> now - t \<le> 5 * second) \<or>
            map_of (fs_batches st) (ft_BatchID tr) \<noteq> None)"
proof
  show ok: "files_ok st" by (rule file_steps_ok[OF assms files_ok_empty])
  let ?st1 = "snd (sweepBrowserUploads now st)"
  let ?st2 = "snd (sweepUploadSessions now ?st1)"
  have ok2: "files_ok ?st2" by (intro files_ok_sweep_native files_ok_sweep_browser ok)
  have fold: "fs_batches (fold f xs s) = fs_batches s" if "\<And>x s. fs_batches (f x s) = fs_batches s"
    for f :: "'x \<Rightarrow> FileState \<Rightarrow> FileState" and xs s
    using that by (induction xs arbitrary: s) simp_all
  have "fs_batches (stall_transfer now tid s) = fs_batches s" for tid s
    by (simp add: stall_transfer_def split: option.split)
  then have b: "fs_batches ?st2 = fs_batches st"
    by (simp add: sweepBrowserUploads_def sweepUploadSessions_def Let_def fold split_beta)
  have snap: "snd (GetTransfers now st) = drop_transfers (prunable now ?st2) ?st2"
    by (simp add: GetTransfers_def Let_def split_beta)
  show "\<forall>(tid, tr) \<in> set (fs_transfers (snd (GetTransfers now st))).
      ft_Status tr = ''running'' \<or> (\<exists>t. ft_completedAt tr = Some t \<and> now - t \<le> 5 * second) \<or>
      map_of (fs_batches st) (ft_BatchID tr) \<noteq> None"
  proof
    fix x assume left: "x \<in> set (fs_transfers (snd (GetTransfers now st)))"
    have "x \<in> set (fs_transfers ?st2)" "\<not> prunable now ?st2 (snd x)"
      using drop_transfers_rows[OF left[unfolded snap]] by simp_all
    moreover from this(1) have "row_ok (fst x) (snd x)" using ok2 by (auto simp: files_ok_def table_ok_def)
    ultimately show "case x of (tid, tr) \<Rightarrow>
        ft_Status tr = ''running'' \<or> (\<exists>t. ft_completedAt tr = Some t \<and> now - t \<le> 5 * second) \<or>
        map_of (fs_batches st) (ft_BatchID tr) \<noteq> None"
      by (auto simp: prunable_def row_ok_def b split: option.splits)
  qed
qed

theorem file_manager_invariant_witness:
  "files_ok (send_begin sample_tid sample_upload empty_files)"
proof -
  have "file_step empty_files (send_begin sample_tid sample_upload empty_files)"
    by (rule file_step.upload) (simp add: valid_upload_def go_consts)
  then show ?thesis using file_manager_invariant[of "send_begin sample_tid sample_upload empty_files" 0] by blast
qed

text \<open>
  The first answer counts: a delivery confirmation that is repeated, or contradicted by a later
  one, changes nothing, and the sender that waited for it ends the way it says.
\<close>

lemma second_ack:
  assumes "fa_TransferID p' = fa_TransferID p"
  shows "ingestFileAck now' p' (ingestFileAck now p st) = ingestFileAck now p st"
proof -
  let ?tid = "fa_TransferID p"
  have d: "deliver ?tid e' (deliver ?tid e w) = deliver ?tid e w" for e e' and w :: "string option waiters"
    by (auto simp: deliver_def offer_def split: option.splits)
  have n: "notify ?tid e' s = s" if "fs_waiters s = deliver ?tid e w" for e e' w s
    using that by (simp add: notify_def d)
  have stopped: "\<not> (\<exists>tr. transfer (ingestFileAck now p st) ?tid = Some tr \<and> ft_Status tr = ''running'')"
    by (auto simp: ingestFileAck_def Let_def split: option.splits if_splits)
  have w: "fs_waiters (ingestFileAck now p st) = deliver ?tid (ackError p) (fs_waiters st)"
    by (simp add: ingestFileAck_def Let_def split: option.split)
  show ?thesis
    unfolding ingestFileAck_def[of now' p'] assms Let_def n[OF w]
    using stopped by (auto split: option.split)
qed

theorem first_ack_decides:
  fixes now now' t :: int
  assumes "fa_TransferID p = tid" "fa_TransferID p' = tid" "transfer st tid = Some tr"
    and "ft_Status tr = ''running''" "ft_TotalSize tr = up_size u" "fs_waiters st tid = Some None"
  defines "st' \<equiv> ingestFileAck now' p' (ingestFileAck now p st)"
  defines "res \<equiv> send_finish t True tid u st'"
  shows "fst res = (if fa_OK p then None else Some (''delivery not confirmed: '' @ ackReason p)) \<and>
         (\<exists>tr'. transfer (snd res) tid = Some tr' \<and>
            ft_Status tr' = (if fa_OK p then ''done'' else ''error'') \<and>
            (fa_OK p \<longrightarrow> ft_DoneSize tr' = up_size u) \<and> (\<not> fa_OK p \<longrightarrow> ft_Resumable tr')) \<and>
         (if fa_OK p then fs_uploadSessions (snd res) = fs_uploadSessions st
          else map_of (fs_uploadSessions (snd res)) tid \<noteq> None)"
proof -
  have e: "st' = ingestFileAck now p st" unfolding st'_def by (rule second_ack) (simp add: assms(1,2))
  define tr' where "tr' = (if fa_OK p
    then tr\<lparr>ft_Status := ''done'', ft_DoneSize := ft_TotalSize tr, ft_completedAt := Some now\<rparr>
    else tr\<lparr>ft_Status := ''error'', ft_Error := ackReason p, ft_completedAt := Some now\<rparr>)"
  have a: "st' = put_transfer tid tr' (notify tid (ackError p) st)"
    unfolding e tr'_def using assms(1,3,4) by (simp add: ingestFileAck_def Let_def)
  have w: "answer_of tid (fs_waiters st') = Some (ackError p)"
    using assms(6) by (simp add: a answer_of_deliver)
  show ?thesis
  proof (cases "fa_OK p")
    case True
    then show ?thesis
      unfolding res_def send_finish_def wait_ack_def w using assms(5)
      by (simp add: a tr'_def ackError_def send_deferred_def finish_upload_def drop_waiter_def)
  next
    case False
    then show ?thesis
      unfolding res_def send_finish_def wait_ack_def w
      by (simp add: a tr'_def ackError_def send_deferred_def send_failed_def saveNativeSession_def
          failTransfer_def Let_def set_resumable_def finish_upload_def drop_waiter_def update_conv')
  qed
qed

definition confirmed_files :: FileState where
  "confirmed_files =
     (send_begin sample_tid sample_upload empty_files)\<lparr>fs_waiters := register_waiter sample_tid Map.empty\<rparr>"

theorem first_ack_decides_witness:
  "fst (send_finish 0 True sample_tid sample_upload
     (ingestFileAck 0 (zero_FileAckPayload\<lparr>fa_TransferID := sample_tid\<rparr>)
       (ingestFileAck 0 (zero_FileAckPayload\<lparr>fa_TransferID := sample_tid, fa_OK := True\<rparr>)
         confirmed_files))) = None"
  using first_ack_decides[of "zero_FileAckPayload\<lparr>fa_TransferID := sample_tid, fa_OK := True\<rparr>" sample_tid
      "zero_FileAckPayload\<lparr>fa_TransferID := sample_tid\<rparr>" confirmed_files _ sample_upload 0 0 0]
  by (simp add: confirmed_files_def send_begin_def register_waiter_def)

section \<open>Slices are chunks\<close>

text \<open>A browser session that has been fed the first \<open>i\<close> slices of a file.\<close>

definition slice_session :: "string \<Rightarrow> string \<Rightarrow> int \<Rightarrow> string \<Rightarrow> nat \<Rightarrow> BrowserUploadSession \<Rightarrow> bool" where
  "slice_session path policy mtime content i s \<longleftrightarrow>
     bu_RemotePath s = path \<and> bu_TotalSize s = int (length content) \<and>
     bu_TotalChunks s = int (up_count content LegacyFileChunkRaw) \<and>
     bu_Policy s = normalizeWirePolicy policy \<and> bu_SourceMtime s = mtime \<and>
     bu_NextChunk s = int i \<and> bu_Hash s = take (i * nat LegacyFileChunkRaw) content"

definition at_slice :: "string \<Rightarrow> string \<Rightarrow> string \<Rightarrow> int \<Rightarrow> string \<Rightarrow> nat \<Rightarrow> FileState \<Rightarrow> bool" where
  "at_slice tid path policy mtime content i st \<longleftrightarrow>
     (\<exists>s. map_of (fs_browserUploads st) tid = Some s \<and> slice_session path policy mtime content i s)"

abbreviation slice_b64 :: "string \<Rightarrow> nat \<Rightarrow> string" where
  "slice_b64 content i \<equiv> b64_std_encode (cut content (nat LegacyFileChunkRaw) i)"

lemma legacy_stride: "file_stride LegacyFileChunkRaw"
  by (simp add: file_stride_def)

lemma decode_slice:
  assumes "upload_ok tid tid path mtime content LegacyFileChunkRaw"
    and "i < up_count content LegacyFileChunkRaw" "bu_TotalSize s = int (length content)"
    and "bu_TotalChunks s = int (up_count content LegacyFileChunkRaw)"
  shows "decodeBrowserSlice (slice_b64 content i) s (int i) = Inr (cut content (nat LegacyFileChunkRaw) i)"
proof -
  let ?L = "LegacyFileChunkRaw" and ?N = "TotalChunksForSize (int (length content)) LegacyFileChunkRaw"
  have lt: "0 \<le> int i" "int i < ?N" using assms(2) chunk_count(3)[OF assms(1)] by simp_all
  have max: "int (length content) \<le> MaxFileTotalSize" using assms(1) by (simp add: upload_ok_def)
  have nat: "nat (int i * ?L) = i * nat ?L" by (simp add: nat_mult_distrib go_consts)
  have len: "int (length (cut content (nat ?L) i)) =
      (if int i < ?N - 1 then ?L else int (length content) - int i * ?L)"
    using slice_length(1)[OF lt refl max legacy_stride] by (simp only: cut_def nat)
  have w: "wrap64 (int i * ?L) = int i * ?L" by (rule upload_chunk_wrap[OF assms(1) lt])
  have "wrap64 (int (length content) - int i * ?L) = int (length content) - int i * ?L"
    using slice_length(2)[OF lt refl max legacy_stride] lt(1) max
    by (simp add: int64_def go_consts)
  then have "slice_size s (int i) = Some (int (length (cut content (nat ?L) i)))"
    using lt(2) unfolding slice_size_def len assms(3,4) chunk_count(3)[OF assms(1)] w by simp
  then show ?thesis by (simp add: decodeBrowserSlice_def b64_std.dec_enc)
qed

lemma take_cut: "i * k \<le> length content \<Longrightarrow> take (i * k) content @ cut content k i = take ((i + 1) * k) content"
  unfolding cut_def by (metis Suc_eq_plus1 add.commute mult_Suc take_add)

lemma hash_cut:
  assumes "slice_session path policy mtime content i s" "i * nat LegacyFileChunkRaw \<le> length content"
  shows "bu_Hash s @ cut content (nat LegacyFileChunkRaw) i = take ((i + 1) * nat LegacyFileChunkRaw) content"
  using assms take_cut by (simp add: slice_session_def)

lemma slice_payload_is_chunk:
  assumes "upload_ok tid tid path mtime content LegacyFileChunkRaw"
    and "slice_session path policy mtime content i s" "i < up_count content LegacyFileChunkRaw"
  shows "slice_payload s tid (cut content (nat LegacyFileChunkRaw) i) =
           upload_chunk tid tid path policy mtime content LegacyFileChunkRaw (int i)"
proof -
  let ?L = "LegacyFileChunkRaw" and ?raw = "cut content (nat LegacyFileChunkRaw) i"
  have s: "bu_RemotePath s = path" "bu_TotalSize s = int (length content)"
    "bu_TotalChunks s = int (up_count content ?L)" "bu_Policy s = normalizeWirePolicy policy"
    "bu_SourceMtime s = mtime" "bu_NextChunk s = int i" "bu_Hash s = take (i * nat ?L) content"
    using assms(2) by (simp_all add: slice_session_def)
  note n = chunk_count(3)[OF assms(1)]
  have "carries tid content (nat ?L) (up_count content ?L) i
      (upload_chunk tid tid path policy mtime content ?L (int i))"
    by (rule upload_chunk_carries[OF assms(1,3)])
  then have "i * nat ?L \<le> length content" by (simp add: carries_def)
  note hash = hash_cut[OF assms(2) this]
  have w: "wrap64 (int i * ?L) = int i * ?L"
    by (rule upload_chunk_wrap[OF assms(1)]) (use assms(3) n in simp_all)
  have nat: "nat (int i * ?L) = i * nat ?L" by (simp add: nat_mult_distrib go_consts)
  have len: "take (i * nat ?L + length ?raw) content = take ((i + 1) * nat ?L) content"
    unfolding hash[symmetric] s(7) cut_def take_add
    by (cases "length content - i * nat ?L \<le> nat ?L") simp_all
  show ?thesis
    unfolding slice_payload_def Let_def s(1-6) hash n
    unfolding upload_chunk_def Let_def w nat unfolding cut_def[symmetric] len by (rule refl)
qed

text \<open>What sending and replaying a slice do.\<close>

lemma send_slice:
  assumes "upload_ok tid tid path mtime content LegacyFileChunkRaw"
    and "map_of (fs_browserUploads st) tid = Some s" "slice_session path policy mtime content i s"
    and "i < up_count content LegacyFileChunkRaw" "\<not> isTransferCancelled tid st"
    and "sendFileChunkWithRetry outcomes = None"
  defines "raw \<equiv> cut content (nat LegacyFileChunkRaw) i"
  defines "p \<equiv> upload_chunk tid tid path policy mtime content LegacyFileChunkRaw (int i)"
  defines "final \<equiv> i = up_count content LegacyFileChunkRaw - 1"
  defines "st' \<equiv> put_session tid (s\<lparr>bu_Hash := bu_Hash s @ raw\<rparr>) st"
  shows "SendBrowserChunk_begin now wantsAck tid (slice_b64 content i) outcomes st =
           (Inr (p, final),
            slice_sent now wantsAck tid (s\<lparr>bu_Hash := bu_Hash s @ raw\<rparr>) (fc_Offset p + int (length raw))
              (if final \<and> wantsAck then st'\<lparr>fs_waiters := register_waiter tid (fs_waiters st')\<rparr> else st'))"
    "RehashBrowserChunk now tid (slice_b64 content i) st =
       (None, put_session tid (s\<lparr>bu_Hash := bu_Hash s @ raw, bu_NextChunk := bu_NextChunk s + 1,
                                bu_UpdatedAt := now\<rparr>) st)"
proof -
  have s: "bu_TotalSize s = int (length content)" "bu_NextChunk s = int i"
    "bu_TotalChunks s = int (up_count content LegacyFileChunkRaw)"
    using assms(3) by (simp_all add: slice_session_def)
  note dec = decode_slice[OF assms(1,4) s(1,3)]
  note same = slice_payload_is_chunk[OF assms(1,3,4), folded p_def]
  have ok: "SanitizeFileChunk p"
    unfolding p_def
    by (rule upload_chunk_accepted[OF assms(1)]) (use assms(4) chunk_count(3)[OF assms(1)] in simp_all)
  have final: "(int i = int (up_count content LegacyFileChunkRaw) - 1) = final"
    using chunk_count(2)[OF assms(1)] by (auto simp: final_def)
  show "SendBrowserChunk_begin now wantsAck tid (slice_b64 content i) outcomes st =
           (Inr (p, final),
            slice_sent now wantsAck tid (s\<lparr>bu_Hash := bu_Hash s @ raw\<rparr>) (fc_Offset p + int (length raw))
              (if final \<and> wantsAck then st'\<lparr>fs_waiters := register_waiter tid (fs_waiters st')\<rparr> else st'))"
    unfolding SendBrowserChunk_begin_def assms(2) option.case s(2) dec sum.case Let_def same assms(6)
    using ok assms(5) by (simp add: s final st'_def raw_def)
  show "RehashBrowserChunk now tid (slice_b64 content i) st =
      (None, put_session tid (s\<lparr>bu_Hash := bu_Hash s @ raw, bu_NextChunk := bu_NextChunk s + 1,
                               bu_UpdatedAt := now\<rparr>) st)"
    unfolding RehashBrowserChunk_def assms(2) option.case s(2) dec sum.case raw_def by simp
qed

text \<open>
  A slice that the interface hands over is the chunk that a native upload of the same file would
  send: from a session that was fed the slices before it, sending it puts that chunk on the wire,
  replaying it feeds the hash with it, and both leave the session at the next slice. A retry
  begins with an empty hash at the first slice, so what is replayed and then sent is one file.
\<close>

theorem browser_slices_are_chunks:
  fixes now :: int and wantsAck :: bool
  assumes "upload_ok tid tid path mtime content LegacyFileChunkRaw" "at_slice tid path policy mtime content i st"
    and "i < up_count content LegacyFileChunkRaw" "\<not> isTransferCancelled tid st"
    and "sendFileChunkWithRetry outcomes = None"
  defines "sent \<equiv> SendBrowserChunk_begin now wantsAck tid (slice_b64 content i) outcomes st"
  defines "final \<equiv> i = up_count content LegacyFileChunkRaw - 1"
  shows "fst sent = Inr (upload_chunk tid tid path policy mtime content LegacyFileChunkRaw (int i), final) \<and>
         (\<not> final \<longrightarrow> at_slice tid path policy mtime content (i + 1) (snd sent)) \<and>
         at_slice tid path policy mtime content (i + 1)
           (snd (RehashBrowserChunk now tid (slice_b64 content i) st)) \<and>
         (\<forall>asked < int (up_count content LegacyFileChunkRaw).
            at_slice tid path policy mtime content 0 (snd (ResumeBrowserUpload_end tid
              (the (map_of (fs_browserUploads st) tid)) asked st)))"
proof -
  let ?L = "LegacyFileChunkRaw" and ?n = "up_count content LegacyFileChunkRaw"
  obtain s where s: "map_of (fs_browserUploads st) tid = Some s" "slice_session path policy mtime content i s"
    using assms(2) by (auto simp: at_slice_def)
  let ?s = "s\<lparr>bu_Hash := bu_Hash s @ cut content (nat LegacyFileChunkRaw) i\<rparr>"
  note sl = send_slice[OF assms(1) s assms(3,4,5)]
  have "carries tid content (nat ?L) ?n i (upload_chunk tid tid path policy mtime content ?L (int i))"
    by (rule upload_chunk_carries[OF assms(1,3)])
  then have "i * nat ?L \<le> length content" by (simp add: carries_def)
  note hash = hash_cut[OF s(2) this]
  have next_s: "at_slice tid path policy mtime content (i + 1) x"
    if "map_of (fs_browserUploads x) tid =
      Some (?s\<lparr>bu_NextChunk := bu_NextChunk s + 1, bu_UpdatedAt := now\<rparr>)" for x
    using that s(2) hash by (simp add: at_slice_def slice_session_def)
  have put: "map_of (fs_browserUploads (put_session tid x st)) tid = Some x" for x
    by (simp add: put_session_def s(1) update_conv')
  have last: "(bu_NextChunk s = bu_TotalChunks s - 1) = final"
    using s(2) chunk_count(2)[OF assms(1)] by (auto simp: slice_session_def final_def)
  have lookup: "map_of (fs_browserUploads (slice_sent now wantsAck tid ?s m (put_session tid ?s st))) tid =
      Some (?s\<lparr>bu_NextChunk := bu_NextChunk s + 1, bu_UpdatedAt := now\<rparr>)" if "\<not> final" for m
    using that last by (simp add: slice_sent_def Let_def put_session_def s(1) update_conv' split: option.split)
  have resume: "at_slice tid path policy mtime content 0 (snd (ResumeBrowserUpload_end tid s asked st))"
    if "asked < int ?n" for asked
    using that s put[of "s\<lparr>bu_Hash := [], bu_NextChunk := 0\<rparr>"]
    by (simp add: ResumeBrowserUpload_end_def Let_def at_slice_def slice_session_def split: option.split)
  show ?thesis
    unfolding sl(2) using next_s[OF lookup] next_s[OF put] resume
    by (simp add: sent_def sl(1) final_def s(1))
qed

definition sample_browser :: FileState where
  "sample_browser =
     (send_begin sample_tid sample_upload empty_files)\<lparr>fs_browserUploads :=
       [(sample_tid, \<lparr>bu_ID = sample_tid, bu_RemotePath = ''a.bin'', bu_TotalSize = 5, bu_TotalChunks = 1,
          bu_Policy = [], bu_SourceMtime = 7, bu_Hash = [], bu_NextChunk = 0, bu_UpdatedAt = 0\<rparr>)]\<rparr>"

lemma sample_slice:
  "upload_ok sample_tid sample_tid ''a.bin'' 7 ''hello'' LegacyFileChunkRaw"
  "up_count ''hello'' LegacyFileChunkRaw = 1"
  "at_slice sample_tid ''a.bin'' [] 7 ''hello'' 0 sample_browser"
  "\<not> isTransferCancelled sample_tid sample_browser"
  using sample_upload_ok
  by (simp_all add: upload_ok_def up_count_def at_slice_def sample_browser_def slice_session_def
      normalizeWirePolicy_def go_consts isTransferCancelled_def send_begin_def)

theorem browser_slices_are_chunks_witness:
  "fst (SendBrowserChunk_begin 0 True sample_tid (slice_b64 ''hello'' 0) [(None, True)] sample_browser) =
     Inr (upload_chunk sample_tid sample_tid ''a.bin'' [] 7 ''hello'' LegacyFileChunkRaw 0, True)"
  using browser_slices_are_chunks[OF sample_slice(1,3) _ sample_slice(4), of "[(None, True)]" 0 True]
    sample_slice(2)
  by (simp add: sendFileChunkWithRetry_def numeral_3_eq_3)

section \<open>Where the program does not do what it says\<close>

text \<open>
  A cancelled upload is offered for a retry. The comment at \<open>saveNativeSession\<close> says that
  cancelled transfers are user intent and never retained; but a cancellation while the sender
  waits for the confirmation wakes the sender with an error, which it takes for a failed
  delivery: the row says error and resumable, and a retry session is kept. A parallel sender
  that finds its transfer cancelled turns the row from cancelled to error as well.
\<close>

theorem cancelled_upload_retryable:
  fixes now' :: int and u :: upload
  assumes "transfer st tid = Some tr" "fs_waiters st tid = Some None"
    and "CancelTransfer now tid st = Inr (p, st1)"
  defines "st2 \<equiv> snd (send_finish now' True tid u st1)"
  shows "map_option ft_Status (transfer st1 tid) = Some ''cancelled'' \<and>
         map_of (fs_uploadSessions st1) tid = None \<and>
         map_option ft_Status (transfer st2 tid) = Some ''error'' \<and>
         map_option ft_Resumable (transfer st2 tid) = Some True \<and>
         map_of (fs_uploadSessions st2) tid \<noteq> None \<and>
         map_option ft_Status (transfer (snd (pipe_chunk now' ack nonce tid u i rf outs st1)) tid) = Some ''error''"
proof -
  have st1: "st1 = refreshBatchCompletion now (ft_BatchID tr) (stop_transfer now tid tr st)"
    using assms(1,3) by (auto simp: CancelTransfer_def split: if_splits)
  have t: "transfer st1 tid = Some (tr\<lparr>ft_Status := ''cancelled'', ft_completedAt := Some now,
      ft_Resumable := False, ft_file := False\<rparr>)"
    "map_of (fs_uploadSessions st1) tid = None" "fs_waiters st1 = deliver tid (Some ''transfer cancelled'') (fs_waiters st)"
    by (simp_all add: st1 stop_transfer_def Let_def delete_conv')
  have w: "answer_of tid (fs_waiters st1) = Some (Some ''transfer cancelled'')"
    using assms(2) by (simp add: t(3) answer_of_deliver)
  show ?thesis
    unfolding st2_def send_finish_def wait_ack_def w
    using t by (simp add: drop_waiter_def send_deferred_def send_failed_def saveNativeSession_def
        failTransfer_def Let_def set_resumable_def finish_upload_def update_conv' pipe_chunk_def
        isTransferCancelled_def)
qed

theorem cancelled_upload_retryable_witness:
  "\<exists>st1. map_of (fs_uploadSessions (snd (send_finish 1 True sample_tid sample_upload st1))) sample_tid \<noteq> None \<and>
     map_option ft_Status (transfer st1 sample_tid) = Some ''cancelled''"
proof -
  have tr: "\<exists>tr. transfer confirmed_files sample_tid = Some tr \<and> ft_Status tr = ''running''"
    "fs_waiters confirmed_files sample_tid = Some None"
    by (simp_all add: confirmed_files_def send_begin_def register_waiter_def)
  then obtain tr p st1 where "transfer confirmed_files sample_tid = Some tr"
    "CancelTransfer 0 sample_tid confirmed_files = Inr (p, st1)"
    by (auto simp: CancelTransfer_def)
  from cancelled_upload_retryable[OF this(1) tr(2) this(2)] show ?thesis by blast
qed

text \<open>
  A refused browser upload is offered for a retry that does not exist. The session goes when the
  last slice is sent, before its confirmation; when the phone then refuses the file, or does not
  answer, the row is marked resumable, and a retry is told that the upload is no longer
  retryable.
\<close>

theorem refused_slice_not_retryable:
  fixes now now' :: int and bid :: string and p :: FileAckPayload
  assumes "upload_ok tid tid path mtime content LegacyFileChunkRaw" "at_slice tid path policy mtime content i st"
    and "i = up_count content LegacyFileChunkRaw - 1" "transfer st tid = Some tr"
    and "ft_Status tr \<noteq> ''cancelled''"
  defines "st1 \<equiv> snd (SendBrowserChunk_begin now True tid (slice_b64 content i) [(None, True)] st)"
  defines "st2 \<equiv> snd (SendBrowserChunk_end now' tid bid
             (if fa_TransferID p = tid \<and> \<not> fa_OK p then ingestFileAck now p st1 else st1))"
  shows "map_option ft_Resumable (transfer st2 tid) = Some True \<and>
         (\<exists>e. ResumeBrowserUpload_begin tid True st2 = Inl e)"
proof -
  obtain s where s: "map_of (fs_browserUploads st) tid = Some s" "slice_session path policy mtime content i s"
    using assms(2) by (auto simp: at_slice_def)
  have n: "i < up_count content LegacyFileChunkRaw" using assms(3) chunk_count(2)[OF assms(1)] by simp
  have c: "\<not> isTransferCancelled tid st" using assms(4,5) by (simp add: isTransferCancelled_def)
  have o: "sendFileChunkWithRetry [(None, True)] = None"
    by (simp add: sendFileChunkWithRetry_def numeral_3_eq_3)
  have last: "bu_NextChunk s = bu_TotalChunks s - 1"
    using s(2) assms(3) chunk_count(2)[OF assms(1)] by (auto simp: slice_session_def)
  have put: "transfer (put_session tid x y) = transfer y" "fs_waiters (put_session tid x y) = fs_waiters y" for x y
    by (simp_all add: put_session_def)
  obtain tr1 where st1: "transfer st1 tid = Some tr1" "map_of (fs_browserUploads st1) tid = None"
    "fs_waiters st1 tid = Some None"
    unfolding st1_def send_slice(1)[OF assms(1) s n c o]
    using last assms(3,4) put by (auto simp: slice_sent_def Let_def delete_conv' register_waiter_def split: option.split)
  let ?st = "if fa_TransferID p = tid \<and> \<not> fa_OK p then ingestFileAck now p st1 else st1"
  have st: "\<exists>tr. transfer ?st tid = Some tr" "map_of (fs_browserUploads ?st) tid = None"
    "\<exists>e. wait_ack tid ?st = (Some e, drop_waiter tid ?st)"
    using st1 by (auto simp: ingestFileAck_def Let_def wait_ack_def answer_of_deliver ackError_def answer_of_def
        deliver_def offer_def split: option.split)
  then obtain tr e where "transfer ?st tid = Some tr" "wait_ack tid ?st = (Some e, drop_waiter tid ?st)" by blast
  with st(2) show ?thesis
    unfolding st2_def SendBrowserChunk_end_def ResumeBrowserUpload_begin_def
    by (simp add: Let_def failTransfer_def set_resumable_def drop_waiter_def)
qed

theorem refused_slice_not_retryable_witness:
  "\<exists>st e. map_option ft_Resumable (transfer st sample_tid) = Some True \<and>
     ResumeBrowserUpload_begin sample_tid True st = Inl e"
proof -
  have "\<exists>tr. transfer sample_browser sample_tid = Some tr \<and> ft_Status tr = ''running''"
    by (simp add: sample_browser_def send_begin_def)
  then show ?thesis
    using refused_slice_not_retryable[OF sample_slice(1,3)] sample_slice(2) by fastforce
qed

end
