(* ===== verification/Contact_Lookup.thy ===== *)
theory Contact_Lookup
  imports Contacts Messages
begin

text \<open>
  Who sent a message, by the Mac's copy of the directory
  (\<open>apps/mac/backend/contact_lookup.go\<close>). The lookups are pure functions of a snapshot of the
  directory or of the cached threads.
\<close>

record contact_hit =
  hit_name :: string
  hit_id :: string
  hit_version :: string

definition hit_of :: "ContactEntry \<Rightarrow> contact_hit" where
  "hit_of c =
     \<lparr>hit_name = ce_DisplayName c, hit_id = ce_ContactID c, hit_version = ce_PhotoVersion c\<rparr>"

definition email_match :: "string \<Rightarrow> ContactEntry \<Rightarrow> bool" where
  "email_match lower c =
     list_ex (\<lambda>e. to_lower (trim_space (cem_Address e)) = lower) (ce_Emails c)"

definition normalized_match :: "string \<Rightarrow> ContactEntry \<Rightarrow> bool" where
  "normalized_match addr c =
     list_ex (\<lambda>p. cph_Normalized p \<noteq> [] \<and> PhonesEqual (cph_Normalized p) addr) (ce_Phones c)"

definition number_match :: "string \<Rightarrow> ContactEntry \<Rightarrow> bool" where
  "number_match addr c =
     list_ex (\<lambda>p. cph_Number p \<noteq> [] \<and> PhonesEqual (cph_Number p) addr) (ce_Phones c)"

definition lookupContactForAddress :: "ContactEntry list \<Rightarrow> string \<Rightarrow> contact_hit option" where
  "lookupContactForAddress contacts address =
     (let trimmed = trim_space address
      in if trimmed = [] \<or> contacts = [] then None
         else if CHR ''@'' \<in> set trimmed then
           map_option hit_of (find (email_match (to_lower trimmed)) contacts)
         else case find (normalized_match trimmed) contacts of
                Some c \<Rightarrow> Some (hit_of c)
              | None \<Rightarrow> map_option hit_of (find (number_match trimmed) contacts))"

text \<open>The keys of the map the frontend gets.\<close>

definition LookupContactForAddress :: "ContactEntry list \<Rightarrow> string \<Rightarrow> (string \<rightharpoonup> string)" where
  "LookupContactForAddress snapshot address =
     (case lookupContactForAddress snapshot address of
        None \<Rightarrow> Map.empty
      | Some h \<Rightarrow>
          (let out = Map.empty;
               out = (if hit_name h \<noteq> [] then out(''contact_name'' \<mapsto> hit_name h) else out);
               out = (if hit_id h \<noteq> [] then out(''contact_id'' \<mapsto> hit_id h) else out)
           in if hit_version h \<noteq> [] then out(''photo_version'' \<mapsto> hit_version h) else out))"

definition FindSMSThreadForAddress :: "SMSThread list \<Rightarrow> string \<Rightarrow> int" where
  "FindSMSThreadForAddress threads address =
     (let trimmed = trim_space address;
          hit = (\<lambda>p. case find p threads of Some t \<Rightarrow> st_ThreadID t | None \<Rightarrow> 0)
      in if trimmed = [] then 0
         else if CHR ''@'' \<in> set trimmed then
           hit (\<lambda>t. to_lower (trim_space (st_Address t)) = to_lower trimmed)
         else hit (\<lambda>t. PhonesEqual (st_Address t) trimmed))"

definition or_else :: "string \<Rightarrow> string \<Rightarrow> string" where
  "or_else a b = (if a = [] then b else a)"

definition enrichThread :: "ContactEntry list \<Rightarrow> SMSThread \<Rightarrow> SMSThread" where
  "enrichThread contacts t =
     (if st_ContactID t \<noteq> [] \<and> st_ContactName t \<noteq> [] then t
      else case lookupContactForAddress contacts (st_Address t) of
        None \<Rightarrow> t
      | Some h \<Rightarrow>
          t\<lparr>st_ContactName := or_else (st_ContactName t) (hit_name h),
            st_ContactID := or_else (st_ContactID t) (hit_id h),
            st_PhotoVersion := or_else (st_PhotoVersion t) (hit_version h)\<rparr>)"

definition enrichMessage :: "ContactEntry list \<Rightarrow> SMSMessage \<Rightarrow> SMSMessage" where
  "enrichMessage contacts m =
     (if sm_ContactID m \<noteq> [] \<and> sm_ContactName m \<noteq> [] then SanitizeSMSMessage m
      else SanitizeSMSMessage
        (case lookupContactForAddress contacts (sm_Address m) of
           None \<Rightarrow> m
         | Some h \<Rightarrow>
             m\<lparr>sm_ContactName := or_else (sm_ContactName m) (hit_name h),
               sm_ContactID := or_else (sm_ContactID m) (hit_id h),
               sm_PhotoVersion := or_else (sm_PhotoVersion m) (hit_version h)\<rparr>))"

section \<open>What a lookup finds\<close>

text \<open>The specification: one of the entry's addresses is the one asked for, an email address
  up to case and outer space, a phone number as \<open>PhonesEqual\<close> compares them.\<close>

definition reached_at :: "string \<Rightarrow> ContactEntry \<Rightarrow> bool" where
  "reached_at address c \<longleftrightarrow> trim_space address \<noteq> [] \<and>
     (if CHR ''@'' \<in> set (trim_space address)
      then \<exists>e \<in> set (ce_Emails c). to_lower (trim_space (cem_Address e)) = to_lower (trim_space address)
      else \<exists>p \<in> set (ce_Phones c). PhonesEqual (cph_Normalized p) (trim_space address) \<or>
             PhonesEqual (cph_Number p) (trim_space address))"

lemma PhonesEqual_nonempty: "PhonesEqual n x \<Longrightarrow> n \<noteq> []"
  by (auto simp: PhonesEqual_def NormalizePhone_def Let_def)

lemma reached_at_match:
  "trim_space address \<noteq> [] \<Longrightarrow>
   reached_at address c \<longleftrightarrow>
     (if CHR ''@'' \<in> set (trim_space address) then email_match (to_lower (trim_space address)) c
      else normalized_match (trim_space address) c \<or> number_match (trim_space address) c)"
  by (fastforce simp: reached_at_def email_match_def normalized_match_def number_match_def list_ex_iff
      dest: PhonesEqual_nonempty)

lemma find_cases:
  "(case find P xs of None \<Rightarrow> list_all (\<lambda>x. \<not> P x) xs | Some x \<Rightarrow> P x \<and> x \<in> set xs)"
  by (auto simp: find_None_iff find_Some_iff list_all_iff split: option.split)

lemma lookup_sound:
  "lookupContactForAddress contacts address = Some h \<Longrightarrow>
   \<exists>c \<in> set contacts. reached_at address c \<and> h = hit_of c"
  using find_cases[of "email_match (to_lower (trim_space address))" contacts]
    find_cases[of "normalized_match (trim_space address)" contacts]
    find_cases[of "number_match (trim_space address)" contacts]
  by (auto simp: lookupContactForAddress_def Let_def reached_at_match split: if_splits option.splits)

lemma lookup_complete:
  assumes "lookupContactForAddress contacts address = None" "c \<in> set contacts"
  shows "\<not> reached_at address c"
proof (cases "trim_space address = []")
  case False
  then show ?thesis
    using assms find_cases[of "email_match (to_lower (trim_space address))" contacts]
      find_cases[of "normalized_match (trim_space address)" contacts]
      find_cases[of "number_match (trim_space address)" contacts]
    by (auto simp: lookupContactForAddress_def Let_def reached_at_match list_all_iff
        split: if_splits option.splits)
qed (simp add: reached_at_def)

lemma at_not_in_number: "CHR ''@'' \<notin> set (NormalizePhone a)"
proof -
  have "\<not> is_digit (byte CHR ''@'')" by (simp add: is_digit_def)
  then have "CHR ''@'' \<notin> set (phone_digits a)"
    using ascii_byte_in_runes[of "CHR ''@''" "phone_digits a"] by (auto simp: runes_phone_digits)
  then show ?thesis by (simp add: NormalizePhone_alt)
qed

lemma PhonesEqual_normalized: "PhonesEqual n (NormalizePhone a) = PhonesEqual n a"
  by (simp add: PhonesEqual_iff NormalizePhone_alt)

lemma PhonesEqual_trim: "PhonesEqual n (trim_space a) = PhonesEqual n a"
  by (simp add: PhonesEqual_iff phone_digits_def)

lemma match_normalized:
  "normalized_match (NormalizePhone a) = normalized_match a" "number_match (NormalizePhone a) = number_match a"
  "normalized_match (trim_space a) = normalized_match a" "number_match (trim_space a) = number_match a"
  by (simp_all add: normalized_match_def[abs_def] number_match_def[abs_def] PhonesEqual_normalized PhonesEqual_trim)

lemma lookup_normalized:
  assumes "CHR ''@'' \<notin> set (trim_space a)" "phone_digits a \<noteq> []"
  shows "lookupContactForAddress contacts (NormalizePhone a) = lookupContactForAddress contacts a"
proof -
  have "trim_space (NormalizePhone a) = NormalizePhone a" by (simp add: NormalizePhone_alt)
  moreover have "trim_space a \<noteq> []" using assms(2) by (auto simp: phone_digits_def string_of_runes_def)
  ultimately show ?thesis
    using assms
    by (simp add: lookupContactForAddress_def Let_def at_not_in_number match_normalized split: option.split)
qed


text \<open>What the phone said about a sender is kept.\<close>

lemma enrichThread_keeps [simp]:
  "st_ThreadID (enrichThread cs t) = st_ThreadID t" "st_Address (enrichThread cs t) = st_Address t"
  "st_Snippet (enrichThread cs t) = st_Snippet t" "st_Date (enrichThread cs t) = st_Date t"
  "st_ContactName t \<noteq> [] \<Longrightarrow> st_ContactName (enrichThread cs t) = st_ContactName t"
  "st_ContactID t \<noteq> [] \<Longrightarrow> st_ContactID (enrichThread cs t) = st_ContactID t"
  by (simp_all add: enrichThread_def or_else_def split: option.split)

lemma enrichMessage_keeps [simp]:
  "sm_ID (enrichMessage cs m) = sm_ID m" "sm_ThreadID (enrichMessage cs m) = sm_ThreadID m"
  "sm_Body (enrichMessage cs m) = sm_Body m" "sm_Date (enrichMessage cs m) = sm_Date m"
  "sm_Address (enrichMessage cs m) = sm_Address m"
  by (simp_all add: enrichMessage_def SanitizeSMSMessage_def split: option.split)

end
