(* ===== verification/Message_Threads.thy ===== *)
theory Message_Threads
  imports Contact_Lookup Waiters "HOL-Library.Product_Lexorder"
begin

text \<open>
  The Mac's copy of the phone's text messages (\<open>apps/mac/backend/messages.go\<close> and the pending
  requests of \<open>sync_reliability.go\<close>): the caches of threads and messages, the requests in
  flight, the generation that \<open>sms-changed\<close> bumps, and the deduplication of pushes. The
  database behind the caches is an argument where it is read; it is written in goroutines,
  which are left out. \<open>sort.Slice\<close> leaves open the order of rows with equal dates and ids; here
  they keep their order.
\<close>

section \<open>Results and state\<close>

record SMSThreadsResult =
  tr_Threads :: "SMSThread list"
  tr_NextCursor :: string
  tr_Error :: string
  tr_ErrorCode :: string
  tr_Permission :: string

definition zero_SMSThreadsResult :: SMSThreadsResult where
  "zero_SMSThreadsResult =
     \<lparr>tr_Threads = [], tr_NextCursor = [], tr_Error = [], tr_ErrorCode = [], tr_Permission = []\<rparr>"

record SMSMessagesResult =
  mr_ThreadID :: int
  mr_Messages :: "SMSMessage list"
  mr_NextCursor :: string
  mr_Error :: string
  mr_ErrorCode :: string
  mr_Permission :: string

definition zero_SMSMessagesResult :: SMSMessagesResult where
  "zero_SMSMessagesResult =
     \<lparr>mr_ThreadID = 0, mr_Messages = [], mr_NextCursor = [], mr_Error = [], mr_ErrorCode = [],
      mr_Permission = []\<rparr>"

record SMSSendResult =
  sr_Ok :: bool
  sr_ClientID :: string
  sr_MessageID :: int
  sr_ThreadID :: int
  sr_SubID :: string
  sr_Error :: string
  sr_ErrorCode :: string
  sr_Permission :: string

definition zero_SMSSendResult :: SMSSendResult where
  "zero_SMSSendResult =
     \<lparr>sr_Ok = False, sr_ClientID = [], sr_MessageID = 0, sr_ThreadID = 0, sr_SubID = [],
      sr_Error = [], sr_ErrorCode = [], sr_Permission = []\<rparr>"

record smsPageMeta =
  pm_cursor :: string
  pm_threadID :: int
  pm_gen :: int

record MessageStore =
  ms_threads :: "SMSThread list"
  ms_messages :: "(int \<rightharpoonup> SMSMessage list) option"
  ms_threadsReqs :: "SMSThreadsResult waiters"
  ms_threadsMeta :: "string \<rightharpoonup> smsPageMeta"
  ms_messagesReqs :: "SMSMessagesResult waiters"
  ms_messagesMeta :: "string \<rightharpoonup> smsPageMeta"
  ms_sendReqs :: "SMSSendResult waiters"
  ms_markReadReqs :: "SMSMarkReadRespPayload waiters"
  ms_gen :: int
  ms_dedup :: DedupCache

text \<open>What \<open>NewService\<close> starts with, given the threads in the database.\<close>

definition new_messages :: "SMSThread list \<Rightarrow> MessageStore" where
  "new_messages db =
     \<lparr>ms_threads = db, ms_messages = None, ms_threadsReqs = Map.empty, ms_threadsMeta = Map.empty,
      ms_messagesReqs = Map.empty, ms_messagesMeta = Map.empty, ms_sendReqs = Map.empty,
      ms_markReadReqs = Map.empty, ms_gen = 0, ms_dedup = NewDedupCache 0\<rparr>"

section \<open>Merging pages\<close>

definition smsPushDedupKey :: "SMSMessage \<Rightarrow> string \<Rightarrow> string" where
  "smsPushDedupKey msg clientID =
     (if clientID \<noteq> [] then ''c:'' @ clientID
      else if sm_ID msg \<noteq> 0 then ''id:'' @ format_int (sm_ID msg)
      else ''fb:'' @ sm_Address msg @ ''|'' @ format_int (sm_Date msg) @ ''|'' @
           format_int (int (length (sm_Body msg))))"

fun unseen_threads :: "int set \<Rightarrow> SMSThread list \<Rightarrow> SMSThread list" where
  "unseen_threads seen [] = []"
| "unseen_threads seen (t # ts) =
     (if st_ThreadID t \<in> seen then unseen_threads seen ts
      else t # unseen_threads (insert (st_ThreadID t) seen) ts)"

definition mergeSMSThreads :: "SMSThread list \<Rightarrow> SMSThread list \<Rightarrow> SMSThread list" where
  "mergeSMSThreads dst src =
     (if dst = [] then src else dst @ unseen_threads (st_ThreadID ` set dst) src)"

fun unseen_messages :: "int set \<Rightarrow> SMSMessage list \<Rightarrow> SMSMessage list" where
  "unseen_messages seen [] = []"
| "unseen_messages seen (m # ms) =
     (if sm_ID m \<noteq> 0 then
        (if sm_ID m \<in> seen then unseen_messages seen ms
         else m # unseen_messages (insert (sm_ID m) seen) ms)
      else m # unseen_messages seen ms)"

definition chronological :: "SMSMessage list \<Rightarrow> SMSMessage list" where
  "chronological ms = sort_key (\<lambda>m. (sm_Date m, sm_ID m)) ms"

definition mergeSMSMessages :: "SMSMessage list \<Rightarrow> SMSMessage list \<Rightarrow> SMSMessage list" where
  "mergeSMSMessages dst src =
     (if dst = [] then chronological src
      else chronological (dst @ unseen_messages (sm_ID ` set dst) src))"

section \<open>Asking the phone\<close>

text \<open>
  A listing has two halves. The first checks the arguments, tries the cache and the database,
  asks the gates (is the phone there, is its build new enough) and draws the ids; it ends in
  a result or in a request that is registered and sent. The second is the wait: an answer in
  the channel, or the timeout; either way the request is removed.
\<close>

definition DefaultSMSThreadsLimit :: int where [go_consts]: "DefaultSMSThreadsLimit = 50"
definition DefaultSMSMessagesLimit :: int where [go_consts]: "DefaultSMSMessagesLimit = 50"

definition offline_text :: string where
  "offline_text = ''phone is offline '' @ em_dash @ '' reconnect first''"

definition ListSMSThreads_begin ::
  "string \<Rightarrow> int \<Rightarrow> bool \<Rightarrow> SMSThread list option \<Rightarrow> ContactEntry list \<Rightarrow> bool \<Rightarrow>
   UpdateRequiredError option \<Rightarrow> string option \<Rightarrow> string option \<Rightarrow> MessageStore \<Rightarrow>
   (SMSThreadsResult \<times> list_error option + SMSThreadsReqPayload) \<times> MessageStore" where
  "ListSMSThreads_begin cursor limit forceRefresh db contacts paired gate reqID nonce s =
     (let zero = zero_SMSThreadsResult;
          limit = (if limit = 0 then DefaultSMSThreadsLimit else limit)
      in if 256 < length cursor then (Inl (zero, Some InvalidCursor), s)
         else if limit < 1 \<or> int MaxSMSThreadsPerResp < limit then (Inl (zero, Some InvalidLimit), s)
         else if ValidateKeysetCursor cursor \<noteq> None then
           (Inl (zero\<lparr>tr_Error := ''sms cursor rejected '' @ em_dash @ '' resync from start'',
                      tr_ErrorCode := CodeCursorInvalid\<rparr>, Some CursorRejected), s)
         else
           let s = (if \<not> forceRefresh \<and> cursor = [] \<and> ms_threads s = []
                    then (case db of Some ts \<Rightarrow> s\<lparr>ms_threads := ts\<rparr> | None \<Rightarrow> s) else s)
           in if \<not> forceRefresh \<and> cursor = [] \<and> ms_threads s \<noteq> [] then
                (Inl (zero\<lparr>tr_Threads := map (enrichThread contacts) (ms_threads s)\<rparr>, None), s)
              else if \<not> paired then
                (Inl (zero\<lparr>tr_Error := offline_text, tr_ErrorCode := CodeSyncTimeout\<rparr>,
                      Some PhoneOffline), s)
              else case gate of
                Some upd \<Rightarrow>
                  (Inl (zero\<lparr>tr_Error := ue_Message upd, tr_ErrorCode := CodeUpdateRequired\<rparr>,
                        Some (NeedsUpdate upd)), s)
              | None \<Rightarrow>
                  (case (reqID, nonce) of
                     (Some req, Some nonce) \<Rightarrow>
                       (Inr \<lparr>stq_Nonce = nonce, stq_ReqID = req, stq_Cursor = cursor,
                             stq_Limit = limit, stq_CursorGen = ms_gen s\<rparr>,
                        s\<lparr>ms_threadsReqs := register_waiter req (ms_threadsReqs s),
                          ms_threadsMeta := (ms_threadsMeta s)(req \<mapsto>
                            \<lparr>pm_cursor = cursor, pm_threadID = 0, pm_gen = ms_gen s\<rparr>)\<rparr>)
                   | _ \<Rightarrow> (Inl (zero, Some NoEntropyLeft), s)))"

definition forget_threads_request :: "string \<Rightarrow> MessageStore \<Rightarrow> MessageStore" where
  "forget_threads_request req s =
     s\<lparr>ms_threadsReqs := (ms_threadsReqs s)(req := None),
       ms_threadsMeta := (ms_threadsMeta s)(req := None)\<rparr>"

definition ListSMSThreads_end ::
  "string \<Rightarrow> bool \<Rightarrow> ContactEntry list \<Rightarrow> UpdateRequiredError option \<Rightarrow> MessageStore \<Rightarrow>
   (SMSThreadsResult \<times> list_error option) \<times> MessageStore" where
  "ListSMSThreads_end req sent contacts gate s =
     (let zero = zero_SMSThreadsResult
      in (if \<not> sent then (zero, Some SendFailed)
          else case answer_of req (ms_threadsReqs s) of
            Some res \<Rightarrow>
              if tr_Error res \<noteq> [] then (res, Some (PhoneError (tr_Error res)))
              else (res\<lparr>tr_Threads := map (enrichThread contacts) (tr_Threads res)\<rparr>, None)
          | None \<Rightarrow>
              (case gate of
                 Some upd \<Rightarrow>
                   (zero\<lparr>tr_Error := ue_Message upd, tr_ErrorCode := CodeUpdateRequired\<rparr>,
                    Some (NeedsUpdate upd))
               | None \<Rightarrow>
                   (zero\<lparr>tr_Error := ''sms threads timed out '' @ em_dash @ '' phone did not respond'',
                         tr_ErrorCode := CodeSyncTimeout\<rparr>, Some SyncTimeout)),
          forget_threads_request req s))"

text \<open>The oldest message of a cached thread, the first such when two are equal.\<close>

fun oldest_message :: "SMSMessage \<Rightarrow> SMSMessage list \<Rightarrow> SMSMessage" where
  "oldest_message oldest [] = oldest"
| "oldest_message oldest (m # ms) =
     (if sm_Date m < sm_Date oldest \<or> (sm_Date m = sm_Date oldest \<and> sm_ID m < sm_ID oldest)
      then oldest_message m ms else oldest_message oldest ms)"

definition cached_thread :: "int \<Rightarrow> MessageStore \<Rightarrow> SMSMessage list" where
  "cached_thread tid s =
     (case ms_messages s of
        None \<Rightarrow> []
      | Some cache \<Rightarrow> (case cache tid of None \<Rightarrow> [] | Some ms \<Rightarrow> ms))"

definition put_thread :: "int \<Rightarrow> SMSMessage list \<Rightarrow> MessageStore \<Rightarrow> MessageStore" where
  "put_thread tid ms s =
     s\<lparr>ms_messages := Some ((case ms_messages s of None \<Rightarrow> Map.empty | Some cache \<Rightarrow> cache)(tid \<mapsto> ms))\<rparr>"

text \<open>A page from the cache, its cursor pointing below its oldest message; and a page from the
  database below the cursor, \<open>None\<close> when the database does not help.\<close>

definition cached_page :: "ContactEntry list \<Rightarrow> int \<Rightarrow> SMSMessage list \<Rightarrow> SMSMessagesResult" where
  "cached_page contacts tid msgs =
     (let oldest = oldest_message (hd msgs) msgs
      in zero_SMSMessagesResult
         \<lparr>mr_ThreadID := tid, mr_Messages := map (enrichMessage contacts) msgs,
          mr_NextCursor := (if 0 < sm_Date oldest
            then EncodeKeysetCursor (format_int (sm_Date oldest)) (sm_ID oldest) else [])\<rparr>)"

definition database_page ::
  "(int \<Rightarrow> int \<Rightarrow> SMSMessage list option) \<Rightarrow> ContactEntry list \<Rightarrow> int \<Rightarrow> int \<Rightarrow> string \<Rightarrow>
   SMSMessagesResult option" where
  "database_page before contacts tid limit cursor =
     (case DecodeKeysetCursor cursor of
        None \<Rightarrow> None
      | Some (sortKey, rowID) \<Rightarrow>
          (case parse_int64 sortKey of
             None \<Rightarrow> None
           | Some date \<Rightarrow>
               if date \<le> 0 then None
               else case before date rowID of
                 None \<Rightarrow> None
               | Some msgs \<Rightarrow>
                   if msgs = [] then None
                   else Some (zero_SMSMessagesResult
                     \<lparr>mr_ThreadID := tid, mr_Messages := map (enrichMessage contacts) msgs,
                      mr_NextCursor := (if int (length msgs) = limit
                        then EncodeKeysetCursor (format_int (sm_Date (hd msgs))) (sm_ID (hd msgs))
                        else [])\<rparr>)))"

definition load_thread ::
  "int \<Rightarrow> string \<Rightarrow> bool \<Rightarrow> SMSMessage list option \<Rightarrow> MessageStore \<Rightarrow> MessageStore" where
  "load_thread tid cursor forceRefresh db s =
     (if \<not> forceRefresh \<and> cursor = [] \<and> cached_thread tid s = []
      then (case db of Some ms \<Rightarrow> if ms = [] then s else put_thread tid ms s | None \<Rightarrow> s)
      else s)"

definition local_page ::
  "int \<Rightarrow> string \<Rightarrow> int \<Rightarrow> bool \<Rightarrow> (int \<Rightarrow> int \<Rightarrow> SMSMessage list option) \<Rightarrow> ContactEntry list \<Rightarrow>
   MessageStore \<Rightarrow> SMSMessagesResult option" where
  "local_page tid cursor limit forceRefresh before contacts s =
     (if forceRefresh then None
      else if cursor = [] then
        (if cached_thread tid s = [] then None
         else Some (cached_page contacts tid (cached_thread tid s)))
      else database_page before contacts tid limit cursor)"

definition ListSMSMessages_ask ::
  "int \<Rightarrow> string \<Rightarrow> int \<Rightarrow> bool \<Rightarrow> UpdateRequiredError option \<Rightarrow> string option \<Rightarrow> string option \<Rightarrow>
   MessageStore \<Rightarrow> (SMSMessagesResult \<times> list_error option + SMSMessagesReqPayload) \<times> MessageStore" where
  "ListSMSMessages_ask tid cursor limit paired gate reqID nonce s =
     (let this = zero_SMSMessagesResult\<lparr>mr_ThreadID := tid\<rparr>
      in if \<not> paired then
           (Inl (this\<lparr>mr_Error := offline_text, mr_ErrorCode := CodeSyncTimeout\<rparr>, Some PhoneOffline), s)
         else case gate of
           Some upd \<Rightarrow> (Inl (this, Some (NeedsUpdate upd)), s)
         | None \<Rightarrow>
             (case (reqID, nonce) of
                (Some req, Some nonce) \<Rightarrow>
                  (Inr \<lparr>smq_Nonce = nonce, smq_ReqID = req, smq_ThreadID = tid,
                        smq_Cursor = cursor, smq_Limit = limit, smq_CursorGen = ms_gen s\<rparr>,
                   s\<lparr>ms_messagesReqs := register_waiter req (ms_messagesReqs s),
                     ms_messagesMeta := (ms_messagesMeta s)(req \<mapsto>
                       \<lparr>pm_cursor = cursor, pm_threadID = tid, pm_gen = ms_gen s\<rparr>)\<rparr>)
              | _ \<Rightarrow> (Inl (this, Some NoEntropyLeft), s)))"

definition ListSMSMessages_begin ::
  "int \<Rightarrow> string \<Rightarrow> int \<Rightarrow> bool \<Rightarrow> SMSMessage list option \<Rightarrow>
   (int \<Rightarrow> int \<Rightarrow> SMSMessage list option) \<Rightarrow> ContactEntry list \<Rightarrow> bool \<Rightarrow>
   UpdateRequiredError option \<Rightarrow> string option \<Rightarrow> string option \<Rightarrow> MessageStore \<Rightarrow>
   (SMSMessagesResult \<times> list_error option + SMSMessagesReqPayload) \<times> MessageStore" where
  "ListSMSMessages_begin tid cursor limit forceRefresh db before contacts paired gate reqID nonce s =
     (let zero = zero_SMSMessagesResult; this = zero\<lparr>mr_ThreadID := tid\<rparr>;
          limit = (if limit = 0 then DefaultSMSMessagesLimit else limit)
      in if tid \<le> 0 then (Inl (zero, Some InvalidTarget), s)
         else if 256 < length cursor then (Inl (zero, Some InvalidCursor), s)
         else if limit < 1 \<or> int MaxSMSMessagesPerResp < limit then (Inl (zero, Some InvalidLimit), s)
         else if ValidateKeysetCursor cursor \<noteq> None then
           (Inl (this\<lparr>mr_Error := ''sms cursor rejected '' @ em_dash @ '' resync from start'',
                      mr_ErrorCode := CodeCursorInvalid\<rparr>, Some CursorRejected), s)
         else
           let s = load_thread tid cursor forceRefresh db s;
               page = local_page tid cursor limit forceRefresh before contacts s
           in case page of
                Some res \<Rightarrow> (Inl (res, None), s)
              | None \<Rightarrow> ListSMSMessages_ask tid cursor limit paired gate reqID nonce s)"

definition forget_messages_request :: "string \<Rightarrow> MessageStore \<Rightarrow> MessageStore" where
  "forget_messages_request req s =
     s\<lparr>ms_messagesReqs := (ms_messagesReqs s)(req := None),
       ms_messagesMeta := (ms_messagesMeta s)(req := None)\<rparr>"

definition ListSMSMessages_end ::
  "int \<Rightarrow> string \<Rightarrow> bool \<Rightarrow> ContactEntry list \<Rightarrow> MessageStore \<Rightarrow>
   (SMSMessagesResult \<times> list_error option) \<times> MessageStore" where
  "ListSMSMessages_end tid req sent contacts s =
     (let this = zero_SMSMessagesResult\<lparr>mr_ThreadID := tid\<rparr>
      in (if \<not> sent then (this, Some SendFailed)
          else case answer_of req (ms_messagesReqs s) of
            Some res \<Rightarrow>
              if mr_Error res \<noteq> [] then (res, Some (PhoneError (mr_Error res)))
              else (res\<lparr>mr_Messages := map (enrichMessage contacts) (mr_Messages res)\<rparr>, None)
          | None \<Rightarrow>
              (this\<lparr>mr_Error := ''sms messages timed out '' @ em_dash @ '' phone did not respond'',
                    mr_ErrorCode := CodeSyncTimeout\<rparr>, Some SyncTimeout),
          forget_messages_request req s))"


section \<open>Sending and marking as read\<close>

definition SendSMS_begin ::
  "string \<Rightarrow> string \<Rightarrow> string \<Rightarrow> bool \<Rightarrow> UpdateRequiredError option \<Rightarrow> string option \<Rightarrow>
   string option \<Rightarrow> string option \<Rightarrow> MessageStore \<Rightarrow>
   (SMSSendResult \<times> list_error option + SMSSendReqPayload) \<times> MessageStore" where
  "SendSMS_begin recipient body subID paired gate reqID clientID nonce s =
     (let zero = zero_SMSSendResult;
          failed = (\<lambda>e. Inl (zero\<lparr>sr_Error := e\<rparr>, Some InvalidTarget))
      in case SanitizeSMSAddress recipient of
           None \<Rightarrow> (failed ''invalid recipient address'', s)
         | Some recipient \<Rightarrow>
             (case SanitizeSMSBody body of
                None \<Rightarrow> (failed ''invalid message body'', s)
              | Some body \<Rightarrow>
                  (case SanitizeSubID subID of
                     None \<Rightarrow> (failed ''invalid subscription id'', s)
                   | Some sub \<Rightarrow>
                       if \<not> paired then
                         (Inl (zero\<lparr>sr_Error := offline_text, sr_ErrorCode := CodeSyncTimeout\<rparr>,
                               Some PhoneOffline), s)
                       else case gate of
                         Some upd \<Rightarrow>
                           (Inl (zero\<lparr>sr_Error := ue_Message upd, sr_ErrorCode := CodeUpdateRequired\<rparr>,
                                 Some (NeedsUpdate upd)), s)
                       | None \<Rightarrow>
                           (case (reqID, nonce) of
                              (Some req, Some nonce) \<Rightarrow>
                                (Inr \<lparr>ssq_Nonce = nonce, ssq_ReqID = req, ssq_Recipient = recipient,
                                      ssq_Body = body,
                                      ssq_ClientID = (case clientID of Some c \<Rightarrow> c | None \<Rightarrow> []),
                                      ssq_SubID = sub\<rparr>,
                                 s\<lparr>ms_sendReqs := register_waiter req (ms_sendReqs s)\<rparr>)
                            | _ \<Rightarrow> (Inl (zero, Some NoEntropyLeft), s)))))"

text \<open>The first thread with an id is changed, as the loops that \<open>break\<close> do.\<close>

fun update_thread :: "int \<Rightarrow> (SMSThread \<Rightarrow> SMSThread) \<Rightarrow> SMSThread list \<Rightarrow> SMSThread list" where
  "update_thread tid f [] = []"
| "update_thread tid f (t # ts) =
     (if st_ThreadID t = tid then f t # ts else t # update_thread tid f ts)"

definition append_sent :: "int \<Rightarrow> SMSSendReqPayload \<Rightarrow> SMSSendResult \<Rightarrow> MessageStore \<Rightarrow> MessageStore" where
  "append_sent nowMs p res s =
     (let tid = sr_ThreadID res;
          msg = zero_SMSMessage\<lparr>sm_ID := sr_MessageID res, sm_ThreadID := tid,
                  sm_Address := ssq_Recipient p, sm_Body := ssq_Body p, sm_Date := nowMs,
                  sm_Type := 2, sm_Read := True\<rparr>;
          s = (if ms_messages s \<noteq> None then put_thread tid (cached_thread tid s @ [msg]) s else s)
      in s\<lparr>ms_threads :=
             update_thread tid (\<lambda>t. t\<lparr>st_Snippet := ssq_Body p, st_Date := nowMs\<rparr>) (ms_threads s)\<rparr>)"

definition SendSMS_end ::
  "SMSSendReqPayload \<Rightarrow> string option \<Rightarrow> int \<Rightarrow> MessageStore \<Rightarrow>
   (SMSSendResult \<times> list_error option) \<times> MessageStore" where
  "SendSMS_end p sendError nowMs s =
     (let base = zero_SMSSendResult\<lparr>sr_ClientID := ssq_ClientID p, sr_SubID := ssq_SubID p\<rparr>;
          done = (\<lambda>s. s\<lparr>ms_sendReqs := (ms_sendReqs s)(ssq_ReqID p := None)\<rparr>)
      in case sendError of Some e \<Rightarrow> ((base\<lparr>sr_Error := e\<rparr>, Some SendFailed), done s)
         | None \<Rightarrow> case answer_of (ssq_ReqID p) (ms_sendReqs s) of
           Some res \<Rightarrow>
             if \<not> sr_Ok res then ((res, Some (PhoneError (sr_Error res))), done s)
             else ((res, None), done (if 0 < sr_ThreadID res then append_sent nowMs p res s else s))
         | None \<Rightarrow>
             ((base\<lparr>sr_Error := ''sms send timed out '' @ em_dash @ '' phone did not reply'',
                    sr_ErrorCode := CodeSyncTimeout\<rparr>, Some SyncTimeout), done s))"

text \<open>\<open>MarkThreadRead\<close>: whether the thread is known and the address to tell the phone; \<open>None\<close> for
  an invalid id. The request to the phone is best effort: its waiter is removed whether the
  phone answers or not.\<close>

definition MarkThreadRead :: "int \<Rightarrow> MessageStore \<Rightarrow> (bool \<times> string \<times> MessageStore) option" where
  "MarkThreadRead tid s =
     (if tid \<le> 0 then None
      else
        let found = find (\<lambda>t. st_ThreadID t = tid) (ms_threads s);
            addr = (case found of Some t \<Rightarrow> st_Address t | None \<Rightarrow> []);
            addr = (if addr \<noteq> [] then addr
                    else case find (\<lambda>m. sm_Address m \<noteq> []) (cached_thread tid s) of
                      Some m \<Rightarrow> sm_Address m | None \<Rightarrow> []);
            s = s\<lparr>ms_threads :=
                   update_thread tid (\<lambda>t. t\<lparr>st_UnreadCount := 0, st_Read := True\<rparr>) (ms_threads s)\<rparr>;
            s = (case ms_messages s of
                   None \<Rightarrow> s
                 | Some cache \<Rightarrow>
                     (case cache tid of
                        None \<Rightarrow> s
                      | Some ms \<Rightarrow> put_thread tid (map (sm_Read_update (\<lambda>_. True)) ms) s))
        in Some (found \<noteq> None, addr, s))"

definition MarkThreadRead_request ::
  "int \<Rightarrow> string \<Rightarrow> bool \<Rightarrow> UpdateRequiredError option \<Rightarrow> string option \<Rightarrow> string option \<Rightarrow>
   MessageStore \<Rightarrow> SMSMarkReadReqPayload option \<times> MessageStore" where
  "MarkThreadRead_request tid addr paired gate reqID nonce s =
     (if \<not> paired \<or> gate \<noteq> None then (None, s)
      else case (reqID, nonce) of
        (Some req, Some nonce) \<Rightarrow>
          (Some \<lparr>srq_Nonce = nonce, srq_ReqID = req, srq_ThreadID = tid, srq_MessageID = 0,
                 srq_Address = addr\<rparr>,
           s\<lparr>ms_markReadReqs := register_waiter req (ms_markReadReqs s)\<rparr>)
      | _ \<Rightarrow> (None, s))"

definition MarkThreadRead_end :: "string \<Rightarrow> MessageStore \<Rightarrow> MessageStore" where
  "MarkThreadRead_end req s = s\<lparr>ms_markReadReqs := (ms_markReadReqs s)(req := None)\<rparr>"

section \<open>What the phone sends\<close>

definition ingestThreadsResp ::
  "ContactEntry list \<Rightarrow> SMSThreadsRespPayload \<Rightarrow> MessageStore \<Rightarrow> MessageStore" where
  "ingestThreadsResp contacts resp s =
     (if sts_ReqID resp = [] then s
      else
        let req = sts_ReqID resp; threads = map (enrichThread contacts) (sts_Threads resp);
            ok = (ms_threadsReqs s req \<noteq> None); meta = ms_threadsMeta s req;
            firstPage = (\<exists>m \<in> set_option meta. pm_cursor m = []);
            stale = (ok \<and> sts_Error resp = [] \<and> (\<exists>m \<in> set_option meta. pm_gen m \<noteq> ms_gen s));
            s = (if ok \<and> sts_Error resp = [] \<and> \<not> stale then
                   s\<lparr>ms_threads :=
                      (if firstPage then threads
                       else if sts_NextCursor resp = [] \<and> (meta = None \<or> firstPage) then threads
                       else mergeSMSThreads (ms_threads s) threads)\<rparr>
                 else s)
        in if ok \<and> \<not> stale then
             s\<lparr>ms_threadsReqs := deliver req
                 \<lparr>tr_Threads = threads, tr_NextCursor = sts_NextCursor resp, tr_Error = sts_Error resp,
                  tr_ErrorCode = sts_ErrorCode resp, tr_Permission = sts_Permission resp\<rparr>
                 (ms_threadsReqs s)\<rparr>
           else s)"

definition ingestMessagesResp ::
  "ContactEntry list \<Rightarrow> SMSMessagesRespPayload \<Rightarrow> MessageStore \<Rightarrow> MessageStore" where
  "ingestMessagesResp contacts resp s =
     (if sms_ReqID resp = [] then s
      else
        let req = sms_ReqID resp; tid = sms_ThreadID resp;
            msgs = map (enrichMessage contacts) (sms_Messages resp);
            ok = (ms_messagesReqs s req \<noteq> None); meta = ms_messagesMeta s req;
            firstPage = (\<exists>m \<in> set_option meta. pm_cursor m = []);
            stale = (ok \<and> sms_Error resp = [] \<and>
                     (\<exists>m \<in> set_option meta. pm_gen m \<noteq> ms_gen s \<or> pm_threadID m \<noteq> tid));
            s = (if ok \<and> sms_Error resp = [] \<and> \<not> stale then
                   put_thread tid
                     (if firstPage then msgs
                      else if sms_NextCursor resp = [] \<and> (meta = None \<or> firstPage) then msgs
                      else mergeSMSMessages (cached_thread tid s) msgs) s
                 else s)
        in if ok \<and> \<not> stale then
             s\<lparr>ms_messagesReqs := deliver req
                 \<lparr>mr_ThreadID = tid, mr_Messages = msgs, mr_NextCursor = sms_NextCursor resp,
                  mr_Error = sms_Error resp, mr_ErrorCode = sms_ErrorCode resp,
                  mr_Permission = sms_Permission resp\<rparr> (ms_messagesReqs s)\<rparr>
           else s)"


definition ingestSendResp :: "SMSSendRespPayload \<Rightarrow> MessageStore \<Rightarrow> MessageStore" where
  "ingestSendResp resp s =
     (if sss_ReqID resp = [] then s
      else s\<lparr>ms_sendReqs := deliver (sss_ReqID resp)
               \<lparr>sr_Ok = sss_OK resp, sr_ClientID = sss_ClientID resp, sr_MessageID = sss_MessageID resp,
                sr_ThreadID = sss_ThreadID resp, sr_SubID = sss_SubID resp, sr_Error = sss_Error resp,
                sr_ErrorCode = sss_ErrorCode resp, sr_Permission = sss_Permission resp\<rparr>
               (ms_sendReqs s)\<rparr>)"

definition ingestMarkReadResp :: "SMSMarkReadRespPayload \<Rightarrow> MessageStore \<Rightarrow> MessageStore" where
  "ingestMarkReadResp resp s =
     (if srs_ReqID resp = [] then s
      else s\<lparr>ms_markReadReqs := deliver (srs_ReqID resp) resp (ms_markReadReqs s)\<rparr>)"

text \<open>The identity of the sender, at the top level of the push and in its message.\<close>

definition complete_push :: "ContactEntry list \<Rightarrow> SMSPushPayload \<Rightarrow> SMSPushPayload" where
  "complete_push contacts push =
     (let push = (if sp_ContactID push = [] \<and> sp_ContactName push = [] then
                    (case lookupContactForAddress contacts (sm_Address (sp_Message push)) of
                       None \<Rightarrow> push
                     | Some h \<Rightarrow> push\<lparr>sp_ContactName := hit_name h, sp_ContactID := hit_id h,
                                      sp_PhotoVersion := hit_version h\<rparr>)
                  else push);
          msg = enrichMessage contacts (sp_Message push);
          push = push\<lparr>sp_ContactName := or_else (sp_ContactName push) (sm_ContactName msg),
                      sp_ContactID := or_else (sp_ContactID push) (sm_ContactID msg),
                      sp_PhotoVersion := or_else (sp_PhotoVersion push) (sm_PhotoVersion msg)\<rparr>
      in push\<lparr>sp_Message := msg
           \<lparr>sm_ContactName := or_else (sm_ContactName msg) (sp_ContactName push),
            sm_ContactID := or_else (sm_ContactID msg) (sp_ContactID push),
            sm_PhotoVersion := or_else (sm_PhotoVersion msg) (sp_PhotoVersion push)\<rparr>\<rparr>)"

definition push_thread :: "SMSPushPayload \<Rightarrow> SMSThread \<Rightarrow> SMSThread" where
  "push_thread push t =
     t\<lparr>st_Snippet := sm_Body (sp_Message push), st_Date := sm_Date (sp_Message push),
       st_UnreadCount := wrap64 (st_UnreadCount t + 1), st_Read := False,
       st_ContactName := or_else (sp_ContactName push) (st_ContactName t),
       st_ContactID := or_else (sp_ContactID push) (st_ContactID t),
       st_PhotoVersion := or_else (sp_PhotoVersion push) (st_PhotoVersion t)\<rparr>"

definition new_thread :: "SMSPushPayload \<Rightarrow> SMSThread" where
  "new_thread push =
     \<lparr>st_ThreadID = sm_ThreadID (sp_Message push), st_Address = sm_Address (sp_Message push),
      st_ContactName = sp_ContactName push, st_ContactID = sp_ContactID push,
      st_PhotoVersion = sp_PhotoVersion push, st_Snippet = sm_Body (sp_Message push),
      st_Date = sm_Date (sp_Message push), st_MessageCount = 0, st_UnreadCount = 1, st_Read = False\<rparr>"

definition markSMSPushSeen :: "string \<Rightarrow> DedupCache \<Rightarrow> bool \<times> DedupCache" where
  "markSMSPushSeen key d = (if key = [] then (True, d) else DedupCache_Mark key d)"

text \<open>What a fresh push does to the caches.\<close>

definition apply_push :: "SMSPushPayload \<Rightarrow> MessageStore \<Rightarrow> MessageStore" where
  "apply_push push s =
     (let msg = sp_Message push; tid = sm_ThreadID msg;
          s = (case ms_messages s of
                 None \<Rightarrow> s
               | Some cache \<Rightarrow>
                   (if tid \<le> 0 then s
                    else case cache tid of
                      None \<Rightarrow> s
                    | Some ms \<Rightarrow>
                        if sm_ID msg \<noteq> 0 \<and> list_ex (\<lambda>m. sm_ID m = sm_ID msg) ms then s
                        else put_thread tid (ms @ [msg]) s))
      in if list_ex (\<lambda>t. st_ThreadID t = tid) (ms_threads s)
         then s\<lparr>ms_threads := update_thread tid (push_thread push) (ms_threads s)\<rparr>
         else if 0 < tid then s\<lparr>ms_threads := new_thread push # ms_threads s\<rparr>
         else s)"

definition ingestSMSPush :: "ContactEntry list \<Rightarrow> SMSPushPayload \<Rightarrow> MessageStore \<Rightarrow> MessageStore" where
  "ingestSMSPush contacts push s =
     (let push = complete_push contacts push;
          (fresh, d) = markSMSPushSeen (smsPushDedupKey (sp_Message push) (sp_ClientID push)) (ms_dedup s);
          s = s\<lparr>ms_dedup := d\<rparr>
      in if \<not> fresh then s else apply_push push s)"

definition ingestSMSChanged :: "MessageStore \<Rightarrow> MessageStore" where
  "ingestSMSChanged s =
     s\<lparr>ms_gen := wrap64 (ms_gen s + 1), ms_threads := [], ms_messages := None\<rparr>"

definition ingestMessages :: "ContactEntry list \<Rightarrow> Envelope \<Rightarrow> MessageStore \<Rightarrow> MessageStore" where
  "ingestMessages contacts env s =
     (let t = env_Type env
      in if t = TypeSMSThreadsResp then
           (case payload_as SMSThreadsRespPayload_fields zero_SMSThreadsRespPayload env of
              None \<Rightarrow> s | Some p \<Rightarrow> ingestThreadsResp contacts p s)
         else if t = TypeSMSMessagesResp then
           (case payload_as SMSMessagesRespPayload_fields zero_SMSMessagesRespPayload env of
              None \<Rightarrow> s | Some p \<Rightarrow> ingestMessagesResp contacts p s)
         else if t = TypeSMSSendResp then
           (case payload_as SMSSendRespPayload_fields zero_SMSSendRespPayload env of
              None \<Rightarrow> s | Some p \<Rightarrow> ingestSendResp p s)
         else if t = TypeSMSMarkReadResp then
           (case payload_as SMSMarkReadRespPayload_fields zero_SMSMarkReadRespPayload env of
              None \<Rightarrow> s | Some p \<Rightarrow> ingestMarkReadResp p s)
         else if t = TypeSMSPush then
           (case payload_as SMSPushPayload_fields zero_SMSPushPayload env of
              None \<Rightarrow> s | Some p \<Rightarrow> ingestSMSPush contacts p s)
         else if t = TypeSMSChanged then ingestSMSChanged s
         else s)"

definition ingestMessagesBody :: "ContactEntry list \<Rightarrow> string \<Rightarrow> MessageStore \<Rightarrow> MessageStore" where
  "ingestMessagesBody contacts body s =
     (case unmarshal_into (dec_struct Envelope_fields) body zero_Envelope of
        None \<Rightarrow> s
      | Some env \<Rightarrow> ingestMessages contacts env s)"

section \<open>Disconnecting\<close>

record sms_answers =
  an_threads :: "string \<rightharpoonup> SMSThreadsResult"
  an_messages :: "string \<rightharpoonup> SMSMessagesResult"
  an_sends :: "string \<rightharpoonup> SMSSendResult"
  an_marks :: "string \<rightharpoonup> SMSMarkReadRespPayload"

text \<open>\<open>failPendingSMSRequests\<close>: what the channels hold afterwards, and the emptied store.\<close>

definition failPendingSMSRequests :: "string \<Rightarrow> MessageStore \<Rightarrow> sms_answers \<times> MessageStore" where
  "failPendingSMSRequests err s =
     (\<lparr>an_threads = fail_all (zero_SMSThreadsResult\<lparr>tr_Error := err, tr_ErrorCode := CodeSyncTimeout\<rparr>)
                     (ms_threadsReqs s),
       an_messages = fail_all (zero_SMSMessagesResult\<lparr>mr_Error := err, mr_ErrorCode := CodeSyncTimeout\<rparr>)
                      (ms_messagesReqs s),
       an_sends = fail_all (zero_SMSSendResult\<lparr>sr_Error := err, sr_ErrorCode := CodeSyncTimeout\<rparr>)
                   (ms_sendReqs s),
       an_marks = fail_all (zero_SMSMarkReadRespPayload\<lparr>srs_Error := err, srs_ErrorCode := CodeSyncTimeout\<rparr>)
                   (ms_markReadReqs s)\<rparr>,
      s\<lparr>ms_threadsReqs := Map.empty,
        ms_threadsMeta := (ms_threadsMeta s) |` (- dom (ms_threadsReqs s)),
        ms_messagesReqs := Map.empty,
        ms_messagesMeta := (ms_messagesMeta s) |` (- dom (ms_messagesReqs s)),
        ms_sendReqs := Map.empty, ms_markReadReqs := Map.empty\<rparr>)"

end
