(* ===== verification/Message_Sync.thy ===== *)
theory Message_Sync
  imports Message_Threads
begin

text \<open>
  What the Mac's copy of the text messages keeps through any run of its operations: the
  requests in flight, the generations that make stale pages harmless, the pages it merges and
  the pushes it counts once.
\<close>

section \<open>Merging\<close>

lemma unseen_threads_facts:
  "distinct (map st_ThreadID (unseen_threads seen ts)) \<and>
   st_ThreadID ` set (unseen_threads seen ts) = st_ThreadID ` set ts - seen"
  by (induction seen ts rule: unseen_threads.induct) auto

definition real_ids :: "SMSMessage list \<Rightarrow> int list" where
  "real_ids ms = filter (\<lambda>i. i \<noteq> 0) (map sm_ID ms)"

lemma real_ids_simps [simp]:
  "real_ids [] = []" "real_ids (m # ms) = (if sm_ID m \<noteq> 0 then sm_ID m # real_ids ms else real_ids ms)"
  "real_ids (ms @ ms') = real_ids ms @ real_ids ms'"
  by (simp_all add: real_ids_def)

lemma set_real_ids: "set (real_ids ms) = sm_ID ` set ms - {0}"
  by (auto simp: real_ids_def)

lemma unseen_messages_facts:
  "distinct (real_ids (unseen_messages seen ms)) \<and>
   set (real_ids (unseen_messages seen ms)) = set (real_ids ms) - seen"
  by (induction seen ms rule: unseen_messages.induct) auto

lemma set_unseen_messages: "set (unseen_messages seen ms) \<subseteq> set ms"
  by (induction seen ms rule: unseen_messages.induct) auto

lemma chronological_facts [simp]:
  "set (chronological ms) = set ms" "mset (chronological ms) = mset ms"
  "sorted (map (\<lambda>m. (sm_Date m, sm_ID m)) (chronological ms))"
  by (simp_all add: chronological_def)

text \<open>
  A later page never duplicates a conversation: merged into a cache of distinct threads, it
  keeps the cache as it is, in front, and adds each thread the cache did not have once, the
  first time the page names it. (An empty cache takes the page as it is.)
\<close>

theorem thread_pages_merge:
  assumes "dst \<noteq> []" "distinct (map st_ThreadID dst)"
  shows "distinct (map st_ThreadID (mergeSMSThreads dst src)) \<and> prefix dst (mergeSMSThreads dst src) \<and>
         st_ThreadID ` set (mergeSMSThreads dst src) = st_ThreadID ` (set dst \<union> set src)"
  using assms unseen_threads_facts[of "st_ThreadID ` set dst" src]
  by (auto simp: mergeSMSThreads_def)

theorem thread_pages_merge_witness:
  "distinct (map st_ThreadID (mergeSMSThreads [zero_SMSThread\<lparr>st_ThreadID := 7\<rparr>]
     [zero_SMSThread\<lparr>st_ThreadID := 8\<rparr>, zero_SMSThread\<lparr>st_ThreadID := 7\<rparr>, zero_SMSThread\<lparr>st_ThreadID := 8\<rparr>]))"
  using thread_pages_merge[of "[zero_SMSThread\<lparr>st_ThreadID := 7\<rparr>]"] by simp

theorem first_page_keeps_duplicates:
  "map st_ThreadID (mergeSMSThreads [] [zero_SMSThread\<lparr>st_ThreadID := 8\<rparr>, zero_SMSThread\<lparr>st_ThreadID := 8\<rparr>]) = [8, 8]"
  by (simp add: mergeSMSThreads_def)



section \<open>The steps of the store\<close>

inductive message_step :: "MessageStore \<Rightarrow> MessageStore \<Rightarrow> bool" where
  "message_step s (snd (ListSMSThreads_begin cursor limit force db contacts paired gate reqID nonce s))"
| "message_step s (snd (ListSMSThreads_end req sent contacts gate s))"
| "message_step s (snd (ListSMSMessages_begin tid cursor limit force db' before contacts paired gate reqID nonce s))"
| "message_step s (snd (ListSMSMessages_end tid req sent contacts s))"
| "message_step s (snd (SendSMS_begin recipient body subID paired gate reqID clientID nonce s))"
| "message_step s (snd (SendSMS_end p sendError nowMs s))"
| "MarkThreadRead tid s = Some (found, addr, s') \<Longrightarrow> message_step s s'"
| "message_step s (snd (MarkThreadRead_request tid addr paired gate reqID nonce s))"
| "message_step s (MarkThreadRead_end req s)"
| "message_step s (ingestThreadsResp contacts tresp s)"
| "message_step s (ingestMessagesResp contacts mresp s)"
| "message_step s (ingestSendResp sresp s)"
| "message_step s (ingestMarkReadResp rresp s)"
| "message_step s (ingestSMSPush contacts push s)"
| "ms_gen s < 9223372036854775807 \<Longrightarrow> message_step s (ingestSMSChanged s)"
| "message_step s (snd (failPendingSMSRequests err s))"

lemma threads_begin_tables:
  assumes "s' = snd (ListSMSThreads_begin cursor limit force db contacts paired gate reqID nonce s)"
  shows "ms_gen s' = ms_gen s \<and> ms_dedup s' = ms_dedup s \<and>
    ms_messagesReqs s' = ms_messagesReqs s \<and> ms_messagesMeta s' = ms_messagesMeta s \<and>
    registers pm_gen (ms_gen s) (ms_threadsReqs s) (ms_threadsMeta s) (ms_threadsReqs s') (ms_threadsMeta s')"
  unfolding assms
  by (simp add: ListSMSThreads_begin_def Let_def split: option.split)

lemma messages_ask_tables:
  assumes "s' = snd (ListSMSMessages_ask tid cursor limit paired gate reqID nonce s)"
  shows "ms_gen s' = ms_gen s \<and> ms_dedup s' = ms_dedup s \<and>
    ms_threadsReqs s' = ms_threadsReqs s \<and> ms_threadsMeta s' = ms_threadsMeta s \<and>
    registers pm_gen (ms_gen s) (ms_messagesReqs s) (ms_messagesMeta s) (ms_messagesReqs s') (ms_messagesMeta s')"
  unfolding assms by (simp add: ListSMSMessages_ask_def Let_def split: option.split)

lemma messages_begin_tables:
  assumes "s' = snd (ListSMSMessages_begin tid cursor limit force db before contacts paired gate reqID nonce s)"
  shows "ms_gen s' = ms_gen s \<and> ms_dedup s' = ms_dedup s \<and>
    ms_threadsReqs s' = ms_threadsReqs s \<and> ms_threadsMeta s' = ms_threadsMeta s \<and>
    registers pm_gen (ms_gen s) (ms_messagesReqs s) (ms_messagesMeta s) (ms_messagesReqs s') (ms_messagesMeta s')"
proof -
  let ?s = "load_thread tid cursor force db s"
  have l: "ms_gen ?s = ms_gen s" "ms_dedup ?s = ms_dedup s" "ms_threadsReqs ?s = ms_threadsReqs s"
    "ms_threadsMeta ?s = ms_threadsMeta s" "ms_messagesReqs ?s = ms_messagesReqs s"
    "ms_messagesMeta ?s = ms_messagesMeta s"
    by (simp_all add: load_thread_def put_thread_def split: option.split)
  consider "s' = s" | "s' = ?s"
    | limit where "s' = snd (ListSMSMessages_ask tid cursor limit paired gate reqID nonce ?s)"
    using assms by (simp add: ListSMSMessages_begin_def Let_def split: if_splits option.splits)
  then show ?thesis
  proof cases
    case (3 limit)
    show ?thesis using messages_ask_tables[OF 3] unfolding l .
  qed (simp_all add: l)
qed

lemma send_begin_tables:
  assumes "s' = snd (SendSMS_begin recipient body subID paired gate reqID clientID nonce s)"
  shows "s' = s\<lparr>ms_sendReqs := ms_sendReqs s'\<rparr>"
  unfolding assms by (simp add: SendSMS_begin_def Let_def split: option.split)

section \<open>The invariant\<close>

definition messages_ok :: "MessageStore \<Rightarrow> bool" where
  "messages_ok s \<longleftrightarrow>
     requests_ok pm_gen (ms_gen s) (ms_threadsReqs s) (ms_threadsMeta s) \<and>
     requests_ok pm_gen (ms_gen s) (ms_messagesReqs s) (ms_messagesMeta s) \<and>
     dedup_inv (ms_dedup s) \<and> int64 (ms_gen s)"

lemma put_thread_fields [simp]:
  "ms_threads (put_thread t ms s) = ms_threads s" "ms_gen (put_thread t ms s) = ms_gen s"
  "ms_dedup (put_thread t ms s) = ms_dedup s"
  "ms_threadsReqs (put_thread t ms s) = ms_threadsReqs s" "ms_threadsMeta (put_thread t ms s) = ms_threadsMeta s"
  "ms_messagesReqs (put_thread t ms s) = ms_messagesReqs s" "ms_messagesMeta (put_thread t ms s) = ms_messagesMeta s"
  by (simp_all add: put_thread_def)

lemma apply_push_fields [simp]:
  "ms_gen (apply_push p s) = ms_gen s" "ms_dedup (apply_push p s) = ms_dedup s"
  "ms_threadsReqs (apply_push p s) = ms_threadsReqs s" "ms_threadsMeta (apply_push p s) = ms_threadsMeta s"
  "ms_messagesReqs (apply_push p s) = ms_messagesReqs s" "ms_messagesMeta (apply_push p s) = ms_messagesMeta s"
  by (simp_all add: apply_push_def Let_def split: option.split)

lemma mark_push_inv: "dedup_inv d \<Longrightarrow> dedup_inv (snd (markSMSPushSeen k d))"
  using dedup.mark_inv by (simp add: markSMSPushSeen_def)

lemma step_ok: "message_step s s' \<Longrightarrow> messages_ok s \<Longrightarrow> messages_ok s' \<and> ms_gen s \<le> ms_gen s'"
proof (induction rule: message_step.induct)
  case (1 s cursor limit force db contacts paired gate reqID nonce)
  then show ?case
    using threads_begin_tables[OF refl, of cursor limit force db contacts paired gate reqID nonce s]
    by (auto simp: messages_ok_def intro: requests_ok_registers)
next
  case (2 s req sent contacts gate)
  then show ?case
    by (simp add: messages_ok_def ListSMSThreads_end_def Let_def forget_threads_request_def requests_ok_remove)
next
  case (3 s tid cursor limit force db' before contacts paired gate reqID nonce)
  then show ?case
    using messages_begin_tables[OF refl, of tid cursor limit force db' before contacts paired gate reqID nonce s]
    by (auto simp: messages_ok_def intro: requests_ok_registers)
next
  case (4 s tid req sent contacts)
  then show ?case
    by (simp add: messages_ok_def ListSMSMessages_end_def Let_def forget_messages_request_def requests_ok_remove)
next
  case (5 s recipient body subID paired gate reqID clientID nonce)
  then show ?case
    by (subst (1 2) send_begin_tables[OF refl]) (simp add: messages_ok_def)
next
  case (6 s p sendError nowMs)
  then show ?case
    by (simp add: messages_ok_def SendSMS_end_def Let_def append_sent_def split: option.split)
next
  case (7 tid s found addr s')
  then show ?case
    by (auto simp: messages_ok_def MarkThreadRead_def Let_def split: if_splits option.splits)
next
  case (8 s tid addr paired gate reqID nonce)
  then show ?case by (simp add: messages_ok_def MarkThreadRead_request_def split: option.split)
next
  case (10 s contacts tresp)
  then show ?case by (simp add: messages_ok_def ingestThreadsResp_def Let_def)
next
  case (11 s contacts mresp)
  then show ?case by (simp add: messages_ok_def ingestMessagesResp_def Let_def)
next
  case (14 s contacts push)
  then show ?case using mark_push_inv by (simp add: messages_ok_def ingestSMSPush_def Let_def split_def)
next
  case (15 s)
  then have "wrap64 (ms_gen s + 1) = ms_gen s + 1" "int64 (ms_gen s + 1)"
    by (simp_all add: messages_ok_def wrap64_id int64_def)
  then show ?case using 15 by (auto simp: messages_ok_def ingestSMSChanged_def intro: requests_ok_later)
next
  case (16 s err)
  then show ?case by (simp add: messages_ok_def failPendingSMSRequests_def requests_ok_empty)
qed (simp_all add: messages_ok_def MarkThreadRead_end_def ingestSendResp_def ingestMarkReadResp_def)


lemma steps_ok: "message_step\<^sup>*\<^sup>* s s' \<Longrightarrow> messages_ok s \<Longrightarrow> messages_ok s' \<and> ms_gen s \<le> ms_gen s'"
  by (induction rule: rtranclp_induct) (use step_ok in fastforce)+

lemma messages_ok_new [simp]: "messages_ok (new_messages db)"
  by (simp add: messages_ok_def new_messages_def requests_ok_def dedup_inv_new int64_def)

section \<open>What the operations guarantee\<close>

text \<open>
  Over any run of listings, sends, answers, pushes, changes and disconnects the
  store keeps its books: a page request waits exactly as long as its page data is kept, no
  request is of a later generation than the store, the deduplication cache keeps its
  invariant, and the generation never goes back, as long as its 64-bit counter lasts.
\<close>

theorem message_store_invariant:
  assumes "message_step\<^sup>*\<^sup>* (new_messages db) s"
  shows "messages_ok s \<and> 0 \<le> ms_gen s"
  using steps_ok[OF assms messages_ok_new] by (simp add: new_messages_def[THEN arg_cong[of _ _ ms_gen]])

theorem message_store_invariant_witness:
  "messages_ok (ingestSMSChanged (new_messages [])) \<and> 0 \<le> ms_gen (ingestSMSChanged (new_messages []))"
  by (rule message_store_invariant[of "[]"], rule r_into_rtranclp, rule message_step.intros)
    (simp add: new_messages_def)

lemma changed_later:
  assumes "messages_ok s" "ms_gen s < 9223372036854775807" "message_step\<^sup>*\<^sup>* (ingestSMSChanged s) s'"
  shows "ms_gen s < ms_gen s'"
proof -
  have "message_step s (ingestSMSChanged s)" using assms(2) by (rule message_step.intros)
  then have ok: "messages_ok (ingestSMSChanged s)" using step_ok assms(1) by blast
  have "ms_gen (ingestSMSChanged s) = ms_gen s + 1"
    using assms(1,2) by (simp add: ingestSMSChanged_def messages_ok_def wrap64_id int64_def)
  then show ?thesis using steps_ok[OF assms(3) ok] by simp
qed

lemma request_gen:
  "messages_ok s \<Longrightarrow> ms_threadsMeta s r = Some m \<Longrightarrow> pm_gen m \<le> ms_gen s"
  "messages_ok s \<Longrightarrow> ms_messagesMeta s r = Some m \<Longrightarrow> pm_gen m \<le> ms_gen s"
  by (simp_all add: messages_ok_def requests_ok_def)

text \<open>
  C15. A page asked for before the phone said that its messages changed never comes back
  to life: whatever happens after the change, while the request is still waiting its answer
  leaves the store exactly as it is, and even an error answer leaves the caches alone.
\<close>

theorem stale_pages_dropped:
  assumes "messages_ok s" "ms_gen s < 9223372036854775807" "message_step\<^sup>*\<^sup>* (ingestSMSChanged s) s'"
    and "ms_threadsMeta s r = Some m" "ms_threadsMeta s' r = Some m" "sts_ReqID resp = r"
  shows "ms_threads (ingestThreadsResp cs resp s') = ms_threads s' \<and>
         ms_messages (ingestThreadsResp cs resp s') = ms_messages s' \<and>
         (sts_Error resp = [] \<longrightarrow> ingestThreadsResp cs resp s' = s')"
proof -
  have "pm_gen m \<noteq> ms_gen s'" using changed_later[OF assms(1-3)] request_gen(1)[OF assms(1,4)] by simp
  then show ?thesis using assms(5,6) by (auto simp: ingestThreadsResp_def Let_def)
qed

definition waiting_store :: MessageStore where
  "waiting_store = (new_messages [])
     \<lparr>ms_threadsReqs := [''r'' \<mapsto> None],
      ms_threadsMeta := [''r'' \<mapsto> \<lparr>pm_cursor = [], pm_threadID = 0, pm_gen = 0\<rparr>]\<rparr>"

theorem stale_pages_dropped_witness:
  "ms_threads (ingestThreadsResp [] (zero_SMSThreadsRespPayload
     \<lparr>sts_ReqID := ''r'', sts_Threads := [zero_SMSThread]\<rparr>) (ingestSMSChanged waiting_store)) = []"
proof -
  have "messages_ok waiting_store"
    by (simp add: waiting_store_def messages_ok_def new_messages_def requests_ok_def dedup_inv_new int64_def)
  then show ?thesis
    using stale_pages_dropped[of waiting_store "ingestSMSChanged waiting_store" "''r''"
        "\<lparr>pm_cursor = [], pm_threadID = 0, pm_gen = 0\<rparr>"
        "zero_SMSThreadsRespPayload\<lparr>sts_ReqID := ''r'', sts_Threads := [zero_SMSThread]\<rparr>" "[]"]
    by (simp add: waiting_store_def new_messages_def ingestSMSChanged_def)
qed

text \<open>The same for the transcript of a thread.\<close>

lemma stale_transcripts_dropped:
  assumes "messages_ok s" "ms_gen s < 9223372036854775807" "message_step\<^sup>*\<^sup>* (ingestSMSChanged s) s'"
    and "ms_messagesMeta s r = Some m" "ms_messagesMeta s' r = Some m" "sms_ReqID resp = r"
    and "sms_Error resp = []"
  shows "ingestMessagesResp cs resp s' = s'"
proof -
  have "pm_gen m \<noteq> ms_gen s'" using changed_later[OF assms(1-3)] request_gen(2)[OF assms(1,4)] by simp
  then show ?thesis
    using assms(5-7) by (cases "ms_messagesReqs s' r") (simp_all add: ingestMessagesResp_def Let_def)
qed

definition push_key_of :: "SMSPushPayload \<Rightarrow> string" where
  "push_key_of p = smsPushDedupKey (sp_Message p) (sp_ClientID p)"

lemma push_key_nonempty [simp]: "push_key_of p \<noteq> []" "smsPushDedupKey m c \<noteq> []"
  by (simp_all add: push_key_of_def smsPushDedupKey_def)

lemma complete_push_key [simp]:
  "smsPushDedupKey (sp_Message (complete_push cs p)) (sp_ClientID (complete_push cs p)) = push_key_of p"
  by (simp add: push_key_of_def smsPushDedupKey_def complete_push_def Let_def split: option.split)

lemma push_dedup: "ms_dedup (ingestSMSPush cs p s) = snd (DedupCache_Mark (push_key_of p) (ms_dedup s))"
  by (simp add: ingestSMSPush_def markSMSPushSeen_def Let_def split_def)

lemma pushes_dedup:
  "ms_dedup (fold (\<lambda>(cs, p). ingestSMSPush cs p) ps s) =
   fold (\<lambda>k d. snd (DedupCache_Mark k d)) (map (push_key_of \<circ> snd) ps) (ms_dedup s)"
  by (induction ps arbitrary: s) (auto simp: push_dedup)

lemma mark_refused: "\<not> fst (DedupCache_Mark k d) \<Longrightarrow> snd (DedupCache_Mark k d) = d"
  by (simp add: DedupCache_Mark_def Let_def split: if_splits)

text \<open>
  C7. A push takes effect at most once: after a push that was taken as new, the same push
  again (the same client id, or the same provider id, or the same address, date and length)
  leaves the store exactly as it is, while fewer than 500 other pushes went by, whatever the
  directory holds by then.
\<close>

theorem sms_push_at_most_once:
  fixes s :: MessageStore and p :: SMSPushPayload and cs :: "ContactEntry list"
  assumes "dedup_inv (ms_dedup s)" "fst (DedupCache_Mark (push_key_of p) (ms_dedup s))"
    and "int (length ps) < dc_cap (ms_dedup s)"
  defines "s' \<equiv> fold (\<lambda>(cs, p). ingestSMSPush cs p) ps (ingestSMSPush cs p s)"
  shows "ingestSMSPush cs' p s' = s'"
proof -
  have "\<not> fst (DedupCache_Mark (push_key_of p) (ms_dedup s'))"
    using dedup.no_second_application[OF assms(1,2) refl, of "map (push_key_of \<circ> snd) ps"] assms(3)
    unfolding s'_def by (simp add: pushes_dedup push_dedup dedup.mark_all_def)
  then show ?thesis
    using mark_refused[of "push_key_of p" "ms_dedup s'"]
    by (simp add: ingestSMSPush_def markSMSPushSeen_def Let_def split_def)
qed

theorem sms_push_at_most_once_witness:
  "ingestSMSPush [] zero_SMSPushPayload (ingestSMSPush [] zero_SMSPushPayload (new_messages [])) =
   ingestSMSPush [] zero_SMSPushPayload (new_messages [])"
proof -
  have "dedup_inv (ms_dedup (new_messages []))" by (simp add: new_messages_def dedup_inv_new)
  moreover have "fst (DedupCache_Mark (push_key_of zero_SMSPushPayload) (ms_dedup (new_messages [])))"
    "0 < dc_cap (ms_dedup (new_messages []))"
    by (simp_all add: new_messages_def NewDedupCache_def DedupCache_Mark_def go_consts)
  ultimately show ?thesis using sms_push_at_most_once[of "new_messages []" zero_SMSPushPayload "[]"] by simp
qed


end
