(* ===== verification/Avatar_Cache.thy ===== *)
theory Avatar_Cache
  imports Prelude "HOL-Library.AList" "HOL-Library.Multiset"
begin

text \<open>
  The Mac's cache of contact photos (\<open>apps/mac/backend/contacts.go\<close>): three maps from cache ids
  to bytes, versions and the time of the last use, a counter that gives those times, and an
  eviction of the least recently used entry beyond 300. Map iteration order only matters between
  equal times, which do not occur.
\<close>

section \<open>The cache\<close>

record AvatarCache =
  av_data :: "(string \<times> string) list"
  av_version :: "(string \<times> string) list"
  av_at :: "(string \<times> int) list"
  av_seq :: int

definition no_avatars :: AvatarCache where
  "no_avatars = \<lparr>av_data = [], av_version = [], av_at = [], av_seq = 0\<rparr>"

definition maxAvatarCacheEntries :: nat where [go_consts]: "maxAvatarCacheEntries = 300"

definition value_of :: "(string \<times> string) list \<Rightarrow> string \<Rightarrow> string" where
  "value_of m k = (case map_of m k of None \<Rightarrow> [] | Some v \<Rightarrow> v)"

definition touch :: "string \<Rightarrow> AvatarCache \<Rightarrow> AvatarCache" where
  "touch cid c =
     (let seq = wrap64 (av_seq c + 1) in c\<lparr>av_seq := seq, av_at := AList.update cid seq (av_at c)\<rparr>)"

text \<open>The bytes and the version on a hit; the first result is \<open>None\<close> on a miss.\<close>

definition avatarCacheGet :: "string \<Rightarrow> string \<Rightarrow> AvatarCache \<Rightarrow> (string \<times> string) option \<times> AvatarCache" where
  "avatarCacheGet cid expected c =
     (let b64 = value_of (av_data c) cid; ver = value_of (av_version c) cid
      in if b64 = [] then (None, c)
         else if expected \<noteq> [] \<and> ver \<noteq> [] \<and> ver \<noteq> expected then (None, c)
         else (Some (b64, ver), touch cid c))"

definition forget_avatar :: "string \<Rightarrow> AvatarCache \<Rightarrow> AvatarCache" where
  "forget_avatar cid c =
     c\<lparr>av_data := AList.delete cid (av_data c), av_version := AList.delete cid (av_version c),
       av_at := AList.delete cid (av_at c)\<rparr>"

fun oldest_touch :: "string \<times> int \<Rightarrow> (string \<times> int) list \<Rightarrow> string \<times> int" where
  "oldest_touch e [] = e"
| "oldest_touch e (f # fs) = oldest_touch (if snd f < snd e then f else e) fs"

lemma oldest_touch_facts:
  "oldest_touch e es \<in> set (e # es) \<and> (\<forall>f \<in> set (e # es). snd (oldest_touch e es) \<le> snd f)"
  by (induction e es rule: oldest_touch.induct) (force split: if_splits)+

lemma length_delete_less: "k \<in> fst ` set m \<Longrightarrow> length (AList.delete k m) < length m"
  by (induction m) (force simp: less_Suc_eq_le length_delete_le Suc_le_eq)+

function evict_avatars :: "AvatarCache \<Rightarrow> AvatarCache" where
  "evict_avatars c =
     (if length (av_data c) \<le> maxAvatarCacheEntries then c
      else case av_at c of
        [] \<Rightarrow> c
      | e # es \<Rightarrow>
          (let cid = fst (oldest_touch e es)
           in if cid = [] then c else evict_avatars (forget_avatar cid c)))"
  by auto
termination
proof (relation "measure (\<lambda>c. length (av_at c))")
  fix c :: AvatarCache and e es cid
  assume "av_at c = e # es" "cid = fst (oldest_touch e es)"
  then have "cid \<in> fst ` set (av_at c)" using oldest_touch_facts[of e es] by auto
  then show "(forget_avatar cid c, c) \<in> measure (\<lambda>c. length (av_at c))"
    by (simp add: forget_avatar_def length_delete_less)
qed simp

declare evict_avatars.simps [simp del]

definition put_avatar :: "string \<Rightarrow> string \<Rightarrow> string \<Rightarrow> AvatarCache \<Rightarrow> AvatarCache" where
  "put_avatar cid b64 version c =
     touch cid (c\<lparr>av_data := AList.update cid b64 (av_data c),
                 av_version := (if version \<noteq> [] then AList.update cid version (av_version c)
                                else av_version c)\<rparr>)"

definition avatarCachePut :: "string \<Rightarrow> string \<Rightarrow> string \<Rightarrow> AvatarCache \<Rightarrow> AvatarCache" where
  "avatarCachePut cid b64 version c =
     (if cid = [] \<or> b64 = [] then c else evict_avatars (put_avatar cid b64 version c))"

definition pruneAvatarCache :: "string list \<Rightarrow> AvatarCache \<Rightarrow> AvatarCache" where
  "pruneAvatarCache contacts c =
     (if av_data c = [] then c
      else
        let keep = contacts @ map (\<lambda>cid. cid @ ''#full'') contacts
        in fold forget_avatar (filter (\<lambda>cid. cid \<notin> set keep) (map fst (av_data c))) c)"

text \<open>A version is remembered for a photo whose bytes are not there.\<close>

definition remember_version :: "string \<Rightarrow> string \<Rightarrow> AvatarCache \<Rightarrow> AvatarCache" where
  "remember_version cid version c =
     (if map_of (av_data c) cid = None then c\<lparr>av_version := AList.update cid version (av_version c)\<rparr> else c)"

section \<open>Its invariant\<close>

text \<open>
  Keys and times are distinct, only photos that are there have a time, and no time is later than
  the counter. A cache is \<open>touched\<close> when every photo has a time: so is one that started empty,
  but not one loaded from the database.
\<close>

definition avatars_ok :: "AvatarCache \<Rightarrow> bool" where
  "avatars_ok c \<longleftrightarrow>
     distinct (map fst (av_data c)) \<and> distinct (map fst (av_at c)) \<and> distinct (map snd (av_at c)) \<and>
     fst ` set (av_at c) \<subseteq> fst ` set (av_data c) \<and> [] \<notin> fst ` set (av_at c) \<and>
     (\<forall>t \<in> snd ` set (av_at c). t \<le> av_seq c) \<and> int64 (av_seq c)"

definition touched :: "AvatarCache \<Rightarrow> bool" where
  "touched c \<longleftrightarrow> fst ` set (av_data c) \<subseteq> fst ` set (av_at c)"

text \<open>The photos, the last used first.\<close>

definition by_use :: "AvatarCache \<Rightarrow> (string \<times> string) list" where
  "by_use c = rev (map (\<lambda>(k, t). (k, value_of (av_data c) k)) (sort_key snd (av_at c)))"

lemma delete_filter: "AList.delete k m = filter (\<lambda>e. fst e \<noteq> k) m"
  by (auto simp: AList.delete_eq intro: filter_cong)

lemma keys_update: "fst ` set (AList.update k v m) = insert k (fst ` set m)"
  by (auto simp: dom_map_of_conv_image_fst[symmetric] update_conv')

lemma keys_delete: "fst ` set (AList.delete k m) = fst ` set m - {k}"
  by (auto simp: dom_map_of_conv_image_fst[symmetric] delete_conv')

lemma value_of_update [simp]: "value_of (AList.update k v m) k' = (if k' = k then v else value_of m k')"
  by (simp add: value_of_def update_conv')

lemma value_of_delete [simp]: "k' \<noteq> k \<Longrightarrow> value_of (AList.delete k m) k' = value_of m k'"
  by (simp add: value_of_def delete_conv')

lemma mset_update: "distinct (map fst m) \<Longrightarrow> mset (AList.update k v m) = add_mset (k, v) (mset (AList.delete k m))"
proof (induction m)
  case (Cons e m)
  obtain k' v' where e: "e = (k', v')" by (cases e)
  show ?case
  proof (cases "k' = k")
    case True
    then have "k \<notin> fst ` set m" using Cons.prems e by simp
    then have "AList.delete k m = m" by (induction m) (auto simp: AList.delete_eq)
    then show ?thesis using True e by simp
  next
    case False
    then show ?thesis using Cons e by simp
  qed
qed simp

lemma sort_update:
  assumes "distinct (map fst m)" "distinct (map snd m)" "\<forall>t \<in> snd ` set m. t < n"
  shows "sort_key snd (AList.update k n m) =
           filter (\<lambda>e. fst e \<noteq> k) (sort_key snd m) @ [(k, n :: int)]"
proof (rule sort_key_inj_key_eq)
  show ms: "mset (AList.update k n m) = mset (filter (\<lambda>e. fst e \<noteq> k) (sort_key snd m) @ [(k, n)])"
    using assms(1) by (simp add: mset_update delete_filter)
  have "distinct (map snd (filter (\<lambda>e. fst e \<noteq> k) m))" using assms(2) by (rule distinct_map_filter)
  then have "distinct (map snd (filter (\<lambda>e. fst e \<noteq> k) m @ [(k, n)]))" using assms(3) by auto
  then have "inj_on snd (set (filter (\<lambda>e. fst e \<noteq> k) m @ [(k, n)]))" unfolding distinct_map by blast
  moreover have "set (AList.update k n m) = set (filter (\<lambda>e. fst e \<noteq> k) m @ [(k, n)])"
    using mset_eq_setD[OF ms] by simp
  ultimately show "inj_on snd (set (AList.update k n m))" by simp
  have "sorted (map snd (filter (\<lambda>e. fst e \<noteq> k) (sort_key snd m)))"
    by (simp add: filter_sort)
  then show "sorted (map snd (filter (\<lambda>e. fst e \<noteq> k) (sort_key snd m) @ [(k, n)]))"
    using assms(3) by (auto simp: sorted_append less_imp_le)
qed

lemma sort_delete: "sort_key snd (AList.delete k m) = filter (\<lambda>e. fst e \<noteq> k) (sort_key snd m)"
  by (simp add: delete_filter filter_sort)

lemma oldest_is_head:
  assumes "distinct (map snd (e # es))"
  shows "oldest_touch e es = hd (sort_key snd (e # es))"
proof -
  let ?s = "sort_key snd (e # es)"
  obtain x xs where x: "?s = x # xs" by (cases ?s) (use set_sort[of snd "e # es"] in auto)
  have "x \<in> set (e # es)" using x set_sort[of snd "e # es"] by (metis list.set_intros(1))
  moreover have "\<forall>y \<in> set (e # es). snd x \<le> snd y"
    using sorted_sort_key[of snd "e # es"] set_sort[of snd "e # es"] unfolding x by auto
  moreover have "inj_on snd (set (e # es))" using assms unfolding distinct_map by blast
  ultimately have "x = oldest_touch e es"
    using oldest_touch_facts[of e es] by (meson antisym inj_onD)
  then show ?thesis using x by simp
qed

lemma filter_hd: "distinct (map fst (x # xs)) \<Longrightarrow> filter (\<lambda>e. fst e \<noteq> fst x) (x # xs) = xs"
  by (simp add: filter_id_conv) (metis image_eqI)

lemma by_use_forget:
  "by_use (forget_avatar k c) = filter (\<lambda>e. fst e \<noteq> k) (by_use c)"
proof -
  have "map (\<lambda>(k', t). (k', value_of (AList.delete k d) k')) (filter (\<lambda>e. fst e \<noteq> k) m) =
        filter (\<lambda>e. fst e \<noteq> k) (map (\<lambda>(k', t). (k', value_of d k')) m)" for d and m :: "(string \<times> int) list"
    by (induction m) auto
  then show ?thesis by (simp add: by_use_def forget_avatar_def sort_delete rev_filter[symmetric])
qed

lemma keys_by_use: "distinct (map fst (av_at c)) \<Longrightarrow>
   distinct (map fst (by_use c)) \<and> fst ` set (by_use c) = fst ` set (av_at c)"
proof -
  assume d: "distinct (map fst (av_at c))"
  have "map fst (by_use c) = rev (map fst (sort_key snd (av_at c)))"
    by (simp add: by_use_def rev_map comp_def case_prod_beta)
  moreover have "mset (map fst (sort_key snd (av_at c))) = mset (map fst (av_at c))" by simp
  then have "distinct (map fst (sort_key snd (av_at c)))" using d mset_eq_imp_distinct_iff by blast
  moreover have "fst ` set (by_use c) = set (map fst (by_use c))" by simp
  ultimately show ?thesis by simp
qed

lemma by_use_touch:
  assumes "avatars_ok c" "av_seq c < 9223372036854775807"
  shows "by_use (touch k c) = (k, value_of (av_data c) k) # filter (\<lambda>e. fst e \<noteq> k) (by_use c)"
proof -
  have seq: "wrap64 (av_seq c + 1) = av_seq c + 1" using assms by (simp add: avatars_ok_def wrap64_id int64_def)
  have "map (\<lambda>(k', t). (k', value_of d k')) (filter (\<lambda>e. fst e \<noteq> k) m) =
        filter (\<lambda>e. fst e \<noteq> k) (map (\<lambda>(k', t). (k', value_of d k')) m)" for d and m :: "(string \<times> int) list"
    by (induction m) auto
  moreover have "\<forall>t \<in> snd ` set (av_at c). t < av_seq c + 1" using assms(1) by (auto simp: avatars_ok_def)
  ultimately show ?thesis
    using assms(1) seq sort_update[of "av_at c" "av_seq c + 1" k]
    by (simp add: by_use_def touch_def Let_def avatars_ok_def rev_filter[symmetric])
qed

lemma ok_forget: "avatars_ok c \<Longrightarrow> avatars_ok (forget_avatar k c)"
  by (auto simp: avatars_ok_def forget_avatar_def keys_delete delete_filter distinct_map_filter)

lemma touched_forget: "touched c \<Longrightarrow> touched (forget_avatar k c)"
  by (auto simp: touched_def forget_avatar_def keys_delete)

lemma seq_forget [simp]: "av_seq (forget_avatar k c) = av_seq c"
  by (simp add: forget_avatar_def)

lemma update_times:
  assumes "distinct (map snd m)" "\<forall>t \<in> snd ` set m. t < n"
  shows "distinct (map snd (AList.update k n m)) \<and>
         snd ` set (AList.update k n m) \<subseteq> insert (n :: int) (snd ` set m)"
  using assms
proof (induction m)
  case (Cons e m)
  then have IH: "distinct (map snd (AList.update k n m))"
    "snd ` set (AList.update k n m) \<subseteq> insert n (snd ` set m)" by simp_all
  obtain k' t where e: "e = (k', t)" by (cases e)
  have "t \<noteq> n" "n \<notin> snd ` set m" "t \<notin> snd ` set m" "distinct (map snd m)" using Cons.prems e by auto
  then show ?case using IH e by auto
qed simp

lemma ok_touch:
  assumes "avatars_ok c" "av_seq c < 9223372036854775807" "k \<noteq> []" "k \<in> fst ` set (av_data c)"
  shows "avatars_ok (touch k c)"
proof -
  have seq: "wrap64 (av_seq c + 1) = av_seq c + 1" "int64 (av_seq c + 1)"
    using assms by (simp_all add: avatars_ok_def wrap64_id int64_def)
  have "\<forall>t \<in> snd ` set (av_at c). t < av_seq c + 1" using assms(1) by (auto simp: avatars_ok_def)
  moreover have "distinct (map snd (av_at c))" using assms(1) by (simp add: avatars_ok_def)
  ultimately have t: "distinct (map snd (AList.update k (av_seq c + 1) (av_at c)))"
    "snd ` set (AList.update k (av_seq c + 1) (av_at c)) \<subseteq> insert (av_seq c + 1) (snd ` set (av_at c))"
    using update_times[of "av_at c" "av_seq c + 1" k] by blast+
  have le: "\<forall>x \<in> snd ` set (AList.update k (av_seq c + 1) (av_at c)). x \<le> av_seq c + 1"
  proof
    fix x assume "x \<in> snd ` set (AList.update k (av_seq c + 1) (av_at c))"
    then have "x = av_seq c + 1 \<or> x \<in> snd ` set (av_at c)" using t(2) by blast
    then show "x \<le> av_seq c + 1" using assms(1) unfolding avatars_ok_def by force
  qed
  have "fst ` set (AList.update k (av_seq c + 1) (av_at c)) \<subseteq> fst ` set (av_data c)"
    "[] \<notin> fst ` set (AList.update k (av_seq c + 1) (av_at c))"
    using assms by (auto simp: keys_update avatars_ok_def)
  moreover have "distinct (map fst (AList.update k (av_seq c + 1) (av_at c)))"
    using assms(1) by (simp add: avatars_ok_def distinct_update)
  ultimately show ?thesis
    using assms(1) seq t(1) le unfolding avatars_ok_def touch_def Let_def by simp
qed

lemma ok_data: "avatars_ok c \<Longrightarrow>
   avatars_ok (c\<lparr>av_data := AList.update k v (av_data c), av_version := vs\<rparr>)"
  by (auto simp: avatars_ok_def keys_update distinct_update)

lemma ok_put:
  assumes "avatars_ok c" "av_seq c < 9223372036854775807" "k \<noteq> []"
  shows "avatars_ok (put_avatar k b64 ver c)"
  unfolding put_avatar_def using assms by (intro ok_touch ok_data) (simp_all add: keys_update)

lemma touched_put: "touched c \<Longrightarrow> touched (put_avatar k b64 ver c)"
  by (auto simp: touched_def put_avatar_def touch_def Let_def keys_update)

lemma by_use_put:
  assumes "avatars_ok c" "av_seq c < 9223372036854775807"
  shows "by_use (put_avatar k b64 ver c) = (k, b64) # filter (\<lambda>e. fst e \<noteq> k) (by_use c)"
proof -
  let ?c = "c\<lparr>av_data := AList.update k b64 (av_data c),
              av_version := (if ver \<noteq> [] then AList.update k ver (av_version c) else av_version c)\<rparr>"
  have "filter (\<lambda>e. fst e \<noteq> k) (map (\<lambda>(k', t). (k', value_of (AList.update k b64 d) k')) m) =
        filter (\<lambda>e. fst e \<noteq> k) (map (\<lambda>(k', t). (k', value_of d k')) m)" for d and m :: "(string \<times> int) list"
    by (induction m) auto
  then have "filter (\<lambda>e. fst e \<noteq> k) (by_use ?c) = filter (\<lambda>e. fst e \<noteq> k) (by_use c)"
    unfolding by_use_def by (simp add: rev_filter[symmetric] del: value_of_update)
  then show ?thesis
    using by_use_touch[OF ok_data[where k = k and v = b64 and vs = "av_version ?c", OF assms(1)], where k = k] assms(2)
    by (simp add: put_avatar_def)
qed

section \<open>Eviction\<close>

lemma evict_ok: "avatars_ok c \<Longrightarrow> avatars_ok (evict_avatars c) \<and> av_seq (evict_avatars c) = av_seq c \<and>
    (touched c \<longrightarrow> touched (evict_avatars c))"
proof (induction c rule: evict_avatars.induct)
  case (1 c)
  show ?case
    using 1 by (subst (1 2 3) evict_avatars.simps) (auto simp: Let_def ok_forget touched_forget split: list.split)
qed

lemma length_by_use: "length (by_use c) = length (av_at c)"
  by (simp add: by_use_def)

lemma touched_length:
  assumes "avatars_ok c" "touched c"
  shows "length (av_data c) = length (av_at c)"
proof -
  have "length (av_data c) = card (fst ` set (av_data c))" "length (av_at c) = card (fst ` set (av_at c))"
    using assms(1) distinct_card[of "map fst (av_data c)"] distinct_card[of "map fst (av_at c)"]
    by (simp_all add: avatars_ok_def)
  then show ?thesis using assms by (metis avatars_ok_def touched_def subset_antisym)
qed

text \<open>The entry evicted is the last by use.\<close>

lemma by_use_forget_oldest:
  assumes "avatars_ok c" "av_at c = e # es"
  shows "by_use (forget_avatar (fst (oldest_touch e es)) c) = butlast (by_use c)"
proof -
  obtain x xs where x: "sort_key snd (av_at c) = x # xs"
    using assms(2) by (cases "sort_key snd (av_at c)") (use set_sort[of snd "e # es"] in auto)
  have o: "oldest_touch e es = x"
    using oldest_is_head[of e es] assms x by (simp add: avatars_ok_def)
  have "mset (map fst (x # xs)) = mset (map fst (av_at c))" by (simp flip: x)
  moreover have "distinct (map fst (av_at c))" using assms(1) by (simp add: avatars_ok_def)
  ultimately have "distinct (map fst (x # xs))" using mset_eq_imp_distinct_iff by blast
  then have "distinct (map fst (map (\<lambda>(k, t). (k, value_of (av_data c) k)) (x # xs)))"
    by (simp add: comp_def case_prod_beta)
  then have "filter (\<lambda>e. fst e \<noteq> fst x) (map (\<lambda>(k, t). (k, value_of (av_data c) k)) (x # xs)) =
      map (\<lambda>(k, t). (k, value_of (av_data c) k)) xs"
    using filter_hd[of "(fst x, value_of (av_data c) (fst x))" "map (\<lambda>(k, t). (k, value_of (av_data c) k)) xs"]
    by (simp add: case_prod_beta)
  then show ?thesis
    unfolding by_use_forget o unfolding by_use_def x by (cases x) (simp add: rev_filter[symmetric])
qed

lemma by_use_evict:
  "avatars_ok c \<Longrightarrow> touched c \<Longrightarrow> by_use (evict_avatars c) = take maxAvatarCacheEntries (by_use c)"
proof (induction c rule: evict_avatars.induct)
  case (1 c)
  have len: "length (by_use c) = length (av_data c)" using 1 by (simp add: length_by_use touched_length)
  show ?case
  proof (cases "length (av_data c) \<le> maxAvatarCacheEntries")
    case True
    then show ?thesis using len by (simp add: evict_avatars.simps)
  next
    case False
    then obtain e es where e: "av_at c = e # es"
      using len by (cases "av_at c") (auto simp: length_by_use)
    let ?k = "fst (oldest_touch e es)"
    have "?k \<in> fst ` set (av_at c)" using oldest_touch_facts[of e es] e by auto
    moreover have "[] \<notin> fst ` set (av_at c)" using 1(2) unfolding avatars_ok_def by blast
    ultimately have k: "?k \<noteq> []" by metis
    then have ev: "evict_avatars c = evict_avatars (forget_avatar ?k c)"
      using False e by (subst evict_avatars.simps) simp
    have "by_use (evict_avatars (forget_avatar ?k c)) = take maxAvatarCacheEntries (by_use (forget_avatar ?k c))"
      using 1(1)[OF False e refl k] 1(2,3) ok_forget touched_forget by blast
    then show ?thesis
      using False len by (simp add: ev by_use_forget_oldest[OF 1(2) e] take_butlast)
  qed
qed

section \<open>What the cache guarantees\<close>

lemma prune_step:
  "avatars_ok c \<Longrightarrow> avatars_ok (fold forget_avatar ks c) \<and> av_seq (fold forget_avatar ks c) = av_seq c \<and>
   (touched c \<longrightarrow> touched (fold forget_avatar ks c)) \<and>
   by_use (fold forget_avatar ks c) = filter (\<lambda>e. fst e \<notin> set ks) (by_use c)"
  by (induction ks arbitrary: c) (auto simp: ok_forget touched_forget by_use_forget intro!: filter_cong)

lemma by_use_prune:
  assumes "avatars_ok c"
  shows "by_use (pruneAvatarCache cs c) =
           filter (\<lambda>e. fst e \<in> set cs \<or> fst e \<in> (\<lambda>k. k @ ''#full'') ` set cs) (by_use c)"
proof -
  have sub: "fst ` set (by_use c) \<subseteq> fst ` set (av_data c)"
    using keys_by_use[of c] assms by (simp add: avatars_ok_def)
  show ?thesis
  proof (cases "av_data c = []")
    case True
    then have "by_use c = []" using sub by simp
    then show ?thesis using True by (simp add: pruneAvatarCache_def)
  next
    case False
    have "e \<in> set (by_use c) \<Longrightarrow> fst e \<in> fst ` set (av_data c)" for e using sub by blast
    then show ?thesis
      using False prune_step[OF assms] by (auto simp: pruneAvatarCache_def Let_def intro!: filter_cong)
  qed
qed

lemma ok_get:
  assumes "avatars_ok c" "av_seq c < 9223372036854775807" "k \<noteq> []"
  shows "avatars_ok (snd (avatarCacheGet k ver c))"
proof -
  have "value_of (av_data c) k \<noteq> [] \<Longrightarrow> k \<in> fst ` set (av_data c)"
    by (auto simp: value_of_def dom_map_of_conv_image_fst[symmetric] split: option.splits)
  then show ?thesis using assms by (simp add: avatarCacheGet_def Let_def ok_touch)
qed

lemma touched_get: "touched c \<Longrightarrow> touched (snd (avatarCacheGet k ver c))"
  by (auto simp: touched_def avatarCacheGet_def touch_def Let_def keys_update)

lemma ok_prune: "avatars_ok c \<Longrightarrow> avatars_ok (pruneAvatarCache cs c) \<and> (touched c \<longrightarrow> touched (pruneAvatarCache cs c))"
  using prune_step by (simp add: pruneAvatarCache_def Let_def)

lemma ok_remember: "avatars_ok (remember_version k ver c) = avatars_ok c" "touched (remember_version k ver c) = touched c"
  "by_use (remember_version k ver c) = by_use c"
  by (simp_all add: remember_version_def avatars_ok_def touched_def by_use_def)

lemma ok_cache_put:
  "avatars_ok c \<Longrightarrow> av_seq c < 9223372036854775807 \<Longrightarrow>
   avatars_ok (avatarCachePut k b64 ver c) \<and> (touched c \<longrightarrow> touched (avatarCachePut k b64 ver c))"
  using evict_ok[OF ok_put] touched_put by (simp add: avatarCachePut_def)

inductive avatar_step :: "AvatarCache \<Rightarrow> AvatarCache \<Rightarrow> bool" where
  "av_seq c < 9223372036854775807 \<Longrightarrow> avatar_step c (avatarCachePut k b64 ver c)"
| "av_seq c < 9223372036854775807 \<Longrightarrow> k \<noteq> [] \<Longrightarrow> avatar_step c (snd (avatarCacheGet k ver c))"
| "avatar_step c (pruneAvatarCache cs c)"
| "avatar_step c (forget_avatar k c)"
| "avatar_step c (remember_version k ver c)"

definition loaded_avatars :: "(string \<times> string) list \<Rightarrow> (string \<times> string) list \<Rightarrow> AvatarCache" where
  "loaded_avatars data versions = no_avatars\<lparr>av_data := data, av_version := versions\<rparr>"

text \<open>The photos without a time: only those loaded from the database.\<close>

definition untouched :: "AvatarCache \<Rightarrow> string set" where
  "untouched c = fst ` set (av_data c) - fst ` set (av_at c)"

lemma untouched_forget: "untouched (forget_avatar k c) \<subseteq> untouched c"
  by (auto simp: untouched_def forget_avatar_def keys_delete)

lemma untouched_forgets: "untouched (fold forget_avatar ks c) \<subseteq> untouched c"
  by (induction ks arbitrary: c) (auto dest: subsetD[OF untouched_forget])

lemma untouched_evict: "untouched (evict_avatars c) \<subseteq> untouched c"
proof (induction c rule: evict_avatars.induct)
  case (1 c)
  show ?case
  proof (cases "evict_avatars c = c")
    case False
    then obtain e es where "av_at c = e # es" "\<not> length (av_data c) \<le> maxAvatarCacheEntries"
      "fst (oldest_touch e es) \<noteq> []"
      and ev: "evict_avatars c = evict_avatars (forget_avatar (fst (oldest_touch e es)) c)"
      using evict_avatars.simps[of c] by (auto simp: Let_def split: if_splits list.splits)
    then show ?thesis using 1 untouched_forget by (metis subset_trans)
  qed simp
qed

lemma untouched_put: "untouched (put_avatar k b64 ver c) \<subseteq> untouched c"
  by (auto simp: untouched_def put_avatar_def touch_def Let_def keys_update)

lemma untouched_step:
  assumes "avatar_step c c'"
  shows "untouched c' \<subseteq> untouched c"
  using assms
proof cases
  case (1 k b64 ver)
  then show ?thesis using subset_trans[OF untouched_evict untouched_put] by (simp add: avatarCachePut_def)
next
  case (2 k ver)
  then show ?thesis by (auto simp: untouched_def avatarCacheGet_def touch_def Let_def keys_update)
next
  case (3 cs)
  then show ?thesis using untouched_forgets by (simp add: pruneAvatarCache_def Let_def)
next
  case (4 k)
  then show ?thesis using untouched_forget by simp
next
  case (5 k ver)
  then show ?thesis by (simp add: untouched_def remember_version_def)
qed

lemma evict_bound:
  "avatars_ok c \<Longrightarrow> length (av_data (evict_avatars c)) \<le> maxAvatarCacheEntries \<or> av_at (evict_avatars c) = []"
proof (induction c rule: evict_avatars.induct)
  case (1 c)
  have "fst (oldest_touch e es) \<noteq> []" if "av_at c = e # es" for e es
  proof -
    have "fst (oldest_touch e es) \<in> fst ` set (av_at c)" using oldest_touch_facts[of e es] that by auto
    moreover have "[] \<notin> fst ` set (av_at c)" using 1(2) unfolding avatars_ok_def by blast
    ultimately show ?thesis by metis
  qed
  then show ?case
    using 1 by (subst (1 2) evict_avatars.simps) (auto simp: Let_def ok_forget split: list.split)
qed

lemma length_forgets: "length (av_data (fold forget_avatar ks c)) \<le> length (av_data c)"
proof (induction ks arbitrary: c)
  case (Cons k ks)
  have "length (av_data (forget_avatar k c)) \<le> length (av_data c)"
    by (simp add: forget_avatar_def length_delete_le)
  then show ?case using Cons[of "forget_avatar k c"] by simp
qed simp

lemma avatar_step_bound:
  assumes "avatar_step c c'" "avatars_ok c"
  shows "avatars_ok c' \<and> (length (av_data c') \<le> length (av_data c) \<or>
         length (av_data c') \<le> maxAvatarCacheEntries \<or> length (av_data c') = card (untouched c'))"
  using assms(1)
proof cases
  case (1 k b64 ver)
  have ok: "avatars_ok c'" using 1 assms(2) ok_cache_put by simp
  moreover have "av_at c' = [] \<Longrightarrow> length (av_data c') = card (untouched c')"
    using ok distinct_card[of "map fst (av_data c')"] by (simp add: untouched_def avatars_ok_def)
  moreover have "length (av_data c') \<le> length (av_data c) \<or>
      length (av_data c') \<le> maxAvatarCacheEntries \<or> av_at c' = []"
    using evict_bound[OF ok_put[OF assms(2)]] 1 by (auto simp: avatarCachePut_def)
  ultimately show ?thesis by blast
next
  case (2 k ver)
  then show ?thesis using ok_get[OF assms(2)] by (simp add: avatarCacheGet_def touch_def Let_def)
next
  case (3 cs)
  then show ?thesis using ok_prune[OF assms(2)] length_forgets by (simp add: pruneAvatarCache_def Let_def)
next
  case (4 k)
  then show ?thesis using ok_forget[OF assms(2)] by (simp add: forget_avatar_def length_delete_le)
next
  case (5 k ver)
  then show ?thesis using assms(2) by (simp add: ok_remember) (simp add: remember_version_def)
qed

lemma avatar_steps:
  assumes "avatar_step\<^sup>*\<^sup>* c c'" "avatars_ok c"
  shows "avatars_ok c' \<and> untouched c' \<subseteq> untouched c \<and>
         length (av_data c') \<le> max (length (av_data c)) (max maxAvatarCacheEntries (card (untouched c)))"
  using assms(1)
proof induction
  case base
  then show ?case using assms(2) by simp
next
  case (step d e)
  have "untouched e \<subseteq> untouched c" using untouched_step[OF step(2)] step(3) by blast
  moreover have "finite (untouched c)" by (simp add: untouched_def)
  ultimately have "card (untouched e) \<le> card (untouched c)" by (rule card_mono[rotated])
  then show ?case using avatar_step_bound[OF step(2)] step(3) \<open>untouched e \<subseteq> untouched c\<close> by auto
qed

text \<open>
  The photo cache is bounded: over any run of uses it holds at most 300 photos, or as
  many as the database held at the start, under distinct ids, and only photos it holds have
  a time of use.
\<close>

theorem avatar_cache_bounded:
  assumes "distinct (map fst db)" "avatar_step\<^sup>*\<^sup>* (loaded_avatars db versions) c"
  shows "avatars_ok c \<and> length (av_data c) \<le> max 300 (length db)"
proof -
  have "avatars_ok (loaded_avatars db versions)" "untouched (loaded_avatars db versions) = fst ` set db"
    "av_data (loaded_avatars db versions) = db"
    using assms(1) by (simp_all add: loaded_avatars_def no_avatars_def avatars_ok_def untouched_def int64_def)
  moreover have "card (fst ` set db) \<le> length db" using card_length[of "map fst db"] by simp
  ultimately show ?thesis using avatar_steps[OF assms(2)] by (auto simp: maxAvatarCacheEntries_def)
qed

theorem avatar_cache_bounded_witness:
  "length (av_data (avatarCachePut ''a'' ''x'' [] (loaded_avatars [(''b'', ''y'')] []))) \<le> max 300 (length [(''b'', ''y'')])"
  using avatar_cache_bounded[OF _ r_into_rtranclp, of "[(''b'', ''y'')]" "[]"
      "avatarCachePut ''a'' ''x'' [] (loaded_avatars [(''b'', ''y'')] [])"]
    avatar_step.intros(1)[of "loaded_avatars [(''b'', ''y'')] []" "''a''" "''x''" "[]"]
  by (simp add: loaded_avatars_def no_avatars_def)

text \<open>
  C16. While every photo has been used, the cache is a least-recently-used list: putting a
  photo moves it to the front and keeps the first 300, a hit moves it to the front, pruning
  keeps the photos of the contacts that are left, in both sizes, in their order.
\<close>

theorem avatar_cache_lru:
  assumes "avatars_ok c" "touched c" "av_seq c < 9223372036854775807"
  shows "by_use (avatarCachePut k b64 ver c) =
           (if k = [] \<or> b64 = [] then by_use c
            else take 300 ((k, b64) # filter (\<lambda>e. fst e \<noteq> k) (by_use c))) \<and>
         by_use (snd (avatarCacheGet k ver c)) =
           (case fst (avatarCacheGet k ver c) of
              None \<Rightarrow> by_use c
            | Some (data, _) \<Rightarrow> (k, data) # filter (\<lambda>e. fst e \<noteq> k) (by_use c)) \<and>
         by_use (forget_avatar k c) = filter (\<lambda>e. fst e \<noteq> k) (by_use c) \<and>
         by_use (pruneAvatarCache cs c) =
           filter (\<lambda>e. fst e \<in> set cs \<or> fst e \<in> (\<lambda>k. k @ ''#full'') ` set cs) (by_use c)"
proof (intro conjI)
  show "by_use (avatarCachePut k b64 ver c) =
           (if k = [] \<or> b64 = [] then by_use c
            else take 300 ((k, b64) # filter (\<lambda>e. fst e \<noteq> k) (by_use c)))"
    using by_use_evict[OF ok_put[OF assms(1,3), of k] touched_put[OF assms(2)]] by_use_put[OF assms(1,3)]
    by (simp add: avatarCachePut_def maxAvatarCacheEntries_def del: take_Cons_numeral)
  show "by_use (snd (avatarCacheGet k ver c)) =
           (case fst (avatarCacheGet k ver c) of
              None \<Rightarrow> by_use c
            | Some (data, _) \<Rightarrow> (k, data) # filter (\<lambda>e. fst e \<noteq> k) (by_use c))"
    using by_use_touch[OF assms(1,3), of k] by (simp add: avatarCacheGet_def Let_def)
qed (use by_use_forget by_use_prune[OF assms(1)] in blast)+

theorem avatar_cache_lru_witness:
  "by_use (avatarCachePut ''a'' ''x'' [] no_avatars) = take 300 [(''a'', ''x'')]"
  using avatar_cache_lru[of no_avatars "''a''" "''x''" "[]"]
  by (simp add: no_avatars_def avatars_ok_def touched_def int64_def by_use_def[of "\<lparr>av_data = _, av_version = _, av_at = [], av_seq = _\<rparr>"] del: take_Cons_numeral)

text \<open>A photo just stored is there, with its version.\<close>

lemma evict_keeps_version:
  "avatars_ok c \<Longrightarrow> k \<in> fst ` set (av_data (evict_avatars c)) \<Longrightarrow>
   value_of (av_version (evict_avatars c)) k = value_of (av_version c) k \<and> k \<in> fst ` set (av_data c)"
proof (induction c rule: evict_avatars.induct)
  case (1 c)
  show ?case
  proof (cases "evict_avatars c = c")
    case False
    then obtain e es where e: "av_at c = e # es" "\<not> length (av_data c) \<le> maxAvatarCacheEntries"
      "fst (oldest_touch e es) \<noteq> []"
      and ev: "evict_avatars c = evict_avatars (forget_avatar (fst (oldest_touch e es)) c)"
      using evict_avatars.simps[of c] by (auto simp: Let_def split: if_splits list.splits)
    let ?f = "forget_avatar (fst (oldest_touch e es)) c"
    have "value_of (av_version (evict_avatars ?f)) k = value_of (av_version ?f) k \<and> k \<in> fst ` set (av_data ?f)"
      using 1(1)[OF e(2,1) refl e(3) ok_forget[OF 1(2)]] 1(3) ev by simp
    then show ?thesis unfolding ev by (auto simp: forget_avatar_def keys_delete)
  qed (use 1 in simp)
qed

lemma stored_avatar:
  assumes "avatars_ok c" "touched c" "av_seq c < 9223372036854775807" "k \<noteq> []" "b64 \<noteq> []"
  shows "value_of (av_data (avatarCachePut k b64 ver c)) k = b64 \<and>
         (ver \<noteq> [] \<longrightarrow> value_of (av_version (avatarCachePut k b64 ver c)) k = ver)"
proof -
  let ?c = "avatarCachePut k b64 ver c"
  have ok: "avatars_ok ?c" using ok_cache_put[OF assms(1,3)] by blast
  have eq: "by_use ?c = take maxAvatarCacheEntries ((k, b64) # filter (\<lambda>e. fst e \<noteq> k) (by_use c))"
    using by_use_evict[OF ok_put[OF assms(1,3,4)] touched_put[OF assms(2)]] by_use_put[OF assms(1,3)] assms(4,5)
    by (simp add: avatarCachePut_def)
  have "(k, b64) \<in> set (by_use ?c)" unfolding eq by (simp add: maxAvatarCacheEntries_def take_Cons')
  then have "value_of (av_data ?c) k = b64" by (auto simp: by_use_def)
  moreover have "distinct (map fst (av_at ?c))" "fst ` set (av_at ?c) \<subseteq> fst ` set (av_data ?c)"
    using ok unfolding avatars_ok_def by blast+
  then have "fst ` set (by_use ?c) \<subseteq> fst ` set (av_data ?c)" using keys_by_use by metis
  then have "k \<in> fst ` set (av_data ?c)"
    using imageI[OF \<open>(k, b64) \<in> set (by_use ?c)\<close>, of fst] by (simp only: fst_conv subsetD)
  then have "value_of (av_version ?c) k = value_of (av_version (put_avatar k b64 ver c)) k"
    using evict_keeps_version[OF ok_put[OF assms(1,3,4)]] assms(4,5) by (simp add: avatarCachePut_def)
  ultimately show ?thesis by (simp add: put_avatar_def touch_def Let_def)
qed

text \<open>A photo loaded from the database has no time and is never evicted: with 300 of them, a
  photo that arrives evicts itself.\<close>

lemma delete_appended:
  "k \<notin> fst ` set m \<Longrightarrow> AList.delete k (AList.update k v m) = m"
  by (induction m) (auto simp: delete_filter)

theorem loaded_photos_starve_new_ones:
  assumes "maxAvatarCacheEntries \<le> length db" "k \<notin> fst ` set db"
  shows "av_data (avatarCachePut k b64 ver (loaded_avatars db versions)) = db"
proof -
  have "length db < length (AList.update k b64 db)"
    using assms(2) by (induction db) auto
  moreover have "evict_avatars c = c" if "av_at c = []" for c
    using that by (simp add: evict_avatars.simps)
  ultimately show ?thesis
    using assms
    by (cases "k = []")
      (auto simp: avatarCachePut_def loaded_avatars_def no_avatars_def put_avatar_def touch_def Let_def
        evict_avatars.simps[of "\<lparr>av_data = _, av_version = _, av_at = [_], av_seq = _\<rparr>"]
        forget_avatar_def delete_appended)
qed

end
