(* ===== verification/Contact_Store.thy ===== *)
theory Contact_Store
  imports Contact_Lookup Waiters Avatar_Cache Message_Types "HOL-Library.Sublist"
begin

text \<open>
  The Mac's copy of the phone's directory (\<open>apps/mac/backend/contacts.go\<close> and the pending
  requests of \<open>sync_reliability.go\<close>): the cached entries, the photo cache, the requests in
  flight and the generation that \<open>contacts-changed\<close> and a reconnection bump. As for the text
  messages, an operation that asks the phone has two halves, before and after the wait, and the
  writes to the database are left out.
\<close>

section \<open>Results and state\<close>

record ContactListResult =
  lr_Contacts :: "ContactEntry list"
  lr_NextCursor :: string
  lr_TotalCount :: int
  lr_Error :: string
  lr_ErrorCode :: string
  lr_Permission :: string

definition zero_ContactListResult :: ContactListResult where
  "zero_ContactListResult =
     \<lparr>lr_Contacts = [], lr_NextCursor = [], lr_TotalCount = 0, lr_Error = [], lr_ErrorCode = [],
      lr_Permission = []\<rparr>"

record ContactAvatarResult =
  ar_ContactID :: string
  ar_AvatarB64 :: string
  ar_PhotoVersion :: string
  ar_Error :: string

definition zero_ContactAvatarResult :: ContactAvatarResult where
  "zero_ContactAvatarResult =
     \<lparr>ar_ContactID = [], ar_AvatarB64 = [], ar_PhotoVersion = [], ar_Error = []\<rparr>"

record ContactDeleteResult =
  dr_OK :: bool
  dr_ContactID :: string
  dr_Error :: string
  dr_ErrorCode :: string
  dr_Permission :: string

definition zero_ContactDeleteResult :: ContactDeleteResult where
  "zero_ContactDeleteResult =
     \<lparr>dr_OK = False, dr_ContactID = [], dr_Error = [], dr_ErrorCode = [], dr_Permission = []\<rparr>"

record contactsReqMeta =
  cm_query :: string
  cm_cursor :: string
  cm_gen :: int

record ContactStore =
  ct_contacts :: "ContactEntry list"
  ct_avatars :: AvatarCache
  ct_lists :: "ContactListResult waiters"
  ct_listsMeta :: "string \<rightharpoonup> contactsReqMeta"
  ct_avatarReqs :: "ContactAvatarResult waiters"
  ct_avatarMeta :: "string \<rightharpoonup> bool"
  ct_deletes :: "ContactDeleteResult waiters"
  ct_gen :: int

text \<open>What \<open>NewService\<close> starts with, given the contents of the database.\<close>

definition new_contacts ::
  "ContactEntry list \<Rightarrow> (string \<times> string) list \<Rightarrow> (string \<times> string) list \<Rightarrow> ContactStore" where
  "new_contacts db avatars versions =
     \<lparr>ct_contacts = db, ct_avatars = loaded_avatars avatars versions, ct_lists = Map.empty,
      ct_listsMeta = Map.empty, ct_avatarReqs = Map.empty, ct_avatarMeta = Map.empty,
      ct_deletes = Map.empty, ct_gen = 0\<rparr>"

definition offline_error :: "string \<Rightarrow> string" where
  "offline_error op = op @ '': phone is offline''"

definition DefaultContactsLimit :: int where [go_consts]: "DefaultContactsLimit = 50"

section \<open>Listing\<close>

definition ListContacts_begin ::
  "string \<Rightarrow> int \<Rightarrow> bool \<Rightarrow> string \<Rightarrow> bool \<Rightarrow> UpdateRequiredError option \<Rightarrow> string option \<Rightarrow>
   string option \<Rightarrow> ContactStore \<Rightarrow>
   (ContactListResult \<times> list_error option + ContactsListReqPayload) \<times> ContactStore" where
  "ListContacts_begin cursor limit forceRefresh query paired gate reqID nonce s =
     (let zero = zero_ContactListResult;
          limit = (if limit = 0 then DefaultContactsLimit else limit);
          query' = trim_space query
      in if 256 < length cursor then (Inl (zero, Some InvalidCursor), s)
         else if limit < 1 \<or> int MaxContactsPerResp < limit then (Inl (zero, Some InvalidLimit), s)
         else if MaxContactsQueryLen < length query' then (Inl (zero, Some InvalidTarget), s)
         else if ValidateKeysetCursor cursor \<noteq> None then
           (Inl (zero\<lparr>lr_Error := ''contacts cursor rejected '' @ em_dash @ '' resync from start'',
                      lr_ErrorCode := CodeCursorInvalid\<rparr>, Some CursorRejected), s)
         else if \<not> forceRefresh \<and> cursor = [] \<and> query' = [] \<and> ct_contacts s \<noteq> [] then
           (Inl (zero\<lparr>lr_Contacts := ct_contacts s, lr_TotalCount := int (length (ct_contacts s))\<rparr>, None), s)
         else if \<not> paired then (Inl (zero, Some PhoneOffline), s)
         else case gate of
           Some upd \<Rightarrow>
             (Inl (zero\<lparr>lr_Error := ue_Message upd, lr_ErrorCode := CodeUpdateRequired\<rparr>,
                   Some (NeedsUpdate upd)), s)
         | None \<Rightarrow>
             (case (reqID, nonce) of
                (Some req, Some nonce) \<Rightarrow>
                  (Inr \<lparr>clq_Nonce = nonce, clq_ReqID = req, clq_Cursor = cursor, clq_Limit = limit,
                        clq_Query = query', clq_CursorGen = ct_gen s\<rparr>,
                   s\<lparr>ct_lists := register_waiter req (ct_lists s),
                     ct_listsMeta := (ct_listsMeta s)(req \<mapsto>
                       \<lparr>cm_query = query', cm_cursor = cursor, cm_gen = ct_gen s\<rparr>)\<rparr>)
              | _ \<Rightarrow> (Inl (zero, Some NoEntropyLeft), s)))"

definition ListContacts_end ::
  "string \<Rightarrow> bool \<Rightarrow> UpdateRequiredError option \<Rightarrow> ContactStore \<Rightarrow>
   (ContactListResult \<times> list_error option) \<times> ContactStore" where
  "ListContacts_end req sent gate s =
     (let zero = zero_ContactListResult
      in (if \<not> sent then (zero, Some SendFailed)
          else case answer_of req (ct_lists s) of
            Some res \<Rightarrow> (res, if lr_Error res \<noteq> [] then Some (PhoneError (lr_Error res)) else None)
          | None \<Rightarrow>
              (case gate of
                 Some upd \<Rightarrow>
                   (zero\<lparr>lr_Error := ue_Message upd, lr_ErrorCode := CodeUpdateRequired\<rparr>,
                    Some (NeedsUpdate upd))
               | None \<Rightarrow>
                   (zero\<lparr>lr_Error := ''contacts listing timed out '' @ em_dash @ '' phone did not respond'',
                         lr_ErrorCode := CodeSyncTimeout\<rparr>, Some SyncTimeout)),
          s\<lparr>ct_lists := (ct_lists s)(req := None), ct_listsMeta := (ct_listsMeta s)(req := None)\<rparr>))"

section \<open>Photos\<close>

definition avatar_cache_id :: "string \<Rightarrow> bool \<Rightarrow> string" where
  "avatar_cache_id cid highRes = (if highRes then cid @ ''#full'' else cid)"

definition getContactAvatar_begin ::
  "string \<Rightarrow> bool \<Rightarrow> string \<Rightarrow> bool \<Rightarrow> UpdateRequiredError option \<Rightarrow> string option \<Rightarrow>
   string option \<Rightarrow> ContactStore \<Rightarrow>
   (ContactAvatarResult \<times> list_error option + ContactAvatarReqPayload) \<times> ContactStore" where
  "getContactAvatar_begin contactID highRes expected paired gate reqID nonce s =
     (case SanitizeContactID contactID of
        None \<Rightarrow> (Inl (zero_ContactAvatarResult, Some InvalidTarget), s)
      | Some cid \<Rightarrow>
          (let this = zero_ContactAvatarResult\<lparr>ar_ContactID := cid\<rparr>;
               (hit, cache) = avatarCacheGet (avatar_cache_id cid highRes) expected (ct_avatars s);
               s = s\<lparr>ct_avatars := cache\<rparr>
           in case hit of
                Some (b64, ver) \<Rightarrow> (Inl (this\<lparr>ar_AvatarB64 := b64, ar_PhotoVersion := ver\<rparr>, None), s)
              | None \<Rightarrow>
                  if \<not> paired then (Inl (this, Some PhoneOffline), s)
                  else case gate of
                    Some upd \<Rightarrow> (Inl (this, Some (NeedsUpdate upd)), s)
                  | None \<Rightarrow>
                      (case (reqID, nonce) of
                         (Some req, Some nonce) \<Rightarrow>
                           (Inr \<lparr>caq_Nonce = nonce, caq_ReqID = req, caq_ContactID = cid,
                                 caq_HighRes = highRes\<rparr>,
                            s\<lparr>ct_avatarReqs := register_waiter req (ct_avatarReqs s),
                              ct_avatarMeta := (ct_avatarMeta s)(req \<mapsto> highRes)\<rparr>)
                       | _ \<Rightarrow> (Inl (this, Some NoEntropyLeft), s))))"

definition getContactAvatar_end ::
  "string \<Rightarrow> string \<Rightarrow> bool \<Rightarrow> ContactStore \<Rightarrow>
   (ContactAvatarResult \<times> list_error option) \<times> ContactStore" where
  "getContactAvatar_end cid req sent s =
     (let this = zero_ContactAvatarResult\<lparr>ar_ContactID := cid\<rparr>
      in (if \<not> sent then (this, Some SendFailed)
          else case answer_of req (ct_avatarReqs s) of
            Some res \<Rightarrow> (res, if ar_Error res \<noteq> [] then Some (PhoneError (ar_Error res)) else None)
          | None \<Rightarrow> (this\<lparr>ar_Error := ''avatar request timed out''\<rparr>, Some SyncTimeout),
          s\<lparr>ct_avatarReqs := (ct_avatarReqs s)(req := None), ct_avatarMeta := (ct_avatarMeta s)(req := None)\<rparr>))"

section \<open>Deleting\<close>

fun drop_contact :: "string \<Rightarrow> ContactEntry list \<Rightarrow> ContactEntry list" where
  "drop_contact cid [] = []"
| "drop_contact cid (c # cs) = (if ce_ContactID c = cid then cs else c # drop_contact cid cs)"

definition DeleteContact_begin ::
  "string \<Rightarrow> string \<Rightarrow> bool \<Rightarrow> UpdateRequiredError option \<Rightarrow> string \<Rightarrow> string option \<Rightarrow>
   string option \<Rightarrow> ContactStore \<Rightarrow>
   (ContactDeleteResult \<times> list_error option + ContactDeleteReqPayload) \<times> ContactStore" where
  "DeleteContact_begin contactID lookupKey paired gate entropyError reqID nonce s =
     (let failed = (\<lambda>cid e. zero_ContactDeleteResult\<lparr>dr_ContactID := cid, dr_Error := e\<rparr>)
      in case SanitizeContactID contactID of
           None \<Rightarrow> (Inl (failed contactID ''invalid contact id'', Some InvalidTarget), s)
         | Some cid \<Rightarrow>
             (case SanitizeContactLookupKey lookupKey of
                None \<Rightarrow> (Inl (failed cid ''invalid contact lookup key'', Some InvalidTarget), s)
              | Some key \<Rightarrow>
                  if \<not> paired then
                    (Inl (failed cid (offline_error ''delete contact''), Some PhoneOffline), s)
                  else case gate of
                    Some upd \<Rightarrow>
                      (Inl ((failed cid (ue_Message upd))\<lparr>dr_ErrorCode := CodeUpdateRequired\<rparr>,
                            Some (NeedsUpdate upd)), s)
                  | None \<Rightarrow>
                      (case (reqID, nonce) of
                         (Some req, Some nonce) \<Rightarrow>
                           (Inr \<lparr>cdq_Nonce = nonce, cdq_ReqID = req, cdq_ContactID = cid,
                                 cdq_LookupKey = key\<rparr>,
                            s\<lparr>ct_deletes := register_waiter req (ct_deletes s)\<rparr>)
                       | _ \<Rightarrow> (Inl (failed cid entropyError, Some NoEntropyLeft), s))))"

definition remove_contact :: "string \<Rightarrow> ContactStore \<Rightarrow> ContactStore" where
  "remove_contact cid s =
     s\<lparr>ct_contacts := drop_contact cid (ct_contacts s),
       ct_avatars := forget_avatar (cid @ ''#full'') (forget_avatar cid (ct_avatars s))\<rparr>"

definition DeleteContact_end ::
  "string \<Rightarrow> string \<Rightarrow> string option \<Rightarrow> ContactStore \<Rightarrow>
   (ContactDeleteResult \<times> list_error option) \<times> ContactStore" where
  "DeleteContact_end cid req sendError s =
     (let this = zero_ContactDeleteResult\<lparr>dr_ContactID := cid\<rparr>;
          done = (\<lambda>s. s\<lparr>ct_deletes := (ct_deletes s)(req := None)\<rparr>)
      in case sendError of Some e \<Rightarrow> ((this\<lparr>dr_Error := e\<rparr>, Some SendFailed), done s)
         | None \<Rightarrow> case answer_of req (ct_deletes s) of
           Some res \<Rightarrow>
             if \<not> dr_OK res then
               (let res = (if dr_Error res = [] then res\<lparr>dr_Error := ''failed to delete contact''\<rparr> else res)
                in ((res, Some (PhoneError (dr_Error res))), done s))
             else ((res, None), done (remove_contact cid s))
         | None \<Rightarrow>
             ((this\<lparr>dr_Error := ''delete contact timed out '' @ em_dash @ '' phone did not respond'',
                    dr_ErrorCode := CodeSyncTimeout\<rparr>, Some SyncTimeout), done s))"

section \<open>Merging and searching\<close>

fun unseen_contacts :: "string set \<Rightarrow> ContactEntry list \<Rightarrow> ContactEntry list" where
  "unseen_contacts seen [] = []"
| "unseen_contacts seen (c # cs) =
     (if ce_ContactID c \<in> seen then unseen_contacts seen cs
      else c # unseen_contacts (insert (ce_ContactID c) seen) cs)"

definition mergeContactEntries :: "ContactEntry list \<Rightarrow> ContactEntry list \<Rightarrow> ContactEntry list" where
  "mergeContactEntries dst src =
     (if dst = [] then src else dst @ unseen_contacts (ce_ContactID ` set dst) src)"

text \<open>Whether the lower-cased text contains the query.\<close>

definition mentions :: "string \<Rightarrow> string \<Rightarrow> bool" where
  "mentions q txt = sublist q (to_lower txt)"

definition phone_found :: "string \<Rightarrow> ContactPhone \<Rightarrow> bool" where
  "phone_found q p \<longleftrightarrow>
     mentions q (cph_Number p) \<or> (cph_Normalized p \<noteq> [] \<and> mentions q (cph_Normalized p)) \<or>
     (NormalizePhone q \<noteq> [] \<and>
      (PhonesEqual (cph_Number p) q \<or> (cph_Normalized p \<noteq> [] \<and> PhonesEqual (cph_Normalized p) q)))"

definition contact_found :: "string \<Rightarrow> ContactEntry \<Rightarrow> bool" where
  "contact_found q c \<longleftrightarrow>
     mentions q (ce_DisplayName c) \<or> (ce_Nickname c \<noteq> [] \<and> mentions q (ce_Nickname c)) \<or>
     (case ce_Organization c of None \<Rightarrow> False
      | Some org \<Rightarrow> mentions q (cor_Company org) \<or> mentions q (cor_Title org)) \<or>
     (ce_Note c \<noteq> [] \<and> mentions q (ce_Note c)) \<or> (ce_Website c \<noteq> [] \<and> mentions q (ce_Website c)) \<or>
     list_ex (phone_found q) (ce_Phones c) \<or> list_ex (\<lambda>e. mentions q (cem_Address e)) (ce_Emails c)"

definition SearchContacts :: "string \<Rightarrow> ContactStore \<Rightarrow> ContactEntry list" where
  "SearchContacts query s =
     (let q = to_lower (trim_space query)
      in if q = [] then ct_contacts s else filter (contact_found q) (ct_contacts s))"

section \<open>What the phone sends\<close>

text \<open>The photos that come with a page: bytes go to the cache, a version alone is remembered.\<close>

definition inline_avatar :: "ContactEntry \<Rightarrow> AvatarCache \<Rightarrow> AvatarCache" where
  "inline_avatar c cache =
     (if ce_AvatarB64 c \<noteq> [] then avatarCachePut (ce_ContactID c) (ce_AvatarB64 c) (ce_PhotoVersion c) cache
      else if ce_PhotoVersion c \<noteq> [] then remember_version (ce_ContactID c) (ce_PhotoVersion c) cache
      else cache)"

definition adopt_page ::
  "contactsReqMeta option \<Rightarrow> ContactsListRespPayload \<Rightarrow> ContactStore \<Rightarrow> ContactStore" where
  "adopt_page meta resp s =
     (let entries = cls_Entries resp;
          firstPage = (\<exists>m \<in> set_option meta. cm_cursor m = []);
          contacts =
            (if firstPage then entries
             else if cls_NextCursor resp = [] \<and> (meta = None \<or> firstPage) then entries
             else mergeContactEntries (ct_contacts s) entries)
      in s\<lparr>ct_contacts := contacts,
           ct_avatars := pruneAvatarCache (map ce_ContactID contacts)
             (fold inline_avatar entries (ct_avatars s))\<rparr>)"

definition ingestListResp :: "ContactsListRespPayload \<Rightarrow> ContactStore \<Rightarrow> ContactStore" where
  "ingestListResp resp s =
     (if cls_ReqID resp = [] then s
      else
        let req = cls_ReqID resp; ok = (ct_lists s req \<noteq> None); meta = ct_listsMeta s req;
            stale = (ok \<and> cls_Error resp = [] \<and> (\<exists>m \<in> set_option meta. cm_gen m \<noteq> ct_gen s));
            filtered = (\<exists>m \<in> set_option meta. cm_query m \<noteq> []);
            s = (if ok \<and> cls_Error resp = [] \<and> \<not> stale \<and> \<not> filtered then adopt_page meta resp s else s)
        in if ok \<and> \<not> stale then
             s\<lparr>ct_lists := deliver req
                 \<lparr>lr_Contacts = cls_Entries resp, lr_NextCursor = cls_NextCursor resp,
                  lr_TotalCount = (if cls_TotalCount resp = 0 then int (length (cls_Entries resp))
                                   else cls_TotalCount resp),
                  lr_Error = cls_Error resp, lr_ErrorCode = cls_ErrorCode resp,
                  lr_Permission = cls_Permission resp\<rparr> (ct_lists s)\<rparr>
           else s)"

fun patch_contact :: "string \<Rightarrow> string \<Rightarrow> string \<Rightarrow> ContactEntry list \<Rightarrow> ContactEntry list" where
  "patch_contact cid b64 ver [] = []"
| "patch_contact cid b64 ver (c # cs) =
     (if ce_ContactID c = cid then c\<lparr>ce_AvatarB64 := b64, ce_PhotoVersion := ver\<rparr> # cs
      else c # patch_contact cid b64 ver cs)"

definition ingestAvatarResp :: "ContactAvatarRespPayload \<Rightarrow> ContactStore \<Rightarrow> ContactStore" where
  "ingestAvatarResp resp s =
     (if cas_ReqID resp = [] then s
      else
        let req = cas_ReqID resp; ok = (ct_avatarReqs s req \<noteq> None);
            highRes = (ct_avatarMeta s req = Some True); cid = cas_ContactID resp;
            s = (if ok \<and> cas_Error resp = [] \<and> cas_DataB64 resp \<noteq> [] then
                   s\<lparr>ct_avatars := avatarCachePut (avatar_cache_id cid highRes) (cas_DataB64 resp)
                       (cas_PhotoVersion resp) (ct_avatars s),
                     ct_contacts := (if highRes then ct_contacts s
                       else patch_contact cid (cas_DataB64 resp) (cas_PhotoVersion resp) (ct_contacts s))\<rparr>
                 else s)
        in s\<lparr>ct_avatarReqs := deliver req
               \<lparr>ar_ContactID = cid, ar_AvatarB64 = cas_DataB64 resp,
                ar_PhotoVersion = cas_PhotoVersion resp, ar_Error = cas_Error resp\<rparr> (ct_avatarReqs s)\<rparr>)"

definition ingestDeleteResp :: "ContactDeleteRespPayload \<Rightarrow> ContactStore \<Rightarrow> ContactStore" where
  "ingestDeleteResp resp s =
     (if cds_ReqID resp = [] then s
      else s\<lparr>ct_deletes := deliver (cds_ReqID resp)
               \<lparr>dr_OK = cds_OK resp, dr_ContactID = cds_ContactID resp, dr_Error = cds_Error resp,
                dr_ErrorCode = cds_ErrorCode resp, dr_Permission = cds_Permission resp\<rparr> (ct_deletes s)\<rparr>)"

definition ingestContactsChanged :: "ContactStore \<Rightarrow> ContactStore" where
  "ingestContactsChanged s = s\<lparr>ct_gen := wrap64 (ct_gen s + 1), ct_contacts := []\<rparr>"

definition ingestContacts :: "Envelope \<Rightarrow> ContactStore \<Rightarrow> ContactStore" where
  "ingestContacts env s =
     (let t = env_Type env
      in if t = TypeContactsListResp then
           (case payload_as ContactsListRespPayload_fields zero_ContactsListRespPayload env of
              None \<Rightarrow> s | Some p \<Rightarrow> ingestListResp p s)
         else if t = TypeContactAvatarResp then
           (case payload_as ContactAvatarRespPayload_fields zero_ContactAvatarRespPayload env of
              None \<Rightarrow> s | Some p \<Rightarrow> ingestAvatarResp p s)
         else if t = TypeContactDeleteResp then
           (case payload_as ContactDeleteRespPayload_fields zero_ContactDeleteRespPayload env of
              None \<Rightarrow> s | Some p \<Rightarrow> ingestDeleteResp p s)
         else if t = TypeContactsChanged then ingestContactsChanged s
         else s)"

definition ingestContactsBody :: "string \<Rightarrow> ContactStore \<Rightarrow> ContactStore" where
  "ingestContactsBody body s =
     (case unmarshal_into (dec_struct Envelope_fields) body zero_Envelope of
        None \<Rightarrow> s
      | Some env \<Rightarrow> ingestContacts env s)"

section \<open>Disconnecting and forgetting\<close>

definition failPendingContactsLists ::
  "string \<Rightarrow> ContactStore \<Rightarrow> (string \<rightharpoonup> ContactListResult) \<times> ContactStore" where
  "failPendingContactsLists err s =
     (fail_all (zero_ContactListResult\<lparr>lr_Error := err, lr_ErrorCode := CodeSyncTimeout\<rparr>) (ct_lists s),
      s\<lparr>ct_lists := Map.empty, ct_listsMeta := (ct_listsMeta s) |` (- dom (ct_lists s))\<rparr>)"

definition failPendingAvatarReqs ::
  "string \<Rightarrow> ContactStore \<Rightarrow> (string \<rightharpoonup> ContactAvatarResult) \<times> ContactStore" where
  "failPendingAvatarReqs err s =
     (fail_all (zero_ContactAvatarResult\<lparr>ar_Error := err\<rparr>) (ct_avatarReqs s),
      s\<lparr>ct_avatarReqs := Map.empty, ct_avatarMeta := (ct_avatarMeta s) |` (- dom (ct_avatarReqs s))\<rparr>)"

definition failPendingDeleteReqs ::
  "string \<Rightarrow> ContactStore \<Rightarrow> (string \<rightharpoonup> ContactDeleteResult) \<times> ContactStore" where
  "failPendingDeleteReqs err s =
     (fail_all (zero_ContactDeleteResult\<lparr>dr_Error := err, dr_ErrorCode := CodeSyncTimeout\<rparr>) (ct_deletes s),
      s\<lparr>ct_deletes := Map.empty\<rparr>)"

text \<open>What \<open>OnWSConnect\<close> and \<open>ForgetLastDevice\<close> do to the directory.\<close>

definition reconnect_contacts :: "ContactStore \<Rightarrow> ContactStore" where
  "reconnect_contacts s = s\<lparr>ct_gen := wrap64 (ct_gen s + 1), ct_contacts := []\<rparr>"

definition forget_contacts :: "ContactStore \<Rightarrow> ContactStore" where
  "forget_contacts s =
     s\<lparr>ct_contacts := [],
       ct_avatars := (ct_avatars s)\<lparr>av_data := [], av_version := [], av_at := []\<rparr>\<rparr>"

end
