(* ===== verification/Contact_Sync.thy ===== *)
theory Contact_Sync
  imports Contact_Store
begin

text \<open>
  What the Mac's copy of the directory keeps through any run of its operations: the requests in
  flight, the photo cache, the generations that make stale pages harmless, and what a deletion
  and a photo leave behind.
\<close>

section \<open>Merging\<close>

lemma unseen_contacts_facts:
  "distinct (map ce_ContactID (unseen_contacts seen cs)) \<and>
   ce_ContactID ` set (unseen_contacts seen cs) = ce_ContactID ` set cs - seen"
  by (induction seen cs rule: unseen_contacts.induct) auto

lemma contact_pages_merge:
  assumes "dst \<noteq> []" "distinct (map ce_ContactID dst)"
  shows "distinct (map ce_ContactID (mergeContactEntries dst src)) \<and> prefix dst (mergeContactEntries dst src) \<and>
         ce_ContactID ` set (mergeContactEntries dst src) = ce_ContactID ` (set dst \<union> set src)"
  using assms unseen_contacts_facts[of "ce_ContactID ` set dst" src]
  by (auto simp: mergeContactEntries_def)

section \<open>The steps of the store\<close>

inductive contact_step :: "ContactStore \<Rightarrow> ContactStore \<Rightarrow> bool" where
  "contact_step s (snd (ListContacts_begin cursor limit force query paired gate reqID nonce s))"
| "contact_step s (snd (ListContacts_end req sent gate s))"
| "av_seq (ct_avatars s) < 9223372036854775807 \<Longrightarrow>
   contact_step s (snd (getContactAvatar_begin cid full expected paired gate reqID nonce s))"
| "contact_step s (snd (getContactAvatar_end cid req sent s))"
| "contact_step s (snd (DeleteContact_begin cid key paired gate entropyError reqID nonce s))"
| "contact_step s (snd (DeleteContact_end cid req sendError s))"
| "av_seq (ct_avatars s) + int (length (cls_Entries lresp)) < 9223372036854775807 \<Longrightarrow>
   contact_step s (ingestListResp lresp s)"
| "av_seq (ct_avatars s) < 9223372036854775807 \<Longrightarrow> contact_step s (ingestAvatarResp aresp s)"
| "contact_step s (ingestDeleteResp dresp s)"
| "ct_gen s < 9223372036854775807 \<Longrightarrow> contact_step s (ingestContactsChanged s)"
| "ct_gen s < 9223372036854775807 \<Longrightarrow> contact_step s (reconnect_contacts s)"
| "contact_step s (forget_contacts s)"
| "contact_step s (snd (failPendingContactsLists err s))"
| "contact_step s (snd (failPendingAvatarReqs err s))"
| "contact_step s (snd (failPendingDeleteReqs err s))"

definition contacts_ok :: "ContactStore \<Rightarrow> bool" where
  "contacts_ok s \<longleftrightarrow>
     requests_ok cm_gen (ct_gen s) (ct_lists s) (ct_listsMeta s) \<and>
     requests_ok (\<lambda>_. 0) 0 (ct_avatarReqs s) (ct_avatarMeta s) \<and>
     avatars_ok (ct_avatars s) \<and> int64 (ct_gen s)"

lemma SanitizeContactID_nonempty: "SanitizeContactID s = Some cid \<Longrightarrow> cid \<noteq> []"
  by (auto simp: SanitizeContactID_def Let_def split: if_splits)

lemma cache_id_nonempty [simp]: "cid \<noteq> [] \<Longrightarrow> avatar_cache_id cid full \<noteq> []"
  by (simp add: avatar_cache_id_def)

lemma avatar_begin_tables:
  assumes "s' = snd (getContactAvatar_begin cid full expected paired gate reqID nonce s)"
    "contacts_ok s" "av_seq (ct_avatars s) < 9223372036854775807"
  shows "ct_gen s' = ct_gen s \<and> ct_lists s' = ct_lists s \<and> ct_listsMeta s' = ct_listsMeta s \<and>
    registers (\<lambda>_. 0) 0 (ct_avatarReqs s) (ct_avatarMeta s) (ct_avatarReqs s') (ct_avatarMeta s') \<and>
    avatars_ok (ct_avatars s')"
proof (cases "SanitizeContactID cid")
  case None
  then show ?thesis using assms by (simp add: getContactAvatar_begin_def contacts_ok_def)
next
  case (Some c)
  have "avatars_ok (snd (avatarCacheGet (avatar_cache_id c full) expected (ct_avatars s)))"
    using ok_get assms(2,3) SanitizeContactID_nonempty[OF Some] by (simp add: contacts_ok_def)
  then show ?thesis
    unfolding assms(1)
    by (simp add: getContactAvatar_begin_def Some Let_def split_def split: option.split)
qed

lemma list_begin_tables:
  assumes "s' = snd (ListContacts_begin cursor limit force query paired gate reqID nonce s)"
  shows "ct_gen s' = ct_gen s \<and> ct_avatarReqs s' = ct_avatarReqs s \<and> ct_avatarMeta s' = ct_avatarMeta s \<and>
    ct_avatars s' = ct_avatars s \<and>
    registers cm_gen (ct_gen s) (ct_lists s) (ct_listsMeta s) (ct_lists s') (ct_listsMeta s')"
  unfolding assms by (simp add: ListContacts_begin_def Let_def split: option.split)

lemma delete_begin_tables:
  assumes "s' = snd (DeleteContact_begin cid key paired gate entropyError reqID nonce s)"
  shows "s' = s\<lparr>ct_deletes := ct_deletes s'\<rparr>"
  unfolding assms by (simp add: DeleteContact_begin_def Let_def split: option.split)

lemma inline_ok:
  assumes "avatars_ok c" "av_seq c < 9223372036854775807"
  shows "avatars_ok (inline_avatar e c) \<and> av_seq (inline_avatar e c) \<le> av_seq c + 1"
proof -
  have seq: "wrap64 (av_seq c + 1) = av_seq c + 1" using assms by (simp add: avatars_ok_def wrap64_id int64_def)
  have "av_seq (put_avatar k b v c) = av_seq c + 1" for k b v by (simp add: put_avatar_def touch_def Let_def seq)
  moreover have "av_seq (evict_avatars (put_avatar k b v c)) = av_seq (put_avatar k b v c)" if "k \<noteq> []" for k b v
    using evict_ok[OF ok_put[OF assms that]] by blast
  ultimately have "av_seq (avatarCachePut k b v c) \<le> av_seq c + 1" for k b v
    by (simp add: avatarCachePut_def)
  then show ?thesis
    using ok_cache_put[OF assms] by (simp add: inline_avatar_def ok_remember) (simp add: remember_version_def assms(1))
qed

lemma inlines_ok:
  "avatars_ok c \<Longrightarrow> av_seq c + int (length es) < 9223372036854775807 \<Longrightarrow> avatars_ok (fold inline_avatar es c)"
proof (induction es arbitrary: c)
  case (Cons e es)
  then have "av_seq c < 9223372036854775807" by simp
  then show ?case using inline_ok[OF Cons.prems(1), of e] Cons by simp
qed simp

lemma adopt_ok:
  assumes "avatars_ok (ct_avatars s)" "av_seq (ct_avatars s) + int (length (cls_Entries r)) < 9223372036854775807"
  shows "avatars_ok (ct_avatars (adopt_page m r s)) \<and> ct_gen (adopt_page m r s) = ct_gen s \<and>
    ct_lists (adopt_page m r s) = ct_lists s \<and> ct_listsMeta (adopt_page m r s) = ct_listsMeta s \<and>
    ct_avatarReqs (adopt_page m r s) = ct_avatarReqs s \<and> ct_avatarMeta (adopt_page m r s) = ct_avatarMeta s"
  using ok_prune[OF inlines_ok[OF assms]] by (simp add: adopt_page_def Let_def)

lemma avatars_ok_empty: "int64 n \<Longrightarrow> avatars_ok (c\<lparr>av_data := [], av_version := [], av_at := [], av_seq := n\<rparr>)"
  by (simp add: avatars_ok_def)

lemma contact_step_ok:
  "contact_step s s' \<Longrightarrow> contacts_ok s \<Longrightarrow> contacts_ok s' \<and> ct_gen s \<le> ct_gen s'"
proof (induction rule: contact_step.induct)
  case (1 s cursor limit force query paired gate reqID nonce)
  then show ?case
    using list_begin_tables[OF refl, of cursor limit force query paired gate reqID nonce s]
    by (auto simp: contacts_ok_def intro: requests_ok_registers)
next
  case (2 s req sent gate)
  then show ?case by (simp add: contacts_ok_def ListContacts_end_def Let_def requests_ok_remove)
next
  case (3 s cid full expected paired gate reqID nonce)
  then show ?case
    using avatar_begin_tables[OF refl 3(2,1), of cid full expected paired gate reqID nonce]
    by (auto simp: contacts_ok_def intro: requests_ok_registers)
next
  case (4 s cid req sent)
  then show ?case by (simp add: contacts_ok_def getContactAvatar_end_def Let_def requests_ok_remove)
next
  case (5 s cid key paired gate entropyError reqID nonce)
  then show ?case by (subst (1 2) delete_begin_tables[OF refl]) (simp add: contacts_ok_def)
next
  case (6 s cid req sendError)
  then show ?case
    by (simp add: contacts_ok_def DeleteContact_end_def Let_def remove_contact_def ok_forget split: option.split)
next
  case (7 s lresp)
  then show ?case using adopt_ok by (simp add: contacts_ok_def ingestListResp_def Let_def)
next
  case (8 s aresp)
  then show ?case using ok_cache_put by (simp add: contacts_ok_def ingestAvatarResp_def Let_def)
next
  case (10 s)
  then have "wrap64 (ct_gen s + 1) = ct_gen s + 1" "int64 (ct_gen s + 1)"
    by (simp_all add: contacts_ok_def wrap64_id int64_def)
  then show ?case using 10 by (auto simp: contacts_ok_def ingestContactsChanged_def intro: requests_ok_later)
next
  case (11 s)
  then have "wrap64 (ct_gen s + 1) = ct_gen s + 1" "int64 (ct_gen s + 1)"
    by (simp_all add: contacts_ok_def wrap64_id int64_def)
  then show ?case using 11 by (auto simp: contacts_ok_def reconnect_contacts_def intro: requests_ok_later)
next
  case (12 s)
  then show ?case by (simp add: contacts_ok_def forget_contacts_def avatars_ok_def)
qed (simp_all add: contacts_ok_def ingestDeleteResp_def Let_def failPendingContactsLists_def
      failPendingAvatarReqs_def failPendingDeleteReqs_def requests_ok_empty)

lemma contact_steps_ok: "contact_step\<^sup>*\<^sup>* s s' \<Longrightarrow> contacts_ok s \<Longrightarrow> contacts_ok s' \<and> ct_gen s \<le> ct_gen s'"
  by (induction rule: rtranclp_induct) (use contact_step_ok in fastforce)+

lemma contacts_ok_new: "distinct (map fst avatars) \<Longrightarrow> contacts_ok (new_contacts db avatars versions)"
  by (simp add: contacts_ok_def new_contacts_def loaded_avatars_def no_avatars_def avatars_ok_def int64_def)

section \<open>What the operations guarantee\<close>

text \<open>
  Over any run of listings, photo requests, deletions, answers, changes, reconnections
  and disconnections the store keeps its books: a request waits exactly as long as what it asked
  for is kept, no request is of a later generation than the store, and the photo cache keeps its
  own invariant, as long as the 64-bit counters last.
\<close>

theorem contact_store_invariant:
  assumes "distinct (map fst avatars)" "contact_step\<^sup>*\<^sup>* (new_contacts db avatars versions) s"
  shows "contacts_ok s \<and> 0 \<le> ct_gen s"
  using contact_steps_ok[OF assms(2) contacts_ok_new[OF assms(1)]]
  by (simp add: new_contacts_def[THEN arg_cong[of _ _ ct_gen]])

theorem contact_store_invariant_witness:
  "contacts_ok (reconnect_contacts (new_contacts [] [(''7'', ''AAAA'')] [])) \<and>
   0 \<le> ct_gen (reconnect_contacts (new_contacts [] [(''7'', ''AAAA'')] []))"
  by (rule contact_store_invariant[of "[(''7'', ''AAAA'')]" "[]" "[]"], simp, rule r_into_rtranclp,
      rule contact_step.intros) (simp add: new_contacts_def)

definition same_directory :: "ContactStore \<Rightarrow> ContactStore \<Rightarrow> bool" where
  "same_directory s s' \<longleftrightarrow> ct_contacts s' = ct_contacts s \<and> ct_avatars s' = ct_avatars s"

text \<open>
  C8. The cached directory is never polluted: a page asked for with a filter, or before the
  phone said that its contacts changed or came back, leaves the directory and its photos exactly
  as they are, whatever happened in between. The rows of a filtered page of the current
  generation still reach the caller, the stale ones nobody.
\<close>

theorem directory_unpolluted:
  assumes "contacts_ok s" "ct_listsMeta s r = Some m" "cls_ReqID resp = r"
    and "ct_gen s < 9223372036854775807" "contact_step\<^sup>*\<^sup>* (ingestContactsChanged s) s'"
    and "ct_listsMeta s' r = Some m"
  shows "same_directory s' (ingestListResp resp s') \<and>
         (cm_query m \<noteq> [] \<longrightarrow> same_directory s (ingestListResp resp s)) \<and>
         (cls_Error resp = [] \<longrightarrow> ingestListResp resp s' = s') \<and>
         (r \<noteq> [] \<and> cm_gen m = ct_gen s \<and> answer_of r (ct_lists s) = None \<longrightarrow>
            map_option lr_Contacts (answer_of r (ct_lists (ingestListResp resp s))) = Some (cls_Entries resp))"
proof -
  have step: "contact_step s (ingestContactsChanged s)" using assms(4) by (rule contact_step.intros)
  have "ct_gen (ingestContactsChanged s) = ct_gen s + 1"
    using assms(1,4) by (simp add: ingestContactsChanged_def contacts_ok_def wrap64_id int64_def)
  then have "ct_gen s < ct_gen s'"
    using contact_steps_ok[OF assms(5)] contact_step_ok[OF step assms(1)] by simp
  moreover have "cm_gen m \<le> ct_gen s" using assms(1,2) by (simp add: contacts_ok_def requests_ok_def)
  ultimately have late: "cm_gen m \<noteq> ct_gen s'" by simp
  have wait: "\<exists>ch. ct_lists s r = Some ch" using assms(1,2) by (fastforce simp: contacts_ok_def requests_ok_def)
  then obtain ch where ch: "ct_lists s r = Some ch" by blast
  have a: "same_directory s' (ingestListResp resp s')"
    using late assms(3,6) by (auto simp: same_directory_def ingestListResp_def Let_def)
  have b: "cm_query m \<noteq> [] \<longrightarrow> same_directory s (ingestListResp resp s)"
    using assms(2,3) by (simp add: same_directory_def ingestListResp_def Let_def)
  have c: "cls_Error resp = [] \<longrightarrow> ingestListResp resp s' = s'"
    using late assms(3,6) by (auto simp: ingestListResp_def Let_def)
  have lists: "ct_lists (adopt_page x y s) = ct_lists s" for x y by (simp add: adopt_page_def Let_def)
  have d: "r \<noteq> [] \<and> cm_gen m = ct_gen s \<and> answer_of r (ct_lists s) = None \<longrightarrow>
      map_option lr_Contacts (answer_of r (ct_lists (ingestListResp resp s))) = Some (cls_Entries resp)"
    using assms(2,3) ch by (simp add: ingestListResp_def Let_def answer_of_deliver lists answer_of_def[of r "ct_lists s"])
  show ?thesis using a b c d by blast
qed

definition filtered_request :: ContactStore where
  "filtered_request = (new_contacts [] [] [])
     \<lparr>ct_lists := [''r'' \<mapsto> None],
      ct_listsMeta := [''r'' \<mapsto> \<lparr>cm_query = ''ann'', cm_cursor = [], cm_gen = 0\<rparr>]\<rparr>"

theorem directory_unpolluted_witness:
  "same_directory filtered_request (ingestListResp
     (zero_ContactsListRespPayload\<lparr>cls_ReqID := ''r'', cls_Entries := [zero_ContactEntry]\<rparr>) filtered_request)"
proof -
  have "contacts_ok filtered_request"
    by (simp add: filtered_request_def contacts_ok_def new_contacts_def requests_ok_def loaded_avatars_def
        no_avatars_def avatars_ok_def int64_def)
  then show ?thesis
    using directory_unpolluted[of filtered_request "''r''" "\<lparr>cm_query = ''ann'', cm_cursor = [], cm_gen = 0\<rparr>"
        "zero_ContactsListRespPayload\<lparr>cls_ReqID := ''r'', cls_Entries := [zero_ContactEntry]\<rparr>"
        "ingestContactsChanged filtered_request"]
    by (simp add: filtered_request_def new_contacts_def ingestContactsChanged_def)
qed


definition photo_request :: ContactStore where
  "photo_request = (new_contacts [] [] [])
     \<lparr>ct_avatarReqs := [''r'' \<mapsto> None], ct_avatarMeta := [''r'' \<mapsto> True]\<rparr>"

definition photo_answer :: ContactAvatarRespPayload where
  "photo_answer = zero_ContactAvatarRespPayload\<lparr>cas_ReqID := ''r'', cas_ContactID := ''7'',
     cas_DataB64 := ''AAAA'', cas_PhotoVersion := ''v1''\<rparr>"


text \<open>
  A contact that the phone deleted is gone: after the positive answer it is out of the
  directory, its photo out of the cache in both sizes, and every other contact is still there.
\<close>

lemma drop_contact_distinct:
  "distinct (map ce_ContactID cs) \<Longrightarrow> drop_contact cid cs = filter (\<lambda>c. ce_ContactID c \<noteq> cid) cs"
  proof (induction cs)
  case (Cons c cs)
  have "filter (\<lambda>e. ce_ContactID e \<noteq> ce_ContactID c) cs = cs" using Cons.prems by (simp add: filter_id_conv image_iff) metis
  then show ?case using Cons by auto
qed simp

lemma value_of_gone [simp]: "value_of (AList.delete k m) k = []"
  by (simp add: value_of_def delete_conv')

theorem deleted_contact_gone:
  assumes "distinct (map ce_ContactID (ct_contacts s))" "answer_of req (ct_deletes s) = Some res" "dr_OK res"
  shows "case DeleteContact_end cid req None s of
           (r, s') \<Rightarrow> r = (res, None) \<and>
             ct_contacts s' = filter (\<lambda>c. ce_ContactID c \<noteq> cid) (ct_contacts s) \<and>
             (\<forall>full \<in> {False, True}. fst (avatarCacheGet (avatar_cache_id cid full) v (ct_avatars s')) = None)"
  using assms
  by (simp add: DeleteContact_end_def Let_def remove_contact_def drop_contact_distinct avatarCacheGet_def
      avatar_cache_id_def forget_avatar_def)

theorem deleted_contact_gone_witness:
  "ct_contacts (snd (DeleteContact_end ''7'' ''r'' None ((new_contacts [zero_ContactEntry\<lparr>ce_ContactID := ''7''\<rparr>] [] [])
     \<lparr>ct_deletes := [''r'' \<mapsto> Some (zero_ContactDeleteResult\<lparr>dr_OK := True\<rparr>)]\<rparr>))) = []"
  using deleted_contact_gone[of "(new_contacts [zero_ContactEntry\<lparr>ce_ContactID := ''7''\<rparr>] [] [])
     \<lparr>ct_deletes := [''r'' \<mapsto> Some (zero_ContactDeleteResult\<lparr>dr_OK := True\<rparr>)]\<rparr>" "''r''"
     "zero_ContactDeleteResult\<lparr>dr_OK := True\<rparr>" "''7''"]
  by (simp add: new_contacts_def answer_of_def split_def)

end
