(* ===== verification/Mac_Ingest.thy ===== *)
theory Mac_Ingest
  imports File_Steps Settings_Store Clip_Store Notif_Store Playback Message_Sync Contact_Sync
begin

text \<open>
  How what the phone sends reaches the Mac's stores: the parsers of inbound bodies, the wrapper
  around the HTTP server (\<open>WrapHandler\<close>), the WebSocket events (\<open>service_ws.go\<close>) and the flush of
  what was queued for the phone. The stores are those of the theories imported here, side by side
  in one record; photos have their own state and are left out, as are the log, UI events, banners
  and the pasteboard.
\<close>

section \<open>Parsers\<close>

text \<open>\<open>net.SplitHostPort\<close> of the Go library; \<open>None\<close> for its errors.\<close>

definition SplitHostPort :: "string \<Rightarrow> (string \<times> string) option" where
  "SplitHostPort hostport =
     (if CHR '':'' \<notin> set hostport then None
      else
        let port = rev (takeWhile (\<lambda>c. c \<noteq> CHR '':'') (rev hostport));
            front = take (length hostport - length port - 1) hostport
        in if hd hostport = CHR ''['' then
             (let inner = takeWhile (\<lambda>c. c \<noteq> CHR '']'') hostport; after = drop (length inner) hostport
              in if after = [] \<or> length inner + 1 \<noteq> length front then None
                 else if CHR ''['' \<in> set (tl hostport) \<or> CHR '']'' \<in> set (tl after) then None
                 else Some (tl inner, port))
           else if CHR '':'' \<in> set front \<or> CHR ''['' \<in> set hostport \<or> CHR '']'' \<in> set hostport then None
           else Some (front, port))"

definition SplitRemoteHost :: "string \<Rightarrow> string" where
  "SplitRemoteHost remoteAddr =
     (case SplitHostPort remoteAddr of Some (host, _) \<Rightarrow> host | None \<Rightarrow> remoteAddr)"

definition ParsePeerPingFull :: "string \<Rightarrow> (int \<times> string) option" where
  "ParsePeerPingFull body =
     (case unmarshal_into (dec_struct PingReplyEnv_fields) body zero_PingReplyEnv of
        None \<Rightarrow> None
      | Some env \<Rightarrow>
          if pre_Type env \<noteq> TypePing then None
          else case pr_ReplyPort (pre_Payload env) of
            None \<Rightarrow> None
          | Some p \<Rightarrow>
              if 1 \<le> p \<and> p \<le> 65535
              then Some (p, normalizeFingerprint (pr_ReplyFingerprint (pre_Payload env))) else None)"

definition ParsePeerPing :: "string \<Rightarrow> int option" where
  "ParsePeerPing body = map_option fst (ParsePeerPingFull body)"

definition zero_UpdateRequiredPayload :: UpdateRequiredPayload where
  "zero_UpdateRequiredPayload =
     \<lparr>ur_Code = [], ur_Message = [], ur_RequiredBuild = 0, ur_RequiredVersion = [],
      ur_CurrentVersion = [], ur_CurrentBuild = 0, ur_Device = []\<rparr>"

definition UpdateRequiredPayload_fields :: "UpdateRequiredPayload fields" where
  "UpdateRequiredPayload_fields =
     [(''code'', dec_field ur_Code (\<lambda>x. ur_Code_update (\<lambda>_. x)) dec_string),
      (''message'', dec_field ur_Message (\<lambda>x. ur_Message_update (\<lambda>_. x)) dec_string),
      (''required_build'', dec_field ur_RequiredBuild (\<lambda>x. ur_RequiredBuild_update (\<lambda>_. x)) dec_int),
      (''required_version'',
        dec_field ur_RequiredVersion (\<lambda>x. ur_RequiredVersion_update (\<lambda>_. x)) dec_string),
      (''current_version'',
        dec_field ur_CurrentVersion (\<lambda>x. ur_CurrentVersion_update (\<lambda>_. x)) dec_string),
      (''current_build'', dec_field ur_CurrentBuild (\<lambda>x. ur_CurrentBuild_update (\<lambda>_. x)) dec_int),
      (''device'', dec_field ur_Device (\<lambda>x. ur_Device_update (\<lambda>_. x)) dec_string)]"

record UpdateDetail =
  ud_Message :: string
  ud_Self :: bool
  ud_RequiredVersion :: string
  ud_CurrentVersion :: string
  ud_RequiredBuild :: int

definition ParseUpdateDetail :: "string \<Rightarrow> UpdateDetail option" where
  "ParseUpdateDetail body =
     (case unmarshal_into (dec_struct Envelope_fields) body zero_Envelope of
        None \<Rightarrow> None
      | Some env \<Rightarrow>
          if env_Type env \<noteq> TypeError then None
          else case payload_as UpdateRequiredPayload_fields zero_UpdateRequiredPayload env of
            None \<Rightarrow> None
          | Some upd \<Rightarrow>
              if ur_Code upd \<noteq> CodeUpdateRequired \<or> ur_Message upd = [] then None
              else Some \<lparr>ud_Message = ur_Message upd, ud_Self = (CurrentBuild < ur_RequiredBuild upd),
                         ud_RequiredVersion = ur_RequiredVersion upd,
                         ud_CurrentVersion = ur_CurrentVersion upd,
                         ud_RequiredBuild = ur_RequiredBuild upd\<rparr>)"

definition ParseUpdateReply :: "string \<Rightarrow> (string \<times> bool) option" where
  "ParseUpdateReply body = map_option (\<lambda>d. (ud_Message d, ud_Self d)) (ParseUpdateDetail body)"

definition ParseNotifPost :: "string \<Rightarrow> NotifPostPayload option" where
  "ParseNotifPost body =
     only_if (\<lambda>p. SanitizeNotifID (np_ID p) \<noteq> None)
       (parse_typed NotifPostPayload_fields zero_NotifPostPayload TypeNotifPost body)"

definition ParseNotifDismiss :: "string \<Rightarrow> NotifDismissPayload option" where
  "ParseNotifDismiss body =
     only_if (\<lambda>p. SanitizeNotifID (nd_ID p) \<noteq> None)
       (parse_typed NotifDismissPayload_fields zero_NotifDismissPayload TypeNotifDismiss body)"

definition ParseClipPush :: "string \<Rightarrow> ClipPushPayload option" where
  "ParseClipPush body =
     only_if SanitizeClipPush (parse_typed ClipPushPayload_fields zero_ClipPushPayload TypeClipPush body)"

definition ParseClipManifest :: "string \<Rightarrow> ClipManifestPayload option" where
  "ParseClipManifest body =
     only_if SanitizeClipManifest
       (parse_typed ClipManifestPayload_fields zero_ClipManifestPayload TypeClipManifest body)"

definition ParseClipChunk :: "string \<Rightarrow> ClipChunkPayload option" where
  "ParseClipChunk body =
     only_if SanitizeClipChunk (parse_typed ClipChunkPayload_fields zero_ClipChunkPayload TypeClipChunk body)"

definition ParseSettingsSync :: "string \<Rightarrow> SettingsSyncPayload option" where
  "ParseSettingsSync body =
     only_if (\<lambda>p. SanitizeSettings p \<noteq> None)
       (parse_typed SettingsSyncPayload_fields zero_SettingsSyncPayload TypeSettingsSync body)"

definition ParsePlaybackState :: "string \<Rightarrow> PlaybackStatePayload option" where
  "ParsePlaybackState body =
     only_if (\<lambda>p. SanitizePlaybackState p \<noteq> None)
       (parse_typed PlaybackStatePayload_fields zero_PlaybackStatePayload TypePlaybackState body)"

definition ParsePlaybackCmd :: "string \<Rightarrow> PlaybackCmdPayload option" where
  "ParsePlaybackCmd body =
     only_if (\<lambda>p. SanitizePlaybackCmd p \<noteq> None)
       (parse_typed PlaybackCmdPayload_fields zero_PlaybackCmdPayload TypePlaybackCmd body)"

text \<open>\<open>envelopeTypeOf\<close> and the sniffing of the type in the routed lanes.\<close>

definition sniff_type :: "string \<Rightarrow> string option" where
  "sniff_type body =
     map_option tb_Type
       (unmarshal_into (dec_struct [(''type'', dec_field tb_Type (\<lambda>x. tb_Type_update (\<lambda>_. x)) dec_string)])
          body \<lparr>tb_Type = [], tb_Payload = ()\<rparr>)"

definition envelopeTypeOf :: "string \<Rightarrow> string" where
  "envelopeTypeOf body = (case sniff_type body of None \<Rightarrow> [] | Some t \<Rightarrow> t)"

definition isContactsInvalidateBody :: "string \<Rightarrow> bool" where
  "isContactsInvalidateBody body =
     (let t = envelopeTypeOf body in if t = [] then True else t = TypeContactsChanged)"

definition isMessagesInvalidateBody :: "string \<Rightarrow> bool" where
  "isMessagesInvalidateBody body =
     (let t = envelopeTypeOf body in if t = [] then True else t = TypeSMSPush \<or> t = TypeSMSChanged)"

section \<open>The stores side by side\<close>

record Mac =
  mac_session :: Session
  mac_settings :: SettingsStore
  mac_settingsFile :: "string option"
  mac_notifs :: NotifStore
  mac_clips :: ClipStore
  mac_hub :: ClipChunkHub
  mac_playback :: PlaybackStore
  mac_dnd :: DNDView
  mac_contacts :: ContactStore
  mac_messages :: MessageStore
  mac_files :: FileState

text \<open>
  What the outside gives a step: the time in nanoseconds, whether device.json and settings.json
  could be written, a fresh nonce (empty when the entropy source failed), the staging directory
  of downloads and the disk call that fails, if any.
\<close>

record outside =
  out_now :: int
  out_deviceSaved :: bool
  out_settingsSaved :: bool
  out_nonce :: string
  out_staging :: string
  out_fault :: io_fault

definition ingestNotifBody :: "outside \<Rightarrow> string \<Rightarrow> Mac \<Rightarrow> Mac" where
  "ingestNotifBody out body m =
     (let st = st_cur (mac_settings m)
      in if sniff_type body = Some TypeNotifAppsResp then m
         else case ParseNotifPost body of
           Some p \<Rightarrow>
             if np_HasProgress p then m
             else if \<not> ShouldMirrorNotif (as_NotifMode st) (as_MutedPackages st) (as_AllowedPackages st)
                        (np_PackageName p) (np_HasProgress p) then m
             else if \<not> as_NotificationsEnabled st then m
             else m\<lparr>mac_notifs := fst (NotifStore_Post (out_now out div second) p (mac_notifs m))\<rparr>
         | None \<Rightarrow>
             (case ParseNotifDismiss body of
                Some p \<Rightarrow> m\<lparr>mac_notifs := ApplyRemoteDismiss (nd_ID p) (mac_notifs m)\<rparr>
              | None \<Rightarrow> m))"

definition ingestClipBody :: "string \<Rightarrow> Mac \<Rightarrow> Mac" where
  "ingestClipBody body m =
     (case ParseClipPush body of
        None \<Rightarrow> m
      | Some p \<Rightarrow>
          m\<lparr>mac_clips := fst (ingestClip (as_ClipboardMode (st_cur (mac_settings m))) p (mac_clips m))\<rparr>)"

definition ingestClipManifestBody :: "outside \<Rightarrow> string \<Rightarrow> Mac \<Rightarrow> Mac" where
  "ingestClipManifestBody out body m =
     (case ParseClipManifest body of
        None \<Rightarrow> m
      | Some p \<Rightarrow>
          m\<lparr>mac_hub := ingestClipManifest (out_now out)
               (as_ClipboardMode (st_cur (mac_settings m))) p (mac_hub m)\<rparr>)"

definition ingestClipChunkBody :: "outside \<Rightarrow> string \<Rightarrow> Mac \<Rightarrow> Mac" where
  "ingestClipChunkBody out body m =
     (case ParseClipChunk body of
        None \<Rightarrow> m
      | Some c \<Rightarrow>
          (case ingestClipChunk (out_now out) (as_ClipboardMode (st_cur (mac_settings m)))
                  (out_nonce out) c (mac_hub m) (mac_clips m) of
             (h, clips, _) \<Rightarrow> m\<lparr>mac_hub := h, mac_clips := clips\<rparr>))"

definition ingestClipRouted :: "outside \<Rightarrow> string \<Rightarrow> Mac \<Rightarrow> Mac" where
  "ingestClipRouted out body m =
     (case sniff_type body of
        None \<Rightarrow> m
      | Some t \<Rightarrow>
          if t = TypeClipManifest then ingestClipManifestBody out body m
          else if t = TypeClipChunk then ingestClipChunkBody out body m
          else ingestClipBody body m)"

definition ingestSettingsBody :: "outside \<Rightarrow> string \<Rightarrow> Mac \<Rightarrow> Mac" where
  "ingestSettingsBody out body m =
     (case ParseSettingsSync body of
        None \<Rightarrow> m
      | Some p \<Rightarrow>
          (case SettingsStore_ApplyRemote p (mac_settings m) of
             (s, won) \<Rightarrow>
               m\<lparr>mac_settings := s,
                 mac_settingsFile :=
                   (if won \<and> out_settingsSaved out then persistSnapshot s (mac_settingsFile m)
                    else mac_settingsFile m)\<rparr>))"

definition ingestPlaybackBody :: "string \<Rightarrow> Mac \<Rightarrow> Mac" where
  "ingestPlaybackBody body m =
     (case ParsePlaybackState body of
        None \<Rightarrow> m
      | Some p \<Rightarrow>
          let mode = or_default (as_PlaybackMode (st_cur (mac_settings m))) PlaybackBoth
          in if \<not> PlaybackModeAllowsReceive mode (ps_Origin p) then m
             else if \<not> PlaybackModeAllowsState mode then m
             else m\<lparr>mac_playback := fst (PlaybackStore_ApplyRemote p (mac_playback m))\<rparr>)"

definition ingestDNDBody :: "string \<Rightarrow> Mac \<Rightarrow> Mac" where
  "ingestDNDBody body m =
     (case unmarshal_into (dec_struct Envelope_fields) body zero_Envelope of
        None \<Rightarrow> m
      | Some env \<Rightarrow>
          (case DecodePayload (dec_struct DNDStatePayload_fields) zero_DNDStatePayload env of
             Inl _ \<Rightarrow> m
           | Inr p \<Rightarrow>
               (case SanitizeDNDState p of
                  None \<Rightarrow> m
                | Some sp \<Rightarrow> m\<lparr>mac_dnd := fst (DNDStore_ApplyRemote sp (mac_dnd m))\<rparr>)))"

definition ingestContactsLane :: "string \<Rightarrow> Mac \<Rightarrow> Mac" where
  "ingestContactsLane body m = m\<lparr>mac_contacts := ingestContactsBody body (mac_contacts m)\<rparr>"

definition ingestMessagesLane :: "string \<Rightarrow> Mac \<Rightarrow> Mac" where
  "ingestMessagesLane body m =
     m\<lparr>mac_messages := ingestMessagesBody (ct_contacts (mac_contacts m)) body (mac_messages m)\<rparr>"

definition ingestPingBody :: "outside \<Rightarrow> string \<Rightarrow> string \<Rightarrow> Mac \<Rightarrow> Mac" where
  "ingestPingBody out remote body m =
     m\<lparr>mac_session :=
        (case ParsePeerPingFull body of
           Some (port, fp) \<Rightarrow>
             setPeerWithFacts (out_now out) (out_deviceSaved out) (SplitRemoteHost remote) port fp
               (ParsePeerDevice body) (mac_session m)
         | None \<Rightarrow> mergeFacts (out_now out) (out_deviceSaved out) (ParsePeerDevice body) (mac_session m))\<rparr>"

definition on_session :: "(Session \<Rightarrow> Session) \<Rightarrow> Mac \<Rightarrow> Mac" where
  "on_session f m = m\<lparr>mac_session := f (mac_session m)\<rparr>"

definition learn_from :: "outside \<Rightarrow> Envelope \<Rightarrow> Session \<Rightarrow> Session" where
  "learn_from out env =
     (let from = env_Sender env
      in learnPeer (out_now out) (out_deviceSaved out) (si_Platform from) (si_AppBuild from)
           (si_AppVersion from) (env_Capabilities env))"

text \<open>The head of a body of the files lane is the envelope without its protocol version.\<close>

definition ingestFilesLane :: "outside \<Rightarrow> string \<Rightarrow> Mac \<Rightarrow> Mac" where
  "ingestFilesLane out body m =
     (case unmarshal_into (dec_struct (tl Envelope_fields)) body zero_Envelope of
        None \<Rightarrow> m
      | Some env \<Rightarrow>
          on_session (learn_from out env)
            (m\<lparr>mac_files := ingestFileBody (out_staging out) (out_now out) (out_fault out) (env_Type env) body
                 (mac_files m)\<rparr>))"

section \<open>The HTTP lane\<close>

text \<open>What an accepted body does, by its path.\<close>

definition ingest_path :: "outside \<Rightarrow> string \<Rightarrow> string \<Rightarrow> string \<Rightarrow> Mac \<Rightarrow> Mac" where
  "ingest_path out remote path body m =
     (if path = ''/ping'' then ingestPingBody out remote body m
      else if path = ''/notif'' then ingestNotifBody out body m
      else if path = ''/clip'' then ingestClipRouted out body m
      else if path = ''/settings'' then ingestSettingsBody out body m
      else if path = ''/playback'' then ingestPlaybackBody body m
      else if path = ''/dnd'' then ingestDNDBody body m
      else if path = ''/unpair'' then on_session (ingestUnpair (out_deviceSaved out)) m
      else if path = ''/files'' then ingestFilesLane out body m
      else if path = ''/contacts'' then ingestContactsLane body m
      else if path = ''/messages'' then ingestMessagesLane body m
      else m)"

definition learn_paths :: "string list" where
  "learn_paths =
     [''/ping'', ''/notif'', ''/clip'', ''/settings'', ''/playback'', ''/unpair'', ''/files'', ''/photos'',
      ''/contacts'', ''/messages'']"

text \<open>What the wrapper learns from the status and the body of the reply.\<close>

definition learn_reply :: "outside \<Rightarrow> string \<Rightarrow> string \<Rightarrow> string \<Rightarrow> int \<Rightarrow> string \<Rightarrow> Mac \<Rightarrow> Mac" where
  "learn_reply out remote path body status reply m =
     (if status = 200 then
        ingest_path out remote path body (on_session (recordAccept (out_now out)) m)
      else if status = 426 then
        on_session
          ((case ParseUpdateDetail reply of
              None \<Rightarrow> setUpdateDetail ''peer requires an update'' False [] [] 0
            | Some d \<Rightarrow> setUpdateDetail (ud_Message d) (ud_Self d) (ud_RequiredVersion d)
                (ud_CurrentVersion d) (ud_RequiredBuild d))
           \<circ> recordReject (out_now out) ''update'') m
      else if status = 403 then on_session (recordReject (out_now out) ''auth'') m
      else if status = 400 \<or> status = 405 then on_session (recordReject (out_now out) ''bad_request'') m
      else m)"

definition serve_path :: "string \<Rightarrow> Server \<Rightarrow> int \<Rightarrow> HttpRequest \<Rightarrow> HttpReply" where
  "serve_path path srv now r =
     (case map_of routes path of
        Some h \<Rightarrow> h srv now r
      | None \<Rightarrow> \<lparr>rp_Status = 404, rp_Body = JStr ''404 page not found''\<rparr>)"

definition WrapHandler ::
  "Server \<Rightarrow> outside \<Rightarrow> string \<Rightarrow> string \<Rightarrow> HttpRequest \<Rightarrow> Mac \<Rightarrow> HttpReply \<times> Mac" where
  "WrapHandler srv out remote path r m =
     (let unix = out_now out div second
      in if path \<notin> set learn_paths \<or> rq_Method r \<noteq> ''POST'' then (serve_path path srv unix r, m)
         else if rq_BodyFails r then
           (serve_path path srv unix (r\<lparr>rq_Body := [], rq_BodyFails := False\<rparr>), m)
         else
           let body = take MaxBodyBytes (rq_Body r);
               rep = serve_path path srv unix (r\<lparr>rq_Body := body\<rparr>);
               written = take MaxBodyBytes (json_text (rp_Body rep) @ [CHR 0x0A])
           in (rep, learn_reply out remote path body (rp_Status rep) written m))"

section \<open>The WebSocket lane\<close>

definition notif_types :: "string list" where "notif_types = [TypeNotifPost, TypeNotifDismiss, TypeNotifAppsResp]"
definition contact_types :: "string list" where
  "contact_types = [TypeContactsListResp, TypeContactAvatarResp, TypeContactDeleteResp, TypeContactsChanged]"
definition file_types :: "string list" where
  "file_types = [TypeFileListResp, TypeFileChunk, TypeFileAck, TypeFileCancel, TypeFileStatResp]"
definition message_types :: "string list" where
  "message_types = [TypeSMSThreadsResp, TypeSMSMessagesResp, TypeSMSSendResp, TypeSMSMarkReadResp,
     TypeSMSPush, TypeSMSChanged]"

text \<open>The switch of \<open>OnWSEnvelope\<close>, over the envelope printed again.\<close>

definition ingest_type :: "outside \<Rightarrow> string \<Rightarrow> string \<Rightarrow> string \<Rightarrow> Mac \<Rightarrow> Mac" where
  "ingest_type out remote t raw m =
     (if t = TypePing then
        ingestPingBody out remote raw (on_session (recordAccept (out_now out)) m)
      else if t \<in> set notif_types then ingestNotifBody out raw m
      else if t = TypeClipPush then ingestClipBody raw m
      else if t = TypeClipManifest then ingestClipManifestBody out raw m
      else if t = TypeClipChunk then ingestClipChunkBody out raw m
      else if t = TypeSettingsSync then ingestSettingsBody out raw m
      else if t = TypePlaybackState then ingestPlaybackBody raw m
      else if t = TypeDNDState then ingestDNDBody raw m
      else if t = TypeUnpair then on_session (ingestUnpair (out_deviceSaved out)) m
      else if t \<in> set file_types then ingestFilesLane out raw m
      else if t \<in> set contact_types then ingestContactsLane raw m
      else if t \<in> set message_types then ingestMessagesLane raw m
      else m)"

definition mac_OnWSEnvelope :: "outside \<Rightarrow> string \<Rightarrow> Envelope \<Rightarrow> Mac \<Rightarrow> Mac" where
  "mac_OnWSEnvelope out remote env m =
     ingest_type out remote (env_Type env) (json_text (Envelope_json env))
       (on_session (learn_from out env \<circ> (\<lambda>s. s\<lparr>se_lastSeen := Some (out_now out)\<rparr>)) m)"

definition reconnect_messages :: "MessageStore \<Rightarrow> MessageStore" where
  "reconnect_messages s = s\<lparr>ms_gen := wrap64 (ms_gen s + 1), ms_threads := [], ms_messages := None\<rparr>"

definition mac_OnWSDisconnect :: "nat \<Rightarrow> Mac \<Rightarrow> Mac" where
  "mac_OnWSDisconnect conn m =
     (let err = offline_text
      in m\<lparr>mac_session := OnWSDisconnect conn (mac_session m),
           mac_contacts :=
             snd (failPendingDeleteReqs err (snd (failPendingAvatarReqs err
               (snd (failPendingContactsLists err (mac_contacts m)))))),
           mac_messages := snd (failPendingSMSRequests err (mac_messages m))\<rparr>)"

definition mac_NotifyLocalNetworkDown :: "Mac \<Rightarrow> Mac" where
  "mac_NotifyLocalNetworkDown m =
     (case se_activeWS (mac_session m) of
        Some ws \<Rightarrow> mac_OnWSDisconnect ws m
      | None \<Rightarrow> on_session NotifyLocalNetworkDown m)"

text \<open>\<open>sendFeatureToPhone\<close> over \<open>WriteActiveWS\<close>: nothing is sent without a socket, and a write that
  fails drops the socket. Whether the write succeeds is an argument.\<close>

definition WriteActiveWS :: "bool \<Rightarrow> Mac \<Rightarrow> bool \<times> Mac" where
  "WriteActiveWS ok m =
     (case se_activeWS (mac_session m) of
        None \<Rightarrow> (False, m)
      | Some ws \<Rightarrow> if ok then (True, m) else (False, mac_OnWSDisconnect ws m))"

section \<open>What waited for the phone\<close>

definition flush_settings :: "bool \<Rightarrow> Mac \<Rightarrow> Mac" where
  "flush_settings ok m =
     (case SettingsStore_TakePending (mac_settings m) of
        (s, None) \<Rightarrow> m
      | (s, Some st) \<Rightarrow>
          (case WriteActiveWS ok (m\<lparr>mac_settings := s\<rparr>) of
             (sent, m) \<Rightarrow>
               if sent then m else m\<lparr>mac_settings := requeueSettings (mac_settings m)\<rparr>))"

definition flush_clip :: "string \<Rightarrow> bool \<Rightarrow> Mac \<Rightarrow> Mac" where
  "flush_clip nonce ok m =
     (case ClipStore_TakePending (mac_clips m) of
        (c, None) \<Rightarrow> m
      | (c, Some push) \<Rightarrow>
          (case (if cp_Nonce push = [] \<and> nonce = [] then (False, m\<lparr>mac_clips := c\<rparr>)
                 else WriteActiveWS ok (m\<lparr>mac_clips := c\<rparr>)) of
             (sent, m) \<Rightarrow> if sent then m else m\<lparr>mac_clips := requeueClip (mac_clips m)\<rparr>))"

fun flush_dismissals :: "(string \<Rightarrow> bool) \<Rightarrow> string list \<Rightarrow> Mac \<Rightarrow> Mac" where
  "flush_dismissals ok [] m = m"
| "flush_dismissals ok (i # is) m =
     (case WriteActiveWS (ok i) m of
        (sent, m) \<Rightarrow>
          flush_dismissals ok is
            (if sent then m else m\<lparr>mac_notifs := fst (NotifStore_Dismiss i (mac_notifs m))\<rparr>))"

definition flushPendingToPhone :: "outside \<Rightarrow> bool \<Rightarrow> bool \<Rightarrow> (string \<Rightarrow> bool) \<Rightarrow> Mac \<Rightarrow> Mac" where
  "flushPendingToPhone out okSettings okClip okDismiss m =
     (if \<not> IsPaired (out_now out) (mac_session m) then m
      else
        let m = flush_clip (out_nonce out) okClip (flush_settings okSettings m);
            (notifs, ids) = TakePendingDismissals (mac_notifs m)
        in flush_dismissals okDismiss ids (m\<lparr>mac_notifs := notifs\<rparr>))"

definition mac_OnWSConnect ::
  "outside \<Rightarrow> bool \<Rightarrow> bool \<Rightarrow> (string \<Rightarrow> bool) \<Rightarrow> nat \<Rightarrow> string \<Rightarrow> Mac \<Rightarrow> Mac" where
  "mac_OnWSConnect out okSettings okClip okDismiss conn remote m =
     (let m = flushPendingToPhone out okSettings okClip okDismiss
                (on_session (OnWSConnect (out_now out) conn (SplitRemoteHost remote)) m)
      in m\<lparr>mac_messages := reconnect_messages (mac_messages m),
           mac_contacts := reconnect_contacts (mac_contacts m)\<rparr>)"

text \<open>Forgetting the phone; \<open>None\<close> when there is none. When device.json cannot be deleted the
  function returns before the caches. The rotation of the token is \<open>SetToken\<close> of the server.\<close>

definition forget_messages :: "MessageStore \<Rightarrow> MessageStore" where
  "forget_messages s = s\<lparr>ms_threads := [], ms_messages := None\<rparr>"

definition mac_ForgetLastDevice :: "outside \<Rightarrow> Mac \<Rightarrow> Mac option" where
  "mac_ForgetLastDevice out m =
     (case ForgetLastDevice (out_deviceSaved out) (mac_session m) of
        None \<Rightarrow> None
      | Some s \<Rightarrow>
          if \<not> out_deviceSaved out then Some (m\<lparr>mac_session := s\<rparr>)
          else Some (m\<lparr>mac_session := s, mac_contacts := forget_contacts (mac_contacts m),
                       mac_messages := forget_messages (mac_messages m), mac_dnd := DNDStore_Clear (mac_dnd m)\<rparr>))"

end
