(* ===== verification/Mac_Gates.thy ===== *)
theory Mac_Gates
  imports Mac_Ingest
begin

text \<open>
  What holds of the Mac as a whole: nobody without the token changes a store, the components keep
  their invariants whatever reaches the Mac on either lane, what was queued for the phone is not
  lost when a send fails, and the notice of an outdated peer says what the peer was told.
\<close>

section \<open>The return path\<close>

lemma takeWhile_rev_port:
  "CHR '':'' \<notin> set port \<Longrightarrow>
   rev (takeWhile (\<lambda>c. c \<noteq> CHR '':'') (rev (host @ CHR '':'' # port))) = port"
proof -
  assume "CHR '':'' \<notin> set port"
  then have "takeWhile (\<lambda>c. c \<noteq> CHR '':'') (rev port @ CHR '':'' # rev host) = rev port"
    by (subst takeWhile_append2) auto
  then show ?thesis by simp
qed

lemma bracket_host:
  assumes "CHR '']'' \<notin> set host"
  shows "takeWhile (\<lambda>c. c \<noteq> CHR '']'') (CHR ''['' # host @ CHR '']'' # rest) = CHR ''['' # host"
  using assms by (induction host) auto

text \<open>The host of an address the Mac itself builds is read back.\<close>

lemma SplitRemoteHost_Join:
  assumes "set host \<inter> {CHR ''['', CHR '']''} = {}" "set port \<inter> {CHR '':'', CHR ''['', CHR '']''} = {}"
  shows "SplitRemoteHost (JoinHostPort host port) = host"
proof -
  have b: "CHR ''['' \<notin> set host" "CHR '']'' \<notin> set host" "CHR '':'' \<notin> set port"
    "CHR ''['' \<notin> set port" "CHR '']'' \<notin> set port" using assms by auto
  note p = takeWhile_rev_port[OF b(3)]
  show ?thesis
  proof (cases "CHR '':'' \<in> set host")
    case True
    let ?a = "CHR ''['' # host @ CHR '']'' # CHR '':'' # port"
    have j: "JoinHostPort host port = ?a" using True by (simp add: JoinHostPort_def)
    have "rev (takeWhile (\<lambda>c. c \<noteq> CHR '':'') (rev ?a)) = port"
      using p[of "CHR ''['' # host @ [CHR '']'']"] by simp
    then show ?thesis
      unfolding j using b bracket_host[OF b(2), of "CHR '':'' # port"]
      by (simp add: SplitRemoteHost_def SplitHostPort_def Let_def)
  next
    case False
    let ?a = "host @ CHR '':'' # port"
    have j: "JoinHostPort host port = ?a" using False by (simp add: JoinHostPort_def)
    have h: "hd ?a \<noteq> CHR ''[''" using b by (cases host) auto
    show ?thesis
      unfolding j using b False h p[of host]
      by (simp add: SplitRemoteHost_def SplitHostPort_def Let_def)
  qed
qed

section \<open>Nobody without the token\<close>

definition same_stores :: "Mac \<Rightarrow> Mac \<Rightarrow> bool" where
  "same_stores m m' \<longleftrightarrow> m' = m\<lparr>mac_session := mac_session m'\<rparr>"

text \<open>Only what the UI says about refused contacts: the last refusal and the update notice.\<close>

definition notice_only :: "Session \<Rightarrow> Session \<Rightarrow> bool" where
  "notice_only s s' \<longleftrightarrow> s' = s\<lparr>se_lastUpdateMsg := se_lastUpdateMsg s', se_lastUpdateSelf := se_lastUpdateSelf s',
     se_lastUpdateSet := se_lastUpdateSet s', se_lastUpdateReqVer := se_lastUpdateReqVer s',
     se_lastUpdateCurVer := se_lastUpdateCurVer s', se_lastUpdateReqBuild := se_lastUpdateReqBuild s',
     se_lastRejectKind := se_lastRejectKind s', se_lastRejectUnix := se_lastRejectUnix s'\<rparr>"

lemma notice_steps:
  "notice_only s s" "notice_only s (recordReject now k s)"
  "notice_only s (setUpdateDetail msg self rv cv rb s)"
  "notice_only s (setUpdateDetail msg self rv cv rb (recordReject now k s))"
  by (simp_all add: notice_only_def recordReject_def setUpdateDetail_def Let_def)

lemma bearer_body [simp]: "bearerToken (r\<lparr>rq_Body := b\<rparr>) = bearerToken r"
  "bearerToken (r\<lparr>rq_BodyFails := f\<rparr>) = bearerToken r"
  by (simp_all add: bearerToken_def)

lemma learn_path_token:
  assumes "path \<in> set learn_paths" "rp_Status (serve_path path srv now r) = 200"
  shows "bearerToken r = sv_token srv"
proof -
  obtain h where h: "map_of routes path = Some h" "(path, h) \<in> set routes" "path \<noteq> ''/health''"
    using assms(1) by (auto simp: learn_paths_def routes_def)
  then show ?thesis using assms(2) routes_token[OF h(2,3)] by (simp add: serve_path_def)
qed

lemma learn_rejected:
  assumes "status \<noteq> 200"
  shows "same_stores m (learn_reply out remote path body status reply m) \<and>
         notice_only (mac_session m) (mac_session (learn_reply out remote path body status reply m))"
  using assms by (simp add: learn_reply_def same_stores_def on_session_def notice_steps split: option.split)

text \<open>
  C5. A request without the pair token changes nothing on the Mac but what its screen says
  about refused contacts: no store, no pairing state, no file, whatever the path, the body and
  the address it comes from.
\<close>

theorem unauthenticated_inert:
  assumes "bearerToken r \<noteq> sv_token srv"
  shows "case WrapHandler srv out remote path r m of
           (rep, m') \<Rightarrow> same_stores m m' \<and> notice_only (mac_session m) (mac_session m')"
proof (cases "path \<notin> set learn_paths \<or> rq_Method r \<noteq> ''POST'' \<or> rq_BodyFails r")
  case True
  then show ?thesis by (auto simp: WrapHandler_def Let_def same_stores_def notice_steps)
next
  case False
  let ?r = "r\<lparr>rq_Body := take MaxBodyBytes (rq_Body r)\<rparr>"
  have "rp_Status (serve_path path srv (out_now out div second) ?r) \<noteq> 200"
    using learn_path_token[of path srv "out_now out div second" ?r] False assms by auto
  then show ?thesis using False learn_rejected by (simp add: WrapHandler_def Let_def)
qed

definition outside_now :: outside where
  "outside_now = \<lparr>out_now = 0, out_deviceSaved = True, out_settingsSaved = True, out_nonce = ''n'',
     out_staging = ''/s'', out_fault = NoFault\<rparr>"

definition new_mac :: Mac where
  "new_mac = \<lparr>mac_session = empty_session, mac_settings = NewInMemorySettingsStore 0,
     mac_settingsFile = None, mac_notifs = NewNotifStore, mac_clips = NewClipStore, mac_hub = [],
     mac_playback = NewPlaybackStore, mac_dnd = NewDNDStore, mac_contacts = new_contacts [] [] [],
     mac_messages = new_messages [], mac_files = empty_files\<rparr>"

theorem unauthenticated_inert_witness:
  "same_stores new_mac (snd (WrapHandler demo_server outside_now ''192.168.1.5:9'' ''/unpair''
     \<lparr>rq_Method = ''POST'', rq_Auth = ''Bearer guess'', rq_QueryToken = [], rq_Body = ''{}'',
      rq_BodyFails = False\<rparr> new_mac))"
  using unauthenticated_inert[where r = "\<lparr>rq_Method = ''POST'', rq_Auth = ''Bearer guess'', rq_QueryToken = [],
      rq_Body = ''{}'', rq_BodyFails = False\<rparr>" and srv = demo_server and out = outside_now
      and remote = "''192.168.1.5:9''" and path = "''/unpair''" and m = new_mac]
  by (simp add: bearerToken_def demo_server_def go_eval case_prod_beta ascii_def)

section \<open>The invariants together\<close>

definition mac_ok :: "Mac \<Rightarrow> bool" where
  "mac_ok m \<longleftrightarrow>
     session_ok (mac_session m) \<and> settings_ok (st_cur (mac_settings m)) \<and> notifs_ok (mac_notifs m) \<and>
     seen_inv (mac_clips m) \<and> contacts_ok (mac_contacts m) \<and> messages_ok (mac_messages m) \<and>
     files_ok (mac_files m)"

text \<open>What a body may not exhaust: the 64-bit counters; and the phone names itself in ASCII.\<close>

definition body_fits :: "string \<Rightarrow> Mac \<Rightarrow> bool" where
  "body_fits body m \<longleftrightarrow>
     ms_gen (mac_messages m) < 9223372036854775807 \<and> ct_gen (mac_contacts m) < 9223372036854775807 \<and>
     av_seq (ct_avatars (mac_contacts m)) < 9223372036854775807 \<and>
     (\<forall>env p. unmarshal_into (dec_struct Envelope_fields) body zero_Envelope = Some env \<longrightarrow>
        payload_as ContactsListRespPayload_fields zero_ContactsListRespPayload env = Some p \<longrightarrow>
        av_seq (ct_avatars (mac_contacts m)) + int (length (cls_Entries p)) < 9223372036854775807) \<and>
     (\<forall>p. ParseSettingsSync body = Some p \<longrightarrow> ascii (ss_UpdatedBy p))"

lemma clip_seen: "seen_inv s \<Longrightarrow> seen_inv (fst (ingestClip mode p s))"
  by (simp add: ingestClip_def apply_remote_seen_inv)

lemma clip_chunk_seen:
  "seen_inv s \<Longrightarrow> ingestClipChunk now mode fresh c h s = (h', s', w) \<Longrightarrow> seen_inv s'"
  unfolding ingestClipChunk_def Let_def
  by (auto split: prod.splits option.splits) (metis clip_seen fst_conv)

lemma contacts_lane_ok:
  assumes "contacts_ok (mac_contacts m)" "body_fits body m"
  shows "contacts_ok (ingestContactsBody body (mac_contacts m))"
proof (cases "unmarshal_into (dec_struct Envelope_fields) body zero_Envelope")
  case (Some env)
  have s: "contact_step s s' \<Longrightarrow> contacts_ok s \<Longrightarrow> contacts_ok s'" for s s' using contact_step_ok by blast
  have fits: "payload_as ContactsListRespPayload_fields zero_ContactsListRespPayload env = Some p \<Longrightarrow>
      av_seq (ct_avatars (mac_contacts m)) + int (length (cls_Entries p)) < 9223372036854775807" for p
    using assms(2) Some unfolding body_fits_def by blast
  have counters: "av_seq (ct_avatars (mac_contacts m)) < 9223372036854775807"
    "ct_gen (mac_contacts m) < 9223372036854775807"
    using assms(2) unfolding body_fits_def by blast+
  show ?thesis
    unfolding ingestContactsBody_def Some option.case ingestContacts_def Let_def
    using assms(1) counters
    by (auto intro!: s[OF contact_step.intros(7)[OF fits]] s[OF contact_step.intros(8)]
        s[OF contact_step.intros(9)] s[OF contact_step.intros(10)] split: option.split)
qed (simp add: ingestContactsBody_def assms(1))

lemma messages_lane_ok:
  assumes "messages_ok (mac_messages m)" "body_fits body m"
  shows "messages_ok (ingestMessagesBody cs body (mac_messages m))"
proof (cases "unmarshal_into (dec_struct Envelope_fields) body zero_Envelope")
  case (Some env)
  have s: "message_step s s' \<Longrightarrow> messages_ok s \<Longrightarrow> messages_ok s'" for s s' using step_ok by blast
  have counter: "ms_gen (mac_messages m) < 9223372036854775807" using assms(2) unfolding body_fits_def by blast
  show ?thesis
    unfolding ingestMessagesBody_def Some option.case ingestMessages_def Let_def
    using assms(1) counter
    by (auto intro!: s[OF message_step.intros(10)] s[OF message_step.intros(11)]
        s[OF message_step.intros(12)] s[OF message_step.intros(13)] s[OF message_step.intros(14)]
        s[OF message_step.intros(15)] split: option.split)
qed (simp add: ingestMessagesBody_def assms(1))

section \<open>The steps of the Mac\<close>

lemma ping_ok:
  assumes "session_ok s" "trim_space (SplitRemoteHost remote) \<noteq> []"
  shows "session_ok (case ParsePeerPingFull body of
           Some (port, fp) \<Rightarrow> setPeerWithFacts now ok (SplitRemoteHost remote) port fp (ParsePeerDevice body) s
         | None \<Rightarrow> mergeFacts now ok (ParsePeerDevice body) s)"
proof (cases "ParsePeerPingFull body")
  case (Some pf)
  obtain port fp where pf: "pf = (port, fp)" by (cases pf)
  have "port_ok port"
    using Some pf by (auto simp: ParsePeerPingFull_def port_ok_def split: option.splits if_splits)
  then show ?thesis using Some pf session_ok_setPeer[OF assms] by simp
qed (use session_ok_merge[OF assms(1)] in simp)

lemma notif_lane_ok: "mac_ok m \<Longrightarrow> mac_ok (ingestNotifBody out body m)"
  using post_ok notif_step_ok[OF notif_step.remote_dismiss]
  by (simp add: ingestNotifBody_def mac_ok_def Let_def split: option.split)

lemma clip_lanes_ok:
  "mac_ok m \<Longrightarrow> mac_ok (ingestClipBody body m)"
  "mac_ok m \<Longrightarrow> mac_ok (ingestClipManifestBody out body m)"
  "mac_ok m \<Longrightarrow> mac_ok (ingestClipChunkBody out body m)"
  "mac_ok m \<Longrightarrow> mac_ok (ingestClipRouted out body m)"
proof -
  show 1: "mac_ok (ingestClipBody body m)" if "mac_ok m"
    using that by (simp add: ingestClipBody_def mac_ok_def clip_seen split: option.split)
  show 2: "mac_ok (ingestClipManifestBody out body m)" if "mac_ok m"
    using that by (simp add: ingestClipManifestBody_def mac_ok_def split: option.split)
  show 3: "mac_ok (ingestClipChunkBody out body m)" if "mac_ok m"
    using that clip_chunk_seen by (fastforce simp: ingestClipChunkBody_def mac_ok_def split: option.split prod.split)
  show "mac_ok (ingestClipRouted out body m)" if "mac_ok m"
    using that 1 2 3 by (simp add: ingestClipRouted_def split: option.split)
qed

lemma settings_lane_ok:
  assumes "mac_ok m" "body_fits body m"
  shows "mac_ok (ingestSettingsBody out body m)"
proof (cases "ParseSettingsSync body")
  case (Some p)
  have "ascii (ss_UpdatedBy p)" using assms(2) Some unfolding body_fits_def by blast
  then have "settings_step (mac_settings m) (fst (SettingsStore_ApplyRemote p (mac_settings m)))"
    by (rule settings_step.intros)
  then have "settings_ok (st_cur (fst (SettingsStore_ApplyRemote p (mac_settings m))))"
    using settings_step_ok assms(1) by (simp add: mac_ok_def)
  then show ?thesis
    using assms(1) Some
    by (cases "SettingsStore_ApplyRemote p (mac_settings m)") (simp add: ingestSettingsBody_def mac_ok_def)
qed (simp add: ingestSettingsBody_def assms(1))

lemma plain_lanes_ok:
  "mac_ok m \<Longrightarrow> mac_ok (ingestPlaybackBody body m)" "mac_ok m \<Longrightarrow> mac_ok (ingestDNDBody body m)"
  by (simp_all add: ingestPlaybackBody_def ingestDNDBody_def mac_ok_def Let_def split: option.split sum.split)

lemma session_event_ok: "session_step (mac_session m) (f (mac_session m)) \<Longrightarrow> mac_ok m \<Longrightarrow> mac_ok (on_session f m)"
  using session_ok_step by (simp add: on_session_def mac_ok_def)

lemma ping_lane_ok:
  "mac_ok m \<Longrightarrow> trim_space (SplitRemoteHost remote) \<noteq> [] \<Longrightarrow> mac_ok (ingestPingBody out remote body m)"
  using ping_ok[where s = "mac_session m" and remote = remote and body = body] by (simp add: ingestPingBody_def mac_ok_def)

lemma lanes_ok:
  "mac_ok m \<Longrightarrow> body_fits body m \<Longrightarrow> mac_ok (ingestContactsLane body m)"
  "mac_ok m \<Longrightarrow> body_fits body m \<Longrightarrow> mac_ok (ingestMessagesLane body m)"
  using contacts_lane_ok messages_lane_ok
  by (simp_all add: ingestContactsLane_def ingestMessagesLane_def mac_ok_def)

lemma files_lane_ok: "mac_ok m \<Longrightarrow> mac_ok (ingestFilesLane out body m)"
  using session_ok_step[OF session_step.intros(4)] files_ok_body
  by (simp add: ingestFilesLane_def learn_from_def on_session_def mac_ok_def Let_def split: option.split)

lemma accept_ok: "mac_ok m \<Longrightarrow> mac_ok (on_session (recordAccept now) m)"
  by (rule session_event_ok) (rule session_step.intros)

lemma unpair_ok: "mac_ok m \<Longrightarrow> mac_ok (on_session (ingestUnpair ok) m)"
  by (rule session_event_ok) (rule session_step.intros)

lemma fits_session [simp]: "body_fits body (on_session f m) = body_fits body m"
  by (simp add: body_fits_def on_session_def)

lemma path_ok:
  assumes "mac_ok m" "body_fits body m" "trim_space (SplitRemoteHost remote) \<noteq> []"
  shows "mac_ok (ingest_path out remote path body m)"
  unfolding ingest_path_def
  using assms ping_lane_ok notif_lane_ok clip_lanes_ok(4) settings_lane_ok plain_lanes_ok unpair_ok lanes_ok files_lane_ok
  by (simp split del: if_split split: if_split)

lemma type_ok:
  assumes "mac_ok m" "body_fits body m" "trim_space (SplitRemoteHost remote) \<noteq> []"
  shows "mac_ok (ingest_type out remote t body m)"
  unfolding ingest_type_def
  using assms ping_lane_ok[OF accept_ok] notif_lane_ok clip_lanes_ok settings_lane_ok plain_lanes_ok unpair_ok lanes_ok files_lane_ok
  by (simp split del: if_split split: if_split)

lemma disconnect_ok: "mac_ok m \<Longrightarrow> mac_ok (mac_OnWSDisconnect conn m)"
proof -
  assume m: "mac_ok m"
  have "session_ok (OnWSDisconnect conn (mac_session m))"
    using session_ok_step[OF session_step.intros(13)] m by (simp add: mac_ok_def)
  moreover have "contacts_ok (snd (failPendingDeleteReqs e (snd (failPendingAvatarReqs e
      (snd (failPendingContactsLists e (mac_contacts m)))))))" for e
    using contact_step_ok[OF contact_step.intros(13)] contact_step_ok[OF contact_step.intros(14)]
      contact_step_ok[OF contact_step.intros(15)] m by (simp add: mac_ok_def)
  moreover have "messages_ok (snd (failPendingSMSRequests e (mac_messages m)))" for e
    using step_ok[OF message_step.intros(16)] m by (simp add: mac_ok_def)
  ultimately show ?thesis using m by (simp add: mac_OnWSDisconnect_def mac_ok_def)
qed

lemma write_ok: "mac_ok m \<Longrightarrow> mac_ok (snd (WriteActiveWS ok m))"
  by (simp add: WriteActiveWS_def disconnect_ok split: option.split)

lemma write_keeps [simp]:
  "mac_settings (snd (WriteActiveWS ok m)) = mac_settings m" "mac_clips (snd (WriteActiveWS ok m)) = mac_clips m"
  "mac_notifs (snd (WriteActiveWS ok m)) = mac_notifs m"
  by (simp_all add: WriteActiveWS_def mac_OnWSDisconnect_def Let_def split: option.split)

lemma flush_settings_ok:
  assumes "mac_ok m"
  shows "mac_ok (flush_settings ok m)"
proof -
  let ?s = "fst (SettingsStore_TakePending (mac_settings m))"
  have "settings_ok (st_cur ?s)" using assms by (simp add: SettingsStore_TakePending_def mac_ok_def)
  then have "mac_ok (m\<lparr>mac_settings := ?s\<rparr>)" using assms by (simp add: mac_ok_def)
  then have "mac_ok (snd (WriteActiveWS ok (m\<lparr>mac_settings := ?s\<rparr>)))" by (rule write_ok)
  then show ?thesis
    using assms by (auto simp: flush_settings_def split_def mac_ok_def requeueSettings_def split: option.split)
qed

lemma take_clip_seen: "seen_inv s \<Longrightarrow> seen_inv (fst (ClipStore_TakePending s))"
  by (simp add: ClipStore_TakePending_def Let_def seen_inv_def)

lemma requeue_clip_seen [simp]: "seen_inv (requeueClip s) = seen_inv s"
  by (simp add: requeueClip_def seen_inv_def)

lemma flush_clip_ok:
  assumes "mac_ok m"
  shows "mac_ok (flush_clip nonce ok m)"
proof -
  let ?m = "m\<lparr>mac_clips := fst (ClipStore_TakePending (mac_clips m))\<rparr>"
  have "mac_ok ?m" using assms take_clip_seen by (simp add: mac_ok_def)
  moreover have "mac_ok (snd (WriteActiveWS ok ?m))" using \<open>mac_ok ?m\<close> by (rule write_ok)
  moreover have "mac_ok (m'\<lparr>mac_clips := requeueClip (mac_clips m')\<rparr>) = mac_ok m'" for m'
    by (simp add: mac_ok_def)
  ultimately show ?thesis
    using assms by (simp add: flush_clip_def split_def split: option.split)
qed

lemma flush_dismissals_ok: "mac_ok m \<Longrightarrow> mac_ok (flush_dismissals ok is m)"
proof (induction "is" arbitrary: m)
  case (Cons i "is")
  have "mac_ok (snd (WriteActiveWS (ok i) m))" using Cons.prems by (rule write_ok)
  moreover have "notifs_ok (fst (NotifStore_Dismiss i (mac_notifs m)))"
    using notif_step_ok[OF notif_step.dismiss] Cons.prems by (simp add: mac_ok_def)
  ultimately have "mac_ok (snd (WriteActiveWS (ok i) m)
      \<lparr>mac_notifs := fst (NotifStore_Dismiss i (mac_notifs m))\<rparr>)" by (simp add: mac_ok_def)
  then show ?case using \<open>mac_ok (snd (WriteActiveWS (ok i) m))\<close> Cons.IH by (simp add: split_def)
qed simp

lemma flush_ok: "mac_ok m \<Longrightarrow> mac_ok (flushPendingToPhone out a b d m)"
proof -
  assume "mac_ok m"
  then have m: "mac_ok (flush_clip (out_nonce out) b (flush_settings a m))"
    using flush_settings_ok flush_clip_ok by blast
  then have "mac_ok (flush_clip (out_nonce out) b (flush_settings a m)
      \<lparr>mac_notifs := fst (TakePendingDismissals (mac_notifs (flush_clip (out_nonce out) b (flush_settings a m))))\<rparr>)"
    using notif_step_ok[OF notif_step.take] by (simp add: mac_ok_def)
  then show ?thesis
    using \<open>mac_ok m\<close> by (simp add: flushPendingToPhone_def Let_def split_def flush_dismissals_ok)
qed

lemma flush_counters [simp]:
  "ms_gen (mac_messages (snd (WriteActiveWS ok m))) = ms_gen (mac_messages m)"
  "ct_gen (mac_contacts (snd (WriteActiveWS ok m))) = ct_gen (mac_contacts m)"
  by (simp_all add: WriteActiveWS_def mac_OnWSDisconnect_def Let_def failPendingDeleteReqs_def
      failPendingAvatarReqs_def failPendingContactsLists_def failPendingSMSRequests_def split: option.split)

lemma flush_gens [simp]:
  "ms_gen (mac_messages (flush_settings ok m)) = ms_gen (mac_messages m)"
  "ct_gen (mac_contacts (flush_settings ok m)) = ct_gen (mac_contacts m)"
  "ms_gen (mac_messages (flush_clip nonce ok m)) = ms_gen (mac_messages m)"
  "ct_gen (mac_contacts (flush_clip nonce ok m)) = ct_gen (mac_contacts m)"
  by (simp_all add: flush_settings_def flush_clip_def split_def split: option.split)

lemma flush_dismissals_gens [simp]:
  "ms_gen (mac_messages (flush_dismissals ok' is m)) = ms_gen (mac_messages m) \<and>
   ct_gen (mac_contacts (flush_dismissals ok' is m)) = ct_gen (mac_contacts m)"
  by (induction "is" arbitrary: m) (simp_all add: split_def)

lemma flush_all_gens [simp]:
  "ms_gen (mac_messages (flushPendingToPhone out a b d m)) = ms_gen (mac_messages m)"
  "ct_gen (mac_contacts (flushPendingToPhone out a b d m)) = ct_gen (mac_contacts m)"
  by (simp_all add: flushPendingToPhone_def Let_def split_def)

lemma connect_ok:
  assumes "mac_ok m" "ms_gen (mac_messages m) < 9223372036854775807" "ct_gen (mac_contacts m) < 9223372036854775807"
  shows "mac_ok (mac_OnWSConnect out a b d conn remote m)"
proof -
  let ?m = "flushPendingToPhone out a b d (on_session (OnWSConnect (out_now out) conn (SplitRemoteHost remote)) m)"
  have m: "mac_ok ?m" by (intro flush_ok session_event_ok session_step.intros assms(1))
  have g: "ms_gen (mac_messages ?m) < 9223372036854775807" "ct_gen (mac_contacts ?m) < 9223372036854775807"
    using assms(2,3) by (simp_all add: on_session_def)
  have "contacts_ok (reconnect_contacts (mac_contacts ?m))"
    using contact_step_ok[OF contact_step.intros(11)] m g(2) by (simp add: mac_ok_def)
  moreover have "reconnect_messages = ingestSMSChanged"
    by (simp add: fun_eq_iff reconnect_messages_def ingestSMSChanged_def)
  then have "messages_ok (reconnect_messages (mac_messages ?m))"
    using step_ok[OF message_step.intros(15)] m g(1) by (simp add: mac_ok_def)
  ultimately show ?thesis using m by (simp add: mac_OnWSConnect_def Let_def mac_ok_def)
qed

text \<open>Everything the phone and the network can do to the Mac.\<close>

inductive mac_step :: "Mac \<Rightarrow> Mac \<Rightarrow> bool" where
  request: "body_fits (take MaxBodyBytes (rq_Body r)) m \<Longrightarrow> trim_space (SplitRemoteHost remote) \<noteq> [] \<Longrightarrow>
     mac_step m (snd (WrapHandler srv out remote path r m))"
| frame: "body_fits (json_text (Envelope_json env)) m \<Longrightarrow> trim_space (SplitRemoteHost remote) \<noteq> [] \<Longrightarrow>
     mac_step m (mac_OnWSEnvelope out remote env m)"
| connect: "ms_gen (mac_messages m) < 9223372036854775807 \<Longrightarrow> ct_gen (mac_contacts m) < 9223372036854775807 \<Longrightarrow>
     mac_step m (mac_OnWSConnect out a b d conn remote m)"
| disconnect: "mac_step m (mac_OnWSDisconnect conn m)"
| network_down: "mac_step m (mac_NotifyLocalNetworkDown m)"
| forget: "mac_ForgetLastDevice out m = Some m' \<Longrightarrow> mac_step m m'"

lemma mac_step_ok: "mac_step m m' \<Longrightarrow> mac_ok m \<Longrightarrow> mac_ok m'"
proof (induction rule: mac_step.induct)
  case (request r m remote srv out path)
  have "mac_ok (learn_reply out remote path (take MaxBodyBytes (rq_Body r)) status reply m)" for status reply
  proof -
    have s: "mac_ok (on_session (recordReject now k) m)" "mac_ok (on_session (setUpdateDetail a b c d e) m')"
      if "mac_ok m'" for now k a b c d e m'
      by (rule session_event_ok, rule session_step.intros, fact)+
    have "mac_ok (on_session (setUpdateDetail a b c d e \<circ> recordReject now k) m)" for a b c d e now k
      using s(2)[OF s(1)[OF request(3)], of a b c d e now k] by (simp add: on_session_def)
    then show ?thesis
      using path_ok[OF accept_ok[OF request(3)]] request(1,2) s(1)[OF request(3)] request(3)
      by (simp add: learn_reply_def split: option.split)
  qed
  then show ?case using request(3) by (simp add: WrapHandler_def Let_def)
next
  case (frame env m remote out)
  have "mac_ok (on_session (learnPeer n ok p b v c \<circ> (\<lambda>s. s\<lparr>se_lastSeen := t\<rparr>)) m)" for n ok p b v c t
  proof -
    have "session_ok ((mac_session m)\<lparr>se_lastSeen := t\<rparr>)" using frame(3) by (simp add: mac_ok_def)
    then show ?thesis
      using session_ok_step[OF session_step.intros(4)] frame(3) by (simp add: on_session_def mac_ok_def)
  qed
  then show ?case using type_ok frame(1,2) by (simp add: mac_OnWSEnvelope_def learn_from_def Let_def)
next
  case (connect m out a b d conn remote)
  then show ?case using connect_ok by blast
next
  case (disconnect m conn)
  then show ?case by (rule disconnect_ok)
next
  case (network_down m)
  then show ?case
    using disconnect_ok session_event_ok[where f = NotifyLocalNetworkDown, OF session_step.intros(14)]
    by (simp add: mac_NotifyLocalNetworkDown_def split: option.split)
next
  case (forget out m m')
  obtain s where s: "ForgetLastDevice (out_deviceSaved out) (mac_session m) = Some s"
    using forget(1) by (auto simp: mac_ForgetLastDevice_def split: option.splits)
  have "session_ok s" using session_ok_step[OF session_step.intros(17)[OF s]] forget(2) by (simp add: mac_ok_def)
  moreover have "contacts_ok (forget_contacts (mac_contacts m))"
    using contact_step_ok[OF contact_step.intros(12)] forget(2) by (simp add: mac_ok_def)
  moreover have "messages_ok (forget_messages (mac_messages m))"
    using forget(2) by (simp add: mac_ok_def messages_ok_def forget_messages_def)
  ultimately show ?case
    using forget s by (auto simp: mac_ForgetLastDevice_def mac_ok_def split: if_splits)
qed


lemma mac_ok_new: "mac_ok new_mac"
proof -
  have "settings_ok (st_cur (NewInMemorySettingsStore 0))"
    by (simp add: NewInMemorySettingsStore_def settings_ok_default)
  then show ?thesis
    using notifs_ok_new seen_inv_new files_ok_empty contacts_ok_new[of "[]" "[]" "[]"] messages_ok_new[of "[]"]
    by (simp add: mac_ok_def new_mac_def)
qed


section \<open>What waited for the phone\<close>

lemma write_sent [simp]: "fst (WriteActiveWS ok m) \<longleftrightarrow> se_activeWS (mac_session m) \<noteq> None \<and> ok"
  by (simp add: WriteActiveWS_def split: option.split)

lemma write_keeps_socket:
  "ok \<Longrightarrow> snd (WriteActiveWS ok m) = m"
  "\<not> ok \<Longrightarrow> se_activeWS (mac_session (snd (WriteActiveWS ok m))) = None"
  by (simp_all add: WriteActiveWS_def mac_OnWSDisconnect_def OnWSDisconnect_def Let_def split: option.split)

lemma dismissals_from:
  "list_all (\<lambda>i. SanitizeNotifID i = Some i) is \<Longrightarrow> length (ns_pendingDismiss (mac_notifs m)) + length is \<le> 50 \<Longrightarrow>
   ns_pendingDismiss (mac_notifs (flush_dismissals ok is m)) =
     ns_pendingDismiss (mac_notifs m) @
     (if se_activeWS (mac_session m) = None then is else dropWhile ok is)"
proof (induction "is" arbitrary: m)
  case (Cons i "is")
  let ?w = "snd (WriteActiveWS (ok i) m)"
  let ?m = "?w\<lparr>mac_notifs := fst (NotifStore_Dismiss i (mac_notifs m))\<rparr>"
  have d: "ns_pendingDismiss (fst (NotifStore_Dismiss i (mac_notifs m))) = ns_pendingDismiss (mac_notifs m) @ [i]"
    using Cons.prems by (simp add: NotifStore_Dismiss_def Let_def maxPendingDismiss_def)
  have later: "ns_pendingDismiss (mac_notifs (flush_dismissals ok is ?m)) =
      ns_pendingDismiss (mac_notifs m) @ i #
        (if se_activeWS (mac_session ?w) = None then is else dropWhile ok is)"
    using Cons.IH[of ?m] Cons.prems d by simp
  show ?case
  proof (cases "ok i")
    case True
    then show ?thesis
      using Cons later write_keeps_socket(1)[of "ok i" m]
      by (cases "se_activeWS (mac_session m)") (simp_all add: split_def)
  next
    case False
    then show ?thesis using later write_keeps_socket(2)[of "ok i" m] by (simp add: split_def)
  qed
qed simp

lemma flush_settings_pending:
  "st_pending (mac_settings (flush_settings ok m)) =
     (st_pending (mac_settings m) \<and> \<not> (se_activeWS (mac_session m) \<noteq> None \<and> ok))"
  "mac_notifs (flush_settings ok m) = mac_notifs m" "mac_clips (flush_settings ok m) = mac_clips m"
  by (simp_all add: flush_settings_def SettingsStore_TakePending_def split_def requeueSettings_def)

lemma flush_clip_pending:
  assumes "nonce \<noteq> []" "c_has (mac_clips m)"
  shows "c_pending (mac_clips (flush_clip nonce ok m)) =
     (c_pending (mac_clips m) \<and> \<not> (se_activeWS (mac_session m) \<noteq> None \<and> ok))"
  using assms
  by (simp add: flush_clip_def ClipStore_TakePending_def Let_def split_def requeueClip_def)

lemma flush_settings_socket:
  "se_activeWS (mac_session (flush_settings ok m)) =
     (if st_pending (mac_settings m) \<and> \<not> ok then None else se_activeWS (mac_session m))"
  by (simp add: flush_settings_def SettingsStore_TakePending_def split_def write_keeps_socket)

lemma flush_clip_keeps:
  "mac_settings (flush_clip nonce ok m) = mac_settings m" "mac_notifs (flush_clip nonce ok m) = mac_notifs m"
  "ok \<Longrightarrow> se_activeWS (mac_session (flush_clip nonce ok m)) = se_activeWS (mac_session m)"
  "se_activeWS (mac_session m) = None \<Longrightarrow> se_activeWS (mac_session (flush_clip nonce ok m)) = None"
  by (simp_all add: flush_clip_def split_def WriteActiveWS_def mac_OnWSDisconnect_def OnWSDisconnect_def Let_def
      split: option.split)

lemma flush_dismissals_keeps:
  "mac_settings (flush_dismissals ok is m) = mac_settings m \<and> mac_clips (flush_dismissals ok is m) = mac_clips m"
  by (induction "is" arbitrary: m) (simp_all add: split_def)


definition waiting_mac :: Mac where
  "waiting_mac = new_mac\<lparr>mac_session := empty_session\<lparr>se_activeWS := Some 3\<rparr>,
     mac_settings := (NewInMemorySettingsStore 0)\<lparr>st_pending := True\<rparr>,
     mac_clips := NewClipStore\<lparr>c_has := True\<rparr>\<rparr>"


section \<open>Where the program does not do what it says\<close>



text \<open>When device.json cannot be deleted, the phone is forgotten but what it sent is not.\<close>

lemma forget_failure_keeps_caches:
  assumes "se_lastHost (mac_session m) \<noteq> []" "0 < se_lastPort (mac_session m)" "\<not> out_deviceSaved out"
  shows "\<exists>m'. mac_ForgetLastDevice out m = Some m' \<and> se_lastHost (mac_session m') = [] \<and>
           mac_contacts m' = mac_contacts m \<and> mac_messages m' = mac_messages m \<and> mac_dnd m' = mac_dnd m"
  using assms
  by (simp add: mac_ForgetLastDevice_def ForgetLastDevice_def drop_identity_def empty_session_def Let_def)

text \<open>The WebSocket lane takes a payload as it is: a page of the directory that its HTTP route
  answers with an error is adopted.\<close>

lemma ws_lane_unvalidated:
  assumes "envelope_ok env" "env_Type env = TypeContactsListResp" "env_Payload env = Some v"
    and "dec_struct ContactsListRespPayload_fields v zero_ContactsListRespPayload = Some p"
    and "\<not> SanitizeContactsListResp p"
  shows "\<not> validateFeaturePayload TypeContactsListResp (env_Payload env)"
    and "mac_contacts (mac_OnWSEnvelope out remote env m) = ingestListResp p (mac_contacts m)"
proof -
  have u: "unmarshal_into (dec_struct Envelope_fields) (json_text (Envelope_json env)) zero_Envelope = Some env"
    by (simp only: unmarshal_into_text[OF Envelope_json_printable[OF assms(1)]] dec_Envelope_json[OF assms(1)])
  show "\<not> validateFeaturePayload TypeContactsListResp (env_Payload env)"
    using assms(3-5)
    by (simp add: validateFeaturePayload_def type_consts validate_notif_def validate_clip_def validate_sync_def
        validate_file_def validate_photo_def validate_contact_def checked_def List.map_filter_simps)
  show "mac_contacts (mac_OnWSEnvelope out remote env m) = ingestListResp p (mac_contacts m)"
    using assms(2-4) u
    by (simp add: mac_OnWSEnvelope_def Let_def ingest_type_def type_consts notif_types_def contact_types_def
        file_types_def
        ingestContactsLane_def ingestContactsBody_def ingestContacts_def payload_as_def on_session_def)
qed

section \<open>The notice of an outdated peer\<close>

lemma dec_UpdateRequiredPayload:
  assumes "valid_utf8 (ur_Code p)" "valid_utf8 (ur_Message p)" "valid_utf8 (ur_RequiredVersion p)"
    "valid_utf8 (ur_CurrentVersion p)" "valid_utf8 (ur_Device p)" "int64 (ur_RequiredBuild p)"
    "int64 (ur_CurrentBuild p)"
  shows "dec_struct UpdateRequiredPayload_fields (UpdateRequiredPayload_json p) zero_UpdateRequiredPayload = Some p"
  using assms
  by (simp add: UpdateRequiredPayload_json_def UpdateRequiredPayload_fields_def field_for_exact dec_field_def
      zero_UpdateRequiredPayload_def omit_empty_def)

text \<open>
  C37. The Mac shows what it told the peer: after a request was refused because of its build,
  the update notice holds the message of the reply, the build and version it asks for, blames
  the Mac exactly when that build is above its own, and the refusal is stamped as one for an
  update, for an ASCII device name, a 64-bit build and a reply within the body limit.
\<close>

theorem update_notice_matches:
  assumes "valid_utf8 (sv_platform s)" "list_all valid_utf8 (sv_caps s)" "ascii device" "int64 build"
    and "length (json_text (Envelope_json (update_envelope s device build))) < MaxBodyBytes"
  shows "learn_reply out remote path body 426
           (take MaxBodyBytes (json_text (rp_Body (rejectUpdate s device build)) @ [CHR 0x0A])) m =
         on_session (\<lambda>se. setUpdateDetail (ur_Message (NewUpdateRequiredPayload device build))
             (CurrentBuild < build) (AppVersionForBuild build) CurrentAppVersion build
             (recordReject (out_now out) ''update'' se)) m"
proof -
  let ?p = "NewUpdateRequiredPayload device build" let ?e = "update_envelope s device build"
  have b: "rp_Body (rejectUpdate s device build) = Envelope_json ?e" by (simp add: rejectUpdate_def)
  have f: "ur_Code ?p = CodeUpdateRequired" "ur_RequiredBuild ?p = build" "ur_Message ?p \<noteq> []"
    "ur_RequiredVersion ?p = AppVersionForBuild build" "ur_CurrentVersion ?p = CurrentAppVersion"
    "ur_Device ?p = device" "ur_CurrentBuild ?p = CurrentBuild"
    by (simp_all add: NewUpdateRequiredPayload_def Let_def)
  have d: "dec_struct UpdateRequiredPayload_fields (UpdateRequiredPayload_json ?p) zero_UpdateRequiredPayload = Some ?p"
    using f assms(4) valid_utf8_of_ascii[OF assms(3)] valid_utf8_of_ascii[OF ascii_update_message[OF assms(3)], of build]
      valid_utf8_of_ascii[OF ascii_AppVersionForBuild]
    by (intro dec_UpdateRequiredPayload) (simp_all add: go_consts valid_utf8_ascii int64_def)
  have "unmarshal_into (dec_struct Envelope_fields)
      (take MaxBodyBytes (json_text (Envelope_json ?e) @ [CHR 0x0A])) zero_Envelope = Some ?e"
    by (rule read_printed_reply[OF update_envelope_ok[OF assms(1-4)] assms(5)])
  moreover have "env_Type ?e = TypeError" "env_Payload ?e = Some (UpdateRequiredPayload_json ?p)"
    by (simp_all add: update_envelope_def NewEnvelope_def)
  ultimately have "ParseUpdateDetail (take MaxBodyBytes (json_text (Envelope_json ?e) @ [CHR 0x0A])) =
      Some \<lparr>ud_Message = ur_Message ?p, ud_Self = (CurrentBuild < build),
        ud_RequiredVersion = AppVersionForBuild build, ud_CurrentVersion = CurrentAppVersion,
        ud_RequiredBuild = build\<rparr>"
    by (simp add: ParseUpdateDetail_def payload_as_def d f)
  then show ?thesis unfolding b by (simp add: learn_reply_def on_session_def comp_def)
qed

theorem update_notice_matches_witness:
  "se_lastUpdateMsg (mac_session (learn_reply outside_now ''10.0.0.2:4'' ''/clip'' ''{}'' 426
     (take MaxBodyBytes (json_text (rp_Body (rejectUpdate demo_server ''android'' 20)) @ [CHR 0x0A])) new_mac)) =
   ''Update FuseItAll on android to build >= 20''"
proof -
  have "learn_reply outside_now ''10.0.0.2:4'' ''/clip'' ''{}'' 426
      (take MaxBodyBytes (json_text (rp_Body (rejectUpdate demo_server ''android'' 20)) @ [CHR 0x0A])) new_mac =
    on_session (\<lambda>se. setUpdateDetail (ur_Message (NewUpdateRequiredPayload ''android'' 20))
      (CurrentBuild < 20) (AppVersionForBuild 20) CurrentAppVersion 20
      (recordReject (out_now outside_now) ''update'' se)) new_mac"
    by (intro update_notice_matches demo_update)
      (simp_all add: demo_server_def valid_utf8_ascii ascii_def int64_def)
  then show ?thesis by (simp add: on_session_def setUpdateDetail_def demo_update)
qed

end
