(* ===== verification/Spec2Isabelle.thy ===== *)
theory Spec2Isabelle
  imports Version_Gate Pairing Sync_Reliability File_Transfer Settings_Store Clip_Store Message_Types Playback Notif_Store Photos
    Peer_Session Mac_Gates
begin

text \<open>
  FuseItAll links a Mac and an Android phone over the local network: a QR code pairs them, a
  pinned TLS server on each side takes JSON envelopes over HTTP and a WebSocket, and features
  (files, photos, clipboard, notifications, settings, playback, contacts, text messages) ride
  on those envelopes. This library models the Go program: the protocol package
  \<open>src/packages/core\<close>, which both sides share, and the Mac's backend
  \<open>src/apps/mac/backend\<close>.

  \<^bold>\<open>The Go base\<close> (no component of the program, but what all of them use). \<open>Prelude\<close>: Go's
  64-bit arithmetic over \<^typ>\<open>int\<close> with wrap-around written out, and the collections of
  simplification rules. \<open>Go_Unicode\<close>, \<open>Go_Strings\<close>, \<open>Go_Text\<close>, \<open>Go_Paths\<close>, \<open>Go_Encoding\<close>,
  \<open>Go_Sha256\<close>: the standard library functions the program calls, over byte strings. \<open>Go_Json\<close>,
  \<open>Go_Json_Print\<close>, \<open>Go_Json_Decode\<close>: \<open>encoding/json\<close>, as a parser with fuel (the length of the
  input, which \<open>json_fuel_enough\<close> shows to be sufficient), a printer and the decoding of
  structs by field tables; \<open>json_reads_back\<close> is the round trip the others rest on. \<open>Go_Eval\<close>
  evaluates all that on ASCII.

  \<^bold>\<open>The wire.\<close> The \<open>_Wire\<close> theories hold one record per payload struct with its JSON fields, in
  the order of the Go files. \<open>Message_Types\<close>, \<open>Modes\<close>, \<open>Wire_Common\<close>: constants and small checks.

  \<^bold>\<open>The protocol package.\<close> \<open>Version_Gate\<close> (\<open>version.go\<close>, \<open>envelope.go\<close>): when a message passes.
  \<open>Pairing\<close> (\<open>pairing.go\<close>, \<open>identity.go\<close>): QR payloads, pairing codes, token comparison.
  \<open>Sync_Reliability\<close> (\<open>sync_reliability.go\<close>): the deduplication cache, an instance of the
  locale of seen-sets, and paging cursors. \<open>Files\<close>, \<open>Photos\<close>, \<open>Contacts\<close>, \<open>Messages\<close>,
  \<open>Notif_Filter\<close>, \<open>Clip_Content\<close>, \<open>Clip_Sync\<close>, \<open>Settings_Sync\<close>, \<open>Playback\<close>: the validators and
  pure functions of each feature. \<open>Discovery\<close> (\<open>discovery.go\<close>): beacons and candidate
  addresses. \<open>Feature_Payloads\<close>, \<open>Ping_Server\<close> (\<open>server.go\<close>, \<open>server_ws.go\<close>): the handlers with
  their gates, in the order the code tests them, and the WebSocket lane with its watchdog.
  \<open>Ping_Client\<close> (\<open>client.go\<close>): calls over a network that is a parameter of the model.

  \<^bold>\<open>The Mac's backend.\<close> Each store is a record and one function per method. \<open>File_Transfer\<close>
  (\<open>files.go\<close>): the sender's chunks and the receiver's state machine, with the disk as a map
  from paths to contents and a flag per write for I/O failures. \<open>Settings_Store\<close>, \<open>Clip_Hub\<close>,
  \<open>Clip_Store\<close>, \<open>Notif_Store\<close>, \<open>Playback\<close>: the stores of settings, chunked and plain clipboard,
  notifications and playback. \<open>Device_File\<close> (\<open>persist.go\<close>) and \<open>Peer_Session\<close> (\<open>service.go\<close> and
  its companions): the remembered phone on disk and what the Mac knows of the phone.
  \<open>Waiters\<close>: the pending requests of the feature lanes, channels of capacity one filed under an
  id, with the generation that lets a page of an older request be dropped. \<open>Message_Threads\<close>,
  \<open>Message_Sync\<close> (\<open>messages.go\<close>): thread lists, pages, read marks and pushes of text messages.
  \<open>Contact_Lookup\<close> (\<open>contact_lookup.go\<close>), \<open>Avatar_Cache\<close>, \<open>Contact_Store\<close>, \<open>Contact_Sync\<close>
  (\<open>contacts.go\<close>): the directory, the photo cache with its least-recently-used order, deletion,
  and who a number belongs to.

  \<^bold>\<open>Composition.\<close> \<open>Mac_Ingest\<close> puts the stores of session, settings, messages, contacts and
  clipboard into one record and routes what arrives to them: the HTTP wrapper, which learns the
  peer's address only from a request that was answered, the WebSocket envelope switch, connect and
  disconnect with the requests they fail, the flush of pending changes, and forgetting a phone.
  \<open>Mac_Gates\<close> states what holds of the whole: a request without the token changes no store, every
  step (\<open>mac_step\<close>) keeps every store's invariant, a flush loses nothing.

  \<^bold>\<open>What is shown.\<close> Safety of the gates: which requests are accepted, what a request without the
  token can learn, what a rotated token revokes, which paths stay in the sandbox. Integrity: a
  finished download has the declared bytes, a chunked upload and a chunked clipboard image
  arrive as they were, a push takes effect once. Invariants by rule induction over the
  operations of a store (\<open>settings_step\<close>, \<open>clip_step\<close>, \<open>notif_step\<close>, \<open>session_step\<close>,
  \<open>message_step\<close>, \<open>contact_step\<close>, \<open>avatar_step\<close>), and of their composition (\<open>mac_step\<close>). Refinement
  of last-writer-wins registers (\<open>Last_Writer\<close>), whose locale is interpreted on settings and
  playback, and of the
  photo cache by a list in order of use. Round trips of everything that is printed and parsed. Liveness: a ping is answered, presence
  lasts its window, the watchdog closes a dead socket, the keep-both loop ends. Where the
  program does not do what it says, a theorem shows what it does instead.

  \<^bold>\<open>Conventions.\<close> Errors are values of sum and option types. Locks are not modelled: a method is
  one step. Time is an argument, in the unit the code compares. Random bytes, the network and
  the success of a write are arguments. Log lines and UI events are left out, as is demo mode.

  \<^bold>\<open>Not modelled.\<close> Key generation, TLS and AES (the Go library does the work), SQLite (a
  third-party driver runs the statements), the macOS pasteboard, notification centre and media
  remote (C calls), goroutines and timers around modelled steps, the window code and the C
  bridge of the phone application. The lanes of files, photos, notifications and
  playback are modelled alone and not in the composition; the photo library's caches, resumed
  transfers and conflict choices, and automatic synchronisation are left out.
\<close>

end
